(* ===== verification/SH_Prelude.thy ===== *)
theory SH_Prelude
  imports Complex_Main
begin

text \<open>
  The shared base of the development.

  A database transaction (\<open>prisma.$transaction(async (tx) => ...)\<close> under src/src/services) is a
  function from the database state to either an error or a result with the new state. An error
  carries no state: the transaction is rolled back. The transaction-scoped advisory locks of the
  code serialise the transactions that touch the same rows, so one transaction is one atomic step
  here; an operation of several transactions is modelled as several steps.

  A table is a list of rows with a key. The lemmas on keyed lists and the two lemma collections
  below carry the proofs of the components: \<open>tx_iff\<close> decomposes a successful run into its parts,
  \<open>tx_pres\<close> proves that a transaction keeps a property from the parts that keep it.
\<close>

named_theorems tx_iff \<open>a successful run of a composed transaction, decomposed\<close>
named_theorems tx_pres \<open>rules by which a transaction keeps a property of the state\<close>

subsection \<open>Errors and transactions\<close>

text \<open>
  \<open>Http s c\<close> is an Error object with \<open>status = s\<close>; \<open>c\<close> is its machine readable \<open>code\<close> where the
  source sets one, and its message otherwise. \<open>Uncoded\<close> is an Error without a status.
\<close>

datatype error = Http nat string | Uncoded string

type_synonym ('s, 'a) tx = "'s \<Rightarrow> error + 'a \<times> 's"

definition ret :: "'a \<Rightarrow> ('s, 'a) tx" where
  "ret x = (\<lambda>s. Inr (x, s))"

definition fail :: "error \<Rightarrow> ('s, 'a) tx" where
  "fail e = (\<lambda>s. Inl e)"

definition tx_bind :: "('s, 'a) tx \<Rightarrow> ('a \<Rightarrow> ('s, 'b) tx) \<Rightarrow> ('s, 'b) tx" where
  "tx_bind m f = (\<lambda>s. case m s of Inl e \<Rightarrow> Inl e | Inr (x, s') \<Rightarrow> f x s')"

definition tx_seq :: "('s, 'a) tx \<Rightarrow> ('s, 'b) tx \<Rightarrow> ('s, 'b) tx" where
  "tx_seq m n = tx_bind m (\<lambda>_. n)"

definition query :: "('s \<Rightarrow> 'a) \<Rightarrow> ('s, 'a) tx" where
  "query f = (\<lambda>s. Inr (f s, s))"

definition modify :: "('s \<Rightarrow> 's) \<Rightarrow> ('s, unit) tx" where
  "modify f = (\<lambda>s. Inr ((), f s))"

text \<open>\<open>if (!c) throw e\<close>, and the throw on a missing row.\<close>

definition ensure :: "bool \<Rightarrow> error \<Rightarrow> ('s, unit) tx" where
  "ensure c e = (if c then ret () else fail e)"

definition expect :: "error \<Rightarrow> 'a option \<Rightarrow> ('s, 'a) tx" where
  "expect e v = (case v of None \<Rightarrow> fail e | Some x \<Rightarrow> ret x)"

text \<open>A pure check that may throw, run inside a transaction.\<close>

definition lift_sum :: "error + 'a \<Rightarrow> ('s, 'a) tx" where
  "lift_sum r = (case r of Inl e \<Rightarrow> fail e | Inr x \<Rightarrow> ret x)"

definition when_tx :: "bool \<Rightarrow> ('s, unit) tx \<Rightarrow> ('s, unit) tx" where
  "when_tx c m = (if c then m else ret ())"

fun for_each :: "('a \<Rightarrow> ('s, unit) tx) \<Rightarrow> 'a list \<Rightarrow> ('s, unit) tx" where
  "for_each f [] = ret ()"
| "for_each f (x # xs) = tx_seq (f x) (for_each f xs)"

text \<open>A transaction as seen from outside: an error leaves the state as it was.\<close>

definition committed :: "('s, 'a) tx \<Rightarrow> 's \<Rightarrow> 's" where
  "committed m s = (case m s of Inl _ \<Rightarrow> s | Inr (_, s') \<Rightarrow> s')"

subsection \<open>Decomposing a successful run\<close>

lemma ret_Inr [tx_iff]: "ret x s = Inr (y, s') \<longleftrightarrow> y = x \<and> s' = s"
  by (auto simp: ret_def)

lemma fail_Inr [tx_iff]: "fail e s = Inr r \<longleftrightarrow> False"
  by (auto simp: fail_def)

lemma tx_bind_Inr [tx_iff]:
  "tx_bind m f s = Inr (y, s') \<longleftrightarrow> (\<exists>x s1. m s = Inr (x, s1) \<and> f x s1 = Inr (y, s'))"
  by (auto simp: tx_bind_def split: sum.splits prod.splits)

lemma tx_seq_Inr [tx_iff]:
  "tx_seq m n s = Inr (y, s') \<longleftrightarrow> (\<exists>x s1. m s = Inr (x, s1) \<and> n s1 = Inr (y, s'))"
  by (simp add: tx_seq_def tx_bind_Inr)

lemma query_Inr [tx_iff]: "query f s = Inr (x, s') \<longleftrightarrow> x = f s \<and> s' = s"
  by (auto simp: query_def)

lemma modify_Inr [tx_iff]: "modify f s = Inr (u, s') \<longleftrightarrow> s' = f s"
  by (auto simp: modify_def)

lemma ensure_Inr [tx_iff]: "ensure c e s = Inr (u, s') \<longleftrightarrow> c \<and> s' = s"
  by (auto simp: ensure_def ret_def fail_def)

lemma expect_Inr [tx_iff]: "expect e v s = Inr (x, s') \<longleftrightarrow> v = Some x \<and> s' = s"
  by (auto simp: expect_def ret_def fail_def split: option.splits)

lemma lift_sum_Inr [tx_iff]: "lift_sum r s = Inr (x, s') \<longleftrightarrow> r = Inr x \<and> s' = s"
  by (auto simp: lift_sum_def ret_def fail_def split: sum.splits)

lemma when_tx_Inr [tx_iff]:
  "when_tx c m s = Inr (u, s') \<longleftrightarrow> (if c then m s = Inr (u, s') else s' = s)"
  by (auto simp: when_tx_def ret_def)

lemmas tx_eval = ret_def fail_def tx_bind_def tx_seq_def query_def modify_def ensure_def
  expect_def lift_sum_def when_tx_def

subsection \<open>Properties a transaction keeps\<close>

definition keeps :: "('s \<Rightarrow> bool) \<Rightarrow> ('s, 'a) tx \<Rightarrow> bool" where
  "keeps I m \<longleftrightarrow> (\<forall>s x s'. I s \<longrightarrow> m s = Inr (x, s') \<longrightarrow> I s')"

lemma keepsI: "(\<And>s x s'. I s \<Longrightarrow> m s = Inr (x, s') \<Longrightarrow> I s') \<Longrightarrow> keeps I m"
  by (auto simp: keeps_def)

lemma keepsD: "keeps I m \<Longrightarrow> m s = Inr (x, s') \<Longrightarrow> I s \<Longrightarrow> I s'"
  by (auto simp: keeps_def)

lemma keeps_ret [tx_pres]: "keeps I (ret x)"
  by (auto simp: keeps_def ret_def)

lemma keeps_fail [tx_pres]: "keeps I (fail e)"
  by (auto simp: keeps_def fail_def)

lemma keeps_bind [tx_pres]: "keeps I m \<Longrightarrow> (\<And>x. keeps I (f x)) \<Longrightarrow> keeps I (tx_bind m f)"
  unfolding keeps_def tx_bind_Inr by blast

lemma keeps_seq [tx_pres]: "keeps I m \<Longrightarrow> keeps I n \<Longrightarrow> keeps I (tx_seq m n)"
  unfolding keeps_def tx_seq_Inr by blast

lemma keeps_query [tx_pres]: "keeps I (query f)"
  by (auto simp: keeps_def query_def)

lemma keeps_ensure [tx_pres]: "keeps I (ensure c e)"
  by (auto simp: keeps_def ensure_Inr)

lemma keeps_expect [tx_pres]: "keeps I (expect e v)"
  by (auto simp: keeps_def expect_Inr)

lemma keeps_lift_sum [tx_pres]: "keeps I (lift_sum r)"
  by (auto simp: keeps_def lift_sum_Inr)

lemma keeps_when [tx_pres]: "(c \<Longrightarrow> keeps I m) \<Longrightarrow> keeps I (when_tx c m)"
  by (auto simp: keeps_def when_tx_Inr split: if_splits)

lemma keeps_if [tx_pres]: "(c \<Longrightarrow> keeps I m) \<Longrightarrow> (\<not> c \<Longrightarrow> keeps I n) \<Longrightarrow> keeps I (if c then m else n)"
  by simp

lemma keeps_let [tx_pres]: "(\<And>x. keeps I (f x)) \<Longrightarrow> keeps I (Let v f)"
  by simp

lemma keeps_case_option [tx_pres]:
  "(v = None \<Longrightarrow> keeps I m) \<Longrightarrow> (\<And>x. v = Some x \<Longrightarrow> keeps I (f x)) \<Longrightarrow>
   keeps I (case v of None \<Rightarrow> m | Some x \<Rightarrow> f x)"
  by (cases v) auto

lemma keeps_case_prod [tx_pres]: "(\<And>x y. keeps I (f x y)) \<Longrightarrow> keeps I (case p of (x, y) \<Rightarrow> f x y)"
  by (cases p) auto

lemma keeps_case_sum [tx_pres]:
  "(\<And>x. v = Inl x \<Longrightarrow> keeps I (f x)) \<Longrightarrow> (\<And>x. v = Inr x \<Longrightarrow> keeps I (g x)) \<Longrightarrow>
   keeps I (case v of Inl x \<Rightarrow> f x | Inr x \<Rightarrow> g x)"
  by (cases v) auto

lemma keeps_for_each [tx_pres]: "(\<And>x. x \<in> set xs \<Longrightarrow> keeps I (f x)) \<Longrightarrow> keeps I (for_each f xs)"
  by (induction xs) (auto intro!: keeps_ret keeps_seq)

lemma keeps_modify: "(\<And>s. I s \<Longrightarrow> I (f s)) \<Longrightarrow> keeps I (modify f)"
  by (auto simp: keeps_def modify_Inr)

lemma keeps_conj: "keeps I m \<Longrightarrow> keeps J m \<Longrightarrow> keeps (\<lambda>s. I s \<and> J s) m"
  unfolding keeps_def by blast

lemma committed_keeps: "keeps I m \<Longrightarrow> I s \<Longrightarrow> I (committed m s)"
  by (auto simp: keeps_def committed_def split: sum.splits)

text \<open>A view of the state that a transaction does not write.\<close>

definition leaves :: "('s \<Rightarrow> 'v) \<Rightarrow> ('s, 'a) tx \<Rightarrow> bool" where
  "leaves v m \<longleftrightarrow> (\<forall>c. keeps (\<lambda>s. v s = c) m)"

lemma leavesI: "(\<And>c. keeps (\<lambda>s. v s = c) m) \<Longrightarrow> leaves v m"
  by (auto simp: leaves_def)

lemma leavesD: "leaves v m \<Longrightarrow> m s = Inr (x, s') \<Longrightarrow> v s' = v s"
  by (auto simp: leaves_def keeps_def)

subsection \<open>Tables: lists of rows with a key\<close>

definition find_row :: "('r \<Rightarrow> 'k) \<Rightarrow> 'k \<Rightarrow> 'r list \<Rightarrow> 'r option" where
  "find_row key k rs = List.find (\<lambda>r. key r = k) rs"

definition map_rows :: "('r \<Rightarrow> bool) \<Rightarrow> ('r \<Rightarrow> 'r) \<Rightarrow> 'r list \<Rightarrow> 'r list" where
  "map_rows p f rs = map (\<lambda>r. if p r then f r else r) rs"

definition count_rows :: "('r \<Rightarrow> bool) \<Rightarrow> 'r list \<Rightarrow> nat" where
  "count_rows p rs = length (filter p rs)"

definition exists_row :: "('r \<Rightarrow> bool) \<Rightarrow> 'r list \<Rightarrow> bool" where
  "exists_row p rs = list_ex p rs"

text \<open>\<open>[...new Set(xs)]\<close>: the distinct elements in the order of their first occurrence.\<close>

definition js_set :: "'a list \<Rightarrow> 'a list" where
  "js_set xs = rev (remdups (rev xs))"

lemma set_js_set [simp]: "set (js_set xs) = set xs"
  by (simp add: js_set_def)

lemma distinct_js_set [simp]: "distinct (js_set xs)"
  by (simp add: js_set_def)

lemma find_row_Some: "find_row key k rs = Some r \<Longrightarrow> r \<in> set rs \<and> key r = k"
  by (auto simp: find_row_def find_Some_iff)

lemma find_row_None: "find_row key k rs = None \<longleftrightarrow> k \<notin> key ` set rs"
  by (auto simp: find_row_def find_None_iff)

lemma find_row_distinct:
  "distinct (map key rs) \<Longrightarrow> r \<in> set rs \<Longrightarrow> find_row key (key r) rs = Some r"
  by (induction rs) (auto simp: find_row_def)

lemma find_row_append:
  "find_row key k (xs @ ys) = (case find_row key k xs of None \<Rightarrow> find_row key k ys | Some r \<Rightarrow> Some r)"
  by (induction xs) (auto simp: find_row_def)

lemma find_row_map_rows:
  assumes "\<And>r. key (f r) = key r"
  shows "find_row key k (map_rows p f rs) = map_option (\<lambda>r. if p r then f r else r) (find_row key k rs)"
  by (induction rs) (auto simp: find_row_def map_rows_def assms)

lemma find_row_map_key [simp]:
  assumes "\<And>r. key (f r) = key r"
  shows "find_row key k (map_rows (\<lambda>r. key r = j) f rs) =
    (if k = j then map_option f (find_row key k rs) else find_row key k rs)"
  using assms by (induction rs) (auto simp: find_row_def map_rows_def)

lemma map_rows_keys [simp]:
  "(\<And>r. key (f r) = key r) \<Longrightarrow> map key (map_rows p f rs) = map key rs"
  by (auto simp: map_rows_def)

lemma set_map_rows: "set (map_rows p f rs) = (\<lambda>r. if p r then f r else r) ` set rs"
  by (simp add: map_rows_def)

lemma map_rows_id: "(\<And>r. r \<in> set rs \<Longrightarrow> p r \<Longrightarrow> f r = r) \<Longrightarrow> map_rows p f rs = rs"
  by (induction rs) (auto simp: map_rows_def)

lemma filter_map_rows_same:
  "(\<And>r. p r \<Longrightarrow> q (f r) = q r) \<Longrightarrow> filter q (map_rows p f rs) = map_rows p f (filter q rs)"
  by (induction rs) (auto simp: map_rows_def)

lemma filter_map_rows_off:
  "(\<And>r. p r \<Longrightarrow> \<not> q r \<and> \<not> q (f r)) \<Longrightarrow> filter q (map_rows p f rs) = filter q rs"
  by (induction rs) (auto simp: map_rows_def)

lemma count_rows_append [simp]: "count_rows p (xs @ ys) = count_rows p xs + count_rows p ys"
  by (simp add: count_rows_def)

lemma count_rows_0: "count_rows p rs = 0 \<longleftrightarrow> (\<forall>r \<in> set rs. \<not> p r)"
  by (simp add: count_rows_def filter_empty_conv)

lemma exists_row_iff [simp]: "exists_row p rs \<longleftrightarrow> (\<exists>r \<in> set rs. p r)"
  by (simp add: exists_row_def list_ex_iff)

end
