(* ===== verification/SH_Model.thy ===== *)
theory SH_Model
  imports SH_Prelude
begin

text \<open>
  The data of the program: the enums and models of src/prisma/schema.prisma as datatypes and
  records, and the database state that the services read and write.

  Identifiers (cuid strings) are numbers, drawn fresh from a counter. Identifiers that the code
  composes from a template (notification ids, event keys, idempotency keys) are datatypes with one
  constructor per template. Amounts (Decimal columns) are rationals, instants are milliseconds
  since the epoch. Columns that no modelled operation reads or writes are left out, and so are the
  texts of notifications and messages beyond their titles.
\<close>

type_synonym key = nat
type_synonym time = int
type_synonym decimal = rat

subsection \<open>Enums\<close>

datatype role = R_User | R_Admin
datatype verification_status = V_UNVERIFIED | V_PENDING_REVIEW | V_APPROVED | V_REJECTED
datatype account_moderation = M_ACTIVE | M_SUSPENDED | M_BANNED
datatype plan = FREE | BASIC | PRO
datatype subscription_status = SUB_ACTIVE | SUB_EXPIRED | SUB_CANCELLED
datatype subscription_payment_status = SP_PENDING | SP_SUCCEEDED | SP_FAILED | SP_EXPIRED | SP_CANCELLED
  | SP_REFUND_REQUIRED | SP_REFUNDED
datatype webhook_status = WH_PROCESSING | WH_PROCESSED | WH_FAILED
datatype password_state = PW_NONE | PW_SET | PW_LEGACY_UNCONFIRMED
datatype service_status =
  S_PENDING_REVIEW | S_ACTIVE | S_INACTIVE | S_SUSPENDED | S_REJECTED | S_DELETED
datatype price_type =
  FIXED | STARTS_AT | PER_HOUR | PER_SESSION | PER_DAY | PER_PROJECT | CUSTOM | BY_AGREEMENT
datatype location_mode = PROVIDER_VISITS | SEEKER_VISITS | BOTH | REMOTE
datatype request_status = RQ_OPEN | RQ_PAYMENT_PENDING | RQ_IN_PROGRESS | RQ_CLOSED | RQ_CANCELED
datatype offer_status = O_PENDING | O_PENDING_PAYMENT | O_ACCEPTED | O_REJECTED | O_WITHDRAWN
datatype direct_request_status = DR_PENDING_APPROVAL | DR_ACCEPTED | DR_DECLINED
datatype queue_status = Q_WAITING | Q_SERVING | Q_DONE | Q_CANCELLED | Q_REMOVED
datatype payment_status =
  P_UNPAID | P_PAID_HELD | P_FROZEN_HELD | P_CASH_CONFIRMED | P_RELEASED | P_REFUNDED
datatype attempt_status =
  A_PENDING | A_SUCCEEDED | A_FAILED | A_EXPIRED | A_REFUND_REQUIRED | A_REFUNDED
datatype origin_type = DIRECT_LISTING | OFFER
datatype report_reason = POOR_SERVICE_QUALITY | INCOMPLETE_SERVICE | SCAM_OR_FRAUD
  | INAPPROPRIATE_BEHAVIOR | OVERPRICING | NO_SHOW
datatype report_type = RT_SAFETY | RT_COMPLETION_DISPUTE | RT_CANCELLATION_ESCALATION
datatype report_status = RP_PENDING | RP_UNDER_REVIEW | RP_RESOLVED | RP_DISMISSED
datatype transaction_type = EARNING | WITHDRAWAL | REFUND
datatype booking_status =
  B_PENDING_APPROVAL | B_WAITING | B_ONGOING | B_ACCEPTED | B_AWAITING_CONFIRMATION
  | B_UNDER_REVIEW | B_DISPUTED | B_DECLINED | B_CANCELED | B_REMOVED | B_COMPLETED

text \<open>String columns with a fixed set of values in the code.\<close>

datatype pay_method = OnsiteCash | GCash
datatype cancel_status = C_PENDING | C_APPROVED | C_DECLINED | C_ESCALATED | C_UNDER_REVIEW | C_RESOLVED
datatype cancel_outcome = IMMEDIATE_CANCEL_PENDING | IMMEDIATE_CANCEL | PARTICIPANT_APPROVED
  | CO_APPROVED | CO_DENIED
datatype escalation_status = E_PENDING | E_UNDER_REVIEW | E_RESOLVED | E_DISMISSED
datatype escalation_code = RELEASE_PROVIDER_AND_COMPLETE | REFUND_SEEKER | KEEP_AWAITING
  | SEEKER_CONFIRMED | SUPERSEDED_BY_SEEKER_DISPUTE
datatype case_type = CT_REPORT | CT_COMPLETION_ESCALATION | CT_CANCELLATION | CT_ADMIN_BOOKING
datatype op_status = OP_PROCESSING | OP_FAILED_RETRYABLE | OP_FAILED_NONRETRYABLE | OP_COMPLETED
datatype op_stage = CLAIMED | DECISION_READY | FINANCIAL_EFFECT_RESERVED
  | FINANCIAL_EFFECT_ESTABLISHED | CASE_FINALIZED
datatype content_kind = SERVICE_LISTING | SERVICE_REQUEST
datatype content_outcome = PASS | REVISE
datatype reason_code = CLEAR | PROFANITY | HATE_SPEECH | PROHIBITED_SERVICE | HIGH_RISK | CATEGORY_MISMATCH | ADMIN_REMOVED
  | ADMIN_RESTORED
datatype content_case_type = CC_REPORT | CC_APPEAL
datatype content_case_status = CS_OPEN | CS_UNDER_REVIEW | CS_RESOLVED
datatype appeal_status = AP_PENDING | AP_APPROVED | AP_REJECTED
datatype trust_case_status = TC_PENDING | TC_UPHELD | TC_REJECTED
datatype security_action = SIGN_IN_SUCCESS | SIGN_IN_FAILED | SIGN_OUT
datatype sign_in_method = BY_PASSWORD | BY_GOOGLE | BY_REGISTRATION
datatype billing_action = NEW | RENEWAL | UPGRADE | DOWNGRADE
datatype trust_category = T_COMPLETION | T_REPORT_PENALTY | T_CANCELLATION_PENALTY | T_CORRECTION
  | T_POLICY_TRANSITION | T_LEGACY_DUPLICATE_PENALTY | T_REVIEW_LEGACY | T_LEGACY
datatype progress_kind = PK_ACCEPTED | PK_STARTED | PK_WORK_MARKED_COMPLETE | PK_COMPLETION_CONFIRMED
  | PK_DECLINED | PK_CANCELLATION_REQUESTED | PK_CANCELLATION_APPROVED
  | PK_CANCELLATION_DECLINED | PK_CANCELLATION_ESCALATED | PK_CANCELED
datatype actor = BySeeker | ByProvider | ByAdmin | BySystem

text \<open>Composed identifiers.\<close>

datatype event_key = EK_Kind progress_kind | EK_WorkComplete time | EK_Request key string
datatype notif_key = N_Auto key | N_OfferNotSelected key | N_OfferDeclined key
  | N_OfferWithdrawn key | N_PriceWithdrawn key | N_BookingCancelled key key
  | N_Membership key plan time string | N_MembershipPaid key | N_RequestClosed key key | N_InquiryDeclined key | N_ListingRemoved key key
datatype trust_key = TK_AccountBaseline key | TK_VerificationApproval key
  | TK_BookingCompletion key bool | TK_Manual key string | TK_Cancellation key key
  | TK_Report key | TK_Appeal key | TK_Operation string | TK_Review string
datatype ban_ref = BanLog nat | LegacyBan key
datatype report_key = RK_Cancellation key | RK_Safety key key report_reason string
datatype ledger_key = LK_Completion key | LK_Refund key

subsection \<open>Rows\<close>

record pay_methods =
  pm_cash :: bool
  pm_gcash :: bool

record job_location =
  jl_latitude :: "rat option"
  jl_longitude :: "rat option"
  jl_label :: string
  jl_address :: "string option"

text \<open>The columns of a user that signing in and the profile use.\<close>

record login =
  lg_name :: string
  lg_email :: string
  lg_passwordHash :: string
  lg_passwordState :: password_state
  lg_googleSubject :: "string option"
  lg_googleConnectedAt :: "time option"
  lg_phone :: string
  lg_gcashNumber :: "string option"
  lg_location :: string
  lg_avatarUrl :: "string option"
  lg_bio :: "string option"
  lg_postingSuspended :: bool

record user_row =
  u_id :: key
  u_role :: role
  u_trustScore :: int
  u_verificationStatus :: verification_status
  u_isActive :: bool
  u_moderationStatus :: account_moderation
  u_suspendedUntil :: "time option"
  u_onlineQueueLimit :: nat
  u_subscriptionPlan :: plan
  u_subscriptionStatus :: subscription_status
  u_subscriptionStartedAt :: "time option"
  u_subscriptionExpiresAt :: "time option"
  u_subscriptionUpdatedAt :: time
  u_freePlanStartedAt :: "time option"
  u_freePlanExpiresAt :: "time option"
  u_emailVerified :: bool
  u_deactivatedAt :: "time option"
  u_login :: login

text \<open>What a listing shows and what the content policy said of it.\<close>

record listing_text =
  lt_title :: string
  lt_titleNormalized :: string
  lt_description :: string
  lt_publicMapPin :: bool
  lt_policyVersion :: "string option"
  lt_reasonCode :: "reason_code option"
  lt_reviewedById :: "key option"

record service_row =
  sv_id :: key
  sv_providerId :: key
  sv_categoryId :: key
  sv_price :: "decimal option"
  sv_priceType :: price_type
  sv_latitude :: "rat option"
  sv_longitude :: "rat option"
  sv_locationLabel :: "string option"
  sv_transportationFee :: "decimal option"
  sv_serviceLocationMode :: location_mode
  sv_venueAddress :: "string option"
  sv_estimatedDurationMins :: int
  sv_paymentMethods :: pay_methods
  sv_status :: service_status
  sv_isAvailable :: bool
  sv_publishedAt :: "time option"
  sv_text :: listing_text

record request_text =
  rt_title :: string
  rt_description :: string
  rt_budgetMin :: decimal
  rt_budgetMax :: decimal
  rt_urgency :: string
  rt_transportationFee :: "decimal option"
  rt_policyVersion :: "string option"
  rt_reasonCode :: "reason_code option"
  rt_reviewedById :: "key option"

record request_row =
  rq_id :: key
  rq_seekerId :: key
  rq_targetProviderId :: "key option"
  rq_targetServiceId :: "key option"
  rq_preferredPaymentMethod :: "pay_method option"
  rq_paymentMethods :: "pay_methods option"
  rq_categoryId :: key
  rq_latitude :: "rat option"
  rq_longitude :: "rat option"
  rq_locationLabel :: "string option"
  rq_privateAddress :: "string option"
  rq_serviceLocationMode :: location_mode
  rq_status :: request_status
  rq_archivedAt :: "time option"
  rq_text :: request_text

record offer_row =
  of_id :: key
  of_requestId :: key
  of_providerId :: key
  of_serviceId :: "key option"
  of_offeredPrice :: decimal
  of_estimatedDuration :: int
  of_serviceLocationMode :: "location_mode option"
  of_providerVenue :: "job_location option"
  of_status :: offer_status
  of_paymentHoldExpiresAt :: "time option"
  of_createdAt :: time

record direct_request_row =
  dr_id :: key
  dr_seekerId :: key
  dr_providerId :: key
  dr_serviceId :: key
  dr_quantity :: int
  dr_agreedPrice :: decimal
  dr_status :: direct_request_status

record queue_row =
  q_id :: key
  q_providerId :: key
  q_serviceId :: "key option"
  q_seekerId :: key
  q_offerId :: "key option"
  q_paymentId :: string
  q_paymongoPaymentId :: "string option"
  q_paymentStatus :: payment_status
  q_position :: int
  q_status :: queue_status
  q_estimatedWait :: int
  q_joinedAt :: time
  q_bookingId :: "key option"

record queue_notify_row =
  qn_id :: key
  qn_serviceId :: key
  qn_seekerId :: key
  qn_requestedAt :: time

record booking_row =
  bk_id :: key
  bk_seekerId :: key
  bk_providerId :: key
  bk_serviceId :: "key option"
  bk_offerId :: "key option"
  bk_directRequestId :: "key option"
  bk_originType :: "origin_type option"
  bk_paymentAttemptId :: "key option"
  bk_paymentMethod :: pay_method
  bk_agreedAmount :: "decimal option"
  bk_jobLocation :: "job_location option"
  bk_transportationFee :: "decimal option"
  bk_serviceLocationMode :: "location_mode option"
  bk_estimatedDurationMins :: "int option"
  bk_paymentStatus :: payment_status
  bk_status :: booking_status
  bk_statusBeforeDispute :: "booking_status option"
  bk_queuePosition :: "int option"
  bk_started :: bool
  bk_hiddenBySeeker :: bool
  bk_hiddenByProvider :: bool
  bk_updatedAt :: time

record progress_row =
  pe_bookingId :: key
  pe_kind :: progress_kind
  pe_actorRole :: actor
  pe_eventKey :: event_key
  pe_occurredAt :: time

record completed_row =
  cs_id :: key
  cs_bookingId :: "key option"
  cs_queueId :: "key option"
  cs_directRequestId :: "key option"
  cs_offerId :: "key option"
  cs_seekerId :: key
  cs_providerId :: key
  cs_finalPrice :: decimal
  cs_commissionRateBps :: int
  cs_platformFeeAmount :: decimal
  cs_providerNetAmount :: "decimal option"
  cs_paymentStatus :: payment_status

record report_row =
  rp_id :: key
  rp_bookingId :: key
  rp_reporterId :: key
  rp_reportedUserId :: key
  rp_reason :: report_reason
  rp_reportType :: report_type
  rp_dedupeKey :: "report_key option"
  rp_status :: report_status
  rp_adminId :: "key option"
  rp_resolvedAt :: "time option"

record message_row =
  ms_id :: key
  ms_bookingId :: key
  ms_senderId :: key
  ms_receiverId :: key
  ms_content :: string
  ms_isSystem :: bool
  ms_isRead :: bool

record transaction_row =
  tr_id :: key
  tr_walletOwnerId :: key
  tr_type :: transaction_type
  tr_amount :: decimal
  tr_relatedBookingId :: "key option"
  tr_paymongoRefId :: "string option"
  tr_idempotencyKey :: "ledger_key option"

text \<open>\<open>nt_cancelledBooking\<close> is the booking of a link \<open>...?tab=canceled&booking=<id>\<close>, the only link that
  an operation reads.\<close>

record notification_row =
  nt_id :: notif_key
  nt_userId :: key
  nt_title :: string
  nt_cancelledBooking :: "key option"

record trust_event_row =
  te_id :: key
  te_userId :: key
  te_delta :: int
  te_requestedDelta :: "int option"
  te_reason :: string
  te_scoreBefore :: int
  te_scoreAfter :: int
  te_actorAdminId :: "key option"
  te_eventKey :: "trust_key option"
  te_createdAt :: time
  te_bookingId :: "key option"
  te_category :: trust_category
  te_penaltyKey :: "(key \<times> key) option"
  te_reversesEventId :: "key option"

record cancellation_row =
  cr_id :: key
  cr_bookingId :: key
  cr_requestedBy :: key
  cr_responderId :: "key option"
  cr_reason :: "string option"
  cr_status :: cancel_status
  cr_responderNote :: "string option"
  cr_adminNote :: "string option"
  cr_adminId :: "key option"
  cr_reportId :: "key option"
  cr_resolutionOutcome :: "cancel_outcome option"
  cr_createdAt :: time
  cr_resolvedAt :: "time option"

record refund_row =
  rf_id :: key
  rf_bookingId :: "key option"
  rf_paymentAttemptId :: "key option"
  rf_paymentId :: string
  rf_paymongoRefundId :: "string option"
  rf_amount :: decimal
  rf_status :: string
  rf_requestedById :: key
  rf_failureReason :: "string option"

record attempt_row =
  at_id :: key
  at_seekerId :: key
  at_providerId :: key
  at_serviceId :: "key option"
  at_quantity :: int
  at_offerId :: "key option"
  at_providerIntentId :: "string option"
  at_providerPaymentId :: "string option"
  at_commissionRateBps :: int
  at_platformFeeAmount :: decimal
  at_providerNetAmount :: "decimal option"
  at_isTestMode :: bool
  at_paidAt :: "time option"
  at_providerClientKey :: "string option"
  at_redirectUrl :: "string option"
  at_amount :: decimal
  at_jobLocation :: "job_location option"
  at_transportationFee :: "decimal option"
  at_serviceLocationMode :: "location_mode option"
  at_estimatedDurationMins :: "int option"
  at_paymentMethod :: pay_method
  at_status :: attempt_status
  at_failureReason :: "string option"
  at_expiresAt :: time

record escalation_row =
  es_id :: key
  es_bookingId :: key
  es_requestedBy :: key
  es_reason :: string
  es_status :: escalation_status
  es_adminId :: "key option"
  es_resolution :: "escalation_code option"
  es_createdAt :: time
  es_resolvedAt :: "time option"

datatype op_result = ParticipantCancellation key | AdminCancellation bool key string
  | EscalationResolved escalation_code key key | BookingResolved string key key
  | ReportResolved string string string key

record operation_row =
  op_id :: key
  op_caseType :: case_type
  op_caseId :: key
  op_bookingId :: key
  op_requestedByAdminId :: key
  op_requestedOutcome :: string
  op_requestedPenalty :: "string option"
  op_status :: op_status
  op_stage :: op_stage
  op_lastError :: "string option"
  op_result :: "op_result option"

record subscription_payment_row =
  sp_id :: key
  sp_providerId :: key
  sp_plan :: plan
  sp_amount :: decimal
  sp_paymentReference :: "string option"
  sp_providerIntentId :: "string option"
  sp_redirectUrl :: "string option"
  sp_paymentStatus :: subscription_payment_status
  sp_isTestMode :: bool
  sp_checkoutExpiresAt :: time
  sp_checkoutClaimedAt :: "time option"
  sp_failureReason :: "string option"
  sp_billingAction :: billing_action
  sp_quotedMembershipUpdatedAt :: "time option"
  sp_quotedPeriodExpiresAt :: "time option"
  sp_subscriptionStartedAt :: "time option"
  sp_subscriptionExpiresAt :: "time option"
  sp_paidAt :: "time option"
  sp_refundedAt :: "time option"

record webhook_row =
  wh_eventId :: string
  wh_eventType :: string
  wh_status :: webhook_status
  wh_failureReason :: "string option"

record audit_row =
  al_actorId :: key
  al_targetUserId :: "key option"
  al_action :: string
  al_resourceId :: key

text \<open>The tables of signing in. Tokens are stored as hashes.\<close>

record session_row =
  rk_id :: key
  rk_token :: string
  rk_userId :: key
  rk_expiresAt :: time

record email_token_row =
  et_token :: string
  et_userId :: key
  et_expiresAt :: time
  et_used :: bool
  et_createdAt :: time

record reset_token_row =
  pt_token :: string
  pt_userId :: key
  pt_expiresAt :: time
  pt_used :: bool

record security_row =
  se_userId :: "key option"
  se_action :: security_action
  se_reason :: string
  se_method :: "sign_in_method option"
  se_session :: "key option"

record session_tables =
  refreshTokens :: "session_row list"
  emailTokens :: "email_token_row list"
  resetTokens :: "reset_token_row list"
  securityEvents :: "security_row list"

text \<open>The tables of published content and of the verification of accounts.\<close>

record category_row =
  cg_id :: key
  cg_name :: string
  cg_isActive :: bool

record photo_row =
  ph_id :: key
  ph_ownerId :: "key option"
  ph_publicId :: string
  ph_createdAt :: time

record photo_link =
  pl_listingId :: key
  pl_photoId :: key
  pl_position :: nat

record moderation_event =
  me_actorId :: key
  me_contentType :: content_kind
  me_resourceId :: "key option"
  me_outcome :: content_outcome
  me_reasonCode :: reason_code
  me_policyVersion :: string
  me_createdAt :: time

record content_case =
  cc_id :: key
  cc_submitterId :: key
  cc_caseType :: content_case_type
  cc_contentType :: content_kind
  cc_resourceId :: "key option"
  cc_reason :: string
  cc_status :: content_case_status
  cc_adminId :: "key option"
  cc_resolution :: "string option"
  cc_contentOwnerId :: "key option"
  cc_photos :: "key list"
  cc_decision :: "string option"
  cc_penalty :: "string option"

record proof_row =
  pf_id :: key
  pf_storageKey :: string
  pf_documentType :: string

record verification_row =
  vr_id :: key
  vr_userId :: key
  vr_status :: verification_status
  vr_submittedAt :: time
  vr_reviewedAt :: "time option"
  vr_adminId :: "key option"
  vr_adminNotes :: "string option"
  vr_noticeVersion :: string
  vr_retentionUntil :: time
  vr_legalHold :: bool
  vr_proofs :: "proof_row list"

record appeal_row =
  ba_id :: key
  ba_userId :: key
  ba_auditLogId :: ban_ref
  ba_message :: string
  ba_status :: appeal_status
  ba_decisionReason :: "string option"
  ba_decidedById :: "key option"
  ba_createdAt :: time
  ba_decidedAt :: "time option"

record saved_row =
  sl_id :: key
  sl_userId :: key
  sl_serviceId :: "key option"
  sl_requestId :: "key option"
  sl_createdAt :: time

record review_row =
  rv_id :: key
  rv_completedServiceId :: key
  rv_authorId :: key
  rv_targetId :: key
  rv_rating :: int
  rv_text :: "string option"
  rv_tags :: "string list option"
  rv_response :: "string option"
  rv_visible :: bool
  rv_moderationReason :: "string option"
  rv_moderatedById :: "key option"
  rv_contentVersion :: nat
  rv_createdAt :: time
  rv_editableUntil :: time

record trust_case_row =
  tc_id :: key
  tc_userId :: key
  tc_respondentId :: "key option"
  tc_reviewId :: "key option"
  tc_trustEventId :: "key option"
  tc_description :: string
  tc_response :: "string option"
  tc_status :: trust_case_status
  tc_adminId :: "key option"
  tc_decisionReason :: "string option"
  tc_createdAt :: time
  tc_decidedAt :: "time option"

record content_tables =
  categories :: "category_row list"
  listingPhotos :: "photo_row list"
  servicePhotos :: "photo_link list"
  requestPhotos :: "photo_link list"
  moderationEvents :: "moderation_event list"
  contentCases :: "content_case list"
  verifications :: "verification_row list"
  banAppeals :: "appeal_row list"
  savedListings :: "saved_row list"
  reviews :: "review_row list"
  trustCases :: "trust_case_row list"

datatype room = RUser key | RSession key | RBooking key | RService key | RAdmin | REveryone

record emission =
  em_room :: room
  em_event :: string
  em_type :: string

subsection \<open>The database state\<close>

text \<open>
  One field per table (the tables of signing in and those of published content in a record each), the next
  fresh identifier, and the sequence of socket messages sent so far (\<open>safeEmit\<close> of src/src/lib/socket.ts). Progress events, audit rows and emissions are only appended.
\<close>

record db =
  users :: "user_row list"
  services :: "service_row list"
  requests :: "request_row list"
  offers :: "offer_row list"
  directRequests :: "direct_request_row list"
  queues :: "queue_row list"
  queueNotifies :: "queue_notify_row list"
  bookings :: "booking_row list"
  progressEvents :: "progress_row list"
  completedServices :: "completed_row list"
  reports :: "report_row list"
  messages :: "message_row list"
  transactions :: "transaction_row list"
  notifications :: "notification_row list"
  trustEvents :: "trust_event_row list"
  cancellations :: "cancellation_row list"
  refunds :: "refund_row list"
  attempts :: "attempt_row list"
  escalations :: "escalation_row list"
  operations :: "operation_row list"
  auditLogs :: "audit_row list"
  subscriptionPayments :: "subscription_payment_row list"
  webhookEvents :: "webhook_row list"
  sessions :: session_tables
  contents :: content_tables
  outbox :: "emission list"
  nextId :: key

type_synonym 'a dbtx = "(db, 'a) tx"

definition empty_db :: db where
  "empty_db = \<lparr>users = [], services = [], requests = [], offers = [], directRequests = [],
    queues = [], queueNotifies = [], bookings = [], progressEvents = [], completedServices = [],
    reports = [], messages = [], transactions = [], notifications = [], trustEvents = [],
    cancellations = [], refunds = [], attempts = [], escalations = [], operations = [],
    auditLogs = [], subscriptionPayments = [], webhookEvents = [],
    sessions = \<lparr>refreshTokens = [], emailTokens = [], resetTokens = [], securityEvents = []\<rparr>,
    contents = \<lparr>categories = [], listingPhotos = [], servicePhotos = [], requestPhotos = [], moderationEvents = [],
      contentCases = [], verifications = [], banAppeals = [], savedListings = [], reviews = [], trustCases = []\<rparr>,
    outbox = [], nextId = 1\<rparr>"

subsection \<open>Lookups by primary key (\<open>findUnique\<close>)\<close>

definition find_user :: "key \<Rightarrow> db \<Rightarrow> user_row option" where
  "find_user i s = find_row u_id i (users s)"
definition find_service :: "key \<Rightarrow> db \<Rightarrow> service_row option" where
  "find_service i s = find_row sv_id i (services s)"
definition find_request :: "key \<Rightarrow> db \<Rightarrow> request_row option" where
  "find_request i s = find_row rq_id i (requests s)"
definition find_offer :: "key \<Rightarrow> db \<Rightarrow> offer_row option" where
  "find_offer i s = find_row of_id i (offers s)"
definition find_directRequest :: "key \<Rightarrow> db \<Rightarrow> direct_request_row option" where
  "find_directRequest i s = find_row dr_id i (directRequests s)"
definition find_queue :: "key \<Rightarrow> db \<Rightarrow> queue_row option" where
  "find_queue i s = find_row q_id i (queues s)"
definition find_booking :: "key \<Rightarrow> db \<Rightarrow> booking_row option" where
  "find_booking i s = find_row bk_id i (bookings s)"
definition find_attempt :: "key \<Rightarrow> db \<Rightarrow> attempt_row option" where
  "find_attempt i s = find_row at_id i (attempts s)"
definition find_cancellation :: "key \<Rightarrow> db \<Rightarrow> cancellation_row option" where
  "find_cancellation i s = find_row cr_id i (cancellations s)"
definition find_escalation :: "key \<Rightarrow> db \<Rightarrow> escalation_row option" where
  "find_escalation i s = find_row es_id i (escalations s)"
definition find_report :: "key \<Rightarrow> db \<Rightarrow> report_row option" where
  "find_report i s = find_row rp_id i (reports s)"
definition find_operation :: "key \<Rightarrow> db \<Rightarrow> operation_row option" where
  "find_operation i s = find_row op_id i (operations s)"

text \<open>Relations: the queue entry, completion and refund of a booking.\<close>

definition queue_of :: "key \<Rightarrow> db \<Rightarrow> queue_row option" where
  "queue_of b s = List.find (\<lambda>q. q_bookingId q = Some b) (queues s)"
definition completed_of :: "key \<Rightarrow> db \<Rightarrow> completed_row option" where
  "completed_of b s = List.find (\<lambda>c. cs_bookingId c = Some b) (completedServices s)"
definition refund_of :: "key \<Rightarrow> db \<Rightarrow> refund_row option" where
  "refund_of b s = List.find (\<lambda>r. rf_bookingId r = Some b) (refunds s)"

text \<open>The booking that an action id names: a booking id, or the id of its queue entry.\<close>

definition booking_or_queue_booking :: "key \<Rightarrow> db \<Rightarrow> booking_row option" where
  "booking_or_queue_booking i s =
    (case find_booking i s of Some b \<Rightarrow> Some b
     | None \<Rightarrow> (case find_queue i s of None \<Rightarrow> None
         | Some q \<Rightarrow> (case q_bookingId q of None \<Rightarrow> None | Some b \<Rightarrow> find_booking b s)))"

subsection \<open>Writes\<close>

definition fresh_id :: "key dbtx" where
  "fresh_id = (\<lambda>s. Inr (nextId s, s\<lparr>nextId := Suc (nextId s)\<rparr>))"

definition upd_user :: "key \<Rightarrow> (user_row \<Rightarrow> user_row) \<Rightarrow> unit dbtx" where
  "upd_user i f = modify (users_update (map_rows (\<lambda>r. u_id r = i) f))"
definition upd_request :: "key \<Rightarrow> (request_row \<Rightarrow> request_row) \<Rightarrow> unit dbtx" where
  "upd_request i f = modify (requests_update (map_rows (\<lambda>r. rq_id r = i) f))"
definition upd_offer :: "key \<Rightarrow> (offer_row \<Rightarrow> offer_row) \<Rightarrow> unit dbtx" where
  "upd_offer i f = modify (offers_update (map_rows (\<lambda>r. of_id r = i) f))"
definition upd_directRequest :: "key \<Rightarrow> (direct_request_row \<Rightarrow> direct_request_row) \<Rightarrow> unit dbtx" where
  "upd_directRequest i f = modify (directRequests_update (map_rows (\<lambda>r. dr_id r = i) f))"
definition upd_queue :: "key \<Rightarrow> (queue_row \<Rightarrow> queue_row) \<Rightarrow> unit dbtx" where
  "upd_queue i f = modify (queues_update (map_rows (\<lambda>r. q_id r = i) f))"
definition upd_booking :: "time \<Rightarrow> key \<Rightarrow> (booking_row \<Rightarrow> booking_row) \<Rightarrow> unit dbtx" where
  "upd_booking now i f = modify (bookings_update (map_rows (\<lambda>r. bk_id r = i) (\<lambda>r. (f r)\<lparr>bk_updatedAt := now\<rparr>)))"
definition upd_attempt :: "key \<Rightarrow> (attempt_row \<Rightarrow> attempt_row) \<Rightarrow> unit dbtx" where
  "upd_attempt i f = modify (attempts_update (map_rows (\<lambda>r. at_id r = i) f))"
definition upd_refunds :: "(refund_row \<Rightarrow> bool) \<Rightarrow> (refund_row \<Rightarrow> refund_row) \<Rightarrow> unit dbtx" where
  "upd_refunds p f = modify (refunds_update (map_rows p f))"
definition upd_cancellation :: "key \<Rightarrow> (cancellation_row \<Rightarrow> cancellation_row) \<Rightarrow> unit dbtx" where
  "upd_cancellation i f = modify (cancellations_update (map_rows (\<lambda>r. cr_id r = i) f))"
definition upd_reports :: "(report_row \<Rightarrow> bool) \<Rightarrow> (report_row \<Rightarrow> report_row) \<Rightarrow> unit dbtx" where
  "upd_reports p f = modify (reports_update (map_rows p f))"
definition upd_escalations :: "(escalation_row \<Rightarrow> bool) \<Rightarrow> (escalation_row \<Rightarrow> escalation_row) \<Rightarrow> unit dbtx" where
  "upd_escalations p f = modify (escalations_update (map_rows p f))"
definition upd_operation :: "key \<Rightarrow> (operation_row \<Rightarrow> operation_row) \<Rightarrow> unit dbtx" where
  "upd_operation i f = modify (operations_update (map_rows (\<lambda>r. op_id r = i) f))"

text \<open>A notification with a composed id is rejected when the id exists (primary key).\<close>

definition notify_row :: "notification_row \<Rightarrow> unit dbtx" where
  "notify_row r = (\<lambda>s. if exists_row (\<lambda>n. nt_id n = nt_id r) (notifications s) then Inl (Uncoded ''P2002'')
     else Inr ((), s\<lparr>notifications := notifications s @ [r]\<rparr>))"
definition notify_as :: "notif_key \<Rightarrow> key \<Rightarrow> string \<Rightarrow> unit dbtx" where
  "notify_as k u t = notify_row \<lparr>nt_id = k, nt_userId = u, nt_title = t, nt_cancelledBooking = None\<rparr>"
definition notify :: "key \<Rightarrow> string \<Rightarrow> unit dbtx" where
  "notify u t = tx_bind fresh_id (\<lambda>i. modify (notifications_update (\<lambda>ns. ns @
     [\<lparr>nt_id = N_Auto i, nt_userId = u, nt_title = t, nt_cancelledBooking = None\<rparr>])))"
definition audit :: "key \<Rightarrow> key option \<Rightarrow> string \<Rightarrow> key \<Rightarrow> unit dbtx" where
  "audit a t act r = modify (auditLogs_update (\<lambda>ls. ls @ [\<lparr>al_actorId = a, al_targetUserId = t,
     al_action = act, al_resourceId = r\<rparr>]))"
definition emit :: "room \<Rightarrow> string \<Rightarrow> string \<Rightarrow> unit dbtx" where
  "emit r e t = modify (outbox_update (\<lambda>es. es @ [\<lparr>em_room = r, em_event = e, em_type = t\<rparr>]))"

end
