(* ===== verification/SH_Accounts.thy ===== *)
theory SH_Accounts
  imports SH_Model
begin

text \<open>
  Who may do what: account permissions (src/src/utils/permissions.ts, src/src/utils/security.ts), the
  eligibility checks of src/src/services/account-lifecycle.service.ts and offer-eligibility.ts, and the
  payment methods a request accepts (src/src/services/request-payment-methods.ts).
\<close>

subsection \<open>Distinct accounts\<close>

definition assertDistinctAccounts :: "key \<Rightarrow> key \<Rightarrow> error + unit" where
  "assertDistinctAccounts a b =
     (if a = b then Inl (Http 403 ''SELF_TRANSACTION_NOT_ALLOWED'') else Inr ())"

lemma assertDistinctAccounts_Inr [simp]: "assertDistinctAccounts a b = Inr u \<longleftrightarrow> a \<noteq> b"
  by (simp add: assertDistinctAccounts_def)

subsection \<open>Permissions\<close>

record permissions =
  canBrowse :: bool
  canTransact :: bool
  canCreateListings :: bool
  canBookServices :: bool
  canAcceptBookings :: bool
  canMessage :: bool
  canReview :: bool
  canReport :: bool

definition getUserPermissions :: "user_row \<Rightarrow> permissions" where
  "getUserPermissions user =
     (let isVerified = (u_verificationStatus user = V_APPROVED);
          isActive = u_isActive user;
          isModerationActive = (u_moderationStatus user = M_ACTIVE);
          isEmailVerified = u_emailVerified user;
          isAdmin = (u_role user = R_Admin)
      in if isAdmin
         then \<lparr>canBrowse = True, canTransact = True, canCreateListings = True, canBookServices = True,
               canAcceptBookings = True, canMessage = True, canReview = True, canReport = True\<rparr>
         else let isEligible = isVerified \<and> isActive \<and> isModerationActive \<and> isEmailVerified
              in \<lparr>canBrowse = True, canTransact = isEligible, canCreateListings = isEligible,
                  canBookServices = isEligible, canAcceptBookings = isEligible, canMessage = True,
                  canReview = isEligible, canReport = True\<rparr>)"

subsection \<open>Eligibility of an account\<close>

definition assertActiveMarketplaceAccount :: "key \<Rightarrow> unit dbtx" where
  "assertActiveMarketplaceAccount userId =
     tx_bind (query (find_user userId)) (\<lambda>user.
       ensure (case user of None \<Rightarrow> False | Some u \<Rightarrow> u_role u = R_User \<and> u_isActive u \<and>
                 u_deactivatedAt u = None \<and> u_moderationStatus u = M_ACTIVE)
         (Http 403 ''This account is no longer eligible for marketplace changes.''))"

text \<open>
  The check on the provider of a listing or offer, repeated in several handlers: active, not
  moderated, email verified and identity approved.
\<close>

definition account_ready :: "user_row \<Rightarrow> bool" where
  "account_ready u \<longleftrightarrow> u_isActive u \<and> u_moderationStatus u = M_ACTIVE \<and> u_emailVerified u \<and>
     u_verificationStatus u = V_APPROVED"

definition provider_ready :: "key \<Rightarrow> db \<Rightarrow> bool" where
  "provider_ready i s = (case find_user i s of None \<Rightarrow> False | Some u \<Rightarrow> account_ready u)"

text \<open>\<open>findMany\<close> with both ids returns two rows exactly when they name two different users.\<close>

definition marketplaceParticipantsEligible :: "key \<Rightarrow> key \<Rightarrow> db \<Rightarrow> bool" where
  "marketplaceParticipantsEligible seekerId providerId s =
     (let us = filter (\<lambda>u. u_id u = seekerId \<or> u_id u = providerId) (users s)
      in length us = 2 \<and> list_all (\<lambda>u. u_role u = R_User \<and> account_ready u) us)"

datatype participant = AsProvider | AsSeeker

definition offer_participant_fault :: "user_row option \<Rightarrow> string option" where
  "offer_participant_fault user =
     (case user of None \<Rightarrow> Some ''PARTICIPANT_INELIGIBLE''
      | Some u \<Rightarrow>
        if u_deactivatedAt u \<noteq> None then Some ''PARTICIPANT_INELIGIBLE''
        else if u_role u \<noteq> R_User then Some ''PARTICIPANT_INELIGIBLE''
        else if u_moderationStatus u = M_BANNED then Some ''ACCOUNT_BANNED''
        else if u_moderationStatus u = M_SUSPENDED then Some ''ACCOUNT_SUSPENDED''
        else if \<not> u_isActive u \<or> u_moderationStatus u \<noteq> M_ACTIVE then Some ''PARTICIPANT_INELIGIBLE''
        else if \<not> u_emailVerified u then Some ''EMAIL_NOT_VERIFIED''
        else if u_verificationStatus u \<noteq> V_APPROVED then Some ''VERIFICATION_REQUIRED''
        else None)"

definition assertOfferParticipant :: "key \<Rightarrow> participant \<Rightarrow> unit dbtx" where
  "assertOfferParticipant userId who =
     tx_bind (query (find_user userId)) (\<lambda>user.
       case offer_participant_fault user of None \<Rightarrow> ret ()
       | Some code \<Rightarrow> fail (Http 403 (if who = AsProvider then code else ''SEEKER_UNAVAILABLE'')))"

definition assertOfferTarget :: "request_row \<Rightarrow> key \<Rightarrow> key option \<Rightarrow> error + unit" where
  "assertOfferTarget request providerId serviceId =
     (case rq_targetServiceId request of None \<Rightarrow> Inr ()
      | Some target \<Rightarrow>
        if rq_targetProviderId request \<noteq> Some providerId then Inl (Http 403 ''REQUEST_RESERVED'')
        else if serviceId \<noteq> Some target then Inl (Http 403 ''REQUEST_LISTING_REQUIRED'')
        else Inr ())"

lemma offer_participant_fault_None:
  "offer_participant_fault user = None \<longleftrightarrow>
     (\<exists>u. user = Some u \<and> u_deactivatedAt u = None \<and> u_role u = R_User \<and> account_ready u)"
  by (cases user; cases "u_moderationStatus (the user)")
     (auto simp: offer_participant_fault_def account_ready_def)

lemma assertOfferParticipant_Inr [tx_iff]:
  "assertOfferParticipant i who s = Inr (x, s') \<longleftrightarrow>
     s' = s \<and> offer_participant_fault (find_user i s) = None"
  by (auto simp: assertOfferParticipant_def tx_iff split: option.splits)

lemma assertActiveMarketplaceAccount_Inr [tx_iff]:
  "assertActiveMarketplaceAccount i s = Inr (x, s') \<longleftrightarrow>
     s' = s \<and> (\<exists>u. find_user i s = Some u \<and> u_role u = R_User \<and> u_isActive u \<and>
       u_deactivatedAt u = None \<and> u_moderationStatus u = M_ACTIVE)"
  by (auto simp: assertActiveMarketplaceAccount_def tx_iff split: option.splits)

lemma filter_two_keys:
  assumes "distinct (map f xs)" "length (filter (\<lambda>x. f x = a \<or> f x = b) xs) = 2"
  shows "a \<noteq> b \<and> a \<in> f ` set xs \<and> b \<in> f ` set xs"
proof -
  let ?ys = "filter (\<lambda>x. f x = a \<or> f x = b) xs"
  have "distinct (map f ?ys)" using assms(1) by (rule distinct_map_filter)
  then have "card (f ` set ?ys) = 2"
    using assms(2) distinct_card[of "map f ?ys"] by simp
  moreover have sub: "f ` set ?ys \<subseteq> {a, b}" by auto
  ultimately have "{a, b} = f ` set ?ys \<and> a \<noteq> b"
    using card_seteq[OF _ sub] by (cases "a = b") (auto simp: card_insert_if)
  then show ?thesis by auto
qed

text \<open>Two accounts may enter a booking together only when they are different accounts that both
  exist, are marketplace members, active, not moderated, and have a verified email and an approved
  identity.\<close>
lemma marketplaceParticipantsEligible_sound:
  assumes "distinct (map u_id (users s))" "marketplaceParticipantsEligible a b s"
  shows "a \<noteq> b \<and> provider_ready a s \<and> provider_ready b s"
proof -
  let ?us = "filter (\<lambda>u. u_id u = a \<or> u_id u = b) (users s)"
  from assms(2) have len: "length ?us = 2" and all: "\<forall>u \<in> set ?us. account_ready u"
    by (auto simp: marketplaceParticipantsEligible_def list_all_iff)
  from filter_two_keys[OF assms(1) len] have ab: "a \<noteq> b" "a \<in> u_id ` set (users s)" "b \<in> u_id ` set (users s)"
    by auto
  have "provider_ready i s" if "i \<in> u_id ` set (users s)" "i = a \<or> i = b" for i
    using that find_row_distinct[OF assms(1)] all
    by (auto simp: provider_ready_def find_user_def)
  with ab show ?thesis by blast
qed

definition ready_user :: "key \<Rightarrow> user_row" where
  "ready_user i = \<lparr>u_id = i, u_role = R_User, u_trustScore = 50, u_verificationStatus = V_APPROVED,
     u_isActive = True, u_moderationStatus = M_ACTIVE, u_suspendedUntil = None, u_onlineQueueLimit = 5,
     u_subscriptionPlan = FREE, u_subscriptionStatus = SUB_ACTIVE, u_subscriptionStartedAt = None,
     u_subscriptionExpiresAt = None, u_subscriptionUpdatedAt = 0, u_freePlanStartedAt = None,
     u_freePlanExpiresAt = None, u_emailVerified = True, u_deactivatedAt = None, u_login = \<lparr>lg_name = ''Ana'',
     lg_email = ''a@b.ph'', lg_passwordHash = ''h'', lg_passwordState = PW_SET, lg_googleSubject = None,
     lg_googleConnectedAt = None, lg_phone = ''0917'', lg_gcashNumber = None, lg_location = ''Cebu'', lg_avatarUrl = None,
     lg_bio = None, lg_postingSuspended = False\<rparr>\<rparr>"


subsection \<open>Payment methods of a request\<close>

definition getRequestPaymentMethods :: "request_row \<Rightarrow> pay_methods" where
  "getRequestPaymentMethods request =
     (let methods = (case rq_paymentMethods request of None \<Rightarrow> \<lparr>pm_cash = True, pm_gcash = True\<rparr> | Some m \<Rightarrow> m);
          preferred = rq_preferredPaymentMethod request
      in \<lparr>pm_cash = pm_cash methods \<and> (preferred = None \<or> preferred = Some OnsiteCash),
          pm_gcash = pm_gcash methods \<and> (preferred = None \<or> preferred = Some GCash)\<rparr>)"

definition assertRequestPaymentMethod :: "request_row \<Rightarrow> pay_method \<Rightarrow> error + unit" where
  "assertRequestPaymentMethod request method =
     (if (case method of OnsiteCash \<Rightarrow> pm_cash (getRequestPaymentMethods request)
                       | GCash \<Rightarrow> pm_gcash (getRequestPaymentMethods request))
      then Inr () else Inl (Http 409 ''REQUEST_PAYMENT_METHOD_UNAVAILABLE''))"

subsection \<open>What these checks keep\<close>

lemma keeps_assertOfferParticipant [tx_pres]: "keeps I (assertOfferParticipant i w)"
  by (auto simp: keeps_def tx_iff)

lemma keeps_assertActiveMarketplaceAccount [tx_pres]: "keeps I (assertActiveMarketplaceAccount i)"
  by (auto simp: keeps_def tx_iff)

end
