(* ===== verification/SH_Calendar.thy ===== *)
theory SH_Calendar
  imports SH_Model
begin

text \<open>
  The calendar functions of JavaScript's \<open>Date\<close> that src/src/services/subscription-policy.ts uses
  (\<open>getUTCDate\<close>, \<open>setUTCDate\<close>, \<open>setUTCMonth\<close>, \<open>Date.UTC\<close>, as ECMA-262 defines them), and
  \<open>oneCalendarMonthFrom\<close>: the end of a Philippine calendar month.
\<close>

definition DAY_MS :: int where
  "DAY_MS = 86400000"

definition leap :: "int \<Rightarrow> bool" where
  "leap y \<longleftrightarrow> (y mod 4 = 0 \<and> y mod 100 \<noteq> 0) \<or> y mod 400 = 0"

text \<open>Day number of the first of January, counted from the epoch.\<close>

definition year_start :: "int \<Rightarrow> int" where
  "year_start y = 365 * (y - 1970) + (y - 1969) div 4 - (y - 1901) div 100 + (y - 1601) div 400"

lemma div_step:
  fixes x k :: int
  assumes "0 < k"
  shows "(x + 1) div k = x div k + (if (x + 1) mod k = 0 then 1 else 0)"
proof -
  define q where "q = x div k"
  define r where "r = x mod k"
  have r: "0 \<le> r" "r < k" using assms by (simp_all add: r_def)
  have x: "x = k * q + r" by (simp add: q_def r_def)
  show ?thesis
  proof (cases "r + 1 = k")
    case True
    then have "x + 1 = k * (q + 1)" using x by (simp add: algebra_simps)
    then show ?thesis using assms by (simp add: q_def)
  next
    case False
    with r have r1: "0 < r + 1" "r + 1 < k" by auto
    have x1: "x + 1 = (r + 1) + q * k" using x by simp
    from r1 have "(x + 1) div k = q" "(x + 1) mod k = r + 1"
      unfolding x1 by (simp_all add: div_mult_self2 mod_pos_pos_trivial)
    with r1 show ?thesis by (simp add: q_def)
  qed
qed

lemma mod_shift_0:
  fixes y k :: int
  shows "(y - k * j) mod k = 0 \<longleftrightarrow> y mod k = 0"
  using mod_mult_self2[of y k "- j"] by simp

lemma year_start_Suc: "year_start (y + 1) = year_start y + (if leap y then 366 else 365)"
proof -
  have m: "(y - 1968) mod 4 = 0 \<longleftrightarrow> y mod 4 = 0" "(y - 1900) mod 100 = 0 \<longleftrightarrow> y mod 100 = 0"
    "(y - 1600) mod 400 = 0 \<longleftrightarrow> y mod 400 = 0"
    using mod_shift_0[of y 4 492] mod_shift_0[of y 100 19] mod_shift_0[of y 400 4] by simp_all
  have d: "y mod 400 = 0 \<Longrightarrow> y mod 100 = 0" "y mod 100 = 0 \<Longrightarrow> y mod 4 = 0"
    using dvd_trans[of 100 400 y] dvd_trans[of 4 100 y] by (simp_all add: mod_eq_0_iff_dvd)
  have p: "y - 1969 + 1 = y - 1968" "y - 1901 + 1 = y - 1900" "y - 1601 + 1 = y - 1600" by simp_all
  note s = div_step[of 4 "y - 1969", unfolded p m, OF zero_less_numeral]
    div_step[of 100 "y - 1901", unfolded p m, OF zero_less_numeral]
    div_step[of 400 "y - 1601", unfolded p m, OF zero_less_numeral]
  have e: "year_start (y + 1) = 365 * (y - 1969) + (y - 1968) div 4 - (y - 1900) div 100 + (y - 1600) div 400"
    by (simp add: year_start_def)
  show ?thesis
    unfolding e s year_start_def[of y] leap_def
    using d by (cases "y mod 4 = 0"; cases "y mod 100 = 0"; cases "y mod 400 = 0") simp_all
qed

lemma year_start_less: "year_start y < year_start (y + 1)"
  by (simp add: year_start_Suc)

lemma year_start_mono: "y \<le> z \<Longrightarrow> year_start y \<le> year_start z"
proof (induction z rule: int_ge_induct)
  case (step z)
  then show ?case using year_start_less[of z] by simp
qed simp

function year_up :: "int \<Rightarrow> int \<Rightarrow> int" where
  "year_up d y = (if year_start (y + 1) \<le> d then year_up d (y + 1) else y)"
  by pat_completeness auto
termination
  by (relation "measure (\<lambda>(d, y). nat (d - year_start y))")
     (use year_start_less in \<open>auto dest: order_less_le_trans\<close>)

function year_down :: "int \<Rightarrow> int \<Rightarrow> int" where
  "year_down d y = (if d < year_start y then year_down d (y - 1) else y)"
  by pat_completeness auto
termination
  by (relation "measure (\<lambda>(d, y). nat (year_start y - d))")
     (use year_start_less[of "y - 1" for y] in auto)

declare year_up.simps [simp del] year_down.simps [simp del]

text \<open>The year of a day number: the largest year that starts on or before it.\<close>

definition year_of :: "int \<Rightarrow> int" where
  "year_of d = year_down d (year_up d 1970)"

lemma year_up_upper: "d < year_start (year_up d y + 1)"
  by (induction d y rule: year_up.induct) (subst year_up.simps, auto)

lemma year_down_bounds:
  "d < year_start (y + 1) \<Longrightarrow> year_start (year_down d y) \<le> d \<and> d < year_start (year_down d y + 1)"
  by (induction d y rule: year_down.induct) (subst (1 2) year_down.simps, auto)

lemma year_of_bounds: "year_start (year_of d) \<le> d" "d < year_start (year_of d + 1)"
  using year_down_bounds[OF year_up_upper] by (simp_all add: year_of_def)

lemma year_of_unique:
  assumes "year_start y \<le> d" "d < year_start (y + 1)"
  shows "year_of d = y"
  using year_of_bounds[of d] year_start_mono[of "year_of d + 1" y] year_start_mono[of "y + 1" "year_of d"] assms
  by (smt (verit))

subsection \<open>Months\<close>

definition month_len :: "int \<Rightarrow> nat \<Rightarrow> int" where
  "month_len y m = (if m = 1 then (if leap y then 29 else 28) else if m \<in> {3, 5, 8, 10} then 30 else 31)"

primrec month_start :: "int \<Rightarrow> nat \<Rightarrow> int" where
  "month_start y 0 = 0"
| "month_start y (Suc m) = month_start y m + month_len y m"

function month_up :: "int \<Rightarrow> int \<Rightarrow> nat \<Rightarrow> nat" where
  "month_up y d m = (if m < 11 \<and> month_start y (Suc m) \<le> d then month_up y d (Suc m) else m)"
  by pat_completeness auto
termination by (relation "measure (\<lambda>(y, d, m). 11 - m)") auto

declare month_up.simps [simp del]

lemma month_len_range: "28 \<le> month_len y m" "month_len y m \<le> 31"
  by (auto simp: month_len_def)

lemma month_start_mono: "m \<le> n \<Longrightarrow> month_start y m \<le> month_start y n"
proof (induction n rule: dec_induct)
  case (step n)
  then show ?case using month_len_range(1)[of y n] by simp
qed simp

lemma month_start_12: "month_start y 12 = (if leap y then 366 else 365)"
  by (simp add: numeral_eq_Suc month_len_def)

lemma month_up_bounds:
  "m \<le> 11 \<Longrightarrow> month_start y m \<le> d \<Longrightarrow> d < month_start y 12 \<Longrightarrow>
   month_up y d m \<le> 11 \<and> month_start y (month_up y d m) \<le> d \<and> d < month_start y (Suc (month_up y d m))"
proof (induction y d m rule: month_up.induct)
  case (1 y d m)
  show ?case
  proof (cases "m < 11 \<and> month_start y (Suc m) \<le> d")
    case True
    with 1 have "month_up y d (Suc m) \<le> 11 \<and> month_start y (month_up y d (Suc m)) \<le> d \<and>
      d < month_start y (Suc (month_up y d (Suc m)))" by auto
    with True show ?thesis by (simp add: month_up.simps[of y d m])
  next
    case False
    with 1 have "m = 11 \<or> d < month_start y (Suc m)" by auto
    with False 1 show ?thesis by (auto simp: month_up.simps[of y d m] numeral_eq_Suc)
  qed
qed

lemma month_up_unique:
  assumes "m \<le> 11" "month_start y m \<le> d" "d < month_start y (Suc m)"
  shows "month_up y d 0 = m"
proof -
  have "0 \<le> d" using assms month_start_mono[of 0 m y] by simp
  moreover have "d < month_start y 12" using assms month_start_mono[of "Suc m" 12 y] by simp
  ultimately have b: "month_start y (month_up y d 0) \<le> d" "d < month_start y (Suc (month_up y d 0))"
    using month_up_bounds[of 0 y d] by auto
  show ?thesis
    using b assms month_start_mono[of "Suc (month_up y d 0)" m y] month_start_mono[of "Suc m" "month_up y d 0" y]
    by (metis leD less_eq_Suc_le linorder_neqE_nat order_less_le_trans)
qed

subsection \<open>Dates\<close>

text \<open>Year, month (0 to 11) and day of the month of a day number, and \<open>MakeDay\<close>, which carries a
  month beyond December into the following years and accepts any day.\<close>

definition civil :: "int \<Rightarrow> int \<times> nat \<times> int" where
  "civil d = (let y = year_of d; r = d - year_start y; m = month_up y r 0
              in (y, m, r - month_start y m + 1))"

definition makeDay :: "int \<Rightarrow> nat \<Rightarrow> int \<Rightarrow> int" where
  "makeDay y m dm = (let y' = y + int (m div 12); m' = m mod 12
                      in year_start y' + month_start y' m' + dm - 1)"

definition getUTCFullYear :: "time \<Rightarrow> int" where
  "getUTCFullYear t = fst (civil (t div DAY_MS))"
definition getUTCMonth :: "time \<Rightarrow> nat" where
  "getUTCMonth t = fst (snd (civil (t div DAY_MS)))"
definition getUTCDate :: "time \<Rightarrow> int" where
  "getUTCDate t = snd (snd (civil (t div DAY_MS)))"

definition dateUTC :: "int \<Rightarrow> nat \<Rightarrow> int \<Rightarrow> time" where
  "dateUTC y m dm = makeDay y m dm * DAY_MS"
definition setUTCDate :: "int \<Rightarrow> time \<Rightarrow> time" where
  "setUTCDate dm t = makeDay (getUTCFullYear t) (getUTCMonth t) dm * DAY_MS + t mod DAY_MS"
definition setUTCMonth :: "nat \<Rightarrow> time \<Rightarrow> time" where
  "setUTCMonth m t = makeDay (getUTCFullYear t) m (getUTCDate t) * DAY_MS + t mod DAY_MS"

lemma civil_makeDay:
  assumes "m < 12" "1 \<le> dm" "dm \<le> month_len y m"
  shows "civil (makeDay y m dm) = (y, m, dm)"
proof -
  let ?d = "makeDay y m dm"
  have d: "?d = year_start y + month_start y m + dm - 1"
    using assms by (simp add: makeDay_def Let_def)
  have lo: "0 \<le> month_start y m" using month_start_mono[of 0 m y] by simp
  have hi: "month_start y (Suc m) \<le> month_start y 12"
    using assms(1) by (intro month_start_mono) simp
  have y: "year_of ?d = y"
    by (rule year_of_unique) (use d assms lo hi month_start_12[of y] year_start_Suc[of y] in auto)
  have "month_up y (?d - year_start y) 0 = m"
    by (rule month_up_unique) (use d assms in auto)
  with y d show ?thesis by (simp add: civil_def Let_def)
qed

lemma civil_valid:
  assumes "civil d = (y, m, dm)"
  shows "m < 12 \<and> 1 \<le> dm \<and> dm \<le> month_len y m \<and> makeDay y m dm = d"
proof -
  let ?y = "year_of d" let ?r = "d - year_start ?y" let ?m = "month_up ?y ?r 0"
  have r: "0 \<le> ?r" "?r < month_start ?y 12"
    using year_of_bounds[of d] by (auto simp: year_start_Suc month_start_12)
  have b: "?m \<le> 11" "month_start ?y ?m \<le> ?r" "?r < month_start ?y (Suc ?m)"
    using month_up_bounds[of 0 ?y ?r] r by auto
  have e: "y = ?y" "m = ?m" "dm = ?r - month_start ?y ?m + 1"
    using assms by (auto simp: civil_def Let_def)
  show ?thesis using b by (auto simp: e makeDay_def Let_def)
qed

lemma div_day [simp]: "(k * DAY_MS + t mod DAY_MS) div DAY_MS = k"
  by (simp add: DAY_MS_def)

lemma mod_day [simp]: "(k * DAY_MS + t mod DAY_MS) mod DAY_MS = t mod DAY_MS"
  by (simp add: DAY_MS_def)

lemma day_split: "t div DAY_MS * DAY_MS + t mod DAY_MS = t"
  by (simp add: DAY_MS_def)

subsection \<open>A Philippine calendar month\<close>

definition MANILA_MS :: int where
  "MANILA_MS = 8 * 60 * 60 * 1000"

definition oneCalendarMonthFrom :: "time \<Rightarrow> time" where
  "oneCalendarMonthFrom start =
     (let end0 = start + MANILA_MS; day = getUTCDate end0;
          end1 = setUTCDate 1 end0;
          end2 = setUTCMonth (getUTCMonth end1 + 1) end1;
          last = getUTCDate (dateUTC (getUTCFullYear end2) (getUTCMonth end2 + 1) 0);
          end3 = setUTCDate (min day last) end2
      in end3 - MANILA_MS)"

text \<open>The calendar date and the time of day in Manila.\<close>

definition manila_date :: "time \<Rightarrow> int \<times> nat \<times> int" where
  "manila_date t = civil ((t + MANILA_MS) div DAY_MS)"
definition manila_clock :: "time \<Rightarrow> int" where
  "manila_clock t = (t + MANILA_MS) mod DAY_MS"

fun next_month :: "int \<Rightarrow> nat \<Rightarrow> int \<times> nat" where
  "next_month y m = (if m = 11 then (y + 1, 0) else (y, Suc m))"

lemma makeDay_next:
  assumes "m < 12" "next_month y m = (y', m')"
  shows "makeDay y (Suc m) dm = makeDay y' m' dm \<and> m' < 12 \<and>
    makeDay y' m' 1 = makeDay y m 1 + month_len y m"
proof (cases "m = 11")
  case True
  have "month_start y 12 = month_start y 11 + month_len y 11"
    using month_start.simps(2)[of y 11] by simp
  then have "year_start (y + 1) = year_start y + month_start y 11 + month_len y 11"
    using month_start_12[of y] by (simp only: year_start_Suc)
  then show ?thesis using assms True by (auto simp: makeDay_def Let_def)
next
  case False
  then have "Suc m < 12" using assms by simp
  then show ?thesis using assms False by (auto simp: makeDay_def Let_def)
qed

lemma last_of_month:
  assumes "m < 12"
  shows "getUTCDate (dateUTC y (Suc m) 0) = month_len y m"
proof -
  obtain y' m' where n: "next_month y m = (y', m')" by (metis surj_pair)
  have "makeDay y (Suc m) 0 = makeDay y (Suc m) 1 - 1" by (simp add: makeDay_def Let_def)
  also have "\<dots> = makeDay y m (month_len y m)"
    using makeDay_next[OF assms n] by (auto simp: makeDay_def Let_def)
  finally have "civil (makeDay y (Suc m) 0) = (y, m, month_len y m)"
    using civil_makeDay[OF assms, of "month_len y m" y] month_len_range(1)[of y m] by simp
  then show ?thesis by (simp add: getUTCDate_def dateUTC_def DAY_MS_def)
qed

lemma makeDay_shift: "makeDay y m dm = makeDay y m 1 + (dm - 1)"
  by (simp add: makeDay_def Let_def)

lemma oneCalendarMonthFrom_day:
  assumes "manila_date start = (y, m, d)" "next_month y m = (y', m')"
  shows "oneCalendarMonthFrom start + MANILA_MS =
    makeDay y' m' (min d (month_len y' m')) * DAY_MS + manila_clock start"
proof -
  let ?e0 = "start + MANILA_MS" let ?c = "?e0 mod DAY_MS"
  from assms(1) have civ: "civil (?e0 div DAY_MS) = (y, m, d)" by (simp add: manila_date_def)
  from civil_valid[OF civ] have v: "m < 12" "1 \<le> d" "d \<le> month_len y m" by auto
  from makeDay_next[OF v(1) assms(2)] have m': "m' < 12"
    and nx: "\<And>x. makeDay y (Suc m) x = makeDay y' m' x"
    using assms(2) v(1) makeDay_next by blast+
  have one: "(1::int) \<le> month_len y m" "(1::int) \<le> month_len y' m'"
    using month_len_range(1)[of y m] month_len_range(1)[of y' m'] by auto
  have e1: "setUTCDate 1 ?e0 = makeDay y m 1 * DAY_MS + ?c"
    using civ by (simp add: setUTCDate_def getUTCFullYear_def getUTCMonth_def)
  have g1: "getUTCMonth (makeDay y m 1 * DAY_MS + ?c) = m" "getUTCFullYear (makeDay y m 1 * DAY_MS + ?c) = y"
    "getUTCDate (makeDay y m 1 * DAY_MS + ?c) = 1"
    using civil_makeDay[OF v(1), of 1 y] one by (simp_all add: getUTCMonth_def getUTCFullYear_def getUTCDate_def)
  have e2: "setUTCMonth (Suc m) (makeDay y m 1 * DAY_MS + ?c) = makeDay y' m' 1 * DAY_MS + ?c"
    by (simp add: setUTCMonth_def g1 nx)
  have g2: "getUTCMonth (makeDay y' m' 1 * DAY_MS + ?c) = m'" "getUTCFullYear (makeDay y' m' 1 * DAY_MS + ?c) = y'"
    using civil_makeDay[OF m', of 1 y'] one by (simp_all add: getUTCMonth_def getUTCFullYear_def)
  have day: "getUTCDate ?e0 = d" using civ by (simp add: getUTCDate_def)
  show ?thesis
    by (simp add: oneCalendarMonthFrom_def Let_def day e1 g1 e2 g2 last_of_month[OF m']
        setUTCDate_def[of "min d (month_len y' m')"] manila_clock_def)
qed

text \<open>A paid month ends on the same day of the next Philippine calendar month, clamped to that
  month's last day, at the same Manila time of day, and so lasts between 28 and 31 days.\<close>
lemma oneCalendarMonthFrom_correct:
  assumes "manila_date start = (y, m, d)" "next_month y m = (y', m')"
  shows "manila_date (oneCalendarMonthFrom start) = (y', m', min d (month_len y' m')) \<and>
    manila_clock (oneCalendarMonthFrom start) = manila_clock start \<and>
    start + 28 * DAY_MS \<le> oneCalendarMonthFrom start \<and>
    oneCalendarMonthFrom start \<le> start + 31 * DAY_MS"
proof -
  let ?d = "min d (month_len y' m')"
  from assms(1) have civ: "civil ((start + MANILA_MS) div DAY_MS) = (y, m, d)" by (simp add: manila_date_def)
  note v = civil_valid[OF civ]
  note nx = makeDay_next[OF conjunct1[OF v] assms(2), of 1]
  note r = oneCalendarMonthFrom_day[OF assms]
  have d: "1 \<le> ?d" using v month_len_range(1)[of y' m'] by auto
  have "manila_date (oneCalendarMonthFrom start) = (y', m', ?d)"
    using civil_makeDay[of m' ?d y'] nx d by (simp add: manila_date_def r manila_clock_def)
  moreover have "manila_clock (oneCalendarMonthFrom start) = manila_clock start"
    by (simp add: manila_clock_def[of "oneCalendarMonthFrom start"] r) (simp add: manila_clock_def)
  moreover have days: "makeDay y' m' ?d = (start + MANILA_MS) div DAY_MS + (month_len y m + ?d - d)"
    using v nx by (auto simp: makeDay_shift[of y' m' ?d] makeDay_shift[of y m d])
  moreover have "28 \<le> month_len y m + ?d - d" "month_len y m + ?d - d \<le> 31"
    using v month_len_range[of y m] month_len_range[of y' m'] by auto
  moreover have "(start + MANILA_MS) div DAY_MS * DAY_MS + manila_clock start = start + MANILA_MS"
    by (simp add: manila_clock_def day_split)
  then have "oneCalendarMonthFrom start = start + (month_len y m + ?d - d) * DAY_MS"
    using r days by (simp add: algebra_simps)
  ultimately show ?thesis by (simp add: DAY_MS_def)
qed


end
