(* ===== verification/SH_Pricing.thy ===== *)
theory SH_Pricing
  imports SH_Model
begin

text \<open>
  Money: the commission on an online payment (src/src/services/payment-commission.ts), the terms of a
  direct listing booking (src/src/services/bookings/direct-listing-pricing.ts) and the price a booking
  resolves to (src/src/services/bookings/queue-metrics.ts).
\<close>

subsection \<open>Rounding to centavos\<close>

text \<open>\<open>toDecimalPlaces(2, ROUND_HALF_UP)\<close>: ties go away from zero.\<close>

definition centavos :: "decimal \<Rightarrow> decimal" where
  "centavos x = (if 0 \<le> x then of_int \<lfloor>x * 100 + 1 / 2\<rfloor> / 100
                 else - (of_int \<lfloor>- x * 100 + 1 / 2\<rfloor> / 100))"

definition whole_centavos :: "decimal \<Rightarrow> bool" where
  "whole_centavos x \<longleftrightarrow> centavos x = x"

lemma floor_rat_numeral [simp]:
  "\<lfloor>numeral a / numeral b :: rat\<rfloor> = numeral a div numeral b"
  using floor_divide_of_int_eq [of "numeral a" "numeral b", where ?'a = rat] by simp

lemma centavos_near:
  assumes "0 \<le> x"
  shows "\<bar>centavos x - x\<bar> \<le> 1 / 200"
proof -
  define f where "f = (of_int \<lfloor>x * 100 + 1 / 2\<rfloor> :: rat)"
  have "f \<le> x * 100 + 1 / 2" "x * 100 + 1 / 2 < f + 1"
    unfolding f_def using floor_correct [of "x * 100 + 1 / 2"] by simp_all
  moreover have "centavos x = f / 100"
    using assms by (simp add: centavos_def f_def)
  ultimately show ?thesis
    unfolding abs_le_iff by simp
qed

lemma centavos_nonneg: "0 \<le> x \<Longrightarrow> 0 \<le> centavos x"
  by (simp add: centavos_def)

lemma centavos_of_int [simp]: "centavos (of_int n / 100) = of_int n / 100"
proof -
  have "\<lfloor>of_int m + 1 / 2 :: rat\<rfloor> = m" for m :: int
    by (rule floor_unique) auto
  from this[of n] this[of "- n"] show ?thesis
    by (auto simp: centavos_def field_simps zero_le_divide_iff)
qed

lemma whole_centavos_iff: "whole_centavos x \<longleftrightarrow> (\<exists>n. x = of_int n / 100)"
proof
  assume "whole_centavos x"
  then have eq: "centavos x = x" by (simp add: whole_centavos_def)
  show "\<exists>n. x = of_int n / 100"
  proof (cases "0 \<le> x")
    case True
    with eq have "x = of_int \<lfloor>x * 100 + 1 / 2\<rfloor> / 100" by (simp add: centavos_def)
    then show ?thesis by blast
  next
    case False
    with eq have "x = of_int (- \<lfloor>- x * 100 + 1 / 2\<rfloor>) / 100" by (simp add: centavos_def)
    then show ?thesis by blast
  qed
next
  assume "\<exists>n. x = of_int n / 100"
  then obtain n where "x = of_int n / 100" ..
  then show "whole_centavos x" by (simp only: whole_centavos_def centavos_of_int)
qed

lemma centavos_whole [simp]: "whole_centavos (centavos x)"
proof -
  have "\<exists>n. centavos x = of_int n / 100"
  proof (cases "0 \<le> x")
    case True
    then show ?thesis by (auto simp: centavos_def)
  next
    case False
    then have "centavos x = of_int (- \<lfloor>- x * 100 + 1 / 2\<rfloor>) / 100" by (simp add: centavos_def)
    then show ?thesis by blast
  qed
  then show ?thesis by (simp add: whole_centavos_iff)
qed

lemma centavos_mono:
  assumes "0 \<le> x" "x \<le> y"
  shows "centavos x \<le> centavos y"
proof -
  have "\<lfloor>x * 100 + 1 / 2\<rfloor> \<le> \<lfloor>y * 100 + 1 / 2\<rfloor>"
    using assms by (intro floor_mono) simp
  with assms show ?thesis by (simp add: centavos_def divide_right_mono)
qed

lemma whole_centavos_add:
  assumes "whole_centavos x" "whole_centavos y"
  shows "whole_centavos (x + y)"
proof -
  obtain m n where "x = of_int m / 100" "y = of_int n / 100"
    using assms by (auto simp: whole_centavos_iff)
  then have "x + y = of_int (m + n) / 100" by (simp add: add_divide_distrib)
  then show ?thesis unfolding whole_centavos_iff by blast
qed

lemma whole_centavos_minus: "whole_centavos x \<Longrightarrow> whole_centavos (- x)"
  unfolding whole_centavos_iff by (metis of_int_minus minus_divide_left)

lemma whole_centavos_diff: "whole_centavos x \<Longrightarrow> whole_centavos y \<Longrightarrow> whole_centavos (x - y)"
  using whole_centavos_add [of x "- y"] whole_centavos_minus [of y] by simp

lemma whole_centavos_mult_int:
  assumes "whole_centavos x"
  shows "whole_centavos (x * of_int k)"
proof -
  obtain m where "x = of_int m / 100" using assms by (auto simp: whole_centavos_iff)
  then have "x * of_int k = of_int (m * k) / 100" by simp
  then show ?thesis unfolding whole_centavos_iff by blast
qed

subsection \<open>The commission on an online payment\<close>

definition GCASH_COMMISSION_BPS :: int where
  "GCASH_COMMISSION_BPS = 1000"

record commission =
  commissionRateBps :: int
  platformFeeAmount :: decimal
  providerNetAmount :: decimal

definition paymentCommission :: "decimal \<Rightarrow> int \<Rightarrow> error + commission" where
  "paymentCommission gross rateBps =
     (if gross \<le> 0 \<or> gross \<noteq> centavos gross \<or> rateBps < 0 \<or> rateBps > 10000
      then Inl (Uncoded ''Invalid commission terms'')
      else let fee = centavos (gross * of_int rateBps / 10000)
           in Inr \<lparr>commissionRateBps = rateBps, platformFeeAmount = fee,
                   providerNetAmount = gross - fee\<rparr>)"

record commission_view =
  ratePercent :: decimal
  shownFee :: decimal
  shownNet :: decimal

definition commissionResponse ::
  "int option \<Rightarrow> decimal option \<Rightarrow> decimal option \<Rightarrow> decimal \<Rightarrow> commission_view" where
  "commissionResponse rate fee net amount =
     \<lparr>ratePercent = of_int (case rate of None \<Rightarrow> 0 | Some r \<Rightarrow> r) / 100,
      shownFee = (case fee of None \<Rightarrow> 0 | Some f \<Rightarrow> f),
      shownNet = (case net of None \<Rightarrow> amount | Some n \<Rightarrow> n)\<rparr>"

lemma commission_fee_bounds:
  assumes "0 < g" "whole_centavos g" "0 \<le> r" "r \<le> 10000"
  shows "0 \<le> centavos (g * of_int r / 10000)" "centavos (g * of_int r / 10000) \<le> g"
proof -
  have nn: "0 \<le> g * of_int r / 10000" using assms by simp
  then show "0 \<le> centavos (g * of_int r / 10000)" by (rule centavos_nonneg)
  have "g * of_int r \<le> g * 10000"
    using assms by (intro mult_left_mono) auto
  then have "g * of_int r / 10000 \<le> g" by simp
  then have "centavos (g * of_int r / 10000) \<le> centavos g"
    by (rule centavos_mono [OF nn])
  with assms show "centavos (g * of_int r / 10000) \<le> g"
    by (simp add: whole_centavos_def)
qed

lemma paymentCommission_Inr:
  "paymentCommission g r = Inr c \<longleftrightarrow>
     0 < g \<and> whole_centavos g \<and> 0 \<le> r \<and> r \<le> 10000 \<and>
     c = \<lparr>commissionRateBps = r, platformFeeAmount = centavos (g * of_int r / 10000),
          providerNetAmount = g - centavos (g * of_int r / 10000)\<rparr>"
  by (auto simp: paymentCommission_def whole_centavos_def Let_def)

text \<open>
  The columns of \<open>payment_attempts\<close> and \<open>completed_services\<close> carry a check constraint: the rate is
  between 0 and 10000, the fee is not negative and fee and net make up the amount.
\<close>

definition commission_columns_ok :: "int \<Rightarrow> decimal \<Rightarrow> decimal option \<Rightarrow> decimal \<Rightarrow> bool" where
  "commission_columns_ok rate fee net amount \<longleftrightarrow> 0 \<le> rate \<and> rate \<le> 10000 \<and> 0 \<le> fee \<and>
     (case net of None \<Rightarrow> True | Some n \<Rightarrow> 0 \<le> n \<and> n + fee = amount)"

lemma paymentCommission_columns_ok:
  "paymentCommission g r = Inr c \<Longrightarrow>
     commission_columns_ok (commissionRateBps c) (platformFeeAmount c) (Some (providerNetAmount c)) g"
  using commission_fee_bounds[of g r] by (auto simp: paymentCommission_Inr commission_columns_ok_def)

text \<open>A commission split conserves the payment: the platform fee and the provider's net add up
  to the gross amount exactly, both lie between zero and the gross, both are whole centavos, and the
  fee is the exact percentage to within half a centavo.\<close>
lemma paymentCommission_conserves:
  assumes "paymentCommission g r = Inr c"
  shows "platformFeeAmount c + providerNetAmount c = g \<and>
    0 \<le> platformFeeAmount c \<and> platformFeeAmount c \<le> g \<and>
    whole_centavos (platformFeeAmount c) \<and> whole_centavos (providerNetAmount c) \<and>
    \<bar>platformFeeAmount c - g * of_int r / 10000\<bar> \<le> 1 / 200"
proof -
  from assms have g: "0 < g" "whole_centavos g" "0 \<le> r" "r \<le> 10000"
    and c: "platformFeeAmount c = centavos (g * of_int r / 10000)"
           "providerNetAmount c = g - centavos (g * of_int r / 10000)"
    by (auto simp: paymentCommission_Inr)
  have "\<bar>platformFeeAmount c - g * of_int r / 10000\<bar> \<le> 1 / 200"
    unfolding c by (rule centavos_near) (use g in simp)
  with commission_fee_bounds[OF g] g show ?thesis
    by (simp add: c whole_centavos_diff)
qed


subsection \<open>Terms of a direct listing\<close>

definition max_quantity :: "price_type \<Rightarrow> int" where
  "max_quantity p = (if p = PER_DAY then 7 else if p = PER_HOUR then 40 else 1)"

definition calculateDirectListingTerms ::
  "price_type \<Rightarrow> decimal option \<Rightarrow> int \<Rightarrow> int \<Rightarrow> decimal option \<Rightarrow> error + decimal \<times> int" where
  "calculateDirectListingTerms priceType listedPrice quantity listedDurationMins transportationFee =
     (if priceType \<notin> {FIXED, PER_HOUR, PER_DAY, PER_PROJECT}
      then Inl (Http 400 ''This listing needs a provider price confirmation before booking'')
      else if quantity < 1 \<or> quantity > max_quantity priceType
      then Inl (Http 400 ''Choose a valid number of hours or days for this listing'')
      else case listedPrice of
        None \<Rightarrow> Inl (Http 409 ''This listing is missing a valid price'')
      | Some p \<Rightarrow>
          let travel = (case transportationFee of None \<Rightarrow> 0 | Some t \<Rightarrow> t);
              amount = p * of_int quantity + travel
          in if travel < 0 \<or> travel > 5000 then Inl (Http 400 ''The transportation fee is invalid'')
             else if amount < 50 \<or> amount > 50000
             then Inl (Http 400 ''The booking total must be between 50 and 50000'')
             else Inr (amount,
               if priceType = PER_HOUR then 60 * quantity
               else if priceType = PER_DAY then 480 * quantity else listedDurationMins))"

text \<open>The terms of a direct booking are the listed price times the quantity plus the travel fee,
  for a priced listing type and a quantity within the limit of the type, and the total is always
  between 50 and 50,000 pesos; hourly and daily jobs get 60 and 480 minutes per unit.\<close>
lemma calculateDirectListingTerms_sound:
  assumes "calculateDirectListingTerms pt price n d fee = Inr (amount, mins)"
  shows "\<exists>p. price = Some p \<and> amount = p * of_int n + (case fee of None \<Rightarrow> 0 | Some t \<Rightarrow> t) \<and>
      50 \<le> amount \<and> amount \<le> 50000 \<and> 1 \<le> n \<and> n \<le> 40 \<and>
      pt \<in> {FIXED, PER_HOUR, PER_DAY, PER_PROJECT} \<and>
      (pt \<notin> {PER_HOUR, PER_DAY} \<longrightarrow> n = 1 \<and> mins = d) \<and>
      (pt = PER_HOUR \<longrightarrow> mins = 60 * n) \<and> (pt = PER_DAY \<longrightarrow> n \<le> 7 \<and> mins = 480 * n)"
  using assms
  by (auto simp: calculateDirectListingTerms_def max_quantity_def Let_def
      split: if_splits option.splits)


subsection \<open>The price a booking resolves to\<close>

definition resolveFinalPrice :: "booking_row \<Rightarrow> db \<Rightarrow> decimal" where
  "resolveFinalPrice b s =
     (case bk_agreedAmount b of Some a \<Rightarrow> a
      | None \<Rightarrow> (case Option.bind (bk_directRequestId b) (\<lambda>i. find_directRequest i s) of
          Some d \<Rightarrow> dr_agreedPrice d
        | None \<Rightarrow> (case Option.bind (bk_offerId b) (\<lambda>i. find_offer i s) of
            Some f \<Rightarrow> of_offeredPrice f
          | None \<Rightarrow> (case Option.bind (bk_serviceId b) (\<lambda>i. find_service i s) of
              Some v \<Rightarrow> (case sv_price v of Some p \<Rightarrow> p | None \<Rightarrow> 0)
            | None \<Rightarrow> 0))))"

lemma resolveFinalPrice_agreed: "bk_agreedAmount b = Some a \<Longrightarrow> resolveFinalPrice b s = a"
  by (simp add: resolveFinalPrice_def)

end
