(* ===== verification/SH_Membership.thy ===== *)
theory SH_Membership
  imports SH_Accounts SH_Calendar SH_Pricing
begin

text \<open>
  Provider memberships: the plan policy of src/src/services/subscription-policy.ts (benefits, listing
  capacity, the quote for a plan) and the enrolment and reminder transactions of
  src/src/services/provider-membership.service.ts.
\<close>

subsection \<open>Plans and benefits\<close>

definition monthlyPrice :: "plan \<Rightarrow> decimal" where
  "monthlyPrice p = (case p of FREE \<Rightarrow> 0 | BASIC \<Rightarrow> 99 | PRO \<Rightarrow> 199)"
definition activeListingLimit :: "plan \<Rightarrow> nat option" where
  "activeListingLimit p = (case p of FREE \<Rightarrow> Some 1 | BASIC \<Rightarrow> Some 3 | PRO \<Rightarrow> None)"
definition planCommissionBps :: "plan \<Rightarrow> int" where
  "planCommissionBps p = (case p of FREE \<Rightarrow> 1000 | BASIC \<Rightarrow> 800 | PRO \<Rightarrow> 500)"
definition FREE_PERIOD_MS :: int where
  "FREE_PERIOD_MS = 30 * 24 * 60 * 60 * 1000"

record benefits =
  bn_plan :: plan
  bn_monthlyPrice :: decimal
  bn_activeListingLimit :: "nat option"
  bn_commissionRateBps :: int
  bn_marketplaceAccess :: bool
  bn_status :: subscription_status
  bn_startsAt :: "time option"
  bn_expiresAt :: "time option"
  bn_trialStarted :: bool
  bn_daysRemaining :: int
  bn_fullAnalytics :: bool
  bn_featuredPriority :: bool

definition plan_start :: "user_row \<Rightarrow> time option" where
  "plan_start u = (if u_subscriptionPlan u = FREE then u_freePlanStartedAt u else u_subscriptionStartedAt u)"
definition plan_expiry :: "user_row \<Rightarrow> time option" where
  "plan_expiry u = (if u_subscriptionPlan u = FREE then u_freePlanExpiresAt u else u_subscriptionExpiresAt u)"

text \<open>\<open>Math.ceil\<close> of a duration in days.\<close>

definition ceil_days :: "int \<Rightarrow> int" where
  "ceil_days ms = - ((- ms) div DAY_MS)"

definition subscriptionBenefits :: "user_row \<Rightarrow> time \<Rightarrow> benefits" where
  "subscriptionBenefits u now =
     (let p = u_subscriptionPlan u; startsAt = plan_start u; expiresAt = plan_expiry u;
          access = (p = FREE \<or> u_subscriptionStatus u \<in> {SUB_ACTIVE, SUB_CANCELLED}) \<and>
            (case startsAt of None \<Rightarrow> False | Some a \<Rightarrow> a \<le> now) \<and>
            (case expiresAt of None \<Rightarrow> False | Some e \<Rightarrow> now < e)
      in \<lparr>bn_plan = p, bn_monthlyPrice = monthlyPrice p, bn_activeListingLimit = activeListingLimit p,
          bn_commissionRateBps = planCommissionBps p, bn_marketplaceAccess = access,
          bn_status = (if access then (if u_subscriptionStatus u = SUB_CANCELLED \<and> p \<noteq> FREE
                         then SUB_CANCELLED else SUB_ACTIVE) else SUB_EXPIRED),
          bn_startsAt = startsAt, bn_expiresAt = expiresAt,
          bn_trialStarted = (u_freePlanStartedAt u \<noteq> None),
          bn_daysRemaining = (case expiresAt of Some e \<Rightarrow> if access then ceil_days (e - now) else 0 | None \<Rightarrow> 0),
          bn_fullAnalytics = (access \<and> p \<noteq> FREE),
          bn_featuredPriority = (access \<and> p = PRO)\<rparr>)"

text \<open>The query filter that listing searches use for the same decision.\<close>

definition opt_le :: "time option \<Rightarrow> time \<Rightarrow> bool" where
  "opt_le a t = (case a of None \<Rightarrow> False | Some x \<Rightarrow> x \<le> t)"
definition opt_gt :: "time option \<Rightarrow> time \<Rightarrow> bool" where
  "opt_gt a t = (case a of None \<Rightarrow> False | Some x \<Rightarrow> t < x)"

definition providerMembershipWhere :: "time \<Rightarrow> user_row \<Rightarrow> bool" where
  "providerMembershipWhere now u \<longleftrightarrow>
     (u_subscriptionPlan u = FREE \<and> opt_le (u_freePlanStartedAt u) now \<and> opt_gt (u_freePlanExpiresAt u) now) \<or>
     (u_subscriptionPlan u \<in> {BASIC, PRO} \<and> u_subscriptionStatus u \<in> {SUB_ACTIVE, SUB_CANCELLED} \<and>
      opt_le (u_subscriptionStartedAt u) now \<and> opt_gt (u_subscriptionExpiresAt u) now)"

text \<open>C39: The database filter that selects providers open for new business and the policy function
  that decides it for one provider agree on every provider at every instant.\<close>
theorem providerMembershipWhere_agrees:
  "providerMembershipWhere now u = bn_marketplaceAccess (subscriptionBenefits u now)"
  by (cases "u_subscriptionPlan u")
     (auto simp: providerMembershipWhere_def subscriptionBenefits_def Let_def plan_start_def
        plan_expiry_def opt_le_def opt_gt_def split: option.splits)

lemma ceil_days_bounds: "ms \<le> ceil_days ms * DAY_MS" "(ceil_days ms - 1) * DAY_MS < ms"
  by (auto simp: ceil_days_def DAY_MS_def)

definition assertMembershipAccess :: "user_row \<Rightarrow> time \<Rightarrow> error + unit" where
  "assertMembershipAccess u now =
     (if bn_marketplaceAccess (subscriptionBenefits u now) then Inr ()
      else Inl (Http 403 ''PROVIDER_MEMBERSHIP_EXPIRED''))"

definition assertListingCapacity :: "user_row \<Rightarrow> nat \<Rightarrow> time \<Rightarrow> error + unit" where
  "assertListingCapacity u activeCount now =
     (case assertMembershipAccess u now of Inl e \<Rightarrow> Inl e
      | Inr _ \<Rightarrow> (case bn_activeListingLimit (subscriptionBenefits u now) of
            None \<Rightarrow> Inr ()
          | Some limit \<Rightarrow> if activeCount \<ge> limit then Inl (Http 422 ''PROVIDER_LISTING_LIMIT'') else Inr ()))"

text \<open>A provider may publish one more listing exactly when the membership is running and the plan
  has room: one listing on Free, three on Basic, any number on Pro.\<close>
lemma assertListingCapacity_iff:
  "assertListingCapacity u n now = Inr () \<longleftrightarrow>
     bn_marketplaceAccess (subscriptionBenefits u now) \<and>
     (case u_subscriptionPlan u of FREE \<Rightarrow> n < 1 | BASIC \<Rightarrow> n < 3 | PRO \<Rightarrow> True)"
proof -
  have "bn_activeListingLimit (subscriptionBenefits u now) = activeListingLimit (u_subscriptionPlan u)"
    by (simp add: subscriptionBenefits_def Let_def)
  then show ?thesis
    by (cases "u_subscriptionPlan u")
       (auto simp: assertListingCapacity_def assertMembershipAccess_def activeListingLimit_def)
qed

subsection \<open>The quote for a plan\<close>


record quote =
  qt_plan :: plan
  qt_amount :: decimal
  qt_billingAction :: billing_action
  qt_quotedPeriodExpiresAt :: "time option"
  qt_quotedMembershipUpdatedAt :: time

text \<open>\<open>target\<close> is a paid plan; the instants of a running Basic period are present in the code's type
  assertions, and absent ones are an error here.\<close>

definition membershipQuote :: "user_row \<Rightarrow> plan \<Rightarrow> time \<Rightarrow> error + quote" where
  "membershipQuote u target now =
     (let b = subscriptionBenefits u now; access = bn_marketplaceAccess b; p = bn_plan b
      in if access \<and> p = target then Inl (Http 409 ''This plan is already active. Renew after it expires.'')
         else if access \<and> p = PRO \<and> target = BASIC
         then Inl (Http 409 ''Your Pro benefits stay active until expiry. Choose Basic after that date.'')
         else if access \<and> p = BASIC \<and> target = PRO
         then (case (u_subscriptionStartedAt u, u_subscriptionExpiresAt u) of
             (Some started, Some expires) \<Rightarrow>
               let duration = expires - started; remaining = expires - now;
                   amount = centavos ((monthlyPrice PRO - monthlyPrice BASIC) * of_int remaining / of_int duration)
               in if amount < 1
                  then Inl (Http 409 ''Your Basic month is nearly over. Choose Pro after it expires to start a new month.'')
                  else Inr \<lparr>qt_plan = target, qt_amount = amount, qt_billingAction = UPGRADE,
                    qt_quotedPeriodExpiresAt = Some expires,
                    qt_quotedMembershipUpdatedAt = u_subscriptionUpdatedAt u\<rparr>
           | _ \<Rightarrow> Inl (Uncoded ''TypeError''))
         else Inr \<lparr>qt_plan = target, qt_amount = monthlyPrice target,
           qt_billingAction = (if u_subscriptionPlan u = target then RENEWAL
             else if u_subscriptionPlan u = PRO \<and> target = BASIC then DOWNGRADE else NEW),
           qt_quotedPeriodExpiresAt = None, qt_quotedMembershipUpdatedAt = u_subscriptionUpdatedAt u\<rparr>)"

lemma membershipQuote_no_type_error: "membershipQuote u target now \<noteq> Inl (Uncoded ''TypeError'')"
  by (auto simp: membershipQuote_def subscriptionBenefits_def Let_def plan_start_def plan_expiry_def
      split: option.splits if_splits)

lemma membershipQuote_upgrade:
  assumes "membershipQuote u target now = Inr q" "qt_billingAction q = UPGRADE"
  obtains s e where "u_subscriptionPlan u = BASIC" "target = PRO" "u_subscriptionStartedAt u = Some s"
    "u_subscriptionExpiresAt u = Some e" "s \<le> now" "now < e"
    "qt_amount q = centavos (100 * of_int (e - now) / of_int (e - s))" "1 \<le> qt_amount q"
    "qt_quotedPeriodExpiresAt q = Some e"
  using assms
  by (auto simp: membershipQuote_def subscriptionBenefits_def Let_def plan_start_def plan_expiry_def
      monthlyPrice_def split: option.splits if_splits)

text \<open>An upgrade from a running Basic month to Pro is charged the price difference pro rata, in
  whole centavos: at least one peso and at most the 100 peso difference, and the paid period keeps
  its end.\<close>
lemma membershipQuote_upgrade_bounds:
  assumes "membershipQuote u target now = Inr q" "qt_billingAction q = UPGRADE"
  shows "1 \<le> qt_amount q \<and> qt_amount q \<le> 100 \<and> whole_centavos (qt_amount q) \<and>
    qt_quotedPeriodExpiresAt q = u_subscriptionExpiresAt u \<and> u_subscriptionPlan u = BASIC \<and> qt_plan q = PRO"
proof -
  obtain s e where u: "u_subscriptionPlan u = BASIC" "target = PRO" "u_subscriptionExpiresAt u = Some e"
      "s \<le> now" "now < e" "1 \<le> qt_amount q" "qt_quotedPeriodExpiresAt q = Some e"
    and a: "qt_amount q = centavos (100 * of_int (e - now) / of_int (e - s))"
    using membershipQuote_upgrade[OF assms] by metis
  have "of_int (e - now) \<le> (of_int (e - s) :: rat)" "0 < (of_int (e - s) :: rat)" "0 \<le> (of_int (e - now) :: rat)"
    using u by (simp_all only: of_int_le_iff of_int_0_less_iff of_int_0_le_iff)
  then have "0 \<le> 100 * of_int (e - now) / (of_int (e - s) :: rat)"
    "100 * of_int (e - now) / (of_int (e - s) :: rat) \<le> 100"
    by (simp_all add: pos_divide_le_eq)
  then have "qt_amount q \<le> centavos 100"
    unfolding a by (rule centavos_mono)
  moreover have "centavos 100 = 100" using centavos_of_int[of 10000] by simp
  moreover have "qt_plan q = target"
    using assms by (auto simp: membershipQuote_def Let_def split: option.splits if_splits)
  ultimately show ?thesis using u a by simp
qed

definition basic_user :: user_row where
  "basic_user = (ready_user 1)\<lparr>u_subscriptionPlan := BASIC, u_subscriptionStartedAt := Some 0,
     u_subscriptionExpiresAt := Some 3000\<rparr>"


subsection \<open>Enrolment\<close>

definition ensureProviderTrial :: "time \<Rightarrow> key \<Rightarrow> user_row dbtx" where
  "ensureProviderTrial now providerId =
     tx_seq (assertActiveMarketplaceAccount providerId)
    (tx_bind (query (find_user providerId)) (\<lambda>found.
     tx_bind (expect (Uncoded ''NotFoundError'') found) (\<lambda>user.
       if u_freePlanStartedAt user \<noteq> None then ret user
       else tx_seq (upd_user providerId (\<lambda>u. u\<lparr>u_freePlanStartedAt := Some now,
                     u_freePlanExpiresAt := Some (now + FREE_PERIOD_MS), u_subscriptionUpdatedAt := now\<rparr>))
             (ret (user\<lparr>u_freePlanStartedAt := Some now,
                     u_freePlanExpiresAt := Some (now + FREE_PERIOD_MS), u_subscriptionUpdatedAt := now\<rparr>)))))"

definition assertNewProviderBusiness :: "time \<Rightarrow> key \<Rightarrow> user_row dbtx" where
  "assertNewProviderBusiness now providerId =
     tx_bind (ensureProviderTrial now providerId) (\<lambda>user.
     tx_seq (lift_sum (assertMembershipAccess user now)) (ret user))"

text \<open>Only the users table is written, and of a user only the membership columns.\<close>

definition same_but_membership :: "user_row \<Rightarrow> user_row \<Rightarrow> bool" where
  "same_but_membership u v \<longleftrightarrow> u = v\<lparr>u_freePlanStartedAt := u_freePlanStartedAt u,
     u_freePlanExpiresAt := u_freePlanExpiresAt u, u_subscriptionUpdatedAt := u_subscriptionUpdatedAt u\<rparr>"

lemma ensureProviderTrial_Inr:
  "ensureProviderTrial now p s = Inr (user, s') \<longleftrightarrow>
    (\<exists>u. find_user p s = Some u \<and> u_role u = R_User \<and> u_isActive u \<and> u_deactivatedAt u = None \<and>
      u_moderationStatus u = M_ACTIVE \<and>
      (if u_freePlanStartedAt u \<noteq> None then user = u \<and> s' = s
       else user = u\<lparr>u_freePlanStartedAt := Some now, u_freePlanExpiresAt := Some (now + FREE_PERIOD_MS),
              u_subscriptionUpdatedAt := now\<rparr> \<and>
            s' = users_update (map_rows (\<lambda>r. u_id r = p) (\<lambda>u. u\<lparr>u_freePlanStartedAt := Some now,
              u_freePlanExpiresAt := Some (now + FREE_PERIOD_MS), u_subscriptionUpdatedAt := now\<rparr>)) s))"
  by (auto simp: ensureProviderTrial_def upd_user_def tx_iff)

lemma assertNewProviderBusiness_Inr:
  "assertNewProviderBusiness now p s = Inr (user, s') \<longleftrightarrow>
    ensureProviderTrial now p s = Inr (user, s') \<and> bn_marketplaceAccess (subscriptionBenefits user now)"
  by (auto simp: assertNewProviderBusiness_def assertMembershipAccess_def tx_iff split: if_splits)

lemma assertNewProviderBusiness_frame:
  assumes "assertNewProviderBusiness now p s = Inr (u, s')"
  shows "s' = s\<lparr>users := users s'\<rparr> \<and> map u_id (users s') = map u_id (users s)"
proof -
  let ?f = "\<lambda>u. u\<lparr>u_freePlanStartedAt := Some now, u_freePlanExpiresAt := Some (now + FREE_PERIOD_MS),
     u_subscriptionUpdatedAt := now\<rparr>"
  from assms have "s' = s \<or> s' = users_update (map_rows (\<lambda>r. u_id r = p) ?f) s"
    unfolding assertNewProviderBusiness_Inr ensureProviderTrial_Inr by (elim conjE exE) (simp split: if_splits)
  then show ?thesis by (elim disjE) simp_all
qed

lemma keeps_ensureProviderTrial:
  assumes "\<And>s f. I s \<Longrightarrow> (\<And>u. u_id (f u) = u_id u \<and> u_trustScore (f u) = u_trustScore u \<and>
      u_onlineQueueLimit (f u) = u_onlineQueueLimit u) \<Longrightarrow> I (users_update (map_rows (\<lambda>r. u_id r = p) f) s)"
  shows "keeps I (ensureProviderTrial now p)" "keeps I (assertNewProviderBusiness now p)"
  unfolding ensureProviderTrial_def assertNewProviderBusiness_def upd_user_def
  by (intro tx_pres keeps_modify assms; simp)+

text \<open>The free trial is granted once: enrolling again changes nothing, however much later, so a
  provider never gets a second free period.\<close>
lemma ensureProviderTrial_once:
  assumes "ensureProviderTrial now p s = Inr (u, s')"
  shows "ensureProviderTrial later p s' = Inr (u, s')"
proof -
  obtain w where w: "find_user p s = Some w" "u_role w = R_User" "u_isActive w" "u_deactivatedAt w = None"
    "u_moderationStatus w = M_ACTIVE"
    using assms by (auto simp: ensureProviderTrial_Inr)
  show ?thesis
  proof (cases "u_freePlanStartedAt w")
    case None
    with assms w have u: "u = w\<lparr>u_freePlanStartedAt := Some now,
        u_freePlanExpiresAt := Some (now + FREE_PERIOD_MS), u_subscriptionUpdatedAt := now\<rparr>"
      and "find_user p s' = Some u"
      by (auto simp: ensureProviderTrial_Inr find_user_def)
    with w show ?thesis by (auto simp: ensureProviderTrial_Inr)
  next
    case (Some t)
    with assms w show ?thesis by (auto simp: ensureProviderTrial_Inr)
  qed
qed


subsection \<open>Reminders\<close>

definition membership_milestone :: "int \<Rightarrow> string option" where
  "membership_milestone days = (if days \<le> 0 then Some ''expired'' else if days = 1 then Some ''tomorrow''
     else if days = 7 then Some ''week'' else None)"

text \<open>\<open>createMany\<close> with \<open>skipDuplicates\<close>: an existing id is kept.\<close>

definition notify_once :: "notif_key \<Rightarrow> key \<Rightarrow> string \<Rightarrow> nat dbtx" where
  "notify_once k u t = (\<lambda>s. if exists_row (\<lambda>n. nt_id n = k) (notifications s) then Inr (0, s)
     else Inr (1, s\<lparr>notifications := notifications s @ [\<lparr>nt_id = k, nt_userId = u, nt_title = t, nt_cancelledBooking = None\<rparr>]\<rparr>))"

definition membership_title :: "plan \<Rightarrow> string \<Rightarrow> string" where
  "membership_title p milestone =
     (let label = (if p = FREE then ''Free Provider plan'' else ''Provider membership'')
      in if milestone = ''expired'' then ''Your '' @ label @ '' has ended''
         else ''Your '' @ label @ '' ends '' @ (if milestone = ''tomorrow'' then ''tomorrow'' else ''in 7 days''))"

text \<open>The maintenance of one user that the scan returned: \<open>user\<close> is the scanned row.\<close>

definition remindMember :: "time \<Rightarrow> user_row \<Rightarrow> nat dbtx" where
  "remindMember now user =
     (let b = subscriptionBenefits user now in
      case bn_expiresAt b of None \<Rightarrow> ret 0
      | Some expires \<Rightarrow>
        let days = ceil_days (expires - now) in
        case membership_milestone days of None \<Rightarrow> ret 0
        | Some milestone \<Rightarrow>
          tx_bind (query (find_user (u_id user))) (\<lambda>found.
          case found of None \<Rightarrow> ret 0
          | Some fresh \<Rightarrow>
            if u_role fresh \<noteq> R_User \<or> \<not> u_isActive fresh \<or> u_deactivatedAt fresh \<noteq> None \<or>
               u_moderationStatus fresh \<noteq> M_ACTIVE then ret 0
            else let current = subscriptionBenefits fresh now in
              if bn_plan current \<noteq> bn_plan b \<or> bn_expiresAt current \<noteq> Some expires then ret 0
              else tx_seq (when_tx (days \<le> 0)
                             (upd_user (u_id user) (\<lambda>u. u\<lparr>u_subscriptionStatus := SUB_EXPIRED\<rparr>)))
                   (tx_bind (notify_once (N_Membership (u_id user) (bn_plan b) expires milestone)
                        (u_id user) (membership_title (bn_plan b) milestone)) (\<lambda>n.
                    tx_seq (when_tx (0 < n) (emit (RUser (u_id user)) ''notification''
                        (membership_title (bn_plan b) milestone)))
                    (ret n)))))"

text \<open>The users of a scan: due accounts in id order. The cursor pages of 100 are this list.\<close>

definition membership_due :: "time \<Rightarrow> user_row \<Rightarrow> bool" where
  "membership_due now u \<longleftrightarrow>
     u_role u = R_User \<and> u_isActive u \<and> u_moderationStatus u = M_ACTIVE \<and>
     u_subscriptionStatus u \<in> {SUB_ACTIVE, SUB_CANCELLED} \<and>
     ((u_subscriptionPlan u = FREE \<and> opt_le (u_freePlanExpiresAt u) (now + 8 * DAY_MS) \<and> u_freePlanStartedAt u \<noteq> None) \<or>
      (u_subscriptionPlan u \<in> {BASIC, PRO} \<and> opt_le (u_subscriptionExpiresAt u) (now + 8 * DAY_MS)))"

fun maintain_rows :: "time \<Rightarrow> user_row list \<Rightarrow> nat \<Rightarrow> nat dbtx" where
  "maintain_rows now [] count = ret count"
| "maintain_rows now (u # us) count = tx_bind (remindMember now u) (\<lambda>n. maintain_rows now us (count + n))"

text \<open>The cursor loop. Each page is read from the current state; \<open>fuel\<close> bounds the number of pages.\<close>

fun maintain_pages :: "nat \<Rightarrow> time \<Rightarrow> key option \<Rightarrow> nat \<Rightarrow> (db, nat option) tx" where
  "maintain_pages 0 now cursor count = ret None"
| "maintain_pages (Suc fuel) now cursor count =
     tx_bind (query (\<lambda>s. take 100 (sort_key u_id (filter (\<lambda>u. membership_due now u \<and>
         (case cursor of None \<Rightarrow> True | Some c \<Rightarrow> c < u_id u)) (users s))))) (\<lambda>page.
       if page = [] then ret (Some count)
       else tx_bind (maintain_rows now page count) (\<lambda>count'.
         if length page < 100 then ret (Some count')
         else maintain_pages fuel now (Some (u_id (last page))) count'))"

lemma notify_once_Inr [tx_iff]:
  "notify_once k u t s = Inr (n, s') \<longleftrightarrow>
     (if exists_row (\<lambda>r. nt_id r = k) (notifications s) then n = 0 \<and> s' = s
      else n = 1 \<and> s' = s\<lparr>notifications := notifications s @ [\<lparr>nt_id = k, nt_userId = u, nt_title = t, nt_cancelledBooking = None\<rparr>]\<rparr>)"
  by (auto simp: notify_once_def)

text \<open>A reminder is sent at most once per member, period and milestone: after a run, a second run
  on the same row at any later instant of the same milestone adds no notification for it.\<close>
lemma remindMember_once:
  assumes "remindMember now u s = Inr (n, s')" "remindMember later u s' = Inr (m, s'')"
    "bn_expiresAt (subscriptionBenefits u now) = Some e"
    "ceil_days (e - now) = ceil_days (e - later)" "n = 1"
  shows "m = 0 \<and> notifications s'' = notifications s'"
proof -
  have same: "bn_expiresAt (subscriptionBenefits u later) = Some e"
     "bn_plan (subscriptionBenefits u later) = bn_plan (subscriptionBenefits u now)"
    using assms(3) by (simp_all add: subscriptionBenefits_def Let_def)
  from assms(1,3,5) obtain mi where mi: "membership_milestone (ceil_days (e - now)) = Some mi"
    and nid: "\<exists>r \<in> set (notifications s'). nt_id r = N_Membership (u_id u) (bn_plan (subscriptionBenefits u now)) e mi"
    by (auto simp: remindMember_def tx_iff Let_def upd_user_def emit_def split: option.splits if_splits)
  from assms(2) mi nid same assms(4) show ?thesis
    by (auto simp: remindMember_def tx_iff Let_def upd_user_def emit_def split: option.splits if_splits)
qed


text \<open>The maintenance loop ends: one page more than there are users is always enough.\<close>

definition ids_above :: "key option \<Rightarrow> key list \<Rightarrow> nat" where
  "ids_above c is = length (filter (\<lambda>i. case c of None \<Rightarrow> True | Some k \<Rightarrow> k < i) is)"

lemma remindMember_total:
  "\<exists>n s'. remindMember now u s = Inr (n, s') \<and> map u_id (users s') = map u_id (users s)"
  by (cases "remindMember now u s")
     (auto simp: remindMember_def tx_eval Let_def upd_user_def emit_def notify_once_def
       split: option.splits if_splits)

lemma maintain_rows_total:
  "\<exists>n s'. maintain_rows now us c s = Inr (n, s') \<and> map u_id (users s') = map u_id (users s)"
proof (induction us arbitrary: c s)
  case Nil
  then show ?case by (simp add: ret_def)
next
  case (Cons u us)
  obtain n s1 where "remindMember now u s = Inr (n, s1)" "map u_id (users s1) = map u_id (users s)"
    using remindMember_total by blast
  with Cons[of "c + n" s1] show ?case by (auto simp: tx_bind_def)
qed

lemma ids_above_shrinks:
  assumes "k \<in> set is" "case c of None \<Rightarrow> True | Some c \<Rightarrow> c < k"
  shows "ids_above (Some k) is < ids_above c is"
proof -
  let ?p = "\<lambda>i. case c of None \<Rightarrow> True | Some c \<Rightarrow> c < i"
  have "filter (\<lambda>i. k < i) is = filter (\<lambda>i. k < i) (filter ?p is)"
    using assms(2) by (auto simp: filter_filter intro!: filter_cong split: option.splits)
  moreover have "k \<in> set (filter ?p is)" using assms by simp
  ultimately show ?thesis
    using length_filter_less[of k "filter ?p is" "\<lambda>i. k < i"] by (simp add: ids_above_def)
qed

text \<open>C40: The maintenance scan always returns: with one page of fuel more than the number of users,
  the loop over the cursor pages ends and reports its count, whatever the table holds.\<close>
theorem maintain_pages_returns:
  "length (users s) < fuel \<Longrightarrow> \<exists>n s'. maintain_pages fuel now None 0 s = Inr (Some n, s')"
proof -
  have "ids_above cursor (map u_id (users s)) < fuel \<Longrightarrow>
     \<exists>n s'. maintain_pages fuel now cursor c s = Inr (Some n, s')" for cursor c
  proof (induction fuel arbitrary: cursor c s)
    case (Suc fuel)
    let ?page = "take 100 (sort_key u_id (filter (\<lambda>u. membership_due now u \<and>
         (case cursor of None \<Rightarrow> True | Some c \<Rightarrow> c < u_id u)) (users s)))"
    show ?case
    proof (cases "?page = []")
      case True
      then show ?thesis by (simp add: tx_bind_def query_def ret_def)
    next
      case False
      obtain n s1 where rows: "maintain_rows now ?page c s = Inr (n, s1)"
        and ids: "map u_id (users s1) = map u_id (users s)"
        using maintain_rows_total by blast
      have "last ?page \<in> set ?page" using False by (rule last_in_set)
      then have "last ?page \<in> set (sort_key u_id (filter (\<lambda>u. membership_due now u \<and>
         (case cursor of None \<Rightarrow> True | Some c \<Rightarrow> c < u_id u)) (users s)))"
        by (rule in_set_takeD)
      then have "last ?page \<in> set (users s)" "case cursor of None \<Rightarrow> True | Some c \<Rightarrow> c < u_id (last ?page)"
        by auto
      then have "ids_above (Some (u_id (last ?page))) (map u_id (users s1)) < fuel"
        using ids_above_shrinks[of "u_id (last ?page)" "map u_id (users s)" cursor] Suc.prems ids by auto
      from Suc.IH[OF this] False rows show ?thesis
        by (auto simp: tx_bind_def query_def ret_def)
    qed
  qed simp
  moreover have "ids_above None (map u_id (users s)) \<le> length (users s)"
    by (simp add: ids_above_def)
  ultimately show "length (users s) < fuel \<Longrightarrow> \<exists>n s'. maintain_pages fuel now None 0 s = Inr (Some n, s')"
    by (meson le_less_trans)
qed

theorem maintain_pages_returns_witness:
  "\<exists>n s'. maintain_pages 2 500 None 0 (empty_db\<lparr>users := [basic_user]\<rparr>) = Inr (Some n, s')"
  using maintain_pages_returns[of "empty_db\<lparr>users := [basic_user]\<rparr>" 2 500] by simp

end
