(* ===== verification/SH_Arrangement.thy ===== *)
theory SH_Arrangement
  imports SH_Model
begin

text \<open>
  Where the work happens: the location schemas (src/src/schema/location.schema.ts), the service
  arrangement of a booking (src/src/lib/service-arrangement.ts with the helpers of
  src/src/lib/proximity.ts), and the normal form of a GCash number
  (src/src/schema/gcash-number.schema.ts). Strings are ASCII; a schema that rejects its input throws
  a ZodError, which carries no status.
\<close>

subsection \<open>Strings\<close>

definition js_space :: "char \<Rightarrow> bool" where
  "js_space c \<longleftrightarrow> (of_char c :: nat) \<in> {9, 10, 11, 12, 13, 32}"

definition trim :: "string \<Rightarrow> string" where
  "trim s = rev (dropWhile js_space (rev (dropWhile js_space s)))"

definition truthy :: "string option \<Rightarrow> bool" where
  "truthy s = (case s of None \<Rightarrow> False | Some t \<Rightarrow> t \<noteq> [])"

lemma dropWhile_idem [simp]: "dropWhile P (dropWhile P xs) = dropWhile P xs"
  by (induction xs) auto

lemma trim_head: "trim s \<noteq> [] \<Longrightarrow> \<not> js_space (hd (trim s)) \<and> \<not> js_space (last (trim s))"
proof -
  let ?a = "dropWhile js_space s" let ?b = "dropWhile js_space (rev ?a)"
  assume ne: "trim s \<noteq> []"
  then have b: "?b \<noteq> []" by (simp add: trim_def)
  have "\<not> js_space (hd ?b)" using b by (rule hd_dropWhile)
  then have l: "\<not> js_space (last (trim s))" using b by (simp add: trim_def last_rev)
  have "?a \<noteq> []"
  proof
    assume "?a = []"
    then have "?b = []" by (simp only: rev.simps dropWhile.simps)
    with b show False ..
  qed
  then have h: "\<not> js_space (hd ?a)" by (rule hd_dropWhile)
  have "rev ?a = takeWhile js_space (rev ?a) @ ?b" by simp
  then have "?a = rev ?b @ rev (takeWhile js_space (rev ?a))"
    by (metis rev_append rev_rev_ident)
  then have "hd (rev ?b) = hd ?a" using b by (metis hd_append2 rev_is_Nil_conv)
  with h l show ?thesis by (simp add: trim_def)
qed

lemma trim_idem [simp]: "trim (trim s) = trim s"
proof (cases "trim s = []")
  case False
  have d: "xs \<noteq> [] \<Longrightarrow> \<not> P (hd xs) \<Longrightarrow> dropWhile P xs = xs" for P and xs :: "'z list"
    by (cases xs) auto
  have "dropWhile js_space (trim s) = trim s"
    using d[of "trim s" js_space] trim_head[OF False] False by simp
  moreover have "dropWhile js_space (rev (trim s)) = rev (trim s)"
    using d[of "rev (trim s)" js_space] trim_head[OF False] False by (simp add: hd_rev)
  ultimately show ?thesis by (simp add: trim_def[of "trim s"])
next
  case True
  show ?thesis unfolding True by (simp add: trim_def)
qed

lemma length_trim: "length (trim s) \<le> length s"
  unfolding trim_def by (metis le_trans length_dropWhile_le length_rev)

subsection \<open>Location schemas\<close>

definition ZodError :: error where
  "ZodError = Uncoded ''ZodError''"

definition in_range :: "rat \<Rightarrow> rat option \<Rightarrow> bool" where
  "in_range r v = (case v of None \<Rightarrow> True | Some x \<Rightarrow> - r \<le> x \<and> x \<le> r)"

text \<open>\<open>JobLocationSchema.parse\<close>: the label and address are trimmed before their lengths are checked;
  a location has both coordinates or neither, and without them a written address.\<close>

definition parseJobLocation :: "job_location \<Rightarrow> error + job_location" where
  "parseJobLocation j =
     (let label = trim (jl_label j); address = map_option trim (jl_address j);
          hasPoint = (jl_latitude j \<noteq> None \<and> jl_longitude j \<noteq> None)
      in if in_range 90 (jl_latitude j) \<and> in_range 180 (jl_longitude j) \<and>
            2 \<le> length label \<and> length label \<le> 160 \<and>
            (case address of None \<Rightarrow> True | Some a \<Rightarrow> length a \<le> 500) \<and>
            (jl_latitude j \<noteq> None) = (jl_longitude j \<noteq> None) \<and>
            (hasPoint \<or> (case address of None \<Rightarrow> False | Some a \<Rightarrow> 5 \<le> length a))
         then Inr (j\<lparr>jl_label := label, jl_address := address\<rparr>)
         else Inl ZodError)"

definition valid_job_location :: "job_location \<Rightarrow> bool" where
  "valid_job_location j \<longleftrightarrow> parseJobLocation j = Inr j"

lemma parseJobLocation_valid: "parseJobLocation j = Inr k \<Longrightarrow> valid_job_location k"
  by (auto simp: parseJobLocation_def valid_job_location_def Let_def option.map_comp comp_def
      split: if_splits option.splits)

definition locationFromRecord ::
  "rat option \<Rightarrow> rat option \<Rightarrow> string option \<Rightarrow> string option \<Rightarrow> job_location option" where
  "locationFromRecord latitude longitude label privateAddress =
     (if latitude = None \<or> longitude = None \<or> \<not> truthy label then None
      else Some \<lparr>jl_latitude = latitude, jl_longitude = longitude, jl_label = the label,
        jl_address = (if truthy privateAddress then privateAddress else None)\<rparr>)"

definition assertJobLocation :: "job_location option \<Rightarrow> error + unit" where
  "assertJobLocation job =
     (case job of None \<Rightarrow> Inl (Http 400 ''JOB_LOCATION_REQUIRED'')
      | Some j \<Rightarrow> (case parseJobLocation j of Inl e \<Rightarrow> Inl e | Inr _ \<Rightarrow> Inr ()))"

text \<open>The public map area of a listing: its pin when the owner allowed that, the centre of a grid cell
  of a hundredth of a degree otherwise. \<open>Math.round\<close> rounds halves up.\<close>

definition js_round :: "rat \<Rightarrow> int" where
  "js_round x = \<lfloor>x + 1 / 2\<rfloor>"

definition publicMapArea :: "rat option \<Rightarrow> rat option \<Rightarrow> bool \<Rightarrow> (rat \<times> rat \<times> bool) option" where
  "publicMapArea latitude longitude publicMapPin =
     (case (latitude, longitude) of
        (Some lat, Some lng) \<Rightarrow>
          if publicMapPin then Some (lat, lng, False)
          else Some (of_int (js_round (lat * 100)) / 100, of_int (js_round (lng * 100)) / 100, True)
      | _ \<Rightarrow> None)"

text \<open>Without the owner's consent the public map shows only a grid cell: two listings whose
  coordinates round to the same cell are shown identically, and the shown point is off by at most
  half a hundredth of a degree.\<close>
lemma publicMapArea_hides_pin:
  assumes "publicMapArea (Some a) (Some b) False = Some (x, y, approximate)"
  shows "approximate \<and> \<bar>x - a\<bar> \<le> 1 / 200 \<and> \<bar>y - b\<bar> \<le> 1 / 200 \<and>
    (\<forall>a' b'. js_round (a' * 100) = js_round (a * 100) \<and> js_round (b' * 100) = js_round (b * 100) \<longrightarrow>
       publicMapArea (Some a') (Some b') False = Some (x, y, approximate))"
proof -
  have near: "\<bar>of_int (js_round (v * 100)) / 100 - v\<bar> \<le> 1 / 200" for v
  proof -
    have "of_int (js_round (v * 100)) \<le> v * 100 + 1 / 2" "v * 100 + 1 / 2 < of_int (js_round (v * 100)) + 1"
      using floor_correct[of "v * 100 + 1 / 2"] by (simp_all add: js_round_def)
    then show ?thesis unfolding abs_le_iff by simp
  qed
  from assms near[of a] near[of b] show ?thesis by (auto simp: publicMapArea_def)
qed


subsection \<open>Service arrangements\<close>

definition arrangement_failure :: error where
  "arrangement_failure = Http 400 ''SERVICE_ARRANGEMENT_INVALID''"

definition assertLocationForArrangementChange ::
  "location_mode \<Rightarrow> location_mode option \<Rightarrow> job_location option \<Rightarrow> error + unit" where
  "assertLocationForArrangementChange previous upcoming location =
     (if upcoming \<noteq> None \<and> upcoming \<noteq> Some REMOTE \<and> previous = REMOTE \<and> location = None
      then Inl arrangement_failure else Inr ())"

definition resolveVisitMode :: "location_mode option \<Rightarrow> location_mode option \<Rightarrow> error + location_mode" where
  "resolveVisitMode available selected =
     (let supported = (case available of None \<Rightarrow> PROVIDER_VISITS | Some m \<Rightarrow> m)
      in if selected = None \<and> supported = BOTH then Inl arrangement_failure
         else let mode = (case selected of None \<Rightarrow> supported | Some m \<Rightarrow> m)
              in if mode = BOTH then Inl ZodError
                 else if (if supported = BOTH then mode = REMOTE else mode \<noteq> supported)
                 then Inl arrangement_failure else Inr mode)"

definition providerVenue :: "service_row \<Rightarrow> error + job_location" where
  "providerVenue v =
     (if sv_venueAddress v \<noteq> None \<and> trim (the (sv_venueAddress v)) \<noteq> []
      then parseJobLocation \<lparr>jl_latitude = None, jl_longitude = None,
        jl_label = (if truthy (sv_locationLabel v) then the (sv_locationLabel v) else ''Provider workplace''),
        jl_address = sv_venueAddress v\<rparr>
      else case locationFromRecord (sv_latitude v) (sv_longitude v) (sv_locationLabel v) (sv_venueAddress v) of
          None \<Rightarrow> Inl arrangement_failure
        | Some p \<Rightarrow> parseJobLocation p)"

record arrangement =
  ar_mode :: location_mode
  ar_jobLocation :: "job_location option"
  ar_transportationFee :: "decimal option"

definition resolveDirectArrangement ::
  "service_row \<Rightarrow> location_mode option \<Rightarrow> job_location option \<Rightarrow> error + arrangement" where
  "resolveDirectArrangement v selected jobLocation =
     (case resolveVisitMode (Some (sv_serviceLocationMode v)) selected of Inl e \<Rightarrow> Inl e
      | Inr mode \<Rightarrow>
        if mode = REMOTE
        then Inr \<lparr>ar_mode = mode, ar_jobLocation = None, ar_transportationFee = Some 0\<rparr>
        else if mode = SEEKER_VISITS
        then (case providerVenue v of Inl e \<Rightarrow> Inl e
              | Inr venue \<Rightarrow> Inr \<lparr>ar_mode = mode, ar_jobLocation = Some venue, ar_transportationFee = Some 0\<rparr>)
        else case (if jobLocation \<noteq> None \<or> (sv_latitude v \<noteq> None \<and> sv_longitude v \<noteq> None)
                   then assertJobLocation jobLocation else Inr ()) of Inl e \<Rightarrow> Inl e
          | Inr _ \<Rightarrow> Inr \<lparr>ar_mode = mode, ar_jobLocation = jobLocation,
              ar_transportationFee = sv_transportationFee v\<rparr>)"

definition resolveOfferArrangement ::
  "request_row \<Rightarrow> service_row option \<Rightarrow> location_mode option \<Rightarrow> job_location option \<Rightarrow>
   error + location_mode \<times> job_location option" where
  "resolveOfferArrangement request service selected customVenue =
     (case resolveVisitMode (Some (rq_serviceLocationMode request)) selected of Inl e \<Rightarrow> Inl e
      | Inr mode \<Rightarrow>
        (case (case service of None \<Rightarrow> Inr mode
               | Some v \<Rightarrow> resolveVisitMode (Some (sv_serviceLocationMode v)) (Some mode)) of Inl e \<Rightarrow> Inl e
         | Inr _ \<Rightarrow>
           if mode = SEEKER_VISITS
           then (case (service, customVenue) of
               (None, None) \<Rightarrow> Inl arrangement_failure
             | (Some v, _) \<Rightarrow> map_sum id (\<lambda>p. (mode, Some p)) (providerVenue v)
             | (None, Some c) \<Rightarrow> map_sum id (\<lambda>p. (mode, Some p)) (parseJobLocation c))
           else Inr (mode, None)))"

definition offerJobLocation ::
  "offer_row \<Rightarrow> request_row \<Rightarrow> job_location option \<Rightarrow> error + job_location option" where
  "offerJobLocation offer request selected =
     (if of_serviceLocationMode offer = Some REMOTE then Inr None
      else if of_serviceLocationMode offer = Some SEEKER_VISITS
      then (case of_providerVenue offer of None \<Rightarrow> Inl (Http 409 ''PROVIDER_VENUE_REQUIRED'')
            | Some venue \<Rightarrow> (case parseJobLocation venue of Inl _ \<Rightarrow> Inl (Http 409 ''PROVIDER_VENUE_REQUIRED'')
                | Inr p \<Rightarrow> Inr (Some p)))
      else case selected of Some j \<Rightarrow> map_sum id Some (parseJobLocation j)
        | None \<Rightarrow>
          if rq_targetServiceId request = None \<and> \<not> truthy (rq_privateAddress request) \<and>
             rq_latitude request \<noteq> None
          then Inl (Http 400 ''JOB_LOCATION_REQUIRED'')
          else case locationFromRecord (rq_latitude request) (rq_longitude request)
                 (rq_locationLabel request) (rq_privateAddress request) of
              Some p \<Rightarrow> Inr (Some p)
            | None \<Rightarrow> if truthy (rq_privateAddress request)
                then map_sum id Some (parseJobLocation \<lparr>jl_latitude = None, jl_longitude = None,
                  jl_label = (if truthy (rq_locationLabel request) then the (rq_locationLabel request) else ''Job address''),
                  jl_address = rq_privateAddress request\<rparr>)
                else Inr None)"

text \<open>An unpaid offer shows the general area of its venue, never the address.\<close>

definition publicOffer :: "offer_row \<Rightarrow> offer_row \<times> string option" where
  "publicOffer offer = (offer\<lparr>of_providerVenue := None\<rparr>,
     case of_providerVenue offer of None \<Rightarrow> None
     | Some venue \<Rightarrow> (case parseJobLocation venue of Inl _ \<Rightarrow> None | Inr p \<Rightarrow> Some (jl_label p)))"

lemma resolveVisitMode_Inr:
  "resolveVisitMode (Some a) selected = Inr m \<Longrightarrow>
     m \<noteq> BOTH \<and> (if a = BOTH then selected = Some m \<and> m \<noteq> REMOTE else m = a)"
  by (auto simp: resolveVisitMode_def Let_def split: if_splits option.splits)

lemma providerVenue_valid: "providerVenue v = Inr p \<Longrightarrow> valid_job_location p"
  by (auto simp: providerVenue_def intro: parseJobLocation_valid split: if_splits option.splits)

text \<open>A booking gets one of the arrangements its listing offers: the listing's own mode, or one of
  the two visits the seeker chose when the listing offers both. Remote work carries no address and no
  travel fee, a visit to the provider carries a valid venue and no travel fee, and a visit to the
  seeker keeps the listed fee.\<close>
lemma resolveDirectArrangement_sound:
  assumes "resolveDirectArrangement v selected job = Inr a"
  shows "ar_mode a \<noteq> BOTH \<and>
    (sv_serviceLocationMode v \<noteq> BOTH \<longrightarrow> ar_mode a = sv_serviceLocationMode v) \<and>
    (sv_serviceLocationMode v = BOTH \<longrightarrow> selected = Some (ar_mode a) \<and> ar_mode a \<noteq> REMOTE) \<and>
    (ar_mode a = REMOTE \<longrightarrow> ar_jobLocation a = None \<and> ar_transportationFee a = Some 0) \<and>
    (ar_mode a = SEEKER_VISITS \<longrightarrow>
       (\<exists>p. ar_jobLocation a = Some p \<and> valid_job_location p) \<and> ar_transportationFee a = Some 0) \<and>
    (ar_mode a = PROVIDER_VISITS \<longrightarrow> ar_jobLocation a = job \<and> ar_transportationFee a = sv_transportationFee v)"
  using assms
  by (auto simp: resolveDirectArrangement_def split: sum.splits if_splits
      dest!: resolveVisitMode_Inr intro: providerVenue_valid)

definition sample_service :: service_row where
  "sample_service = \<lparr>sv_id = 10, sv_providerId = 2, sv_categoryId = 1, sv_price = Some 150,
     sv_priceType = PER_HOUR, sv_latitude = None, sv_longitude = None, sv_locationLabel = None,
     sv_transportationFee = Some 25, sv_serviceLocationMode = BOTH,
     sv_venueAddress = Some '' 12 Rizal St. '', sv_estimatedDurationMins = 60,
     sv_paymentMethods = \<lparr>pm_cash = True, pm_gcash = True\<rparr>, sv_status = S_ACTIVE, sv_isAvailable = True,
     sv_publishedAt = Some 0, sv_text = \<lparr>lt_title = ''Tutoring'', lt_titleNormalized = ''tutoring'',
     lt_description = ''Math lessons'', lt_publicMapPin = False, lt_policyVersion = None, lt_reasonCode = None,
     lt_reviewedById = None\<rparr>\<rparr>"


text \<open>The public form of an offer never carries the provider's address, whatever the offer holds.\<close>
lemma publicOffer_hides_venue:
  "of_providerVenue (fst (publicOffer offer)) = None \<and>
   (\<forall>l. snd (publicOffer offer) = Some l \<longrightarrow> (\<exists>j. of_providerVenue offer = Some j \<and> l = trim (jl_label j)))"
  by (auto simp: publicOffer_def parseJobLocation_def Let_def split: option.splits sum.splits if_splits)


subsection \<open>GCash numbers\<close>

definition strip_plus63 :: "string \<Rightarrow> string" where
  "strip_plus63 s = (if take 3 s = ''+63'' then CHR ''0'' # drop 3 s else s)"

definition is_gcash :: "string \<Rightarrow> bool" where
  "is_gcash s \<longleftrightarrow> length s = 11 \<and> take 2 s = ''09'' \<and>
     list_all (\<lambda>c. (of_char c :: nat) \<in> {48 .. 57}) (drop 2 s)"

definition normalizeGCashNumber :: "string \<Rightarrow> string option" where
  "normalizeGCashNumber raw =
     (let value = trim raw
      in if length value > 24 then None
         else let n = strip_plus63 (filter (\<lambda>c. \<not> js_space c \<and> c \<noteq> CHR ''-'') value)
              in if is_gcash n then Some n else None)"

lemma is_gcash_chars: "is_gcash s \<Longrightarrow> c \<in> set s \<Longrightarrow> \<not> js_space c \<and> c \<noteq> CHR ''-''"
proof -
  assume g: "is_gcash s" and "c \<in> set s"
  then have "c \<in> set (take 2 s) \<or> c \<in> set (drop 2 s)"
    by (metis Un_iff append_take_drop_id set_append)
  with g have "c \<in> {CHR ''0'', CHR ''9''} \<or> (of_char c :: nat) \<in> {48 .. 57}"
    by (auto simp: is_gcash_def list_all_iff)
  then show ?thesis by (auto simp: js_space_def)
qed

lemma trim_clean: "(\<And>c. c \<in> set s \<Longrightarrow> \<not> js_space c) \<Longrightarrow> trim s = s"
proof -
  assume clean: "\<And>c. c \<in> set s \<Longrightarrow> \<not> js_space c"
  have d: "dropWhile js_space xs = xs" if "set xs \<subseteq> set s" for xs
    using that clean by (cases xs) auto
  show ?thesis by (simp add: trim_def d)
qed

text \<open>A stored GCash number is always eleven digits starting with 09, and normalizing it again
  gives it back, so every accepted spelling of a number has one stored form.\<close>
lemma normalizeGCashNumber_normal:
  assumes "normalizeGCashNumber raw = Some n"
  shows "is_gcash n \<and> normalizeGCashNumber n = Some n"
proof -
  have g: "is_gcash n" using assms by (auto simp: normalizeGCashNumber_def Let_def split: if_splits)
  then have "trim n = n" "filter (\<lambda>c. \<not> js_space c \<and> c \<noteq> CHR ''-'') n = n"
    using is_gcash_chars by (auto intro!: trim_clean simp: filter_id_conv)
  moreover have "strip_plus63 n = n"
  proof -
    have "take 3 n \<noteq> ''+63''"
    proof
      assume "take 3 n = ''+63''"
      then have "take 2 (take 3 n) = ''+6''" by (simp only:) simp
      with g show False by (simp add: is_gcash_def)
    qed
    then show ?thesis by (simp add: strip_plus63_def)
  qed
  ultimately show ?thesis using g by (simp add: normalizeGCashNumber_def is_gcash_def)
qed


subsection \<open>Paging of nearby results\<close>

definition nearbyPage :: "'a list \<Rightarrow> nat \<Rightarrow> nat \<Rightarrow> 'a list \<times> nat \<times> nat" where
  "nearbyPage items page limit =
     (let total = length items; totalPages = max 1 ((total + limit - 1) div limit);
          p = min page totalPages
      in (take limit (drop ((p - 1) * limit) items), p, totalPages))"

end
