(* ===== verification/SH_Queue.thy ===== *)
theory SH_Queue
  imports SH_Membership SH_Arrangement "HOL-Library.Multiset" "HOL-Library.Product_Lexorder"
begin

text \<open>
  The paid work queue of a provider (src/src/services/queue.service.ts and
  src/src/services/bookings/queue-metrics.ts): reindexing after every change, the waitlist that is
  told about a free place, and the position and wait a new entry gets.

  The invariant is \<open>compact\<close>: the serving entry, if any, is at position 1, and the waiting entries
  hold the following positions without a gap, in the order in which they were admitted.
\<close>

subsection \<open>The rows of one provider\<close>

definition q_order :: "queue_row \<Rightarrow> int \<times> time \<times> key" where
  "q_order q = (q_position q, q_joinedAt q, q_id q)"

definition is_waiting :: "key \<Rightarrow> queue_row \<Rightarrow> bool" where
  "is_waiting p q \<longleftrightarrow> q_providerId q = p \<and> q_status q = Q_WAITING"
definition is_serving :: "key \<Rightarrow> queue_row \<Rightarrow> bool" where
  "is_serving p q \<longleftrightarrow> q_providerId q = p \<and> q_status q = Q_SERVING"

definition waiting_line :: "key \<Rightarrow> queue_row list \<Rightarrow> queue_row list" where
  "waiting_line p qs = sort_key q_order (filter (is_waiting p) qs)"

definition waiting_count :: "key \<Rightarrow> db \<Rightarrow> nat" where
  "waiting_count p s = count_rows (is_waiting p) (queues s)"
definition serving_count :: "key \<Rightarrow> db \<Rightarrow> nat" where
  "serving_count p s = count_rows (is_serving p) (queues s)"

text \<open>A cash job in progress occupies the provider without a queue entry.\<close>

definition cash_in_progress :: "key \<Rightarrow> booking_row \<Rightarrow> bool" where
  "cash_in_progress p b \<longleftrightarrow> bk_providerId b = p \<and> bk_paymentMethod b = OnsiteCash \<and> bk_started b \<and>
     bk_status b \<in> {B_ONGOING, B_DISPUTED, B_UNDER_REVIEW}"

definition booking_of_entry :: "queue_row \<Rightarrow> db \<Rightarrow> booking_row option" where
  "booking_of_entry q s = Option.bind (q_bookingId q) (\<lambda>b. find_booking b s)"

subsection \<open>Reindexing\<close>

definition place :: "int \<Rightarrow> int \<Rightarrow> queue_row \<Rightarrow> queue_row" where
  "place pos wait q = q\<lparr>q_position := pos, q_estimatedWait := wait\<rparr>"

text \<open>The loop over the waiting entries, which were read, with their bookings, before it. The booking
  update matches \<open>queuePosition: { not: position }\<close>, which in SQL leaves a null column alone.\<close>

definition reseat :: "queue_row \<Rightarrow> int \<Rightarrow> int \<Rightarrow> unit dbtx" where
  "reseat entry position estimatedWait =
     when_tx (q_position entry \<noteq> position \<or> q_estimatedWait entry \<noteq> estimatedWait)
       (upd_queue (q_id entry) (place position estimatedWait))"

definition reseat_booking :: "time \<Rightarrow> booking_row option \<Rightarrow> int \<Rightarrow> unit dbtx" where
  "reseat_booking now booking position =
     (case booking of None \<Rightarrow> ret ()
      | Some b \<Rightarrow> modify (bookings_update (map_rows
           (\<lambda>r. bk_id r = bk_id b \<and> bk_queuePosition r \<noteq> None \<and> bk_queuePosition r \<noteq> Some position)
           (\<lambda>r. r\<lparr>bk_queuePosition := Some position, bk_updatedAt := now\<rparr>))))"

definition booking_minutes :: "booking_row option \<Rightarrow> int" where
  "booking_minutes booking = (case Option.bind booking bk_estimatedDurationMins of None \<Rightarrow> 60 | Some m \<Rightarrow> m)"

fun reindex_entries :: "time \<Rightarrow> int \<Rightarrow> int \<Rightarrow> (queue_row \<times> booking_row option) list \<Rightarrow> unit dbtx" where
  "reindex_entries now position estimatedWait [] = ret ()"
| "reindex_entries now position estimatedWait ((entry, booking) # rest) =
     tx_seq (reseat entry position estimatedWait)
    (tx_seq (reseat_booking now booking position)
    (reindex_entries now (position + 1) (estimatedWait + booking_minutes booking) rest))"

definition initial_wait :: "key \<Rightarrow> db \<Rightarrow> int" where
  "initial_wait p s =
     (let serving = List.find (is_serving p) (queues s);
          cash = (if serving \<noteq> None then None else List.find (cash_in_progress p) (bookings s))
      in case Option.bind (Option.bind serving (\<lambda>q. booking_of_entry q s)) bk_estimatedDurationMins of
           Some m \<Rightarrow> m
         | None \<Rightarrow> (case Option.bind cash bk_estimatedDurationMins of Some m \<Rightarrow> m | None \<Rightarrow> 0))"

definition recalculateQueueInTransaction :: "time \<Rightarrow> key \<Rightarrow> unit dbtx" where
  "recalculateQueueInTransaction now p =
     tx_bind (query (\<lambda>s. (List.find (is_serving p) (queues s), initial_wait p s,
         map (\<lambda>q. (q, booking_of_entry q s)) (waiting_line p (queues s))))) (\<lambda>(serving, wait, entries).
     tx_seq (case serving of None \<Rightarrow> ret () | Some q \<Rightarrow> reseat q 1 0)
     (reindex_entries now (if serving = None then 1 else 2) wait entries))"

subsection \<open>What the loop does to the table\<close>

text \<open>The positions and waits the loop assigns.\<close>

fun seats :: "int \<Rightarrow> int \<Rightarrow> (queue_row \<times> booking_row option) list \<Rightarrow> (key \<times> int \<times> int) list" where
  "seats position wait [] = []"
| "seats position wait ((q, b) # rest) =
     (q_id q, position, wait) # seats (position + 1)
       (wait + booking_minutes b) rest"

definition seat_row :: "(key \<times> int \<times> int) list \<Rightarrow> queue_row \<Rightarrow> queue_row" where
  "seat_row xs q = (case map_of xs (q_id q) of None \<Rightarrow> q | Some (pos, w) \<Rightarrow> place pos w q)"

definition bk_unplaced :: "booking_row \<Rightarrow> booking_row" where
  "bk_unplaced b = b\<lparr>bk_queuePosition := None, bk_updatedAt := 0\<rparr>"

lemma place_id [simp]: "q_id (place a b q) = q_id q" "q_providerId (place a b q) = q_providerId q"
  "q_status (place a b q) = q_status q" "q_bookingId (place a b q) = q_bookingId q"
  "q_position (place a b q) = a" "q_estimatedWait (place a b q) = b" "q_joinedAt (place a b q) = q_joinedAt q"
  "q_paymentStatus (place a b q) = q_paymentStatus q" "q_seekerId (place a b q) = q_seekerId q"
  by (simp_all add: place_def)

lemma place_same: "place (q_position q) (q_estimatedWait q) q = q"
  by (simp add: place_def)

lemma seat_row_Nil [simp]: "seat_row [] = (\<lambda>q. q)"
  by (simp add: seat_row_def fun_eq_iff)

lemma seats_keys: "map fst (seats p w es) = map (q_id \<circ> fst) es"
  by (induction p w es rule: seats.induct) auto

lemma seat_row_id [simp]: "q_id (seat_row xs q) = q_id q"
  "q_providerId (seat_row xs q) = q_providerId q" "q_status (seat_row xs q) = q_status q"
  "q_bookingId (seat_row xs q) = q_bookingId q" "q_joinedAt (seat_row xs q) = q_joinedAt q"
  "q_paymentStatus (seat_row xs q) = q_paymentStatus q" "q_seekerId (seat_row xs q) = q_seekerId q"
  by (auto simp: seat_row_def split: option.splits)

lemma is_waiting_seat [simp]: "is_waiting p (seat_row xs q) = is_waiting p q"
  "is_waiting p (place a b q) = is_waiting p q" "is_serving p (seat_row xs q) = is_serving p q"
  "is_serving p (place a b q) = is_serving p q"
  by (simp_all add: is_waiting_def is_serving_def)

lemma upd_queue_when:
  assumes "distinct (map q_id qs)" "q \<in> set qs"
  shows "map_rows (\<lambda>r. q_id r = q_id q) (place a b) qs =
    map (seat_row [(q_id q, a, b)]) qs"
  using assms by (auto simp: map_rows_def seat_row_def)

lemma seat_row_Cons_notin:
  "k \<notin> fst ` set xs \<Longrightarrow> seat_row xs (seat_row [(k, v)] q) = seat_row ((k, v) # xs) q"
  by (auto simp: seat_row_def split: option.splits prod.splits dest: map_of_SomeD)
     (metis fst_conv image_eqI map_of_SomeD)

text \<open>Both updates are skipped when they would change nothing, so the table ends up as if every
  entry had been written.\<close>

lemma map_rows_skip:
  assumes "distinct (map q_id qs)" "q \<in> set qs"
  shows "(if q_position q \<noteq> a \<or> q_estimatedWait q \<noteq> b
          then map_rows (\<lambda>r. q_id r = q_id q) (place a b) qs else qs)
         = map (seat_row [(q_id q, a, b)]) qs"
proof (cases "q_position q \<noteq> a \<or> q_estimatedWait q \<noteq> b")
  case True
  then show ?thesis using upd_queue_when[OF assms] by simp
next
  case False
  have "seat_row [(q_id q, a, b)] r = r" if "r \<in> set qs" for r
  proof (cases "q_id r = q_id q")
    case True
    then have "r = q" using assms that by (auto simp: distinct_map inj_on_def)
    then show ?thesis using False by (simp add: seat_row_def place_def)
  qed (simp add: seat_row_def)
  then show ?thesis using False by (simp add: map_idI)
qed

lemma reseat_effect:
  assumes "reseat q a b s = Inr (u, s')" "distinct (map q_id (queues s))" "q \<in> set (queues s)"
  shows "s' = s\<lparr>queues := map (seat_row [(q_id q, a, b)]) (queues s)\<rparr>"
  using map_rows_skip[OF assms(2,3), of a b] assms(1)
  by (auto simp: reseat_def upd_queue_def tx_iff split: if_splits)

lemma bk_unplaced_map_rows:
  "map bk_unplaced (map_rows P (\<lambda>r. r\<lparr>bk_queuePosition := v, bk_updatedAt := t\<rparr>) bs) = map bk_unplaced bs"
  by (auto simp: map_rows_def bk_unplaced_def)

lemma reseat_booking_effect:
  assumes "reseat_booking now b pos s = Inr (u, s')"
  shows "s' = s\<lparr>bookings := bookings s'\<rparr> \<and> map bk_unplaced (bookings s') = map bk_unplaced (bookings s)"
  using assms by (cases b) (auto simp: reseat_booking_def tx_iff bk_unplaced_map_rows)

lemma seat_row_other: "q_id r \<notin> fst ` set xs \<Longrightarrow> seat_row xs r = r"
  by (auto simp: seat_row_def split: option.splits dest: map_of_SomeD) (metis fst_conv image_eqI map_of_SomeD)

lemma db_overwrite:
  "s2 = s\<lparr>queues := a, bookings := b\<rparr> \<Longrightarrow>
   s2\<lparr>queues := x, bookings := y\<rparr> = s\<lparr>queues := x, bookings := y\<rparr>"
  by simp

lemma reindex_entries_effect:
  assumes "reindex_entries now pos wait es s = Inr (u, s')" "distinct (map q_id (queues s))"
    "distinct (map (q_id \<circ> fst) es)" "fst ` set es \<subseteq> set (queues s)"
  shows "s' = s\<lparr>queues := map (seat_row (seats pos wait es)) (queues s), bookings := bookings s'\<rparr> \<and>
    map bk_unplaced (bookings s') = map bk_unplaced (bookings s)"
  using assms
proof (induction now pos wait es arbitrary: s rule: reindex_entries.induct)
  case (1 now pos wait)
  then show ?case by (simp add: tx_iff seat_row_def)
next
  case (2 now pos wait q bo rest)
  let ?qs = "map (seat_row [(q_id q, pos, wait)]) (queues s)"
  let ?x = "seats (pos + 1) (wait + booking_minutes bo) rest"
  from "2.prems"(1) obtain u1 s1 u2 s2 where r1: "reseat q pos wait s = Inr (u1, s1)"
    and r2: "reseat_booking now bo pos s1 = Inr (u2, s2)"
    and run: "reindex_entries now (pos + 1) (wait + booking_minutes bo) rest s2 = Inr (u, s')"
    by (auto simp: tx_seq_Inr)
  have s1: "s1 = s\<lparr>queues := ?qs\<rparr>"
    using reseat_effect[OF r1] "2.prems"(2,4) by auto
  note s2 = reseat_booking_effect[OF r2]
  have q2: "queues s2 = ?qs" using s1 s2 by (metis db.select_convs(6) db.update_convs(6,8) db.surjective)
  have d2: "distinct (map q_id (queues s2))" using "2.prems"(2) by (simp add: q2 comp_def)
  have rest_in: "fst ` set rest \<subseteq> set (queues s2)"
  proof
    fix e assume "e \<in> fst ` set rest"
    then have e: "e \<in> set (queues s)" "q_id e \<noteq> q_id q" using "2.prems"(3,4) by force+
    then have "seat_row [(q_id q, pos, wait)] e = e" by (simp add: seat_row_def)
    with e show "e \<in> set (queues s2)" unfolding q2 by (metis image_eqI set_map)
  qed
  have dr: "distinct (map (q_id \<circ> fst) rest)" using "2.prems"(3) by (simp add: comp_def)
  have "fst ` set ?x = (q_id \<circ> fst) ` set rest" by (metis list.set_map seats_keys)
  then have nin: "q_id q \<notin> fst ` set ?x" using "2.prems"(3) by simp
  note IH = "2.IH"[OF run d2 dr rest_in]
  have M: "map (seat_row ?x) (queues s2) = map (seat_row (seats pos wait ((q, bo) # rest))) (queues s)"
    by (simp add: q2 seat_row_Cons_notin[OF nin])
  have e: "s2 = s\<lparr>queues := queues s2, bookings := bookings s2\<rparr>"
    using s1 s2 by (metis db.surjective db.update_convs(6,8) db.select_convs(6))
  have "s' = s2\<lparr>queues := map (seat_row ?x) (queues s2), bookings := bookings s'\<rparr>"
    by (rule IH[THEN conjunct1])
  also have "\<dots> = s\<lparr>queues := map (seat_row ?x) (queues s2), bookings := bookings s'\<rparr>"
    by (rule db_overwrite[OF e])
  finally have "s' = s\<lparr>queues := map (seat_row (seats pos wait ((q, bo) # rest))) (queues s), bookings := bookings s'\<rparr>"
    unfolding M .
  moreover have "map bk_unplaced (bookings s') = map bk_unplaced (bookings s)"
    using IH s1 s2 by (metis db.select_convs(8) db.surjective db.update_convs(6))
  ultimately show ?case by (rule conjI)
qed

subsection \<open>The reindexed queue\<close>

definition queue_ids_distinct :: "db \<Rightarrow> bool" where
  "queue_ids_distinct s \<longleftrightarrow> distinct (map q_id (queues s))"

definition one_serving :: "key \<Rightarrow> queue_row list \<Rightarrow> bool" where
  "one_serving p qs \<longleftrightarrow> count_rows (is_serving p) qs \<le> 1"

definition first_seat :: "key \<Rightarrow> queue_row list \<Rightarrow> int" where
  "first_seat p qs = (if List.find (is_serving p) qs = None then 1 else 2)"

definition compact :: "key \<Rightarrow> queue_row list \<Rightarrow> bool" where
  "compact p qs \<longleftrightarrow> one_serving p qs \<and> (\<forall>q \<in> set qs. is_serving p q \<longrightarrow> q_position q = 1) \<and>
     map q_position (waiting_line p qs) =
       map (\<lambda>i. first_seat p qs + int i) [0..<count_rows (is_waiting p) qs]"

text \<open>The seats a whole run assigns.\<close>

definition entries_of :: "key \<Rightarrow> db \<Rightarrow> (queue_row \<times> booking_row option) list" where
  "entries_of p s = map (\<lambda>q. (q, booking_of_entry q s)) (waiting_line p (queues s))"

definition all_seats :: "key \<Rightarrow> db \<Rightarrow> (key \<times> int \<times> int) list" where
  "all_seats p s = (case List.find (is_serving p) (queues s) of None \<Rightarrow> [] | Some q \<Rightarrow> [(q_id q, 1, 0)]) @
     seats (first_seat p (queues s)) (initial_wait p s) (entries_of p s)"

lemma waiting_line_set [simp]: "set (waiting_line p qs) = {q \<in> set qs. is_waiting p q}"
  by (auto simp: waiting_line_def)

lemma length_waiting_line: "length (waiting_line p (queues s)) = waiting_count p s"
  by (simp add: waiting_line_def waiting_count_def count_rows_def)

lemma mset_waiting_line: "mset (waiting_line p qs) = mset (filter (is_waiting p) qs)"
  by (simp add: waiting_line_def)

lemma distinct_waiting_ids:
  assumes "distinct (map q_id qs)"
  shows "distinct (map q_id (waiting_line p qs))"
proof -
  have "distinct (map q_id (filter (is_waiting p) qs))" using assms by (rule distinct_map_filter)
  moreover have "mset (map q_id (waiting_line p qs)) = mset (map q_id (filter (is_waiting p) qs))"
    by (simp add: mset_waiting_line)
  ultimately show ?thesis by (metis mset_eq_imp_distinct_iff)
qed

lemma find_is_serving: "List.find (is_serving p) qs = Some q \<Longrightarrow> q \<in> set qs \<and> is_serving p q"
  by (auto simp: find_Some_iff)

lemma entries_ids: "map (q_id \<circ> fst) (entries_of p s) = map q_id (waiting_line p (queues s))"
  by (simp add: entries_of_def)

lemma all_seats_keys:
  "fst ` set (all_seats p s) =
     {q_id q |q. q \<in> set (queues s) \<and> is_waiting p q} \<union>
     (case List.find (is_serving p) (queues s) of None \<Rightarrow> {} | Some q \<Rightarrow> {q_id q})"
proof -
  have "fst ` set (seats a w (entries_of p s)) = set (map (q_id \<circ> fst) (entries_of p s))" for a w
    by (metis list.set_map seats_keys)
  then show ?thesis
    by (auto simp: all_seats_def entries_ids split: option.splits)
qed

lemma seat_row_append_notin:
  "q_id q \<notin> fst ` set xs \<Longrightarrow> seat_row (xs @ ys) q = seat_row ys q"
  by (induction xs) (auto simp: seat_row_def)

lemma recalculateQueueInTransaction_effect:
  assumes "recalculateQueueInTransaction now p s = Inr (u, s')" "queue_ids_distinct s"
  shows "s' = s\<lparr>queues := map (seat_row (all_seats p s)) (queues s), bookings := bookings s'\<rparr> \<and>
    map bk_unplaced (bookings s') = map bk_unplaced (bookings s)"
proof -
  let ?sv = "List.find (is_serving p) (queues s)"
  let ?pre = "case ?sv of None \<Rightarrow> [] | Some q \<Rightarrow> [(q_id q, 1, 0)]"
  let ?xs = "seats (first_seat p (queues s)) (initial_wait p s) (entries_of p s)"
  have d: "distinct (map q_id (queues s))" using assms(2) by (simp add: queue_ids_distinct_def)
  from assms(1) obtain u1 s1 where
    r1: "(case ?sv of None \<Rightarrow> ret () | Some q \<Rightarrow> reseat q 1 0) s = Inr (u1, s1)" and
    r2: "reindex_entries now (first_seat p (queues s)) (initial_wait p s) (entries_of p s) s1 = Inr (u, s')"
    by (auto simp: recalculateQueueInTransaction_def tx_bind_Inr query_Inr tx_seq_Inr first_seat_def entries_of_def)
  have s1: "s1 = s\<lparr>queues := map (seat_row ?pre) (queues s)\<rparr>"
  proof (cases ?sv)
    case None
    with r1 show ?thesis by (simp add: tx_iff seat_row_def)
  next
    case (Some q)
    with r1 find_is_serving[OF Some] reseat_effect[of q 1 0 s u1 s1] d show ?thesis by simp
  qed
  have keep: "seat_row ?pre q = q" if "q \<in> set (queues s)" "is_waiting p q" for q
  proof (cases ?sv)
    case (Some r)
    then have "q_id r \<noteq> q_id q"
      using find_is_serving[OF Some] that d
      by (auto simp: is_waiting_def is_serving_def distinct_map dest!: inj_onD)
    with Some show ?thesis by (simp add: seat_row_def)
  qed (simp add: seat_row_def)
  have sub: "fst ` set (entries_of p s) \<subseteq> set (queues s1)"
  proof
    fix e assume "e \<in> fst ` set (entries_of p s)"
    then have "e \<in> set (queues s)" "is_waiting p e" by (auto simp: entries_of_def)
    with keep[of e] show "e \<in> set (queues s1)" by (force simp: s1)
  qed
  have d1: "distinct (map q_id (queues s1))" using d by (simp add: s1 comp_def)
  have de: "distinct (map (q_id \<circ> fst) (entries_of p s))"
    unfolding entries_ids by (rule distinct_waiting_ids[OF d])
  note eff = reindex_entries_effect[OF r2 d1 de sub]
  have M: "map (seat_row ?xs) (queues s1) = map (seat_row (?pre @ ?xs)) (queues s)"
  proof (cases ?sv)
    case None
    then show ?thesis by (simp add: s1 seat_row_def)
  next
    case (Some r)
    have "q_id r \<notin> fst ` set ?xs"
    proof
      assume "q_id r \<in> fst ` set ?xs"
      then have "q_id r \<in> q_id ` set (waiting_line p (queues s))"
        by (metis entries_ids list.set_map seats_keys)
      then obtain w where "w \<in> set (queues s)" "is_waiting p w" "q_id w = q_id r" by auto
      with find_is_serving[OF Some] d show False
        by (auto simp: is_waiting_def is_serving_def distinct_map dest!: inj_onD)
    qed
    with Some show ?thesis by (simp add: s1 seat_row_Cons_notin)
  qed
  have e: "s1 = s\<lparr>queues := queues s1, bookings := bookings s\<rparr>" using s1 by simp
  have "s' = s1\<lparr>queues := map (seat_row ?xs) (queues s1), bookings := bookings s'\<rparr>"
    by (rule eff[THEN conjunct1])
  also have "\<dots> = s\<lparr>queues := map (seat_row ?xs) (queues s1), bookings := bookings s'\<rparr>"
    by (rule db_overwrite[OF e])
  finally have "s' = s\<lparr>queues := map (seat_row (all_seats p s)) (queues s), bookings := bookings s'\<rparr>"
    unfolding M all_seats_def .
  moreover have "map bk_unplaced (bookings s') = map bk_unplaced (bookings s)"
    using eff s1 by simp
  ultimately show ?thesis by (rule conjI)
qed

lemma recalculateQueueInTransaction_total: "\<exists>s'. recalculateQueueInTransaction now p s = Inr ((), s')"
proof -
  have "\<exists>s'. reindex_entries now a w es s = Inr ((), s')" for a w es s
    by (induction now a w es arbitrary: s rule: reindex_entries.induct)
       (auto simp: tx_eval reseat_def reseat_booking_def upd_queue_def split: option.splits)
  then show ?thesis
    by (auto simp: recalculateQueueInTransaction_def tx_eval reseat_def upd_queue_def split: option.splits)
qed

subsection \<open>The line keeps its order\<close>

lemma sorted_by_position:
  "sorted_wrt (<) (map q_position xs) \<Longrightarrow> sorted (map q_order xs)"
  by (induction xs) (auto simp: q_order_def less_eq_prod_def)

lemma seats_lookup:
  "distinct (map (q_id \<circ> fst) es) \<Longrightarrow> i < length es \<Longrightarrow>
   seat_row (seats a w es) (fst (es ! i)) =
     place (a + int i) (w + sum_list (map (booking_minutes \<circ> snd) (take i es))) (fst (es ! i))"
proof (induction a w es arbitrary: i rule: seats.induct)
  case (2 a w q b rest)
  show ?case
  proof (cases i)
    case (Suc j)
    then have j: "j < length rest" using "2.prems" by simp
    then have "rest ! j \<in> set rest" by simp
    then have "q_id (fst (rest ! j)) \<noteq> q_id q" using "2.prems"(1) by force
    then have "seat_row (seats a w ((q, b) # rest)) (fst (rest ! j)) =
        seat_row (seats (a + 1) (w + booking_minutes b) rest) (fst (rest ! j))"
      by (simp add: seat_row_def)
    with "2.IH"[OF _ j] "2.prems" Suc show ?thesis by (simp add: algebra_simps comp_def)
  qed (simp add: seat_row_def)
qed simp

lemma all_seats_lookup:
  assumes "queue_ids_distinct s" "i < waiting_count p s"
  shows "seat_row (all_seats p s) (waiting_line p (queues s) ! i) =
    place (first_seat p (queues s) + int i)
      (initial_wait p s + sum_list (map (\<lambda>q. booking_minutes (booking_of_entry q s)) (take i (waiting_line p (queues s)))))
      (waiting_line p (queues s) ! i)"
proof -
  let ?q = "waiting_line p (queues s) ! i" let ?es = "entries_of p s"
  have i: "i < length ?es" "fst (?es ! i) = ?q"
    using assms(2) by (simp_all add: entries_of_def length_waiting_line)
  have d: "distinct (map q_id (queues s))" using assms(1) by (simp add: queue_ids_distinct_def)
  have qin: "?q \<in> set (queues s)" "is_waiting p ?q"
    using nth_mem[of i "waiting_line p (queues s)"] assms(2) by (auto simp: length_waiting_line)
  have skip: "seat_row (all_seats p s) ?q = seat_row (seats (first_seat p (queues s)) (initial_wait p s) ?es) ?q"
  proof (cases "List.find (is_serving p) (queues s)")
    case (Some r)
    then have "q_id r \<noteq> q_id ?q"
      using find_is_serving[OF Some] qin d
      by (auto simp: is_waiting_def is_serving_def distinct_map dest!: inj_onD)
    with Some show ?thesis by (simp add: all_seats_def seat_row_def)
  qed (simp add: all_seats_def)
  have "distinct (map (q_id \<circ> fst) ?es)" unfolding entries_ids by (rule distinct_waiting_ids[OF d])
  from seats_lookup[OF this i(1)] skip i(2) show ?thesis
    by (simp add: entries_of_def take_map comp_def)
qed

lemma sorted_wrt_shift: "sorted_wrt (<) (map (\<lambda>i. a + int i) [0..<n])"
  by (simp add: sorted_wrt_iff_nth_less)

lemma reindexed_line:
  assumes "queue_ids_distinct s"
  shows "waiting_line p (map (seat_row (all_seats p s)) (queues s)) =
    map (seat_row (all_seats p s)) (waiting_line p (queues s))" (is "_ = ?ys")
    and "map q_position (map (seat_row (all_seats p s)) (waiting_line p (queues s))) =
      map (\<lambda>i. first_seat p (queues s) + int i) [0..<waiting_count p s]"
proof -
  have pos: "map q_position ?ys = map (\<lambda>i. first_seat p (queues s) + int i) [0..<waiting_count p s]"
    by (rule nth_equalityI) (simp_all add: length_waiting_line all_seats_lookup[OF assms])
  show "map q_position ?ys = map (\<lambda>i. first_seat p (queues s) + int i) [0..<waiting_count p s]" by (rule pos)
  have d: "distinct (map q_id (queues s))" using assms by (simp add: queue_ids_distinct_def)
  let ?f = "filter (is_waiting p) (map (seat_row (all_seats p s)) (queues s))"
  have f: "?f = map (seat_row (all_seats p s)) (filter (is_waiting p) (queues s))"
    by (simp add: filter_map comp_def)
  have "mset ?f = mset ?ys" by (simp add: f mset_waiting_line)
  moreover have "inj_on q_order (set ?f)"
    by (rule inj_onI) (use d in \<open>auto simp: q_order_def distinct_map dest: inj_onD\<close>)
  moreover have "sorted (map q_order ?ys)"
    by (rule sorted_by_position) (simp only: pos sorted_wrt_shift)
  ultimately show "waiting_line p (map (seat_row (all_seats p s)) (queues s)) = ?ys"
    unfolding waiting_line_def[of p "map _ _"] by (rule sort_key_inj_key_eq)
qed

text \<open>The part of the table that the line of one provider depends on: its active rows, without the
  payment columns and the wait.\<close>

definition q_core :: "queue_row \<Rightarrow> queue_row" where
  "q_core q = q\<lparr>q_paymentStatus := P_UNPAID, q_paymongoPaymentId := None, q_estimatedWait := 0\<rparr>"

definition line_view :: "key \<Rightarrow> db \<Rightarrow> queue_row list" where
  "line_view p s = map q_core (filter (\<lambda>q. is_waiting p q \<or> is_serving p q) (queues s))"

lemma q_core_simps [simp]: "q_id (q_core q) = q_id q" "q_position (q_core q) = q_position q"
  "is_waiting p (q_core q) = is_waiting p q" "is_serving p (q_core q) = is_serving p q"
  "q_order (q_core q) = q_order q"
  by (simp_all add: q_core_def is_waiting_def is_serving_def q_order_def)

lemma sort_key_map_same:
  "(\<And>x. f (g x) = f x) \<Longrightarrow> sort_key f (map g xs) = map g (sort_key f xs)"
proof (induction xs)
  case (Cons x xs)
  have "insort_key f (g x) (map g ys) = map g (insort_key f x ys)" for ys
    by (induction ys) (auto simp: Cons.prems)
  with Cons show ?case by (simp add: sort_key_def)
qed simp

lemma find_filter_weaker: "(\<And>x. P x \<Longrightarrow> Q x) \<Longrightarrow> List.find P (filter Q xs) = List.find P xs"
  by (induction xs) auto

lemma find_map_same: "(\<And>x. P (f x) = P x) \<Longrightarrow> List.find P (map f xs) = map_option f (List.find P xs)"
  by (induction xs) auto

lemma filter_filter_weaker: "(\<And>x. P x \<Longrightarrow> Q x) \<Longrightarrow> filter P (filter Q xs) = filter P xs"
  by (induction xs) auto

lemma line_view_line [simp]: "waiting_line p (line_view p s) = map q_core (waiting_line p (queues s))"
  by (simp add: waiting_line_def line_view_def filter_map comp_def filter_filter_weaker
      sort_key_map_same del: filter_filter)

lemma line_view_compact: "compact p (line_view p s) = compact p (queues s)"
proof -
  have n: "count_rows (is_waiting p) (line_view p s) = count_rows (is_waiting p) (queues s)"
    "one_serving p (line_view p s) = one_serving p (queues s)"
    by (simp_all add: one_serving_def count_rows_def line_view_def filter_map comp_def
        filter_filter_weaker del: filter_filter)
  have f: "first_seat p (line_view p s) = first_seat p (queues s)"
    by (simp add: first_seat_def line_view_def find_map_same find_filter_weaker)
  have "(\<forall>q \<in> set (line_view p s). is_serving p q \<longrightarrow> q_position q = 1) =
      (\<forall>q \<in> set (queues s). is_serving p q \<longrightarrow> q_position q = 1)"
    by (auto simp: line_view_def)
  with n f show ?thesis by (simp add: compact_def comp_def)
qed

lemma line_view_one_serving: "one_serving p (line_view p s) = one_serving p (queues s)"
  by (simp add: one_serving_def count_rows_def line_view_def filter_map comp_def
        filter_filter_weaker del: filter_filter)

lemma count_map_seat [simp]: "count_rows (is_waiting p) (map (seat_row xs) qs) = count_rows (is_waiting p) qs"
  "count_rows (is_serving p) (map (seat_row xs) qs) = count_rows (is_serving p) qs"
  by (simp_all add: count_rows_def filter_map comp_def)

lemma first_seat_map [simp]: "first_seat p (map (seat_row xs) qs) = first_seat p qs"
  by (simp add: first_seat_def find_map_same)

lemma serving_unique:
  assumes "one_serving p qs" "List.find (is_serving p) qs = Some q" "r \<in> set qs" "is_serving p r"
  shows "r = q"
proof -
  have "r \<in> set (filter (is_serving p) qs)" "q \<in> set (filter (is_serving p) qs)"
    using assms find_is_serving by auto
  moreover have "length (filter (is_serving p) qs) \<le> 1"
    using assms(1) by (simp add: one_serving_def count_rows_def)
  ultimately show ?thesis by (cases "filter (is_serving p) qs") auto
qed

lemma recalculateQueueInTransaction_compact:
  assumes "queue_ids_distinct s" "one_serving p (queues s)"
    "recalculateQueueInTransaction now p s = Inr (u, s')"
  shows "compact p (queues s')"
proof -
  let ?f = "seat_row (all_seats p s)"
  have q': "queues s' = map ?f (queues s)"
    using recalculateQueueInTransaction_effect[OF assms(3,1)] by (metis db.select_convs(6) db.surjective db.update_convs(6,8))
  have "q_position (?f q) = 1" if q: "q \<in> set (queues s)" "is_serving p q" for q
  proof -
    from q obtain r where f: "List.find (is_serving p) (queues s) = Some r"
      by (cases "List.find (is_serving p) (queues s)") (auto simp: find_None_iff)
    have "q = r" by (rule serving_unique[OF assms(2) f q])
    then show ?thesis by (simp add: seat_row_def all_seats_def f)
  qed
  then show ?thesis
    using assms(2) unfolding compact_def q' reindexed_line(1)[OF assms(1)] reindexed_line(2)[OF assms(1)]
    by (auto simp: one_serving_def waiting_count_def)
qed

lemma recalculateQueueInTransaction_queues:
  assumes "queue_ids_distinct s" "recalculateQueueInTransaction now p s = Inr (u, s')"
  shows "queues s' = map (seat_row (all_seats p s)) (queues s)"
  using recalculateQueueInTransaction_effect[OF assms(2,1)]
  by (metis db.select_convs(6) db.surjective db.update_convs(6,8))

lemma seated_rows:
  assumes "queue_ids_distinct s" "q \<in> set (queues s)" "\<not> is_waiting p q" "\<not> is_serving p q"
  shows "seat_row (all_seats p s) q = q"
proof (rule seat_row_other)
  have d: "distinct (map q_id (queues s))" using assms(1) by (simp add: queue_ids_distinct_def)
  show "q_id q \<notin> fst ` set (all_seats p s)"
    unfolding all_seats_keys using d assms(2-) find_is_serving[of p "queues s"]
    by (auto simp: distinct_map split: option.splits dest: inj_onD)
qed

lemma owner_differs: "is_waiting p q \<or> is_serving p q \<Longrightarrow> is_waiting r q \<or> is_serving r q \<Longrightarrow> p = r"
  by (auto simp: is_waiting_def is_serving_def)

lemma recalculateQueueInTransaction_others:
  assumes "queue_ids_distinct s" "recalculateQueueInTransaction now p s = Inr (u, s')" "r \<noteq> p"
  shows "filter (\<lambda>q. q_providerId q = r) (queues s') = filter (\<lambda>q. q_providerId q = r) (queues s)"
    and "line_view r s' = line_view r s"
proof -
  note q' = recalculateQueueInTransaction_queues[OF assms(1,2)]
  have same: "seat_row (all_seats p s) q = q" if "q \<in> set (queues s)" "q_providerId q = r" for q
    by (rule seated_rows[OF assms(1) that(1)]) (use that assms(3) in \<open>auto simp: is_waiting_def is_serving_def\<close>)
  show "filter (\<lambda>q. q_providerId q = r) (queues s') = filter (\<lambda>q. q_providerId q = r) (queues s)"
    unfolding q' filter_map by (auto simp: comp_def intro!: map_idI same)
  show "line_view r s' = line_view r s"
    unfolding line_view_def q' filter_map
    by (auto simp: comp_def intro!: map_cong arg_cong[where f = q_core] same)
      (auto simp: is_waiting_def is_serving_def)
qed

lemma recalculateQueueInTransaction_ids:
  assumes "queue_ids_distinct s" "recalculateQueueInTransaction now p s = Inr (u, s')"
  shows "queue_ids_distinct s'"
  using assms(1) unfolding queue_ids_distinct_def recalculateQueueInTransaction_queues[OF assms]
  by (simp add: comp_def)

subsection \<open>The contract of a per-owner index\<close>

text \<open>
  What the callers rely on: a table of which every owner sees a part (\<open>view\<close>), a condition \<open>wf\<close> on
  that part, a weaker one \<open>ok\<close> that a caller must leave behind, and an operation that restores \<open>wf\<close>
  for one owner without touching the others. \<open>base\<close> is what the whole table satisfies. \<open>dirty p\<close> is
  the state between a change of the rows of \<open>p\<close> and the reindexing.
\<close>

locale owned_index =
  fixes view :: "'o \<Rightarrow> 's \<Rightarrow> 'v"
    and base :: "'s \<Rightarrow> bool"
    and ok :: "'o \<Rightarrow> 'v \<Rightarrow> bool"
    and wf :: "'o \<Rightarrow> 'v \<Rightarrow> bool"
    and reindex :: "'o \<Rightarrow> ('s, unit) tx"
  assumes wf_ok: "wf p v \<Longrightarrow> ok p v"
    and reindex_wf: "base s \<Longrightarrow> ok p (view p s) \<Longrightarrow> reindex p s = Inr (u, s') \<Longrightarrow> wf p (view p s')"
    and reindex_frame: "base s \<Longrightarrow> reindex p s = Inr (u, s') \<Longrightarrow> r \<noteq> p \<Longrightarrow> view r s' = view r s"
    and reindex_base: "base s \<Longrightarrow> reindex p s = Inr (u, s') \<Longrightarrow> base s'"
begin

definition all_wf :: "'s \<Rightarrow> bool" where
  "all_wf s \<longleftrightarrow> base s \<and> (\<forall>p. wf p (view p s))"

definition dirty :: "'o \<Rightarrow> 's \<Rightarrow> bool" where
  "dirty p s \<longleftrightarrow> base s \<and> ok p (view p s) \<and> (\<forall>r. r \<noteq> p \<longrightarrow> wf r (view r s))"

lemma all_wf_dirty: "all_wf s \<Longrightarrow> dirty p s"
  by (simp add: all_wf_def dirty_def wf_ok)

lemma reindex_cleans:
  assumes "dirty p s" "reindex p s = Inr (u, s')"
  shows "all_wf s'"
  using assms reindex_wf[of s p u s'] reindex_frame[of s p u s'] reindex_base[of s p u s']
  unfolding all_wf_def dirty_def by (metis (full_types))

lemma keeps_all_wf:
  assumes "keeps base m" "\<And>p. leaves (view p) m"
  shows "keeps all_wf m"
proof (rule keepsI)
  fix s x s' assume s: "all_wf s" "m s = Inr (x, s')"
  have "view p s' = view p s" for p by (rule leavesD[OF assms(2) s(2)])
  with s keepsD[OF assms(1) s(2)] show "all_wf s'" by (simp add: all_wf_def)
qed

lemma keeps_dirty:
  assumes "keeps base m" "\<And>r. r \<noteq> p \<Longrightarrow> leaves (view r) m"
    "\<And>s x s'. base s \<Longrightarrow> ok p (view p s) \<Longrightarrow> m s = Inr (x, s') \<Longrightarrow> ok p (view p s')"
  shows "keeps (dirty p) m"
proof (rule keepsI)
  fix s x s' assume s: "dirty p s" "m s = Inr (x, s')"
  have "view r s' = view r s" if "r \<noteq> p" for r by (rule leavesD[OF assms(2)[OF that] s(2)])
  with s keepsD[OF assms(1) s(2)] assms(3)[of s x s'] show "dirty p s'" by (simp add: dirty_def)
qed

lemma change_then_reindex:
  assumes "all_wf s" "keeps (dirty p) m" "tx_seq m (reindex p) s = Inr (u, s')"
  shows "all_wf s'"
  using assms(3) all_wf_dirty[OF assms(1)]
  by (auto simp: tx_seq_Inr intro: reindex_cleans keepsD[OF assms(2)])

end

interpretation queue_index: owned_index line_view queue_ids_distinct one_serving compact
  "recalculateQueueInTransaction now" for now
proof unfold_locales
  show "compact p v \<Longrightarrow> one_serving p v" for p v by (simp add: compact_def)
qed (unfold line_view_one_serving line_view_compact,
    (rule recalculateQueueInTransaction_ids recalculateQueueInTransaction_compact
      recalculateQueueInTransaction_others(2), assumption+)+)

text \<open>The lines of all providers are compact; all but one are, and that one has one serving entry.\<close>

definition queue_wf :: "db \<Rightarrow> bool" where
  "queue_wf s \<longleftrightarrow> queue_ids_distinct s \<and> (\<forall>p. compact p (queues s))"

definition queue_dirty :: "key \<Rightarrow> db \<Rightarrow> bool" where
  "queue_dirty p s \<longleftrightarrow> queue_ids_distinct s \<and> one_serving p (queues s) \<and>
     (\<forall>r. r \<noteq> p \<longrightarrow> compact r (queues s))"

lemma queue_index_wf: "queue_index.all_wf = queue_wf" "queue_index.dirty = queue_dirty"
  by (simp_all add: fun_eq_iff queue_index.all_wf_def queue_index.dirty_def queue_wf_def
      queue_dirty_def line_view_compact line_view_one_serving)

lemmas queue_wf_rules = queue_index.all_wf_dirty [unfolded queue_index_wf]
  queue_index.reindex_cleans [unfolded queue_index_wf]

subsection \<open>Properties of the reindexing\<close>

lemma recalculateQueueInTransaction_line:
  assumes "queue_ids_distinct s" "recalculateQueueInTransaction now p s = Inr (u, s')"
  shows "waiting_line p (queues s') = map (seat_row (all_seats p s)) (waiting_line p (queues s))"
  unfolding recalculateQueueInTransaction_queues[OF assms] by (rule reindexed_line(1)[OF assms(1)])

definition sample_queue :: "key \<Rightarrow> key \<Rightarrow> queue_status \<Rightarrow> int \<Rightarrow> time \<Rightarrow> queue_row" where
  "sample_queue i p st pos t = \<lparr>q_id = i, q_providerId = p, q_serviceId = None, q_seekerId = 100 + i,
     q_offerId = None, q_paymentId = ''pi'', q_paymongoPaymentId = None, q_paymentStatus = P_PAID_HELD,
     q_position = pos, q_status = st, q_estimatedWait = 0, q_joinedAt = t, q_bookingId = None\<rparr>"

definition sample_line :: db where
  "sample_line = empty_db\<lparr>queues := [sample_queue 1 7 Q_WAITING 4 10, sample_queue 2 7 Q_SERVING 1 0,
     sample_queue 3 7 Q_WAITING 3 20, sample_queue 4 8 Q_WAITING 1 0, sample_queue 5 7 Q_DONE 2 0]\<rparr>"


lemma sample_line_ok: "queue_ids_distinct sample_line" "one_serving 7 (queues sample_line)"
  by code_simp+


text \<open>After reindexing, the wait shown to the i-th waiting entry is the duration of the job in
  service (queued or cash) plus the durations of the waiting jobs before it, each unknown one
  counting an hour; nothing else of the entry changes but its position.\<close>

lemma recalculateQueue_waits:
  assumes "queue_ids_distinct s" "recalculateQueueInTransaction now p s = Inr (u, s')"
    "i < waiting_count p s"
  shows "waiting_line p (queues s') ! i =
    place (first_seat p (queues s) + int i)
      (initial_wait p s + sum_list (map (\<lambda>q. booking_minutes (booking_of_entry q s))
         (take i (waiting_line p (queues s)))))
      (waiting_line p (queues s) ! i)"
  using assms(3) by (simp add: recalculateQueueInTransaction_line[OF assms(1,2)] length_waiting_line
      all_seats_lookup[OF assms(1)])


text \<open>Reindexing again finds the same seats.\<close>

lemma seats_cong:
  "map (\<lambda>(q, b). (q_id q, booking_minutes b)) es = map (\<lambda>(q, b). (q_id q, booking_minutes b)) fs \<Longrightarrow>
   seats a w es = seats a w fs"
proof (induction a w es arbitrary: fs rule: seats.induct)
  case (2 a w q b rest)
  then obtain q2 b2 fs2 where "fs = (q2, b2) # fs2" by (cases fs) auto
  with "2.prems" "2.IH"[of fs2] show ?case by simp
qed simp

lemma unplaced_find:
  assumes "map bk_unplaced xs = map bk_unplaced ys" "\<And>b. P (bk_unplaced b) = P b"
  shows "map_option bk_unplaced (List.find P xs) = map_option bk_unplaced (List.find P ys)"
  using assms by (metis find_map_same)

lemma unplaced_duration:
  "map_option bk_unplaced x = map_option bk_unplaced y \<Longrightarrow>
   Option.bind x bk_estimatedDurationMins = Option.bind y bk_estimatedDurationMins"
proof (cases x; cases y)
  fix a b assume *: "map_option bk_unplaced x = map_option bk_unplaced y" "x = Some a" "y = Some b"
  then have "bk_unplaced a = bk_unplaced b" by simp
  then have "bk_estimatedDurationMins (bk_unplaced a) = bk_estimatedDurationMins (bk_unplaced b)"
    by (rule arg_cong)
  then have "bk_estimatedDurationMins a = bk_estimatedDurationMins b" by (simp add: bk_unplaced_def)
  with * show ?thesis by simp
qed simp_all

lemma all_seats_again:
  assumes "queue_ids_distinct s" "recalculateQueueInTransaction now p s = Inr (u, s')"
  shows "all_seats p s' = all_seats p s"
proof -
  have bk: "map bk_unplaced (bookings s') = map bk_unplaced (bookings s)"
    using recalculateQueueInTransaction_effect[OF assms(2,1)] by blast
  note q' = recalculateQueueInTransaction_queues[OF assms]
  have "map_option bk_unplaced (find_booking i s') = map_option bk_unplaced (find_booking i s)" for i
    unfolding find_booking_def find_row_def by (rule unplaced_find[OF bk]) (simp add: bk_unplaced_def)
  then have dur: "Option.bind (find_booking i s') bk_estimatedDurationMins =
      Option.bind (find_booking i s) bk_estimatedDurationMins" for i
    by (rule unplaced_duration)
  have same: "Option.bind (booking_of_entry (seat_row xs q) s') bk_estimatedDurationMins =
      Option.bind (booking_of_entry q s) bk_estimatedDurationMins" for xs q
    by (cases "q_bookingId q") (simp_all add: booking_of_entry_def dur)
  have sv: "List.find (is_serving p) (queues s') =
      map_option (seat_row (all_seats p s)) (List.find (is_serving p) (queues s))"
    unfolding q' by (simp add: find_map_same)
  have cash: "Option.bind (List.find (cash_in_progress p) (bookings s')) bk_estimatedDurationMins =
      Option.bind (List.find (cash_in_progress p) (bookings s)) bk_estimatedDurationMins"
    by (rule unplaced_duration[OF unplaced_find[OF bk]]) (simp add: cash_in_progress_def bk_unplaced_def)
  have wait: "initial_wait p s' = initial_wait p s"
    by (cases "List.find (is_serving p) (queues s)") (simp_all add: initial_wait_def Let_def sv cash same)
  have "seats a w (entries_of p s') = seats a w (entries_of p s)" for a w
    by (rule seats_cong)
      (simp add: entries_of_def recalculateQueueInTransaction_line[OF assms] booking_minutes_def same)
  moreover have "first_seat p (queues s') = first_seat p (queues s)" by (simp add: q')
  ultimately show ?thesis
    by (cases "List.find (is_serving p) (queues s)") (simp_all add: all_seats_def sv wait)
qed

text \<open>Reindexing is idempotent on the queue: running it a second time, as the completion of a job
  does, changes no entry.\<close>

lemma recalculateQueue_idempotent:
  assumes "queue_ids_distinct s" "recalculateQueueInTransaction now p s = Inr (u, s1)"
    "recalculateQueueInTransaction now p s1 = Inr (v, s2)"
  shows "queues s2 = queues s1"
proof -
  have twice: "seat_row xs (seat_row xs q) = seat_row xs q" for xs q
    by (simp add: seat_row_def place_def split: option.splits)
  have "queue_ids_distinct s1" by (rule recalculateQueueInTransaction_ids[OF assms(1,2)])
  from recalculateQueueInTransaction_queues[OF this assms(3)] recalculateQueueInTransaction_queues[OF assms(1,2)]
  show ?thesis by (simp add: all_seats_again[OF assms(1,2)] twice)
qed


subsection \<open>The waitlist\<close>

text \<open>\<open>orderBy: [requestedAt asc, id asc]\<close> over the waitlist rows of the provider's services.\<close>

definition waitlist_of :: "key \<Rightarrow> db \<Rightarrow> queue_notify_row list" where
  "waitlist_of p s = sort_key (\<lambda>w. (qn_requestedAt w, qn_id w))
     (filter (\<lambda>w. case find_service (qn_serviceId w) s of None \<Rightarrow> False | Some v \<Rightarrow> sv_providerId v = p)
       (queueNotifies s))"

definition notifyWaitlistInTransaction :: "time \<Rightarrow> key \<Rightarrow> (key \<times> string) option dbtx" where
  "notifyWaitlistInTransaction now providerId =
     tx_bind (query (\<lambda>s. (find_user providerId s, waiting_count providerId s, waitlist_of providerId s)))
     (\<lambda>(provider, waitingCount, waitlist).
       (case provider of None \<Rightarrow> ret None
        | Some u \<Rightarrow>
          if \<not> bn_marketplaceAccess (subscriptionBenefits u now) then ret None
          else if u_onlineQueueLimit u \<le> waitingCount then ret None
          else (case waitlist of [] \<Rightarrow> ret None
           | first # _ \<Rightarrow>
             tx_seq (notify (qn_seekerId first) ''Queue slot available'')
            (tx_seq (modify (queueNotifies_update (filter (\<lambda>w. qn_id w \<noteq> qn_id first))))
             (ret (Some (qn_seekerId first, ''Queue slot available'')))))))"

definition emitWaitlistNotification :: "(key \<times> string) option \<Rightarrow> unit dbtx" where
  "emitWaitlistNotification notification =
     (case notification of None \<Rightarrow> ret ()
      | Some (seekerId, title) \<Rightarrow> emit (RUser seekerId) ''notification'' title)"

text \<open>The message types of the queue refresh; \<open>queue_update\<close> carries the current size.\<close>

definition emitProviderQueueUpdates :: "key \<Rightarrow> key list \<Rightarrow> unit dbtx" where
  "emitProviderQueueUpdates providerId skipped =
     tx_bind (query (\<lambda>s. (js_set (map q_seekerId (filter (is_waiting providerId) (queues s))),
        filter (\<lambda>v. sv_providerId v = providerId \<and> sv_status v = S_ACTIVE \<and> sv_isAvailable v) (services s))))
     (\<lambda>(seekers, svs).
       tx_seq (when_tx (providerId \<notin> set skipped)
         (emit (RUser providerId) ''ENGAGEMENT_CHANGED'' ''provider_queue_changed''))
      (tx_seq (for_each (\<lambda>k. when_tx (k \<notin> set skipped)
         (emit (RUser k) ''ENGAGEMENT_CHANGED'' ''provider_queue_changed'')) seekers)
      (for_each (\<lambda>v. emit (RService (sv_id v)) ''queue_update'' ''current_size'') svs)))"

definition recalculateQueue :: "time \<Rightarrow> key \<Rightarrow> unit dbtx" where
  "recalculateQueue now providerId =
     tx_seq (recalculateQueueInTransaction now providerId) (emitProviderQueueUpdates providerId [])"

definition notifyWaitlist :: "time \<Rightarrow> key \<Rightarrow> unit dbtx" where
  "notifyWaitlist now providerId =
     tx_bind (notifyWaitlistInTransaction now providerId) emitWaitlistNotification"

subsection \<open>Queue metrics\<close>

definition getNextQueuePosition :: "key \<Rightarrow> db \<Rightarrow> int" where
  "getNextQueuePosition p s =
     (case filter (\<lambda>q. is_serving p q \<or> is_waiting p q) (queues s) of [] \<Rightarrow> 1
      | q # qs \<Rightarrow> Max (q_position ` set (q # qs)) + 1)"

definition calculateEstimatedWait :: "key \<Rightarrow> int \<Rightarrow> db \<Rightarrow> int" where
  "calculateEstimatedWait p position s =
     sum_list (map (\<lambda>q. booking_minutes (booking_of_entry q s))
       (filter (\<lambda>q. (is_serving p q \<or> is_waiting p q) \<and> q_position q < position) (queues s)))"

text \<open>Operations that leave the line alone keep the queue well formed.\<close>

lemma line_view_cong: "queues s' = queues s \<Longrightarrow> line_view p s' = line_view p s"
  by (simp add: line_view_def)

lemma keeps_queue_wf:
  assumes "leaves queues m"
  shows "keeps queue_wf m" "keeps (queue_dirty p) m" "keeps queue_ids_distinct m"
proof -
  have "queues s' = queues s" if "m s = Inr (x, s')" for s x s' by (rule leavesD[OF assms that])
  then show "keeps queue_wf m" "keeps (queue_dirty p) m" "keeps queue_ids_distinct m"
    unfolding keeps_def queue_wf_def queue_dirty_def queue_ids_distinct_def by metis+
qed

lemma notify_row_Inr [tx_iff]:
  "notify_row r s = Inr (u, s') \<longleftrightarrow> nt_id r \<notin> nt_id ` set (notifications s) \<and>
     s' = s\<lparr>notifications := notifications s @ [r]\<rparr>"
  by (simp add: notify_row_def) (metis (no_types) imageE image_eqI)

lemma leaves_queues_parts [tx_pres]:
  "leaves queues (notify_as k u t)" "leaves queues (notify u t)" "leaves queues (emit r e t)"
  "leaves queues (audit a tg act res)" "leaves queues (upd_user i fu)" "leaves queues (upd_offer i fo)"
  "leaves queues (upd_request i fr)" "leaves queues (upd_booking now i fb)" "leaves queues (upd_attempt i fa)"
  "leaves queues (upd_directRequest i fd)" "leaves queues fresh_id" "leaves queues (upd_refunds pr fr2)"
  "leaves queues (upd_cancellation i fc)" "leaves queues (upd_reports prp frp)"
  "leaves queues (upd_escalations pe fe)" "leaves queues (upd_operation i fop)"
  by (auto simp: leaves_def keeps_def notify_as_def notify_def emit_def audit_def upd_user_def
      upd_offer_def upd_request_def upd_booking_def upd_attempt_def upd_directRequest_def
      fresh_id_def upd_refunds_def upd_cancellation_def upd_reports_def upd_escalations_def
      upd_operation_def tx_iff)

text \<open>The next free position is right behind the line.\<close>

lemma compact_serving:
  assumes "compact p qs" "q \<in> set qs" "is_serving p q"
  shows "q_position q = 1" "first_seat p qs = 2"
  using assms by (auto simp: compact_def first_seat_def find_None_iff)

lemma compact_waiting_positions:
  assumes "compact p qs"
  shows "q_position ` set (waiting_line p qs) =
    (\<lambda>i. first_seat p qs + int i) ` {..<count_rows (is_waiting p) qs}"
proof -
  have "q_position ` set (waiting_line p qs) = set (map q_position (waiting_line p qs))" by simp
  also have "\<dots> = (\<lambda>i. first_seat p qs + int i) ` {..<count_rows (is_waiting p) qs}"
    using assms by (simp add: compact_def atLeast0LessThan del: waiting_line_set)
  finally show ?thesis .
qed

lemma getNextQueuePosition_compact:
  assumes "compact p (queues s)"
  shows "getNextQueuePosition p s = int (serving_count p s + waiting_count p s) + 1"
proof (cases "filter (\<lambda>q. is_serving p q \<or> is_waiting p q) (queues s)")
  case Nil
  then have "\<forall>q \<in> set (queues s). \<not> is_serving p q" "\<forall>q \<in> set (queues s). \<not> is_waiting p q"
    by (auto simp: filter_empty_conv)
  then have "serving_count p s = 0" "waiting_count p s = 0"
    by (auto simp: serving_count_def waiting_count_def count_rows_0)
  with Nil show ?thesis by (simp add: getNextQueuePosition_def)
next
  case (Cons q qs)
  let ?n = "waiting_count p s" and ?c = "serving_count p s"
  define A where "A = {q \<in> set (queues s). is_serving p q}"
  define B where "B = {q \<in> set (queues s). is_waiting p q}"
  have "set (filter (\<lambda>q. is_serving p q \<or> is_waiting p q) (queues s)) = A \<union> B" by (auto simp: A_def B_def)
  then have all: "set (q # qs) = A \<union> B" by (simp add: Cons)
  have c: "?c \<le> 1" using assms by (simp add: compact_def one_serving_def serving_count_def)
  have c0: "?c = 0 \<longleftrightarrow> A = {}" by (auto simp: serving_count_def count_rows_0 A_def)
  have fs: "first_seat p (queues s) = int ?c + 1"
    using c c0 by (auto simp: first_seat_def find_None_iff A_def)
  have pa: "q_position ` A \<subseteq> {1}" using compact_serving(1)[OF assms] by (auto simp: A_def)
  have "B = set (waiting_line p (queues s))" by (auto simp: B_def)
  then have pb: "q_position ` B = (\<lambda>i. int ?c + 1 + int i) ` {..<?n}"
    using compact_waiting_positions[OF assms] by (simp add: fs waiting_count_def)
  have "Max (q_position ` (A \<union> B)) = int (?c + ?n)"
  proof (rule Max_eqI)
    show "finite (q_position ` (A \<union> B))" by (simp add: A_def B_def)
    show "y \<le> int (?c + ?n)" if "y \<in> q_position ` (A \<union> B)" for y
      using that pa pb c c0 by (force simp: image_Un)
    show "int (?c + ?n) \<in> q_position ` (A \<union> B)"
    proof (cases ?n)
      case 0
      then have "A \<noteq> {}" using all pb by auto
      with pa c c0 0 show ?thesis by (force simp: image_Un)
    next
      case (Suc m)
      then have "int (?c + ?n) = int ?c + 1 + int m \<and> m < ?n" by simp
      then have "int (?c + ?n) \<in> q_position ` B" unfolding pb by blast
      then show ?thesis by blast
    qed
  qed
  with all Cons show ?thesis by (simp add: getNextQueuePosition_def del: set_simps)
qed

text \<open>When a place of the provider's queue is free and the membership is active, the waitlist
  notification goes to the earliest seeker waiting and consumes exactly that waitlist row; it never
  tells anybody while the queue is full.\<close>

lemma notifyWaitlist_first:
  assumes "notifyWaitlistInTransaction now p s = Inr (Some (k, title), s')"
    "distinct (map qn_id (queueNotifies s))"
  shows "\<exists>u w ws. find_user p s = Some u \<and> bn_marketplaceAccess (subscriptionBenefits u now) \<and>
    waiting_count p s < u_onlineQueueLimit u \<and> waitlist_of p s = w # ws \<and> k = qn_seekerId w \<and>
    waitlist_of p s' = ws \<and> queues s' = queues s \<and>
    (\<forall>x \<in> set ws. (qn_requestedAt w, qn_id w) \<le> (qn_requestedAt x, qn_id x))"
proof -
  let ?key = "\<lambda>w. (qn_requestedAt w, qn_id w)"
  let ?mine = "\<lambda>w. case find_service (qn_serviceId w) s of None \<Rightarrow> False | Some v \<Rightarrow> sv_providerId v = p"
  from assms(1) obtain u w ws where u: "find_user p s = Some u" "bn_marketplaceAccess (subscriptionBenefits u now)"
      "waiting_count p s < u_onlineQueueLimit u" and w: "waitlist_of p s = w # ws" and k: "k = qn_seekerId w"
    and q': "queueNotifies s' = filter (\<lambda>x. qn_id x \<noteq> qn_id w) (queueNotifies s)"
    and fr: "queues s' = queues s" "services s' = services s"
    by (auto simp: notifyWaitlistInTransaction_def notify_def fresh_id_def tx_iff
        split: option.splits if_splits list.splits)
  have "mset (w # ws) = mset (filter ?mine (queueNotifies s))"
    unfolding w[symmetric] by (simp add: waitlist_of_def)
  then have "mset (map qn_id (w # ws)) = mset (map qn_id (filter ?mine (queueNotifies s)))"
    unfolding mset_map by (rule arg_cong)
  then have d: "distinct (map qn_id (w # ws))"
    using distinct_map_filter[OF assms(2)] by (metis mset_eq_imp_distinct_iff)
  have "waitlist_of p s' = filter (\<lambda>x. qn_id x \<noteq> qn_id w) (waitlist_of p s)"
    by (simp add: waitlist_of_def q' find_service_def fr filter_sort conj_commute)
  also have "\<dots> = ws" using d by (simp add: w filter_id_conv) (metis image_eqI)
  finally have ws: "waitlist_of p s' = ws" .
  have "sorted (map ?key (w # ws))" unfolding w[symmetric] waitlist_of_def by (rule sorted_sort_key)
  then have "\<forall>x \<in> set ws. ?key w \<le> ?key x" by simp
  with u w k ws fr show ?thesis by blast
qed

definition sample_waitlist :: db where
  "sample_waitlist = empty_db\<lparr>users := [(ready_user 7)\<lparr>u_onlineQueueLimit := 2, u_freePlanStartedAt := Some 0,
       u_freePlanExpiresAt := Some 5000\<rparr>],
     services := [sample_service\<lparr>sv_id := 3, sv_providerId := 7\<rparr>],
     queueNotifies := [\<lparr>qn_id = 1, qn_serviceId = 3, qn_seekerId = 11, qn_requestedAt = 50\<rparr>,
       \<lparr>qn_id = 2, qn_serviceId = 3, qn_seekerId = 12, qn_requestedAt = 20\<rparr>]\<rparr>"


end
