(* ===== verification/SH_Lifecycle.thy ===== *)
theory SH_Lifecycle
  imports SH_Queue
begin

text \<open>
  What every booking transition shares: the progress log (src/src/services/booking-progress.service.ts),
  the notices written with a transition and the events published after it
  (src/src/services/bookings/lifecycle-events.ts, src/src/services/notifications.service.ts), the guards
  against refunds and cases in progress (booking-lifecycle.service.ts, case-resolution.service.ts), the
  readiness of a paid job, the review deadline, and the closing of sibling offers.

  The progress log, the notices with composed ids and the trust ledger are all written at most once
  per key; the locale \<open>once_log\<close> states that contract and its consequences.
\<close>

lemma tx_result: "map_sum id fst r = Inr x \<Longrightarrow> \<exists>s'. r = Inr (x, s')"
  by (cases r) auto

subsection \<open>The contract of a log written once per key\<close>

locale once_log =
  fixes entries :: "'s \<Rightarrow> 'e list"
    and key :: "'e \<Rightarrow> 'k"
    and target :: "'i \<Rightarrow> 'k"
    and record_entry :: "'i \<Rightarrow> ('s, 'a) tx"
  assumes repeat: "record_entry i s = Inr (x, s') \<Longrightarrow> target i \<in> key ` set (entries s) \<Longrightarrow>
      entries s' = entries s"
    and first: "record_entry i s = Inr (x, s') \<Longrightarrow> target i \<notin> key ` set (entries s) \<Longrightarrow>
      \<exists>e. key e = target i \<and> entries s' = entries s @ [e]"
begin

lemma written: "record_entry i s = Inr (x, s') \<Longrightarrow> target i \<in> key ` set (entries s')"
  using repeat[of i s x s'] first[of i s x s'] by (cases "target i \<in> key ` set (entries s)") force+

lemma at_most_once:
  assumes "record_entry i s = Inr (x, s')" "count_rows (\<lambda>e. key e = k) (entries s) \<le> 1"
  shows "count_rows (\<lambda>e. key e = k) (entries s') \<le> 1"
proof (cases "target i \<in> key ` set (entries s)")
  case True
  with repeat[OF assms(1)] assms(2) show ?thesis by simp
next
  case False
  then have "count_rows (\<lambda>e. key e = target i) (entries s) = 0"
    by (simp add: count_rows_0) (metis image_eqI)
  with first[OF assms(1) False] assms(2) show ?thesis
    by (cases "k = target i") (auto simp: count_rows_def)
qed

lemma keeps_at_most_once: "keeps (\<lambda>s. count_rows (\<lambda>e. key e = k) (entries s) \<le> 1) (record_entry i)"
  by (rule keepsI) (rule at_most_once)

lemma first_stays:
  assumes "record_entry i s = Inr (x, s')" "find_row key k (entries s) = Some e"
  shows "find_row key k (entries s') = Some e"
proof (cases "target i \<in> key ` set (entries s)")
  case False
  with first[OF assms(1) False] assms(2) show ?thesis by (auto simp: find_row_append)
qed (use repeat[OF assms(1)] assms(2) in simp)

lemma again:
  assumes "record_entry i s = Inr (x, s1)" "record_entry j s1 = Inr (y, s2)" "target j = target i"
  shows "entries s2 = entries s1"
  using repeat[OF assms(2)] written[OF assms(1)] assms(3) by simp

end

subsection \<open>The progress log\<close>

definition bookingActorRole :: "key \<Rightarrow> key \<Rightarrow> key option \<Rightarrow> actor" where
  "bookingActorRole seekerId providerId actorId =
     (case actorId of None \<Rightarrow> BySystem
      | Some a \<Rightarrow> if a = seekerId then BySeeker else if a = providerId then ByProvider else ByAdmin)"

definition recordBookingProgress ::
  "time \<Rightarrow> key \<Rightarrow> progress_kind \<Rightarrow> actor \<Rightarrow> event_key \<Rightarrow> unit dbtx" where
  "recordBookingProgress now bookingId kind actorRole eventKey =
     (\<lambda>s. if exists_row (\<lambda>e. pe_bookingId e = bookingId \<and> pe_eventKey e = eventKey) (progressEvents s)
          then Inr ((), s)
          else Inr ((), s\<lparr>progressEvents := progressEvents s @ [\<lparr>pe_bookingId = bookingId, pe_kind = kind,
             pe_actorRole = actorRole, pe_eventKey = eventKey, pe_occurredAt = now\<rparr>]\<rparr>))"

definition progress_key :: "progress_row \<Rightarrow> key \<times> event_key" where
  "progress_key e = (pe_bookingId e, pe_eventKey e)"

definition record_progress_input :: "time \<times> key \<times> progress_kind \<times> actor \<times> event_key \<Rightarrow> unit dbtx" where
  "record_progress_input i = (case i of (now, b, k, a, ek) \<Rightarrow> recordBookingProgress now b k a ek)"

definition progress_target :: "time \<times> key \<times> progress_kind \<times> actor \<times> event_key \<Rightarrow> key \<times> event_key" where
  "progress_target i = (case i of (now, b, k, a, ek) \<Rightarrow> (b, ek))"

lemma recordBookingProgress_Inr [tx_iff]:
  "recordBookingProgress now b k a ek s = Inr (u, s') \<longleftrightarrow>
     s' = (if (b, ek) \<in> progress_key ` set (progressEvents s) then s
           else s\<lparr>progressEvents := progressEvents s @ [\<lparr>pe_bookingId = b, pe_kind = k,
             pe_actorRole = a, pe_eventKey = ek, pe_occurredAt = now\<rparr>]\<rparr>)"
proof -
  have "(b, ek) \<in> progress_key ` set (progressEvents s) \<longleftrightarrow>
      exists_row (\<lambda>e. pe_bookingId e = b \<and> pe_eventKey e = ek) (progressEvents s)"
    by (force simp: progress_key_def)
  then show ?thesis by (auto simp: recordBookingProgress_def)
qed

lemma recordBookingProgress_total: "\<exists>s'. recordBookingProgress now b k a ek s = Inr ((), s')"
  by (simp add: recordBookingProgress_def)

interpretation progress_log: once_log progressEvents progress_key progress_target record_progress_input
  by unfold_locales
    (auto simp: record_progress_input_def progress_target_def tx_iff progress_key_def split: prod.splits)

lemma progress_log_run:
  "recordBookingProgress now b k a ek = record_progress_input (now, b, k, a, ek)"
  "progress_target (now, b, k, a, ek) = (b, ek)"
  by (simp_all add: record_progress_input_def progress_target_def)

text \<open>Notices with a composed id, written with \<open>skipDuplicates\<close>.\<close>

interpretation notice_log: once_log notifications nt_id "\<lambda>(k, u, t). k" "\<lambda>(k, u, t). notify_once k u t"
  by unfold_locales (force simp: tx_iff split: if_splits prod.splits)+

subsection \<open>Lifecycle notices\<close>

record notice =
  no_id :: "notif_key option"
  no_userId :: key
  no_title :: string
  no_cancelledBooking :: "key option"

definition plain_notice :: "key \<Rightarrow> string \<Rightarrow> notice" where
  "plain_notice u t = \<lparr>no_id = None, no_userId = u, no_title = t, no_cancelledBooking = None\<rparr>"

definition create_notice :: "notice \<Rightarrow> unit dbtx" where
  "create_notice n =
     tx_bind (case no_id n of Some k \<Rightarrow> ret k | None \<Rightarrow> tx_bind fresh_id (\<lambda>i. ret (N_Auto i))) (\<lambda>k.
       notify_row \<lparr>nt_id = k, nt_userId = no_userId n, nt_title = no_title n,
         nt_cancelledBooking = no_cancelledBooking n\<rparr>)"

text \<open>The part of a booking that the publishing functions take: id, seeker and provider.\<close>

type_synonym participants = "key \<times> key \<times> key"

definition parties :: "booking_row \<Rightarrow> participants" where
  "parties b = (bk_id b, bk_seekerId b, bk_providerId b)"

definition system_message :: "participants \<Rightarrow> (key \<times> string) option \<Rightarrow> message_row option dbtx" where
  "system_message booking system = (case (booking, system) of
       (_, None) \<Rightarrow> ret None
     | ((b, seekerId, providerId), Some (senderId, content)) \<Rightarrow>
       tx_bind fresh_id (\<lambda>i. let m = \<lparr>ms_id = i, ms_bookingId = b, ms_senderId = senderId,
           ms_receiverId = (if senderId = seekerId then providerId else seekerId),
           ms_content = content, ms_isSystem = True, ms_isRead = False\<rparr>
         in tx_seq (modify (messages_update (\<lambda>ms. ms @ [m]))) (ret (Some m))))"

type_synonym recorded = "notice list \<times> message_row option"

definition recordLifecycleNotice ::
  "participants \<Rightarrow> notice list \<Rightarrow> (key \<times> string) option \<Rightarrow> recorded dbtx" where
  "recordLifecycleNotice booking notices system = (case booking of (b, seekerId, providerId) \<Rightarrow>
     tx_seq (case system of None \<Rightarrow> ret ()
       | Some (senderId, _) \<Rightarrow> lift_sum (assertDistinctAccounts senderId
           (if senderId = seekerId then providerId else seekerId)))
    (tx_seq (ensure (notices \<noteq> []) (Uncoded ''A lifecycle notification needs a recipient''))
    (tx_seq (for_each create_notice notices)
    (tx_bind (system_message booking system) (\<lambda>m. ret (notices, m))))))"

definition publishLifecycleChange :: "participants \<Rightarrow> string \<Rightarrow> recorded \<Rightarrow> bool \<Rightarrow> unit dbtx" where
  "publishLifecycleChange booking type rec queueChanged = (case booking of (b, seekerId, providerId) \<Rightarrow>
     tx_seq (for_each (\<lambda>r. emit r ''ENGAGEMENT_CHANGED'' type)
       (js_set [RUser seekerId, RUser providerId, RBooking b]))
    (tx_seq (for_each (\<lambda>n. emit (RUser (no_userId n)) ''notification'' (no_title n)) (fst rec))
    (tx_seq (case snd rec of None \<Rightarrow> ret ()
       | Some m \<Rightarrow> tx_seq (emit (RBooking b) ''new_message'' (ms_content m))
           (emit (RUser (ms_receiverId m)) ''message_notification'' (take 60 (ms_content m))))
    (when_tx queueChanged (emitProviderQueueUpdates providerId [seekerId, providerId])))))"

definition active_admins :: "db \<Rightarrow> key list" where
  "active_admins s = map u_id (filter (\<lambda>u. u_role u = R_Admin \<and> u_isActive u \<and> u_moderationStatus u = M_ACTIVE) (users s))"

definition recordAdminNotifications :: "string \<Rightarrow> key list dbtx" where
  "recordAdminNotifications title =
     tx_bind (query active_admins) (\<lambda>admins.
       tx_seq (for_each (\<lambda>a. notify a title) admins) (ret admins))"

definition publishNotifications :: "key list \<Rightarrow> string \<Rightarrow> unit dbtx" where
  "publishNotifications userIds title = for_each (\<lambda>u. emit (RUser u) ''notification'' title) (js_set userIds)"

definition bookingCancellationNotifications :: "participants \<Rightarrow> notice list" where
  "bookingCancellationNotifications booking = (case booking of (b, seekerId, providerId) \<Rightarrow>
     map (\<lambda>u. \<lparr>no_id = Some (N_BookingCancelled b u), no_userId = u, no_title = ''Booking cancelled'',
       no_cancelledBooking = Some b\<rparr>) [seekerId, providerId])"

text \<open>The two participants have different links (their activity pages), so a row and an expected
  notice agree on user and link exactly when they agree on user and booking.\<close>

definition missingBookingCancellationNotifications :: "participants \<Rightarrow> db \<Rightarrow> notice list" where
  "missingBookingCancellationNotifications booking s =
     (let expected = bookingCancellationNotifications booking;
          existing = filter (\<lambda>r. Some (nt_id r) \<in> no_id ` set expected \<or>
            (nt_userId r \<in> no_userId ` set expected \<and>
             nt_title r \<in> {''Booking cancelled'', ''Booking canceled''} \<and>
             nt_cancelledBooking r \<in> no_cancelledBooking ` set expected)) (notifications s)
      in filter (\<lambda>n. \<not> exists_row (\<lambda>r. nt_userId r = no_userId n \<and>
            nt_cancelledBooking r = no_cancelledBooking n) existing) expected)"

subsection \<open>Guards\<close>

definition assertNoRefundInProgress :: "key \<Rightarrow> unit dbtx" where
  "assertNoRefundInProgress b = tx_bind (query (refund_of b)) (\<lambda>refund.
     ensure (map_option rf_status refund \<noteq> Some ''PROCESSING'') (Http 409 ''BOOKING_REFUND_IN_PROGRESS''))"

definition report_active :: "report_row \<Rightarrow> bool" where
  "report_active r \<longleftrightarrow> rp_status r \<in> {RP_PENDING, RP_UNDER_REVIEW}"
definition cancellation_active :: "cancellation_row \<Rightarrow> bool" where
  "cancellation_active c \<longleftrightarrow> cr_status c \<in> {C_PENDING, C_DECLINED, C_ESCALATED, C_UNDER_REVIEW}"
definition escalation_active :: "escalation_row \<Rightarrow> bool" where
  "escalation_active e \<longleftrightarrow> es_status e \<in> {E_PENDING, E_UNDER_REVIEW}"

record exclusions =
  ex_report :: "key option"
  ex_cancellation :: "key option"
  ex_escalation :: "key option"

definition assertNoOtherBlockingCases :: "key \<Rightarrow> exclusions \<Rightarrow> unit dbtx" where
  "assertNoOtherBlockingCases b exclude = tx_bind (query (\<lambda>s.
       count_rows (\<lambda>r. rp_bookingId r = b \<and> report_active r \<and> Some (rp_id r) \<noteq> ex_report exclude) (reports s) +
       count_rows (\<lambda>c. cr_bookingId c = b \<and> cancellation_active c \<and> Some (cr_id c) \<noteq> ex_cancellation exclude) (cancellations s) +
       count_rows (\<lambda>e. es_bookingId e = b \<and> escalation_active e \<and> Some (es_id e) \<noteq> ex_escalation exclude) (escalations s)))
     (\<lambda>n. ensure (n = 0) (Http 409 ''OTHER_BLOCKING_CASES''))"

definition financially_reserved :: "operation_row \<Rightarrow> bool" where
  "financially_reserved op \<longleftrightarrow> op_status op \<in> {OP_PROCESSING, OP_FAILED_RETRYABLE} \<and>
     op_stage op \<in> {FINANCIAL_EFFECT_RESERVED, FINANCIAL_EFFECT_ESTABLISHED}"

definition assertNoFinancialResolutionReserved :: "key \<Rightarrow> key option \<Rightarrow> unit dbtx" where
  "assertNoFinancialResolutionReserved b own = tx_bind (query operations) (\<lambda>ops.
     ensure (\<not> exists_row (\<lambda>op. op_bookingId op = b \<and> financially_reserved op \<and> Some (op_id op) \<noteq> own) ops)
       (Http 409 ''FINANCIAL_RESOLUTION_IN_PROGRESS''))"

text \<open>\<open>updateMany\<close> on the booking counts the row it has just read, so the branch on the count is taken.\<close>

definition restoreBookingIfNoBlockingCases :: "time \<Rightarrow> key \<Rightarrow> bool dbtx" where
  "restoreBookingIfNoBlockingCases now b = tx_bind (query (\<lambda>s.
       (count_rows (\<lambda>r. rp_bookingId r = b \<and> report_active r) (reports s) +
        count_rows (\<lambda>c. cr_bookingId c = b \<and> cancellation_active c) (cancellations s), find_booking b s)))
     (\<lambda>(blocking, booking).
       if 0 < blocking then ret False
       else case booking of None \<Rightarrow> ret False
        | Some bk \<Rightarrow> if bk_status bk \<notin> {B_DISPUTED, B_UNDER_REVIEW} then ret False
          else (case bk_statusBeforeDispute bk of None \<Rightarrow> ret False
           | Some before \<Rightarrow>
             let paymentStatus = (if bk_paymentMethod bk = OnsiteCash then P_UNPAID else P_PAID_HELD)
             in tx_seq (upd_booking now b (\<lambda>r. r\<lparr>bk_status := before, bk_statusBeforeDispute := None,
                    bk_paymentStatus := paymentStatus\<rparr>))
               (tx_seq (modify (queues_update (map_rows (\<lambda>q. q_bookingId q = Some b)
                    (\<lambda>q. q\<lparr>q_paymentStatus := paymentStatus\<rparr>))))
                (ret True))))"

subsection \<open>Readiness, review deadline, visibility\<close>

definition paidStartBlockReason ::
  "booking_status \<Rightarrow> bool \<Rightarrow> payment_status \<Rightarrow> queue_status \<Rightarrow> payment_status \<Rightarrow> string option" where
  "paidStartBlockReason bookingStatus bookingStarted bookingPaymentStatus queueStatus queuePaymentStatus =
     (if queueStatus \<noteq> Q_WAITING then Some ''This booking is no longer waiting in the paid queue.''
      else if bookingStarted then Some ''This job has already started.''
      else if bookingStatus \<noteq> B_ACCEPTED \<and> bookingStatus \<noteq> B_WAITING then
        Some (if bookingStatus \<in> {B_DISPUTED, B_UNDER_REVIEW}
          then ''This booking is on hold for review. Resolve the case before starting work.''
          else ''This booking is not accepted for work. Open its details for the current status.'')
      else if bookingPaymentStatus \<noteq> P_PAID_HELD \<or> queuePaymentStatus \<noteq> P_PAID_HELD
        then Some ''The GCash payment is not confirmed for this booking. Do not start work yet.''
      else None)"

definition COMPLETION_REVIEW_WAIT_MS :: int where
  "COMPLETION_REVIEW_WAIT_MS = 72 * 60 * 60 * 1000"

record review_availability =
  rv_availableAt :: time
  rv_pending :: bool

definition completionReviewAvailability ::
  "booking_row \<Rightarrow> progress_row list \<Rightarrow> escalation_row option \<Rightarrow> review_availability option" where
  "completionReviewAvailability b progress previous =
     (if bk_status b \<noteq> B_AWAITING_CONFIRMATION \<or> bk_paymentMethod b \<noteq> GCash then None
      else let markedAt = fold (\<lambda>e latest. max latest (pe_occurredAt e))
               (filter (\<lambda>e. pe_kind e = PK_WORK_MARKED_COMPLETE) progress) 0;
             initialDeadline = (if markedAt \<noteq> 0 then markedAt else bk_updatedAt b) + COMPLETION_REVIEW_WAIT_MS;
             retryDeadline = (case previous of None \<Rightarrow> 0
               | Some p \<Rightarrow> (case es_resolvedAt p of None \<Rightarrow> 0
                   | Some t \<Rightarrow> if es_resolution p = Some KEEP_AWAITING then t + COMPLETION_REVIEW_WAIT_MS else 0))
           in Some \<lparr>rv_availableAt = max initialDeadline retryDeadline,
                rv_pending = (case previous of None \<Rightarrow> False | Some p \<Rightarrow> escalation_active p)\<rparr>)"

definition hideBookingService :: "time \<Rightarrow> key \<Rightarrow> key \<Rightarrow> key dbtx" where
  "hideBookingService now bookingId userId =
     tx_bind (query (find_booking bookingId)) (\<lambda>found.
     tx_bind (expect (Http 404 ''Booking not found'') found) (\<lambda>booking.
     tx_seq (ensure (bk_seekerId booking = userId \<or> bk_providerId booking = userId) (Http 403 ''Access denied''))
    (tx_seq (upd_booking now bookingId (\<lambda>r. if bk_seekerId booking = userId
        then r\<lparr>bk_hiddenBySeeker := True\<rparr> else r\<lparr>bk_hiddenByProvider := True\<rparr>))
    (tx_seq (emit (RUser userId) ''ENGAGEMENT_CHANGED'' ''hidden'')
    (ret bookingId)))))"

subsection \<open>Closing the other offers of a request\<close>

definition offer_pending_of :: "key \<Rightarrow> key \<Rightarrow> offer_row \<Rightarrow> bool" where
  "offer_pending_of requestId selected f \<longleftrightarrow>
     of_requestId f = requestId \<and> of_id f \<noteq> selected \<and> of_status f = O_PENDING"

definition rejectSiblingOffersAndNotify :: "key \<Rightarrow> key \<Rightarrow> key list dbtx" where
  "rejectSiblingOffersAndNotify requestId selectedOfferId =
     tx_bind (query (\<lambda>s. filter (offer_pending_of requestId selectedOfferId) (offers s))) (\<lambda>siblings.
     tx_seq (for_each (\<lambda>f. modify (offers_update (map_rows
         (\<lambda>r. of_id r = of_id f \<and> of_status r = O_PENDING)
         (\<lambda>r. r\<lparr>of_status := O_REJECTED, of_paymentHoldExpiresAt := None\<rparr>)))) siblings)
    (tx_seq (for_each (\<lambda>f. tx_seq (notify_once (N_OfferNotSelected (of_id f)) (of_providerId f)
         ''Another offer was selected'') (ret ())) siblings)
    (ret (js_set (map of_providerId siblings)))))"

subsection \<open>Properties\<close>

text \<open>The progress log keeps the first occurrence of a booking event: recording it again, by any
  actor and at any later time, succeeds and changes nothing, and other bookings' events are kept.\<close>

lemma recordBookingProgress_first_wins:
  assumes "recordBookingProgress t b k a ek s = Inr (u, s1)"
    "recordBookingProgress t' b k' a' ek s1 = Inr (v, s2)"
  shows "s2 = s1 \<and> (b, ek) \<in> progress_key ` set (progressEvents s2) \<and>
    (\<forall>x e. find_row progress_key x (progressEvents s) = Some e \<longrightarrow>
       find_row progress_key x (progressEvents s2) = Some e)"
proof -
  note r1 = assms(1)[unfolded progress_log_run] and r2 = assms(2)[unfolded progress_log_run]
  have w: "(b, ek) \<in> progress_key ` set (progressEvents s1)"
    using progress_log.written[OF r1] by (simp add: progress_log_run)
  with assms(2) have "s2 = s1" by (simp add: recordBookingProgress_Inr)
  with w progress_log.first_stays[OF r1] show ?thesis by blast
qed


text \<open>A seeker always has the full review window: completion review opens no earlier than 72 hours
  after every time the work was marked complete, and an unrelated edit of the booking row does not
  move that moment.\<close>

lemma completionReview_waits:
  assumes "completionReviewAvailability b progress previous = Some v" "e \<in> set progress"
    "pe_kind e = PK_WORK_MARKED_COMPLETE" "0 < pe_occurredAt e"
  shows "pe_occurredAt e + COMPLETION_REVIEW_WAIT_MS \<le> rv_availableAt v \<and>
    completionReviewAvailability (b\<lparr>bk_updatedAt := t\<rparr>) progress previous = Some v"
proof -
  have acc: "a \<le> fold (\<lambda>e latest. max latest (pe_occurredAt e)) es a" for es :: "progress_row list" and a
    by (induction es arbitrary: a) (simp, metis fold_simps(2) max.bounded_iff)
  have upper: "pe_occurredAt e \<le> fold (\<lambda>e latest. max latest (pe_occurredAt e)) es a" if "e \<in> set es" for es a
    using that by (induction es arbitrary: a) (auto intro: order_trans[OF max.cobounded2 acc])
  let ?m = "fold (\<lambda>e latest. max latest (pe_occurredAt e))
    (filter (\<lambda>e. pe_kind e = PK_WORK_MARKED_COMPLETE) progress) 0"
  have "pe_occurredAt e \<le> ?m" using assms(2,3) by (auto intro!: upper)
  with assms(1,4) show ?thesis
    by (auto simp: completionReviewAvailability_def Let_def split: if_splits)
qed

definition sample_booking :: "key \<Rightarrow> booking_status \<Rightarrow> pay_method \<Rightarrow> payment_status \<Rightarrow> booking_row" where
  "sample_booking i st pm ps = \<lparr>bk_id = i, bk_seekerId = 1, bk_providerId = 2, bk_serviceId = Some 10,
     bk_offerId = None, bk_directRequestId = None, bk_originType = Some DIRECT_LISTING,
     bk_paymentAttemptId = None, bk_paymentMethod = pm, bk_agreedAmount = Some 150,
     bk_jobLocation = None, bk_transportationFee = None, bk_serviceLocationMode = None,
     bk_estimatedDurationMins = Some 45, bk_paymentStatus = ps, bk_status = st,
     bk_statusBeforeDispute = None, bk_queuePosition = None, bk_started = False,
     bk_hiddenBySeeker = False, bk_hiddenByProvider = False, bk_updatedAt = 0\<rparr>"


text \<open>A booking on hold is restored only when no report and no cancellation of it is open; then it
  returns to the status it had and its money to the held (or unpaid cash) state, and in every other
  case nothing changes.\<close>

lemma restoreBooking_only_when_clear:
  assumes "restoreBookingIfNoBlockingCases now b s = Inr (done, s')"
  shows "if done then
      (\<forall>r \<in> set (reports s). rp_bookingId r = b \<longrightarrow> \<not> report_active r) \<and>
      (\<forall>c \<in> set (cancellations s). cr_bookingId c = b \<longrightarrow> \<not> cancellation_active c) \<and>
      (\<exists>bk before. find_booking b s = Some bk \<and> bk_status bk \<in> {B_DISPUTED, B_UNDER_REVIEW} \<and>
         bk_statusBeforeDispute bk = Some before \<and>
         find_booking b s' = Some (bk\<lparr>bk_status := before, bk_statusBeforeDispute := None,
           bk_paymentStatus := (if bk_paymentMethod bk = OnsiteCash then P_UNPAID else P_PAID_HELD),
           bk_updatedAt := now\<rparr>))
    else s' = s"
  using assms
  by (auto simp: restoreBookingIfNoBlockingCases_def tx_iff upd_booking_def Let_def count_rows_0
      find_booking_def split: option.splits if_splits)


definition offer_closed :: "offer_row \<Rightarrow> offer_row" where
  "offer_closed f = f\<lparr>of_status := O_REJECTED, of_paymentHoldExpiresAt := None\<rparr>"

lemma offer_closed_simps [simp]: "of_id (offer_closed f) = of_id f" "of_requestId (offer_closed f) = of_requestId f"
  "of_status (offer_closed f) = O_REJECTED" "of_providerId (offer_closed f) = of_providerId f"
  by (simp_all add: offer_closed_def)

lemma offers_upd: "offers_update f s = s\<lparr>offers := f (offers s)\<rparr>"
  by (cases s) simp

lemma offers_of: "x = s\<lparr>offers := a, notifications := b\<rparr> \<Longrightarrow> offers x = a"
  by simp

lemma close_loop:
  "for_each (\<lambda>f. modify (offers_update (map_rows (\<lambda>r. of_id r = of_id f \<and> of_status r = O_PENDING)
      (\<lambda>r. r\<lparr>of_status := O_REJECTED, of_paymentHoldExpiresAt := None\<rparr>)))) fs s = Inr (u, s') \<Longrightarrow>
   s' = offers_update (map_rows (\<lambda>r. of_id r \<in> of_id ` set fs \<and> of_status r = O_PENDING) offer_closed) s"
proof (induction fs arbitrary: s)
  case (Cons f fs)
  let ?F = "map_rows (\<lambda>r. of_id r = of_id f \<and> of_status r = O_PENDING) offer_closed"
  let ?G = "map_rows (\<lambda>r. of_id r \<in> of_id ` set fs \<and> of_status r = O_PENDING) offer_closed"
  have "s' = offers_update ?G (offers_update ?F s)"
    by (rule Cons.IH) (use Cons.prems in \<open>auto simp: tx_iff offer_closed_def[abs_def]\<close>)
  moreover have "?G \<circ> ?F = map_rows (\<lambda>r. of_id r \<in> of_id ` set (f # fs) \<and> of_status r = O_PENDING) offer_closed"
    by (auto simp: map_rows_def)
  ultimately show ?case by (simp add: o_def)
next
  case Nil
  then show ?case by (cases s) (simp add: ret_Inr map_rows_def)
qed

lemma notice_loop:
  "for_each (\<lambda>f. tx_seq (notify_once (k f) (v f) t) (ret ())) fs s = Inr (u, s') \<Longrightarrow>
   s' = s\<lparr>notifications := notifications s'\<rparr> \<and> k ` set fs \<subseteq> nt_id ` set (notifications s') \<and>
   nt_id ` set (notifications s) \<subseteq> nt_id ` set (notifications s') \<and>
   (\<forall>i. count_rows (\<lambda>n. nt_id n = i) (notifications s) \<le> 1 \<longrightarrow>
        count_rows (\<lambda>n. nt_id n = i) (notifications s') \<le> 1)"
proof (induction fs arbitrary: s)
  case (Cons f fs)
  then obtain n s1 where r: "notify_once (k f) (v f) t s = Inr (n, s1)"
    and rest: "for_each (\<lambda>f. tx_seq (notify_once (k f) (v f) t) (ret ())) fs s1 = Inr (u, s')"
    by (auto simp: tx_seq_Inr ret_Inr)
  let ?r = "case (k f, v f, t) of (k, u, t) \<Rightarrow> notify_once k u t"
  have r2: "?r s = Inr (n, s1)" using r by simp
  have s1: "s1 = s\<lparr>notifications := notifications s1\<rparr>" "nt_id ` set (notifications s) \<subseteq> nt_id ` set (notifications s1)"
    using r by (auto simp: notify_once_Inr split: if_splits)
  have w: "k f \<in> nt_id ` set (notifications s1)" using notice_log.written[OF r2] by simp
  have c: "count_rows (\<lambda>n. nt_id n = i) (notifications s1) \<le> 1"
    if "count_rows (\<lambda>n. nt_id n = i) (notifications s) \<le> 1" for i
    by (rule notice_log.at_most_once[OF r2 that])
  note IH = Cons.IH[OF rest]
  have "s' = s1\<lparr>notifications := notifications s'\<rparr>" using IH by blast
  also have "\<dots> = s\<lparr>notifications := notifications s'\<rparr>" by (subst s1(1)) simp
  finally have "s' = s\<lparr>notifications := notifications s'\<rparr>" .
  moreover have "k ` set (f # fs) \<subseteq> nt_id ` set (notifications s')"
    using IH w by (metis (no_types, lifting) image_insert insert_subset list.simps(15) subsetD)
  moreover have "nt_id ` set (notifications s) \<subseteq> nt_id ` set (notifications s')"
    using IH s1(2) by (meson order_trans)
  moreover have "\<forall>i. count_rows (\<lambda>n. nt_id n = i) (notifications s) \<le> 1 \<longrightarrow>
        count_rows (\<lambda>n. nt_id n = i) (notifications s') \<le> 1"
    using IH c by blast
  ultimately show ?case by blast
qed (simp add: ret_Inr)

lemma pending_ids:
  assumes "distinct (map of_id fs)" "r \<in> set fs"
  shows "of_id r \<in> of_id ` set (filter (offer_pending_of rq sel) fs) \<and> of_status r = O_PENDING \<longleftrightarrow>
    offer_pending_of rq sel r"
proof
  assume "of_id r \<in> of_id ` set (filter (offer_pending_of rq sel) fs) \<and> of_status r = O_PENDING"
  then obtain f where "f \<in> set fs" "offer_pending_of rq sel f" "of_id f = of_id r" by auto
  with assms show "offer_pending_of rq sel r" by (metis distinct_map inj_onD)
qed (use assms(2) in \<open>auto simp: offer_pending_of_def\<close>)

lemma rejectSiblings_frame:
  assumes "rejectSiblingOffersAndNotify rq sel s = Inr (ps, s')" "distinct (map of_id (offers s))"
  shows "s' = s\<lparr>offers := map_rows (offer_pending_of rq sel) offer_closed (offers s),
      notifications := notifications s'\<rparr>"
    "for_each (\<lambda>f. tx_seq (notify_once (N_OfferNotSelected (of_id f)) (of_providerId f)
         ''Another offer was selected'') (ret ())) (filter (offer_pending_of rq sel) (offers s))
       (s\<lparr>offers := map_rows (offer_pending_of rq sel) offer_closed (offers s)\<rparr>) = Inr ((), s')"
    "ps = js_set (map of_providerId (filter (offer_pending_of rq sel) (offers s)))"
proof -
  let ?fs = "filter (offer_pending_of rq sel) (offers s)"
  from assms(1) obtain u1 s1 u2 where
    r1: "for_each (\<lambda>f. modify (offers_update (map_rows (\<lambda>r. of_id r = of_id f \<and> of_status r = O_PENDING)
      (\<lambda>r. r\<lparr>of_status := O_REJECTED, of_paymentHoldExpiresAt := None\<rparr>)))) ?fs s = Inr (u1, s1)"
    and r2: "for_each (\<lambda>f. tx_seq (notify_once (N_OfferNotSelected (of_id f)) (of_providerId f)
         ''Another offer was selected'') (ret ())) ?fs s1 = Inr (u2, s')"
    and ps: "ps = js_set (map of_providerId ?fs)"
    by (auto simp: rejectSiblingOffersAndNotify_def tx_bind_Inr query_Inr tx_seq_Inr ret_Inr)
  have "map_rows (\<lambda>r. of_id r \<in> of_id ` set ?fs \<and> of_status r = O_PENDING) offer_closed (offers s) =
      map_rows (offer_pending_of rq sel) offer_closed (offers s)"
    using pending_ids[OF assms(2)] by (simp add: map_rows_def)
  with close_loop[OF r1] have s1: "s1 = s\<lparr>offers := map_rows (offer_pending_of rq sel) offer_closed (offers s)\<rparr>"
    unfolding offers_upd[of "map_rows _ _" s] by simp
  show "s' = s\<lparr>offers := map_rows (offer_pending_of rq sel) offer_closed (offers s),
      notifications := notifications s'\<rparr>"
    by (rule trans[OF notice_loop[OF r2, THEN conjunct1]]) (simp add: s1)
  show "for_each (\<lambda>f. tx_seq (notify_once (N_OfferNotSelected (of_id f)) (of_providerId f)
         ''Another offer was selected'') (ret ())) ?fs
       (s\<lparr>offers := map_rows (offer_pending_of rq sel) offer_closed (offers s)\<rparr>) = Inr ((), s')"
    using r2 by (simp add: s1)
  show "ps = js_set (map of_providerId ?fs)" by (rule ps)
qed

text \<open>Selecting an offer closes every other pending offer of the request and tells each of their
  providers exactly once; the selected offer, offers of other requests and every other table stay as
  they are.\<close>

lemma rejectSiblingOffers_closes_all:
  assumes "rejectSiblingOffersAndNotify rq sel s = Inr (ps, s')" "distinct (map of_id (offers s))"
  shows "s' = s\<lparr>offers := map_rows (offer_pending_of rq sel) offer_closed (offers s),
      notifications := notifications s'\<rparr> \<and>
    (\<forall>f \<in> set (offers s'). \<not> offer_pending_of rq sel f) \<and>
    (\<forall>f \<in> set (offers s). offer_pending_of rq sel f \<longrightarrow>
       N_OfferNotSelected (of_id f) \<in> nt_id ` set (notifications s') \<and> of_providerId f \<in> set ps \<and>
       (count_rows (\<lambda>n. nt_id n = N_OfferNotSelected (of_id f)) (notifications s) \<le> 1 \<longrightarrow>
        count_rows (\<lambda>n. nt_id n = N_OfferNotSelected (of_id f)) (notifications s') = 1))"
proof -
  let ?fs = "filter (offer_pending_of rq sel) (offers s)"
  note fr = rejectSiblings_frame(1)[OF assms] and n = notice_loop[OF rejectSiblings_frame(2)[OF assms]]
    and ps = rejectSiblings_frame(3)[OF assms]
  have "offers s' = map_rows (offer_pending_of rq sel) offer_closed (offers s)"
    by (rule offers_of[OF fr])
  moreover have "\<not> offer_pending_of rq sel (if offer_pending_of rq sel r then offer_closed r else r)" for r
    by (simp add: offer_pending_of_def)
  ultimately have "\<forall>f \<in> set (offers s'). \<not> offer_pending_of rq sel f"
    by (simp only: set_map_rows ball_simps) blast
  moreover have "N_OfferNotSelected (of_id f) \<in> nt_id ` set (notifications s') \<and> of_providerId f \<in> set ps \<and>
       (count_rows (\<lambda>n. nt_id n = N_OfferNotSelected (of_id f)) (notifications s) \<le> 1 \<longrightarrow>
        count_rows (\<lambda>n. nt_id n = N_OfferNotSelected (of_id f)) (notifications s') = 1)"
    if f: "f \<in> set (offers s)" "offer_pending_of rq sel f" for f
  proof -
    have i: "N_OfferNotSelected (of_id f) \<in> nt_id ` set (notifications s')" using f n by auto
    then have "count_rows (\<lambda>n. nt_id n = N_OfferNotSelected (of_id f)) (notifications s') \<noteq> 0"
      by (auto simp: count_rows_0)
    moreover have "count_rows (\<lambda>n. nt_id n = N_OfferNotSelected (of_id f)) (notifications s) \<le> 1 \<longrightarrow>
        count_rows (\<lambda>n. nt_id n = N_OfferNotSelected (of_id f)) (notifications s') \<le> 1"
      using n by simp
    ultimately have "count_rows (\<lambda>n. nt_id n = N_OfferNotSelected (of_id f)) (notifications s) \<le> 1 \<longrightarrow>
        count_rows (\<lambda>n. nt_id n = N_OfferNotSelected (of_id f)) (notifications s') = 1"
      by (metis le_antisym less_one not_less)
    with i f ps show ?thesis by auto
  qed
  ultimately show ?thesis using fr by blast
qed

definition sample_offer :: "key \<Rightarrow> key \<Rightarrow> offer_status \<Rightarrow> offer_row" where
  "sample_offer i p st = \<lparr>of_id = i, of_requestId = 3, of_providerId = p, of_serviceId = None,
     of_offeredPrice = 200, of_estimatedDuration = 60, of_serviceLocationMode = Some REMOTE,
     of_providerVenue = None, of_status = st, of_paymentHoldExpiresAt = None, of_createdAt = 0\<rparr>"


text \<open>The alerts of a cancelled booking: their ids carry the booking and the user.\<close>

definition cancel_alerts_wf :: "db \<Rightarrow> bool" where
  "cancel_alerts_wf s \<longleftrightarrow> (\<forall>r \<in> set (notifications s). \<forall>b u. nt_id r = N_BookingCancelled b u \<longrightarrow>
     nt_userId r = u \<and> nt_cancelledBooking r = Some b)"

definition alert_for :: "participants \<Rightarrow> key \<Rightarrow> notification_row \<Rightarrow> bool" where
  "alert_for booking u r = (case booking of (b, sk, pv) \<Rightarrow>
     nt_userId r = u \<and> nt_cancelledBooking r = Some b \<and>
     (nt_id r \<in> {N_BookingCancelled b sk, N_BookingCancelled b pv} \<or>
      nt_title r \<in> {''Booking cancelled'', ''Booking canceled''}))"

definition alert_notice :: "key \<Rightarrow> key \<Rightarrow> notice" where
  "alert_notice b u = \<lparr>no_id = Some (N_BookingCancelled b u), no_userId = u,
     no_title = ''Booking cancelled'', no_cancelledBooking = Some b\<rparr>"

lemma missing_notices:
  "missingBookingCancellationNotifications (b, sk, pv) s =
     map (alert_notice b) (filter (\<lambda>u. \<not> list_ex (alert_for (b, sk, pv) u) (notifications s)) [sk, pv])"
proof -
  have "exists_row (\<lambda>r. nt_userId r = u \<and> nt_cancelledBooking r = Some b)
      (filter (\<lambda>r. Some (nt_id r) \<in> {Some (N_BookingCancelled b sk), Some (N_BookingCancelled b pv)} \<or>
            (nt_userId r \<in> {sk, pv} \<and> nt_title r \<in> {''Booking cancelled'', ''Booking canceled''} \<and>
             nt_cancelledBooking r \<in> {Some b})) ns) = list_ex (alert_for (b, sk, pv) u) ns"
    if "u \<in> {sk, pv}" for u ns
    using that by (auto simp: list_ex_iff alert_for_def)
  note this[of sk "notifications s"] this[of pv "notifications s"]
  then show ?thesis
    by (simp add: missingBookingCancellationNotifications_def bookingCancellationNotifications_def Let_def
        alert_notice_def)
qed

lemma missing_iff:
  "n \<in> set (missingBookingCancellationNotifications (b, sk, pv) s) \<longleftrightarrow>
     (\<exists>u \<in> {sk, pv}. n = alert_notice b u \<and> (\<forall>r \<in> set (notifications s). \<not> alert_for (b, sk, pv) u r))"
  unfolding missing_notices by (auto simp: list_ex_iff)

lemma create_notice_keyed:
  assumes "no_id n = Some k" "k \<notin> nt_id ` set (notifications s)"
  shows "create_notice n s = Inr ((), s\<lparr>notifications := notifications s @ [\<lparr>nt_id = k, nt_userId = no_userId n,
    nt_title = no_title n, nt_cancelledBooking = no_cancelledBooking n\<rparr>]\<rparr>)"
  using assms by (auto simp: create_notice_def tx_bind_def ret_def notify_row_def)

lemma create_notices_keyed:
  assumes "distinct (map no_id ns)" "\<forall>n \<in> set ns. \<exists>k. no_id n = Some k \<and> k \<notin> nt_id ` set (notifications s)"
  shows "\<exists>s'. for_each create_notice ns s = Inr ((), s') \<and>
    notifications s' = notifications s @ map (\<lambda>n. \<lparr>nt_id = the (no_id n), nt_userId = no_userId n,
    nt_title = no_title n, nt_cancelledBooking = no_cancelledBooking n\<rparr>) ns"
  using assms
proof (induction ns arbitrary: s)
  case (Cons n ns)
  then obtain k where k: "no_id n = Some k" "k \<notin> nt_id ` set (notifications s)" by auto
  let ?s = "s\<lparr>notifications := notifications s @ [\<lparr>nt_id = k, nt_userId = no_userId n,
    nt_title = no_title n, nt_cancelledBooking = no_cancelledBooking n\<rparr>]\<rparr>"
  have "\<forall>m \<in> set ns. \<exists>j. no_id m = Some j \<and> j \<notin> nt_id ` set (notifications ?s)"
  proof
    fix m assume m: "m \<in> set ns"
    then obtain j where "no_id m = Some j" "j \<notin> nt_id ` set (notifications s)" using Cons.prems(2) by auto
    moreover have "no_id m \<noteq> no_id n" using Cons.prems(1) m by (simp add: image_iff) metis
    ultimately show "\<exists>j. no_id m = Some j \<and> j \<notin> nt_id ` set (notifications ?s)" using k by auto
  qed
  with Cons.IH[of ?s] Cons.prems(1) show ?case
    by (simp add: tx_seq_def tx_bind_def create_notice_keyed[OF k] k(1))
qed (simp add: ret_def)

text \<open>The alerts of a cancelled booking reach both participants exactly once however often the
  settlement is retried: recording the missing ones succeeds, and afterwards none is missing.\<close>

lemma cancellation_alerts_once:
  assumes "cancel_alerts_wf s" "sk \<noteq> pv"
    "missingBookingCancellationNotifications (b, sk, pv) s \<noteq> []"
  shows "\<exists>s'. recordLifecycleNotice (b, sk, pv) (missingBookingCancellationNotifications (b, sk, pv) s) None s =
      Inr ((missingBookingCancellationNotifications (b, sk, pv) s, None), s') \<and>
    missingBookingCancellationNotifications (b, sk, pv) s' = [] \<and>
    length (notifications s') \<le> length (notifications s) + 2"
proof -
  let ?ns = "missingBookingCancellationNotifications (b, sk, pv) s"
  let ?row = "\<lambda>n. \<lparr>nt_id = the (no_id n), nt_userId = no_userId n, nt_title = no_title n,
    nt_cancelledBooking = no_cancelledBooking n\<rparr>"
  have d: "distinct (map no_id ?ns)" and len: "length ?ns \<le> 2"
    using assms(2) by (auto simp: missing_notices alert_notice_def)
  have new: "\<forall>n \<in> set ?ns. \<exists>k. no_id n = Some k \<and> k \<notin> nt_id ` set (notifications s)"
  proof
    fix n assume "n \<in> set ?ns"
    then obtain u where u: "u \<in> {sk, pv}" "n = alert_notice b u"
      "\<forall>r \<in> set (notifications s). \<not> alert_for (b, sk, pv) u r"
      unfolding missing_iff by blast
    have "nt_id r \<noteq> N_BookingCancelled b u" if r: "r \<in> set (notifications s)" for r
    proof
      assume i: "nt_id r = N_BookingCancelled b u"
      then have "nt_userId r = u" "nt_cancelledBooking r = Some b"
        using assms(1) r unfolding cancel_alerts_wf_def by blast+
      with i u(1) have "alert_for (b, sk, pv) u r" by (auto simp: alert_for_def)
      with u(3) r show False by blast
    qed
    then have "N_BookingCancelled b u \<notin> nt_id ` set (notifications s)" by (metis imageE)
    then show "\<exists>k. no_id n = Some k \<and> k \<notin> nt_id ` set (notifications s)"
      by (simp add: u(2) alert_notice_def)
  qed
  obtain s' where s': "for_each create_notice ?ns s = Inr ((), s')"
    "notifications s' = notifications s @ map ?row ?ns"
    using create_notices_keyed[OF d new] by blast
  have "n \<notin> set (missingBookingCancellationNotifications (b, sk, pv) s')" for n
  proof
    assume n: "n \<in> set (missingBookingCancellationNotifications (b, sk, pv) s')"
    then have "n \<in> set ?ns" unfolding missing_iff s'(2) by auto
    then have "?row n \<in> set (notifications s')" by (simp add: s'(2))
    with n show False by (auto simp: missing_iff alert_notice_def alert_for_def)
  qed
  then have "missingBookingCancellationNotifications (b, sk, pv) s' = []" by (meson list.set_sel(1))
  with s' len assms(3) show ?thesis
    by (simp add: recordLifecycleNotice_def tx_seq_def tx_bind_def ret_def ensure_def system_message_def)
qed


end
