(* ===== verification/SH_Trust.thy ===== *)
theory SH_Trust
  imports SH_Lifecycle
begin

text \<open>
  The trust score and its ledger (src/src/services/trust.service.ts and
  src/src/services/trust-policy.service.ts): the single writer of a score, the correction of an event by
  an administrator, the reward of a completed booking and the penalty of a case.

  Event ids (\<open>te_id\<close>) are fresh; the composed event keys and penalty keys are datatypes.
\<close>

subsection \<open>The only writer of a score\<close>

record trust_input =
  ti_userId :: key
  ti_delta :: int
  ti_reason :: string
  ti_eventKey :: trust_key
  ti_actorAdminId :: "key option"
  ti_requestedDelta :: "int option"
  ti_bookingId :: "key option"
  ti_category :: trust_category
  ti_penaltyKey :: "(key \<times> key) option"
  ti_reversesEventId :: "key option"

datatype trust_result = NotApplied | Applied int int

definition clamp_score :: "int \<Rightarrow> int" where
  "clamp_score x = min 100 (max 0 x)"

definition find_event :: "trust_key \<Rightarrow> db \<Rightarrow> trust_event_row option" where
  "find_event k s = List.find (\<lambda>e. te_eventKey e = Some k) (trustEvents s)"

text \<open>The comparison of a repeated operation with the recorded event. A missing administrator is null
  in the row and undefined in the input, which differ.\<close>

definition trust_conflict :: "trust_event_row \<Rightarrow> trust_input \<Rightarrow> bool" where
  "trust_conflict e i \<longleftrightarrow> ti_requestedDelta i \<noteq> None \<and>
     (te_userId e \<noteq> ti_userId i \<or> te_reason e \<noteq> ti_reason i \<or>
      te_actorAdminId e = None \<or> te_actorAdminId e \<noteq> ti_actorAdminId i \<or>
      te_requestedDelta e \<noteq> ti_requestedDelta i \<or>
      (ti_reversesEventId i \<noteq> None \<and> te_reversesEventId e \<noteq> ti_reversesEventId i))"

definition trust_event :: "time \<Rightarrow> trust_input \<Rightarrow> key \<Rightarrow> int \<Rightarrow> trust_event_row" where
  "trust_event now i k before = \<lparr>te_id = k, te_userId = ti_userId i,
     te_delta = clamp_score (before + ti_delta i) - before,
     te_requestedDelta = Some (case ti_requestedDelta i of None \<Rightarrow> ti_delta i | Some d \<Rightarrow> d),
     te_reason = ti_reason i, te_scoreBefore = before, te_scoreAfter = clamp_score (before + ti_delta i),
     te_actorAdminId = ti_actorAdminId i, te_eventKey = Some (ti_eventKey i), te_createdAt = now,
     te_bookingId = ti_bookingId i, te_category = ti_category i, te_penaltyKey = ti_penaltyKey i,
     te_reversesEventId = ti_reversesEventId i\<rparr>"

definition applyTrustEventInTransaction :: "time \<Rightarrow> trust_input \<Rightarrow> trust_result dbtx" where
  "applyTrustEventInTransaction now i =
     tx_bind (query (find_user (ti_userId i))) (\<lambda>found.
     tx_bind (expect (Http 404 ''User not found'') found) (\<lambda>user.
     tx_bind (query (find_event (ti_eventKey i))) (\<lambda>existing.
       case existing of Some e \<Rightarrow>
         tx_seq (ensure (\<not> trust_conflict e i) (Http 409 ''TRUST_OPERATION_CONFLICT'')) (ret NotApplied)
       | None \<Rightarrow>
         let scoreBefore = u_trustScore user; scoreAfter = clamp_score (scoreBefore + ti_delta i)
         in tx_seq (upd_user (ti_userId i) (\<lambda>u. u\<lparr>u_trustScore := scoreAfter\<rparr>))
           (tx_bind fresh_id (\<lambda>k.
            tx_seq (modify (trustEvents_update (\<lambda>es. es @ [trust_event now i k scoreBefore])))
           (tx_seq (case ti_actorAdminId i of None \<Rightarrow> ret ()
              | Some a \<Rightarrow> audit a (Some (ti_userId i)) ''TRUST_SCORE_ADJUSTED'' (ti_userId i))
           (ret (Applied scoreBefore scoreAfter))))))))"

definition plain_trust :: "key \<Rightarrow> int \<Rightarrow> string \<Rightarrow> key option \<Rightarrow> trust_key \<Rightarrow> trust_input" where
  "plain_trust userId delta reason actorAdminId eventKey =
     \<lparr>ti_userId = userId, ti_delta = delta, ti_reason = reason, ti_eventKey = eventKey,
      ti_actorAdminId = actorAdminId, ti_requestedDelta = None, ti_bookingId = None,
      ti_category = T_LEGACY, ti_penaltyKey = None, ti_reversesEventId = None\<rparr>"

text \<open>The default event key carries a random UUID; the caller's key or that UUID is the argument.\<close>

definition applyTrustEvent :: "time \<Rightarrow> key \<Rightarrow> int \<Rightarrow> string \<Rightarrow> key option \<Rightarrow> trust_key \<Rightarrow> unit dbtx" where
  "applyTrustEvent now userId delta reason actorAdminId eventKey =
     tx_seq (applyTrustEventInTransaction now (plain_trust userId delta reason actorAdminId eventKey)) (ret ())"

definition recordAccountCreationBaseline :: "time \<Rightarrow> key \<Rightarrow> unit dbtx" where
  "recordAccountCreationBaseline now userId =
     tx_bind (query (find_event (TK_AccountBaseline userId))) (\<lambda>existing.
       case existing of Some _ \<Rightarrow> ret ()
       | None \<Rightarrow> tx_bind fresh_id (\<lambda>k. modify (trustEvents_update (\<lambda>es. es @
           [\<lparr>te_id = k, te_userId = userId, te_delta = 50, te_requestedDelta = None,
             te_reason = ''Initial Account Base Trust Score Baseline'', te_scoreBefore = 0,
             te_scoreAfter = 50, te_actorAdminId = None, te_eventKey = Some (TK_AccountBaseline userId),
             te_createdAt = now, te_bookingId = None, te_category = T_LEGACY, te_penaltyKey = None,
             te_reversesEventId = None\<rparr>]))))"

definition applyVerificationApprovalTrust :: "time \<Rightarrow> key \<Rightarrow> key option \<Rightarrow> unit dbtx" where
  "applyVerificationApprovalTrust now userId actorAdminId =
     applyTrustEvent now userId 5 ''Residency & Identity Verification Approved by Admin'' actorAdminId
       (TK_VerificationApproval userId)"

subsection \<open>Corrections\<close>

definition correctable :: "key \<Rightarrow> trust_event_row \<Rightarrow> bool" where
  "correctable userId e \<longleftrightarrow> te_userId e = userId \<and> te_delta e \<noteq> 0 \<and> te_reversesEventId e = None \<and>
     te_category e \<notin> {T_POLICY_TRANSITION, T_LEGACY_DUPLICATE_PENALTY, T_REVIEW_LEGACY} \<and>
     (case te_eventKey e of Some (TK_AccountBaseline _) \<Rightarrow> False | Some (TK_Review _) \<Rightarrow> False | _ \<Rightarrow> True)"

definition reversal_of :: "key \<Rightarrow> db \<Rightarrow> trust_event_row option" where
  "reversal_of k s = List.find (\<lambda>e. te_reversesEventId e = Some k) (trustEvents s)"

definition applyManualTrustAdjustment ::
  "time \<Rightarrow> key \<Rightarrow> key \<Rightarrow> key \<Rightarrow> string \<Rightarrow> string \<Rightarrow> trust_result dbtx" where
  "applyManualTrustAdjustment now userId adminId eventId reason operationId =
     tx_seq (ensure (adminId \<noteq> userId \<and> 20 \<le> length (trim reason))
       (Http 422 ''A correction requires an independent administrator and a documented reason''))
    (tx_bind (query (\<lambda>s. (find_row te_id eventId (trustEvents s), reversal_of eventId s))) (\<lambda>(found, reversal).
     case found of None \<Rightarrow> fail (Http 422 ''Select an eligible original trust event to correct'')
     | Some original \<Rightarrow>
       tx_seq (ensure (correctable userId original) (Http 422 ''Select an eligible original trust event to correct''))
      (tx_seq (ensure (case reversal of None \<Rightarrow> True | Some r \<Rightarrow> te_eventKey r = Some (TK_Manual adminId operationId))
         (Http 409 ''This trust event has already been corrected''))
      (tx_bind (applyTrustEventInTransaction now \<lparr>ti_userId = userId, ti_delta = - te_delta original,
          ti_reason = reason, ti_eventKey = TK_Manual adminId operationId, ti_actorAdminId = Some adminId,
          ti_requestedDelta = Some (- te_delta original), ti_bookingId = te_bookingId original,
          ti_category = T_CORRECTION, ti_penaltyKey = None, ti_reversesEventId = Some eventId\<rparr>) (\<lambda>result.
       tx_seq (case result of NotApplied \<Rightarrow> ret () | Applied _ _ \<Rightarrow> notify userId ''Trust score adjusted'')
       (ret result))))))"

subsection \<open>The policy\<close>

definition TRUST_PAIR_WINDOW_DAYS :: int where
  "TRUST_PAIR_WINDOW_DAYS = 7"

definition reversed_event :: "db \<Rightarrow> trust_event_row \<Rightarrow> bool" where
  "reversed_event s e \<longleftrightarrow> reversal_of (te_id e) s \<noteq> None"

definition same_pair :: "booking_row \<Rightarrow> booking_row \<Rightarrow> bool" where
  "same_pair a b \<longleftrightarrow> (bk_providerId a = bk_providerId b \<and> bk_seekerId a = bk_seekerId b) \<or>
     (bk_providerId a = bk_seekerId b \<and> bk_seekerId a = bk_providerId b)"

text \<open>An unreversed reward of another booking of the same two accounts within the window.\<close>

definition recent_reward :: "time \<Rightarrow> booking_row \<Rightarrow> db \<Rightarrow> trust_event_row \<Rightarrow> bool" where
  "recent_reward now b s e \<longleftrightarrow> te_category e = T_COMPLETION \<and> \<not> reversed_event s e \<and>
     now - TRUST_PAIR_WINDOW_DAYS * 86400000 < te_createdAt e \<and>
     te_userId e \<in> {bk_providerId b, bk_seekerId b} \<and>
     (case te_bookingId e of None \<Rightarrow> False
      | Some j \<Rightarrow> j \<noteq> bk_id b \<and> (case find_booking j s of None \<Rightarrow> False | Some o' \<Rightarrow> same_pair o' b))"

definition case_pending :: "key \<Rightarrow> db \<Rightarrow> bool" where
  "case_pending b s \<longleftrightarrow>
     exists_row (\<lambda>r. rp_bookingId r = b \<and> rp_status r \<in> {RP_PENDING, RP_UNDER_REVIEW}) (reports s) \<or>
     exists_row (\<lambda>c. cr_bookingId c = b \<and> cr_status c \<in> {C_PENDING, C_ESCALATED, C_UNDER_REVIEW}) (cancellations s) \<or>
     exists_row (\<lambda>e. es_bookingId e = b \<and> es_status e \<in> {E_PENDING, E_UNDER_REVIEW}) (escalations s)"

definition reward_eligible :: "booking_row \<Rightarrow> user_row \<Rightarrow> user_row \<Rightarrow> db \<Rightarrow> bool" where
  "reward_eligible b provider seeker s \<longleftrightarrow> bk_status b = B_COMPLETED \<and> completed_of (bk_id b) s \<noteq> None \<and>
     bk_paymentStatus b \<in> {P_CASH_CONFIRMED, P_RELEASED} \<and> bk_providerId b \<noteq> bk_seekerId b \<and>
     u_verificationStatus provider = V_APPROVED \<and> u_verificationStatus seeker = V_APPROVED"

definition award_one :: "time \<Rightarrow> booking_row \<Rightarrow> key \<Rightarrow> user_row \<Rightarrow> unit dbtx" where
  "award_one now b userId account =
     when_tx (u_isActive account \<and> u_moderationStatus account = M_ACTIVE)
      (tx_bind (query (\<lambda>s. exists_row (\<lambda>e. te_bookingId e = Some (bk_id b) \<and> te_userId e = userId \<and>
           te_category e \<in> {T_REPORT_PENALTY, T_CANCELLATION_PENALTY} \<and> \<not> reversed_event s e) (trustEvents s)))
       (\<lambda>fault. when_tx (\<not> fault)
         (tx_seq (applyTrustEventInTransaction now \<lparr>ti_userId = userId, ti_delta = 3,
            ti_reason = ''Eligible booking completed and payment settled'',
            ti_eventKey = TK_BookingCompletion (bk_id b) (userId = bk_providerId b),
            ti_actorAdminId = None, ti_requestedDelta = None, ti_bookingId = Some (bk_id b),
            ti_category = T_COMPLETION, ti_penaltyKey = None, ti_reversesEventId = None\<rparr>) (ret ()))))"

text \<open>The two accounts are rewarded in the order of their ids. The relations \<open>provider\<close> and \<open>seeker\<close> of a
  booking always exist (foreign keys).\<close>

definition awardBookingCompletionTrust :: "time \<Rightarrow> key \<Rightarrow> unit dbtx" where
  "awardBookingCompletionTrust now bookingId =
     tx_bind (query (\<lambda>s. case find_booking bookingId s of None \<Rightarrow> None
        | Some b \<Rightarrow> (case (find_user (bk_providerId b) s, find_user (bk_seekerId b) s) of
            (Some p, Some k) \<Rightarrow>
              if reward_eligible b p k s \<and> \<not> case_pending bookingId s \<and>
                 \<not> exists_row (recent_reward now b s) (trustEvents s)
              then Some (b, p, k) else None
          | _ \<Rightarrow> None)))
     (\<lambda>found. case found of None \<Rightarrow> ret ()
       | Some (b, p, k) \<Rightarrow>
         if bk_providerId b < bk_seekerId b
         then tx_seq (award_one now b (bk_providerId b) p) (award_one now b (bk_seekerId b) k)
         else tx_seq (award_one now b (bk_seekerId b) k) (award_one now b (bk_providerId b) p))"

definition applyBookingTrustPenalty ::
  "time \<Rightarrow> key \<Rightarrow> key \<Rightarrow> key \<Rightarrow> trust_key \<Rightarrow> bool \<Rightarrow> string \<Rightarrow> trust_result dbtx" where
  "applyBookingTrustPenalty now bookingId userId adminId eventKey forCancellation reason =
     tx_seq (ensure (20 \<le> length (trim reason)) (Http 422 ''Describe the violated rule and supporting booking evidence''))
    (tx_bind (query (find_booking bookingId)) (\<lambda>found. case found of
       None \<Rightarrow> fail (Http 422 ''Trust penalties require a booking participant'')
     | Some b \<Rightarrow>
       tx_seq (ensure (userId \<in> {bk_providerId b, bk_seekerId b}) (Http 422 ''Trust penalties require a booking participant''))
      (tx_seq (ensure (adminId \<notin> {bk_providerId b, bk_seekerId b}) (Http 403 ''An administrator cannot decide a booking they participated in''))
      (tx_seq (ensure (forCancellation \<longrightarrow> bk_started b) (Http 422 ''Cancellation penalties apply only after work starts''))
      (tx_bind (query (\<lambda>s. exists_row (\<lambda>e. te_penaltyKey e = Some (bookingId, userId)) (trustEvents s))) (\<lambda>known.
       if known then ret NotApplied
       else tx_bind (applyTrustEventInTransaction now \<lparr>ti_userId = userId,
              ti_delta = (if forCancellation then -5 else -10), ti_reason = reason, ti_eventKey = eventKey,
              ti_actorAdminId = Some adminId, ti_requestedDelta = None, ti_bookingId = Some bookingId,
              ti_category = (if forCancellation then T_CANCELLATION_PENALTY else T_REPORT_PENALTY),
              ti_penaltyKey = Some (bookingId, userId), ti_reversesEventId = None\<rparr>) (\<lambda>result.
            tx_seq (case result of NotApplied \<Rightarrow> ret () | Applied _ _ \<Rightarrow> notify userId ''Trust penalty recorded'')
            (ret result))))))))"

subsection \<open>What a trust event does\<close>

definition trust_audits :: "trust_input \<Rightarrow> audit_row list" where
  "trust_audits i = (case ti_actorAdminId i of None \<Rightarrow> []
     | Some a \<Rightarrow> [\<lparr>al_actorId = a, al_targetUserId = Some (ti_userId i), al_action = ''TRUST_SCORE_ADJUSTED'',
         al_resourceId = ti_userId i\<rparr>])"

definition trust_written :: "time \<Rightarrow> trust_input \<Rightarrow> int \<Rightarrow> db \<Rightarrow> db" where
  "trust_written now i before s = s\<lparr>
     users := map_rows (\<lambda>r. u_id r = ti_userId i) (\<lambda>u. u\<lparr>u_trustScore := clamp_score (before + ti_delta i)\<rparr>) (users s),
     trustEvents := trustEvents s @ [trust_event now i (nextId s) before],
     auditLogs := auditLogs s @ trust_audits i, nextId := Suc (nextId s)\<rparr>"

lemma db_eqI_trust:
  "auditLogs_update (\<lambda>l. l @ a) (trustEvents_update (\<lambda>l. l @ e) ((users_update f s)\<lparr>nextId := n\<rparr>)) =
   s\<lparr>users := f (users s), trustEvents := trustEvents s @ e, auditLogs := auditLogs s @ a, nextId := n\<rparr>"
  "trustEvents_update (\<lambda>l. l @ e) ((users_update f s)\<lparr>nextId := n\<rparr>) =
   s\<lparr>users := f (users s), trustEvents := trustEvents s @ e, auditLogs := auditLogs s, nextId := n\<rparr>"
  by (cases s; simp)+

lemma applyTrustEvent_Inr:
  "applyTrustEventInTransaction now i s = Inr (r, s') \<longleftrightarrow>
     (\<exists>u. find_user (ti_userId i) s = Some u \<and>
       (case find_event (ti_eventKey i) s of
          Some e \<Rightarrow> \<not> trust_conflict e i \<and> r = NotApplied \<and> s' = s
        | None \<Rightarrow> r = Applied (u_trustScore u) (clamp_score (u_trustScore u + ti_delta i)) \<and>
            s' = trust_written now i (u_trustScore u) s))"
  unfolding applyTrustEventInTransaction_def tx_bind_Inr query_Inr expect_Inr
  by (auto simp: tx_iff Let_def upd_user_def fresh_id_def audit_def trust_written_def trust_audits_def
      db_eqI_trust split: option.splits)

lemma clamp_range: "0 \<le> clamp_score x" "clamp_score x \<le> 100"
  by (auto simp: clamp_score_def)

subsection \<open>The invariant of the ledger\<close>

text \<open>Every score lies between 0 and 100, and every event records the change it made between two such
  scores.\<close>

definition event_wf :: "trust_event_row \<Rightarrow> bool" where
  "event_wf e \<longleftrightarrow> te_delta e = te_scoreAfter e - te_scoreBefore e \<and>
     0 \<le> te_scoreBefore e \<and> te_scoreBefore e \<le> 100 \<and> 0 \<le> te_scoreAfter e \<and> te_scoreAfter e \<le> 100"

definition trust_wf :: "db \<Rightarrow> bool" where
  "trust_wf s \<longleftrightarrow> (\<forall>u \<in> set (users s). 0 \<le> u_trustScore u \<and> u_trustScore u \<le> 100) \<and>
     (\<forall>e \<in> set (trustEvents s). event_wf e)"

text \<open>A score less the sum of the recorded changes of its owner.\<close>

definition trust_balance :: "key \<Rightarrow> db \<Rightarrow> int option" where
  "trust_balance k s = map_option (\<lambda>u. u_trustScore u -
     sum_list (map te_delta (filter (\<lambda>e. te_userId e = k) (trustEvents s)))) (find_user k s)"

lemma find_user_mem: "find_user k s = Some u \<Longrightarrow> u \<in> set (users s) \<and> u_id u = k"
  by (auto simp: find_user_def dest: find_row_Some)

lemma trust_written_wf:
  assumes "trust_wf s" "find_user (ti_userId i) s = Some u"
  shows "trust_wf (trust_written now i (u_trustScore u) s)"
  using assms find_user_mem[OF assms(2)] clamp_range
  by (auto simp: trust_wf_def trust_written_def set_map_rows trust_event_def event_wf_def split: if_splits)

lemma trust_written_balance:
  assumes "find_user (ti_userId i) s = Some u"
  shows "trust_balance k (trust_written now i (u_trustScore u) s) = trust_balance k s"
  using assms by (auto simp: trust_balance_def trust_written_def trust_event_def find_user_def)

lemma keeps_applyTrustEvent [tx_pres]: "keeps trust_wf (applyTrustEventInTransaction now i)"
  by (rule keepsI) (auto simp: applyTrustEvent_Inr trust_written_wf split: option.splits)

lemma balance_applyTrustEvent [tx_pres]: "leaves (trust_balance k) (applyTrustEventInTransaction now i)"
  by (rule leavesI, rule keepsI) (auto simp: applyTrustEvent_Inr trust_written_balance split: option.splits)

lemma trust_wf_frame: "users s' = users s \<Longrightarrow> trustEvents s' = trustEvents s \<Longrightarrow> trust_wf s' = trust_wf s"
  by (simp add: trust_wf_def)

lemma trust_balance_frame:
  "users s' = users s \<Longrightarrow> trustEvents s' = trustEvents s \<Longrightarrow> trust_balance k s' = trust_balance k s"
  by (simp add: trust_balance_def find_user_def)

lemma notify_trust [tx_pres]: "keeps trust_wf (notify u t)" "keeps (\<lambda>s. trust_balance k s = c) (notify u t)"
  by (auto simp: keeps_def notify_def fresh_id_def tx_iff trust_wf_def trust_balance_def find_user_def)

lemma award_one_keeps [tx_pres]: "keeps trust_wf (award_one now b u a)"
  "keeps (\<lambda>s. trust_balance k s = c) (award_one now b u a)"
  unfolding award_one_def using balance_applyTrustEvent[of k] keeps_applyTrustEvent
  by (auto simp: leaves_def intro!: tx_pres)

lemma known_event: "find_event k s \<noteq> None \<longleftrightarrow> Some k \<in> te_eventKey ` set (trustEvents s)"
  by (simp add: find_event_def find_None_iff image_iff) metis

interpretation trust_log: once_log trustEvents te_eventKey "\<lambda>i. Some (ti_eventKey i)"
  "applyTrustEventInTransaction now" for now
proof unfold_locales
  fix i s x s'
  assume run: "applyTrustEventInTransaction now i s = Inr (x, s')"
  note known = known_event[of "ti_eventKey i" s]
  show "trustEvents s' = trustEvents s" if "Some (ti_eventKey i) \<in> te_eventKey ` set (trustEvents s)"
    using run known that by (auto simp: applyTrustEvent_Inr split: option.splits)
  show "\<exists>e. te_eventKey e = Some (ti_eventKey i) \<and> trustEvents s' = trustEvents s @ [e]"
    if "Some (ti_eventKey i) \<notin> te_eventKey ` set (trustEvents s)"
    using run known that
    by (auto simp: applyTrustEvent_Inr trust_written_def trust_event_def split: option.splits)
qed

subsection \<open>Properties\<close>

lemma keeps_award [tx_pres]: "keeps trust_wf (awardBookingCompletionTrust now b)"
  "keeps (\<lambda>s. trust_balance k s = c) (awardBookingCompletionTrust now b)"
  unfolding awardBookingCompletionTrust_def by (intro tx_pres)+

lemma keeps_penalty [tx_pres]: "keeps trust_wf (applyBookingTrustPenalty now b u a ek f r)"
  "keeps (\<lambda>s. trust_balance k s = c) (applyBookingTrustPenalty now b u a ek f r)"
  unfolding applyBookingTrustPenalty_def using balance_applyTrustEvent[of k]
  by (auto simp: leaves_def split: trust_result.splits intro!: tx_pres)

lemma keeps_manual [tx_pres]: "keeps trust_wf (applyManualTrustAdjustment now u a e r op)"
  "keeps (\<lambda>s. trust_balance k s = c) (applyManualTrustAdjustment now u a e r op)"
  unfolding applyManualTrustAdjustment_def using balance_applyTrustEvent[of k]
  by (auto simp: leaves_def split: trust_result.splits option.splits intro!: tx_pres)

lemma keeps_applyTrustEvent_plain [tx_pres]: "keeps trust_wf (applyTrustEvent now u d r a ek)"
  "keeps (\<lambda>s. trust_balance k s = c) (applyTrustEvent now u d r a ek)"
  unfolding applyTrustEvent_def using balance_applyTrustEvent[of k]
  by (auto simp: leaves_def intro!: tx_pres)

text \<open>C38: The ledger explains the score. Every operation on trust keeps all scores within 0 and 100 and
  every event equal to the change between two such scores, and, except for the opening baseline
  entry, leaves each account's score less the sum of its recorded changes as it was.\<close>

theorem trust_operations_balanced:
  "keeps trust_wf (applyTrustEvent now u d r a ek) \<and> keeps trust_wf (recordAccountCreationBaseline now u) \<and>
   keeps trust_wf (applyVerificationApprovalTrust now u a) \<and>
   keeps trust_wf (applyManualTrustAdjustment now u adm e r op) \<and>
   keeps trust_wf (awardBookingCompletionTrust now b) \<and>
   keeps trust_wf (applyBookingTrustPenalty now b u adm ek forCancellation r) \<and>
   leaves (trust_balance k) (applyTrustEvent now u d r a ek) \<and>
   leaves (trust_balance k) (applyVerificationApprovalTrust now u a) \<and>
   leaves (trust_balance k) (applyManualTrustAdjustment now u adm e r op) \<and>
   leaves (trust_balance k) (awardBookingCompletionTrust now b) \<and>
   leaves (trust_balance k) (applyBookingTrustPenalty now b u adm ek forCancellation r)"
proof -
  have "keeps trust_wf (recordAccountCreationBaseline now u)"
    by (rule keepsI) (auto simp: recordAccountCreationBaseline_def tx_iff fresh_id_def trust_wf_def event_wf_def
        split: option.splits)
  then show ?thesis
    by (auto simp: leaves_def applyVerificationApprovalTrust_def intro: tx_pres)
qed

text \<open>A trust event counts once: after an operation with an event key succeeded, a retry with the
  same key that is accepted changes nothing, whatever amount or account it names.\<close>

lemma trust_event_once:
  assumes "applyTrustEventInTransaction t i s = Inr (r, s1)"
    "applyTrustEventInTransaction t' j s1 = Inr (q, s2)" "ti_eventKey j = ti_eventKey i"
  shows "q = NotApplied \<and> s2 = s1"
proof -
  have "Some (ti_eventKey j) \<in> te_eventKey ` set (trustEvents s1)"
    using trust_log.written[OF assms(1)] assms(3) by simp
  then have "find_event (ti_eventKey j) s1 \<noteq> None" by (simp only: known_event)
  with assms(2) show ?thesis by (auto simp: applyTrustEvent_Inr split: option.splits)
qed


text \<open>A second penalty for the same booking and account never counts, whatever case, event key or
  administrator it comes from; and only a participant of the booking is penalised, never by an
  administrator who took part in it.\<close>

lemma trust_penalty_once:
  assumes "applyBookingTrustPenalty t b u adm ek f r s = Inr (Applied x y, s1)"
    "applyBookingTrustPenalty t' b u adm' ek' f' r' s1 = Inr (q, s2)"
  shows "q = NotApplied \<and> s2 = s1 \<and> y = clamp_score (x - (if f then 5 else 10)) \<and>
    (\<exists>bk. find_booking b s = Some bk \<and> u \<in> {bk_providerId bk, bk_seekerId bk} \<and>
       adm \<notin> {bk_providerId bk, bk_seekerId bk})"
proof -
  have "\<exists>e \<in> set (trustEvents s1). te_penaltyKey e = Some (b, u)"
    using assms(1) by (auto simp: applyBookingTrustPenalty_def tx_iff applyTrustEvent_Inr trust_written_def
        trust_event_def notify_def fresh_id_def split: option.splits if_splits)
  then have "q = NotApplied \<and> s2 = s1"
    using assms(2) by (auto simp: applyBookingTrustPenalty_def tx_iff split: option.splits if_splits)
  moreover have "\<exists>bk. find_booking b s = Some bk \<and> u \<in> {bk_providerId bk, bk_seekerId bk} \<and>
       adm \<notin> {bk_providerId bk, bk_seekerId bk}"
    using assms(1) by (auto simp: applyBookingTrustPenalty_def tx_iff split: option.splits)
  moreover have "y = clamp_score (x - (if f then 5 else 10))"
    using assms(1) by (auto simp: applyBookingTrustPenalty_def tx_iff applyTrustEvent_Inr split: option.splits if_splits)
  ultimately show ?thesis by blast
qed

definition sample_penalty_db :: db where
  "sample_penalty_db = empty_db\<lparr>users := [ready_user 1, ready_user 2],
     bookings := [(sample_booking 5 B_CANCELED GCash P_REFUNDED)\<lparr>bk_started := True\<rparr>]\<rparr>"


text \<open>The reward loop writes at most one event per account, each with the booking's own key.\<close>

definition reward_event :: "booking_row \<Rightarrow> trust_event_row \<Rightarrow> bool" where
  "reward_event b e \<longleftrightarrow> te_category e = T_COMPLETION \<and> te_bookingId e = Some (bk_id b) \<and>
     te_userId e \<in> {bk_providerId b, bk_seekerId b} \<and> te_delta e \<le> 3 \<and>
     te_eventKey e = Some (TK_BookingCompletion (bk_id b) (te_userId e = bk_providerId b))"

lemma award_one_effect:
  assumes "award_one now b k a s = Inr (u, s')" "k \<in> {bk_providerId b, bk_seekerId b}" "trust_wf s"
  shows "\<exists>es. trustEvents s' = trustEvents s @ es \<and> length es \<le> 1 \<and> (\<forall>e \<in> set es. reward_event b e) \<and>
    (es \<noteq> [] \<longrightarrow> u_isActive a \<and> u_moderationStatus a = M_ACTIVE)"
proof -
  have "clamp_score (x + 3) - x \<le> 3" if "0 \<le> x" for x using that by (simp add: clamp_score_def)
  moreover have "0 \<le> u_trustScore v" if "find_user k s = Some v" for v
    using find_user_mem[OF that] assms(3) by (auto simp: trust_wf_def)
  ultimately show ?thesis
    using assms(1,2)
    by (auto simp: award_one_def tx_iff applyTrustEvent_Inr trust_written_def trust_event_def reward_event_def
        split: if_splits option.splits)
qed

text \<open>Completing a booking earns trust only when it is settled, both accounts are verified, no case
  of it is open and the two accounts, in either role, earned none from another booking in the last
  seven days; then each side gets at most one event of at most 3 points.\<close>

lemma completion_trust_only_when_earned:
  assumes "awardBookingCompletionTrust now bid s = Inr (u, s')" "trust_wf s"
    "trustEvents s' \<noteq> trustEvents s"
  shows "\<exists>b p k es. find_booking bid s = Some b \<and> find_user (bk_providerId b) s = Some p \<and>
    find_user (bk_seekerId b) s = Some k \<and> reward_eligible b p k s \<and> \<not> case_pending bid s \<and>
    (\<forall>e \<in> set (trustEvents s). \<not> recent_reward now b s e) \<and>
    trustEvents s' = trustEvents s @ es \<and> length es \<le> 2 \<and> (\<forall>e \<in> set es. reward_event b e)"
proof -
  let ?pick = "case find_booking bid s of None \<Rightarrow> None
        | Some b \<Rightarrow> (case (find_user (bk_providerId b) s, find_user (bk_seekerId b) s) of
            (Some p, Some k) \<Rightarrow>
              if reward_eligible b p k s \<and> \<not> case_pending bid s \<and>
                 \<not> exists_row (recent_reward now b s) (trustEvents s)
              then Some (b, p, k) else None
          | _ \<Rightarrow> None)"
  from assms(1,3) obtain b p k where pick: "?pick = Some (b, p, k)"
    by (cases ?pick) (auto simp: awardBookingCompletionTrust_def tx_bind_Inr query_Inr ret_Inr)
  then have facts: "find_booking bid s = Some b" "find_user (bk_providerId b) s = Some p"
    "find_user (bk_seekerId b) s = Some k" "reward_eligible b p k s" "\<not> case_pending bid s"
    "\<forall>e \<in> set (trustEvents s). \<not> recent_reward now b s e"
    by (auto split: option.splits if_splits)
  obtain x y s1 v w where r1: "award_one now b x v s = Inr ((), s1)" and r2: "award_one now b y w s1 = Inr ((), s')"
    and xy: "x \<in> {bk_providerId b, bk_seekerId b}" "y \<in> {bk_providerId b, bk_seekerId b}"
    using assms(1) pick
    by (auto simp: awardBookingCompletionTrust_def tx_bind_Inr query_Inr tx_seq_Inr split: if_splits)
  have "trust_wf s1" by (rule keepsD[OF award_one_keeps(1) r1 assms(2)])
  from award_one_effect[OF r1 xy(1) assms(2)] award_one_effect[OF r2 xy(2) this]
  obtain es fs where "trustEvents s1 = trustEvents s @ es" "length es \<le> 1" "\<forall>e \<in> set es. reward_event b e"
    "trustEvents s' = trustEvents s1 @ fs" "length fs \<le> 1" "\<forall>e \<in> set fs. reward_event b e"
    by blast
  then have "trustEvents s' = trustEvents s @ (es @ fs) \<and> length (es @ fs) \<le> 2 \<and>
      (\<forall>e \<in> set (es @ fs). reward_event b e)"
    by auto
  with facts show ?thesis by blast
qed

definition sample_completed_db :: db where
  "sample_completed_db = empty_db\<lparr>users := [ready_user 1, ready_user 2],
     bookings := [sample_booking 5 B_COMPLETED GCash P_RELEASED],
     completedServices := [\<lparr>cs_id = 8, cs_bookingId = Some 5, cs_queueId = None, cs_directRequestId = None,
       cs_offerId = None, cs_seekerId = 1, cs_providerId = 2, cs_finalPrice = 150, cs_commissionRateBps = 1000,
       cs_platformFeeAmount = 15, cs_providerNetAmount = Some 135, cs_paymentStatus = P_RELEASED\<rparr>]\<rparr>"


text \<open>An administrator's correction undoes an event once: a further correction of the same event is
  accepted only as a retry of the same operation by the same administrator, and then it changes
  nothing; no administrator corrects their own score.\<close>

lemma trust_correction_once:
  assumes "applyManualTrustAdjustment t u a e r op s = Inr (Applied x y, s1)"
    "applyManualTrustAdjustment t' u' a' e r' op' s1 = Inr (q, s2)"
  shows "q = NotApplied \<and> s2 = s1 \<and> a' = a \<and> op' = op \<and> a \<noteq> u"
proof -
  from assms(1) obtain o1 where o1: "find_row te_id e (trustEvents s) = Some o1"
    and rev: "case reversal_of e s of None \<Rightarrow> True | Some v \<Rightarrow> te_eventKey v = Some (TK_Manual a op)"
    and new: "find_event (TK_Manual a op) s = None" and au: "a \<noteq> u"
    and ev: "\<exists>n. trustEvents s1 = trustEvents s @ [n] \<and> te_reversesEventId n = Some e \<and>
        te_eventKey n = Some (TK_Manual a op)"
    by (auto simp: applyManualTrustAdjustment_def tx_iff applyTrustEvent_Inr trust_written_def trust_event_def
        notify_def fresh_id_def split: option.splits trust_result.splits)
  have none: "reversal_of e s = None"
  proof (rule ccontr)
    assume "reversal_of e s \<noteq> None"
    then obtain v where v: "reversal_of e s = Some v" by blast
    then have "v \<in> set (trustEvents s)" by (auto simp: reversal_of_def find_Some_iff)
    moreover have "te_eventKey v = Some (TK_Manual a op)" using rev v by simp
    ultimately have "Some (TK_Manual a op) \<in> te_eventKey ` set (trustEvents s)" by (metis image_eqI)
    with new show False by (simp flip: known_event)
  qed
  obtain n where n: "trustEvents s1 = trustEvents s @ [n]" "te_reversesEventId n = Some e"
    "te_eventKey n = Some (TK_Manual a op)" using ev by blast
  have rev1: "reversal_of e s1 = Some n"
  proof -
    have "\<forall>v \<in> set (trustEvents s). te_reversesEventId v \<noteq> Some e"
      using none by (auto simp: reversal_of_def find_None_iff)
    then have "List.find (\<lambda>v. te_reversesEventId v = Some e) (xs @ [n]) = Some n" if "set xs \<subseteq> set (trustEvents s)" for xs
      using that n(2) by (induction xs) auto
    then show ?thesis by (simp add: reversal_of_def n(1))
  qed
  have known: "find_event (TK_Manual a op) s1 \<noteq> None" unfolding known_event by (simp add: n(1,3))
  from assms(2) rev1 n(3) have same: "a' = a \<and> op' = op"
    by (auto simp: applyManualTrustAdjustment_def tx_iff split: option.splits)
  with assms(2) known have "q = NotApplied \<and> s2 = s1"
    by (auto simp: applyManualTrustAdjustment_def tx_iff applyTrustEvent_Inr
        split: option.splits trust_result.splits)
  with same au show ?thesis by blast
qed


end
