(* ===== verification/SH_Process.thy ===== *)
theory SH_Process
  imports SH_Trust
begin

text \<open>
  Operations that run several transactions one after the other (with calls of the payment gateway in
  between), and the invariant of the work tables.

  A process commits each of its transactions: an error of a later one leaves what the earlier ones
  wrote. A gateway answer is an argument of the operation that asks for it.

  \<open>work_wf\<close> is what every operation on bookings and queues keeps: entries and bookings have distinct
  ids below the next fresh one, every entry belongs to the provider of its booking, and every line is
  compact. \<open>calm\<close> are the transactions that leave the line alone and never change a booking's parties.
\<close>

subsection \<open>Processes\<close>

type_synonym ('s, 'a) process = "'s \<Rightarrow> (error + 'a) \<times> 's"

definition transact :: "('s, 'a) tx \<Rightarrow> ('s, 'a) process" where
  "transact m s = (case m s of Inl e \<Rightarrow> (Inl e, s) | Inr (x, s') \<Rightarrow> (Inr x, s'))"

definition p_ret :: "'a \<Rightarrow> ('s, 'a) process" where
  "p_ret x s = (Inr x, s)"

definition p_bind :: "('s, 'a) process \<Rightarrow> ('a \<Rightarrow> ('s, 'b) process) \<Rightarrow> ('s, 'b) process" where
  "p_bind m f s = (case m s of (Inl e, s') \<Rightarrow> (Inl e, s') | (Inr x, s') \<Rightarrow> f x s')"

definition p_seq :: "('s, 'a) process \<Rightarrow> ('s, 'b) process \<Rightarrow> ('s, 'b) process" where
  "p_seq m n = p_bind m (\<lambda>_. n)"

text \<open>\<open>catch (e) { await h(e); throw e; }\<close>\<close>

definition p_rethrow :: "('s, 'a) process \<Rightarrow> (error \<Rightarrow> ('s, unit) process) \<Rightarrow> ('s, 'a) process" where
  "p_rethrow m h s = (case m s of (Inr x, s') \<Rightarrow> (Inr x, s')
     | (Inl e, s') \<Rightarrow> (case h e s' of (Inl e2, s2) \<Rightarrow> (Inl e2, s2) | (Inr _, s2) \<Rightarrow> (Inl e, s2)))"

definition p_keeps :: "('s \<Rightarrow> bool) \<Rightarrow> ('s, 'a) process \<Rightarrow> bool" where
  "p_keeps I m \<longleftrightarrow> (\<forall>s. I s \<longrightarrow> I (snd (m s)))"

named_theorems p_pres \<open>rules by which a process keeps a property of the state\<close>

lemma p_keeps_transact [p_pres]: "keeps I m \<Longrightarrow> p_keeps I (transact m)"
  by (auto simp: p_keeps_def keeps_def transact_def split: sum.splits)

lemma p_keeps_ret [p_pres]: "p_keeps I (p_ret x)"
  by (simp add: p_keeps_def p_ret_def)

lemma p_keeps_bind [p_pres]: "p_keeps I m \<Longrightarrow> (\<And>x. p_keeps I (f x)) \<Longrightarrow> p_keeps I (p_bind m f)"
  unfolding p_keeps_def p_bind_def
  by (intro allI impI) (simp split: prod.splits sum.splits, metis snd_conv)

lemma p_keeps_seq [p_pres]: "p_keeps I m \<Longrightarrow> p_keeps I n \<Longrightarrow> p_keeps I (p_seq m n)"
  by (simp add: p_seq_def p_keeps_bind)

lemma p_keeps_rethrow [p_pres]:
  assumes "p_keeps I m" "\<And>e. p_keeps I (h e)"
  shows "p_keeps I (p_rethrow m h)"
  unfolding p_keeps_def
proof (intro allI impI)
  fix s assume "I s"
  then have m: "I (snd (m s))" using assms(1) by (simp add: p_keeps_def)
  have h: "I (snd (h e t))" if "I t" for e t using assms(2) that by (simp add: p_keeps_def)
  show "I (snd (p_rethrow m h s))"
  proof (cases "m s")
    case (Pair r t)
    show ?thesis
    proof (cases r)
      case (Inl e)
      obtain q u where q: "h e t = (q, u)" by fastforce
      with h[of t e] m Pair have "I u" by simp
      with q Pair Inl show ?thesis by (cases q) (simp_all add: p_rethrow_def)
    qed (use m Pair in \<open>simp add: p_rethrow_def\<close>)
  qed
qed

lemma p_keeps_if [p_pres]: "(c \<Longrightarrow> p_keeps I m) \<Longrightarrow> (\<not> c \<Longrightarrow> p_keeps I n) \<Longrightarrow> p_keeps I (if c then m else n)"
  by simp

lemma p_keeps_case_option [p_pres]:
  "(v = None \<Longrightarrow> p_keeps I m) \<Longrightarrow> (\<And>x. v = Some x \<Longrightarrow> p_keeps I (f x)) \<Longrightarrow>
   p_keeps I (case v of None \<Rightarrow> m | Some x \<Rightarrow> f x)"
  by (cases v) auto

lemma p_keeps_case_sum [p_pres]:
  "(\<And>x. v = Inl x \<Longrightarrow> p_keeps I (f x)) \<Longrightarrow> (\<And>x. v = Inr x \<Longrightarrow> p_keeps I (g x)) \<Longrightarrow>
   p_keeps I (case v of Inl x \<Rightarrow> f x | Inr x \<Rightarrow> g x)"
  by (cases v) auto

lemma p_keeps_case_prod [p_pres]: "(\<And>x y. p_keeps I (f x y)) \<Longrightarrow> p_keeps I (case q of (x, y) \<Rightarrow> f x y)"
  by (cases q) auto

lemma p_keeps_let [p_pres]: "(\<And>x. p_keeps I (f x)) \<Longrightarrow> p_keeps I (Let v f)"
  by simp

lemma tx_bind_query: "tx_bind (query f) g s = g (f s) s"
  by (simp add: tx_bind_def query_def)

lemma tx_bind_fresh: "tx_bind fresh_id f s = f (nextId s) (s\<lparr>nextId := Suc (nextId s)\<rparr>)"
  by (simp add: tx_bind_def fresh_id_def)

lemma tx_seq_modify: "tx_seq (modify f) m s = m (f s)"
  by (simp add: tx_seq_def tx_bind_def modify_def)

subsection \<open>Relations between the states before and after\<close>

locale step_rel =
  fixes R :: "'s \<Rightarrow> 's \<Rightarrow> bool"
  assumes R_refl: "R s s"
    and R_trans: "R s t \<Longrightarrow> R t u \<Longrightarrow> R s u"
begin

definition stays :: "('s, 'a) tx \<Rightarrow> bool" where
  "stays m \<longleftrightarrow> (\<forall>s x s'. m s = Inr (x, s') \<longrightarrow> R s s')"

lemma staysI: "(\<And>s x s'. m s = Inr (x, s') \<Longrightarrow> R s s') \<Longrightarrow> stays m"
  by (simp add: stays_def)

lemma staysD: "stays m \<Longrightarrow> m s = Inr (x, s') \<Longrightarrow> R s s'"
  by (simp add: stays_def)

lemma w_ret: "stays (ret x)" and w_fail: "stays (fail e)" and w_query: "stays (query f)"
  and w_ensure: "stays (ensure c e)" and w_expect: "stays (expect e v)" and w_lift: "stays (lift_sum r)"
  by (auto simp: stays_def tx_iff R_refl)

lemma w_bind: "stays m \<Longrightarrow> (\<And>x. stays (f x)) \<Longrightarrow> stays (tx_bind m f)"
  unfolding stays_def tx_bind_Inr using R_trans by blast

lemma w_seq: "stays m \<Longrightarrow> stays n \<Longrightarrow> stays (tx_seq m n)"
  unfolding stays_def tx_seq_Inr using R_trans by blast

lemma w_when: "(c \<Longrightarrow> stays m) \<Longrightarrow> stays (when_tx c m)"
  by (auto simp: stays_def when_tx_Inr R_refl split: if_splits)

lemma w_if: "(c \<Longrightarrow> stays m) \<Longrightarrow> (\<not> c \<Longrightarrow> stays n) \<Longrightarrow> stays (if c then m else n)"
  by simp

lemma w_let: "(\<And>x. stays (f x)) \<Longrightarrow> stays (Let v f)"
  by simp

lemma w_option: "(v = None \<Longrightarrow> stays m) \<Longrightarrow> (\<And>x. v = Some x \<Longrightarrow> stays (f x)) \<Longrightarrow>
  stays (case v of None \<Rightarrow> m | Some x \<Rightarrow> f x)"
  by (cases v) auto

lemma w_prod: "(\<And>x y. stays (f x y)) \<Longrightarrow> stays (case p of (x, y) \<Rightarrow> f x y)"
  by (cases p) auto

lemma w_sum: "(\<And>x. stays (f x)) \<Longrightarrow> (\<And>x. stays (g x)) \<Longrightarrow> stays (case v of Inl x \<Rightarrow> f x | Inr x \<Rightarrow> g x)"
  by (cases v) auto

lemma w_for: "(\<And>x. x \<in> set xs \<Longrightarrow> stays (f x)) \<Longrightarrow> stays (for_each f xs)"
  by (induction xs) (auto intro!: w_ret w_seq)

lemmas w_rules = w_ret w_fail w_query w_ensure w_expect w_lift w_bind w_seq w_when w_if w_let
  w_option w_prod w_sum w_for

end

end
