(* ===== verification/SH_Work.thy ===== *)
theory SH_Work
  imports SH_Process
begin

text \<open>
  The invariant of the work tables, and the transactions that cannot break it.

  \<open>work_wf\<close>: queue entries and bookings have distinct ids below the next fresh one, every entry belongs
  to the provider of its booking, and the line of every provider is compact. \<open>work_dirty p\<close> is the same
  with the line of \<open>p\<close> still to be reindexed.
\<close>

definition bk_key :: "booking_row \<Rightarrow> key \<times> key \<times> key" where
  "bk_key b = (bk_id b, bk_seekerId b, bk_providerId b)"

definition table_ids :: "db \<Rightarrow> bool" where
  "table_ids s \<longleftrightarrow> distinct (map bk_id (bookings s)) \<and>
     (\<forall>q \<in> set (queues s). q_id q < nextId s) \<and> (\<forall>b \<in> set (bookings s). bk_id b < nextId s)"

definition queue_links :: "db \<Rightarrow> bool" where
  "queue_links s \<longleftrightarrow> (\<forall>q \<in> set (queues s). \<forall>b. q_bookingId q = Some b \<longrightarrow>
     (\<exists>bk \<in> set (bookings s). bk_id bk = b \<and> bk_providerId bk = q_providerId q))"

definition work_wf :: "db \<Rightarrow> bool" where
  "work_wf s \<longleftrightarrow> queue_wf s \<and> table_ids s \<and> queue_links s"

definition work_dirty :: "key \<Rightarrow> db \<Rightarrow> bool" where
  "work_dirty p s \<longleftrightarrow> queue_dirty p s \<and> table_ids s \<and> queue_links s"

lemma work_wf_dirty: "work_wf s \<Longrightarrow> work_dirty p s"
  by (simp add: work_wf_def work_dirty_def queue_wf_rules(1))

subsection \<open>Calm transactions\<close>

text \<open>They leave the queue as it is, keep the parties of every booking, and add bookings only under
  fresh ids.\<close>

definition calm_rel :: "db \<Rightarrow> db \<Rightarrow> bool" where
  "calm_rel s s' \<longleftrightarrow> queues s' = queues s \<and> nextId s \<le> nextId s' \<and>
     (\<exists>new. map bk_key (bookings s') = map bk_key (bookings s) @ new \<and> distinct (map fst new) \<and>
        (\<forall>k \<in> set new. nextId s \<le> fst k \<and> fst k < nextId s'))"

lemma calm_relI:
  "queues s' = queues s \<Longrightarrow> map bk_key (bookings s') = map bk_key (bookings s) \<Longrightarrow>
   nextId s \<le> nextId s' \<Longrightarrow> calm_rel s s'"
  by (auto simp: calm_rel_def)

interpretation calm: step_rel calm_rel
proof unfold_locales
  show "calm_rel s s" for s by (rule calm_relI) simp_all
next
  fix s t u assume a: "calm_rel s t" "calm_rel t u"
  then obtain m n where m: "map bk_key (bookings t) = map bk_key (bookings s) @ m" "distinct (map fst m)"
      "\<forall>k \<in> set m. nextId s \<le> fst k \<and> fst k < nextId t"
    and n: "map bk_key (bookings u) = map bk_key (bookings t) @ n" "distinct (map fst n)"
      "\<forall>k \<in> set n. nextId t \<le> fst k \<and> fst k < nextId u"
    and i: "nextId s \<le> nextId t" "nextId t \<le> nextId u" and q: "queues u = queues s"
    by (auto simp: calm_rel_def)
  have "fst ` set m \<inter> fst ` set n = {}"
  proof (rule ccontr)
    assume "fst ` set m \<inter> fst ` set n \<noteq> {}"
    then obtain x y where "x \<in> set m" "y \<in> set n" "fst x = fst y" by blast
    with m(3) n(3) show False by (metis not_less)
  qed
  with m(2) n(2) have "distinct (map fst (m @ n))" by simp
  moreover have "\<forall>k \<in> set (m @ n). nextId s \<le> fst k \<and> fst k < nextId u"
    using m(3) n(3) i by (auto intro: less_le_trans order_trans)
  moreover have "map bk_key (bookings u) = map bk_key (bookings s) @ (m @ n)" by (simp add: m(1) n(1))
  moreover have "nextId s \<le> nextId u" using i by (rule order_trans)
  ultimately show "calm_rel s u" using q unfolding calm_rel_def by blast
qed

lemma set_keys: "set (map bk_key xs) = bk_key ` set xs"
  by simp

lemma calm_keeps:
  assumes "calm_rel s s'"
  shows "table_ids s \<Longrightarrow> table_ids s'" "queue_links s \<Longrightarrow> queue_links s'"
    "queue_wf s \<Longrightarrow> queue_wf s'" "queue_dirty p s \<Longrightarrow> queue_dirty p s'"
proof -
  from assms obtain new where q: "queues s' = queues s" and i: "nextId s \<le> nextId s'"
    and new: "map bk_key (bookings s') = map bk_key (bookings s) @ new" "distinct (map fst new)"
      "\<forall>k \<in> set new. nextId s \<le> fst k \<and> fst k < nextId s'"
    by (auto simp: calm_rel_def)
  have ids: "map bk_id (bookings s') = map bk_id (bookings s) @ map fst new"
    using arg_cong[OF new(1), of "map fst"] by (simp add: comp_def bk_key_def)
  then have set_ids: "bk_id ` set (bookings s') = bk_id ` set (bookings s) \<union> fst ` set new"
    by (metis list.set_map set_append)
  show "table_ids s'" if "table_ids s"
  proof -
    have old: "\<forall>b \<in> set (bookings s). bk_id b < nextId s" using that by (simp add: table_ids_def)
    have "distinct (map bk_id (bookings s'))"
      unfolding ids using that new(2,3) old by (fastforce simp: table_ids_def)
    moreover have "\<forall>k \<in> bk_id ` set (bookings s'). k < nextId s'"
      unfolding set_ids using old new(3) i by (auto intro: less_le_trans)
    ultimately show ?thesis using that q i by (auto simp: table_ids_def intro: less_le_trans)
  qed
  show "queue_links s'" if "queue_links s"
  proof -
    have "bk_key ` set (bookings s) \<subseteq> bk_key ` set (bookings s')"
      using arg_cong[OF new(1), of set] by (simp only: set_keys set_append) blast
    then have "\<exists>c \<in> set (bookings s'). bk_key c = bk_key b" if "b \<in> set (bookings s)" for b
      using that by (metis image_iff subsetD image_eqI)
    then show ?thesis using that unfolding queue_links_def q bk_key_def by (metis prod.inject)
  qed
  show "queue_wf s \<Longrightarrow> queue_wf s'" "queue_dirty p s \<Longrightarrow> queue_dirty p s'"
    by (simp_all add: queue_wf_def queue_dirty_def queue_ids_distinct_def q)
qed

lemma calm_wf: "calm_rel s s' \<Longrightarrow> work_wf s \<Longrightarrow> work_wf s'"
  and calm_dirty: "calm_rel s s' \<Longrightarrow> work_dirty p s \<Longrightarrow> work_dirty p s'"
  by (simp_all add: work_wf_def work_dirty_def calm_keeps)

lemma calm_keeps_wf: "calm.stays m \<Longrightarrow> keeps work_wf m"
  by (rule keepsI) (blast dest: calm.staysD calm_wf)

text \<open>A booking is created under a fresh id.\<close>

definition create_booking :: "time \<Rightarrow> booking_row \<Rightarrow> booking_row dbtx" where
  "create_booking now b = tx_bind fresh_id (\<lambda>i. let r = b\<lparr>bk_id := i, bk_updatedAt := now\<rparr>
     in tx_seq (modify (bookings_update (\<lambda>bs. bs @ [r]))) (ret r))"

named_theorems calm_rules \<open>transactions that leave the work tables alone\<close>
declare calm.w_rules [calm_rules]

lemma calm_create_booking [calm_rules]: "calm.stays (create_booking now b)"
  by (rule calm.staysI) (auto simp: create_booking_def fresh_id_def tx_iff Let_def calm_rel_def bk_key_def)

lemma calm_writes [calm_rules]:
  "calm.stays fresh_id" "calm.stays (upd_user i fu)" "calm.stays (upd_request i fr)"
  "calm.stays (upd_offer i fo)" "calm.stays (upd_directRequest i fd)" "calm.stays (upd_attempt i fa)"
  "calm.stays (upd_refunds pr fr2)" "calm.stays (upd_cancellation i fc)" "calm.stays (upd_reports prp frp)"
  "calm.stays (upd_escalations pe fe)" "calm.stays (upd_operation i fop)" "calm.stays (notify u t)"
  "calm.stays (notify_row n)" "calm.stays (notify_as k u t)" "calm.stays (notify_once k u t)"
  "calm.stays (audit a tg act res)" "calm.stays (emit r e t)"
  by (rule calm.staysI, rule calm_relI;
      auto simp: fresh_id_def upd_user_def upd_request_def upd_offer_def upd_directRequest_def upd_attempt_def
      upd_refunds_def upd_cancellation_def upd_reports_def upd_escalations_def upd_operation_def notify_def
      notify_as_def audit_def emit_def tx_iff split: if_splits)+

lemma calm_modify:
  "(\<And>s. queues (f s) = queues s \<and> bookings (f s) = bookings s \<and> nextId (f s) = nextId s) \<Longrightarrow> calm.stays (modify f)"
  by (rule calm.staysI, rule calm_relI) (simp_all add: modify_Inr)

lemma calm_upd_booking [calm_rules]:
  assumes "\<And>b. bk_key (f b) = bk_key b"
  shows "calm.stays (upd_booking now i f)"
proof (rule calm.staysI, rule calm_relI)
  fix s x s' assume "upd_booking now i f s = Inr (x, s')"
  then have s': "s' = bookings_update (map_rows (\<lambda>r. bk_id r = i) (\<lambda>r. (f r)\<lparr>bk_updatedAt := now\<rparr>)) s"
    by (simp add: upd_booking_def modify_Inr)
  have "bk_key ((f r)\<lparr>bk_updatedAt := now\<rparr>) = bk_key r" for r
    using assms[of r] by (simp add: bk_key_def)
  then show "map bk_key (bookings s') = map bk_key (bookings s)" by (auto simp: s' map_rows_def)
  show "queues s' = queues s" "nextId s \<le> nextId s'" by (simp_all add: s')
qed

subsection \<open>Transactions on the queue\<close>

lemma work_frame:
  assumes "map (\<lambda>q. (q_id q, q_providerId q, q_bookingId q)) (queues s') =
      map (\<lambda>q. (q_id q, q_providerId q, q_bookingId q)) (queues s)"
    "map bk_key (bookings s') = map bk_key (bookings s)" "nextId s' = nextId s"
  shows "table_ids s' = table_ids s" "queue_links s' = queue_links s"
    "queue_ids_distinct s' = queue_ids_distinct s"
proof -
  have b: "map bk_id (bookings s') = map bk_id (bookings s)"
    using arg_cong[OF assms(2), of "map fst"] by (simp add: comp_def bk_key_def)
  have q: "map q_id (queues s') = map q_id (queues s)"
    using arg_cong[OF assms(1), of "map fst"] by (simp add: comp_def)
  have bs: "bk_id ` set (bookings s') = bk_id ` set (bookings s)" using b by (metis list.set_map)
  have qs: "q_id ` set (queues s') = q_id ` set (queues s)" using q by (metis list.set_map)
  show "queue_ids_distinct s' = queue_ids_distinct s" by (simp add: queue_ids_distinct_def q)
  have "table_ids t \<longleftrightarrow> distinct (map bk_id (bookings t)) \<and> (\<forall>k \<in> q_id ` set (queues t). k < nextId t) \<and>
      (\<forall>k \<in> bk_id ` set (bookings t). k < nextId t)" for t by (simp add: table_ids_def)
  then show "table_ids s' = table_ids s" by (simp only: b bs qs assms(3))
  have l: "queue_links t \<longleftrightarrow> (\<forall>x \<in> (\<lambda>q. (q_id q, q_providerId q, q_bookingId q)) ` set (queues t).
      \<forall>b. snd (snd x) = Some b \<longrightarrow> (\<exists>k \<in> bk_key ` set (bookings t). fst k = b \<and> snd (snd k) = fst (snd x)))" for t
    by (simp add: queue_links_def bk_key_def)
  have "(\<lambda>q. (q_id q, q_providerId q, q_bookingId q)) ` set (queues s') =
      (\<lambda>q. (q_id q, q_providerId q, q_bookingId q)) ` set (queues s)"
    "bk_key ` set (bookings s') = bk_key ` set (bookings s)"
    using arg_cong[OF assms(1), of set] arg_cong[OF assms(2), of set] by (simp_all only: list.set_map)
  then show "queue_links s' = queue_links s" unfolding l by (simp only:)
qed

lemma unplaced_keys: "map bk_unplaced xs = map bk_unplaced ys \<Longrightarrow> map bk_key xs = map bk_key ys"
proof -
  have *: "bk_key b = bk_key (bk_unplaced b)" for b by (simp add: bk_key_def bk_unplaced_def)
  assume "map bk_unplaced xs = map bk_unplaced ys"
  then have "map bk_key (map bk_unplaced xs) = map bk_key (map bk_unplaced ys)" by simp
  then show ?thesis by (simp add: comp_def flip: *)
qed

lemma recalculate_next:
  "x = s\<lparr>queues := a, bookings := b\<rparr> \<Longrightarrow> queues x = a \<and> bookings x = b \<and> nextId x = nextId s \<and>
     users x = users s \<and> completedServices x = completedServices s \<and> transactions x = transactions s \<and>
     offers x = offers s \<and> requests x = requests s \<and> refunds x = refunds s \<and> attempts x = attempts s"
  by simp

lemma recalculate_frame:
  assumes "recalculateQueueInTransaction now p s = Inr (u, s')" "queue_ids_distinct s"
  shows "nextId s' = nextId s" "map bk_key (bookings s') = map bk_key (bookings s)"
    "completedServices s' = completedServices s" "transactions s' = transactions s" "refunds s' = refunds s"
    "offers s' = offers s" "requests s' = requests s" "users s' = users s" "attempts s' = attempts s"
  using recalculate_next[OF recalculateQueueInTransaction_effect[OF assms, THEN conjunct1]]
    unplaced_keys[OF recalculateQueueInTransaction_effect[OF assms, THEN conjunct2]] by blast+

lemma recalculate_cleans:
  assumes "work_dirty p s" "recalculateQueueInTransaction now p s = Inr (u, s')"
  shows "work_wf s'"
proof -
  have d: "queue_dirty p s" "queue_ids_distinct s" using assms(1) by (simp_all add: work_dirty_def queue_dirty_def)
  have "queue_wf s'" by (rule queue_wf_rules(2)[OF d(1) assms(2)])
  moreover have "map (\<lambda>q. (q_id q, q_providerId q, q_bookingId q)) (queues s') =
      map (\<lambda>q. (q_id q, q_providerId q, q_bookingId q)) (queues s)"
    by (simp add: recalculateQueueInTransaction_queues[OF d(2) assms(2)])
  ultimately show ?thesis
    using work_frame[of s' s] recalculate_frame[OF assms(2) d(2)] assms(1)
    by (simp add: work_wf_def work_dirty_def)
qed

text \<open>Changing the entry of provider \<open>p\<close> in any way that does not start serving it.\<close>

definition seat_kept :: "(queue_row \<Rightarrow> queue_row) \<Rightarrow> bool" where
  "seat_kept f \<longleftrightarrow> (\<forall>q. q_id (f q) = q_id q \<and> q_providerId (f q) = q_providerId q \<and> q_bookingId (f q) = q_bookingId q)"

lemma line_view_map_rows:
  assumes "seat_kept f" "\<And>q. q \<in> set (queues s) \<Longrightarrow> P q \<Longrightarrow> q_providerId q = p" "r \<noteq> p"
  shows "line_view r (queues_update (map_rows P f) s) = line_view r s"
proof -
  have "filter (\<lambda>q. is_waiting r q \<or> is_serving r q) (map_rows P f qs) = filter (\<lambda>q. is_waiting r q \<or> is_serving r q) qs"
    if "set qs \<subseteq> set (queues s)" for qs
    using that
  proof (induction qs)
    case (Cons q qs)
    have "P q \<longrightarrow> q_providerId q \<noteq> r \<and> q_providerId (f q) \<noteq> r"
      using Cons.prems assms by (auto simp: seat_kept_def)
    then show ?case using Cons by (auto simp: map_rows_def is_waiting_def is_serving_def)
  qed (simp add: map_rows_def)
  then show ?thesis by (simp add: line_view_def)
qed

lemma count_serving_mono:
  assumes "\<And>q. is_serving p (f q) \<Longrightarrow> is_serving p q"
  shows "count_rows (is_serving p) (map_rows P f qs) \<le> count_rows (is_serving p) qs"
  by (induction qs) (auto simp: count_rows_def map_rows_def dest: assms)

lemma change_entry_dirty:
  assumes "work_wf s \<or> work_dirty p s" "seat_kept f"
    "\<And>q. q \<in> set (queues s) \<Longrightarrow> P q \<Longrightarrow> q_providerId q = p"
    "one_serving p (map_rows P f (queues s))"
  shows "work_dirty p (queues_update (map_rows P f) s)"
proof -
  let ?s = "queues_update (map_rows P f) s"
  have d: "work_dirty p s" using assms(1) work_wf_dirty by blast
  have key: "map (\<lambda>q. (q_id q, q_providerId q, q_bookingId q)) (queues ?s) =
      map (\<lambda>q. (q_id q, q_providerId q, q_bookingId q)) (queues s)"
    using assms(2) by (auto simp: map_rows_def seat_kept_def)
  have "compact r (queues ?s)" if "r \<noteq> p" for r
  proof -
    have "line_view r ?s = line_view r s" by (rule line_view_map_rows[OF assms(2,3) that]) auto
    then show ?thesis using d that line_view_compact[of r ?s] line_view_compact[of r s]
      by (simp add: work_dirty_def queue_dirty_def)
  qed
  with d work_frame[OF key] assms(4) show ?thesis
    by (simp add: work_dirty_def queue_dirty_def)
qed

lemma retire_entry:
  assumes "work_wf s" "seat_kept f" "\<And>q. \<not> is_serving p (f q)"
    "\<And>q. q \<in> set (queues s) \<Longrightarrow> P q \<Longrightarrow> q_providerId q = p"
  shows "work_dirty p (queues_update (map_rows P f) s)"
proof (rule change_entry_dirty[OF _ assms(2,4)])
  show "work_wf s \<or> work_dirty p s" using assms(1) ..
  have "one_serving p (queues s)" using assms(1) by (simp add: work_wf_def queue_wf_def compact_def)
  then show "one_serving p (map_rows P f (queues s))"
    using count_serving_mono[of p f P "queues s"] assms(3) by (simp add: one_serving_def)
qed

text \<open>Changing the money columns of entries changes no line.\<close>

lemma money_entry:
  assumes "work_wf s" "\<And>q. q_core (f q) = q_core q"
  shows "work_wf (queues_update (map_rows P f) s)"
proof -
  let ?s = "queues_update (map_rows P f) s"
  have parts: "q_id (f q) = q_id q" "q_providerId (f q) = q_providerId q" "q_bookingId (f q) = q_bookingId q"
    "is_waiting r (f q) = is_waiting r q" "is_serving r (f q) = is_serving r q" for q r
  proof -
    have "q_id (q_core (f q)) = q_id (q_core q)" "q_providerId (q_core (f q)) = q_providerId (q_core q)"
      "q_bookingId (q_core (f q)) = q_bookingId (q_core q)" "is_waiting r (q_core (f q)) = is_waiting r (q_core q)"
      "is_serving r (q_core (f q)) = is_serving r (q_core q)" by (simp_all only: assms(2))
    then show "q_id (f q) = q_id q" "q_providerId (f q) = q_providerId q" "q_bookingId (f q) = q_bookingId q"
      "is_waiting r (f q) = is_waiting r q" "is_serving r (f q) = is_serving r q"
      by (simp_all add: q_core_def is_waiting_def is_serving_def)
  qed
  have key: "map (\<lambda>q. (q_id q, q_providerId q, q_bookingId q)) (queues ?s) =
      map (\<lambda>q. (q_id q, q_providerId q, q_bookingId q)) (queues s)"
    by (auto simp: map_rows_def parts)
  have "map q_core (filter (\<lambda>q. is_waiting r q \<or> is_serving r q) (map_rows P f qs)) =
      map q_core (filter (\<lambda>q. is_waiting r q \<or> is_serving r q) qs)" for r qs
    by (induction qs) (auto simp: map_rows_def parts assms(2))
  then have "line_view r ?s = line_view r s" for r by (simp add: line_view_def)
  then have "compact r (queues ?s) = compact r (queues s)" for r
    by (metis line_view_compact)
  with assms(1) work_frame[OF key] show ?thesis by (simp add: work_wf_def queue_wf_def)
qed

subsection \<open>The shared transactions are calm\<close>

lemma calm_progress [calm_rules]: "calm.stays (recordBookingProgress now b k a ek)"
  by (rule calm.staysI, rule calm_relI) (auto simp: recordBookingProgress_Inr)

lemma calm_messages [calm_rules]: "calm.stays (modify (messages_update f))"
  "calm.stays (modify (transactions_update g))" "calm.stays (modify (completedServices_update h))"
  "calm.stays (modify (queueNotifies_update i))" "calm.stays (modify (trustEvents_update j))"
  "calm.stays (modify (offers_update k))" "calm.stays (modify (requests_update l))"
  "calm.stays (modify (reports_update m))" "calm.stays (modify (refunds_update n))"
  "calm.stays (modify (attempts_update p))" "calm.stays (modify (directRequests_update q))"
  "calm.stays (modify (cancellations_update r))" "calm.stays (modify (escalations_update t))"
  "calm.stays (modify (operations_update v))"
  by (rule calm_modify; simp)+

lemma calm_notices [calm_rules]:
  "calm.stays (create_notice n)" "calm.stays (system_message ps sys)" "calm.stays (recordLifecycleNotice ps ns sys)"
  unfolding create_notice_def system_message_def recordLifecycleNotice_def Let_def
  by (intro calm_rules)+

lemma calm_publish [calm_rules]:
  "calm.stays (emitProviderQueueUpdates p sk)" "calm.stays (publishLifecycleChange ps t rec q)"
  "calm.stays (emitWaitlistNotification w)" "calm.stays (publishNotifications us t)"
  unfolding emitProviderQueueUpdates_def publishLifecycleChange_def emitWaitlistNotification_def
    publishNotifications_def
  by (intro calm_rules)+

lemma calm_waitlist [calm_rules]: "calm.stays (notifyWaitlistInTransaction now p)"
  unfolding notifyWaitlistInTransaction_def
  by (auto intro!: calm_rules split: list.splits option.splits)

lemma calm_guards [calm_rules]:
  "calm.stays (assertNoRefundInProgress b)" "calm.stays (assertNoOtherBlockingCases b ex)"
  "calm.stays (assertNoFinancialResolutionReserved b own)" "calm.stays (recordAdminNotifications t)"
  "calm.stays (rejectSiblingOffersAndNotify rq sel)" "calm.stays (assertActiveMarketplaceAccount u)"
  unfolding assertNoRefundInProgress_def assertNoOtherBlockingCases_def assertNoFinancialResolutionReserved_def
    recordAdminNotifications_def rejectSiblingOffersAndNotify_def assertActiveMarketplaceAccount_def
  by (intro calm_rules)+

lemma calm_trial [calm_rules]: "calm.stays (ensureProviderTrial now p)" "calm.stays (assertNewProviderBusiness now p)"
proof -
  show 1: "calm.stays (ensureProviderTrial now p)"
    unfolding ensureProviderTrial_def by (auto intro!: calm_rules split: option.splits)
  show "calm.stays (assertNewProviderBusiness now p)"
    unfolding assertNewProviderBusiness_def by (auto intro!: calm_rules 1)
qed

lemma calm_trust [calm_rules]:
  "calm.stays (applyTrustEventInTransaction now i)" "calm.stays (award_one now b u a)"
  "calm.stays (awardBookingCompletionTrust now k)" "calm.stays (applyBookingTrustPenalty now k u adm ek f r)"
proof -
  show 1: "calm.stays (applyTrustEventInTransaction now i)" for i
    by (rule calm.staysI, rule calm_relI) (auto simp: applyTrustEvent_Inr trust_written_def split: option.splits)
  show 2: "calm.stays (award_one now b u a)" for b u a
    unfolding award_one_def by (intro calm_rules 1)
  show "calm.stays (awardBookingCompletionTrust now k)"
    unfolding awardBookingCompletionTrust_def by (intro calm_rules 2)
  show "calm.stays (applyBookingTrustPenalty now k u adm ek f r)"
    unfolding applyBookingTrustPenalty_def
    by (auto intro!: calm_rules 1 split: option.splits trust_result.splits)
qed

subsection \<open>Quiet transactions\<close>

text \<open>They write only notifications, messages, progress, emissions, the waitlist, the audit log, and the
  users' scores and memberships.\<close>

definition core_of where
  "core_of s = (queues s, bookings s, completedServices s, transactions s, refunds s, offers s, requests s,
     directRequests s, attempts s, cancellations s, escalations s, operations s, reports s, services s)"

definition quiet_rel :: "db \<Rightarrow> db \<Rightarrow> bool" where
  "quiet_rel s s' \<longleftrightarrow> core_of s' = core_of s \<and> nextId s \<le> nextId s'"

interpretation quiet: step_rel quiet_rel
  by unfold_locales (auto simp: quiet_rel_def)

lemma quiet_calm: "quiet_rel s s' \<Longrightarrow> calm_rel s s'"
  by (rule calm_relI) (simp_all add: quiet_rel_def core_of_def)

lemma quiet_core:
  assumes "quiet_rel s s'"
  shows "queues s' = queues s" "bookings s' = bookings s" "completedServices s' = completedServices s"
    "transactions s' = transactions s" "refunds s' = refunds s" "offers s' = offers s" "requests s' = requests s"
    "directRequests s' = directRequests s" "attempts s' = attempts s" "cancellations s' = cancellations s"
    "escalations s' = escalations s" "operations s' = operations s" "reports s' = reports s"
    "services s' = services s"
  using assms by (simp_all add: quiet_rel_def core_of_def)

named_theorems quiet_rules \<open>transactions that write only notices, logs and accounts\<close>
declare quiet.w_rules [quiet_rules]

lemma quiet_writes [quiet_rules]:
  "quiet.stays fresh_id" "quiet.stays (upd_user i fu)" "quiet.stays (notify u t)"
  "quiet.stays (notify_row n)" "quiet.stays (notify_as k u t)" "quiet.stays (notify_once k u t)"
  "quiet.stays (audit a tg act res)" "quiet.stays (emit r e t)"
  "quiet.stays (modify (messages_update f))" "quiet.stays (modify (queueNotifies_update g))"
  "quiet.stays (recordBookingProgress now b k2 ac ek)"
  by (rule quiet.staysI; auto simp: quiet_rel_def core_of_def fresh_id_def upd_user_def notify_def notify_as_def
      audit_def emit_def tx_iff split: if_splits)+

lemma quiet_notices [quiet_rules]:
  "quiet.stays (create_notice n)" "quiet.stays (system_message ps sys)" "quiet.stays (recordLifecycleNotice ps ns sys)"
  "quiet.stays (recordAdminNotifications t)"
  unfolding create_notice_def system_message_def recordLifecycleNotice_def recordAdminNotifications_def Let_def
  by (intro quiet_rules)+

lemma quiet_publish [quiet_rules]:
  "quiet.stays (emitProviderQueueUpdates p sk)" "quiet.stays (publishLifecycleChange ps t rec q)"
  "quiet.stays (emitWaitlistNotification w)" "quiet.stays (publishNotifications us t)"
  unfolding emitProviderQueueUpdates_def publishLifecycleChange_def emitWaitlistNotification_def
    publishNotifications_def
  by (intro quiet_rules)+

lemma quiet_waitlist [quiet_rules]: "quiet.stays (notifyWaitlistInTransaction now p)"
  unfolding notifyWaitlistInTransaction_def
  by (auto intro!: quiet_rules split: list.splits option.splits)

lemma quiet_guards [quiet_rules]:
  "quiet.stays (assertNoRefundInProgress b)" "quiet.stays (assertNoOtherBlockingCases b ex)"
  "quiet.stays (assertNoFinancialResolutionReserved b own)" "quiet.stays (assertActiveMarketplaceAccount u)"
  unfolding assertNoRefundInProgress_def assertNoOtherBlockingCases_def assertNoFinancialResolutionReserved_def
    assertActiveMarketplaceAccount_def
  by (intro quiet_rules)+

lemma quiet_trial [quiet_rules]: "quiet.stays (ensureProviderTrial now p)" "quiet.stays (assertNewProviderBusiness now p)"
proof -
  show 1: "quiet.stays (ensureProviderTrial now p)"
    unfolding ensureProviderTrial_def by (auto intro!: quiet_rules split: option.splits)
  show "quiet.stays (assertNewProviderBusiness now p)"
    unfolding assertNewProviderBusiness_def by (auto intro!: quiet_rules 1)
qed

lemma quiet_trust [quiet_rules]:
  "quiet.stays (applyTrustEventInTransaction now i)" "quiet.stays (award_one now b u a)"
  "quiet.stays (awardBookingCompletionTrust now k)" "quiet.stays (applyBookingTrustPenalty now k u adm ek f r)"
proof -
  show 1: "quiet.stays (applyTrustEventInTransaction now i)" for i
    by (rule quiet.staysI) (auto simp: quiet_rel_def core_of_def applyTrustEvent_Inr trust_written_def split: option.splits)
  show 2: "quiet.stays (award_one now b u a)" for b u a
    unfolding award_one_def by (intro quiet_rules 1)
  show "quiet.stays (awardBookingCompletionTrust now k)"
    unfolding awardBookingCompletionTrust_def by (intro quiet_rules 2)
  show "quiet.stays (applyBookingTrustPenalty now k u adm ek f r)"
    unfolding applyBookingTrustPenalty_def
    by (auto intro!: quiet_rules 1 split: option.splits trust_result.splits)
qed

subsection \<open>What reindexing leaves of a booking\<close>

text \<open>Only the position column and the time of the last write change.\<close>

lemma bk_unplaced_simps [simp]: "bk_id (bk_unplaced b) = bk_id b" "bk_status (bk_unplaced b) = bk_status b"
  "bk_paymentStatus (bk_unplaced b) = bk_paymentStatus b" "bk_seekerId (bk_unplaced b) = bk_seekerId b"
  "bk_providerId (bk_unplaced b) = bk_providerId b" "bk_started (bk_unplaced b) = bk_started b"
  "bk_statusBeforeDispute (bk_unplaced b) = bk_statusBeforeDispute b"
  "bk_paymentMethod (bk_unplaced b) = bk_paymentMethod b" "bk_agreedAmount (bk_unplaced b) = bk_agreedAmount b"
  by (simp_all add: bk_unplaced_def)

lemma unplaced_lookup:
  assumes "map bk_unplaced (bookings s') = map bk_unplaced (bookings s)"
  shows "map_option bk_unplaced (find_booking i s') = map_option bk_unplaced (find_booking i s)"
  unfolding find_booking_def find_row_def by (rule unplaced_find[OF assms]) simp

lemma unplaced_cases:
  assumes "map_option bk_unplaced x = map_option bk_unplaced (Some b)"
  shows "\<exists>c. x = Some c \<and> bk_unplaced c = bk_unplaced b"
  using assms by (cases x) auto

lemma recalculate_find_booking:
  assumes "recalculateQueueInTransaction now p s = Inr (u, s')" "queue_ids_distinct s" "find_booking i s = Some b"
  shows "\<exists>c. find_booking i s' = Some c \<and> bk_unplaced c = bk_unplaced b"
  by (rule unplaced_cases)
    (simp only: unplaced_lookup[OF recalculateQueueInTransaction_effect[OF assms(1,2), THEN conjunct2]] assms(3))

end
