(* ===== verification/SH_Refund.thy ===== *)
theory SH_Refund
  imports SH_Work
begin

text \<open>
  Refunding a held online payment (src/src/services/payment-refund.service.ts): a reservation, the call
  of the gateway, and the settlement, each its own transaction. The answers of the gateway
  (\<open>getPaymentIntent\<close> and \<open>createRefund\<close> of paymongo.service.ts, a remote service) are arguments.
\<close>

subsection \<open>Gateway answers\<close>

record intent =
  it_id :: string
  it_status :: string
  it_paymentId :: "string option"
  it_amount :: decimal
  it_currency :: string
  it_metadata :: "string \<rightharpoonup> string"

type_synonym refund_answer = "error + string \<times> string"

text \<open>\<open>a || b\<close> on strings that may be missing, and \<open>toUpperCase\<close> on ASCII.\<close>

definition or_string :: "string option \<Rightarrow> string option \<Rightarrow> string option" where
  "or_string a b = (if truthy a then a else b)"

definition toUpperCase :: "string \<Rightarrow> string" where
  "toUpperCase s = map (\<lambda>c. let n = (of_char c :: nat) in if 97 \<le> n \<and> n \<le> 122 then char_of (n - 32) else c) s"

definition error_text :: "error \<Rightarrow> string" where
  "error_text e = (case e of Http _ c \<Rightarrow> c | Uncoded m \<Rightarrow> m)"

definition held :: "payment_status \<Rightarrow> bool" where
  "held p \<longleftrightarrow> p \<in> {P_PAID_HELD, P_FROZEN_HELD}"

subsection \<open>The three transactions\<close>

datatype refund_start = AlreadyRefunded refund_row | RefundOf queue_row

text \<open>The reads before the gateway is asked.\<close>

definition refund_precheck :: "key \<Rightarrow> refund_start dbtx" where
  "refund_precheck bookingId =
     tx_bind (query (\<lambda>s. (find_booking bookingId s, queue_of bookingId s, refund_of bookingId s)))
     (\<lambda>(found, queue, existing).
       case found of None \<Rightarrow> fail (Http 404 ''Booking not found'')
       | Some booking \<Rightarrow> (case queue of None \<Rightarrow> fail (Http 409 ''This booking has no online payment to refund'')
         | Some q \<Rightarrow>
           let submitted = truthy (Option.bind existing rf_paymongoRefundId)
           in if submitted \<and> bk_status booking = B_CANCELED \<and> bk_paymentStatus booking = P_REFUNDED
              then ret (AlreadyRefunded (the existing))
              else if \<not> submitted \<and> \<not> held (bk_paymentStatus booking)
              then fail (Http 409 ''Only a held online payment can be refunded'')
              else ret (RefundOf q)))"

definition refundable_payment :: "queue_row \<Rightarrow> intent \<Rightarrow> error + string" where
  "refundable_payment q intent =
     (let paymentId = or_string (q_paymongoPaymentId q) (it_paymentId intent)
      in if \<not> truthy paymentId \<or> it_status intent \<noteq> ''succeeded''
         then Inl (Http 409 ''PayMongo did not confirm a refundable successful payment'')
         else Inr (the paymentId))"

definition reserve_refund :: "key \<Rightarrow> key \<Rightarrow> string \<Rightarrow> decimal \<Rightarrow> (bool \<times> refund_row) dbtx" where
  "reserve_refund bookingId requestedById paymentId amount =
     tx_bind (query (\<lambda>s. (find_booking bookingId s, completed_of bookingId s, refund_of bookingId s)))
     (\<lambda>(found, completed, current).
       case found of None \<Rightarrow> fail (Http 404 ''Booking not found'')
       | Some fresh \<Rightarrow>
         tx_seq (ensure (completed = None \<and> bk_status fresh \<noteq> B_COMPLETED \<and>
             bk_paymentStatus fresh \<notin> {P_RELEASED, P_CASH_CONFIRMED}) (Http 409 ''A completed booking cannot be refunded''))
        (if truthy (Option.bind current rf_paymongoRefundId) then ret (True, the current)
         else if map_option rf_status current = Some ''PROCESSING'' then ret (False, the current)
         else tx_seq (ensure (held (bk_paymentStatus fresh)) (Http 409 ''Only a held online payment can be refunded''))
          (case current of
             Some c \<Rightarrow> let c' = c\<lparr>rf_paymentId := paymentId, rf_amount := amount, rf_status := ''PROCESSING'',
                 rf_requestedById := requestedById, rf_failureReason := None\<rparr>
               in tx_seq (upd_refunds (\<lambda>r. rf_bookingId r = Some bookingId) (\<lambda>r. r\<lparr>rf_paymentId := paymentId,
                   rf_amount := amount, rf_status := ''PROCESSING'', rf_requestedById := requestedById,
                   rf_failureReason := None\<rparr>)) (ret (False, c'))
           | None \<Rightarrow> tx_bind fresh_id (\<lambda>i.
               let c = \<lparr>rf_id = i, rf_bookingId = Some bookingId, rf_paymentAttemptId = None,
                 rf_paymentId = paymentId, rf_paymongoRefundId = None, rf_amount = amount,
                 rf_status = ''PROCESSING'', rf_requestedById = requestedById, rf_failureReason = None\<rparr>
               in tx_seq (modify (refunds_update (\<lambda>rs. rs @ [c]))) (ret (False, c))))))"

definition fail_refund :: "key \<Rightarrow> error \<Rightarrow> unit dbtx" where
  "fail_refund bookingId e = upd_refunds (\<lambda>r. rf_bookingId r = Some bookingId)
     (\<lambda>r. r\<lparr>rf_status := ''FAILED'', rf_failureReason := Some (take 1000 (error_text e))\<rparr>)"

text \<open>A ledger row is rejected when its idempotency key exists (unique column).\<close>

definition insert_transaction :: "transaction_row \<Rightarrow> unit dbtx" where
  "insert_transaction t = (\<lambda>s. if tr_idempotencyKey t \<in> tr_idempotencyKey ` set (transactions s) - {None}
     then Inl (Uncoded ''P2002'') else Inr ((), s\<lparr>transactions := transactions s @ [t]\<rparr>))"

lemma insert_transaction_Inr [tx_iff]: "insert_transaction t s = Inr (u, s') \<longleftrightarrow>
    tr_idempotencyKey t \<notin> tr_idempotencyKey ` set (transactions s) - {None} \<and>
    s' = s\<lparr>transactions := transactions s @ [t]\<rparr>"
  by (auto simp: insert_transaction_def)

definition refund_ledger :: "key \<Rightarrow> key \<Rightarrow> string \<Rightarrow> decimal \<Rightarrow> unit dbtx" where
  "refund_ledger bookingId seekerId refundId amount =
     tx_bind (query (\<lambda>s. exists_row (\<lambda>t. tr_relatedBookingId t = Some bookingId \<and> tr_type t = REFUND \<and>
         tr_paymongoRefId t = Some refundId) (transactions s))) (\<lambda>known.
       when_tx (\<not> known) (tx_bind fresh_id (\<lambda>i. insert_transaction
         \<lparr>tr_id = i, tr_walletOwnerId = seekerId, tr_type = REFUND, tr_amount = amount,
           tr_relatedBookingId = Some bookingId, tr_paymongoRefId = Some refundId,
           tr_idempotencyKey = Some (LK_Refund bookingId)\<rparr>)))"

definition request_of_offer :: "key option \<Rightarrow> db \<Rightarrow> key option" where
  "request_of_offer offerId s = map_option of_requestId (Option.bind offerId (\<lambda>i. find_offer i s))"

definition set_request :: "key option \<Rightarrow> request_status \<Rightarrow> unit dbtx" where
  "set_request requestId st = (case requestId of None \<Rightarrow> ret ()
     | Some i \<Rightarrow> upd_request i (\<lambda>r. r\<lparr>rq_status := st\<rparr>))"

text \<open>The writes of the settlement, in the order of the code.\<close>

definition settle_refund ::
  "time \<Rightarrow> booking_row \<Rightarrow> queue_row \<Rightarrow> key \<Rightarrow> string \<Rightarrow> string \<Rightarrow> decimal \<Rightarrow> (key \<times> string) option dbtx" where
  "settle_refund now booking q requestedById refundId gatewayStatus amount =
     tx_seq (upd_refunds (\<lambda>r. rf_bookingId r = Some (bk_id booking)) (\<lambda>r. r\<lparr>rf_status := toUpperCase gatewayStatus,
        rf_paymongoRefundId := Some refundId, rf_failureReason := None\<rparr>))
    (tx_seq (upd_booking now (bk_id booking) (\<lambda>b. b\<lparr>bk_status := B_CANCELED, bk_paymentStatus := P_REFUNDED,
        bk_statusBeforeDispute := None\<rparr>))
    (tx_seq (recordBookingProgress now (bk_id booking) PK_CANCELED
        (bookingActorRole (bk_seekerId booking) (bk_providerId booking) (Some requestedById)) (EK_Kind PK_CANCELED))
    (tx_seq (upd_queue (q_id q) (\<lambda>q. q\<lparr>q_status := Q_CANCELLED, q_paymentStatus := P_REFUNDED\<rparr>))
    (tx_seq (refund_ledger (bk_id booking) (bk_seekerId booking) refundId amount)
    (tx_bind (query (request_of_offer (bk_offerId booking))) (\<lambda>rq.
     tx_seq (set_request rq RQ_CANCELED)
    (tx_seq (recalculateQueueInTransaction now (bk_providerId booking))
    (notifyWaitlistInTransaction now (bk_providerId booking)))))))))"

definition finalize_refund ::
  "time \<Rightarrow> key \<Rightarrow> key \<Rightarrow> bool \<Rightarrow> string \<Rightarrow> string \<Rightarrow> decimal \<Rightarrow> (key \<times> string) option dbtx" where
  "finalize_refund now bookingId requestedById resumed refundId gatewayStatus amount =
     tx_bind (query (\<lambda>s. (find_booking bookingId s, queue_of bookingId s, completed_of bookingId s, refund_of bookingId s)))
     (\<lambda>(found, queue, completed, current).
       case (found, queue) of (Some booking, Some q) \<Rightarrow>
         if bk_status booking = B_CANCELED \<and> bk_paymentStatus booking = P_REFUNDED then ret None
         else
           tx_seq (ensure (completed = None \<and> bk_status booking \<noteq> B_COMPLETED \<and> held (bk_paymentStatus booking))
             (Http 409 ''Booking state changed before the refund could be finalized''))
          (tx_seq (ensure (current \<noteq> None \<and> (resumed \<or> map_option rf_status current = Some ''PROCESSING''))
             (Http 409 ''Refund reservation is no longer valid''))
          (settle_refund now booking q requestedById refundId gatewayStatus amount))
       | _ \<Rightarrow> fail (Http 404 ''Booking or online queue entry not found''))"

subsection \<open>The operation\<close>

record refund_result =
  rr_refundId :: string
  rr_status :: string
  rr_amount :: decimal
  rr_alreadySubmitted :: bool

text \<open>A resumed reservation uses the recorded refund; otherwise the gateway is asked, and a refusal marks
  the reservation as failed before it is thrown again.\<close>

definition gateway_refund :: "key \<Rightarrow> bool \<Rightarrow> refund_row \<Rightarrow> refund_answer \<Rightarrow> (db, string \<times> string) process" where
  "gateway_refund bookingId resumed row answer =
     (if resumed \<and> truthy (rf_paymongoRefundId row) then p_ret (the (rf_paymongoRefundId row), rf_status row)
      else p_rethrow (transact (lift_sum answer)) (\<lambda>e. transact (fail_refund bookingId e)))"

definition publish_refund :: "key \<Rightarrow> (key \<times> string) option \<Rightarrow> unit dbtx" where
  "publish_refund bookingId w =
     tx_seq (emitWaitlistNotification w) (tx_bind (query (find_booking bookingId)) (\<lambda>b.
       case b of None \<Rightarrow> ret () | Some bk \<Rightarrow> emitProviderQueueUpdates (bk_providerId bk) []))"

definition refundBookingPayment ::
  "time \<Rightarrow> key \<Rightarrow> key \<Rightarrow> error + intent \<Rightarrow> refund_answer \<Rightarrow> (db, refund_result) process" where
  "refundBookingPayment now bookingId requestedById intentAnswer answer =
     p_bind (transact (refund_precheck bookingId)) (\<lambda>start. case start of
       AlreadyRefunded r \<Rightarrow> p_ret \<lparr>rr_refundId = the (rf_paymongoRefundId r), rr_status = rf_status r,
         rr_amount = rf_amount r, rr_alreadySubmitted = True\<rparr>
     | RefundOf q \<Rightarrow>
       p_bind (transact (lift_sum intentAnswer)) (\<lambda>intent.
       p_bind (transact (lift_sum (refundable_payment q intent))) (\<lambda>paymentId.
       p_bind (transact (reserve_refund bookingId requestedById paymentId (it_amount intent))) (\<lambda>(resumed, row).
       p_bind (gateway_refund bookingId resumed row answer) (\<lambda>(refundId, gatewayStatus).
       p_bind (transact (tx_bind (finalize_refund now bookingId requestedById resumed refundId gatewayStatus (it_amount intent))
          (publish_refund bookingId))) (\<lambda>_.
       p_ret \<lparr>rr_refundId = refundId, rr_status = gatewayStatus, rr_amount = it_amount intent,
         rr_alreadySubmitted = resumed\<rparr>))))))"

subsection \<open>What the settlement does\<close>

lemma quiet_bookings: "quiet_rel s s' \<Longrightarrow> find_booking i s' = find_booking i s \<and> queues s' = queues s \<and>
    completed_of i s' = completed_of i s \<and> transactions s' = transactions s"
  by (simp add: quiet_core find_booking_def completed_of_def)

lemma queue_of_row: "queue_of b s = Some q \<Longrightarrow> q \<in> set (queues s) \<and> q_bookingId q = Some b"
  by (auto simp: queue_of_def find_Some_iff)

lemma find_booking_mem: "find_booking i s = Some b \<Longrightarrow> b \<in> set (bookings s) \<and> bk_id b = i"
  by (auto simp: find_booking_def dest: find_row_Some)

text \<open>The entry of a booking belongs to the booking's provider.\<close>

lemma work_wf_owner:
  assumes "work_wf s" "find_booking i s = Some b" "queue_of i s = Some q"
  shows "q_providerId q = bk_providerId b"
proof -
  have q: "q \<in> set (queues s)" "q_bookingId q = Some i" using queue_of_row[OF assms(3)] by auto
  then obtain bk where bk: "bk \<in> set (bookings s)" "bk_id bk = i" "bk_providerId bk = q_providerId q"
    using assms(1) by (auto simp: work_wf_def queue_links_def)
  have "distinct (map bk_id (bookings s))" using assms(1) by (simp add: work_wf_def table_ids_def)
  from find_row_distinct[OF this bk(1)] assms(2) bk(2,3) show ?thesis by (simp add: find_booking_def)
qed

lemma same_id_same_owner:
  assumes "work_wf s" "q \<in> set (queues s)" "r \<in> set (queues s)" "q_id r = q_id q"
  shows "r = q"
  using assms by (auto simp: work_wf_def queue_wf_def queue_ids_distinct_def distinct_map inj_on_def)

lemma find_upd_booking:
  assumes "upd_booking now i f s = Inr (u, s')" "find_booking i s = Some b" "bk_id (f b) = bk_id b"
    "\<And>r. bk_id (f r) = bk_id r"
  shows "find_booking i s' = Some ((f b)\<lparr>bk_updatedAt := now\<rparr>)"
    "j \<noteq> i \<Longrightarrow> find_booking j s' = find_booking j s"
  using assms by (auto simp: upd_booking_def modify_Inr find_booking_def)

lemma upd_refunds_frame:
  "upd_refunds P f s = Inr (u, s') \<Longrightarrow> s' = refunds_update (map_rows P f) s"
  by (simp add: upd_refunds_def modify_Inr)

lemma refund_ledger_effect:
  assumes "refund_ledger b k rid a s = Inr (u, s')"
  shows "calm_rel s s' \<and> bookings s' = bookings s \<and> completedServices s' = completedServices s \<and>
    refunds s' = refunds s \<and>
    (\<exists>t \<in> set (transactions s'). tr_relatedBookingId t = Some b \<and> tr_type t = REFUND \<and> tr_paymongoRefId t = Some rid) \<and>
    (transactions s' = transactions s \<or>
     (\<exists>t. transactions s' = transactions s @ [t] \<and> tr_type t = REFUND \<and> tr_relatedBookingId t = Some b \<and>
        tr_amount t = a \<and> tr_walletOwnerId t = k \<and> tr_paymongoRefId t = Some rid))"
  using assms by (auto simp: refund_ledger_def fresh_id_def tx_iff calm_rel_def split: if_splits)

lemma set_request_effect:
  "set_request rq st s = Inr (u, s') \<Longrightarrow> \<exists>f. s' = requests_update f s"
proof (cases rq)
  case None
  assume "set_request rq st s = Inr (u, s')"
  with None have "s' = requests_update (\<lambda>r. r) s" by (simp add: set_request_def ret_Inr)
  then show ?thesis by blast
qed (auto simp: set_request_def upd_request_def modify_Inr)

lemma calm_set_request [calm_rules]: "calm.stays (set_request rq st)"
  unfolding set_request_def by (intro calm_rules)

lemma calm_insert_transaction [calm_rules]: "calm.stays (insert_transaction t)"
  by (rule calm.staysI, rule calm_relI) (auto simp: insert_transaction_Inr)

lemma calm_refund_ledger [calm_rules]: "calm.stays (refund_ledger b k rid a)"
  unfolding refund_ledger_def by (intro calm_rules)

lemma unplaced_fields:
  assumes "bk_unplaced a = bk_unplaced b"
  shows "bk_status a = bk_status b" "bk_paymentStatus a = bk_paymentStatus b" "bk_id a = bk_id b"
    "bk_seekerId a = bk_seekerId b" "bk_providerId a = bk_providerId b" "bk_started a = bk_started b"
    "bk_paymentMethod a = bk_paymentMethod b" "bk_statusBeforeDispute a = bk_statusBeforeDispute b"
    "bk_agreedAmount a = bk_agreedAmount b"
  using assms by (metis bk_unplaced_simps)+

lemma settle_refund_effect:
  assumes run: "settle_refund now b q who rid gs amt s = Inr (w, s')"
    and wf: "work_wf s" and b: "find_booking (bk_id b) s = Some b" and q: "queue_of (bk_id b) s = Some q"
  shows "work_wf s' \<and>
    (\<exists>c. find_booking (bk_id b) s' = Some c \<and> bk_status c = B_CANCELED \<and> bk_paymentStatus c = P_REFUNDED) \<and>
    (\<forall>r \<in> set (queues s'). q_id r = q_id q \<longrightarrow> q_status r = Q_CANCELLED \<and> q_paymentStatus r = P_REFUNDED) \<and>
    completedServices s' = completedServices s \<and>
    (\<exists>t \<in> set (transactions s'). tr_relatedBookingId t = Some (bk_id b) \<and> tr_type t = REFUND \<and> tr_paymongoRefId t = Some rid) \<and>
    (transactions s' = transactions s \<or>
     (\<exists>t. transactions s' = transactions s @ [t] \<and> tr_type t = REFUND \<and> tr_relatedBookingId t = Some (bk_id b) \<and>
        tr_amount t = amt \<and> tr_walletOwnerId t = bk_seekerId b \<and> tr_paymongoRefId t = Some rid))"
proof -
  let ?i = "bk_id b" let ?p = "bk_providerId b"
  from run obtain u1 s1 u2 s2 u3 s3 u4 s4 u5 s5 u6 s6 u7 s7 where
    r1: "upd_refunds (\<lambda>r. rf_bookingId r = Some ?i) (\<lambda>r. r\<lparr>rf_status := toUpperCase gs, rf_paymongoRefundId := Some rid,
        rf_failureReason := None\<rparr>) s = Inr (u1, s1)" and
    r2: "upd_booking now ?i (\<lambda>b. b\<lparr>bk_status := B_CANCELED, bk_paymentStatus := P_REFUNDED, bk_statusBeforeDispute := None\<rparr>) s1 = Inr (u2, s2)" and
    r3: "recordBookingProgress now ?i PK_CANCELED (bookingActorRole (bk_seekerId b) ?p (Some who)) (EK_Kind PK_CANCELED) s2 = Inr (u3, s3)" and
    r4: "upd_queue (q_id q) (\<lambda>q. q\<lparr>q_status := Q_CANCELLED, q_paymentStatus := P_REFUNDED\<rparr>) s3 = Inr (u4, s4)" and
    r5: "refund_ledger ?i (bk_seekerId b) rid amt s4 = Inr (u5, s5)" and
    r6: "set_request (request_of_offer (bk_offerId b) s5) RQ_CANCELED s5 = Inr (u6, s6)" and
    r7: "recalculateQueueInTransaction now ?p s6 = Inr (u7, s7)" and
    r8: "notifyWaitlistInTransaction now ?p s7 = Inr (w, s')"
    unfolding settle_refund_def tx_seq_Inr tx_bind_Inr query_Inr by blast
  let ?f = "\<lambda>q. q\<lparr>q_status := Q_CANCELLED, q_paymentStatus := P_REFUNDED\<rparr>"
  have c1: "calm_rel s s1" by (rule calm.staysD[OF calm_writes(7) r1])
  have s1: "bookings s1 = bookings s" "queues s1 = queues s" "completedServices s1 = completedServices s" "transactions s1 = transactions s"
    using upd_refunds_frame[OF r1] by simp_all
  have c2: "calm_rel s1 s2" by (rule calm.staysD[OF calm_upd_booking r2]) (simp add: bk_key_def)
  have f2: "find_booking ?i s2 = Some (b\<lparr>bk_status := B_CANCELED, bk_paymentStatus := P_REFUNDED,
      bk_statusBeforeDispute := None, bk_updatedAt := now\<rparr>)"
    using find_upd_booking(1)[OF r2, of b] b s1 by (simp add: find_booking_def)
  have s2: "queues s2 = queues s1" "completedServices s2 = completedServices s1" "transactions s2 = transactions s1"
    using r2 by (simp_all add: upd_booking_def modify_Inr)
  have q3: "quiet_rel s2 s3" by (rule quiet.staysD[OF quiet_writes(11) r3])
  have wf3: "work_wf s3" using wf c1 c2 quiet_calm[OF q3] by (blast intro: calm_wf)
  have queues3: "queues s3 = queues s" using quiet_core(1)[OF q3] s2 s1 by simp
  have qin: "q \<in> set (queues s3)" "q_providerId q = ?p"
    using queue_of_row[OF q] work_wf_owner[OF wf b q] queues3 by auto
  have s4: "s4 = queues_update (map_rows (\<lambda>r. q_id r = q_id q) ?f) s3" using r4 by (simp add: upd_queue_def modify_Inr)
  have d4: "work_dirty ?p s4" unfolding s4
  proof (rule retire_entry[OF wf3])
    show "q_providerId r = ?p" if "r \<in> set (queues s3)" "q_id r = q_id q" for r
      using same_id_same_owner[OF wf3 qin(1) that] qin(2) by simp
  qed (simp_all add: seat_kept_def is_serving_def)
  note l5 = refund_ledger_effect[OF r5]
  obtain g where s6: "s6 = requests_update g s5" using set_request_effect[OF r6] by blast
  have d6: "work_dirty ?p s6"
    using d4 l5 calm.staysD[OF calm_set_request r6] by (blast intro: calm_dirty)
  then have qd: "queue_ids_distinct s6" by (simp add: work_dirty_def queue_dirty_def)
  have wf7: "work_wf s7" by (rule recalculate_cleans[OF d6 r7])
  have q8: "quiet_rel s7 s'" by (rule quiet.staysD[OF quiet_waitlist r8])
  have "find_booking ?i s6 = find_booking ?i s2"
    using l5 quiet_bookings[OF q3, of ?i] by (simp add: s6 s4 find_booking_def)
  with recalculate_find_booking[OF r7 qd] f2 obtain c where
    c: "find_booking ?i s7 = Some c" "bk_unplaced c = bk_unplaced (b\<lparr>bk_status := B_CANCELED, bk_paymentStatus := P_REFUNDED,
      bk_statusBeforeDispute := None, bk_updatedAt := now\<rparr>)" by metis
  then have "bk_status c = B_CANCELED" "bk_paymentStatus c = P_REFUNDED"
    using unplaced_fields(1,2)[OF c(2)] by simp_all
  moreover have "q_status r = Q_CANCELLED \<and> q_paymentStatus r = P_REFUNDED" if "r \<in> set (queues s7)" "q_id r = q_id q" for r
  proof -
    have "queues s6 = queues s4" using l5 by (simp add: s6 calm_rel_def)
    with that recalculateQueueInTransaction_queues[OF qd r7] show ?thesis by (auto simp: s4 map_rows_def)
  qed
  moreover have "completedServices s' = completedServices s" "transactions s' = transactions s5"
    using quiet_core[OF q8] recalculate_frame[OF r7 qd] l5 quiet_core[OF q3] s1 s2 by (simp_all add: s6 s4)
  moreover have "transactions s4 = transactions s" using quiet_core[OF q3] s1 s2 by (simp add: s4)
  ultimately show ?thesis
    using calm_wf[OF quiet_calm[OF q8] wf7] c(1) l5 quiet_bookings[OF q8, of ?i] by (simp add: quiet_core[OF q8])
qed

lemma reserve_refund_effect:
  assumes "reserve_refund b who pid amt s = Inr (x, s')"
  shows "completed_of b s = None \<and> calm_rel s s' \<and> bookings s' = bookings s \<and> queues s' = queues s \<and>
    transactions s' = transactions s \<and> completedServices s' = completedServices s"
  using assms
  by (auto simp: reserve_refund_def fresh_id_def upd_refunds_def tx_iff Let_def calm_rel_def
      split: option.splits if_splits)

lemma finalize_refund_cases:
  assumes "finalize_refund now i who resumed rid gs amt s = Inr (w, s')"
  shows "(\<exists>b q. find_booking i s = Some b \<and> queue_of i s = Some q) \<and>
    (s' = s \<and> w = None \<and> (\<forall>b. find_booking i s = Some b \<longrightarrow> bk_status b = B_CANCELED \<and> bk_paymentStatus b = P_REFUNDED) \<or>
     (\<exists>b q. find_booking i s = Some b \<and> queue_of i s = Some q \<and> completed_of i s = None \<and> bk_status b \<noteq> B_COMPLETED \<and>
        held (bk_paymentStatus b) \<and> settle_refund now b q who rid gs amt s = Inr (w, s')))"
  using assms
  by (auto simp: finalize_refund_def tx_bind_Inr query_Inr tx_seq_Inr ensure_Inr ret_Inr fail_Inr
      split: option.splits if_splits)


definition sample_paid_db :: db where
  "sample_paid_db = empty_db\<lparr>users := [ready_user 1, ready_user 2],
     bookings := [sample_booking 5 B_ACCEPTED GCash P_PAID_HELD],
     queues := [(sample_queue 6 2 Q_WAITING 1 0)\<lparr>q_bookingId := Some 5\<rparr>],
     refunds := [\<lparr>rf_id = 7, rf_bookingId = Some 5, rf_paymentAttemptId = None, rf_paymentId = ''pay_1'',
       rf_paymongoRefundId = None, rf_amount = 150, rf_status = ''PROCESSING'', rf_requestedById = 1,
       rf_failureReason = None\<rparr>], nextId := 50\<rparr>"

lemma work_wf_sample_paid: "work_wf sample_paid_db"
proof -
  have c: "compact p (queues sample_paid_db)" for p
  proof (cases "p = 2")
    case True
    have "compact 2 (queues sample_paid_db)" by code_simp
    with True show ?thesis by simp
  next
    case False
    then have "filter (is_waiting p) (queues sample_paid_db) = []" "filter (is_serving p) (queues sample_paid_db) = []"
      by (simp_all add: sample_paid_db_def sample_queue_def is_waiting_def is_serving_def)
    then show ?thesis
      by (simp add: compact_def one_serving_def count_rows_def waiting_line_def filter_empty_conv)
  qed
  have t: "table_ids sample_paid_db" "queue_ids_distinct sample_paid_db" by code_simp+
  have "queue_links sample_paid_db"
    by (simp add: queue_links_def sample_paid_db_def sample_queue_def sample_booking_def)
  with c t show ?thesis by (simp add: work_wf_def queue_wf_def)
qed


lemma keeps_precheck: "keeps work_wf (refund_precheck b)"
  by (rule keepsI) (auto simp: refund_precheck_def Let_def tx_iff split: option.splits if_splits)

lemma keeps_finalize: "keeps work_wf (finalize_refund now i who resumed rid gs amt)"
proof (rule keepsI)
  fix s w s' assume s: "work_wf s" "finalize_refund now i who resumed rid gs amt s = Inr (w, s')"
  from finalize_refund_cases[OF s(2)] show "work_wf s'"
  proof (elim conjE disjE exE)
    fix b q assume "find_booking i s = Some b" "queue_of i s = Some q" "settle_refund now b q who rid gs amt s = Inr (w, s')"
    then show "work_wf s'" using settle_refund_effect[OF _ s(1), of now b q] find_booking_mem by metis
  qed (use s in simp)
qed

lemma keeps_reserve: "keeps work_wf (reserve_refund b who pid amt)"
  by (rule keepsI) (blast dest: reserve_refund_effect calm_wf)

lemma keeps_fail_refund: "keeps work_wf (fail_refund b e)"
  unfolding fail_refund_def by (rule calm_keeps_wf) (intro calm_rules)

lemma refundBookingPayment_keeps [p_pres]: "p_keeps work_wf (refundBookingPayment now b who ia ra)"
proof -
  have "keeps work_wf (publish_refund b w)" for w
    unfolding publish_refund_def by (rule calm_keeps_wf) (intro calm_rules)
  then show ?thesis
    unfolding refundBookingPayment_def gateway_refund_def
    by (auto split: refund_start.splits
        intro!: p_pres tx_pres keeps_precheck keeps_reserve keeps_finalize keeps_fail_refund)
qed

text \<open>A completed booking is never refunded: whatever the gateway answers, the request leaves the
  database as it was.\<close>

lemma refund_never_after_completion:
  assumes "completed_of b s \<noteq> None"
  shows "snd (refundBookingPayment now b who ia ra s) = s"
proof -
  have pre: "refund_precheck b s = Inr (x, s') \<Longrightarrow> s' = s" for x s'
    by (auto simp: refund_precheck_def Let_def tx_iff split: option.splits if_splits)
  have res: "reserve_refund b who pid amt s \<noteq> Inr y" for pid amt y
    using reserve_refund_effect[of b who pid amt s "fst y" "snd y"] assms by auto
  show ?thesis
    by (auto simp: refundBookingPayment_def p_bind_def p_ret_def transact_def lift_sum_def ret_def fail_def res dest!: pre
        split: sum.splits prod.splits refund_start.splits)
qed


subsection \<open>A refused refund can be retried\<close>

definition total :: "('s, 'a) tx \<Rightarrow> bool" where
  "total m \<longleftrightarrow> (\<forall>s. \<exists>x s'. m s = Inr (x, s'))"

named_theorems total_rules \<open>transactions that cannot fail\<close>

lemma total_basic [total_rules]: "total (ret x)" "total (query f)" "total (modify g)" "total fresh_id"
  "total (upd_refunds pr fr)" "total (upd_booking now i fb)" "total (upd_queue j fq)" "total (upd_request k frq)"
  "total (recordBookingProgress now b kd a ek)" "total (emit r e t)" "total (notify u t)"
  by (auto simp: total_def tx_eval fresh_id_def upd_refunds_def upd_booking_def upd_queue_def upd_request_def
      recordBookingProgress_def emit_def notify_def)

lemma total_recalculate [total_rules]: "total (recalculateQueueInTransaction now p)"
  using recalculateQueueInTransaction_total by (auto simp: total_def)

lemma total_bind [total_rules]: "total m \<Longrightarrow> (\<And>x. total (f x)) \<Longrightarrow> total (tx_bind m f)"
  unfolding total_def tx_bind_Inr by metis

lemma total_seq [total_rules]: "total m \<Longrightarrow> total n \<Longrightarrow> total (tx_seq m n)"
  by (simp add: tx_seq_def total_bind)

lemma total_when [total_rules]: "total m \<Longrightarrow> total (when_tx c m)"
  by (simp add: when_tx_def total_basic(1))

lemma total_case_option [total_rules]: "total m \<Longrightarrow> (\<And>x. total (f x)) \<Longrightarrow> total (case v of None \<Rightarrow> m | Some x \<Rightarrow> f x)"
  by (cases v) auto

lemma total_case_prod [total_rules]: "(\<And>x y. total (f x y)) \<Longrightarrow> total (case p of (x, y) \<Rightarrow> f x y)"
  by (cases p) auto

lemma total_for_each [total_rules]: "(\<And>x. total (f x)) \<Longrightarrow> total (for_each f xs)"
  by (induction xs) (auto intro: total_rules)

lemma total_publish_refund [total_rules]: "total (publish_refund i w)" "total (notifyWaitlistInTransaction now p)"
proof -
  show "total (notifyWaitlistInTransaction now p)"
    unfolding notifyWaitlistInTransaction_def
    by (auto intro!: total_rules split: option.splits list.splits)
  show "total (publish_refund i w)"
    unfolding publish_refund_def emitWaitlistNotification_def emitProviderQueueUpdates_def by (intro total_rules)
qed

lemma refund_ledger_runs:
  assumes "Some (LK_Refund b) \<notin> tr_idempotencyKey ` set (transactions s)"
  shows "\<exists>s'. refund_ledger b k rid a s = Inr ((), s')"
proof (cases "exists_row (\<lambda>t. tr_relatedBookingId t = Some b \<and> tr_type t = REFUND \<and> tr_paymongoRefId t = Some rid) (transactions s)")
  case True
  then show ?thesis by (auto simp only: refund_ledger_def tx_eval prod.case sum.case not_True_eq_False if_False)
next
  case False
  with assms show ?thesis
    by (simp only: refund_ledger_def tx_eval prod.case sum.case not_False_eq_True if_True)
      (simp add: fresh_id_def insert_transaction_def)
qed

lemma settle_refund_runs:
  assumes "Some (LK_Refund (bk_id b)) \<notin> tr_idempotencyKey ` set (transactions s)"
  shows "\<exists>w s'. settle_refund now b q who rid gs amt s = Inr (w, s')"
proof -
  let ?rec = "recordBookingProgress now (bk_id b) PK_CANCELED
        (bookingActorRole (bk_seekerId b) (bk_providerId b) (Some who)) (EK_Kind PK_CANCELED)"
  let ?s1 = "refunds_update (map_rows (\<lambda>r. rf_bookingId r = Some (bk_id b)) (\<lambda>r. r\<lparr>rf_status := toUpperCase gs,
        rf_paymongoRefundId := Some rid, rf_failureReason := None\<rparr>)) s"
  obtain s2 where s2: "upd_booking now (bk_id b) (\<lambda>b. b\<lparr>bk_status := B_CANCELED, bk_paymentStatus := P_REFUNDED,
        bk_statusBeforeDispute := None\<rparr>) ?s1 = Inr ((), s2)" "transactions s2 = transactions s"
    by (simp add: upd_booking_def modify_def)
  obtain s3 where s3: "?rec s2 = Inr ((), s3)" using recordBookingProgress_total by blast
  obtain s4 where s4: "upd_queue (q_id q) (\<lambda>q. q\<lparr>q_status := Q_CANCELLED, q_paymentStatus := P_REFUNDED\<rparr>) s3 = Inr ((), s4)"
    "transactions s4 = transactions s3"
    by (simp add: upd_queue_def modify_def)
  have "transactions s3 = transactions s2" using s3 by (auto simp: recordBookingProgress_Inr split: if_splits)
  with assms s2 s4 obtain s5 where s5: "refund_ledger (bk_id b) (bk_seekerId b) rid amt s4 = Inr ((), s5)"
    using refund_ledger_runs[of "bk_id b" s4 "bk_seekerId b" rid amt] by auto
  have "total (tx_bind (query (request_of_offer (bk_offerId b))) (\<lambda>rq.
     tx_seq (set_request rq RQ_CANCELED)
    (tx_seq (recalculateQueueInTransaction now (bk_providerId b))
    (notifyWaitlistInTransaction now (bk_providerId b)))))"
    unfolding set_request_def by (intro total_rules)
  then obtain w s' where "tx_bind (query (request_of_offer (bk_offerId b))) (\<lambda>rq.
     tx_seq (set_request rq RQ_CANCELED)
    (tx_seq (recalculateQueueInTransaction now (bk_providerId b))
    (notifyWaitlistInTransaction now (bk_providerId b)))) s5 = Inr (w, s')" unfolding total_def by blast
  then have "settle_refund now b q who rid gs amt s = Inr (w, s')"
    using s2(1) s3 s4(1) s5 by (simp add: settle_refund_def tx_seq_def tx_bind_def upd_refunds_def modify_def)
  then show ?thesis by blast
qed

text \<open>A booking whose held payment may be refunded and has not been submitted to the gateway.\<close>

definition refund_open :: "key \<Rightarrow> db \<Rightarrow> bool" where
  "refund_open i s \<longleftrightarrow> (\<exists>b q. find_booking i s = Some b \<and> queue_of i s = Some q \<and> held (bk_paymentStatus b) \<and>
     bk_status b \<noteq> B_COMPLETED \<and> completed_of i s = None \<and>
     \<not> truthy (Option.bind (refund_of i s) rf_paymongoRefundId) \<and>
     Some (LK_Refund i) \<notin> tr_idempotencyKey ` set (transactions s))"

definition paid_intent :: "intent \<Rightarrow> bool" where
  "paid_intent it \<longleftrightarrow> it_status it = ''succeeded'' \<and> truthy (it_paymentId it)"

lemma find_map_rows_same:
  "(\<And>r. P (f r) = P r) \<Longrightarrow> List.find P (map_rows P f xs) = map_option f (List.find P xs)"
  by (induction xs) (auto simp: map_rows_def)

lemma refund_of_upd:
  "(\<And>r. rf_bookingId (f r) = rf_bookingId r) \<Longrightarrow>
   refund_of i (refunds_update (map_rows (\<lambda>r. rf_bookingId r = Some i) f) s) = map_option f (refund_of i s)"
  by (simp add: refund_of_def find_map_rows_same)

lemma reserve_open:
  assumes "refund_open i s"
  shows "\<exists>row s'. reserve_refund i who pid amt s = Inr ((False, row), s') \<and> refund_open i s' \<and>
    bookings s' = bookings s \<and> queues s' = queues s \<and> transactions s' = transactions s \<and>
    completedServices s' = completedServices s \<and>
    map_option rf_status (refund_of i s') = Some ''PROCESSING''"
proof -
  from assms obtain b q where b: "find_booking i s = Some b" "queue_of i s = Some q" "held (bk_paymentStatus b)"
     "bk_status b \<noteq> B_COMPLETED" "completed_of i s = None"
     "\<not> truthy (Option.bind (refund_of i s) rf_paymongoRefundId)"
     "Some (LK_Refund i) \<notin> tr_idempotencyKey ` set (transactions s)" by (auto simp: refund_open_def)
  have p: "bk_paymentStatus b \<notin> {P_RELEASED, P_CASH_CONFIRMED}" using b(3) by (auto simp: held_def)
  let ?f = "\<lambda>r. r\<lparr>rf_paymentId := pid, rf_amount := amt, rf_status := ''PROCESSING'', rf_requestedById := who,
      rf_failureReason := None\<rparr>"
  show ?thesis
  proof (cases "refund_of i s")
    case None
    let ?c = "\<lparr>rf_id = nextId s, rf_bookingId = Some i, rf_paymentAttemptId = None,
                 rf_paymentId = pid, rf_paymongoRefundId = None, rf_amount = amt,
                 rf_status = ''PROCESSING'', rf_requestedById = who, rf_failureReason = None\<rparr>"
    let ?s = "refunds_update (\<lambda>rs. rs @ [?c]) (s\<lparr>nextId := Suc (nextId s)\<rparr>)"
    have run: "reserve_refund i who pid amt s = Inr ((False, ?c), ?s)"
      using b p None by (simp add: reserve_refund_def tx_eval fresh_id_def Let_def truthy_def)
    have "find_row rf_bookingId (Some i) (refunds s @ [?c]) = Some ?c"
      using None by (simp add: refund_of_def find_row_def find_row_append[unfolded find_row_def])
    then have "refund_of i ?s = Some ?c" by (simp add: refund_of_def find_row_def)
    with run b show ?thesis
      by (auto simp: refund_open_def find_booking_def queue_of_def completed_of_def truthy_def)
  next
    case (Some c)
    show ?thesis
    proof (cases "rf_status c = ''PROCESSING''")
      case True
      then have "reserve_refund i who pid amt s = Inr ((False, c), s)"
        using b p Some by (simp add: reserve_refund_def tx_eval Let_def)
      with assms Some True show ?thesis by auto
    next
      case False
      let ?s = "refunds_update (map_rows (\<lambda>r. rf_bookingId r = Some i) ?f) s"
      have run: "reserve_refund i who pid amt s = Inr ((False, ?f c), ?s)"
        using b p Some False by (simp add: reserve_refund_def tx_eval Let_def upd_refunds_def)
      have "refund_of i ?s = Some (?f c)" by (simp add: refund_of_upd Some)
      with run b Some show ?thesis
        by (auto simp: refund_open_def find_booking_def queue_of_def completed_of_def)
    qed
  qed
qed

lemma precheck_open: "refund_open i s \<Longrightarrow> queue_of i s = Some q \<Longrightarrow> refund_precheck i s = Inr (RefundOf q, s)"
  by (auto simp: refund_open_def refund_precheck_def tx_eval Let_def)

lemma refundable_paid: "paid_intent it \<Longrightarrow> \<exists>pid. refundable_payment q it = Inr pid"
  by (auto simp: refundable_payment_def paid_intent_def or_string_def Let_def)

lemma finalize_open:
  assumes "refund_open i s" "map_option rf_status (refund_of i s) = Some ''PROCESSING''"
  shows "\<exists>w s'. finalize_refund now i who False rid gs amt s = Inr (w, s')"
proof -
  from assms(1) obtain b q where "find_booking i s = Some b" "queue_of i s = Some q" "held (bk_paymentStatus b)"
     "bk_status b \<noteq> B_COMPLETED" "completed_of i s = None" "Some (LK_Refund i) \<notin> tr_idempotencyKey ` set (transactions s)"
    by (auto simp: refund_open_def)
  moreover have "bk_id b = i" using find_booking_mem[OF \<open>find_booking i s = Some b\<close>] by simp
  moreover have "bk_paymentStatus b \<noteq> P_REFUNDED" using \<open>held (bk_paymentStatus b)\<close> by (auto simp: held_def)
  ultimately show ?thesis
    using assms(2) settle_refund_runs[of b s now q who rid gs amt]
    by (auto simp: finalize_refund_def tx_eval total_def)
qed


definition sample_intent :: intent where
  "sample_intent = \<lparr>it_id = ''pi'', it_status = ''succeeded'', it_paymentId = Some ''pay_1'',
     it_amount = 150, it_currency = ''PHP'', it_metadata = Map.empty\<rparr>"


end
