(* ===== verification/SH_Bookings.thy ===== *)
theory SH_Bookings
  imports SH_Refund
begin

text \<open>
  Bookings that start without an online payment (src/src/services/bookings/direct-bookings.service.ts):
  the direct cash request, the provider's answer, and the acceptance of an offer with cash; and the
  waitlist of a full provider (waitlist.service.ts).

  A handler that reads before it opens its transaction is a process: the checks, the transaction, and
  the events published after it.
\<close>

lemmas tx_open = tx_bind_Inr tx_seq_Inr query_Inr ensure_Inr ret_Inr lift_sum_Inr fail_Inr expect_Inr
  prod.case prod.inject sum.inject Let_def split_paired_Ex

lemma runs: "\<not> isl r \<Longrightarrow> \<exists>x s'. r = Inr (x, s')"
  by (cases r) auto

subsection \<open>What the handlers share\<close>

definition open_statuses :: "booking_status set" where
  "open_statuses = {B_PENDING_APPROVAL, B_WAITING, B_ONGOING, B_ACCEPTED, B_AWAITING_CONFIRMATION,
     B_UNDER_REVIEW, B_DISPUTED}"

definition open_booking_of :: "key \<Rightarrow> key \<Rightarrow> booking_status set \<Rightarrow> db \<Rightarrow> bool" where
  "open_booking_of seekerId serviceId sts s \<longleftrightarrow> exists_row (\<lambda>b. bk_seekerId b = seekerId \<and>
     bk_serviceId b = Some serviceId \<and> bk_status b \<in> sts) (bookings s)"

definition recordAgreement :: "time \<Rightarrow> booking_row \<Rightarrow> bool \<Rightarrow> recorded dbtx" where
  "recordAgreement now booking byProvider =
     tx_seq (recordBookingProgress now (bk_id booking) PK_ACCEPTED
        (if byProvider then ByProvider else BySeeker) (EK_Kind PK_ACCEPTED))
    (tx_bind (recordLifecycleNotice (parties booking)
        [plain_notice (if byProvider then bk_seekerId booking else bk_providerId booking)
           (if byProvider then ''Booking Accepted!'' else ''Offer Accepted!'')]
        (Some (if byProvider then bk_providerId booking else bk_seekerId booking,
           ''Agreement reached! Direct chat messaging is now enabled for this transaction.''))) (\<lambda>recd.
     tx_seq (notify (if byProvider then bk_providerId booking else bk_seekerId booking) ''Booking Confirmed!'')
     (ret recd)))"

definition blank_booking :: "key \<Rightarrow> key \<Rightarrow> booking_row" where
  "blank_booking seekerId providerId = \<lparr>bk_id = 0, bk_seekerId = seekerId, bk_providerId = providerId,
     bk_serviceId = None, bk_offerId = None, bk_directRequestId = None, bk_originType = None,
     bk_paymentAttemptId = None, bk_paymentMethod = OnsiteCash, bk_agreedAmount = None, bk_jobLocation = None,
     bk_transportationFee = None, bk_serviceLocationMode = None, bk_estimatedDurationMins = None,
     bk_paymentStatus = P_UNPAID, bk_status = B_PENDING_APPROVAL, bk_statusBeforeDispute = None,
     bk_queuePosition = None, bk_started = False, bk_hiddenBySeeker = False, bk_hiddenByProvider = False,
     bk_updatedAt = 0\<rparr>"

subsection \<open>Direct cash requests\<close>

definition service_bookable :: "service_row option \<Rightarrow> key \<Rightarrow> bool" where
  "service_bookable v providerId = (case v of None \<Rightarrow> False
     | Some v \<Rightarrow> sv_providerId v = providerId \<and> sv_status v = S_ACTIVE \<and> sv_isAvailable v)"

definition direct_precheck ::
  "key \<Rightarrow> key \<Rightarrow> key \<Rightarrow> int \<Rightarrow> location_mode option \<Rightarrow> job_location option \<Rightarrow> unit dbtx" where
  "direct_precheck seekerId providerId serviceId quantity mode jobLocation =
     tx_seq (lift_sum (assertDistinctAccounts seekerId providerId))
    (tx_bind (query (\<lambda>s. (find_service serviceId s, provider_ready providerId s,
        open_booking_of seekerId serviceId open_statuses s))) (\<lambda>(service, ready, active).
     tx_seq (ensure (service_bookable service providerId) (Http 400 ''This service listing is currently paused''))
    (let v = the service in
     tx_bind (lift_sum (resolveDirectArrangement v mode jobLocation)) (\<lambda>arr.
     tx_bind (lift_sum (calculateDirectListingTerms (sv_priceType v) (sv_price v) quantity
        (sv_estimatedDurationMins v) (ar_transportationFee arr))) (\<lambda>_.
     tx_seq (ensure ready (Http 409 ''The provider is not currently eligible to accept a new booking''))
    (tx_seq (ensure (pm_cash (sv_paymentMethods v)) (Http 400 ''This provider does not accept cash payments''))
    (ensure (\<not> active) (Http 400 ''You already have an active booking for this service in progress'')))))))) "

definition create_direct ::
  "time \<Rightarrow> key \<Rightarrow> key \<Rightarrow> key \<Rightarrow> int \<Rightarrow> arrangement \<Rightarrow> decimal \<Rightarrow> int \<Rightarrow> (direct_request_row \<times> booking_row) dbtx" where
  "create_direct now seekerId providerId serviceId quantity arr fixedPrice durationMins =
     tx_bind fresh_id (\<lambda>i.
       let d = \<lparr>dr_id = i, dr_seekerId = seekerId, dr_providerId = providerId, dr_serviceId = serviceId,
         dr_quantity = quantity, dr_agreedPrice = fixedPrice, dr_status = DR_PENDING_APPROVAL\<rparr>
       in tx_seq (modify (directRequests_update (\<lambda>ds. ds @ [d])))
         (tx_bind (create_booking now ((blank_booking seekerId providerId)\<lparr>bk_serviceId := Some serviceId,
            bk_directRequestId := Some i, bk_originType := Some DIRECT_LISTING, bk_paymentMethod := OnsiteCash,
            bk_agreedAmount := Some fixedPrice, bk_jobLocation := ar_jobLocation arr,
            bk_serviceLocationMode := Some (ar_mode arr), bk_transportationFee := ar_transportationFee arr,
            bk_estimatedDurationMins := Some durationMins, bk_paymentStatus := P_UNPAID,
            bk_status := B_PENDING_APPROVAL, bk_started := False\<rparr>)) (\<lambda>b. ret (d, b))))"

text \<open>The transaction looks for open bookings once more, without \<open>UNDER_REVIEW\<close>.\<close>

definition direct_commit ::
  "time \<Rightarrow> key \<Rightarrow> key \<Rightarrow> key \<Rightarrow> int \<Rightarrow> location_mode option \<Rightarrow> job_location option \<Rightarrow>
   (booking_row \<times> recorded) dbtx" where
  "direct_commit now seekerId providerId serviceId quantity mode jobLocation =
     tx_bind (assertNewProviderBusiness now providerId) (\<lambda>_.
     tx_bind (query (\<lambda>s. (marketplaceParticipantsEligible seekerId providerId s,
        open_booking_of seekerId serviceId (open_statuses - {B_UNDER_REVIEW}) s, find_service serviceId s)))
     (\<lambda>(eligible, concurrent, service).
     tx_seq (ensure eligible (Http 409 ''Both participants must be eligible for a booking''))
    (tx_seq (ensure (\<not> concurrent) (Http 409 ''You already have an active booking for this service''))
    (tx_seq (ensure (service_bookable service providerId \<and> pm_cash (sv_paymentMethods (the service)))
        (Http 409 ''The service changed while sending your request''))
    (let v = the service in
     tx_bind (lift_sum (resolveDirectArrangement v mode jobLocation)) (\<lambda>arr.
     tx_bind (lift_sum (calculateDirectListingTerms (sv_priceType v) (sv_price v) quantity
        (sv_estimatedDurationMins v) (ar_transportationFee arr))) (\<lambda>(fixedPrice, durationMins).
     tx_bind (create_direct now seekerId providerId serviceId quantity arr fixedPrice durationMins) (\<lambda>(_, booking).
     tx_bind (recordLifecycleNotice (parties booking) [plain_notice providerId ''New Direct Booking Request''] None)
     (\<lambda>recd. ret (booking, recd))))))))))"

definition createDirectRequest ::
  "time \<Rightarrow> key \<Rightarrow> key \<Rightarrow> key \<Rightarrow> int option \<Rightarrow> location_mode option \<Rightarrow> job_location option \<Rightarrow>
   (db, booking_row) process" where
  "createDirectRequest now seekerId providerId serviceId quantity mode jobLocation =
     (let n = (case quantity of None \<Rightarrow> 1 | Some k \<Rightarrow> k) in
      p_seq (transact (direct_precheck seekerId providerId serviceId n mode jobLocation))
     (p_bind (transact (direct_commit now seekerId providerId serviceId n mode jobLocation)) (\<lambda>(booking, recd).
      p_seq (transact (publishLifecycleChange (parties booking) ''created'' recd False)) (p_ret booking))))"


subsection \<open>The provider's answer\<close>

text \<open>The id names a direct request, or a booking. The \<open>include\<close> of each lookup is the related row.\<close>

definition respond_target :: "key \<Rightarrow> db \<Rightarrow> direct_request_row option \<times> booking_row option" where
  "respond_target requestId s = (case find_directRequest requestId s of
     Some d \<Rightarrow> (Some d, List.find (\<lambda>b. bk_directRequestId b = Some (dr_id d)) (bookings s))
   | None \<Rightarrow> (case find_booking requestId s of None \<Rightarrow> (None, None)
       | Some b \<Rightarrow> (Option.bind (bk_directRequestId b) (\<lambda>i. find_directRequest i s), Some b)))"

definition respond_parties :: "direct_request_row option \<Rightarrow> booking_row option \<Rightarrow> key \<times> key" where
  "respond_parties d b = (case (d, b) of (Some d, _) \<Rightarrow> (dr_seekerId d, dr_providerId d)
     | (None, Some b) \<Rightarrow> (bk_seekerId b, bk_providerId b) | (None, None) \<Rightarrow> (0, 0))"

definition opt_status_in :: "('r \<Rightarrow> 'st) \<Rightarrow> 'st set \<Rightarrow> 'r option \<Rightarrow> bool" where
  "opt_status_in f sts r \<longleftrightarrow> (case r of None \<Rightarrow> False | Some x \<Rightarrow> f x \<in> sts)"

definition respond_precheck :: "key \<Rightarrow> key \<Rightarrow> (direct_request_row option \<times> booking_row option) dbtx" where
  "respond_precheck requestId providerId =
     tx_bind (query (respond_target requestId)) (\<lambda>(d, b).
     tx_seq (ensure (d \<noteq> None \<or> b \<noteq> None) (Http 404 ''Booking request not found''))
    (tx_seq (ensure (snd (respond_parties d b) = providerId) (Http 403 ''Access denied''))
    (tx_seq (ensure (\<not> opt_status_in dr_status {DR_DECLINED} d \<and>
        \<not> opt_status_in bk_status {B_CANCELED, B_DECLINED, B_REMOVED} b)
        (Http 400 ''This request has already been cancelled or declined.''))
    (tx_seq (ensure (\<not> opt_status_in dr_status (- {DR_PENDING_APPROVAL}) d \<and>
        \<not> opt_status_in bk_status (- {B_PENDING_APPROVAL}) b)
        (Http 409 ''This booking request has already been processed''))
    (ret (d, b))))))"

definition assert_request_pending :: "direct_request_row option \<Rightarrow> unit dbtx" where
  "assert_request_pending d = (case d of None \<Rightarrow> ret () | Some d \<Rightarrow>
     tx_bind (query (find_directRequest (dr_id d))) (\<lambda>fresh.
       ensure (map_option dr_status fresh = Some DR_PENDING_APPROVAL)
         (Http 409 ''This booking request has already been processed'')))"

definition set_directRequest :: "direct_request_row option \<Rightarrow> direct_request_status \<Rightarrow> unit dbtx" where
  "set_directRequest d st = (case d of None \<Rightarrow> ret ()
     | Some d \<Rightarrow> upd_directRequest (dr_id d) (\<lambda>r. r\<lparr>dr_status := st\<rparr>))"

text \<open>\<open>update\<close> of a booking by id returns the written row, and fails when there is none.\<close>

definition update_booking :: "time \<Rightarrow> key \<Rightarrow> (booking_row \<Rightarrow> booking_row) \<Rightarrow> booking_row dbtx" where
  "update_booking now i f = tx_seq (upd_booking now i f)
     (tx_bind (query (find_booking i)) (expect (Uncoded ''P2025'')))"

definition respond_accept ::
  "time \<Rightarrow> key \<Rightarrow> direct_request_row option \<Rightarrow> booking_row option \<Rightarrow> (booking_row \<times> recorded) dbtx" where
  "respond_accept now providerId d b =
     tx_bind (query (provider_ready providerId)) (\<lambda>ready.
     tx_seq (ensure ready (Http 403 ''ACCEPT_BOOKING_NOT_ALLOWED''))
    (tx_bind (assertNewProviderBusiness now providerId) (\<lambda>_.
     tx_seq (assert_request_pending d)
    (tx_bind (query (\<lambda>s. (Option.bind b (\<lambda>bk. find_booking (bk_id bk) s),
        Option.bind d (\<lambda>dr. find_service (dr_serviceId dr) s)))) (\<lambda>(fresh, service).
     tx_seq (ensure (b = None \<or> map_option bk_status fresh = Some B_PENDING_APPROVAL)
        (Http 409 ''This booking request has already been processed''))
    (tx_seq (set_directRequest d DR_ACCEPTED)
    (tx_bind (case b of
         Some bk \<Rightarrow> update_booking now (bk_id bk) (\<lambda>r. r\<lparr>bk_status := B_ACCEPTED, bk_started := False\<rparr>)
       | None \<Rightarrow> (case d of None \<Rightarrow> fail (Uncoded ''unreachable'')
         | Some dr \<Rightarrow> create_booking now ((blank_booking (dr_seekerId dr) providerId)\<lparr>
             bk_serviceId := Some (dr_serviceId dr), bk_directRequestId := Some (dr_id dr),
             bk_paymentMethod := OnsiteCash, bk_agreedAmount := Some (dr_agreedPrice dr),
             bk_estimatedDurationMins := Some (case service of None \<Rightarrow> 60 | Some v \<Rightarrow> sv_estimatedDurationMins v),
             bk_paymentStatus := P_UNPAID, bk_status := B_ACCEPTED, bk_started := False\<rparr>)))
      (\<lambda>accepted. tx_bind (recordAgreement now accepted True) (\<lambda>recd. ret (accepted, recd))))))))))"

text \<open>\<open>held\<close> is decided on the booking read before the refund; the refund has cancelled it meanwhile.\<close>

definition respond_decline ::
  "time \<Rightarrow> key \<Rightarrow> bool \<Rightarrow> direct_request_row option \<Rightarrow> booking_row option \<Rightarrow>
   (booking_row option \<times> recorded) dbtx" where
  "respond_decline now providerId hasHeld d b =
     tx_bind (tx_seq (assert_request_pending d)
       (case b of None \<Rightarrow> tx_seq (set_directRequest d DR_DECLINED) (ret None)
        | Some bk \<Rightarrow> tx_bind (query (find_booking (bk_id bk))) (\<lambda>fresh.
            if hasHeld \<and> map_option bk_status fresh = Some B_CANCELED then ret fresh
            else tx_seq (ensure (map_option bk_status fresh = Some B_PENDING_APPROVAL)
                (Http 409 ''This booking request has already been processed''))
              (tx_seq (set_directRequest d DR_DECLINED)
              (tx_bind (update_booking now (bk_id bk) (\<lambda>r. r\<lparr>bk_status := B_DECLINED,
                  bk_paymentStatus := (if hasHeld then P_REFUNDED else bk_paymentStatus bk)\<rparr>)) (\<lambda>declined.
               tx_seq (recordBookingProgress now (bk_id declined) PK_DECLINED ByProvider (EK_Kind PK_DECLINED))
               (ret (Some declined))))))))
     (\<lambda>booking.
       let seekerId = fst (respond_parties d b);
           ps = (case booking of Some x \<Rightarrow> parties x
             | None \<Rightarrow> (case d of None \<Rightarrow> 0 | Some dr \<Rightarrow> dr_id dr, seekerId, providerId))
       in tx_bind (recordLifecycleNotice ps [plain_notice seekerId ''Booking Request Declined''] None)
         (\<lambda>recd. ret (booking, recd)))"

definition respondToDirectBookingService ::
  "time \<Rightarrow> key \<Rightarrow> key \<Rightarrow> bool \<Rightarrow> error + intent \<Rightarrow> refund_answer \<Rightarrow> (db, booking_row option) process" where
  "respondToDirectBookingService now requestId providerId accept intentAnswer refundAnswer =
     p_bind (transact (respond_precheck requestId providerId)) (\<lambda>(d, b).
       if accept then
         p_bind (transact (respond_accept now providerId d b)) (\<lambda>(booking, recd).
         p_seq (transact (publishLifecycleChange (parties booking) ''accepted'' recd False))
        (p_seq (transact (emit (RUser providerId) ''notification'' ''Booking Confirmed!''))
        (p_ret (Some booking))))
       else
         let hasHeld = opt_status_in bk_paymentStatus {P_PAID_HELD, P_FROZEN_HELD} b in
         p_seq (if hasHeld then p_bind (refundBookingPayment now (bk_id (the b)) providerId intentAnswer refundAnswer)
             (\<lambda>_. p_ret ()) else p_ret ())
        (p_bind (transact (respond_decline now providerId hasHeld d b)) (\<lambda>(booking, recd).
         p_seq (transact (publishLifecycleChange (case booking of Some x \<Rightarrow> parties x
             | None \<Rightarrow> (case d of None \<Rightarrow> 0 | Some dr \<Rightarrow> dr_id dr, fst (respond_parties d b), providerId))
             ''declined'' recd False))
        (p_ret booking))))"


subsection \<open>Accepting an offer with cash\<close>

definition offer_with_request :: "key \<Rightarrow> db \<Rightarrow> (offer_row \<times> request_row) option" where
  "offer_with_request offerId s = (case find_offer offerId s of None \<Rightarrow> None
     | Some f \<Rightarrow> map_option (Pair f) (find_request (of_requestId f) s))"

definition offer_precheck :: "key \<Rightarrow> key \<Rightarrow> (offer_row \<times> request_row) dbtx" where
  "offer_precheck offerId seekerId =
     tx_bind (query (offer_with_request offerId)) (\<lambda>found. case found of
       None \<Rightarrow> fail (Http 404 ''Offer not found or access denied'')
     | Some (offer, request) \<Rightarrow>
       tx_seq (ensure (rq_seekerId request = seekerId) (Http 404 ''Offer not found or access denied''))
      (tx_seq (lift_sum (assertDistinctAccounts seekerId (of_providerId offer)))
      (tx_seq (ensure (of_status offer = O_PENDING \<and> rq_status request = RQ_OPEN)
         (Http 409 ''This offer is no longer available''))
      (tx_bind (query (provider_ready (of_providerId offer))) (\<lambda>ready.
       tx_seq (ensure ready (Http 409 ''The provider is not eligible for a new booking''))
      (ret (offer, request)))))))"

text \<open>The listing an inquiry targets must be the one offered and take cash.\<close>

definition assert_cash_inquiry :: "offer_row \<Rightarrow> request_row \<Rightarrow> unit dbtx" where
  "assert_cash_inquiry offer request = (case rq_targetServiceId request of None \<Rightarrow> ret ()
     | Some target \<Rightarrow>
       tx_seq (ensure ((rq_preferredPaymentMethod request = None \<or> rq_preferredPaymentMethod request = Some OnsiteCash) \<and>
           of_serviceId offer = Some target)
         (Http 409 ''This inquiry was requested with a different payment method or listing''))
      (tx_bind (query (find_service target)) (\<lambda>v.
         ensure (case v of None \<Rightarrow> False | Some v \<Rightarrow> pm_cash (sv_paymentMethods v))
           (Http 409 ''This listing no longer accepts on-site cash''))))"

definition selectable :: "key \<Rightarrow> db \<Rightarrow> bool" where
  "selectable offerId s = (case offer_with_request offerId s of None \<Rightarrow> False
     | Some (f, r) \<Rightarrow> of_status f = O_PENDING \<and> rq_status r = RQ_OPEN)"

text \<open>The two conditional updates: the offer wins while it is pending and the request is open, every
  pending sibling is closed, and the request leaves \<open>OPEN\<close>.\<close>

definition select_offer :: "key \<Rightarrow> key \<Rightarrow> key list dbtx" where
  "select_offer offerId requestId =
     tx_bind (query (selectable offerId)) (\<lambda>won.
     tx_seq (ensure won (Http 409 ''This offer was already processed''))
    (tx_seq (upd_offer offerId (\<lambda>f. f\<lparr>of_status := O_ACCEPTED\<rparr>))
    (tx_bind (rejectSiblingOffersAndNotify requestId offerId) (\<lambda>losing.
     tx_bind (query (find_request requestId)) (\<lambda>r.
     tx_seq (ensure (map_option rq_status r = Some RQ_OPEN) (Http 409 ''REQUEST_ALREADY_SELECTED''))
    (tx_seq (upd_request requestId (\<lambda>r. r\<lparr>rq_status := RQ_IN_PROGRESS\<rparr>))
    (ret losing)))))))"

definition cash_offer_booking :: "key \<Rightarrow> offer_row \<Rightarrow> offer_row \<Rightarrow> job_location option \<Rightarrow> booking_row" where
  "cash_offer_booking seekerId offer freshOffer loc = (blank_booking seekerId (of_providerId offer))\<lparr>bk_serviceId := of_serviceId offer,
     bk_offerId := Some (of_id offer), bk_originType := Some OFFER, bk_paymentMethod := OnsiteCash,
     bk_agreedAmount := Some (of_offeredPrice freshOffer), bk_jobLocation := loc,
     bk_serviceLocationMode := Some (case of_serviceLocationMode freshOffer of None \<Rightarrow> PROVIDER_VISITS | Some m \<Rightarrow> m),
     bk_estimatedDurationMins := Some (of_estimatedDuration offer), bk_paymentStatus := P_UNPAID,
     bk_status := B_ACCEPTED\<rparr>"

definition offer_accept ::
  "time \<Rightarrow> key \<Rightarrow> offer_row \<Rightarrow> offer_row \<Rightarrow> request_row \<Rightarrow> job_location option \<Rightarrow>
   (booking_row \<times> recorded \<times> key list) dbtx" where
  "offer_accept now seekerId offer freshOffer request jobLocation =
       tx_seq (ensure (of_status freshOffer = O_PENDING \<and> rq_status request = RQ_OPEN \<and> rq_seekerId request = seekerId)
         (Http 409 ''This offer is no longer available''))
      (tx_seq (lift_sum (assertRequestPaymentMethod request OnsiteCash))
      (tx_seq (assert_cash_inquiry freshOffer request)
      (tx_bind (query (\<lambda>s. (exists_row (\<lambda>b. bk_seekerId b = seekerId \<and> bk_offerId b = Some (of_id offer) \<and>
           bk_status b \<in> open_statuses - {B_UNDER_REVIEW}) (bookings s), provider_ready (of_providerId offer) s)))
        (\<lambda>(active, ready).
       tx_seq (ensure (\<not> active) (Http 409 ''ACTIVE_BOOKING_EXISTS''))
      (tx_seq (ensure ready (Http 409 ''The provider is no longer eligible for a cash booking''))
      (tx_bind (select_offer (of_id offer) (of_requestId offer)) (\<lambda>losing.
       tx_bind (lift_sum (offerJobLocation freshOffer request jobLocation)) (\<lambda>loc.
       tx_bind (create_booking now (cash_offer_booking seekerId offer freshOffer loc)) (\<lambda>booking.
       tx_bind (recordAgreement now booking False) (\<lambda>recd.
       ret (booking, recd, losing)))))))))))"

definition offer_commit ::
  "time \<Rightarrow> key \<Rightarrow> offer_row \<Rightarrow> job_location option \<Rightarrow> (booking_row \<times> recorded \<times> key list) dbtx" where
  "offer_commit now seekerId offer jobLocation =
     tx_bind (assertNewProviderBusiness now (of_providerId offer)) (\<lambda>_.
     tx_bind (query (\<lambda>s. (marketplaceParticipantsEligible seekerId (of_providerId offer) s,
        offer_with_request (of_id offer) s))) (\<lambda>(eligible, found).
     tx_seq (ensure eligible (Http 409 ''Both participants must be eligible for a booking''))
    (case found of None \<Rightarrow> fail (Http 409 ''This offer is no longer available'')
     | Some (freshOffer, request) \<Rightarrow> offer_accept now seekerId offer freshOffer request jobLocation)))"

definition createDirectFromOfferService ::
  "time \<Rightarrow> key \<Rightarrow> key \<Rightarrow> job_location option \<Rightarrow> (db, booking_row) process" where
  "createDirectFromOfferService now offerId seekerId jobLocation =
     p_bind (transact (offer_precheck offerId seekerId)) (\<lambda>(offer, _).
     p_bind (transact (offer_commit now seekerId offer jobLocation)) (\<lambda>(booking, recd, losing).
     p_seq (transact (for_each (\<lambda>k. tx_seq (emit (RUser k) ''notification'' ''Another offer was selected'')
        (emit (RUser k) ''ENGAGEMENT_CHANGED'' ''offer_not_selected'')) losing))
    (p_seq (transact (publishLifecycleChange (parties booking) ''accepted_offer'' recd False))
    (p_seq (transact (emit (RUser seekerId) ''notification'' ''Booking Confirmed!''))
    (p_ret booking)))))"

subsection \<open>The waitlist of a full provider\<close>

definition joinWaitlist :: "time \<Rightarrow> key \<Rightarrow> key \<Rightarrow> queue_notify_row dbtx" where
  "joinWaitlist now serviceId seekerId =
     tx_bind (query (\<lambda>s. case find_service serviceId s of None \<Rightarrow> None
        | Some v \<Rightarrow> map_option (Pair v) (find_user (sv_providerId v) s))) (\<lambda>found. case found of
       None \<Rightarrow> fail (Http 404 ''This service is not available'')
     | Some (v, provider) \<Rightarrow>
       tx_seq (ensure (sv_status v = S_ACTIVE \<and> sv_isAvailable v \<and> u_isActive provider \<and>
           u_moderationStatus provider = M_ACTIVE) (Http 404 ''This service is not available''))
      (tx_seq (lift_sum (assertDistinctAccounts seekerId (sv_providerId v)))
      (tx_bind (assertNewProviderBusiness now (sv_providerId v)) (\<lambda>_.
       tx_bind (query (\<lambda>s. (open_booking_of seekerId serviceId open_statuses s,
           exists_row (\<lambda>w. qn_serviceId w = serviceId \<and> qn_seekerId w = seekerId) (queueNotifies s),
           waiting_count (sv_providerId v) s))) (\<lambda>(active, known, waitingCount).
       tx_seq (ensure (\<not> active) (Http 400 ''You already have an active booking for this service in progress.''))
      (tx_seq (ensure (\<not> known) (Http 409 ''You are already on the waitlist for this service''))
      (tx_seq (ensure (u_onlineQueueLimit provider \<le> waitingCount) (Http 409 ''QUEUE_SLOT_AVAILABLE''))
      (tx_bind fresh_id (\<lambda>i.
       let w = \<lparr>qn_id = i, qn_serviceId = serviceId, qn_seekerId = seekerId, qn_requestedAt = now\<rparr>
       in tx_seq (modify (queueNotifies_update (\<lambda>ws. ws @ [w]))) (ret w))))))))))"


subsection \<open>The work tables\<close>

lemma quiet_recordAgreement [quiet_rules]: "quiet.stays (recordAgreement now b pr)"
  unfolding recordAgreement_def by (intro quiet_rules)

lemma calm_quiet: "quiet.stays m \<Longrightarrow> calm.stays m"
  by (rule calm.staysI) (blast dest: quiet.staysD quiet_calm)

lemmas calm_recordAgreement [calm_rules] = quiet_recordAgreement[THEN calm_quiet]

lemma keeps_refundBookingPayment [p_pres]: "p_keeps work_wf (refundBookingPayment now b who ia ra)"
  by (rule refundBookingPayment_keeps)

lemma calm_update_booking [calm_rules]:
  "(\<And>b. bk_key (f b) = bk_key b) \<Longrightarrow> calm.stays (update_booking now i f)"
  unfolding update_booking_def by (intro calm_rules)

lemma calm_create_direct [calm_rules]: "calm.stays (create_direct now sk pr sv n arr p m)"
  unfolding create_direct_def Let_def by (intro calm_rules)

lemma calm_direct [calm_rules]: "calm.stays (direct_precheck sk pr sv n m j)" "calm.stays (direct_commit now sk pr sv n m j)"
  unfolding direct_precheck_def direct_commit_def Let_def by (intro calm_rules)+

lemma calm_respond [calm_rules]: "calm.stays (respond_precheck i pr)" "calm.stays (respond_accept now pr d b)"
  "calm.stays (respond_decline now pr h d b)"
proof -
  have 1: "calm.stays (assert_request_pending d)" "calm.stays (set_directRequest d st)" for st
    unfolding assert_request_pending_def set_directRequest_def by (intro calm_rules)+
  show "calm.stays (respond_precheck i pr)" unfolding respond_precheck_def by (intro calm_rules)
  show "calm.stays (respond_accept now pr d b)" unfolding respond_accept_def
    by (intro calm_rules 1) (simp add: bk_key_def)
  show "calm.stays (respond_decline now pr h d b)" unfolding respond_decline_def Let_def
    by (intro calm_rules 1) (simp add: bk_key_def)
qed

lemma calm_offer [calm_rules]: "calm.stays (offer_precheck f k)" "calm.stays (select_offer f rq)"
  "calm.stays (offer_commit now k offer j)" "calm.stays (joinWaitlist now v k)"
proof -
  show "calm.stays (offer_precheck f k)" unfolding offer_precheck_def by (intro calm_rules)
  show 1: "calm.stays (select_offer f rq)" for f rq unfolding select_offer_def by (intro calm_rules)
  have 2: "calm.stays (assert_cash_inquiry f rq)" for f rq unfolding assert_cash_inquiry_def by (intro calm_rules)
  show "calm.stays (offer_commit now k offer j)" unfolding offer_commit_def offer_accept_def by (intro calm_rules 1 2)
  show "calm.stays (joinWaitlist now v k)" unfolding joinWaitlist_def Let_def by (intro calm_rules)
qed

lemma p_keeps_calm: "calm.stays m \<Longrightarrow> p_keeps work_wf (transact m)"
  by (rule p_keeps_transact, rule calm_keeps_wf)

lemma bookings_keep_work_wf:
  "p_keeps work_wf (createDirectRequest now sk pr sv q m j)"
  "p_keeps work_wf (respondToDirectBookingService now i pr acc ia ra)"
  "p_keeps work_wf (createDirectFromOfferService now i sk j)"
  "p_keeps work_wf (transact (joinWaitlist now sv sk))"
  unfolding createDirectRequest_def respondToDirectBookingService_def createDirectFromOfferService_def Let_def
  by (intro p_keeps_calm calm_rules p_keeps_ret p_keeps_bind p_keeps_seq p_keeps_if p_keeps_case_prod
      keeps_refundBookingPayment)+


subsection \<open>One winner per request\<close>

lemma select_offer_effect:
  assumes "select_offer fid rq s = Inr (ls, s')" "distinct (map of_id (offers s))"
  shows "selectable fid s" "map_option rq_status (find_request rq s) = Some RQ_OPEN"
    "offers s' = map_rows (offer_pending_of rq fid) offer_closed
       (map_rows (\<lambda>f. of_id f = fid) (\<lambda>f. f\<lparr>of_status := O_ACCEPTED\<rparr>) (offers s))"
    "requests s' = map_rows (\<lambda>r. rq_id r = rq) (\<lambda>r. r\<lparr>rq_status := RQ_IN_PROGRESS\<rparr>) (requests s)"
    "bookings s' = bookings s"
proof -
  from assms(1) obtain s1 s2 u1 u2 where sel: "selectable fid s"
    and r1: "upd_offer fid (\<lambda>f. f\<lparr>of_status := O_ACCEPTED\<rparr>) s = Inr (u1, s1)"
    and r2: "rejectSiblingOffersAndNotify rq fid s1 = Inr (ls, s2)"
    and o: "map_option rq_status (find_request rq s2) = Some RQ_OPEN"
    and r3: "upd_request rq (\<lambda>r. r\<lparr>rq_status := RQ_IN_PROGRESS\<rparr>) s2 = Inr (u2, s')"
    unfolding select_offer_def tx_bind_Inr tx_seq_Inr query_Inr ensure_Inr ret_Inr by blast
  have s1: "s1 = offers_update (map_rows (\<lambda>f. of_id f = fid) (\<lambda>f. f\<lparr>of_status := O_ACCEPTED\<rparr>)) s"
    using r1 by (simp add: upd_offer_def modify_Inr)
  have d: "distinct (map of_id (offers s1))" using assms(2) by (simp add: s1)
  note fr = rejectSiblings_frame(1)[OF r2 d]
  have s2: "offers s2 = map_rows (offer_pending_of rq fid) offer_closed (offers s1)" "requests s2 = requests s1"
    "bookings s2 = bookings s1"
    by (rule offers_of[OF fr], subst fr, simp, subst fr, simp)
  have s': "s' = requests_update (map_rows (\<lambda>r. rq_id r = rq) (\<lambda>r. r\<lparr>rq_status := RQ_IN_PROGRESS\<rparr>)) s2"
    using r3 by (simp add: upd_request_def modify_Inr)
  show "selectable fid s" by (rule sel)
  show "map_option rq_status (find_request rq s) = Some RQ_OPEN" using o by (simp add: find_request_def s2 s1)
  show "offers s' = map_rows (offer_pending_of rq fid) offer_closed
       (map_rows (\<lambda>f. of_id f = fid) (\<lambda>f. f\<lparr>of_status := O_ACCEPTED\<rparr>) (offers s))"
    by (simp add: s' s2 s1)
  show "requests s' = map_rows (\<lambda>r. rq_id r = rq) (\<lambda>r. r\<lparr>rq_status := RQ_IN_PROGRESS\<rparr>) (requests s)"
    by (simp add: s' s2 s1)
  show "bookings s' = bookings s" by (simp add: s' s2 s1)
qed

lemma create_booking_effect:
  assumes "create_booking now b s = Inr (r, s')"
  shows "r = b\<lparr>bk_id := nextId s, bk_updatedAt := now\<rparr>" "bookings s' = bookings s @ [r]" "offers s' = offers s"
    "requests s' = requests s" "queues s' = queues s" "completedServices s' = completedServices s"
    "transactions s' = transactions s" "nextId s' = Suc (nextId s)" "attempts s' = attempts s"
  using assms by (auto simp: create_booking_def fresh_id_def tx_iff Let_def)

lemma assert_cash_inquiry_same: "assert_cash_inquiry f r s = Inr (u, s') \<Longrightarrow> s' = s"
  by (auto simp: assert_cash_inquiry_def tx_iff split: option.splits)

lemma offer_commit_effect:
  assumes "offer_commit now k offer loc s = Inr ((b, rec, ls), s')" "distinct (map of_id (offers s))"
  shows "\<exists>f r t ls2. offer_with_request (of_id offer) s = Some (f, r) \<and> rq_seekerId r = k \<and>
    select_offer (of_id offer) (of_requestId offer) t = Inr (ls, ls2) \<and> offers t = offers s \<and> requests t = requests s \<and>
    bookings t = bookings s \<and> offers s' = offers ls2 \<and> requests s' = requests ls2 \<and> bookings s' = bookings s @ [b] \<and>
    bk_seekerId b = k \<and> bk_providerId b = of_providerId offer \<and> bk_offerId b = Some (of_id offer) \<and>
    bk_agreedAmount b = Some (of_offeredPrice f) \<and> bk_status b = B_ACCEPTED \<and> bk_paymentStatus b = P_UNPAID \<and>
    bk_paymentMethod b = OnsiteCash \<and> marketplaceParticipantsEligible k (of_providerId offer) t"
proof -
  from assms(1) obtain u t where tr: "assertNewProviderBusiness now (of_providerId offer) s = Inr (u, t)"
    and el: "marketplaceParticipantsEligible k (of_providerId offer) t"
    and rest: "(case offer_with_request (of_id offer) t of None \<Rightarrow> fail (Http 409 ''This offer is no longer available'')
     | Some (freshOffer, request) \<Rightarrow> offer_accept now k offer freshOffer request loc) t = Inr ((b, rec, ls), s')"
    by (auto simp only: offer_commit_def tx_bind_Inr tx_seq_Inr query_Inr ensure_Inr prod.case)
  then obtain f r where found: "offer_with_request (of_id offer) t = Some (f, r)"
    and acc: "offer_accept now k offer f r loc t = Inr ((b, rec, ls), s')"
    by (auto simp: fail_Inr split: option.splits)
  from acc obtain lc t2 t3 where own: "rq_seekerId r = k"
    and sel: "select_offer (of_id offer) (of_requestId offer) t = Inr (ls, t2)"
    and bk: "create_booking now (cash_offer_booking k offer f lc) t2 = Inr (b, t3)"
    and ag: "recordAgreement now b False t3 = Inr (rec, s')"
    by (auto simp only: offer_accept_def tx_bind_Inr tx_seq_Inr query_Inr ensure_Inr ret_Inr lift_sum_Inr prod.case
        prod.inject dest!: assert_cash_inquiry_same)
  note q1 = quiet_core[OF quiet.staysD[OF quiet_trial(2) tr]]
  note q2 = quiet_core[OF quiet.staysD[OF quiet_recordAgreement ag]]
  note c = create_booking_effect[OF bk]
  have "find_request i t = find_request i s" "find_offer i t = find_offer i s" for i
    by (simp_all add: find_request_def find_offer_def q1)
  then have "offer_with_request (of_id offer) s = Some (f, r)"
    using found by (auto simp: offer_with_request_def split: option.splits)
  moreover have "bookings t2 = bookings t"
    by (rule select_offer_effect(5)[OF sel]) (simp add: q1 assms(2))
  ultimately show ?thesis
    using sel own el by (intro exI[of _ f] exI[of _ r] exI[of _ t] exI[of _ t2]) (simp add: c q1 q2 cash_offer_booking_def blank_booking_def)
qed


text \<open>C35: Accepting an offer with cash picks one winner: the booking is made for the two parties at the
  offered price, unpaid and accepted, the offer is accepted, no other offer of the request stays
  pending and the request is in progress, and afterwards no offer of the request can be accepted
  again, by anyone.\<close>

theorem cash_acceptance_one_winner:
  assumes "offer_commit now k offer loc s = Inr ((b, rec, ls), s')" "distinct (map of_id (offers s))"
    "find_offer (of_id offer) s = Some offer"
  shows "b \<in> set (bookings s') \<and> bk_seekerId b = k \<and> bk_providerId b = of_providerId offer \<and>
    bk_agreedAmount b = Some (of_offeredPrice offer) \<and> bk_status b = B_ACCEPTED \<and> bk_paymentStatus b = P_UNPAID \<and>
    map_option of_status (find_offer (of_id offer) s') = Some O_ACCEPTED \<and>
    (\<forall>f \<in> set (offers s'). of_requestId f = of_requestId offer \<longrightarrow> of_status f \<noteq> O_PENDING) \<and>
    map_option rq_status (find_request (of_requestId offer) s') = Some RQ_IN_PROGRESS \<and>
    (\<forall>f. find_offer (of_id f) s' = Some f \<longrightarrow> of_requestId f = of_requestId offer \<longrightarrow>
       (\<exists>e. offer_commit later k2 f loc2 s' = Inl e))"
proof -
  let ?rq = "of_requestId offer"
  from offer_commit_effect[OF assms(1,2)] obtain f r t t2 where e:
    "offer_with_request (of_id offer) s = Some (f, r)"
    "select_offer (of_id offer) ?rq t = Inr (ls, t2)" "offers t = offers s" "requests t = requests s"
    "offers s' = offers t2" "requests s' = requests t2" "bookings s' = bookings s @ [b]"
    "bk_seekerId b = k \<and> bk_providerId b = of_providerId offer \<and> bk_agreedAmount b = Some (of_offeredPrice f) \<and>
     bk_status b = B_ACCEPTED \<and> bk_paymentStatus b = P_UNPAID" by blast
  have f: "f = offer" "find_request ?rq s = Some r"
    using e(1) assms(3) by (auto simp: offer_with_request_def)
  have d: "distinct (map of_id (offers t))" using assms(2) e(3) by simp
  note sel = select_offer_effect[OF e(2) d]
  have os: "offers s' = map_rows (offer_pending_of ?rq (of_id offer)) offer_closed
       (map_rows (\<lambda>f. of_id f = of_id offer) (\<lambda>f. f\<lparr>of_status := O_ACCEPTED\<rparr>) (offers s))"
    using sel(3) e(3,5) by simp
  have rs: "requests s' = map_rows (\<lambda>r. rq_id r = ?rq) (\<lambda>r. r\<lparr>rq_status := RQ_IN_PROGRESS\<rparr>) (requests s)"
    using sel(4) e(4,6) by simp
  have off: "find_offer (of_id offer) s' = Some (offer\<lparr>of_status := O_ACCEPTED\<rparr>)"
  proof -
    have "find_row of_id (of_id offer) (offers s') = map_option (\<lambda>r. if offer_pending_of ?rq (of_id offer) r then offer_closed r else r)
       (map_option (\<lambda>f. f\<lparr>of_status := O_ACCEPTED\<rparr>) (find_row of_id (of_id offer) (offers s)))"
      unfolding os by (subst find_row_map_rows) simp_all
    with assms(3) show ?thesis by (simp add: find_offer_def offer_pending_of_def)
  qed
  have np: "of_status f \<noteq> O_PENDING" if "f \<in> set (offers s')" "of_requestId f = ?rq" for f
    using that by (auto simp: os set_map_rows offer_pending_of_def split: if_splits)
  have rq: "find_request ?rq s' = Some (r\<lparr>rq_status := RQ_IN_PROGRESS\<rparr>)"
    using f(2) by (simp add: find_request_def rs)
  have "\<exists>e. offer_commit later k2 g loc2 s' = Inl e"
    if g: "find_offer (of_id g) s' = Some g" "of_requestId g = ?rq" for g
  proof (rule ccontr)
    assume "\<not> (\<exists>e. offer_commit later k2 g loc2 s' = Inl e)"
    then obtain b2 rec2 ls2 s2 where run: "offer_commit later k2 g loc2 s' = Inr ((b2, rec2, ls2), s2)"
      by (metis sum.exhaust prod.exhaust)
    have "distinct (map of_id (offers s'))" using assms(2) by (simp add: os)
    from offer_commit_effect[OF run this] obtain t where
      "\<exists>ls t2. select_offer (of_id g) (of_requestId g) t = Inr (ls, t2)" "offers t = offers s'" "requests t = requests s'" by blast
    then obtain ls t2 where "select_offer (of_id g) (of_requestId g) t = Inr (ls, t2)"
      and t: "offers t = offers s'" "requests t = requests s'" by blast
    from select_offer_effect(2)[OF this(1)] \<open>distinct (map of_id (offers s'))\<close> t g(2) rq
    show False by (simp add: find_request_def)
  qed
  with e(7,8) off np rq f(1) show ?thesis by auto
qed


definition sample_request :: "key \<Rightarrow> request_row" where
  "sample_request i = \<lparr>rq_id = i, rq_seekerId = 1, rq_targetProviderId = None, rq_targetServiceId = None,
     rq_preferredPaymentMethod = None, rq_paymentMethods = Some \<lparr>pm_cash = True, pm_gcash = True\<rparr>,
     rq_categoryId = 1, rq_latitude = None, rq_longitude = None, rq_locationLabel = None,
     rq_privateAddress = None, rq_serviceLocationMode = REMOTE, rq_status = RQ_OPEN,
     rq_archivedAt = None, rq_text = \<lparr>rt_title = ''Math tutor'', rt_description = ''Lessons'', rt_budgetMin = 100,
     rt_budgetMax = 300, rt_urgency = ''Flexible Schedule'', rt_transportationFee = None, rt_policyVersion = None,
     rt_reasonCode = None, rt_reviewedById = None\<rparr>\<rparr>"

definition sample_offers_db :: db where
  "sample_offers_db = empty_db\<lparr>users := [ready_user 1, ready_user 2, ready_user 4],
     requests := [sample_request 3], offers := [sample_offer 11 2 O_PENDING, sample_offer 12 4 O_PENDING],
     services := [sample_service], nextId := 50\<rparr>"

theorem cash_acceptance_one_winner_witness:
  "\<exists>b rec ls s'. offer_commit 9 1 (sample_offer 11 2 O_PENDING) None sample_offers_db = Inr ((b, rec, ls), s') \<and>
     bk_agreedAmount b = Some 200 \<and> map_option of_status (find_offer 11 s') = Some O_ACCEPTED"
proof -
  have "\<not> isl (offer_commit 9 1 (sample_offer 11 2 O_PENDING) None sample_offers_db)"
    by code_simp
  then obtain b rec ls s' where run: "offer_commit 9 1 (sample_offer 11 2 O_PENDING) None sample_offers_db = Inr ((b, rec, ls), s')"
    by (auto dest: runs)
  have d: "distinct (map of_id (offers sample_offers_db))" by code_simp
  have f: "find_offer (of_id (sample_offer 11 2 O_PENDING)) sample_offers_db = Some (sample_offer 11 2 O_PENDING)"
    by (simp add: sample_offers_db_def find_offer_def find_row_def sample_offer_def)
  from cash_acceptance_one_winner[OF run d f] run show ?thesis
    by (auto simp: sample_offer_def)
qed

subsection \<open>One open direct booking per service\<close>

lemma create_direct_effect:
  assumes "create_direct now k p v n arr amt mins s = Inr ((d, b), s')"
  shows "bookings s' = bookings s @ [b]" "directRequests s' = directRequests s @ [d]"
    "bk_directRequestId b = Some (dr_id d)" "dr_status d = DR_PENDING_APPROVAL" "dr_agreedPrice d = amt"
    "bk_seekerId b = k" "bk_providerId b = p" "bk_serviceId b = Some v" "bk_agreedAmount b = Some amt"
    "bk_estimatedDurationMins b = Some mins" "bk_status b = B_PENDING_APPROVAL" "bk_paymentStatus b = P_UNPAID"
    "bk_transportationFee b = ar_transportationFee arr" "bk_jobLocation b = ar_jobLocation arr"
  using assms
  by (auto simp: create_direct_def create_booking_def blank_booking_def fresh_id_def tx_iff Let_def)

lemma direct_commit_effect:
  assumes "direct_commit now k p v n mode loc s = Inr ((b, rec), s')"
  shows "\<exists>row arr amt mins t d u. find_service v s = Some row \<and> service_bookable (Some row) p \<and>
    pm_cash (sv_paymentMethods row) \<and> resolveDirectArrangement row mode loc = Inr arr \<and>
    calculateDirectListingTerms (sv_priceType row) (sv_price row) n (sv_estimatedDurationMins row)
      (ar_transportationFee arr) = Inr (amt, mins) \<and>
    bookings t = bookings s \<and> directRequests t = directRequests s \<and>
    create_direct now k p v n arr amt mins t = Inr ((d, b), u) \<and> bookings s' = bookings u \<and>
    directRequests s' = directRequests u \<and>
    \<not> open_booking_of k v (open_statuses - {B_UNDER_REVIEW}) s"
proof -
  from assms obtain u0 t arr amt mins d u where
    tr: "assertNewProviderBusiness now p s = Inr (u0, t)"
    and no: "\<not> open_booking_of k v (open_statuses - {B_UNDER_REVIEW}) t"
    and sv: "service_bookable (find_service v t) p" "pm_cash (sv_paymentMethods (the (find_service v t)))"
    and arr: "resolveDirectArrangement (the (find_service v t)) mode loc = Inr arr"
    and terms: "calculateDirectListingTerms (sv_priceType (the (find_service v t))) (sv_price (the (find_service v t))) n
        (sv_estimatedDurationMins (the (find_service v t))) (ar_transportationFee arr) = Inr (amt, mins)"
    and cr: "create_direct now k p v n arr amt mins t = Inr ((d, b), u)"
    and nt: "recordLifecycleNotice (parties b) [plain_notice p ''New Direct Booking Request''] None u = Inr (rec, s')"
    by (simp only: direct_commit_def tx_open) blast
  note q1 = quiet_core[OF quiet.staysD[OF quiet_trial(2) tr]]
  note q2 = quiet_core[OF quiet.staysD[OF quiet_notices(3) nt]]
  have fs: "find_service v t = find_service v s" by (simp add: find_service_def q1)
  with sv obtain row where row: "find_service v s = Some row" by (auto simp: service_bookable_def split: option.splits)
  have "\<not> open_booking_of k v (open_statuses - {B_UNDER_REVIEW}) s" using no by (simp add: open_booking_of_def q1)
  with row sv arr terms cr fs show ?thesis
    by (intro exI[of _ row] exI[of _ arr] exI[of _ amt] exI[of _ mins] exI[of _ t] exI[of _ d] exI[of _ u])
      (simp add: q1 q2)
qed

text \<open>A direct cash request books the listing on its current terms: the provider's own active
  listing, the price and duration that the listing's terms give for the arrangement, unpaid and
  waiting for the provider, with a direct request at the same price; and as long as it is open the
  same seeker gets no second booking of that service, whatever the quantity or arrangement.\<close>

lemma direct_request_once:
  assumes "direct_commit now k p v n mode loc s = Inr ((b, rec), s')"
  shows "(\<exists>row arr amt mins. find_service v s = Some row \<and> sv_providerId row = p \<and> sv_status row = S_ACTIVE \<and>
      sv_isAvailable row \<and> pm_cash (sv_paymentMethods row) \<and> resolveDirectArrangement row mode loc = Inr arr \<and>
      calculateDirectListingTerms (sv_priceType row) (sv_price row) n (sv_estimatedDurationMins row)
        (ar_transportationFee arr) = Inr (amt, mins) \<and>
      bk_agreedAmount b = Some amt \<and> bk_estimatedDurationMins b = Some mins \<and>
      (\<exists>d \<in> set (directRequests s'). bk_directRequestId b = Some (dr_id d) \<and> dr_agreedPrice d = amt)) \<and>
    bookings s' = bookings s @ [b] \<and> bk_seekerId b = k \<and> bk_providerId b = p \<and>
    bk_status b = B_PENDING_APPROVAL \<and> bk_paymentStatus b = P_UNPAID \<and>
    (\<forall>later p2 n2 mode2 loc2. \<exists>e. direct_commit later k p2 v n2 mode2 loc2 s' = Inl e)"
proof -
  from direct_commit_effect[OF assms] obtain row arr amt mins t d u where e:
    "find_service v s = Some row" "service_bookable (Some row) p" "pm_cash (sv_paymentMethods row)"
    "resolveDirectArrangement row mode loc = Inr arr"
    "calculateDirectListingTerms (sv_priceType row) (sv_price row) n (sv_estimatedDurationMins row)
      (ar_transportationFee arr) = Inr (amt, mins)"
    "bookings t = bookings s" "create_direct now k p v n arr amt mins t = Inr ((d, b), u)" "bookings s' = bookings u"
    "directRequests s' = directRequests u" by blast
  note c = create_direct_effect[OF e(7)]
  have open': "open_booking_of k v (open_statuses - {B_UNDER_REVIEW}) s'"
    by (auto simp: open_booking_of_def e(8) c open_statuses_def)
  have "\<exists>e. direct_commit later k p2 v n2 mode2 loc2 s' = Inl e" for later p2 n2 mode2 loc2
  proof (rule ccontr)
    assume "\<nexists>e. direct_commit later k p2 v n2 mode2 loc2 s' = Inl e"
    then obtain b2 r2 s2 where "direct_commit later k p2 v n2 mode2 loc2 s' = Inr ((b2, r2), s2)"
      by (metis sum.exhaust prod.exhaust)
    from direct_commit_effect[OF this] open' show False by blast
  qed
  moreover have "sv_providerId row = p \<and> sv_status row = S_ACTIVE \<and> sv_isAvailable row"
    using e(2) by (simp add: service_bookable_def)
  ultimately show ?thesis using e c by auto
qed


end
