(* ===== verification/SH_Jobs.thy ===== *)
theory SH_Jobs
  imports SH_Bookings
begin

text \<open>
  Doing and finishing a job (src/src/services/bookings/provider-operations.service.ts and
  completion.service.ts): the provider starts it, marks it complete, and the seeker confirms it (or an
  administrator does), which settles the money; or the seeker disputes the completion.
\<close>

subsection \<open>Starting a job\<close>

text \<open>What counts as the provider's current job: an ongoing booking, a started cash job on hold for a
  case, or a booking whose entry is being served.\<close>

definition occupies :: "booking_row \<Rightarrow> db \<Rightarrow> bool" where
  "occupies b s \<longleftrightarrow> bk_status b = B_ONGOING \<or>
     (bk_started b \<and> bk_paymentMethod b = OnsiteCash \<and> bk_status b \<in> {B_DISPUTED, B_UNDER_REVIEW}) \<or>
     map_option q_status (queue_of (bk_id b) s) = Some Q_SERVING"

definition other_ongoing :: "key \<Rightarrow> key \<Rightarrow> db \<Rightarrow> bool" where
  "other_ongoing providerId bookingId s \<longleftrightarrow>
     exists_row (\<lambda>b. bk_providerId b = providerId \<and> bk_id b \<noteq> bookingId \<and> occupies b s) (bookings s)"

definition start_readiness :: "booking_row \<Rightarrow> queue_row option \<Rightarrow> error + unit" where
  "start_readiness booking entry = (case entry of
     None \<Rightarrow>
       if bk_paymentMethod booking \<noteq> OnsiteCash then Inl (Http 409 ''START_PAID_QUEUE_MISSING'')
       else if bk_status booking \<noteq> B_ACCEPTED \<or> bk_started booking
         then Inl (Http 400 ''Only an accepted booking can be started.'')
       else if bk_paymentStatus booking \<noteq> P_UNPAID then Inl (Http 409 ''START_PAYMENT_STATE_INVALID'')
       else Inr ()
   | Some q \<Rightarrow>
       if bk_paymentMethod booking = OnsiteCash then Inl (Http 409 ''START_PAYMENT_STATE_INVALID'')
       else if paidStartBlockReason (bk_status booking) (bk_started booking) (bk_paymentStatus booking)
           (q_status q) (q_paymentStatus q) \<noteq> None
         then Inl (Http 409 ''PAID_JOB_NOT_READY'')
       else Inr ())"

text \<open>The paid job must be the first of the waiting line (by position), and nothing may be in service.\<close>

definition first_waiting :: "key \<Rightarrow> db \<Rightarrow> key option" where
  "first_waiting p s = (case sort_key q_position (filter (is_waiting p) (queues s)) of [] \<Rightarrow> None | q # _ \<Rightarrow> Some (q_id q))"

definition take_place :: "key \<Rightarrow> queue_row option \<Rightarrow> unit dbtx" where
  "take_place providerId entry = (case entry of
     None \<Rightarrow> tx_bind (query (waiting_count providerId)) (\<lambda>n. ensure (n = 0) (Http 409 ''PAID_WORK_WAITING''))
   | Some q \<Rightarrow> tx_bind (query (\<lambda>s. (first_waiting providerId s, serving_count providerId s))) (\<lambda>(first, serving).
       tx_seq (ensure (first = Some (q_id q) \<and> serving = 0)
         (Http 409 ''Start the first waiting booking after the current job is completed.''))
       (upd_queue (q_id q) (\<lambda>r. r\<lparr>q_status := Q_SERVING, q_position := 1, q_estimatedWait := 0\<rparr>))))"

definition begin_job :: "time \<Rightarrow> booking_row \<Rightarrow> bool \<Rightarrow> booking_row dbtx" where
  "begin_job now booking queued =
     tx_bind (query (find_booking (bk_id booking))) (\<lambda>found.
     tx_seq (ensure (case found of None \<Rightarrow> False | Some b \<Rightarrow> \<not> bk_started b \<and>
         bk_status b \<in> (if queued then {B_ACCEPTED, B_WAITING} else {B_ACCEPTED})) (Uncoded ''P2025''))
     (update_booking now (bk_id booking) (\<lambda>b. b\<lparr>bk_status := B_ONGOING, bk_started := True,
        bk_queuePosition := (if queued then Some 1 else bk_queuePosition b)\<rparr>)))"

definition start_job :: "time \<Rightarrow> key \<Rightarrow> key \<Rightarrow> (booking_row \<times> bool \<times> recorded) dbtx" where
  "start_job now i providerId =
     tx_bind (query (booking_or_queue_booking i)) (\<lambda>found.
     tx_bind (expect (Http 404 ''Booking or queue entry not found or access denied'') found) (\<lambda>booking.
     tx_seq (ensure (bk_providerId booking = providerId) (Http 404 ''Booking or queue entry not found or access denied''))
    (tx_bind (query (queue_of (bk_id booking))) (\<lambda>entry.
     tx_seq (assertNoRefundInProgress (bk_id booking))
    (tx_bind (query (\<lambda>s. (provider_ready providerId s, other_ongoing providerId (bk_id booking) s))) (\<lambda>(ready, busy).
     tx_seq (ensure ready (Http 403 ''START_JOB_NOT_ALLOWED''))
    (tx_seq (lift_sum (start_readiness booking entry))
    (tx_seq (ensure (\<not> busy) (Http 409 ''PROVIDER_ALREADY_ONGOING''))
    (tx_seq (take_place providerId entry)
    (tx_bind (begin_job now booking (entry \<noteq> None)) (\<lambda>updated.
     tx_seq (recordBookingProgress now (bk_id booking) PK_STARTED ByProvider (EK_Kind PK_STARTED))
    (tx_seq (when_tx (entry \<noteq> None) (recalculateQueueInTransaction now providerId))
    (tx_bind (recordLifecycleNotice (parties updated) [plain_notice (bk_seekerId booking) ''Provider Started Job'']
        (Some (bk_providerId booking, ''Provider started the job.''))) (\<lambda>recd.
     ret (updated, entry \<noteq> None, recd)))))))))))))))"

definition providerStartJob :: "time \<Rightarrow> key \<Rightarrow> key \<Rightarrow> (db, booking_row) process" where
  "providerStartJob now i providerId =
     p_bind (transact (start_job now i providerId)) (\<lambda>(booking, queued, recd).
     p_seq (transact (publishLifecycleChange (parties booking) ''started'' recd queued)) (p_ret booking))"

subsection \<open>Marking it complete\<close>

definition complete_work :: "time \<Rightarrow> booking_row \<Rightarrow> (booking_row \<times> recorded option \<times> (key \<times> string) option) dbtx" where
  "complete_work now fresh =
     tx_seq (ensure (bk_status fresh = B_ONGOING) (Http 409 ''Only an ongoing job can be marked complete''))
    (tx_bind (update_booking now (bk_id fresh) (\<lambda>b. b\<lparr>bk_status := B_AWAITING_CONFIRMATION\<rparr>)) (\<lambda>updated.
     tx_seq (recordBookingProgress now (bk_id fresh) PK_WORK_MARKED_COMPLETE ByProvider
        (EK_WorkComplete (bk_updatedAt updated)))
    (tx_bind (query (queue_of (bk_id fresh))) (\<lambda>entry.
     tx_bind (case entry of
         Some q \<Rightarrow> tx_seq (upd_queue (q_id q) (\<lambda>r. r\<lparr>q_status := Q_DONE\<rparr>))
           (tx_seq (recalculateQueueInTransaction now (bk_providerId fresh))
           (notifyWaitlistInTransaction now (bk_providerId fresh)))
       | None \<Rightarrow> tx_seq (recalculateQueueInTransaction now (bk_providerId fresh)) (ret None)) (\<lambda>w.
     tx_bind (recordLifecycleNotice (parties updated) [plain_notice (bk_seekerId updated) ''Service marked complete''] None)
       (\<lambda>recd. ret (updated, Some recd, w)))))))"

definition mark_complete ::
  "time \<Rightarrow> key \<Rightarrow> key \<Rightarrow> (booking_row \<times> recorded option \<times> (key \<times> string) option) dbtx" where
  "mark_complete now i providerId =
     tx_bind (query (booking_or_queue_booking i)) (\<lambda>found.
     tx_bind (expect (Http 404 ''Booking or queue entry not found'') found) (\<lambda>fresh.
     tx_seq (ensure (bk_providerId fresh = providerId) (Http 403 ''Access denied''))
    (tx_seq (assertNoRefundInProgress (bk_id fresh))
    (if bk_status fresh = B_AWAITING_CONFIRMATION then ret (fresh, None, None) else complete_work now fresh))))"

definition markJobComplete :: "time \<Rightarrow> key \<Rightarrow> key \<Rightarrow> (db, booking_row) process" where
  "markJobComplete now i providerId =
     p_bind (transact (mark_complete now i providerId)) (\<lambda>(booking, recd, w).
     p_seq (transact (emitWaitlistNotification w))
    (p_seq (case recd of None \<Rightarrow> p_ret ()
        | Some r \<Rightarrow> transact (publishLifecycleChange (parties booking) ''awaiting_confirmation'' r True))
    (p_ret booking)))"


subsection \<open>Settling a completed booking\<close>

datatype settler = BySeekerId key | ByAdminId key

definition settler_id :: "settler \<Rightarrow> key" where
  "settler_id a = (case a of BySeekerId k \<Rightarrow> k | ByAdminId k \<Rightarrow> k)"
definition is_admin :: "settler \<Rightarrow> bool" where
  "is_admin a \<longleftrightarrow> (case a of BySeekerId _ \<Rightarrow> False | ByAdminId _ \<Rightarrow> True)"

definition settlement_fault :: "settler \<Rightarrow> booking_row \<Rightarrow> error option" where
  "settlement_fault actor b =
     (if bk_status b \<notin> (if is_admin actor then {B_AWAITING_CONFIRMATION, B_DISPUTED, B_UNDER_REVIEW}
          else {B_AWAITING_CONFIRMATION})
      then Some (Http 409 ''This booking is not ready for completion settlement'')
      else if is_admin actor \<and> bk_status b \<in> {B_DISPUTED, B_UNDER_REVIEW} \<and>
          bk_statusBeforeDispute b \<noteq> Some B_AWAITING_CONFIRMATION
      then Some (Http 422 ''INVALID_DISPUTE_COMPLETION_STATE'')
      else if bk_paymentStatus b \<noteq> (if bk_paymentMethod b = OnsiteCash then P_UNPAID
          else if is_admin actor \<and> bk_status b = B_DISPUTED then P_FROZEN_HELD else P_PAID_HELD)
      then Some (Http 409 ''INVALID_COMPLETION_PAYMENT_STATE'')
      else if (case bk_agreedAmount b of None \<Rightarrow> True | Some a \<Rightarrow> a \<le> 0)
      then Some (Http 409 ''AGREED_AMOUNT_MISSING'')
      else None)"

text \<open>The commission terms recorded with the payment; cash and old payments carry none.\<close>

definition settlement_terms :: "booking_row \<Rightarrow> decimal \<Rightarrow> attempt_row option \<Rightarrow> int \<times> decimal \<times> decimal" where
  "settlement_terms b agreed terms = (case terms of None \<Rightarrow> (0, 0, agreed)
     | Some a \<Rightarrow> (at_commissionRateBps a, at_platformFeeAmount a,
         case at_providerNetAmount a of None \<Rightarrow> agreed | Some n \<Rightarrow> n))"

definition complete_row :: "booking_row \<Rightarrow> queue_row option \<Rightarrow> decimal \<Rightarrow> attempt_row option \<Rightarrow> completed_row" where
  "complete_row b q agreed terms = (case settlement_terms b agreed terms of (bps, fee, net) \<Rightarrow>
     \<lparr>cs_id = 0, cs_bookingId = Some (bk_id b), cs_queueId = map_option q_id q,
       cs_directRequestId = bk_directRequestId b, cs_offerId = bk_offerId b, cs_seekerId = bk_seekerId b,
       cs_providerId = bk_providerId b, cs_finalPrice = agreed, cs_commissionRateBps = bps,
       cs_platformFeeAmount = fee, cs_providerNetAmount = Some net,
       cs_paymentStatus = (if bk_paymentMethod b = OnsiteCash then P_CASH_CONFIRMED else P_RELEASED)\<rparr>)"

text \<open>A booking has at most one completion row (unique column).\<close>

definition create_completed :: "completed_row \<Rightarrow> completed_row dbtx" where
  "create_completed c = tx_bind (query (\<lambda>s. exists_row (\<lambda>r. cs_bookingId r = cs_bookingId c) (completedServices s)))
     (\<lambda>known. tx_seq (ensure (\<not> known) (Uncoded ''P2002''))
       (tx_bind fresh_id (\<lambda>i. let r = c\<lparr>cs_id := i\<rparr>
         in tx_seq (modify (completedServices_update (\<lambda>cs. cs @ [r]))) (ret r))))"

text \<open>The earning is recorded against the completion row, once per booking.\<close>

definition earning :: "key \<Rightarrow> key \<Rightarrow> key \<Rightarrow> decimal \<Rightarrow> unit dbtx" where
  "earning bookingId completedId providerId net =
     tx_bind fresh_id (\<lambda>i. insert_transaction \<lparr>tr_id = i, tr_walletOwnerId = providerId,
       tr_type = EARNING, tr_amount = net, tr_relatedBookingId = Some completedId, tr_paymongoRefId = None,
       tr_idempotencyKey = Some (LK_Completion bookingId)\<rparr>)"

definition retire_queue :: "time \<Rightarrow> booking_row \<Rightarrow> queue_row option \<Rightarrow> payment_status \<Rightarrow> unit dbtx" where
  "retire_queue now b q settled = (case q of None \<Rightarrow> ret ()
     | Some q \<Rightarrow> tx_seq (upd_queue (q_id q) (\<lambda>r. r\<lparr>q_status := Q_DONE, q_paymentStatus := settled\<rparr>))
         (recalculateQueueInTransaction now (bk_providerId b)))"

definition close_escalations :: "time \<Rightarrow> key \<Rightarrow> unit dbtx" where
  "close_escalations now bookingId = upd_escalations (\<lambda>e. es_bookingId e = bookingId \<and> escalation_active e)
     (\<lambda>e. e\<lparr>es_status := E_RESOLVED, es_resolution := Some SEEKER_CONFIRMED, es_resolvedAt := Some now\<rparr>)"

definition settle_booking ::
  "time \<Rightarrow> settler \<Rightarrow> booking_row \<Rightarrow> queue_row option \<Rightarrow> decimal \<Rightarrow>
   (completed_row \<times> booking_row \<times> recorded) dbtx" where
  "settle_booking now actor b q agreed =
     (let isCash = (bk_paymentMethod b = OnsiteCash);
          settled = (if isCash then P_CASH_CONFIRMED else P_RELEASED) in
      tx_bind (query (\<lambda>s. if isCash then None else Option.bind (bk_paymentAttemptId b) (\<lambda>i. find_attempt i s))) (\<lambda>terms.
      tx_bind (create_completed (complete_row b q agreed terms)) (\<lambda>completed.
      tx_bind (update_booking now (bk_id b) (\<lambda>r. r\<lparr>bk_status := B_COMPLETED, bk_paymentStatus := settled,
         bk_statusBeforeDispute := None\<rparr>)) (\<lambda>updated.
      tx_seq (recordBookingProgress now (bk_id b) PK_COMPLETION_CONFIRMED
         (if is_admin actor then ByAdmin else BySeeker) (EK_Kind PK_COMPLETION_CONFIRMED))
     (tx_seq (retire_queue now b q settled)
     (tx_bind (query (request_of_offer (bk_offerId b))) (\<lambda>rq.
      tx_seq (set_request rq RQ_CLOSED)
     (tx_seq (when_tx (\<not> is_admin actor) (close_escalations now (bk_id b)))
     (tx_seq (when_tx (\<not> isCash) (earning (bk_id b) (cs_id completed) (bk_providerId b)
         (snd (snd (settlement_terms b agreed terms)))))
     (tx_seq (awardBookingCompletionTrust now (bk_id b))
     (tx_bind (recordLifecycleNotice (parties updated) [plain_notice (bk_providerId b) ''Completion confirmed'',
          plain_notice (bk_seekerId b) ''Completion confirmed'']
        (Some (settler_id actor, if isCash then ''Cash service completion confirmed.''
           else ''Online payment released after completion confirmation.''))) (\<lambda>recd.
      ret (completed, updated, recd)))))))))))))"

definition settle ::
  "time \<Rightarrow> key \<Rightarrow> settler \<Rightarrow> (completed_row \<times> booking_row \<times> recorded option) dbtx" where
  "settle now bookingId actor =
     tx_bind (query (\<lambda>s. (find_booking bookingId s, queue_of bookingId s, completed_of bookingId s))) (\<lambda>(found, q, done).
     tx_bind (expect (Http 404 ''Booking not found'') found) (\<lambda>b.
     tx_seq (assertNoRefundInProgress bookingId)
    (tx_seq (ensure (is_admin actor \<or> bk_seekerId b = settler_id actor) (Http 403 ''Access denied''))
    (if bk_status b = B_COMPLETED \<and> done \<noteq> None then ret (the done, b, None)
     else case settlement_fault actor b of Some e \<Rightarrow> fail e
       | None \<Rightarrow> tx_bind (settle_booking now actor b q (the (bk_agreedAmount b)))
           (\<lambda>(completed, updated, recd). ret (completed, updated, Some recd))))))"

definition settleCompletedBooking :: "time \<Rightarrow> key \<Rightarrow> settler \<Rightarrow> (db, completed_row \<times> booking_row) process" where
  "settleCompletedBooking now bookingId actor =
     p_bind (transact (settle now bookingId actor)) (\<lambda>(completed, booking, recd).
     p_seq (case recd of None \<Rightarrow> p_ret ()
        | Some r \<Rightarrow> transact (publishLifecycleChange (parties booking) ''completed'' r False))
    (p_ret (completed, booking)))"

definition confirmCompletionService :: "time \<Rightarrow> key \<Rightarrow> key \<Rightarrow> (db, completed_row \<times> booking_row) process" where
  "confirmCompletionService now bookingId seekerId = settleCompletedBooking now bookingId (BySeekerId seekerId)"

subsection \<open>Disputing a completion\<close>

text \<open>\<open>reason\<close> is the parsed reason, \<open>None\<close> for a text that names none of the six.\<close>

definition dispute_job ::
  "time \<Rightarrow> key \<Rightarrow> key \<Rightarrow> report_reason option \<Rightarrow> (report_row \<times> booking_row \<times> recorded \<times> key list) dbtx" where
  "dispute_job now bookingId seekerId reason =
     tx_bind (query (\<lambda>s. (find_booking bookingId s, queue_of bookingId s))) (\<lambda>(found, q).
     tx_bind (expect (Http 404 ''Booking not found or access denied'') found) (\<lambda>b.
     tx_seq (ensure (bk_seekerId b = seekerId) (Http 404 ''Booking not found or access denied''))
    (tx_seq (assertNoRefundInProgress bookingId)
    (tx_seq (assertNoFinancialResolutionReserved bookingId None)
    (tx_bind (query (\<lambda>s. exists_row (\<lambda>r. rp_bookingId r = bookingId \<and> rp_reporterId r = seekerId \<and>
        rp_reportType r = RT_COMPLETION_DISPUTE \<and> report_active r) (reports s))) (\<lambda>duplicate.
     tx_seq (ensure (\<not> duplicate) (Http 409 ''DUPLICATE_DISPUTE''))
    (tx_seq (ensure (bk_status b = B_AWAITING_CONFIRMATION)
        (Http 409 ''A dispute can only be filed while completion confirmation is pending''))
    (tx_seq (lift_sum (assertDistinctAccounts seekerId (bk_providerId b)))
    (let paymentStatus = (if bk_paymentMethod b = OnsiteCash then P_UNPAID else P_FROZEN_HELD) in
     tx_bind (update_booking now (bk_id b) (\<lambda>r. r\<lparr>bk_status := B_DISPUTED,
        bk_statusBeforeDispute := Some (bk_status b), bk_paymentStatus := paymentStatus\<rparr>)) (\<lambda>updated.
     tx_seq (case q of None \<Rightarrow> ret () | Some q \<Rightarrow> upd_queue (q_id q) (\<lambda>r. r\<lparr>q_paymentStatus := paymentStatus\<rparr>))
    (tx_seq (upd_escalations (\<lambda>e. es_bookingId e = bk_id b \<and> escalation_active e)
        (\<lambda>e. e\<lparr>es_status := E_DISMISSED, es_resolution := Some SUPERSEDED_BY_SEEKER_DISPUTE, es_resolvedAt := Some now\<rparr>))
    (tx_bind fresh_id (\<lambda>i.
     let report = \<lparr>rp_id = i, rp_bookingId = bk_id b, rp_reporterId = seekerId, rp_reportedUserId = bk_providerId b,
        rp_reason = (case reason of None \<Rightarrow> POOR_SERVICE_QUALITY | Some r \<Rightarrow> r), rp_reportType = RT_COMPLETION_DISPUTE, rp_dedupeKey = None,
        rp_status = RP_PENDING, rp_adminId = None, rp_resolvedAt = None\<rparr> in
     tx_seq (modify (reports_update (\<lambda>rs. rs @ [report])))
    (tx_bind (recordLifecycleNotice (parties b) [plain_notice (bk_providerId b) ''Completion disputed''] None) (\<lambda>recd.
     tx_bind (recordAdminNotifications ''Completion dispute requires review'') (\<lambda>adminIds.
     ret (report, updated, recd, adminIds)))))))))))))))))"

definition disputeJobService ::
  "time \<Rightarrow> key \<Rightarrow> key \<Rightarrow> report_reason option \<Rightarrow> (db, report_row \<times> booking_row) process" where
  "disputeJobService now bookingId seekerId reason =
     p_bind (transact (dispute_job now bookingId seekerId reason)) (\<lambda>(report, booking, recd, adminIds).
     p_seq (transact (publishLifecycleChange (parties booking) ''disputed'' recd False))
    (p_seq (transact (publishNotifications adminIds ''Completion dispute requires review''))
    (p_ret (report, booking))))"


subsection \<open>What a start does\<close>

lemma booking_or_queue_find: "booking_or_queue_booking i s = Some b \<Longrightarrow> find_booking (bk_id b) s = Some b"
  by (auto simp: booking_or_queue_booking_def dest: find_booking_mem split: option.splits)

lemma assertNoRefund_same: "assertNoRefundInProgress b s = Inr (u, s') \<Longrightarrow> s' = s"
  by (auto simp: assertNoRefundInProgress_def tx_iff)

lemma start_job_parts:
  assumes "start_job now i p s = Inr ((b, queued, rec), s')"
  obtains booking entry t1 t2 t3 where "find_booking (bk_id booking) s = Some booking"
    "booking_or_queue_booking i s = Some booking" "bk_providerId booking = p"
    "queue_of (bk_id booking) s = entry" "provider_ready p s" "\<not> other_ongoing p (bk_id booking) s"
    "start_readiness booking entry = Inr ()" "take_place p entry s = Inr ((), t1)"
    "begin_job now booking (entry \<noteq> None) t1 = Inr (b, t2)" "quiet_rel t2 t3"
    "\<exists>t4. (if entry \<noteq> None then recalculateQueueInTransaction now p t3 = Inr ((), t4) else t4 = t3) \<and> quiet_rel t4 s'"
    "queued = (entry \<noteq> None)"
proof -
  from assms obtain booking s0 t1 t2 t3 t4 u0 u1 u2 u3 u4 where
    b: "booking_or_queue_booking i s = Some booking" and p: "bk_providerId booking = p"
    and nr: "assertNoRefundInProgress (bk_id booking) s = Inr (u0, s0)"
    and g: "provider_ready p s0" "start_readiness booking (queue_of (bk_id booking) s) = Inr u1"
      "\<not> other_ongoing p (bk_id booking) s0" and t: "take_place p (queue_of (bk_id booking) s) s0 = Inr (u2, t1)"
    and bj: "begin_job now booking (queue_of (bk_id booking) s \<noteq> None) t1 = Inr (b, t2)"
    and rp: "recordBookingProgress now (bk_id booking) PK_STARTED ByProvider (EK_Kind PK_STARTED) t2 = Inr (u3, t3)"
    and rq: "when_tx (queue_of (bk_id booking) s \<noteq> None) (recalculateQueueInTransaction now p) t3 = Inr (u4, t4)"
    and nt: "recordLifecycleNotice (parties b) [plain_notice (bk_seekerId booking) ''Provider Started Job'']
        (Some (p, ''Provider started the job.'')) t4 = Inr (rec, s')"
    and q: "queued = (queue_of (bk_id booking) s \<noteq> None)"
    by (simp only: start_job_def tx_open) blast
  have "\<exists>t4. (if queue_of (bk_id booking) s \<noteq> None then recalculateQueueInTransaction now p t3 = Inr ((), t4)
      else t4 = t3) \<and> quiet_rel t4 s'"
    using rq quiet.staysD[OF quiet_notices(3) nt] by (auto simp: when_tx_Inr)
  moreover have "s0 = s" by (rule assertNoRefund_same[OF nr])
  ultimately show ?thesis
    using that[OF booking_or_queue_find[OF b] b p refl _ _ _ _ bj quiet.staysD[OF quiet_writes(11) rp] _ q] g t by auto
qed

lemma serving_after_take:
  assumes "queue_ids_distinct s" "serving_count p s = 0"
  shows "count_rows (is_serving p) (map_rows (\<lambda>r. q_id r = k) f (queues s)) \<le> 1"
proof -
  have "count_rows (is_serving p) (map_rows (\<lambda>r. q_id r = k) f qs) \<le> 1"
    if "distinct (map q_id qs)" "count_rows (is_serving p) qs = 0" for qs
    using that
  proof (induction qs)
    case (Cons q qs)
    have same: "map_rows (\<lambda>r. q_id r = q_id q) f qs = qs" if d: "distinct (map q_id (q # qs))"
    proof (rule map_rows_id)
      fix r assume "r \<in> set qs" "q_id r = q_id q"
      then have "q_id q \<in> q_id ` set qs" by (metis imageI)
      with d show "f r = r" by simp
    qed
    show ?case
    proof (cases "q_id q = k")
      case True
      have "map_rows (\<lambda>r. q_id r = k) f (q # qs) = f q # qs"
        using same[OF Cons.prems(1)] True by (simp add: map_rows_def)
      then show ?thesis using Cons.prems(2) by (simp add: count_rows_def split: if_splits)
    next
      case False
      then have "map_rows (\<lambda>r. q_id r = k) f (q # qs) = q # map_rows (\<lambda>r. q_id r = k) f qs" by (simp add: map_rows_def)
      with Cons show ?thesis by (auto simp: count_rows_def split: if_splits)
    qed
  qed (simp add: count_rows_def map_rows_def)
  with assms show ?thesis by (simp add: queue_ids_distinct_def serving_count_def)
qed

lemma take_place_effect:
  assumes "take_place p (Some q) s = Inr (u, s')"
  shows "s' = queues_update (map_rows (\<lambda>r. q_id r = q_id q) (\<lambda>r. r\<lparr>q_status := Q_SERVING, q_position := 1, q_estimatedWait := 0\<rparr>)) s"
    "first_waiting p s = Some (q_id q)" "serving_count p s = 0"
  using assms by (auto simp: take_place_def upd_queue_def tx_iff)

lemma take_place_frame:
  assumes "take_place p entry s = Inr (u, s')"
  shows "find_booking i s' = find_booking i s" "map q_id (queues s') = map q_id (queues s)"
proof -
  have "bookings s' = bookings s \<and> map q_id (queues s') = map q_id (queues s)"
  proof (cases entry)
    case (Some q)
    with take_place_effect(1)[OF assms[unfolded Some]] show ?thesis by simp
  qed (use assms in \<open>auto simp: take_place_def tx_iff\<close>)
  then show "find_booking i s' = find_booking i s" "map q_id (queues s') = map q_id (queues s)"
    by (simp_all add: find_booking_def)
qed

lemma take_place_dirty:
  assumes "take_place p (Some q) s = Inr (u, s')" "work_wf s" "q \<in> set (queues s)" "q_providerId q = p"
  shows "work_dirty p s'"
  unfolding take_place_effect(1)[OF assms(1)]
proof (rule change_entry_dirty)
  have d: "queue_ids_distinct s" using assms(2) by (simp add: work_wf_def queue_wf_def)
  show "one_serving p (map_rows (\<lambda>r. q_id r = q_id q) (\<lambda>r. r\<lparr>q_status := Q_SERVING, q_position := 1, q_estimatedWait := 0\<rparr>) (queues s))"
    using serving_after_take[OF d take_place_effect(3)[OF assms(1)]] by (simp add: one_serving_def)
  show "q_providerId r = p" if "r \<in> set (queues s)" "q_id r = q_id q" for r
    using same_id_same_owner[OF assms(2,3) that] assms(4) by simp
qed (use assms(2) in \<open>simp_all add: seat_kept_def\<close>)

lemma begin_job_effect:
  assumes "begin_job now booking queued s = Inr (b, s')" "find_booking (bk_id booking) s = Some booking"
  shows "calm_rel s s'" "b = booking\<lparr>bk_status := B_ONGOING, bk_started := True,
      bk_queuePosition := (if queued then Some 1 else bk_queuePosition booking), bk_updatedAt := now\<rparr>"
    "find_booking (bk_id b) s' = Some b" "\<not> bk_started booking"
    "s' = bookings_update (map_rows (\<lambda>r. bk_id r = bk_id booking) (\<lambda>r. r\<lparr>bk_status := B_ONGOING, bk_started := True,
      bk_queuePosition := (if queued then Some 1 else bk_queuePosition r), bk_updatedAt := now\<rparr>)) s"
proof -
  have c: "calm.stays (begin_job now booking queued)"
    unfolding begin_job_def by (intro calm_rules) (simp add: bk_key_def)
  show "calm_rel s s'" by (rule calm.staysD[OF c assms(1)])
  from assms show "s' = bookings_update (map_rows (\<lambda>r. bk_id r = bk_id booking) (\<lambda>r. r\<lparr>bk_status := B_ONGOING, bk_started := True,
      bk_queuePosition := (if queued then Some 1 else bk_queuePosition r), bk_updatedAt := now\<rparr>)) s" "\<not> bk_started booking"
    by (auto simp: begin_job_def update_booking_def upd_booking_def tx_iff)
  with assms show "b = booking\<lparr>bk_status := B_ONGOING, bk_started := True,
      bk_queuePosition := (if queued then Some 1 else bk_queuePosition booking), bk_updatedAt := now\<rparr>"
    "find_booking (bk_id b) s' = Some b"
    by (auto simp: begin_job_def update_booking_def upd_booking_def tx_iff find_booking_def)
qed


lemma start_job_keeps:
  assumes "start_job now i p s = Inr ((b, queued, rec), s')" "work_wf s"
  shows "work_wf s'"
proof (rule start_job_parts[OF assms(1)])
  fix booking entry t1 t2 t3
  assume b: "find_booking (bk_id booking) s = Some booking" "bk_providerId booking = p" "queue_of (bk_id booking) s = entry"
    and t: "take_place p entry s = Inr ((), t1)" and bj: "begin_job now booking (entry \<noteq> None) t1 = Inr (b, t2)"
    and q3: "quiet_rel t2 t3"
    and r: "\<exists>t4. (if entry \<noteq> None then recalculateQueueInTransaction now p t3 = Inr ((), t4) else t4 = t3) \<and> quiet_rel t4 s'"
  show "work_wf s'"
  proof (cases entry)
    case None
    then have "t1 = s" using t by (auto simp: take_place_def tx_iff)
    with bj b(1) have "work_wf t2" using begin_job_effect(1)[OF bj] assms(2) by (auto intro: calm_wf)
    with q3 r None show ?thesis by (auto intro: calm_wf quiet_calm)
  next
    case (Some q)
    have q: "q \<in> set (queues s)" "q_providerId q = p"
      using queue_of_row b Some work_wf_owner[OF assms(2) b(1)] by auto
    have "find_booking (bk_id booking) t1 = Some booking" using take_place_frame(1)[OF t] b(1) by simp
    with bj take_place_dirty[OF t[unfolded Some] assms(2) q] have "work_dirty p t2"
      by (blast intro: calm_dirty begin_job_effect(1))
    with q3 have "work_dirty p t3" by (blast intro: calm_dirty quiet_calm)
    with r Some show ?thesis by (auto intro: calm_wf quiet_calm recalculate_cleans)
  qed
qed

lemma first_waiting_least:
  assumes "first_waiting p s = Some k"
  shows "\<exists>q \<in> set (queues s). q_id q = k \<and> is_waiting p q \<and>
    (\<forall>r \<in> set (queues s). is_waiting p r \<longrightarrow> q_position q \<le> q_position r)"
proof -
  let ?l = "sort_key q_position (filter (is_waiting p) (queues s))"
  from assms obtain q qs where l: "?l = q # qs" "q_id q = k"
    by (auto simp: first_waiting_def split: list.splits)
  have "sorted (map q_position ?l)" by simp
  with l have le: "\<forall>r \<in> set ?l. q_position q \<le> q_position r" by auto
  have "set ?l = {r \<in> set (queues s). is_waiting p r}" by simp
  moreover have "q \<in> set ?l" by (simp add: l)
  ultimately show ?thesis using le l(2) by auto
qed

lemma start_readiness_ok:
  assumes "start_readiness b entry = Inr ()"
  shows "entry = None \<Longrightarrow> bk_paymentMethod b = OnsiteCash \<and> bk_status b = B_ACCEPTED \<and> bk_paymentStatus b = P_UNPAID"
    "entry = Some q \<Longrightarrow> bk_paymentMethod b \<noteq> OnsiteCash \<and> bk_status b \<in> {B_ACCEPTED, B_WAITING} \<and>
       bk_paymentStatus b = P_PAID_HELD \<and> q_status q = Q_WAITING \<and> q_paymentStatus q = P_PAID_HELD"
  using assms by (auto simp: start_readiness_def paidStartBlockReason_def split: if_splits)

lemma started_booking:
  assumes "start_job now i p s = Inr ((b, queued, rec), s')" "work_wf s"
  shows "bk_providerId b = p \<and> bk_status b = B_ONGOING \<and>
    (\<exists>c. find_booking (bk_id b) s' = Some c \<and> bk_providerId c = p \<and> bk_status c = B_ONGOING \<and> bk_started c)"
proof (rule start_job_parts[OF assms(1)])
  fix booking entry t1 t2 t3
  assume b: "find_booking (bk_id booking) s = Some booking" "bk_providerId booking = p" "queue_of (bk_id booking) s = entry"
    and t: "take_place p entry s = Inr ((), t1)" and bj: "begin_job now booking (entry \<noteq> None) t1 = Inr (b, t2)"
    and q3: "quiet_rel t2 t3"
    and r: "\<exists>t4. (if entry \<noteq> None then recalculateQueueInTransaction now p t3 = Inr ((), t4) else t4 = t3) \<and> quiet_rel t4 s'"
  have f1: "find_booking (bk_id booking) t1 = Some booking" "queue_ids_distinct t1"
    using take_place_frame[OF t] b(1) assms(2) by (simp_all add: work_wf_def queue_wf_def queue_ids_distinct_def)
  note e = begin_job_effect[OF bj f1(1)]
  have f3: "find_booking (bk_id b) t3 = Some b" using e(3) quiet_bookings[OF q3, of "bk_id b"] by simp
  have d3: "queue_ids_distinct t3"
    using f1(2) quiet_core(1)[OF q3] e(5) by (simp add: queue_ids_distinct_def)
  from r obtain t4 where t4: "if entry \<noteq> None then recalculateQueueInTransaction now p t3 = Inr ((), t4) else t4 = t3"
    "quiet_rel t4 s'" by blast
  have "\<exists>c. find_booking (bk_id b) t4 = Some c \<and> bk_unplaced c = bk_unplaced b"
  proof (cases "entry = None")
    case True
    with t4(1) f3 show ?thesis by simp
  next
    case False
    with t4(1) recalculate_find_booking[OF _ d3 f3] show ?thesis by auto
  qed
  then obtain c where c: "find_booking (bk_id b) s' = Some c" "bk_unplaced c = bk_unplaced b"
    using quiet_bookings[OF t4(2), of "bk_id b"] by auto
  then show "bk_providerId b = p \<and> bk_status b = B_ONGOING \<and>
    (\<exists>c. find_booking (bk_id b) s' = Some c \<and> bk_providerId c = p \<and> bk_status c = B_ONGOING \<and> bk_started c)"
    using unplaced_fields[OF c(2)] e(2) b(2) by simp
qed

text \<open>C13: Work is started first come, first served, one job at a time: a start succeeds only for an
  eligible provider without another current job; a paid job only with the money held on the booking
  and its entry, and only from the front of the provider's waiting line with nothing in service; a
  cash job only when no paid job waits. Then the booking is ongoing, every queue stays well formed,
  and no further start of that provider succeeds.\<close>

theorem start_job_first_come:
  assumes "start_job now i p s = Inr ((b, queued, rec), s')" "work_wf s"
  shows "work_wf s' \<and> provider_ready p s \<and> \<not> other_ongoing p (bk_id b) s \<and>
    (\<exists>c. find_booking (bk_id b) s' = Some c \<and> bk_providerId c = p \<and> bk_status c = B_ONGOING \<and> bk_started c) \<and>
    (\<not> queued \<longrightarrow> bk_paymentMethod b = OnsiteCash \<and> waiting_count p s = 0) \<and>
    (queued \<longrightarrow> bk_paymentMethod b \<noteq> OnsiteCash \<and> bk_paymentStatus b = P_PAID_HELD \<and> serving_count p s = 0 \<and>
       (\<exists>q \<in> set (queues s). q_bookingId q = Some (bk_id b) \<and> q_paymentStatus q = P_PAID_HELD \<and>
          (\<forall>r \<in> set (queues s). is_waiting p r \<longrightarrow> q_position q \<le> q_position r))) \<and>
    (\<forall>later j. \<exists>e. start_job later j p s' = Inl e)"
proof -
  from started_booking[OF assms] obtain c where c: "bk_providerId b = p" "find_booking (bk_id b) s' = Some c"
    "bk_providerId c = p" "bk_status c = B_ONGOING" "bk_started c" by blast
  have again: "\<exists>e. start_job later j p s' = Inl e" for later j
  proof (rule ccontr)
    assume "\<nexists>e. start_job later j p s' = Inl e"
    then obtain b2 q2 r2 s2 where "start_job later j p s' = Inr ((b2, q2, r2), s2)" by (metis sum.exhaust prod.exhaust)
    then show False
    proof (rule start_job_parts)
      fix booking entry t1 t2 t3
      assume bk: "find_booking (bk_id booking) s' = Some booking" and oo: "\<not> other_ongoing p (bk_id booking) s'"
        and t: "take_place p entry s' = Inr ((), t1)" and bj: "begin_job later booking (entry \<noteq> None) t1 = Inr (b2, t2)"
      show False
      proof (cases "bk_id booking = bk_id b")
        case True
        have "find_booking (bk_id booking) t1 = Some booking"
          using take_place_frame(1)[OF t] bk by simp
        from begin_job_effect(4)[OF bj this] True bk c show False by simp
      next
        case False
        with oo find_booking_mem[OF c(2)] c(3,4) show False by (auto simp: other_ongoing_def occupies_def)
      qed
    qed
  qed
  show ?thesis
  proof (rule start_job_parts[OF assms(1)])
    fix booking entry t1 t2 t3
    assume bk: "find_booking (bk_id booking) s = Some booking" "queue_of (bk_id booking) s = entry"
      and g: "provider_ready p s" "\<not> other_ongoing p (bk_id booking) s" "start_readiness booking entry = Inr ()"
      and t: "take_place p entry s = Inr ((), t1)" and bj: "begin_job now booking (entry \<noteq> None) t1 = Inr (b, t2)"
      and q: "queued = (entry \<noteq> None)"
    have f1: "find_booking (bk_id booking) t1 = Some booking"
      using take_place_frame(1)[OF t] bk(1) by simp
    note e = begin_job_effect(2)[OF bj f1]
    have cash: "bk_paymentMethod b = OnsiteCash \<and> waiting_count p s = 0" if "entry = None"
      using start_readiness_ok(1)[OF g(3) that] t that e by (auto simp: take_place_def tx_iff)
    have paid: "bk_paymentMethod b \<noteq> OnsiteCash \<and> bk_paymentStatus b = P_PAID_HELD \<and> serving_count p s = 0 \<and>
       (\<exists>q \<in> set (queues s). q_bookingId q = Some (bk_id b) \<and> q_paymentStatus q = P_PAID_HELD \<and>
          (\<forall>r \<in> set (queues s). is_waiting p r \<longrightarrow> q_position q \<le> q_position r))" if "entry = Some q" for q
    proof -
      note te = take_place_effect[OF t[unfolded that]]
      have qin: "q \<in> set (queues s)" "q_bookingId q = Some (bk_id booking)" using queue_of_row bk(2) that by auto
      obtain r where r: "r \<in> set (queues s)" "q_id r = q_id q"
        "\<forall>x \<in> set (queues s). is_waiting p x \<longrightarrow> q_position r \<le> q_position x"
        using first_waiting_least[OF te(2)] by blast
      have "r = q" by (rule same_id_same_owner[OF assms(2) qin(1) r(1,2)])
      with r qin te(3) start_readiness_ok(2)[OF g(3) that] e show ?thesis by auto
    qed
    have "bk_id b = bk_id booking" using e by simp
    with again start_job_keeps[OF assms] g cash paid q c show ?thesis by (cases entry) auto
  qed
qed


subsection \<open>Taking an entry out of service\<close>

lemma retire_and_reindex:
  assumes "upd_queue (q_id e) f s = Inr (u1, t)" "recalculateQueueInTransaction now p t = Inr (u2, s')"
    and wf: "work_wf s" and e: "e \<in> set (queues s)" "q_providerId e = p"
    and f: "seat_kept f" "\<And>q. \<not> is_serving p (f q)"
  shows "work_wf s'" "completedServices s' = completedServices s" "transactions s' = transactions s"
    "find_booking i s = Some x \<Longrightarrow> \<exists>y. find_booking i s' = Some y \<and> bk_unplaced y = bk_unplaced x"
    "r \<in> set (queues s') \<Longrightarrow> q_id r = q_id e \<Longrightarrow> q_status r = q_status (f e) \<and> q_paymentStatus r = q_paymentStatus (f e)"
    "attempts s' = attempts s" "offers s' = offers s" "refunds s' = refunds s"
proof -
  have t: "t = queues_update (map_rows (\<lambda>r. q_id r = q_id e) f) s"
    using assms(1) by (simp add: upd_queue_def modify_Inr)
  have d: "work_dirty p t" unfolding t
    by (rule retire_entry[OF wf f]) (use same_id_same_owner[OF wf e(1)] e(2) in blast)
  then have qd: "queue_ids_distinct t" by (simp add: work_dirty_def queue_dirty_def)
  show "work_wf s'" by (rule recalculate_cleans[OF d assms(2)])
  note fr = recalculate_frame[OF assms(2) qd]
  show "completedServices s' = completedServices s" "transactions s' = transactions s" "attempts s' = attempts s"
    "offers s' = offers s" "refunds s' = refunds s"
    by (simp_all add: fr t)
  show "\<exists>y. find_booking i s' = Some y \<and> bk_unplaced y = bk_unplaced x" if "find_booking i s = Some x"
    by (rule recalculate_find_booking[OF assms(2) qd]) (use that in \<open>simp add: t find_booking_def\<close>)
  show "q_status r = q_status (f e) \<and> q_paymentStatus r = q_paymentStatus (f e)" if r: "r \<in> set (queues s')" "q_id r = q_id e"
  proof -
    from r(1) recalculateQueueInTransaction_queues[OF qd assms(2)] obtain o2 xs
      where "o2 \<in> set (queues t)" "r = seat_row xs o2 \<or> r = o2" by auto
    then obtain o1 where o: "o1 \<in> set (queues t)" "q_id r = q_id o1" "q_status r = q_status o1" "q_paymentStatus r = q_paymentStatus o1"
      by auto
    from o(1) obtain o3 where o3: "o3 \<in> set (queues s)" "o1 = (if q_id o3 = q_id e then f o3 else o3)"
      by (auto simp: t set_map_rows)
    have "q_id o3 = q_id e" using o(2) o3(2) r(2) by metis
    with same_id_same_owner[OF wf e(1) o3(1)] have "o3 = e" by simp
    with o o3 show ?thesis by simp
  qed
qed

lemma retire_queue_effect:
  assumes "retire_queue now b q st s = Inr (u, s')" "work_wf s" "find_booking (bk_id b) s = Some c"
    "bk_providerId c = bk_providerId b" "queue_of (bk_id b) s = q"
  shows "work_wf s' \<and> completedServices s' = completedServices s \<and> transactions s' = transactions s \<and>
    refunds s' = refunds s \<and> (\<exists>y. find_booking (bk_id b) s' = Some y \<and> bk_unplaced y = bk_unplaced c) \<and>
    (\<forall>e. q = Some e \<longrightarrow> (\<forall>r \<in> set (queues s'). q_id r = q_id e \<longrightarrow> q_status r = Q_DONE \<and> q_paymentStatus r = st))"
proof (cases q)
  case None
  with assms show ?thesis by (simp add: retire_queue_def ret_Inr)
next
  case (Some e)
  have e: "e \<in> set (queues s)" "q_providerId e = bk_providerId b"
    using queue_of_row assms(5) Some work_wf_owner[OF assms(2,3)] assms(4) by auto
  from assms(1) Some obtain u1 t u2 where
    r: "upd_queue (q_id e) (\<lambda>r. r\<lparr>q_status := Q_DONE, q_paymentStatus := st\<rparr>) s = Inr (u1, t)"
      "recalculateQueueInTransaction now (bk_providerId b) t = Inr (u2, s')"
    by (auto simp: retire_queue_def tx_seq_Inr)
  note R = retire_and_reindex[OF r assms(2) e]
  have "seat_kept (\<lambda>r. r\<lparr>q_status := Q_DONE, q_paymentStatus := st\<rparr>)"
    "\<not> is_serving p (x\<lparr>q_status := Q_DONE, q_paymentStatus := st\<rparr>)" for p x
    by (simp_all add: seat_kept_def is_serving_def)
  note R = R[OF this]
  have "q_status r = Q_DONE \<and> q_paymentStatus r = st" if "r \<in> set (queues s')" "q_id r = q_id e" for r
    using R(5)[OF that] by simp
  then show ?thesis using R(1-3,8) R(4)[OF assms(3)] unfolding Some by blast
qed


lemma mark_complete_keeps: "keeps work_wf (mark_complete now i p)"
proof (rule keepsI)
  fix s x s' assume wf: "work_wf s" and run: "mark_complete now i p s = Inr (x, s')"
  obtain b where b: "booking_or_queue_booking i s = Some b"
    using run by (auto simp: mark_complete_def tx_bind_Inr query_Inr expect_Inr)
  show "work_wf s'"
  proof (cases "bk_status b = B_AWAITING_CONFIRMATION")
    case True
    with run b have "s' = s"
      by (auto simp: mark_complete_def tx_iff dest: assertNoRefund_same)
    with wf show ?thesis by simp
  next
    case False
    with run b have "complete_work now b s = Inr (x, s')"
      by (auto simp: mark_complete_def tx_iff dest: assertNoRefund_same)
    then obtain up s1 s2 u2 w s3 rec where
      ub: "update_booking now (bk_id b) (\<lambda>b. b\<lparr>bk_status := B_AWAITING_CONFIRMATION\<rparr>) s = Inr (up, s1)" and
      rp: "recordBookingProgress now (bk_id b) PK_WORK_MARKED_COMPLETE ByProvider (EK_WorkComplete (bk_updatedAt up)) s1 = Inr (u2, s2)" and
      q: "(case queue_of (bk_id b) s2 of
           Some q \<Rightarrow> tx_seq (upd_queue (q_id q) (\<lambda>r. r\<lparr>q_status := Q_DONE\<rparr>))
             (tx_seq (recalculateQueueInTransaction now (bk_providerId b))
             (notifyWaitlistInTransaction now (bk_providerId b)))
         | None \<Rightarrow> tx_seq (recalculateQueueInTransaction now (bk_providerId b)) (ret None)) s2 = Inr (w, s3)" and
      nt: "recordLifecycleNotice (parties up) [plain_notice (bk_seekerId up) ''Service marked complete''] None s3 = Inr (rec, s')"
      by (simp only: complete_work_def tx_open) blast
    have fb: "find_booking (bk_id b) s = Some b" by (rule booking_or_queue_find[OF b])
    have c1: "calm_rel s s1"
      using calm.staysD[OF calm_update_booking ub] by (simp add: bk_key_def)
    note q2 = quiet.staysD[OF quiet_writes(11) rp]
    have wf2: "work_wf s2" using wf c1 q2 by (blast intro: calm_wf quiet_calm)
    have "map_option bk_key (find_booking (bk_id b) s2) = Some (bk_key b)"
      using ub fb quiet_bookings[OF q2, of "bk_id b"]
      by (auto simp: update_booking_def upd_booking_def tx_iff find_booking_def bk_key_def)
    then obtain c where c: "find_booking (bk_id b) s2 = Some c" "bk_providerId c = bk_providerId b"
      by (auto simp: bk_key_def)
    have "work_wf s3"
    proof (cases "queue_of (bk_id b) s2")
      case None
      with q obtain u3 where "recalculateQueueInTransaction now (bk_providerId b) s2 = Inr (u3, s3)"
        by (auto simp: tx_seq_Inr ret_Inr)
      then show ?thesis by (rule recalculate_cleans[OF work_wf_dirty[OF wf2]])
    next
      case (Some e)
      with q obtain t u3 u4 s4 where
        r: "upd_queue (q_id e) (\<lambda>r. r\<lparr>q_status := Q_DONE\<rparr>) s2 = Inr (u3, t)"
          "recalculateQueueInTransaction now (bk_providerId b) t = Inr (u4, s4)"
        and w: "notifyWaitlistInTransaction now (bk_providerId b) s4 = Inr (w, s3)"
        by (auto simp: tx_seq_Inr)
      have e: "e \<in> set (queues s2)" "q_providerId e = bk_providerId b"
        using queue_of_row[OF Some] work_wf_owner[OF wf2 c(1) Some] c(2) by auto
      have "work_wf s4"
        by (rule retire_and_reindex(1)[OF r wf2 e]) (simp_all add: seat_kept_def is_serving_def)
      with w show ?thesis by (blast intro: calm_wf quiet_calm quiet.staysD[OF quiet_waitlist])
    qed
    with nt show ?thesis by (blast intro: calm_wf quiet_calm quiet.staysD[OF quiet_notices(3)])
  qed
qed

subsection \<open>What the settlement does\<close>

lemma create_completed_effect:
  assumes "create_completed c s = Inr (r, s')"
  shows "\<not> (\<exists>x \<in> set (completedServices s). cs_bookingId x = cs_bookingId c)"
    "completedServices s' = completedServices s @ [r]" "r = c\<lparr>cs_id := nextId s\<rparr>"
    "calm_rel s s'" "bookings s' = bookings s" "transactions s' = transactions s" "queues s' = queues s" "refunds s' = refunds s"
  using assms by (auto simp: create_completed_def fresh_id_def tx_iff Let_def calm_rel_def)

lemma calm_settle_parts [calm_rules]: "calm.stays (close_escalations now i)" "calm.stays (earning i c p net)"
  unfolding close_escalations_def earning_def by (intro calm_rules)+

lemma settle_tail_effect:
  assumes "earning i c p net s = Inr (u, s')"
  shows "transactions s' = transactions s @ [\<lparr>tr_id = nextId s, tr_walletOwnerId = p,
       tr_type = EARNING, tr_amount = net, tr_relatedBookingId = Some c, tr_paymongoRefId = None,
       tr_idempotencyKey = Some (LK_Completion i)\<rparr>]"
    "bookings s' = bookings s" "completedServices s' = completedServices s" "queues s' = queues s" "refunds s' = refunds s"
    "Some (LK_Completion i) \<notin> tr_idempotencyKey ` set (transactions s)"
  using assms by (auto simp: earning_def fresh_id_def tx_iff)

definition settled_state :: "booking_row \<Rightarrow> payment_status" where
  "settled_state b = (if bk_paymentMethod b = OnsiteCash then P_CASH_CONFIRMED else P_RELEASED)"

lemma settle_booking_effect:
  assumes run: "settle_booking now actor b q agreed s = Inr ((c, up, rec), s')"
    and wf: "work_wf s" and b: "find_booking (bk_id b) s = Some b" and q: "queue_of (bk_id b) s = q"
  defines "terms \<equiv> if bk_paymentMethod b = OnsiteCash then None else Option.bind (bk_paymentAttemptId b) (\<lambda>i. find_attempt i s)"
  shows "work_wf s'" "\<not> (\<exists>x \<in> set (completedServices s). cs_bookingId x = Some (bk_id b))"
    "completedServices s' = completedServices s @ [c]" "\<exists>i. c = (complete_row b q agreed terms)\<lparr>cs_id := i\<rparr>"
    "\<exists>x. find_booking (bk_id b) s' = Some x \<and> bk_status x = B_COMPLETED \<and> bk_paymentStatus x = settled_state b \<and>
       bk_seekerId x = bk_seekerId b"
    "bk_paymentMethod b = OnsiteCash \<Longrightarrow> transactions s' = transactions s"
    "bk_paymentMethod b \<noteq> OnsiteCash \<Longrightarrow> \<exists>i. transactions s' = transactions s @ [\<lparr>tr_id = i, tr_walletOwnerId = bk_providerId b,
       tr_type = EARNING, tr_amount = snd (snd (settlement_terms b agreed terms)), tr_relatedBookingId = Some (cs_id c),
       tr_paymongoRefId = None, tr_idempotencyKey = Some (LK_Completion (bk_id b))\<rparr>]"
    "\<forall>e. q = Some e \<longrightarrow> (\<forall>r \<in> set (queues s'). q_id r = q_id e \<longrightarrow> q_status r = Q_DONE \<and> q_paymentStatus r = settled_state b)"
    "refunds s' = refunds s"
proof -
  let ?i = "bk_id b" let ?cash = "bk_paymentMethod b = OnsiteCash"
  from run obtain s1 s2 u3 s3 u4 s4 u5 s5 u6 s6 u7 s7 u8 s8 where
    r1: "create_completed (complete_row b q agreed terms) s = Inr (c, s1)" and
    r2: "update_booking now ?i (\<lambda>r. r\<lparr>bk_status := B_COMPLETED, bk_paymentStatus := settled_state b,
         bk_statusBeforeDispute := None\<rparr>) s1 = Inr (up, s2)" and
    r3: "recordBookingProgress now ?i PK_COMPLETION_CONFIRMED (if is_admin actor then ByAdmin else BySeeker)
         (EK_Kind PK_COMPLETION_CONFIRMED) s2 = Inr (u3, s3)" and
    r4: "retire_queue now b q (settled_state b) s3 = Inr (u4, s4)" and
    r5: "set_request (request_of_offer (bk_offerId b) s4) RQ_CLOSED s4 = Inr (u5, s5)" and
    r6: "when_tx (\<not> is_admin actor) (close_escalations now ?i) s5 = Inr (u6, s6)" and
    r7: "when_tx (\<not> ?cash) (earning ?i (cs_id c) (bk_providerId b) (snd (snd (settlement_terms b agreed terms)))) s6 = Inr (u7, s7)" and
    r8: "awardBookingCompletionTrust now ?i s7 = Inr (u8, s8)" and
    r9: "recordLifecycleNotice (parties up) [plain_notice (bk_providerId b) ''Completion confirmed'',
          plain_notice (bk_seekerId b) ''Completion confirmed'']
        (Some (settler_id actor, if ?cash then ''Cash service completion confirmed.''
           else ''Online payment released after completion confirmation.'')) s8 = Inr (rec, s')"
    unfolding settle_booking_def settled_state_def terms_def by (simp only: tx_open) blast
  note c = create_completed_effect[OF r1]
  have c2: "calm_rel s1 s2" by (rule calm.staysD[OF calm_update_booking r2]) (simp add: bk_key_def)
  have s2: "completedServices s2 = completedServices s1" "transactions s2 = transactions s1" "queues s2 = queues s1" "refunds s2 = refunds s1"
    "find_booking ?i s2 = Some (b\<lparr>bk_status := B_COMPLETED, bk_paymentStatus := settled_state b,
         bk_statusBeforeDispute := None, bk_updatedAt := now\<rparr>)"
    using r2 b c(5) by (auto simp: update_booking_def upd_booking_def tx_iff find_booking_def)
  note q3 = quiet.staysD[OF quiet_writes(11) r3] and q8 = quiet.staysD[OF quiet_trust(3) r8]
    and q9 = quiet.staysD[OF quiet_notices(3) r9]
  note f3 = quiet_core[OF q3] quiet_bookings[OF q3, of ?i] and f8 = quiet_core[OF q8] and f9 = quiet_core[OF q9]
  have wf3: "work_wf s3" using wf c(4) c2 q3 by (blast intro: calm_wf quiet_calm)
  have q3': "queue_of ?i s3 = q" using q by (simp add: queue_of_def f3 s2 c)
  obtain x where x: "find_booking ?i s3 = Some x" "bk_providerId x = bk_providerId b" "bk_status x = B_COMPLETED"
    "bk_paymentStatus x = settled_state b" "bk_seekerId x = bk_seekerId b"
    using f3 s2(5) by auto
  note t4 = retire_queue_effect[OF r4 wf3 x(1,2) q3']
  obtain g where s5: "s5 = requests_update g s4" using set_request_effect[OF r5] by blast
  have s6: "queues s6 = queues s4" "bookings s6 = bookings s4" "completedServices s6 = completedServices s4" "transactions s6 = transactions s4"
    "refunds s6 = refunds s4"
    using r6 by (auto simp: s5 when_tx_Inr close_escalations_def upd_escalations_def modify_Inr split: if_splits)
  have s7: "queues s7 = queues s6" "bookings s7 = bookings s6" "completedServices s7 = completedServices s6"
    "?cash \<Longrightarrow> transactions s7 = transactions s6" "refunds s7 = refunds s6"
    using r7 settle_tail_effect(2-5) by (auto simp: when_tx_Inr split: if_splits)
  have "calm_rel s4 s5" by (rule calm.staysD[OF calm_set_request r5])
  moreover have "calm.stays (when_tx (\<not> is_admin actor) (close_escalations now ?i))"
    "calm.stays (when_tx (\<not> ?cash) (earning ?i (cs_id c) (bk_providerId b) (snd (snd (settlement_terms b agreed terms)))))"
    by (intro calm_rules)+
  ultimately show "work_wf s'"
    using t4 r6 r7 calm.staysD quiet_calm[OF q8] quiet_calm[OF q9] by (metis calm_wf)
  show "\<not> (\<exists>x \<in> set (completedServices s). cs_bookingId x = Some (bk_id b))"
    using c(1) by (auto simp: complete_row_def split: prod.splits)
  show "completedServices s' = completedServices s @ [c]" using c(2) t4 by (simp add: f9 f8 s7 s6 f3 s2)
  show "\<exists>i. c = (complete_row b q agreed terms)\<lparr>cs_id := i\<rparr>" using c(3) by blast
  obtain y where y: "find_booking ?i s4 = Some y" "bk_unplaced y = bk_unplaced x" using t4 by blast
  have "find_booking ?i s' = find_booking ?i s4" by (simp add: find_booking_def f9 f8 s7 s6)
  with y x unplaced_fields[OF y(2)]
  show "\<exists>x. find_booking (bk_id b) s' = Some x \<and> bk_status x = B_COMPLETED \<and> bk_paymentStatus x = settled_state b \<and>
       bk_seekerId x = bk_seekerId b" by auto
  have base: "transactions s6 = transactions s" using t4 by (simp add: s6 f3 s2 c)
  show "transactions s' = transactions s" if "?cash" using that base by (simp add: f9 f8 s7)
  show "\<exists>i. transactions s' = transactions s @ [\<lparr>tr_id = i, tr_walletOwnerId = bk_providerId b,
       tr_type = EARNING, tr_amount = snd (snd (settlement_terms b agreed terms)), tr_relatedBookingId = Some (cs_id c),
       tr_paymongoRefId = None, tr_idempotencyKey = Some (LK_Completion (bk_id b))\<rparr>]" if "\<not> ?cash"
  proof -
    from r7 that have "earning ?i (cs_id c) (bk_providerId b) (snd (snd (settlement_terms b agreed terms))) s6 = Inr (u7, s7)"
      by (simp add: when_tx_Inr)
    from settle_tail_effect(1)[OF this] base show ?thesis by (auto simp: f9 f8)
  qed
  show "refunds s' = refunds s" using t4 c by (simp add: f9 f8 s7 s6 f3 s2)
  have "queues s' = queues s4" by (simp add: f9 f8 s7 s6)
  then show "\<forall>e. q = Some e \<longrightarrow> (\<forall>r \<in> set (queues s'). q_id r = q_id e \<longrightarrow> q_status r = Q_DONE \<and> q_paymentStatus r = settled_state b)"
    using t4 by (simp only:) blast
qed


lemma settle_cases:
  assumes "settle now i actor s = Inr ((c, up, rec), s')"
  obtains b where "find_booking i s = Some b" "map_option rf_status (refund_of i s) \<noteq> Some ''PROCESSING''"
    "is_admin actor \<or> bk_seekerId b = settler_id actor"
    "(bk_status b = B_COMPLETED \<and> completed_of i s = Some c \<and> rec = None \<and> s' = s) \<or>
     (settlement_fault actor b = None \<and>
      (\<exists>r. rec = Some r \<and> settle_booking now actor b (queue_of i s) (the (bk_agreedAmount b)) s = Inr ((c, up, r), s')))"
proof -
  from assms obtain b u0 where b: "find_booking i s = Some b" and nr: "assertNoRefundInProgress i s = Inr (u0, s)"
    and own: "is_admin actor \<or> bk_seekerId b = settler_id actor"
    and rest: "(if bk_status b = B_COMPLETED \<and> completed_of i s \<noteq> None then ret (the (completed_of i s), b, None)
     else case settlement_fault actor b of Some e \<Rightarrow> fail e
       | None \<Rightarrow> tx_bind (settle_booking now actor b (queue_of i s) (the (bk_agreedAmount b)))
           (\<lambda>(completed, updated, recd). ret (completed, updated, Some recd))) s = Inr ((c, up, rec), s')"
    by (auto simp: settle_def tx_bind_Inr tx_seq_Inr query_Inr expect_Inr ensure_Inr dest: assertNoRefund_same)
  have "map_option rf_status (refund_of i s) \<noteq> Some ''PROCESSING''"
    using nr by (auto simp: assertNoRefundInProgress_def tx_iff)
  moreover have "(bk_status b = B_COMPLETED \<and> completed_of i s = Some c \<and> rec = None \<and> s' = s) \<or>
     (settlement_fault actor b = None \<and>
      (\<exists>r. rec = Some r \<and> settle_booking now actor b (queue_of i s) (the (bk_agreedAmount b)) s = Inr ((c, up, r), s')))"
    using rest by (auto simp: ret_Inr fail_Inr tx_bind_Inr split: if_splits option.splits prod.splits)
  ultimately show ?thesis using that b own by blast
qed

lemma settlement_fault_None:
  "settlement_fault actor b = None \<Longrightarrow> \<exists>a. bk_agreedAmount b = Some a \<and> 0 < a \<and>
     bk_status b \<in> {B_AWAITING_CONFIRMATION, B_DISPUTED, B_UNDER_REVIEW} \<and>
     (if bk_paymentMethod b = OnsiteCash then bk_paymentStatus b = P_UNPAID else held (bk_paymentStatus b)) \<and>
     (\<not> is_admin actor \<longrightarrow> bk_status b = B_AWAITING_CONFIRMATION)"
  by (auto simp: settlement_fault_def held_def split: if_splits option.splits)

text \<open>The terms recorded with the payment of a booking conserve its price.\<close>

definition terms_conserve :: "booking_row \<Rightarrow> db \<Rightarrow> bool" where
  "terms_conserve b s \<longleftrightarrow> (\<forall>k a g. bk_paymentAttemptId b = Some k \<longrightarrow> find_attempt k s = Some a \<longrightarrow>
     bk_agreedAmount b = Some g \<longrightarrow> at_providerNetAmount a \<noteq> None \<and>
     commission_columns_ok (at_commissionRateBps a) (at_platformFeeAmount a) (at_providerNetAmount a) g)"

lemma settlement_terms_conserve:
  assumes "terms_conserve b s" "bk_agreedAmount b = Some g"
    "settlement_terms b g (if c then None else Option.bind (bk_paymentAttemptId b) (\<lambda>i. find_attempt i s)) = (bps, fee, net)"
  shows "fee + net = g"
  using assms
  by (auto simp: settlement_terms_def terms_conserve_def commission_columns_ok_def Option.bind_eq_Some_conv
      split: if_splits option.splits)

lemma completed_of_append: "completed_of i s = None \<Longrightarrow> cs_bookingId c = Some i \<Longrightarrow>
    completedServices s' = completedServices s @ [c] \<Longrightarrow> completed_of i s' = Some c"
  using find_row_append[of cs_bookingId "Some i" "completedServices s" "[c]"]
  by (simp add: completed_of_def find_row_def)



subsection \<open>What a dispute does\<close>

lemma assertNoFinancial_same: "assertNoFinancialResolutionReserved b own s = Inr (u, s') \<Longrightarrow> s' = s"
  by (auto simp: assertNoFinancialResolutionReserved_def tx_iff)

lemma map_rows_clears: "(\<And>r. P r \<Longrightarrow> \<not> P (f r)) \<Longrightarrow> \<forall>e \<in> set (map_rows P f rs). \<not> P e"
  by (auto simp: set_map_rows)

lemma dispute_job_effect:
  assumes "dispute_job now i k reason s = Inr ((r, up, rec, adm), s')" "work_wf s"
  shows "\<exists>b st. find_booking i s = Some b \<and> bk_seekerId b = k \<and> bk_status b = B_AWAITING_CONFIRMATION \<and>
    st = (if bk_paymentMethod b = OnsiteCash then P_UNPAID else P_FROZEN_HELD) \<and> work_wf s' \<and>
    find_booking i s' = Some (b\<lparr>bk_status := B_DISPUTED, bk_statusBeforeDispute := Some B_AWAITING_CONFIRMATION,
      bk_paymentStatus := st, bk_updatedAt := now\<rparr>) \<and>
    (\<forall>q. queue_of i s = Some q \<longrightarrow> (\<forall>x \<in> set (queues s'). q_id x = q_id q \<longrightarrow> q_paymentStatus x = st)) \<and>
    reports s' = reports s @ [r] \<and> rp_bookingId r = i \<and> rp_status r = RP_PENDING \<and> rp_reportType r = RT_COMPLETION_DISPUTE \<and>
    rp_reporterId r = k \<and> rp_reportedUserId r = bk_providerId b \<and> k \<noteq> bk_providerId b \<and>
    (\<forall>e \<in> set (escalations s'). es_bookingId e = i \<longrightarrow> \<not> escalation_active e) \<and>
    transactions s' = transactions s \<and> completedServices s' = completedServices s"
proof -
  from assms(1) obtain b u0 s0 u1 s1 s2 u3 s3 u4 s4 j s5 u6 s6 s7 u7 where
    b: "find_booking i s = Some b" and k: "bk_seekerId b = k" and
    nr: "assertNoRefundInProgress i s = Inr (u0, s0)" and nf: "assertNoFinancialResolutionReserved i None s0 = Inr (u1, s1)" and
    st: "bk_status b = B_AWAITING_CONFIRMATION" and da: "assertDistinctAccounts k (bk_providerId b) = Inr u7" and
    ub: "update_booking now (bk_id b) (\<lambda>r. r\<lparr>bk_status := B_DISPUTED, bk_statusBeforeDispute := Some (bk_status b),
        bk_paymentStatus := (if bk_paymentMethod b = OnsiteCash then P_UNPAID else P_FROZEN_HELD)\<rparr>) s1 = Inr (up, s2)" and
    uq: "(case queue_of i s of None \<Rightarrow> ret () | Some q \<Rightarrow> upd_queue (q_id q) (\<lambda>r. r\<lparr>q_paymentStatus :=
        (if bk_paymentMethod b = OnsiteCash then P_UNPAID else P_FROZEN_HELD)\<rparr>)) s2 = Inr (u3, s3)" and
    ue: "upd_escalations (\<lambda>e. es_bookingId e = bk_id b \<and> escalation_active e)
        (\<lambda>e. e\<lparr>es_status := E_DISMISSED, es_resolution := Some SUPERSEDED_BY_SEEKER_DISPUTE, es_resolvedAt := Some now\<rparr>) s3 = Inr (u4, s4)" and
    fr: "fresh_id s4 = Inr (j, s5)" and
    rr: "r = \<lparr>rp_id = j, rp_bookingId = bk_id b, rp_reporterId = k, rp_reportedUserId = bk_providerId b,
        rp_reason = (case reason of None \<Rightarrow> POOR_SERVICE_QUALITY | Some r \<Rightarrow> r), rp_reportType = RT_COMPLETION_DISPUTE, rp_dedupeKey = None,
        rp_status = RP_PENDING, rp_adminId = None, rp_resolvedAt = None\<rparr>" and
    ur: "modify (reports_update (\<lambda>rs. rs @ [r])) s5 = Inr (u6, s6)" and
    nt: "recordLifecycleNotice (parties b) [plain_notice (bk_providerId b) ''Completion disputed''] None s6 = Inr (rec, s7)" and
    na: "recordAdminNotifications ''Completion dispute requires review'' s7 = Inr (adm, s')"
    unfolding dispute_job_def tx_open by blast
  define pst where "pst = (if bk_paymentMethod b = OnsiteCash then P_UNPAID else P_FROZEN_HELD)"
  have i: "bk_id b = i" using find_booking_mem[OF b] by simp
  have s1: "s1 = s" using assertNoRefund_same[OF nr] assertNoFinancial_same[OF nf] by simp
  have c2: "calm_rel s s2" unfolding s1[symmetric]
    by (rule calm.staysD[OF calm_update_booking ub]) (simp add: bk_key_def)
  have s2: "find_booking i s2 = Some (b\<lparr>bk_status := B_DISPUTED, bk_statusBeforeDispute := Some B_AWAITING_CONFIRMATION,
      bk_paymentStatus := pst, bk_updatedAt := now\<rparr>)" "queues s2 = queues s" "reports s2 = reports s"
      "transactions s2 = transactions s" "completedServices s2 = completedServices s"
    using ub b by (auto simp: update_booking_def upd_booking_def tx_iff find_booking_def s1 i st pst_def)
  have wf2: "work_wf s2" by (rule calm_wf[OF c2 assms(2)])
  have s3: "work_wf s3 \<and> bookings s3 = bookings s2 \<and> reports s3 = reports s2 \<and> transactions s3 = transactions s2 \<and>
    completedServices s3 = completedServices s2 \<and>
    (\<forall>q. queue_of i s = Some q \<longrightarrow> (\<forall>x \<in> set (queues s3). q_id x = q_id q \<longrightarrow> q_paymentStatus x = pst))"
  proof (cases "queue_of i s")
    case None
    then have "s3 = s2" using uq by (simp add: ret_Inr)
    with wf2 None show ?thesis by simp
  next
    case (Some q)
    then have "s3 = queues_update (map_rows (\<lambda>r. q_id r = q_id q) (\<lambda>r. r\<lparr>q_paymentStatus := pst\<rparr>)) s2"
      using uq by (simp add: upd_queue_def modify_Inr pst_def)
    moreover have "work_wf (queues_update (map_rows (\<lambda>r. q_id r = q_id q) (\<lambda>r. r\<lparr>q_paymentStatus := pst\<rparr>)) s2)"
      by (rule money_entry[OF wf2]) (simp add: q_core_def)
    ultimately show ?thesis using Some by (auto simp: set_map_rows)
  qed
  have s4: "s4 = escalations_update (map_rows (\<lambda>e. es_bookingId e = i \<and> escalation_active e)
        (\<lambda>e. e\<lparr>es_status := E_DISMISSED, es_resolution := Some SUPERSEDED_BY_SEEKER_DISPUTE, es_resolvedAt := Some now\<rparr>)) s3"
    using ue by (simp add: upd_escalations_def modify_Inr i)
  have s6: "s6 = s4\<lparr>nextId := Suc (nextId s4), reports := reports s4 @ [r]\<rparr>"
    using fr ur by (auto simp: fresh_id_def modify_Inr)
  note f7 = quiet_core[OF quiet.staysD[OF quiet_notices(3) nt]] and f8 = quiet_core[OF quiet.staysD[OF quiet_notices(4) na]]
  let ?P = "\<lambda>e. es_bookingId e = i \<and> escalation_active e"
  let ?F = "\<lambda>e. e\<lparr>es_status := E_DISMISSED, es_resolution := Some SUPERSEDED_BY_SEEKER_DISPUTE, es_resolvedAt := Some now\<rparr>"
  have es: "escalations s' = map_rows ?P ?F (escalations s3)"
    by (simp add: f8 f7 s6 s4)
  have "\<forall>e \<in> set (map_rows ?P ?F (escalations s3)). \<not> ?P e"
    by (rule map_rows_clears) (simp add: escalation_active_def)
  then have esc: "\<forall>e \<in> set (escalations s'). es_bookingId e = i \<longrightarrow> \<not> escalation_active e"
    unfolding es by blast
  have "work_wf s6"
    using calm.staysD[OF calm_writes(10) ue] calm.staysD[OF calm_writes(1) fr] calm.staysD[OF calm_messages(8) ur] s3
    by (blast intro: calm_wf)
  then have wf: "work_wf s'"
    using quiet.staysD[OF quiet_notices(3) nt] quiet.staysD[OF quiet_notices(4) na] by (blast intro: calm_wf quiet_calm)
  have fb: "find_booking i s' = find_booking i s2" using s3 by (simp add: find_booking_def f8 f7 s6 s4)
  have qs: "queues s' = queues s3" by (simp add: f8 f7 s6 s4)
  have rest: "reports s' = reports s @ [r]" "transactions s' = transactions s" "completedServices s' = completedServices s"
    using s3 s2 by (simp_all add: f8 f7 s6 s4)
  have dist: "k \<noteq> bk_providerId b" using da by (auto simp: assertDistinctAccounts_def split: if_splits)
  have money: "\<forall>q. queue_of i s = Some q \<longrightarrow> (\<forall>x \<in> set (queues s'). q_id x = q_id q \<longrightarrow> q_paymentStatus x = pst)"
    using s3 unfolding qs by blast
  have rf: "rp_bookingId r = i" "rp_status r = RP_PENDING" "rp_reportType r = RT_COMPLETION_DISPUTE"
    "rp_reporterId r = k" "rp_reportedUserId r = bk_providerId b" by (simp_all add: rr i)
  show ?thesis
    by (rule exI[of _ b], rule exI[of _ pst], intro conjI)
      (rule b k st pst_def wf money rest rf esc dist fb[THEN trans, OF s2(1)])+
qed

text \<open>A dispute freezes a completion: the booking awaiting confirmation becomes disputed and can be
  restored to that state, an online payment is frozen on the booking and on its entry, a pending
  report against the provider is filed, open completion reviews are closed, no money moves, all queues
  stay well formed, and the seeker can neither confirm nor dispute again.\<close>

lemma dispute_freezes:
  assumes "dispute_job now i k reason s = Inr ((r, up, rec, adm), s')" "work_wf s"
  shows "work_wf s' \<and> transactions s' = transactions s \<and> completedServices s' = completedServices s \<and>
    (\<exists>b x. find_booking i s = Some b \<and> bk_seekerId b = k \<and> bk_status b = B_AWAITING_CONFIRMATION \<and>
      find_booking i s' = Some x \<and> bk_status x = B_DISPUTED \<and> bk_statusBeforeDispute x = Some B_AWAITING_CONFIRMATION \<and>
      bk_paymentStatus x = (if bk_paymentMethod b = OnsiteCash then P_UNPAID else P_FROZEN_HELD) \<and>
      (\<forall>q. queue_of i s = Some q \<longrightarrow> (\<forall>y \<in> set (queues s'). q_id y = q_id q \<longrightarrow> q_paymentStatus y = bk_paymentStatus x)) \<and>
      reports s' = reports s @ [r] \<and> rp_bookingId r = i \<and> rp_reportedUserId r = bk_providerId b \<and> report_active r) \<and>
    (\<forall>e \<in> set (escalations s'). es_bookingId e = i \<longrightarrow> \<not> escalation_active e) \<and>
    (\<forall>later why. (\<exists>e. settle later i (BySeekerId k) s' = Inl e) \<and> (\<exists>e. dispute_job later i k why s' = Inl e))"
proof -
  from dispute_job_effect[OF assms] obtain b where b: "find_booking i s = Some b" "bk_seekerId b = k"
    "bk_status b = B_AWAITING_CONFIRMATION" "work_wf s'"
    and x: "find_booking i s' = Some (b\<lparr>bk_status := B_DISPUTED, bk_statusBeforeDispute := Some B_AWAITING_CONFIRMATION,
      bk_paymentStatus := (if bk_paymentMethod b = OnsiteCash then P_UNPAID else P_FROZEN_HELD), bk_updatedAt := now\<rparr>)"
    and rest: "\<forall>q. queue_of i s = Some q \<longrightarrow> (\<forall>x \<in> set (queues s'). q_id x = q_id q \<longrightarrow>
        q_paymentStatus x = (if bk_paymentMethod b = OnsiteCash then P_UNPAID else P_FROZEN_HELD))"
    "reports s' = reports s @ [r]" "rp_bookingId r = i" "rp_status r = RP_PENDING" "rp_reportedUserId r = bk_providerId b"
    "\<forall>e \<in> set (escalations s'). es_bookingId e = i \<longrightarrow> \<not> escalation_active e"
    "transactions s' = transactions s" "completedServices s' = completedServices s" by blast
  have no: "\<exists>e. settle later i (BySeekerId k) s' = Inl e" "\<exists>e. dispute_job later i k why s' = Inl e" for later why
  proof -
    show "\<exists>e. settle later i (BySeekerId k) s' = Inl e"
    proof (rule ccontr)
      assume "\<nexists>e. settle later i (BySeekerId k) s' = Inl e"
      then obtain c2 u2 r2 s2 where "settle later i (BySeekerId k) s' = Inr ((c2, u2, r2), s2)" by (metis sum.exhaust prod.exhaust)
      then show False
        by (rule settle_cases) (use x in \<open>auto dest!: settlement_fault_None simp: is_admin_def\<close>)
    qed
    show "\<exists>e. dispute_job later i k why s' = Inl e"
    proof (rule ccontr)
      assume "\<nexists>e. dispute_job later i k why s' = Inl e"
      then obtain r2 u2 rc2 a2 s2 where "dispute_job later i k why s' = Inr ((r2, u2, rc2, a2), s2)" by (metis sum.exhaust prod.exhaust)
      from dispute_job_effect[OF this b(4)] x show False by auto
    qed
  qed
  have act: "report_active r" using rest(4) by (simp add: report_active_def)
  let ?x = "b\<lparr>bk_status := B_DISPUTED, bk_statusBeforeDispute := Some B_AWAITING_CONFIRMATION,
      bk_paymentStatus := (if bk_paymentMethod b = OnsiteCash then P_UNPAID else P_FROZEN_HELD), bk_updatedAt := now\<rparr>"
  have ps: "bk_paymentStatus ?x = (if bk_paymentMethod b = OnsiteCash then P_UNPAID else P_FROZEN_HELD)" by simp
  have q: "\<forall>q. queue_of i s = Some q \<longrightarrow> (\<forall>y \<in> set (queues s'). q_id y = q_id q \<longrightarrow> q_paymentStatus y = bk_paymentStatus ?x)"
    unfolding ps by (rule rest(1))
  have "\<exists>b x. find_booking i s = Some b \<and> bk_seekerId b = k \<and> bk_status b = B_AWAITING_CONFIRMATION \<and>
      find_booking i s' = Some x \<and> bk_status x = B_DISPUTED \<and> bk_statusBeforeDispute x = Some B_AWAITING_CONFIRMATION \<and>
      bk_paymentStatus x = (if bk_paymentMethod b = OnsiteCash then P_UNPAID else P_FROZEN_HELD) \<and>
      (\<forall>q. queue_of i s = Some q \<longrightarrow> (\<forall>y \<in> set (queues s'). q_id y = q_id q \<longrightarrow> q_paymentStatus y = bk_paymentStatus x)) \<and>
      reports s' = reports s @ [r] \<and> rp_bookingId r = i \<and> rp_reportedUserId r = bk_providerId b \<and> report_active r"
    by (rule exI[of _ b], rule exI, intro conjI, rule b(1), rule b(2), rule b(3), rule x, simp, simp, simp, rule q,
        rule rest(2), rule rest(3), rule rest(5), rule act)
  with b(4) rest(6-8) no show ?thesis by blast
qed


subsection \<open>The work tables\<close>

lemma keeps_start_job: "keeps work_wf (start_job now i p)"
proof (rule keepsI)
  fix s x s' assume "work_wf s" "start_job now i p s = Inr (x, s')"
  then show "work_wf s'" using start_job_keeps by (cases x) auto
qed

lemma keeps_settle: "keeps work_wf (settle now i actor)"
proof (rule keepsI)
  fix s x s' assume wf: "work_wf s" and run: "settle now i actor s = Inr (x, s')"
  obtain c up rec where x: "x = (c, up, rec)" by (cases x)
  from run[unfolded x] show "work_wf s'"
  proof (rule settle_cases)
    fix b assume b: "find_booking i s = Some b"
      and y: "(bk_status b = B_COMPLETED \<and> completed_of i s = Some c \<and> rec = None \<and> s' = s) \<or>
     (settlement_fault actor b = None \<and>
      (\<exists>r. rec = Some r \<and> settle_booking now actor b (queue_of i s) (the (bk_agreedAmount b)) s = Inr ((c, up, r), s')))"
    have i: "bk_id b = i" using find_booking_mem[OF b] by simp
    have b': "find_booking (bk_id b) s = Some b" "queue_of (bk_id b) s = queue_of i s" by (simp_all add: i b)
    from y show "work_wf s'" using wf settle_booking_effect(1)[OF _ wf b'] by auto
  qed
qed

lemma keeps_dispute: "keeps work_wf (dispute_job now i k why)"
proof (rule keepsI)
  fix s x s' assume "work_wf s" "dispute_job now i k why s = Inr (x, s')"
  then show "work_wf s'" using dispute_job_effect by (cases x) blast
qed

lemma jobs_keep_work_wf:
  "p_keeps work_wf (providerStartJob now i p)" "p_keeps work_wf (markJobComplete now i p)"
  "p_keeps work_wf (settleCompletedBooking now i actor)" "p_keeps work_wf (confirmCompletionService now i k)"
  "p_keeps work_wf (disputeJobService now i k why)"
proof -
  show 1: "p_keeps work_wf (settleCompletedBooking now i actor)" for actor
    unfolding settleCompletedBooking_def
    by (intro p_keeps_bind p_keeps_seq p_keeps_case_prod p_keeps_case_option p_keeps_ret p_keeps_transact[OF keeps_settle]
        p_keeps_calm calm_rules)
  show "p_keeps work_wf (confirmCompletionService now i k)" unfolding confirmCompletionService_def by (rule 1)
  show "p_keeps work_wf (providerStartJob now i p)"
    unfolding providerStartJob_def
    by (intro p_keeps_bind p_keeps_seq p_keeps_case_prod p_keeps_ret p_keeps_transact[OF keeps_start_job] p_keeps_calm calm_rules)
  show "p_keeps work_wf (markJobComplete now i p)"
    unfolding markJobComplete_def
    by (intro p_keeps_bind p_keeps_seq p_keeps_case_prod p_keeps_case_option p_keeps_ret
        p_keeps_transact[OF mark_complete_keeps] p_keeps_calm calm_rules)
  show "p_keeps work_wf (disputeJobService now i k why)"
    unfolding disputeJobService_def
    by (intro p_keeps_bind p_keeps_seq p_keeps_case_prod p_keeps_ret p_keeps_transact[OF keeps_dispute] p_keeps_calm calm_rules)
qed

subsection \<open>Witnesses\<close>

definition sample_ready_db :: db where
  "sample_ready_db = empty_db\<lparr>users := [ready_user 1, ready_user 2, ready_user 4],
     bookings := [sample_booking 5 B_ACCEPTED GCash P_PAID_HELD],
     queues := [(sample_queue 6 2 Q_WAITING 1 0)\<lparr>q_bookingId := Some 5\<rparr>], nextId := 50\<rparr>"

definition sample_done_db :: db where
  "sample_done_db = sample_ready_db\<lparr>bookings := [sample_booking 5 B_AWAITING_CONFIRMATION GCash P_PAID_HELD],
     queues := [(sample_queue 6 2 Q_DONE 1 0)\<lparr>q_bookingId := Some 5\<rparr>]\<rparr>"

lemma compact_other: "\<forall>q \<in> set qs. q_providerId q \<noteq> p \<Longrightarrow> compact p qs"
  by (simp add: compact_def one_serving_def count_rows_def waiting_line_def is_waiting_def is_serving_def
      filter_empty_conv[THEN iffD2])

lemma work_wf_sample_ready: "work_wf sample_ready_db" "work_wf sample_done_db"
proof -
  have c: "compact p (queues s)" if "compact 2 (queues s)" "\<forall>q \<in> set (queues s). q_providerId q = 2" for p and s :: db
    using that compact_other[of "queues s" p] by (cases "p = 2") auto
  have "compact 2 (queues sample_ready_db)" "compact 2 (queues sample_done_db)" by code_simp+
  with c[of sample_ready_db] c[of sample_done_db]
  show "work_wf sample_ready_db" "work_wf sample_done_db"
    by (simp_all add: work_wf_def queue_wf_def queue_ids_distinct_def table_ids_def queue_links_def
        sample_ready_db_def sample_done_db_def sample_queue_def sample_booking_def empty_db_def)
qed

theorem start_job_first_come_witness:
  "\<exists>b q rec s'. start_job 9 5 2 sample_ready_db = Inr ((b, q, rec), s') \<and> work_wf s' \<and>
     (\<exists>e. start_job 10 5 2 s' = Inl e)"
proof -
  have "\<not> isl (start_job 9 5 2 sample_ready_db)" by code_simp
  then obtain b q rec s' where run: "start_job 9 5 2 sample_ready_db = Inr ((b, q, rec), s')" by (auto dest: runs)
  from start_job_first_come[OF run work_wf_sample_ready(1)] run show ?thesis by blast
qed



end
