(* ===== verification/SH_Offers.thy ===== *)
theory SH_Offers
  imports SH_Jobs
begin

text \<open>
  Offers on service requests (src/src/services/offers.service.ts): submitting one, listing the received
  ones, the acceptance that sends the seeker on to a payment method, and the withdrawal by the
  provider or rejection by the seeker.

  \<open>offers_wf\<close> is what every operation on offers keeps: distinct ids, at most one selected offer
  (accepted or awaiting payment) per request and none while the request is open, and at most one live
  offer of a provider on a request.
\<close>

subsection \<open>Submitting\<close>

text \<open>The parameters that the rules read; \<open>message\<close> is the text that explains the price.\<close>

record offer_params =
  sp_requestId :: key
  sp_serviceId :: "key option"
  sp_offeredPrice :: decimal
  sp_estimatedDuration :: int
  sp_message :: "string option"
  sp_mode :: "location_mode option"
  sp_venue :: "job_location option"

definition live_offer :: "offer_row \<Rightarrow> bool" where
  "live_offer f \<longleftrightarrow> of_status f \<in> {O_PENDING, O_PENDING_PAYMENT, O_ACCEPTED}"

text \<open>A booking that grew out of an offer of the request and was not called off.\<close>

definition request_matched :: "key \<Rightarrow> db \<Rightarrow> bool" where
  "request_matched requestId s \<longleftrightarrow> exists_row (\<lambda>b. request_of_offer (bk_offerId b) s = Some requestId \<and>
     bk_status b \<notin> {B_DECLINED, B_CANCELED, B_REMOVED}) (bookings s)"

definition needs_explanation :: "request_row \<Rightarrow> bool" where
  "needs_explanation request \<longleftrightarrow> rq_targetServiceId request \<noteq> None \<and> rq_preferredPaymentMethod request = None"

definition insert_offer ::
  "time \<Rightarrow> key \<Rightarrow> offer_params \<Rightarrow> request_row \<Rightarrow> location_mode \<times> job_location option \<Rightarrow> (offer_row \<times> key) dbtx" where
  "insert_offer now providerId p request arr =
     tx_bind fresh_id (\<lambda>i.
     let f = \<lparr>of_id = i, of_requestId = sp_requestId p, of_providerId = providerId, of_serviceId = sp_serviceId p,
        of_offeredPrice = sp_offeredPrice p, of_estimatedDuration = sp_estimatedDuration p,
        of_serviceLocationMode = Some (fst arr), of_providerVenue = snd arr, of_status = O_PENDING,
        of_paymentHoldExpiresAt = None, of_createdAt = now\<rparr> in
     tx_seq (modify (offers_update (\<lambda>fs. fs @ [f])))
    (tx_seq (notify (rq_seekerId request) (if rq_targetServiceId request \<noteq> None then ''Service price proposed'' else ''New Offer Received''))
    (ret (f, rq_seekerId request))))"

definition offered_listing_ok :: "offer_params \<Rightarrow> key \<Rightarrow> request_row \<Rightarrow> service_row option \<Rightarrow> bool" where
  "offered_listing_ok p providerId request service \<longleftrightarrow> sp_serviceId p = None \<or> (case service of None \<Rightarrow> False
     | Some v \<Rightarrow> sv_providerId v = providerId \<and> sv_categoryId v = rq_categoryId request \<and>
         sv_status v = S_ACTIVE \<and> sv_isAvailable v)"

definition same_live_offer :: "offer_params \<Rightarrow> key \<Rightarrow> db \<Rightarrow> bool" where
  "same_live_offer p providerId s \<longleftrightarrow>
     exists_row (\<lambda>f. of_requestId f = sp_requestId p \<and> of_providerId f = providerId \<and> live_offer f) (offers s)"

definition place_offer :: "time \<Rightarrow> key \<Rightarrow> offer_params \<Rightarrow> request_row \<Rightarrow> (offer_row \<times> key) dbtx" where
  "place_offer now providerId p request =
     tx_bind (query (\<lambda>s. (request_matched (sp_requestId p) s, Option.bind (sp_serviceId p) (\<lambda>i. find_service i s),
        same_live_offer p providerId s)))
      (\<lambda>(matched, service, duplicate).
     tx_seq (ensure (\<not> matched) (Http 409 ''REQUEST_ALREADY_MATCHED''))
    (tx_seq (ensure (rq_status request = RQ_OPEN) (Http 400 ''This service request is currently paused or closed''))
    (tx_seq (ensure (offered_listing_ok p providerId request service) (Http 400 ''OFFER_LISTING_UNAVAILABLE''))
    (tx_seq (ensure (\<not> (needs_explanation request \<and> map_option sv_priceType service \<noteq> Some BY_AGREEMENT))
        (Http 409 ''FIXED_PRICE_BOOKING_REQUIRED''))
    (tx_bind (lift_sum (resolveOfferArrangement request service (sp_mode p) (sp_venue p))) (\<lambda>arr.
     tx_seq (ensure (\<not> duplicate) (Http 409 ''DUPLICATE_OFFER''))
    (insert_offer now providerId p request arr)))))))"

definition submit_offer :: "time \<Rightarrow> key \<Rightarrow> offer_params \<Rightarrow> (offer_row \<times> key) dbtx" where
  "submit_offer now providerId p =
     tx_bind (query (find_request (sp_requestId p))) (\<lambda>found.
     tx_bind (expect (Http 404 ''This service request is no longer available.'') found) (\<lambda>request.
     tx_seq (lift_sum (assertDistinctAccounts providerId (rq_seekerId request)))
    (tx_seq (assertOfferParticipant providerId AsProvider)
    (tx_bind (assertNewProviderBusiness now providerId) (\<lambda>_.
     tx_seq (assertOfferParticipant (rq_seekerId request) AsSeeker)
    (tx_seq (lift_sum (assertOfferTarget request providerId (sp_serviceId p)))
    (tx_seq (ensure (\<not> (needs_explanation request \<and>
          (case sp_message p of None \<Rightarrow> True | Some m \<Rightarrow> length (trim m) < 10)))
        (Http 400 ''Explain what is included in your price using at least 10 characters.''))
    (place_offer now providerId p request))))))))"

definition submitOffer :: "time \<Rightarrow> key \<Rightarrow> offer_params \<Rightarrow> (db, offer_row \<times> string option) process" where
  "submitOffer now providerId p =
     p_bind (transact (submit_offer now providerId p)) (\<lambda>(offer, seekerId).
     p_seq (transact (tx_seq (emit (RUser seekerId) ''notification'' ''New Offer Received'')
       (tx_seq (emit (RUser seekerId) ''OFFERS_CHANGED'' ''PENDING'')
       (emit (RUser providerId) ''OFFERS_CHANGED'' ''PENDING''))))
    (p_ret (publicOffer offer)))"


subsection \<open>Listing and choosing\<close>

definition provider_score :: "offer_row \<Rightarrow> db \<Rightarrow> int" where
  "provider_score f s = (case find_user (of_providerId f) s of None \<Rightarrow> 0 | Some u \<Rightarrow> u_trustScore u)"

definition listReceivedOffers :: "key \<Rightarrow> db \<Rightarrow> (offer_row \<times> string option) list" where
  "listReceivedOffers seekerId s =
     (let mine = map rq_id (filter (\<lambda>r. rq_seekerId r = seekerId) (requests s))
      in map publicOffer (sort_key (\<lambda>f. (- provider_score f s, of_createdAt f))
           (filter (\<lambda>f. of_requestId f \<in> set mine) (offers s))))"

text \<open>Accepting never selects: it ends with the error that asks for a payment method.\<close>

definition acceptOffer :: "key \<Rightarrow> key \<Rightarrow> unit dbtx" where
  "acceptOffer offerId seekerId =
     tx_bind (query (offer_with_request offerId)) (\<lambda>found. case found of
       None \<Rightarrow> fail (Http 404 ''Offer not found'')
     | Some (offer, request) \<Rightarrow>
       tx_seq (ensure (rq_seekerId request = seekerId) (Http 403 ''Not authorized''))
      (tx_seq (ensure (rq_status request = RQ_OPEN) (Http 400 ''Request is no longer open''))
      (tx_seq (ensure (seekerId \<noteq> of_providerId offer) (Http 403 ''SELF_TRANSACTION_NOT_ALLOWED''))
      (fail (Http 409 ''PAYMENT_METHOD_REQUIRED'')))))"

subsection \<open>Withdrawing and rejecting\<close>

definition offer_decided :: "key \<Rightarrow> bool \<Rightarrow> offer_row \<Rightarrow> db \<Rightarrow> bool" where
  "offer_decided offerId isProvider current s \<longleftrightarrow>
     of_status current = (if isProvider then O_WITHDRAWN else O_REJECTED) \<and>
     (isProvider \<or> exists_row (\<lambda>n. nt_id n = N_OfferDeclined offerId) (notifications s))"

definition decide_offer :: "offer_row \<Rightarrow> request_row \<Rightarrow> bool \<Rightarrow> offer_row \<Rightarrow> request_row \<Rightarrow> (offer_row \<times> bool) dbtx" where
  "decide_offer offer request isProvider current crequest =
     (let closesInquiry = needs_explanation crequest in
     tx_seq (ensure (of_status current = O_PENDING \<and> rq_status crequest = RQ_OPEN)
        (Http 409 ''Only an open, pending unpaid offer can be withdrawn or rejected''))
    (tx_seq (upd_offer (of_id offer) (\<lambda>f. f\<lparr>of_status := (if isProvider then O_WITHDRAWN else O_REJECTED)\<rparr>))
    (tx_seq (when_tx closesInquiry (upd_request (of_requestId offer) (\<lambda>r. r\<lparr>rq_status := RQ_CANCELED\<rparr>)))
    (tx_seq (if isProvider
        then notify_as (if closesInquiry then N_PriceWithdrawn (of_id offer) else N_OfferWithdrawn (of_id offer))
               (rq_seekerId request) (if closesInquiry then ''Proposed price withdrawn'' else ''Offer withdrawn'')
        else notify_as (N_OfferDeclined (of_id offer)) (of_providerId offer) ''Offer declined'')
    (tx_bind (query (find_offer (of_id offer))) (\<lambda>updated.
     tx_bind (expect (Uncoded ''NotFoundError'') updated) (\<lambda>f. ret (f, closesInquiry))))))))"

text \<open>The result: the offer, whether it changed, and whether the inquiry was closed with it.\<close>

definition reject_offer :: "offer_row \<Rightarrow> request_row \<Rightarrow> bool \<Rightarrow> (offer_row \<times> bool \<times> bool) dbtx" where
  "reject_offer offer request isProvider =
     tx_bind (query (\<lambda>s. (offer_with_request (of_id offer) s, s))) (\<lambda>(found, s). case found of
       None \<Rightarrow> fail (Uncoded ''NotFoundError'')
     | Some (current, crequest) \<Rightarrow>
       if offer_decided (of_id offer) isProvider current s then ret (current, False, False)
       else tx_bind (decide_offer offer request isProvider current crequest) (\<lambda>(f, closes). ret (f, True, closes)))"

definition publish_rejection :: "offer_row \<Rightarrow> request_row \<Rightarrow> bool \<Rightarrow> bool \<Rightarrow> unit dbtx" where
  "publish_rejection offer request isProvider closesInquiry =
     (let event = (if isProvider then ''offer_withdrawn'' else ''offer_declined'');
          seekerId = rq_seekerId request; providerId = of_providerId offer in
      tx_seq (emit (RUser seekerId) ''OFFERS_CHANGED'' event)
     (tx_seq (emit (RUser providerId) ''OFFERS_CHANGED'' event)
     (tx_seq (when_tx closesInquiry (for_each (\<lambda>k. emit (RUser k) ''SERVICE_REQUESTS_CHANGED'' ''CANCELED'') [seekerId, providerId]))
     (if isProvider then emit (RUser seekerId) ''notification''
          (if closesInquiry then ''Proposed price withdrawn'' else ''Offer withdrawn'')
      else emit (RUser providerId) ''notification'' ''Offer declined''))))"

definition rejectOffer :: "key \<Rightarrow> key \<Rightarrow> (db, offer_row \<times> string option) process" where
  "rejectOffer offerId userId =
     p_bind (transact (query (offer_with_request offerId))) (\<lambda>found. case found of
       None \<Rightarrow> transact (fail (Http 404 ''Offer not found''))
     | Some (offer, request) \<Rightarrow>
       let isSeeker = (rq_seekerId request = userId); isProvider = (of_providerId offer = userId) in
       if \<not> isSeeker \<and> \<not> isProvider then transact (fail (Http 403 ''Not authorized''))
       else p_bind (transact (reject_offer offer request isProvider)) (\<lambda>(updated, changed, closesInquiry).
         p_seq (if changed then transact (publish_rejection offer request isProvider closesInquiry) else p_ret ())
        (p_ret (publicOffer updated))))"


subsection \<open>At most one selected offer per request\<close>

definition selected :: "offer_row \<Rightarrow> bool" where
  "selected f \<longleftrightarrow> of_status f \<in> {O_PENDING_PAYMENT, O_ACCEPTED}"

definition one_selected :: "offer_row set \<Rightarrow> bool" where
  "one_selected F \<longleftrightarrow> (\<forall>f \<in> F. \<forall>g \<in> F. selected f \<longrightarrow> selected g \<longrightarrow> of_requestId f = of_requestId g \<longrightarrow> of_id f = of_id g)"

definition one_live :: "offer_row set \<Rightarrow> bool" where
  "one_live F \<longleftrightarrow> (\<forall>f \<in> F. \<forall>g \<in> F. live_offer f \<longrightarrow> live_offer g \<longrightarrow> of_requestId f = of_requestId g \<longrightarrow>
     of_providerId f = of_providerId g \<longrightarrow> of_id f = of_id g)"

definition open_ids :: "db \<Rightarrow> key set" where
  "open_ids s = rq_id ` {r \<in> set (requests s). rq_status r = RQ_OPEN}"

definition offers_wf :: "db \<Rightarrow> bool" where
  "offers_wf s \<longleftrightarrow> distinct (map of_id (offers s)) \<and> (\<forall>f \<in> set (offers s). of_id f < nextId s) \<and>
     one_selected (set (offers s)) \<and> one_live (set (offers s)) \<and>
     (\<forall>f \<in> set (offers s). selected f \<longrightarrow> of_requestId f \<notin> open_ids s)"

text \<open>Transactions that leave the offers alone and open no request.\<close>

definition shop_rel :: "db \<Rightarrow> db \<Rightarrow> bool" where
  "shop_rel s s' \<longleftrightarrow> offers s' = offers s \<and> nextId s \<le> nextId s' \<and> open_ids s' \<subseteq> open_ids s"

interpretation shop: step_rel shop_rel
  by unfold_locales (auto simp: shop_rel_def)

lemma quiet_shop: "quiet_rel s s' \<Longrightarrow> shop_rel s s'"
  by (simp add: quiet_rel_def core_of_def shop_rel_def open_ids_def)

lemma shop_wf: "shop_rel s s' \<Longrightarrow> offers_wf s \<Longrightarrow> offers_wf s'"
  by (auto simp: shop_rel_def offers_wf_def intro: less_le_trans)

lemma shop_keeps: "shop.stays m \<Longrightarrow> keeps offers_wf m"
  by (rule keepsI) (blast dest: shop.staysD shop_wf)

lemma quiet_keeps_offers: "quiet.stays m \<Longrightarrow> keeps offers_wf m"
  by (rule keepsI) (blast dest: quiet.staysD quiet_shop shop_wf)

lemma open_ids_closing:
  "(\<And>r. rq_id (f r) = rq_id r) \<Longrightarrow> (\<And>r. rq_status (f r) = RQ_OPEN \<Longrightarrow> rq_status r = RQ_OPEN) \<Longrightarrow>
   requests s' = map_rows P f (requests s) \<Longrightarrow> open_ids s' \<subseteq> open_ids s"
  by (fastforce simp: open_ids_def set_map_rows)

text \<open>Rewriting offers row by row: their identity stays, no offer comes alive, and what is selected
  afterwards was selected before.\<close>

lemma offers_wf_map:
  assumes "offers_wf s" "offers s' = map h (offers s)" "nextId s \<le> nextId s'"
    "\<And>f. of_id (h f) = of_id f \<and> of_requestId (h f) = of_requestId f \<and> of_providerId (h f) = of_providerId f"
    "\<And>f. f \<in> set (offers s) \<Longrightarrow> live_offer (h f) \<Longrightarrow> live_offer f"
    "\<And>f g. f \<in> set (offers s) \<Longrightarrow> g \<in> set (offers s) \<Longrightarrow> selected (h f) \<Longrightarrow> selected (h g) \<Longrightarrow>
      of_requestId f = of_requestId g \<Longrightarrow> of_id f = of_id g"
    "\<And>f. f \<in> set (offers s) \<Longrightarrow> selected (h f) \<Longrightarrow> of_requestId f \<notin> open_ids s'"
  shows "offers_wf s'"
proof -
  have k: "of_id (h f) = of_id f" "of_requestId (h f) = of_requestId f" "of_providerId (h f) = of_providerId f" for f
    using assms(4) by simp_all
  have mem: "\<exists>f \<in> set (offers s). x = h f" if "x \<in> set (offers s')" for x using that assms(2) by auto
  have wf: "distinct (map of_id (offers s))" "\<And>f. f \<in> set (offers s) \<Longrightarrow> of_id f < nextId s"
    "\<And>f g. f \<in> set (offers s) \<Longrightarrow> g \<in> set (offers s) \<Longrightarrow> live_offer f \<Longrightarrow> live_offer g \<Longrightarrow>
      of_requestId f = of_requestId g \<Longrightarrow> of_providerId f = of_providerId g \<Longrightarrow> of_id f = of_id g"
    using assms(1) unfolding offers_wf_def one_live_def by blast+
  have "map of_id (offers s') = map of_id (offers s)" by (simp add: assms(2) k)
  then have 1: "distinct (map of_id (offers s'))" using wf(1) by simp
  have 2: "of_id x < nextId s'" if "x \<in> set (offers s')" for x
    using mem[OF that] wf(2) assms(3) k(1) by (metis less_le_trans)
  have 3: "one_selected (set (offers s'))" unfolding one_selected_def
  proof (intro ballI impI)
    fix x y assume "x \<in> set (offers s')" "y \<in> set (offers s')" and sel: "selected x" "selected y" "of_requestId x = of_requestId y"
    then obtain f g where "f \<in> set (offers s)" "x = h f" "g \<in> set (offers s)" "y = h g" using mem by blast
    with assms(6)[of f g] sel k show "of_id x = of_id y" by simp
  qed
  have 4: "one_live (set (offers s'))" unfolding one_live_def
  proof (intro ballI impI)
    fix x y assume "x \<in> set (offers s')" "y \<in> set (offers s')" and l: "live_offer x" "live_offer y"
      "of_requestId x = of_requestId y" "of_providerId x = of_providerId y"
    then obtain f g where fg: "f \<in> set (offers s)" "x = h f" "g \<in> set (offers s)" "y = h g" using mem by blast
    with assms(5)[of f] assms(5)[of g] wf(3)[of f g] l k show "of_id x = of_id y" by simp
  qed
  have 5: "of_requestId x \<notin> open_ids s'" if x: "x \<in> set (offers s')" "selected x" for x
  proof -
    obtain f where "f \<in> set (offers s)" "x = h f" using mem[OF x(1)] by blast
    with assms(7)[of f] x(2) k(2) show ?thesis by simp
  qed
  show ?thesis unfolding offers_wf_def using 1 2 3 4 5 by blast
qed

lemma offers_wf_shrink:
  assumes "offers_wf s" "offers s' = map h (offers s)" "nextId s \<le> nextId s'"
    "\<And>f. of_id (h f) = of_id f \<and> of_requestId (h f) = of_requestId f \<and> of_providerId (h f) = of_providerId f"
    "\<And>f. f \<in> set (offers s) \<Longrightarrow> live_offer (h f) \<Longrightarrow> live_offer f"
    "\<And>f. f \<in> set (offers s) \<Longrightarrow> selected (h f) \<Longrightarrow> selected f"
    "\<And>f. f \<in> set (offers s) \<Longrightarrow> selected (h f) \<Longrightarrow> of_requestId f \<notin> open_ids s'"
  shows "offers_wf s'"
proof (rule offers_wf_map[OF assms(1-5) _ assms(7)])
  fix f g assume "f \<in> set (offers s)" "g \<in> set (offers s)" "selected (h f)" "selected (h g)" "of_requestId f = of_requestId g"
  then show "of_id f = of_id g" using assms(1,6) unfolding offers_wf_def one_selected_def by blast
qed

text \<open>Selecting an offer of an open request, which leaves \<open>OPEN\<close> with it.\<close>

lemma offers_wf_select:
  assumes "offers_wf s" "offers s' = map h (offers s)" "nextId s \<le> nextId s'" "rq \<in> open_ids s"
    "open_ids s' \<subseteq> open_ids s - {rq}"
    "\<And>f. of_id (h f) = of_id f \<and> of_requestId (h f) = of_requestId f \<and> of_providerId (h f) = of_providerId f"
    "\<And>f. f \<in> set (offers s) \<Longrightarrow> live_offer (h f) \<Longrightarrow> live_offer f"
    "\<And>f. f \<in> set (offers s) \<Longrightarrow> selected (h f) \<Longrightarrow> selected f \<or> of_id f = i \<and> of_requestId f = rq"
  shows "offers_wf s'"
proof (rule offers_wf_map[OF assms(1-3,6,7)])
  have old: "of_requestId f \<notin> open_ids s" if "f \<in> set (offers s)" "selected f" for f
    using assms(1) that unfolding offers_wf_def by blast
  then have new: "of_id f = i" if "f \<in> set (offers s)" "selected (h f)" "of_requestId f = rq" for f
    using assms(8)[OF that(1,2)] that assms(4) by blast
  fix f g assume fg: "f \<in> set (offers s)" "g \<in> set (offers s)" "selected (h f)" "selected (h g)" "of_requestId f = of_requestId g"
  show "of_id f = of_id g"
  proof (cases "of_requestId f = rq")
    case True
    with new[of f] new[of g] fg show ?thesis by simp
  next
    case False
    with fg have "selected f" "selected g" using assms(8)[of f] assms(8)[of g] by auto
    with fg assms(1) show ?thesis unfolding offers_wf_def one_selected_def by blast
  qed
next
  fix f assume "f \<in> set (offers s)" "selected (h f)"
  from assms(8)[OF this] this(1) show "of_requestId f \<notin> open_ids s'"
    using assms(1,5) unfolding offers_wf_def by blast
qed


subsection \<open>Every operation on offers keeps it\<close>

lemma find_offer_mem: "find_offer i s = Some f \<Longrightarrow> f \<in> set (offers s) \<and> of_id f = i"
  by (auto simp: find_offer_def dest: find_row_Some)

lemma offers_wf_distinct: "offers_wf s \<Longrightarrow> distinct (map of_id (offers s))"
  by (simp add: offers_wf_def)

lemma offers_wf_unique: "offers_wf s \<Longrightarrow> f \<in> set (offers s) \<Longrightarrow> g \<in> set (offers s) \<Longrightarrow> of_id f = of_id g \<Longrightarrow> f = g"
  by (auto simp: offers_wf_def distinct_map inj_on_def)

lemma offer_with_request_Some:
  assumes "offer_with_request i s = Some (f, r)"
  shows "find_offer i s = Some f" "find_request (of_requestId f) s = Some r"
  using assms by (auto simp: offer_with_request_def split: option.splits)

lemma find_request_open: "find_request i s = Some r \<Longrightarrow> rq_status r = RQ_OPEN \<Longrightarrow> i \<in> open_ids s"
  unfolding find_request_def open_ids_def by (auto dest: find_row_Some)

lemma open_ids_iff: "i \<in> open_ids s \<longleftrightarrow> (\<exists>r \<in> set (requests s). rq_id r = i \<and> rq_status r = RQ_OPEN)"
  by (auto simp: open_ids_def)

lemma open_ids_close:
  assumes "requests s' = map_rows (\<lambda>r. rq_id r = i) (\<lambda>r. r\<lparr>rq_status := st\<rparr>) (requests s)" "st \<noteq> RQ_OPEN"
  shows "open_ids s' \<subseteq> open_ids s - {i}"
proof
  fix x assume "x \<in> open_ids s'"
  then obtain r where r: "r \<in> set (requests s)"
    "rq_id (if rq_id r = i then r\<lparr>rq_status := st\<rparr> else r) = x"
    "rq_status (if rq_id r = i then r\<lparr>rq_status := st\<rparr> else r) = RQ_OPEN"
    unfolding open_ids_iff assms(1) set_map_rows by blast
  then have "rq_id r \<noteq> i" using assms(2) by (cases "rq_id r = i") simp_all
  with r show "x \<in> open_ids s - {i}" by (auto simp: open_ids_iff)
qed

lemma select_offer_keeps:
  assumes "offers_wf s" "select_offer i rq s = Inr (ls, s')" "find_offer i s = Some f" "of_requestId f = rq"
    "nextId s \<le> nextId s'"
  shows "offers_wf s'"
proof -
  note e = select_offer_effect[OF assms(2) offers_wf_distinct[OF assms(1)]]
  define a :: "offer_row \<Rightarrow> offer_row" where "a = (\<lambda>g. if of_id g = i then g\<lparr>of_status := O_ACCEPTED\<rparr> else g)"
  define b :: "offer_row \<Rightarrow> offer_row" where "b = (\<lambda>g. if offer_pending_of rq i g then offer_closed g else g)"
  define h where "h = b \<circ> a"
  have m: "map_rows (\<lambda>f. of_id f = i) (\<lambda>f. f\<lparr>of_status := O_ACCEPTED\<rparr>) = map a" "map_rows (offer_pending_of rq i) offer_closed = map b"
    by (simp_all add: fun_eq_iff map_rows_def a_def b_def)
  have os: "offers s' = map h (offers s)" unfolding e(3) m h_def by simp
  have keys: "of_id (h g) = of_id g \<and> of_requestId (h g) = of_requestId g \<and> of_providerId (h g) = of_providerId g" for g
    by (simp add: h_def a_def b_def)
  obtain r where "find_request rq s = Some r" "rq_status r = RQ_OPEN" using e(2) by auto
  then have rq: "rq \<in> open_ids s" by (rule find_request_open)
  have sel: "of_status f = O_PENDING" using e(1) assms(3) by (auto simp: selectable_def offer_with_request_def split: option.splits)
  have row: "g = f" if "g \<in> set (offers s)" "of_id g = i" for g
    using offers_wf_unique[OF assms(1) that(1)] find_offer_mem[OF assms(3)] that(2) by simp
  show ?thesis
  proof (rule offers_wf_select[OF assms(1) os assms(5) rq open_ids_close[OF e(4)] keys])
    show "live_offer g" if "g \<in> set (offers s)" "live_offer (h g)" for g
      using that(2) sel row[OF that(1)] by (auto simp: h_def a_def b_def live_offer_def offer_closed_def split: if_splits)
    show "selected g \<or> of_id g = i \<and> of_requestId g = rq" if "g \<in> set (offers s)" "selected (h g)" for g
      using that(2) row[OF that(1)] assms(4) by (auto simp: h_def a_def b_def selected_def offer_closed_def split: if_splits)
  qed simp
qed

lemma insert_offer_effect:
  assumes "insert_offer now p pr r arr s = Inr ((f, k), s')"
  shows "offers s' = offers s @ [f]" "of_id f = nextId s" "of_requestId f = sp_requestId pr" "of_providerId f = p"
    "of_status f = O_PENDING" "of_offeredPrice f = sp_offeredPrice pr" "k = rq_seekerId r" "requests s' = requests s"
    "bookings s' = bookings s" "nextId s < nextId s'" "queues s' = queues s"
  using assms by (auto simp: insert_offer_def fresh_id_def notify_def tx_iff Let_def)

lemma submit_offer_effect:
  assumes "submit_offer now p pr s = Inr ((f, k), s')"
  shows "\<exists>t r arr. quiet_rel s t \<and> find_request (sp_requestId pr) s = Some r \<and> rq_status r = RQ_OPEN \<and> rq_seekerId r \<noteq> p \<and>
    \<not> request_matched (sp_requestId pr) t \<and> \<not> same_live_offer pr p t \<and> insert_offer now p pr r arr t = Inr ((f, k), s')"
proof -
  from assms obtain r u0 u1 u2 u3 u4 u5 u6 where
    r: "find_request (sp_requestId pr) s = Some r"
    and dis: "assertDistinctAccounts p (rq_seekerId r) = Inr u0"
    and m0: "assertOfferParticipant p AsProvider s = Inr (u1, u2)"
    and m1: "assertNewProviderBusiness now p u2 = Inr (u3, u4)"
    and m2: "assertOfferParticipant (rq_seekerId r) AsSeeker u4 = Inr (u5, u6)"
    and place: "place_offer now p pr r u6 = Inr ((f, k), s')"
    unfolding submit_offer_def tx_bind_Inr tx_seq_Inr query_Inr ensure_Inr lift_sum_Inr expect_Inr by blast
  from m0 m2 have e: "u2 = s" "u6 = u4" by (simp_all add: assertOfferParticipant_Inr)
  from place obtain arr where "\<not> request_matched (sp_requestId pr) u4" "rq_status r = RQ_OPEN"
    "\<not> same_live_offer pr p u4" "insert_offer now p pr r arr u4 = Inr ((f, k), s')"
    unfolding place_offer_def tx_open e by blast
  moreover have "quiet_rel s u4" using quiet.staysD[OF quiet_trial(2) m1] by (simp add: e)
  ultimately show ?thesis using r dis[unfolded assertDistinctAccounts_Inr] by blast
qed


lemma offers_wf_append:
  assumes "offers_wf s" "offers s' = offers s @ [f]" "requests s' = requests s" "of_id f = nextId s" "nextId s < nextId s'"
    "of_status f = O_PENDING"
    "\<And>g. g \<in> set (offers s) \<Longrightarrow> live_offer g \<Longrightarrow> of_requestId g = of_requestId f \<Longrightarrow> of_providerId g \<noteq> of_providerId f"
  shows "offers_wf s'"
proof -
  let ?F = "set (offers s)"
  have F: "set (offers s') = insert f ?F" by (simp add: assms(2))
  have wf: "distinct (map of_id (offers s))" "\<And>g. g \<in> ?F \<Longrightarrow> of_id g < nextId s" "one_selected ?F" "one_live ?F"
    "\<And>g. g \<in> ?F \<Longrightarrow> selected g \<Longrightarrow> of_requestId g \<notin> open_ids s"
    using assms(1) unfolding offers_wf_def by blast+
  have ns: "\<not> selected f" by (simp add: selected_def assms(6))
  have o: "open_ids s' = open_ids s" by (simp add: open_ids_def assms(3))
  have "of_id f \<notin> of_id ` ?F" using wf(2) assms(4) by (metis image_iff less_irrefl)
  then have 1: "distinct (map of_id (offers s'))" using wf(1) by (simp add: assms(2))
  have 2: "of_id g < nextId s'" if "g \<in> insert f ?F" for g
    using that wf(2) assms(4,5) by (metis insert_iff less_trans)
  have 3: "one_selected (insert f ?F)" using wf(3) ns unfolding one_selected_def by blast
  have 4: "one_live (insert f ?F)" using wf(4) assms(7) unfolding one_live_def by (metis insert_iff)
  have 5: "of_requestId g \<notin> open_ids s'" if "g \<in> insert f ?F" "selected g" for g
    using that wf(5) ns unfolding o by blast
  show ?thesis unfolding offers_wf_def F using 1 2 3 4 5 by blast
qed

lemma keeps_submit_offer: "keeps offers_wf (submit_offer now p pr)"
proof (rule keepsI)
  fix s x s' assume wf: "offers_wf s" and run: "submit_offer now p pr s = Inr (x, s')"
  obtain f k where x: "x = (f, k)" by (cases x)
  from submit_offer_effect[OF run[unfolded x]] obtain t r arr where t: "quiet_rel s t" "\<not> same_live_offer pr p t"
    "insert_offer now p pr r arr t = Inr ((f, k), s')" by blast
  note e = insert_offer_effect[OF t(3)]
  show "offers_wf s'"
    by (rule offers_wf_append[OF shop_wf[OF quiet_shop[OF t(1)] wf] e(1) e(8) e(2) e(10) e(5)])
      (use t(2) in \<open>auto simp: same_live_offer_def e\<close>)
qed

lemma decide_offer_effect:
  assumes "decide_offer offer request isProvider cur r s = Inr ((f, closes), s')"
  shows "of_status cur = O_PENDING" "rq_status r = RQ_OPEN" "closes = needs_explanation r"
    "offers s' = map_rows (\<lambda>g. of_id g = of_id offer) (\<lambda>g. g\<lparr>of_status := (if isProvider then O_WITHDRAWN else O_REJECTED)\<rparr>) (offers s)"
    "requests s' = (if closes then map_rows (\<lambda>r. rq_id r = of_requestId offer) (\<lambda>r. r\<lparr>rq_status := RQ_CANCELED\<rparr>) (requests s) else requests s)"
    "nextId s' = nextId s" "find_offer (of_id offer) s' = Some f"
    "\<not> isProvider \<Longrightarrow> N_OfferDeclined (of_id offer) \<in> nt_id ` set (notifications s')"
proof -
  from assms obtain u1 s1 u2 s2 u3 where c: "of_status cur = O_PENDING" "rq_status r = RQ_OPEN" "closes = needs_explanation r"
    and r1: "upd_offer (of_id offer) (\<lambda>f. f\<lparr>of_status := (if isProvider then O_WITHDRAWN else O_REJECTED)\<rparr>) s = Inr (u1, s1)"
    and r2: "when_tx closes (upd_request (of_requestId offer) (\<lambda>r. r\<lparr>rq_status := RQ_CANCELED\<rparr>)) s1 = Inr (u2, s2)"
    and r3: "(if isProvider
        then notify_as (if closes then N_PriceWithdrawn (of_id offer) else N_OfferWithdrawn (of_id offer))
               (rq_seekerId request) (if closes then ''Proposed price withdrawn'' else ''Offer withdrawn'')
        else notify_as (N_OfferDeclined (of_id offer)) (of_providerId offer) ''Offer declined'') s2 = Inr (u3, s')"
    and f: "find_offer (of_id offer) s' = Some f"
    unfolding decide_offer_def tx_open by blast
  have s1: "s1 = offers_update (map_rows (\<lambda>g. of_id g = of_id offer) (\<lambda>g. g\<lparr>of_status := (if isProvider then O_WITHDRAWN else O_REJECTED)\<rparr>)) s"
    using r1 by (simp add: upd_offer_def modify_Inr)
  have s2: "s2 = (if closes then requests_update (map_rows (\<lambda>r. rq_id r = of_requestId offer) (\<lambda>r. r\<lparr>rq_status := RQ_CANCELED\<rparr>)) s1 else s1)"
    using r2 by (simp add: when_tx_Inr upd_request_def modify_Inr split: if_splits)
  have s': "offers s' = offers s2" "requests s' = requests s2" "nextId s' = nextId s2"
    "\<not> isProvider \<Longrightarrow> N_OfferDeclined (of_id offer) \<in> nt_id ` set (notifications s')"
    using r3 by (auto simp: notify_as_def notify_row_Inr split: if_splits)
  show "of_status cur = O_PENDING" "rq_status r = RQ_OPEN" "closes = needs_explanation r" "find_offer (of_id offer) s' = Some f"
    by (rule c f)+
  show "offers s' = map_rows (\<lambda>g. of_id g = of_id offer) (\<lambda>g. g\<lparr>of_status := (if isProvider then O_WITHDRAWN else O_REJECTED)\<rparr>) (offers s)"
    "requests s' = (if closes then map_rows (\<lambda>r. rq_id r = of_requestId offer) (\<lambda>r. r\<lparr>rq_status := RQ_CANCELED\<rparr>) (requests s) else requests s)"
    "nextId s' = nextId s" "\<not> isProvider \<Longrightarrow> N_OfferDeclined (of_id offer) \<in> nt_id ` set (notifications s')"
    using s' by (simp_all add: s2 s1)
qed

lemma reject_offer_effect:
  assumes "reject_offer offer request isProvider s = Inr ((f, changed, closes), s')"
  shows "\<exists>cur r. offer_with_request (of_id offer) s = Some (cur, r) \<and>
    (if changed then decide_offer offer request isProvider cur r s = Inr ((f, closes), s')
     else s' = s \<and> f = cur \<and> offer_decided (of_id offer) isProvider cur s)"
  using assms unfolding reject_offer_def
  by (auto simp: tx_bind_Inr query_Inr fail_Inr ret_Inr split: option.splits if_splits)

lemma reject_offer_keeps:
  assumes "offers_wf s" "reject_offer offer request isProvider s = Inr (x, s')"
  shows "offers_wf s'"
proof -
  obtain f c cl where x: "x = (f, c, cl)" by (cases x)
  from reject_offer_effect[OF assms(2)[unfolded x]] obtain cur r where
    c: "c \<Longrightarrow> decide_offer offer request isProvider cur r s = Inr ((f, cl), s')" and e5: "\<not> c \<Longrightarrow> s' = s"
    by (auto split: if_splits)
  note e = decide_offer_effect[OF c]
  show ?thesis
  proof (cases c)
    case True
    define st where "st = (if isProvider then O_WITHDRAWN else O_REJECTED)"
    have st: "st = O_WITHDRAWN \<or> st = O_REJECTED" by (simp add: st_def)
    define h :: "offer_row \<Rightarrow> offer_row" where "h = (\<lambda>g. if of_id g = of_id offer then g\<lparr>of_status := st\<rparr> else g)"
    have os: "offers s' = map h (offers s)" using e(4)[OF True] by (simp add: map_rows_def h_def st_def)
    have op: "open_ids s' \<subseteq> open_ids s"
    proof (cases cl)
      case True
      with e(5)[OF \<open>c\<close>] have "requests s' = map_rows (\<lambda>r. rq_id r = of_requestId offer) (\<lambda>r. r\<lparr>rq_status := RQ_CANCELED\<rparr>) (requests s)" by simp
      from open_ids_close[OF this] show ?thesis by auto
    next
      case False
      then show ?thesis using e(5)[OF \<open>c\<close>] by (simp add: open_ids_def)
    qed
    have keys: "of_id (h g) = of_id g \<and> of_requestId (h g) = of_requestId g \<and> of_providerId (h g) = of_providerId g" for g
      by (simp add: h_def)
    have down: "live_offer (h g) \<Longrightarrow> live_offer g" "selected (h g) \<Longrightarrow> selected g" for g
      using st by (auto simp: h_def live_offer_def selected_def split: if_splits)
    have n: "nextId s \<le> nextId s'" using e(6)[OF True] by simp
    show ?thesis
    proof (rule offers_wf_shrink[OF assms(1) os n keys])
      show "of_requestId g \<notin> open_ids s'" if "g \<in> set (offers s)" "selected (h g)" for g
        using assms(1) op down(2)[OF that(2)] that(1) unfolding offers_wf_def by blast
    qed (rule down; assumption)+
  next
    case False
    then show ?thesis using e5 assms(1) by simp
  qed
qed

lemma calm_offers [calm_rules]: "calm.stays (submit_offer now p pr)" "calm.stays (acceptOffer i k)"
  "calm.stays (reject_offer offer request ip)" "calm.stays (publish_rejection offer request ip cl)"
  unfolding submit_offer_def place_offer_def insert_offer_def acceptOffer_def reject_offer_def decide_offer_def publish_rejection_def
    assertOfferParticipant_def Let_def
  by (intro calm_rules)+

lemma offers_keep_work_wf:
  "p_keeps work_wf (submitOffer now p pr)" "p_keeps work_wf (rejectOffer i u)"
  unfolding submitOffer_def rejectOffer_def Let_def
  by (intro p_keeps_calm calm_rules p_keeps_ret p_keeps_bind p_keeps_seq p_keeps_if p_keeps_case_prod p_keeps_case_option)+

lemma quiet_publish_rejection [quiet_rules]: "quiet.stays (publish_rejection offer request ip cl)"
  unfolding publish_rejection_def Let_def by (intro quiet_rules)

lemma p_keeps_quiet_offers: "quiet.stays m \<Longrightarrow> p_keeps offers_wf (transact m)"
  by (rule p_keeps_transact, rule quiet_keeps_offers)

lemma p_keeps_reject_offer: "p_keeps offers_wf (transact (reject_offer offer request ip))"
  by (rule p_keeps_transact, rule keepsI, rule reject_offer_keeps)

lemma offers_keep_offers_wf:
  "p_keeps offers_wf (submitOffer now p pr)" "p_keeps offers_wf (rejectOffer i u)"
  unfolding submitOffer_def rejectOffer_def Let_def
  by (intro p_keeps_quiet_offers p_keeps_reject_offer p_keeps_transact[OF keeps_submit_offer] quiet_rules p_keeps_ret
      p_keeps_bind p_keeps_seq p_keeps_if p_keeps_case_prod p_keeps_case_option)+


subsection \<open>Selecting through a booking\<close>

lemma quiet_select_stays: "calm.stays (select_offer i rq)"
  by (rule calm_offer(2))

lemma shop_create_booking: "shop.stays (create_booking now b)"
  by (rule shop.staysI) (auto simp: create_booking_def fresh_id_def tx_iff Let_def shop_rel_def open_ids_def)

lemma offer_commit_keeps:
  assumes "offers_wf s" "offer_commit now k offer loc s = Inr (x, s')"
    "\<And>f. find_offer (of_id offer) s = Some f \<Longrightarrow> of_requestId f = of_requestId offer"
  shows "offers_wf s'"
proof -
  obtain b rec ls where x: "x = (b, rec, ls)" by (cases x)
  from assms(2) obtain u t where tr: "assertNewProviderBusiness now (of_providerId offer) s = Inr (u, t)"
    and rest: "(case offer_with_request (of_id offer) t of None \<Rightarrow> fail (Http 409 ''This offer is no longer available'')
     | Some (freshOffer, request) \<Rightarrow> offer_accept now k offer freshOffer request loc) t = Inr (x, s')"
    unfolding offer_commit_def tx_open by blast
  from rest obtain f r where o: "offer_with_request (of_id offer) t = Some (f, r)"
    and acc: "offer_accept now k offer f r loc t = Inr ((b, rec, ls), s')"
    by (auto simp: fail_Inr x split: option.splits)
  from acc obtain u1 t0 t2 lc t3 where ci: "assert_cash_inquiry f r t = Inr (u1, t0)"
    and sel: "select_offer (of_id offer) (of_requestId offer) t0 = Inr (ls, t2)"
    and bk: "create_booking now (cash_offer_booking k offer f lc) t2 = Inr (b, t3)"
    and ag: "recordAgreement now b False t3 = Inr (rec, s')"
    unfolding offer_accept_def tx_open by blast
  have t0: "t0 = t" by (rule assert_cash_inquiry_same[OF ci])
  have q: "quiet_rel s t" by (rule quiet.staysD[OF quiet_trial(2) tr])
  have "find_offer (of_id offer) t = Some f" using offer_with_request_Some(1)[OF o] .
  moreover have "find_offer (of_id offer) s = find_offer (of_id offer) t" by (simp add: find_offer_def quiet_core(6)[OF q])
  ultimately have "offers_wf t2"
    using select_offer_keeps[OF shop_wf[OF quiet_shop[OF q] assms(1)] sel[unfolded t0]] assms(3)
      calm.staysD[OF quiet_select_stays sel] by (simp add: t0 calm_rel_def)
  then show ?thesis
    using shop_wf[OF shop.staysD[OF shop_create_booking bk]] shop_wf[OF quiet_shop[OF quiet.staysD[OF quiet_recordAgreement ag]]]
    by blast
qed

text \<open>A process whose next step may rely on what the first one read.\<close>

lemma p_keeps_bind_read:
  assumes "\<And>s x s'. m s = Inr (x, s') \<Longrightarrow> s' = s \<and> Q x s" "\<And>x s. I s \<Longrightarrow> Q x s \<Longrightarrow> I (snd (f x s))"
  shows "p_keeps I (p_bind (transact m) f)"
  unfolding p_keeps_def
proof (intro allI impI)
  fix s assume I: "I s"
  show "I (snd (p_bind (transact m) f s))"
  proof (cases "m s")
    case (Inl e)
    with I show ?thesis by (simp add: p_bind_def transact_def)
  next
    case (Inr r)
    then obtain x s' where "m s = Inr (x, s')" by (cases r) auto
    with assms(1)[of s x s'] assms(2)[of s x] I show ?thesis by (simp add: p_bind_def transact_def)
  qed
qed

lemma p_bind_snd:
  assumes "\<And>x s'. m s = Inr (x, s') \<Longrightarrow> I s'" "I s" "\<And>x. p_keeps I (f x)"
  shows "I (snd (p_bind (transact m) f s))"
proof (cases "m s")
  case (Inl e)
  with assms(2) show ?thesis by (simp add: p_bind_def transact_def)
next
  case (Inr r)
  then obtain x s' where "m s = Inr (x, s')" by (cases r) auto
  with assms(1)[OF this] assms(3)[of x] show ?thesis by (simp add: p_bind_def transact_def p_keeps_def)
qed

lemma offer_precheck_read:
  "offer_precheck i k s = Inr ((f, r), s') \<Longrightarrow> s' = s \<and> offer_with_request i s = Some (f, r)"
  unfolding offer_precheck_def by (auto simp: tx_iff split: option.splits)

lemma cash_offer_keeps_offers_wf: "p_keeps offers_wf (createDirectFromOfferService now i k loc)"
  unfolding createDirectFromOfferService_def
proof (rule p_keeps_bind_read[where Q = "\<lambda>x s. offer_with_request i s = Some x"])
  fix s x s' assume "offer_precheck i k s = Inr (x, s')"
  then show "s' = s \<and> offer_with_request i s = Some x" using offer_precheck_read by (cases x) blast
next
  fix x s assume wf: "offers_wf s" and o: "offer_with_request i s = Some x"
  obtain f r where x: "x = (f, r)" by (cases x)
  have f: "find_offer (of_id f) s = Some f" using offer_with_request_Some(1)[OF o[unfolded x]] find_offer_mem by metis
  show "offers_wf (snd ((case x of (offer, _) \<Rightarrow> p_bind (transact (offer_commit now k offer loc)) (\<lambda>(booking, recd, losing).
      p_seq (transact (for_each (\<lambda>k. tx_seq (emit (RUser k) ''notification'' ''Another offer was selected'')
        (emit (RUser k) ''ENGAGEMENT_CHANGED'' ''offer_not_selected'')) losing))
    (p_seq (transact (publishLifecycleChange (parties booking) ''accepted_offer'' recd False))
    (p_seq (transact (emit (RUser k) ''notification'' ''Booking Confirmed!''))
    (p_ret booking))))) s))"
    unfolding x prod.case
  proof (rule p_bind_snd[where I = offers_wf, OF _ wf])
    show "offers_wf s'" if "offer_commit now k f loc s = Inr (y, s')" for y s'
      using offer_commit_keeps[OF wf that] f by simp
  qed (intro p_keeps_case_prod p_keeps_seq p_keeps_quiet_offers p_keeps_ret quiet_rules)
qed


subsection \<open>One live offer per provider and request\<close>


definition sample_offer_params :: offer_params where
  "sample_offer_params = \<lparr>sp_requestId = 3, sp_serviceId = None, sp_offeredPrice = 400, sp_estimatedDuration = 90,
     sp_message = Some ''Materials and cleanup included.'', sp_mode = Some REMOTE, sp_venue = None\<rparr>"

definition sample_request_db :: db where
  "sample_request_db = sample_offers_db\<lparr>offers := [sample_offer 12 4 O_PENDING]\<rparr>"


subsection \<open>Withdrawing is final, and only for pending offers\<close>

lemma offer_with_request_key: "offer_with_request i s = Some (f, r) \<Longrightarrow> of_id f = i"
  by (auto dest: offer_with_request_Some find_offer_mem)

text \<open>Withdrawing and declining answer every case: an offer that is waiting for payment or accepted,
  or whose request is not open, is refused with 409 and nothing changes; a pending one becomes withdrawn
  or rejected and can never be selected again; and repeating the same actor's decision returns the offer
  without changing or announcing anything.\<close>

lemma rejection_final:
  assumes "offer_with_request (of_id offer) s = Some (cur, r)" "of_requestId offer = of_requestId cur"
  shows "(selected cur \<or> of_status cur = O_PENDING \<and> rq_status r \<noteq> RQ_OPEN \<longrightarrow>
      reject_offer offer request isProvider s = Inl (Http 409 ''Only an open, pending unpaid offer can be withdrawn or rejected'')) \<and>
    (\<forall>f closes s'. reject_offer offer request isProvider s = Inr ((f, True, closes), s') \<longrightarrow>
      of_status f = (if isProvider then O_WITHDRAWN else O_REJECTED) \<and> \<not> selectable (of_id offer) s' \<and>
      reject_offer offer request isProvider s' = Inr ((f, False, False), s'))"
proof (intro conjI allI impI)
  assume "selected cur \<or> of_status cur = O_PENDING \<and> rq_status r \<noteq> RQ_OPEN"
  then show "reject_offer offer request isProvider s = Inl (Http 409 ''Only an open, pending unpaid offer can be withdrawn or rejected'')"
    using assms(1) by (auto simp: reject_offer_def decide_offer_def offer_decided_def selected_def tx_eval Let_def split: if_splits)
next
  fix f closes s' assume "reject_offer offer request isProvider s = Inr ((f, True, closes), s')"
  from reject_offer_effect[OF this] assms(1) have run: "decide_offer offer request isProvider cur r s = Inr ((f, closes), s')" by auto
  note e = decide_offer_effect[OF run]
  let ?st = "if isProvider then O_WITHDRAWN else O_REJECTED"
  have "find_offer (of_id offer) s' = Some (cur\<lparr>of_status := ?st\<rparr>)"
    using offer_with_request_Some(1)[OF assms(1)] by (simp add: find_offer_def e(4))
  then have f: "f = cur\<lparr>of_status := ?st\<rparr>" using e(7) by simp
  have "\<exists>r'. find_request (of_requestId cur) s' = Some r'"
    using offer_with_request_Some(2)[OF assms(1)] assms(2) by (simp add: find_request_def e(5))
  then obtain r' where o: "offer_with_request (of_id offer) s' = Some (f, r')"
    using e(7) f by (auto simp: offer_with_request_def)
  show "of_status f = ?st" by (simp add: f)
  show "\<not> selectable (of_id offer) s'" by (simp add: selectable_def o f)
  have "offer_decided (of_id offer) isProvider f s'" using e(8) by (cases isProvider) (auto simp: offer_decided_def f)
  then show "reject_offer offer request isProvider s' = Inr ((f, False, False), s')"
    by (simp add: reject_offer_def tx_eval o)
qed


end
