(* ===== verification/SH_Gateway.thy ===== *)
theory SH_Gateway
  imports SH_Offers
begin

text \<open>
  The client of the payment gateway (src/src/services/paymongo.service.ts). The remote service is the
  parameter \<open>remote\<close>: what it answers to a call. Everything the client does around that answer is
  modelled: the key check, the mapping of errors, the conversion of pesos to centavos and back, and
  the refund that test mode answers itself.

  Identifiers travel as text in the metadata of an intent: \<open>nat_text\<close> prints a number, \<open>money_text\<close> an
  amount with two decimals (\<open>toFixed(2)\<close> of a non-negative amount). Both can be read back, so the
  metadata of one attempt never passes for another.
\<close>

subsection \<open>Numbers as text\<close>

definition digit :: "int \<Rightarrow> char" where
  "digit d = char_of (48 + d)"

text \<open>The flag tells whether one digit is left.\<close>

function digits_text :: "bool \<Rightarrow> int \<Rightarrow> string" where
  "digits_text True n = [digit n]"
| "digits_text False n = digits_text (n div 10 < 10) (n div 10) @ [digit (n mod 10)]"
  by pat_completeness auto
termination
  by (relation "measure (\<lambda>(b, n). if b then 0 else Suc (nat n))") auto

definition int_text :: "int \<Rightarrow> string" where
  "int_text n = digits_text (n < 10) n"

definition nat_text :: "nat \<Rightarrow> string" where
  "nat_text n = int_text (int n)"

definition money_text :: "decimal \<Rightarrow> string" where
  "money_text x = (let c = \<lfloor>x * 100 + 1 / 2\<rfloor> in
     int_text (c div 100) @ CHR ''.'' # [digit (c div 10 mod 10), digit (c mod 10)])"

definition text_int :: "string \<Rightarrow> int" where
  "text_int s = foldl (\<lambda>n c. 10 * n + (of_char c - 48)) 0 s"

definition text_money :: "string \<Rightarrow> decimal" where
  "text_money s = of_int (text_int (filter (\<lambda>c. c \<noteq> CHR ''.'') s)) / 100"

lemma int_text_step: "int_text n = (if n < 10 then [digit n] else int_text (n div 10) @ [digit (n mod 10)])"
proof (cases "n < 10")
  case True
  then have t: "(n < 10) = True" by simp
  show ?thesis unfolding int_text_def t if_True by (rule digits_text.simps(1))
next
  case False
  then have f: "(n < 10) = False" by simp
  show ?thesis unfolding int_text_def f if_False by (rule digits_text.simps(2))
qed

lemma of_char_digit: "0 \<le> d \<Longrightarrow> d < 10 \<Longrightarrow> of_char (digit d) = 48 + d"
  unfolding digit_def of_char_of by (rule mod_pos_pos_trivial) simp_all

lemma text_int_append: "text_int (s @ [c]) = 10 * text_int s + (of_char c - 48)"
  by (simp add: text_int_def)

lemma text_int_text: "0 \<le> n \<Longrightarrow> text_int (int_text n) = n"
proof (induction "nat n" arbitrary: n rule: less_induct)
  case less
  show ?case
  proof (cases "n < 10")
    case True
    with less.prems show ?thesis by (simp add: int_text_step[of n] text_int_def of_char_digit)
  next
    case False
    then have "text_int (int_text (n div 10)) = n div 10" by (intro less.hyps) auto
    with False have "text_int (int_text n) = 10 * (n div 10) + n mod 10"
      by (subst int_text_step) (simp add: text_int_append of_char_digit)
    then show ?thesis by simp
  qed
qed

lemma nat_text_inj: "nat_text m = nat_text n \<Longrightarrow> m = n"
  unfolding nat_text_def by (metis text_int_text of_nat_0_le_iff of_nat_eq_iff)

lemma nat_text_nonempty [simp]: "nat_text n \<noteq> []"
  unfolding nat_text_def by (subst int_text_step) simp

lemma digit_no_dot: "0 \<le> d \<Longrightarrow> d < 10 \<Longrightarrow> digit d \<noteq> CHR ''.''"
  using of_char_digit[of d] by auto

lemma int_text_no_dot: "0 \<le> n \<Longrightarrow> CHR ''.'' \<notin> set (int_text n)"
proof (induction "nat n" arbitrary: n rule: less_induct)
  case less
  have "digit (n mod 10) \<noteq> CHR ''.''" by (rule digit_no_dot) simp_all
  moreover have "CHR ''.'' \<notin> set (int_text (n div 10))" if "\<not> n < 10" using that by (intro less.hyps) auto
  ultimately show ?case using digit_no_dot[of n] less.prems by (subst int_text_step) auto
qed

lemma text_money_text:
  assumes "0 \<le> x" "whole_centavos x"
  shows "text_money (money_text x) = x"
proof -
  obtain c where k: "x = of_int c / 100" using assms(2) by (auto simp: whole_centavos_iff)
  with assms(1) have k0: "0 \<le> c" by (simp add: zero_le_divide_iff)
  have "\<lfloor>of_int c + 1 / 2 :: rat\<rfloor> = c" by (rule floor_unique) auto
  then have c: "\<lfloor>x * 100 + 1 / 2\<rfloor> = c" by (simp add: k)
  have f: "filter (\<lambda>c. c \<noteq> CHR ''.'') (int_text n) = int_text n" if "0 \<le> n" for n
    using int_text_no_dot[OF that] by (auto intro: filter_True)
  have "digit (c div 10 mod 10) \<noteq> CHR ''.''" "digit (c mod 10) \<noteq> CHR ''.''" by (rule digit_no_dot; simp)+
  then have "filter (\<lambda>c. c \<noteq> CHR ''.'') (money_text x) = (int_text (c div 100) @ [digit (c div 10 mod 10)]) @ [digit (c mod 10)]"
    using k0 by (simp add: money_text_def Let_def c f)
  then have "text_int (filter (\<lambda>c. c \<noteq> CHR ''.'') (money_text x)) = 10 * (10 * text_int (int_text (c div 100)) + c div 10 mod 10) + c mod 10"
    by (simp only: text_int_append) (simp add: of_char_digit)
  also have "text_int (int_text (c div 100)) = c div 10 div 10"
    using k0 text_int_text[of "c div 100"] zdiv_zmult2_eq[of 10 c 10] by simp
  also have "10 * (10 * (c div 10 div 10) + c div 10 mod 10) + c mod 10 = c" by simp
  finally show ?thesis by (simp add: text_money_def k)
qed

subsection \<open>The client\<close>

record pay_config =
  pc_publicKey :: "string option"
  pc_secretKey :: "string option"
  pc_webhookSecret :: "string option"
  pc_nodeTest :: bool

datatype gw_call =
  CreateIntent int string string "string \<rightharpoonup> string" key
| CreateMethod string
| AttachMethod string string string
| GetIntent string
| CreateRefund string "int option" string

record gw_body =
  gb_id :: string
  gb_clientKey :: string
  gb_status :: string
  gb_amount :: int
  gb_currency :: string
  gb_payments :: "string list"
  gb_metadata :: "(string \<rightharpoonup> string) option"
  gb_nextAction :: "(string \<times> string option) option"

text \<open>No answer in time, an answer that is not JSON, an error status, or a body.\<close>

datatype gw_reply = GR_Unreachable | GR_NotJson | GR_Error nat | GR_Ok gw_body

type_synonym remote = "gw_call \<Rightarrow> gw_reply"

text \<open>The missing key is noticed while the request is built, inside the \<open>try\<close> of the fetch.\<close>

definition getAuthHeader :: "pay_config \<Rightarrow> error + string" where
  "getAuthHeader cfg = (if truthy (pc_secretKey cfg) then Inr (the (pc_secretKey cfg))
     else Inl (Http 503 ''PAYMONGO_NOT_CONFIGURED''))"

definition paymongoFetch :: "pay_config \<Rightarrow> remote \<Rightarrow> gw_call \<Rightarrow> error + gw_body" where
  "paymongoFetch cfg remote call =
     (case getAuthHeader cfg of Inl _ \<Rightarrow> Inl (Http 503 ''PAYMONGO_UNAVAILABLE'')
      | Inr _ \<Rightarrow> (case remote call of GR_Unreachable \<Rightarrow> Inl (Http 503 ''PAYMONGO_UNAVAILABLE'')
          | GR_NotJson \<Rightarrow> Inl (Uncoded ''SyntaxError'')
          | GR_Error status \<Rightarrow> Inl (Http status ''PAYMONGO_API_ERROR'')
          | GR_Ok body \<Rightarrow> Inr body))"

definition createPaymentIntent ::
  "pay_config \<Rightarrow> remote \<Rightarrow> decimal \<Rightarrow> string \<Rightarrow> (string \<rightharpoonup> string) \<Rightarrow> key \<Rightarrow> error + string \<times> string" where
  "createPaymentIntent cfg remote amount method metadata idempotencyKey =
     map_sum id (\<lambda>b. (gb_id b, gb_clientKey b))
       (paymongoFetch cfg remote (CreateIntent (js_round (amount * 100)) ''PHP'' method metadata idempotencyKey))"

definition getPaymentIntent :: "pay_config \<Rightarrow> remote \<Rightarrow> string \<Rightarrow> error + intent" where
  "getPaymentIntent cfg remote paymentIntentId =
     map_sum id (\<lambda>b. \<lparr>it_id = gb_id b, it_status = gb_status b,
         it_paymentId = (case gb_payments b of [] \<Rightarrow> None | p # _ \<Rightarrow> Some p),
         it_amount = of_int (gb_amount b) / 100, it_currency = gb_currency b,
         it_metadata = (case gb_metadata b of None \<Rightarrow> Map.empty | Some m \<Rightarrow> m)\<rparr>)
       (paymongoFetch cfg remote (GetIntent paymentIntentId))"

definition verifyPaymentSuccess :: "pay_config \<Rightarrow> remote \<Rightarrow> string \<Rightarrow> error + bool" where
  "verifyPaymentSuccess cfg remote paymentIntentId =
     map_sum id (\<lambda>i. it_status i = ''succeeded'') (getPaymentIntent cfg remote paymentIntentId)"

definition test_mode :: "pay_config \<Rightarrow> bool" where
  "test_mode cfg \<longleftrightarrow> pc_nodeTest cfg \<or>
     (case pc_secretKey cfg of None \<Rightarrow> False | Some k \<Rightarrow> take 8 k = ''sk_test_'')"

text \<open>\<open>params.amount && {...}\<close>: an amount of zero is left out, as a missing one is.\<close>

definition createRefund :: "pay_config \<Rightarrow> remote \<Rightarrow> string \<Rightarrow> decimal option \<Rightarrow> string \<Rightarrow> error + string \<times> string" where
  "createRefund cfg remote paymentId amount idempotencyKey =
     (if test_mode cfg then Inr (''internal_test_refund_'' @ paymentId, ''simulated_test_mode'')
      else map_sum id (\<lambda>b. (gb_id b, gb_status b))
        (paymongoFetch cfg remote (CreateRefund paymentId
          (case amount of None \<Rightarrow> None | Some a \<Rightarrow> if a = 0 then None else Some (js_round (a * 100))) idempotencyKey)))"

definition createPaymentMethod :: "pay_config \<Rightarrow> remote \<Rightarrow> string \<Rightarrow> error + string" where
  "createPaymentMethod cfg remote type =
     (if type \<noteq> ''gcash'' then Inl (Http 400 ''Unsupported payment method'')
      else map_sum id gb_id (paymongoFetch cfg remote (CreateMethod type)))"

definition attachPaymentMethod ::
  "pay_config \<Rightarrow> remote \<Rightarrow> string \<Rightarrow> string \<Rightarrow> string \<Rightarrow> error + string \<times> (string \<times> string option) option" where
  "attachPaymentMethod cfg remote paymentIntentId paymentMethodId clientKey =
     map_sum id (\<lambda>b. (gb_status b, gb_nextAction b))
       (paymongoFetch cfg remote (AttachMethod paymentIntentId paymentMethodId clientKey))"

end
