(* ===== verification/SH_Payments.thy ===== *)
theory SH_Payments
  imports SH_Gateway
begin

text \<open>
  Online payments (src/src/services/payment-attempt.service.ts): preparing an attempt with its hold on
  the offer, handing it to the gateway, reading it back, failing and expiring it, turning a captured
  payment into a booking and a place in the provider's queue, and giving it back when it cannot.

  An intent of the gateway is found again by its id. A captured payment has one of two ends: one
  booking with one queue entry, or \<open>REFUND_REQUIRED\<close> and nothing else.
\<close>

subsection \<open>Shared parts\<close>

definition ATTEMPT_TTL_MS :: int where
  "ATTEMPT_TTL_MS = 15 * 60 * 1000"

definition find_intent :: "string \<Rightarrow> db \<Rightarrow> attempt_row option" where
  "find_intent i s = List.find (\<lambda>a. at_providerIntentId a = Some i) (attempts s)"

text \<open>The column of an attempt holds the gateway's name of the method.\<close>

definition method_text :: "pay_method \<Rightarrow> string" where
  "method_text m = (case m of GCash \<Rightarrow> ''gcash'' | OnsiteCash \<Rightarrow> ''On-site Cash'')"

definition emitOfferPaymentChange :: "attempt_row \<Rightarrow> unit dbtx" where
  "emitOfferPaymentChange a = (case at_offerId a of None \<Rightarrow> ret ()
     | Some _ \<Rightarrow> for_each (\<lambda>u. emit (RUser u) ''OFFERS_CHANGED'' ''offer_payment_changed'') [at_seekerId a, at_providerId a])"

definition releaseOfferHold :: "key option \<Rightarrow> unit dbtx" where
  "releaseOfferHold offerId = (case offerId of None \<Rightarrow> ret ()
     | Some i \<Rightarrow> tx_bind (query (find_offer i)) (\<lambda>found. case found of None \<Rightarrow> ret ()
         | Some offer \<Rightarrow>
           if of_status offer \<noteq> O_PENDING_PAYMENT then ret ()
           else tx_seq (upd_offer i (\<lambda>f. f\<lparr>of_status := O_PENDING, of_paymentHoldExpiresAt := None\<rparr>))
             (modify (requests_update (map_rows (\<lambda>r. rq_id r = of_requestId offer \<and> rq_status r = RQ_PAYMENT_PENDING)
               (\<lambda>r. r\<lparr>rq_status := RQ_OPEN\<rparr>))))))"

subsection \<open>Preparing an attempt\<close>

record pay_params =
  pp_seekerId :: key
  pp_serviceId :: "key option"
  pp_offerId :: "key option"
  pp_quantity :: "int option"
  pp_jobLocation :: "job_location option"
  pp_mode :: "location_mode option"
  pp_retryIntent :: "string option"

definition visit_mode_of :: "location_mode option \<Rightarrow> location_mode" where
  "visit_mode_of m = (if m = Some REMOTE then REMOTE else if m = Some SEEKER_VISITS then SEEKER_VISITS else PROVIDER_VISITS)"

text \<open>A retry takes the place and the arrangement of the failed attempt where the caller gives none.\<close>

definition retry_params :: "pay_params \<Rightarrow> db \<Rightarrow> error + pay_params" where
  "retry_params p s = (if \<not> truthy (pp_retryIntent p) then Inr p
     else case find_intent (the (pp_retryIntent p)) s of None \<Rightarrow> Inl (Http 404 ''Previous payment attempt not found'')
     | Some previous \<Rightarrow>
       if at_seekerId previous \<noteq> pp_seekerId p \<or> at_offerId previous \<noteq> pp_offerId p \<or>
          (pp_offerId p = None \<and> (pp_serviceId p = None \<or> at_serviceId previous \<noteq> pp_serviceId p))
       then Inl (Http 404 ''Previous payment attempt not found'')
       else if at_status previous \<notin> {A_FAILED, A_EXPIRED}
       then Inl (Http 409 ''Check the previous payment before trying again'')
       else case (case (pp_jobLocation p, at_jobLocation previous) of
           (None, Some j) \<Rightarrow> map_sum id Some (parseJobLocation j) | (loc, _) \<Rightarrow> Inr loc) of
         Inl e \<Rightarrow> Inl e
       | Inr loc \<Rightarrow> Inr (p\<lparr>pp_jobLocation := loc,
           pp_mode := (if pp_offerId p = None \<and> pp_mode p = None
             then Some (visit_mode_of (at_serviceLocationMode previous)) else pp_mode p)\<rparr>))"

text \<open>The provider, the listing and the quantity the payment is for.\<close>

record pay_target =
  tg_offer :: bool
  tg_providerId :: key
  tg_serviceId :: "key option"
  tg_quantity :: int

definition pay_target :: "pay_params \<Rightarrow> db \<Rightarrow> error + pay_target" where
  "pay_target p s =
     (let offer = Option.bind (pp_offerId p) (\<lambda>i. find_offer i s);
          service = (if pp_offerId p = None then Option.bind (pp_serviceId p) (\<lambda>i. find_service i s) else None);
          quantity = (case pp_quantity p of None \<Rightarrow> 1 | Some n \<Rightarrow> n)
      in if pp_offerId p \<noteq> None \<and> offer = None then Inl (Http 404 ''Offer not found'')
         else if pp_offerId p = None \<and> pp_serviceId p = None then Inl (Http 400 ''Choose a service or offer'')
         else if offer = None \<and> service = None then Inl (Http 404 ''Service not found'')
         else if quantity < 1 \<or> 40 < quantity \<or> (offer \<noteq> None \<and> quantity \<noteq> 1)
         then Inl (Http 400 ''Choose a valid number of hours or days'')
         else Inr (case offer of
             Some f \<Rightarrow> \<lparr>tg_offer = True, tg_providerId = of_providerId f, tg_serviceId = of_serviceId f, tg_quantity = quantity\<rparr>
           | None \<Rightarrow> \<lparr>tg_offer = False, tg_providerId = sv_providerId (the service), tg_serviceId = pp_serviceId p,
               tg_quantity = quantity\<rparr>))"

definition pending_for :: "pay_params \<Rightarrow> pay_target \<Rightarrow> attempt_row \<Rightarrow> bool" where
  "pending_for p t a \<longleftrightarrow> at_seekerId a = pp_seekerId p \<and> at_serviceId a = tg_serviceId t \<and>
     at_offerId a = pp_offerId p \<and> at_status a = A_PENDING"

definition expire_own_stale :: "time \<Rightarrow> pay_params \<Rightarrow> pay_target \<Rightarrow> unit dbtx" where
  "expire_own_stale now p t =
     tx_bind (query (\<lambda>s. filter (\<lambda>a. pending_for p t a \<and> at_expiresAt a \<le> now) (attempts s))) (\<lambda>stale.
     for_each (\<lambda>a. tx_seq (upd_attempt (at_id a) (\<lambda>r. r\<lparr>at_status := A_EXPIRED\<rparr>)) (releaseOfferHold (at_offerId a))) stale)"

text \<open>The pending attempt is handed out again only for the same arrangement, place and quantity.\<close>

definition same_job :: "job_location option \<Rightarrow> job_location option \<Rightarrow> error + bool" where
  "same_job wanted known = (case wanted of None \<Rightarrow> Inr True
     | Some w \<Rightarrow> (case known of None \<Rightarrow> Inr False
         | Some k \<Rightarrow> (case parseJobLocation k of Inl e \<Rightarrow> Inl e
             | Inr k' \<Rightarrow> map_sum id (\<lambda>w'. k' = w') (parseJobLocation w))))"

definition reuse_attempt :: "pay_params \<Rightarrow> pay_target \<Rightarrow> attempt_row \<Rightarrow> attempt_row dbtx" where
  "reuse_attempt p t a =
     tx_seq (ensure (\<not> (pp_offerId p = None \<and> pp_mode p \<noteq> None \<and>
         pp_mode p \<noteq> Some (case at_serviceLocationMode a of None \<Rightarrow> PROVIDER_VISITS | Some m \<Rightarrow> m)))
       (Http 409 ''A payment is already pending for another service arrangement''))
    (tx_bind (lift_sum (same_job (pp_jobLocation p) (at_jobLocation a))) (\<lambda>same.
     tx_seq (ensure same (Http 409 ''A payment is already pending for another job location''))
    (tx_seq (ensure (at_quantity a = tg_quantity t) (Http 409 ''A payment is already pending for a different quantity''))
    (ret a))))"

text \<open>The listing's terms for a direct payment: arrangement, amount and minutes; none for an offer.\<close>

type_synonym pay_terms = "(arrangement \<times> decimal \<times> int) option"

definition direct_terms :: "pay_params \<Rightarrow> pay_target \<Rightarrow> service_row option \<Rightarrow> error + pay_terms" where
  "direct_terms p t service = (case service of None \<Rightarrow> Inr None
     | Some v \<Rightarrow> (case resolveDirectArrangement v (pp_mode p) (pp_jobLocation p) of Inl e \<Rightarrow> Inl e
       | Inr arr \<Rightarrow> map_sum id (\<lambda>(amount, mins). Some (arr, amount, mins))
           (calculateDirectListingTerms (sv_priceType v) (sv_price v) (tg_quantity t) (sv_estimatedDurationMins v)
             (ar_transportationFee arr))))"

text \<open>The booking that blocks another payment for the same offer or listing.\<close>

definition blocks_payment :: "key \<Rightarrow> key option \<Rightarrow> key option \<Rightarrow> booking_row \<Rightarrow> bool" where
  "blocks_payment seekerId offerId serviceId b \<longleftrightarrow> bk_seekerId b = seekerId \<and>
     (if offerId \<noteq> None then bk_offerId b = offerId else bk_serviceId b = serviceId) \<and> bk_status b \<in> open_statuses"

definition pay_guards :: "pay_params \<Rightarrow> pay_target \<Rightarrow> pay_terms dbtx" where
  "pay_guards p t =
     tx_bind (query (\<lambda>s. (if tg_offer t then None else Option.bind (tg_serviceId t) (\<lambda>i. find_service i s), s)))
     (\<lambda>(service, s).
     tx_seq (ensure (tg_offer t \<or> service \<noteq> None) (Http 404 ''Service not found''))
    (tx_seq (ensure (case service of None \<Rightarrow> True | Some v \<Rightarrow> sv_providerId v = tg_providerId t)
        (Http 409 ''Service provider changed during payment preparation''))
    (tx_seq (ensure (marketplaceParticipantsEligible (pp_seekerId p) (tg_providerId t) s) (Http 409 ''PARTICIPANT_INELIGIBLE''))
    (tx_seq (ensure (tg_providerId t \<noteq> pp_seekerId p) (Http 403 ''SELF_TRANSACTION_NOT_ALLOWED''))
    (tx_bind (lift_sum (direct_terms p t service)) (\<lambda>terms.
     tx_seq (ensure (case service of None \<Rightarrow> True | Some v \<Rightarrow> sv_status v = S_ACTIVE \<and> sv_isAvailable v)
        (Http 409 ''This service is not available''))
    (tx_seq (ensure (provider_ready (tg_providerId t) s) (Http 409 ''PROVIDER_UNAVAILABLE''))
    (tx_seq (ensure (\<not> exists_row (blocks_payment (pp_seekerId p) (pp_offerId p) (tg_serviceId t)) (bookings s))
        (Http 409 ''ACTIVE_BOOKING_EXISTS''))
    (tx_seq (ensure (case service of None \<Rightarrow> True | Some v \<Rightarrow> pm_gcash (sv_paymentMethods v))
        (Http 400 ''This payment method is not accepted for the service''))
    (tx_seq (ensure (waiting_count (tg_providerId t) s < u_onlineQueueLimit (the (find_user (tg_providerId t) s)))
        (Http 409 ''QUEUE_FULL''))
    (ret terms)))))))))))"

text \<open>The columns of the attempt that the listing or the offer decides.\<close>

record pay_columns =
  py_amount :: decimal
  py_jobLocation :: "job_location option"
  py_mode :: "location_mode option"
  py_minutes :: "int option"
  py_transportationFee :: "decimal option"

definition assert_gcash_inquiry :: "offer_row \<Rightarrow> request_row \<Rightarrow> unit dbtx" where
  "assert_gcash_inquiry offer request = (case rq_targetServiceId request of None \<Rightarrow> ret ()
     | Some target \<Rightarrow>
       tx_seq (ensure ((rq_preferredPaymentMethod request = None \<or> rq_preferredPaymentMethod request = Some GCash) \<and>
           of_serviceId offer = Some target)
         (Http 409 ''This inquiry was requested with a different payment method or listing''))
      (tx_bind (query (find_service target)) (\<lambda>v.
         ensure (case v of None \<Rightarrow> False | Some v \<Rightarrow> pm_gcash (sv_paymentMethods v))
           (Http 409 ''This listing no longer accepts GCash''))))"

definition hold_offer :: "time \<Rightarrow> pay_params \<Rightarrow> pay_target \<Rightarrow> key \<Rightarrow> pay_columns dbtx" where
  "hold_offer expiresAt p t offerId =
     tx_bind (query (offer_with_request offerId)) (\<lambda>found. case found of
       None \<Rightarrow> fail (Http 409 ''OFFER_NOT_PAYABLE'')
     | Some (offer, request) \<Rightarrow>
       tx_seq (ensure (of_status offer = O_PENDING \<and> rq_status request = RQ_OPEN \<and>
           rq_seekerId request = pp_seekerId p \<and> of_providerId offer = tg_providerId t \<and>
           of_serviceId offer = tg_serviceId t) (Http 409 ''OFFER_NOT_PAYABLE''))
      (tx_seq (lift_sum (assertRequestPaymentMethod request GCash))
      (tx_seq (assert_gcash_inquiry offer request)
      (tx_bind (lift_sum (offerJobLocation offer request (pp_jobLocation p))) (\<lambda>loc.
       tx_seq (upd_offer offerId (\<lambda>f. f\<lparr>of_status := O_PENDING_PAYMENT, of_paymentHoldExpiresAt := Some expiresAt\<rparr>))
      (tx_seq (upd_request (of_requestId offer) (\<lambda>r. r\<lparr>rq_status := RQ_PAYMENT_PENDING\<rparr>))
      (ret \<lparr>py_amount = of_offeredPrice offer, py_jobLocation = loc,
         py_mode = Some (visit_mode_of (of_serviceLocationMode offer)),
         py_minutes = Some (of_estimatedDuration offer), py_transportationFee = None\<rparr>)))))))"

definition direct_columns :: "pay_terms \<Rightarrow> pay_columns" where
  "direct_columns terms = (case terms of
     Some (arr, amount, mins) \<Rightarrow> \<lparr>py_amount = amount, py_jobLocation = ar_jobLocation arr, py_mode = Some (ar_mode arr),
       py_minutes = Some mins, py_transportationFee = ar_transportationFee arr\<rparr>
   | None \<Rightarrow> \<lparr>py_amount = 0, py_jobLocation = None, py_mode = None, py_minutes = None, py_transportationFee = None\<rparr>)"

definition live_key :: "pay_config \<Rightarrow> bool" where
  "live_key cfg \<longleftrightarrow> (case pc_secretKey cfg of None \<Rightarrow> False | Some k \<Rightarrow> take 8 k = ''sk_live_'')"

definition create_attempt ::
  "pay_config \<Rightarrow> time \<Rightarrow> time \<Rightarrow> pay_params \<Rightarrow> pay_target \<Rightarrow> pay_columns \<Rightarrow> attempt_row dbtx" where
  "create_attempt cfg now expiresAt p t c =
     tx_seq (ensure (50 \<le> py_amount c \<and> py_amount c \<le> 50000) (Http 400 ''The booking amount is invalid''))
    (tx_bind (query (find_user (tg_providerId t))) (\<lambda>found.
     tx_bind (expect (Uncoded ''NotFoundError'') found) (\<lambda>provider.
     tx_bind (lift_sum (paymentCommission (py_amount c) (bn_commissionRateBps (subscriptionBenefits provider now)))) (\<lambda>com.
     tx_bind fresh_id (\<lambda>i.
     let a = \<lparr>at_id = i, at_seekerId = pp_seekerId p, at_providerId = tg_providerId t, at_serviceId = tg_serviceId t,
        at_quantity = tg_quantity t, at_offerId = pp_offerId p, at_providerIntentId = None, at_providerPaymentId = None,
        at_commissionRateBps = commissionRateBps com, at_platformFeeAmount = platformFeeAmount com,
        at_providerNetAmount = Some (providerNetAmount com), at_isTestMode = (\<not> live_key cfg), at_paidAt = None,
        at_providerClientKey = None, at_redirectUrl = None, at_amount = py_amount c, at_jobLocation = py_jobLocation c,
        at_transportationFee = py_transportationFee c, at_serviceLocationMode = py_mode c,
        at_estimatedDurationMins = py_minutes c, at_paymentMethod = GCash, at_status = A_PENDING,
        at_failureReason = None, at_expiresAt = expiresAt\<rparr>
     in tx_seq (modify (attempts_update (\<lambda>as. as @ [a]))) (ret a))))))"

definition prepare_payment ::
  "pay_config \<Rightarrow> time \<Rightarrow> pay_params \<Rightarrow> pay_target \<Rightarrow> (attempt_row \<times> bool) dbtx" where
  "prepare_payment cfg now p t =
     tx_bind (assertNewProviderBusiness now (tg_providerId t)) (\<lambda>_.
     tx_seq (expire_own_stale now p t)
    (tx_bind (query (\<lambda>s. List.find (\<lambda>a. pending_for p t a \<and> now < at_expiresAt a) (attempts s))) (\<lambda>existing. case existing of
       Some a \<Rightarrow> tx_bind (reuse_attempt p t a) (\<lambda>a. ret (a, True))
     | None \<Rightarrow>
       tx_bind (pay_guards p t) (\<lambda>terms.
       tx_bind (case pp_offerId p of None \<Rightarrow> ret (direct_columns terms)
           | Some i \<Rightarrow> hold_offer (now + ATTEMPT_TTL_MS) p t i) (\<lambda>c.
       tx_bind (create_attempt cfg now (now + ATTEMPT_TTL_MS) p t c) (\<lambda>a. ret (a, False)))))))"

subsection \<open>Failing and expiring\<close>

definition fail_attempt :: "key \<Rightarrow> key option \<Rightarrow> string \<Rightarrow> attempt_row option dbtx" where
  "fail_attempt attemptId offerId reason =
     tx_bind (query (find_attempt attemptId)) (\<lambda>fresh.
     tx_seq (when_tx (map_option at_status fresh = Some A_PENDING)
       (tx_seq (upd_attempt attemptId (\<lambda>a. a\<lparr>at_status := A_FAILED, at_failureReason := Some (take 500 reason)\<rparr>))
         (releaseOfferHold offerId)))
     (query (find_attempt attemptId)))"

definition markPaymentAttemptFailed :: "string \<Rightarrow> string \<Rightarrow> (db, attempt_row option) process" where
  "markPaymentAttemptFailed paymentIntentId reason =
     p_bind (transact (query (find_intent paymentIntentId))) (\<lambda>found. case found of
       None \<Rightarrow> p_ret None
     | Some attempt \<Rightarrow>
       if at_status attempt \<noteq> A_PENDING then p_ret (Some attempt)
       else p_bind (transact (fail_attempt (at_id attempt) (at_offerId attempt) reason)) (\<lambda>result.
         p_seq (transact (emitOfferPaymentChange attempt)) (p_ret result)))"

definition expire_attempt :: "time \<Rightarrow> key \<Rightarrow> bool dbtx" where
  "expire_attempt now attemptId =
     tx_bind (query (find_attempt attemptId)) (\<lambda>found. case found of None \<Rightarrow> ret False
     | Some attempt \<Rightarrow>
       if at_status attempt \<noteq> A_PENDING \<or> now < at_expiresAt attempt then ret False
       else tx_seq (upd_attempt attemptId (\<lambda>a. a\<lparr>at_status := A_EXPIRED, at_failureReason := Some ''PAYMENT_WINDOW_EXPIRED''\<rparr>))
         (tx_seq (releaseOfferHold (at_offerId attempt)) (ret True)))"

fun expire_each :: "time \<Rightarrow> key list \<Rightarrow> nat \<Rightarrow> (db, nat) process" where
  "expire_each now [] expired = p_ret expired"
| "expire_each now (k # ks) expired =
     p_bind (transact (query (find_attempt k))) (\<lambda>candidate.
     p_bind (transact (expire_attempt now k)) (\<lambda>changed.
       if changed then p_seq (transact (case candidate of None \<Rightarrow> ret () | Some a \<Rightarrow> emitOfferPaymentChange a))
         (expire_each now ks (Suc expired))
       else expire_each now ks expired))"

text \<open>One run of the job takes at most a hundred attempts.\<close>

definition expireStalePaymentAttempts :: "time \<Rightarrow> (db, nat) process" where
  "expireStalePaymentAttempts now =
     p_bind (transact (query (\<lambda>s. take 100 (map at_id (filter (\<lambda>a. at_status a = A_PENDING \<and> at_expiresAt a \<le> now) (attempts s))))))
       (\<lambda>stale. expire_each now stale 0)"

subsection \<open>A captured payment\<close>

record capture =
  cp_intentId :: string
  cp_paymentId :: "string option"
  cp_amount :: decimal
  cp_currency :: string
  cp_metadata :: "string \<rightharpoonup> string"

text \<open>The metadata an attempt sends along with its intent, and the check when it comes back.\<close>

definition id_text :: "key option \<Rightarrow> string" where
  "id_text k = (case k of None \<Rightarrow> '''' | Some i \<Rightarrow> nat_text i)"

definition attempt_metadata :: "attempt_row \<Rightarrow> string \<rightharpoonup> string" where
  "attempt_metadata a = [''servicehub_attempt_id'' \<mapsto> nat_text (at_id a), ''servicehub_seeker_id'' \<mapsto> nat_text (at_seekerId a),
     ''servicehub_service_id'' \<mapsto> id_text (at_serviceId a), ''servicehub_offer_id'' \<mapsto> id_text (at_offerId a),
     ''servicehub_expected_amount'' \<mapsto> money_text (at_amount a), ''servicehub_payment_method'' \<mapsto> method_text (at_paymentMethod a)]"

definition meta_or_empty :: "(string \<rightharpoonup> string) \<Rightarrow> string \<Rightarrow> string" where
  "meta_or_empty m k = (case m k of None \<Rightarrow> '''' | Some v \<Rightarrow> v)"

definition metadata_valid :: "capture \<Rightarrow> attempt_row \<Rightarrow> bool" where
  "metadata_valid c a \<longleftrightarrow> (let m = cp_metadata c in
     cp_currency c = ''PHP'' \<and> \<bar>cp_amount c - at_amount a\<bar> < 1 / 200 \<and>
     m ''servicehub_attempt_id'' = Some (nat_text (at_id a)) \<and> m ''servicehub_seeker_id'' = Some (nat_text (at_seekerId a)) \<and>
     meta_or_empty m ''servicehub_service_id'' = id_text (at_serviceId a) \<and>
     meta_or_empty m ''servicehub_offer_id'' = id_text (at_offerId a) \<and>
     m ''servicehub_expected_amount'' = Some (money_text (at_amount a)) \<and>
     m ''servicehub_payment_method'' = Some (method_text (at_paymentMethod a)))"

record finalized =
  fn_booking :: "booking_row option"
  fn_queue :: "queue_row option"
  fn_created :: bool
  fn_refundRequired :: bool
  fn_attempt :: "attempt_row option"
  fn_losing :: "key list"
  fn_recorded :: "recorded option"

definition not_created :: "booking_row option \<Rightarrow> bool \<Rightarrow> attempt_row option \<Rightarrow> finalized" where
  "not_created b refund a = \<lparr>fn_booking = b, fn_queue = None, fn_created = False, fn_refundRequired = refund,
     fn_attempt = a, fn_losing = [], fn_recorded = None\<rparr>"

definition require_refund :: "attempt_row \<Rightarrow> string option \<Rightarrow> string \<Rightarrow> unit dbtx" where
  "require_refund fresh paymentId reason = upd_attempt (at_id fresh) (\<lambda>a. a\<lparr>at_status := A_REFUND_REQUIRED,
     at_providerPaymentId := or_string paymentId None, at_failureReason := Some reason\<rparr>)"

definition refund_due :: "attempt_row \<Rightarrow> string option \<Rightarrow> finalized" where
  "refund_due fresh paymentId = not_created None True (Some (fresh\<lparr>at_providerPaymentId := paymentId\<rparr>))"

text \<open>Why a payment captured in time cannot become a booking any more.\<close>

definition capture_fault :: "time \<Rightarrow> attempt_row \<Rightarrow> db \<Rightarrow> string option" where
  "capture_fault now fresh s =
     (let service = (if at_offerId fresh = None then Option.bind (at_serviceId fresh) (\<lambda>i. find_service i s) else None);
          provider = find_user (at_providerId fresh) s;
          eligible = marketplaceParticipantsEligible (at_seekerId fresh) (at_providerId fresh) s;
          conflict = exists_row (blocks_payment (at_seekerId fresh) (at_offerId fresh) (at_serviceId fresh)) (bookings s)
      in if (at_offerId fresh = None \<and> service = None) \<or> \<not> eligible \<or>
            (case provider of None \<Rightarrow> True | Some u \<Rightarrow> \<not> bn_marketplaceAccess (subscriptionBenefits u now) \<or>
               \<not> account_ready u \<or> u_onlineQueueLimit u \<le> waiting_count (at_providerId fresh) s) \<or>
            (case service of None \<Rightarrow> False | Some v \<Rightarrow> sv_providerId v \<noteq> at_providerId fresh \<or> sv_status v \<noteq> S_ACTIVE \<or>
               \<not> sv_isAvailable v) \<or> conflict
         then Some (if conflict then ''ACTIVE_BOOKING_CREATED_BEFORE_PAYMENT_CAPTURE''
           else if \<not> eligible then ''PARTICIPANT_INELIGIBLE_AFTER_CAPTURE'' else ''PROVIDER_OR_QUEUE_UNAVAILABLE_AFTER_CAPTURE'')
         else None)"

text \<open>The hold of an offer payment: gone, or contested by another selection.\<close>

datatype hold_state = HoldValid | HoldInvalid | HoldContested

definition hold_state :: "attempt_row \<Rightarrow> db \<Rightarrow> hold_state" where
  "hold_state fresh s = (case at_offerId fresh of None \<Rightarrow> HoldValid
     | Some i \<Rightarrow> (case offer_with_request i s of None \<Rightarrow> HoldInvalid
         | Some (offer, request) \<Rightarrow>
           if of_providerId offer \<noteq> at_providerId fresh \<or> of_serviceId offer \<noteq> at_serviceId fresh \<or>
              rq_seekerId request \<noteq> at_seekerId fresh \<or> of_status offer \<noteq> O_PENDING_PAYMENT \<or>
              rq_status request \<noteq> RQ_PAYMENT_PENDING \<or> of_paymentHoldExpiresAt offer = None
           then HoldInvalid
           else if exists_row (\<lambda>f. of_requestId f = of_requestId offer \<and> of_id f \<noteq> of_id offer \<and>
              of_status f \<in> {O_PENDING_PAYMENT, O_ACCEPTED}) (offers s)
           then HoldContested else HoldValid))"

definition captured_minutes :: "attempt_row \<Rightarrow> db \<Rightarrow> int" where
  "captured_minutes fresh s =
     (let service = (if at_offerId fresh = None then Option.bind (at_serviceId fresh) (\<lambda>i. find_service i s) else None)
      in case at_estimatedDurationMins fresh of Some m \<Rightarrow> m
         | None \<Rightarrow> (case Option.bind (at_offerId fresh) (\<lambda>i. find_offer i s) of Some f \<Rightarrow> of_estimatedDuration f
             | None \<Rightarrow> (case service of None \<Rightarrow> 60
                 | Some v \<Rightarrow> if sv_priceType v = PER_HOUR then 60 * at_quantity fresh
                     else if sv_priceType v = PER_DAY then 480 * at_quantity fresh else sv_estimatedDurationMins v)))"

definition paid_booking :: "attempt_row \<Rightarrow> int \<Rightarrow> int \<Rightarrow> booking_row" where
  "paid_booking fresh mins position = (blank_booking (at_seekerId fresh) (at_providerId fresh))\<lparr>
     bk_serviceId := at_serviceId fresh, bk_offerId := at_offerId fresh,
     bk_originType := Some (if at_offerId fresh \<noteq> None then OFFER else DIRECT_LISTING),
     bk_paymentAttemptId := Some (at_id fresh), bk_paymentMethod := at_paymentMethod fresh,
     bk_agreedAmount := Some (at_amount fresh), bk_jobLocation := at_jobLocation fresh,
     bk_serviceLocationMode := at_serviceLocationMode fresh, bk_transportationFee := at_transportationFee fresh,
     bk_estimatedDurationMins := Some mins, bk_paymentStatus := P_PAID_HELD, bk_status := B_ACCEPTED,
     bk_queuePosition := Some position, bk_started := False\<rparr>"

definition enqueue :: "time \<Rightarrow> attempt_row \<Rightarrow> capture \<Rightarrow> int \<Rightarrow> key \<Rightarrow> queue_row dbtx" where
  "enqueue now fresh c position bookingId =
     tx_bind fresh_id (\<lambda>i.
     let q = \<lparr>q_id = i, q_providerId = at_providerId fresh, q_serviceId = at_serviceId fresh, q_seekerId = at_seekerId fresh,
        q_offerId = at_offerId fresh, q_paymentId = cp_intentId c, q_paymongoPaymentId = or_string (cp_paymentId c) None,
        q_paymentStatus = P_PAID_HELD, q_position = position, q_status = Q_WAITING, q_estimatedWait = 0, q_joinedAt = now,
        q_bookingId = Some bookingId\<rparr>
     in tx_seq (modify (queues_update (\<lambda>qs. qs @ [q]))) (ret q))"

text \<open>A booking consumes the seeker's waitlist places with this provider.\<close>

definition clear_waitlist :: "key \<Rightarrow> key \<Rightarrow> unit dbtx" where
  "clear_waitlist seekerId providerId =
     tx_bind (query services) (\<lambda>vs. modify (queueNotifies_update (filter (\<lambda>w. \<not> (qn_seekerId w = seekerId \<and>
       exists_row (\<lambda>v. sv_id v = qn_serviceId w \<and> sv_providerId v = providerId) vs)))))"

definition accept_held_offer :: "key \<Rightarrow> key list dbtx" where
  "accept_held_offer offerId =
     tx_seq (upd_offer offerId (\<lambda>f. f\<lparr>of_status := O_ACCEPTED, of_paymentHoldExpiresAt := None\<rparr>))
    (tx_bind (query (find_offer offerId)) (\<lambda>found.
     tx_bind (expect (Uncoded ''P2025'') found) (\<lambda>offer.
     tx_bind (rejectSiblingOffersAndNotify (of_requestId offer) (of_id offer)) (\<lambda>losing.
     tx_seq (upd_request (of_requestId offer) (\<lambda>r. r\<lparr>rq_status := RQ_IN_PROGRESS\<rparr>)) (ret losing)))))"

definition book_captured :: "time \<Rightarrow> attempt_row \<Rightarrow> capture \<Rightarrow> finalized dbtx" where
  "book_captured now fresh c =
     tx_bind (query (\<lambda>s. (int (serving_count (at_providerId fresh) s) + int (waiting_count (at_providerId fresh) s) + 1,
         captured_minutes fresh s))) (\<lambda>(position, mins).
     tx_bind (create_booking now (paid_booking fresh mins position)) (\<lambda>booking.
     tx_seq (recordBookingProgress now (bk_id booking) PK_ACCEPTED BySystem (EK_Kind PK_ACCEPTED))
    (tx_bind (enqueue now fresh c position (bk_id booking)) (\<lambda>queue.
     tx_seq (clear_waitlist (at_seekerId fresh) (at_providerId fresh))
    (tx_seq (recalculateQueueInTransaction now (at_providerId fresh))
    (tx_seq (upd_attempt (at_id fresh) (\<lambda>a. a\<lparr>at_status := A_SUCCEEDED, at_providerPaymentId := or_string (cp_paymentId c) None\<rparr>))
    (tx_bind (case at_offerId fresh of None \<Rightarrow> ret [] | Some i \<Rightarrow> accept_held_offer i) (\<lambda>losing.
     tx_bind (recordLifecycleNotice (parties booking)
        [plain_notice (bk_providerId booking) ''Paid booking ready to start'', plain_notice (bk_seekerId booking) ''Payment confirmed''] None)
     (\<lambda>recd. ret \<lparr>fn_booking = Some booking, fn_queue = Some queue, fn_created = True, fn_refundRequired = False,
        fn_attempt = None, fn_losing = losing, fn_recorded = Some recd\<rparr>)))))))))"

definition capture_open :: "time \<Rightarrow> attempt_row \<Rightarrow> capture \<Rightarrow> finalized dbtx" where
  "capture_open now fresh c =
     tx_seq (when_tx (at_paidAt fresh = None) (upd_attempt (at_id fresh) (\<lambda>a. a\<lparr>at_paidAt := Some now\<rparr>)))
    (if at_expiresAt fresh \<le> now
     then tx_seq (require_refund fresh (cp_paymentId c) ''PAYMENT_CONFIRMED_AFTER_ATTEMPT_EXPIRED'')
       (tx_seq (releaseOfferHold (at_offerId fresh)) (ret (refund_due fresh (cp_paymentId c))))
     else tx_bind (query (\<lambda>s. (capture_fault now fresh s, hold_state fresh s))) (\<lambda>(fault, hold). case fault of
       Some reason \<Rightarrow> tx_seq (require_refund fresh (cp_paymentId c) reason)
         (tx_seq (releaseOfferHold (at_offerId fresh)) (ret (refund_due fresh (cp_paymentId c))))
     | None \<Rightarrow> (case hold of
         HoldInvalid \<Rightarrow> tx_seq (require_refund fresh (cp_paymentId c) ''OFFER_HOLD_INVALID_AFTER_CAPTURE'')
           (ret (refund_due fresh (cp_paymentId c)))
       | HoldContested \<Rightarrow> tx_seq (require_refund fresh (cp_paymentId c) ''SIBLING_OFFER_ALREADY_SELECTED'')
           (tx_seq (modify (offers_update (map_rows (\<lambda>f. Some (of_id f) = at_offerId fresh \<and> of_status f = O_PENDING_PAYMENT)
               (\<lambda>f. f\<lparr>of_status := O_REJECTED, of_paymentHoldExpiresAt := None\<rparr>))))
           (ret (refund_due fresh (cp_paymentId c))))
       | HoldValid \<Rightarrow> book_captured now fresh c)))"

definition finalize_commit :: "time \<Rightarrow> key \<Rightarrow> capture \<Rightarrow> finalized dbtx" where
  "finalize_commit now attemptId c =
     tx_bind (query (\<lambda>s. (find_attempt attemptId s, List.find (\<lambda>b. bk_paymentAttemptId b = Some attemptId) (bookings s))))
     (\<lambda>(found, existing). case found of None \<Rightarrow> fail (Http 404 ''Payment attempt not found'')
     | Some fresh \<Rightarrow>
       if at_status fresh = A_SUCCEEDED \<and> existing \<noteq> None then ret (not_created existing False None)
       else if at_status fresh \<in> {A_REFUND_REQUIRED, A_REFUNDED}
       then ret (not_created None (at_status fresh = A_REFUND_REQUIRED) (Some fresh))
       else tx_seq (ensure (metadata_valid c fresh) (Http 409 ''PAYMENT_MISMATCH''))
         (capture_open now fresh c))"

definition publish_finalized :: "finalized \<Rightarrow> unit dbtx" where
  "publish_finalized r = (case (fn_booking r, fn_queue r) of (Some b, Some _) \<Rightarrow>
       when_tx (fn_created r)
        (tx_seq (for_each (\<lambda>k. tx_seq (emit (RUser k) ''notification'' ''Another offer was selected'')
            (emit (RUser k) ''ENGAGEMENT_CHANGED'' ''offer_not_selected'')) (fn_losing r))
        (tx_seq (case fn_recorded r of None \<Rightarrow> ret () | Some recd \<Rightarrow> publishLifecycleChange (parties b) ''queue_created'' recd True)
        (tx_seq (emit (RUser (bk_providerId b)) ''queue_update'' '''')
        (case bk_serviceId b of None \<Rightarrow> ret () | Some v \<Rightarrow> emit (RService v) ''queue_update'' ''''))))
     | _ \<Rightarrow> ret ())"

definition finalizeSuccessfulPayment :: "time \<Rightarrow> capture \<Rightarrow> (db, finalized) process" where
  "finalizeSuccessfulPayment now c =
     p_bind (transact (query (find_intent (cp_intentId c)))) (\<lambda>found. case found of
       None \<Rightarrow> transact (fail (Http 409 ''UNREGISTERED_PAYMENT''))
     | Some initial \<Rightarrow>
       p_bind (transact (finalize_commit now (at_id initial) c)) (\<lambda>result.
       p_seq (transact (publish_finalized result)) (p_ret result)))"

subsection \<open>Giving a captured payment back\<close>

definition attempt_refund :: "key \<Rightarrow> db \<Rightarrow> refund_row option" where
  "attempt_refund attemptId s = List.find (\<lambda>r. rf_paymentAttemptId r = Some attemptId) (refunds s)"

definition reserve_attempt_refund :: "attempt_row \<Rightarrow> string \<Rightarrow> refund_row dbtx" where
  "reserve_attempt_refund a paymentId =
     tx_bind (query (attempt_refund (at_id a))) (\<lambda>known. case known of Some r \<Rightarrow> ret r
     | None \<Rightarrow> tx_bind fresh_id (\<lambda>i.
         let r = \<lparr>rf_id = i, rf_bookingId = None, rf_paymentAttemptId = Some (at_id a), rf_paymentId = paymentId,
           rf_paymongoRefundId = None, rf_amount = at_amount a, rf_status = ''PENDING'',
           rf_requestedById = at_seekerId a, rf_failureReason = None\<rparr>
         in tx_seq (modify (refunds_update (\<lambda>rs. rs @ [r]))) (ret r)))"

definition close_attempt_refund :: "key \<Rightarrow> key \<Rightarrow> string \<times> string \<Rightarrow> unit dbtx" where
  "close_attempt_refund refundRow attemptId answer =
     tx_seq (upd_refunds (\<lambda>r. rf_id r = refundRow) (\<lambda>r. r\<lparr>rf_paymongoRefundId := Some (fst answer),
        rf_status := toUpperCase (snd answer)\<rparr>))
    (upd_attempt attemptId (\<lambda>a. a\<lparr>at_status := A_REFUNDED\<rparr>))"

definition refundCapturedAttempt :: "pay_config \<Rightarrow> remote \<Rightarrow> key \<Rightarrow> (db, attempt_row option) process" where
  "refundCapturedAttempt cfg remote attemptId =
     p_bind (transact (query (find_attempt attemptId))) (\<lambda>found. case found of None \<Rightarrow> p_ret None
     | Some attempt \<Rightarrow>
       if at_status attempt \<noteq> A_REFUND_REQUIRED \<or> \<not> truthy (at_providerPaymentId attempt) then p_ret (Some attempt)
       else let paymentId = the (at_providerPaymentId attempt) in
         p_bind (transact (reserve_attempt_refund attempt paymentId)) (\<lambda>row.
         if rf_status row \<in> {''SUCCEEDED'', ''SIMULATED_TEST_MODE''} then p_ret (Some attempt)
         else p_seq (p_rethrow
             (p_bind (transact (lift_sum (createRefund cfg remote paymentId (Some (at_amount attempt))
                 (''servicehub-attempt-refund-'' @ nat_text (at_id attempt)))))
               (\<lambda>answer. transact (close_attempt_refund (rf_id row) (at_id attempt) answer)))
             (\<lambda>e. transact (upd_refunds (\<lambda>r. rf_id r = rf_id row) (\<lambda>r. r\<lparr>rf_status := ''FAILED'',
                rf_failureReason := Some (take 500 (error_text e))\<rparr>))))
           (transact (query (find_attempt (at_id attempt))))))"

subsection \<open>Reading a payment back\<close>

definition getPaymentAttemptStatus :: "key \<Rightarrow> string \<Rightarrow> attempt_row dbtx" where
  "getPaymentAttemptStatus seekerId paymentIntentId =
     tx_bind (query (\<lambda>s. List.find (\<lambda>a. at_seekerId a = seekerId \<and> at_providerIntentId a = Some paymentIntentId) (attempts s)))
       (expect (Http 404 ''Payment attempt not found''))"

definition failed_intent :: "string \<Rightarrow> bool" where
  "failed_intent st \<longleftrightarrow> st \<in> {''awaiting_payment_method'', ''failed'', ''canceled'', ''cancelled'', ''expired''}"

definition capture_of :: "intent \<Rightarrow> capture" where
  "capture_of i = \<lparr>cp_intentId = it_id i, cp_paymentId = it_paymentId i, cp_amount = it_amount i,
     cp_currency = it_currency i, cp_metadata = it_metadata i\<rparr>"

definition settle_intent :: "pay_config \<Rightarrow> remote \<Rightarrow> time \<Rightarrow> string \<Rightarrow> intent \<Rightarrow> (db, unit) process" where
  "settle_intent cfg remote now paymentIntentId i =
     (if it_id i \<noteq> paymentIntentId then transact (fail (Http 409 ''PAYMENT_MISMATCH''))
      else if it_status i = ''succeeded''
      then p_bind (finalizeSuccessfulPayment now (capture_of i)) (\<lambda>r. case fn_attempt r of
          Some a \<Rightarrow> if fn_refundRequired r then p_bind (refundCapturedAttempt cfg remote (at_id a)) (\<lambda>_. p_ret ()) else p_ret ()
        | None \<Rightarrow> p_ret ())
      else if failed_intent (it_status i)
      then p_bind (markPaymentAttemptFailed paymentIntentId ''PAYMENT_METHOD_FAILED_OR_EXPIRED'') (\<lambda>_. p_ret ())
      else p_ret ())"

definition reconcileOnlinePaymentReturn ::
  "pay_config \<Rightarrow> remote \<Rightarrow> time \<Rightarrow> key \<Rightarrow> string \<Rightarrow> (db, attempt_row) process" where
  "reconcileOnlinePaymentReturn cfg remote now seekerId paymentIntentId =
     p_bind (transact (getPaymentAttemptStatus seekerId paymentIntentId)) (\<lambda>attempt.
     p_seq (if at_status attempt \<in> {A_PENDING, A_EXPIRED, A_FAILED}
         then p_bind (transact (lift_sum (getPaymentIntent cfg remote paymentIntentId)))
           (settle_intent cfg remote now paymentIntentId)
         else p_ret ())
      (transact (getPaymentAttemptStatus seekerId paymentIntentId)))"

record return_view =
  rv_serviceId :: "key option"
  rv_offerId :: "key option"
  rv_quantity :: int
  rv_expectedAmount :: decimal
  rv_commission :: commission_view
  rv_isTestMode :: bool
  rv_paidAt :: "time option"
  rv_reference :: string
  rv_bookingId :: "key option"

definition paymentReturnCheckout :: "key \<Rightarrow> string \<Rightarrow> attempt_row \<Rightarrow> db \<Rightarrow> return_view" where
  "paymentReturnCheckout seekerId paymentIntentId attempt s =
     (let booking = (if at_status attempt = A_SUCCEEDED
        then List.find (\<lambda>b. bk_paymentAttemptId b = Some (at_id attempt) \<and> bk_seekerId b = seekerId) (bookings s) else None)
      in \<lparr>rv_serviceId = at_serviceId attempt, rv_offerId = at_offerId attempt, rv_quantity = at_quantity attempt,
          rv_expectedAmount = at_amount attempt,
          rv_commission = commissionResponse (Some (at_commissionRateBps attempt)) (Some (at_platformFeeAmount attempt))
            (at_providerNetAmount attempt) (at_amount attempt),
          rv_isTestMode = at_isTestMode attempt, rv_paidAt = at_paidAt attempt,
          rv_reference = (case at_providerPaymentId attempt of None \<Rightarrow> paymentIntentId | Some r \<Rightarrow> r),
          rv_bookingId = map_option bk_id booking\<rparr>)"

subsection \<open>Starting a payment\<close>

text \<open>The three calls of the gateway: intent, method, and the attachment that redirects to the wallet.\<close>

record checkout =
  ck_intentId :: string
  ck_clientKey :: string
  ck_redirectUrl :: "string option"

definition open_checkout :: "pay_config \<Rightarrow> remote \<Rightarrow> attempt_row \<Rightarrow> error + checkout" where
  "open_checkout cfg remote a =
     (case createPaymentIntent cfg remote (at_amount a) (method_text (at_paymentMethod a)) (attempt_metadata a) (at_id a) of
       Inl e \<Rightarrow> Inl e
     | Inr (intentId, clientKey) \<Rightarrow> (case createPaymentMethod cfg remote (method_text (at_paymentMethod a)) of
         Inl e \<Rightarrow> Inl e
       | Inr methodId \<Rightarrow> (case attachPaymentMethod cfg remote intentId methodId clientKey of
           Inl e \<Rightarrow> Inl e
         | Inr (status, nextAction) \<Rightarrow> Inr \<lparr>ck_intentId = intentId, ck_clientKey = clientKey,
             ck_redirectUrl = (if status = ''awaiting_next_action''
               then (case nextAction of Some (type, url) \<Rightarrow> if type = ''redirect'' then url else None | None \<Rightarrow> None)
               else None)\<rparr>)))"

text \<open>The intent id is a unique column; its update is not awaited inside the \<open>try\<close>, so a rejection is not
  answered by failing the attempt.\<close>

definition record_checkout :: "key \<Rightarrow> checkout \<Rightarrow> attempt_row dbtx" where
  "record_checkout attemptId c =
     tx_bind (query (\<lambda>s. exists_row (\<lambda>a. at_id a \<noteq> attemptId \<and> at_providerIntentId a = Some (ck_intentId c)) (attempts s))) (\<lambda>taken.
     tx_seq (ensure (\<not> taken) (Uncoded ''P2002''))
    (tx_seq (upd_attempt attemptId (\<lambda>a. a\<lparr>at_providerIntentId := Some (ck_intentId c),
        at_providerClientKey := Some (ck_clientKey c), at_redirectUrl := ck_redirectUrl c\<rparr>))
    (tx_bind (query (find_attempt attemptId)) (expect (Uncoded ''P2025'')))))"

definition abandon_attempt :: "attempt_row \<Rightarrow> error \<Rightarrow> (db, unit) process" where
  "abandon_attempt a e =
     p_seq (transact (tx_seq (upd_attempt (at_id a) (\<lambda>r. r\<lparr>at_status := A_FAILED,
           at_failureReason := Some (case e of Http _ c \<Rightarrow> c | Uncoded _ \<Rightarrow> ''PAYMENT_PROVIDER_ERROR'')\<rparr>))
         (releaseOfferHold (at_offerId a))))
     (transact (emitOfferPaymentChange a))"

definition hand_over :: "pay_config \<Rightarrow> remote \<Rightarrow> attempt_row \<Rightarrow> (db, attempt_row) process" where
  "hand_over cfg remote a =
     p_bind (p_rethrow (transact (lift_sum (open_checkout cfg remote a))) (abandon_attempt a))
       (\<lambda>c. transact (record_checkout (at_id a) c))"

datatype retry = Done attempt_row | Again pay_params

text \<open>One pass. A pending attempt that the gateway reports as failed or expired is the reason to start over.\<close>

definition initiate_once ::
  "pay_config \<Rightarrow> remote \<Rightarrow> time \<Rightarrow> pay_params \<Rightarrow> (db, retry) process" where
  "initiate_once cfg remote now params =
     p_bind (transact (tx_seq (ensure (truthy (pc_publicKey cfg) \<and> truthy (pc_secretKey cfg) \<and> truthy (pc_webhookSecret cfg))
         (Http 503 ''PAYMENT_NOT_CONFIGURED''))
       (tx_bind (query (retry_params params)) lift_sum))) (\<lambda>p.
     p_bind (transact (tx_bind (query (pay_target p)) lift_sum)) (\<lambda>t.
     p_bind (transact (prepare_payment cfg now p t)) (\<lambda>(a, reused).
     p_seq (transact (emitOfferPaymentChange a))
    (if reused \<and> truthy (at_providerIntentId a) then
       p_bind (reconcileOnlinePaymentReturn cfg remote now (pp_seekerId p) (the (at_providerIntentId a))) (\<lambda>current.
         if at_status current = A_PENDING then p_ret (Done a)
         else if at_status current = A_SUCCEEDED then transact (fail (Http 409 ''ACTIVE_BOOKING_EXISTS''))
         else if at_status current \<in> {A_FAILED, A_EXPIRED} then p_ret (Again p)
         else transact (fail (Http 409 ''PAYMENT_REVIEW_REQUIRED'')))
     else if reused \<and> truthy (at_redirectUrl a) then p_ret (Done a)
     else p_bind (hand_over cfg remote a) (\<lambda>b. p_ret (Done b))))))"

fun initiateOnlinePayment ::
  "nat \<Rightarrow> pay_config \<Rightarrow> remote \<Rightarrow> time \<Rightarrow> pay_params \<Rightarrow> (db, attempt_row option) process" where
  "initiateOnlinePayment 0 cfg remote now p = p_ret None"
| "initiateOnlinePayment (Suc fuel) cfg remote now p =
     p_bind (initiate_once cfg remote now p) (\<lambda>r. case r of Done a \<Rightarrow> p_ret (Some a)
       | Again q \<Rightarrow> initiateOnlinePayment fuel cfg remote now q)"


subsection \<open>The work tables\<close>

lemma calm_release [calm_rules]: "calm.stays (releaseOfferHold i)"
  unfolding releaseOfferHold_def by (intro calm_rules)

lemma calm_emit_offer [calm_rules]: "calm.stays (emitOfferPaymentChange a)"
  unfolding emitOfferPaymentChange_def by (intro calm_rules)

lemma calm_prepare [calm_rules]: "calm.stays (prepare_payment cfg now p t)"
  unfolding prepare_payment_def expire_own_stale_def reuse_attempt_def pay_guards_def hold_offer_def assert_gcash_inquiry_def
    create_attempt_def Let_def
  by (intro calm_rules)

lemma calm_attempts [calm_rules]: "calm.stays (fail_attempt i oi r)" "calm.stays (expire_attempt now i)"
  "calm.stays (require_refund a pid r)" "calm.stays (accept_held_offer i)" "calm.stays (clear_waitlist sk p)"
  "calm.stays (publish_finalized r2)" "calm.stays (reserve_attempt_refund a pid2)" "calm.stays (close_attempt_refund rr i ans)"
  "calm.stays (getPaymentAttemptStatus sk it)" "calm.stays (record_checkout i c)"
  unfolding fail_attempt_def expire_attempt_def require_refund_def accept_held_offer_def clear_waitlist_def publish_finalized_def
    reserve_attempt_refund_def close_attempt_refund_def getPaymentAttemptStatus_def record_checkout_def Let_def
  by (intro calm_rules)+

text \<open>A new entry at the end of the table, waiting in the line of the provider of its booking.\<close>

lemma enqueue_effect:
  assumes "enqueue now fresh c pos b s = Inr (q, s')"
  shows "s' = s\<lparr>queues := queues s @ [q], nextId := Suc (nextId s)\<rparr>" "q_id q = nextId s" "q_providerId q = at_providerId fresh"
    "q_status q = Q_WAITING" "q_bookingId q = Some b" "q_position q = pos" "q_seekerId q = at_seekerId fresh"
    "q_paymentStatus q = P_PAID_HELD" "q_paymentId q = cp_intentId c" "q_joinedAt q = now"
  using assms by (auto simp: enqueue_def fresh_id_def tx_iff Let_def)

lemma line_view_append:
  assumes "q_providerId q \<noteq> r"
  shows "line_view r (s\<lparr>queues := queues s @ [q], nextId := n\<rparr>) = line_view r s"
  using assms by (simp add: line_view_def is_waiting_def is_serving_def)

lemma enqueue_dirty:
  assumes "work_wf s" "enqueue now fresh c pos b s = Inr (q, s')"
    "\<exists>bk \<in> set (bookings s). bk_id bk = b \<and> bk_providerId bk = at_providerId fresh"
  shows "work_dirty (at_providerId fresh) s'"
proof -
  note e = enqueue_effect[OF assms(2)]
  let ?p = "at_providerId fresh"
  have ids: "\<forall>x \<in> set (queues s). q_id x < nextId s" "distinct (map q_id (queues s))"
    using assms(1) by (simp_all add: work_wf_def table_ids_def queue_wf_def queue_ids_distinct_def)
  then have "q_id q \<notin> q_id ` set (queues s)" unfolding e(2) by fastforce
  then have "queue_ids_distinct s'" using ids(2) by (simp add: queue_ids_distinct_def e(1))
  moreover have "one_serving ?p (queues s')"
    using assms(1) by (simp add: e(1) one_serving_def work_wf_def queue_wf_def compact_def) (simp add: count_rows_def is_serving_def e(4))
  moreover have "compact r (queues s')" if "r \<noteq> ?p" for r
  proof -
    have "line_view r s' = line_view r s" unfolding e(1) by (rule line_view_append) (use that e(3) in simp)
    then show ?thesis using assms(1) line_view_compact[of r s'] line_view_compact[of r s]
      by (simp add: work_wf_def queue_wf_def)
  qed
  moreover have "table_ids s'"
    using assms(1) ids(1) e(2) by (auto simp: table_ids_def work_wf_def e(1) less_Suc_eq)
  moreover have "queue_links s'"
    using assms(1,3) e(3,5) by (auto simp: queue_links_def work_wf_def e(1))
  ultimately show ?thesis by (simp add: work_dirty_def queue_dirty_def)
qed

lemma book_captured_parts:
  assumes "book_captured now fresh c s = Inr (r, s')"
  shows "\<exists>b q losing recd s1 u2 s2 s3 u4 s4 u5 s5 u6 s6 s7.
    create_booking now (paid_booking fresh (captured_minutes fresh s)
      (int (serving_count (at_providerId fresh) s) + int (waiting_count (at_providerId fresh) s) + 1)) s = Inr (b, s1) \<and>
    recordBookingProgress now (bk_id b) PK_ACCEPTED BySystem (EK_Kind PK_ACCEPTED) s1 = Inr (u2, s2) \<and>
    enqueue now fresh c (int (serving_count (at_providerId fresh) s) + int (waiting_count (at_providerId fresh) s) + 1) (bk_id b) s2 = Inr (q, s3) \<and>
    clear_waitlist (at_seekerId fresh) (at_providerId fresh) s3 = Inr (u4, s4) \<and>
    recalculateQueueInTransaction now (at_providerId fresh) s4 = Inr (u5, s5) \<and>
    upd_attempt (at_id fresh) (\<lambda>a. a\<lparr>at_status := A_SUCCEEDED, at_providerPaymentId := or_string (cp_paymentId c) None\<rparr>) s5 = Inr (u6, s6) \<and>
    (case at_offerId fresh of None \<Rightarrow> ret [] | Some i \<Rightarrow> accept_held_offer i) s6 = Inr (losing, s7) \<and>
    recordLifecycleNotice (parties b) [plain_notice (bk_providerId b) ''Paid booking ready to start'',
      plain_notice (bk_seekerId b) ''Payment confirmed''] None s7 = Inr (recd, s') \<and>
    r = \<lparr>fn_booking = Some b, fn_queue = Some q, fn_created = True, fn_refundRequired = False,
        fn_attempt = None, fn_losing = losing, fn_recorded = Some recd\<rparr>"
  using assms unfolding book_captured_def tx_open by blast

lemma quiet_clear_waitlist [quiet_rules]: "quiet.stays (clear_waitlist sk p)"
  unfolding clear_waitlist_def by (intro quiet_rules)

lemma paid_booking_keys [simp]: "bk_seekerId (paid_booking a m p) = at_seekerId a"
  "bk_providerId (paid_booking a m p) = at_providerId a" "bk_status (paid_booking a m p) = B_ACCEPTED"
  "bk_paymentStatus (paid_booking a m p) = P_PAID_HELD" "bk_agreedAmount (paid_booking a m p) = Some (at_amount a)"
  "bk_paymentAttemptId (paid_booking a m p) = Some (at_id a)" "bk_offerId (paid_booking a m p) = at_offerId a"
  "bk_serviceId (paid_booking a m p) = at_serviceId a" "bk_started (paid_booking a m p) = False"
  "bk_paymentMethod (paid_booking a m p) = at_paymentMethod a"
  by (simp_all add: paid_booking_def blank_booking_def)

lemma accept_held_calm: "calm.stays (case x of None \<Rightarrow> ret [] | Some i \<Rightarrow> accept_held_offer i)"
  by (intro calm_rules)


subsection \<open>The new entry is the last of its line\<close>

lemma insort_snoc: "f y \<le> f x \<Longrightarrow> insort_key f y (zs @ [x]) = insort_key f y zs @ [x]"
  by (induction zs) auto

lemma sort_key_snoc:
  assumes "\<And>y. y \<in> set xs \<Longrightarrow> f y \<le> f x"
  shows "sort_key f (xs @ [x]) = sort_key f xs @ [x]"
proof -
  have "foldr (insort_key f) xs [x] = foldr (insort_key f) xs [] @ [x]"
    using assms by (induction xs) (auto simp: insort_snoc)
  then show ?thesis by (simp add: sort_key_def)
qed

lemma compact_bound:
  assumes "compact p (queues s)" "q \<in> set (queues s)" "is_waiting p q"
  shows "q_position q \<le> int (serving_count p s) + int (waiting_count p s)"
proof -
  have "first_seat p (queues s) = int (serving_count p s) + 1"
  proof (cases "List.find (is_serving p) (queues s)")
    case None
    then have "serving_count p s = 0" by (auto simp: serving_count_def count_rows_0 find_None_iff)
    with None show ?thesis by (simp add: first_seat_def)
  next
    case (Some r)
    then have "serving_count p s \<noteq> 0" using find_is_serving[OF Some] by (auto simp: serving_count_def count_rows_0)
    moreover have "serving_count p s \<le> 1" using assms(1) by (simp add: compact_def one_serving_def serving_count_def)
    ultimately show ?thesis using Some by (simp add: first_seat_def)
  qed
  moreover have "q_position q \<in> q_position ` set (waiting_line p (queues s))" using assms(2,3) by simp
  ultimately show ?thesis
    unfolding compact_waiting_positions[OF assms(1)] waiting_count_def by fastforce
qed

lemma line_snoc:
  assumes "compact p (queues s)" "is_waiting p q" "q_position q = int (serving_count p s) + int (waiting_count p s) + 1"
  shows "waiting_line p (queues s @ [q]) = waiting_line p (queues s) @ [q]"
proof -
  have "q_order y \<le> q_order q" if "y \<in> set (filter (is_waiting p) (queues s))" for y
    using compact_bound[OF assms(1), of y] that assms(3) by (simp add: q_order_def less_eq_prod_def)
  from sort_key_snoc[of "filter (is_waiting p) (queues s)" q_order q, OF this] assms(2) show ?thesis
    by (simp add: waiting_line_def)
qed

lemma seated_entry:
  assumes "queue_ids_distinct s" "recalculateQueueInTransaction now p s = Inr (u, s')" "q \<in> set (queues s)"
  shows "\<exists>e \<in> set (queues s'). e = seat_row (all_seats p s) q"
  using assms(3) by (auto simp: recalculateQueueInTransaction_queues[OF assms(1,2)])

lemma seat_row_same: "q_status (seat_row xs q) = q_status q" "q_bookingId (seat_row xs q) = q_bookingId q"
  "q_providerId (seat_row xs q) = q_providerId q" "q_paymentStatus (seat_row xs q) = q_paymentStatus q"
  "q_seekerId (seat_row xs q) = q_seekerId q" "q_paymentId (seat_row xs q) = q_paymentId q"
  by (auto simp: seat_row_def place_def split: option.splits)

subsection \<open>What a captured payment becomes\<close>

lemma upd_attempt_effect: "upd_attempt i f s = Inr (u, s') \<Longrightarrow> s' = attempts_update (map_rows (\<lambda>r. at_id r = i) f) s"
  by (simp add: upd_attempt_def modify_Inr)

lemma accept_held_effect:
  assumes "accept_held_offer i s = Inr (ls, s')" "distinct (map of_id (offers s))" "find_offer i s = Some f"
  shows "offers s' = map_rows (offer_pending_of (of_requestId f) i) offer_closed
      (map_rows (\<lambda>g. of_id g = i) (\<lambda>g. g\<lparr>of_status := O_ACCEPTED, of_paymentHoldExpiresAt := None\<rparr>) (offers s))"
    "requests s' = map_rows (\<lambda>r. rq_id r = of_requestId f) (\<lambda>r. r\<lparr>rq_status := RQ_IN_PROGRESS\<rparr>) (requests s)"
    "bookings s' = bookings s" "attempts s' = attempts s" "queues s' = queues s" "nextId s' = nextId s"
    "refunds s' = refunds s" "transactions s' = transactions s" "completedServices s' = completedServices s"
proof -
  let ?s1 = "offers_update (map_rows (\<lambda>g. of_id g = i) (\<lambda>g. g\<lparr>of_status := O_ACCEPTED, of_paymentHoldExpiresAt := None\<rparr>)) s"
  have f: "find_offer i ?s1 = Some (f\<lparr>of_status := O_ACCEPTED, of_paymentHoldExpiresAt := None\<rparr>)" "of_id f = i"
    using assms(3) by (auto simp: find_offer_def dest: find_row_Some)
  from assms(1) f obtain s2 where
    rj: "rejectSiblingOffersAndNotify (of_requestId f) i ?s1 = Inr (ls, s2)"
    and s': "s' = requests_update (map_rows (\<lambda>r. rq_id r = of_requestId f) (\<lambda>r. r\<lparr>rq_status := RQ_IN_PROGRESS\<rparr>)) s2"
    by (auto simp: accept_held_offer_def tx_iff upd_offer_def upd_request_def)
  have d: "distinct (map of_id (offers ?s1))" using assms(2) by simp
  note fr = rejectSiblings_frame(1)[OF rj d]
  have s2: "offers s2 = map_rows (offer_pending_of (of_requestId f) i) offer_closed (offers ?s1)" "requests s2 = requests s"
    "bookings s2 = bookings s" "attempts s2 = attempts s" "queues s2 = queues s" "nextId s2 = nextId s"
    "refunds s2 = refunds s" "transactions s2 = transactions s" "completedServices s2 = completedServices s"
    by (rule offers_of[OF fr], (subst fr, simp)+)
  show "offers s' = map_rows (offer_pending_of (of_requestId f) i) offer_closed
      (map_rows (\<lambda>g. of_id g = i) (\<lambda>g. g\<lparr>of_status := O_ACCEPTED, of_paymentHoldExpiresAt := None\<rparr>) (offers s))"
    "requests s' = map_rows (\<lambda>r. rq_id r = of_requestId f) (\<lambda>r. r\<lparr>rq_status := RQ_IN_PROGRESS\<rparr>) (requests s)"
    "bookings s' = bookings s" "attempts s' = attempts s" "queues s' = queues s" "nextId s' = nextId s"
    "refunds s' = refunds s" "transactions s' = transactions s" "completedServices s' = completedServices s"
    by (simp_all add: s' s2)
qed

text \<open>The offer part of a booking from a payment: the held offer of the attempt is accepted.\<close>

definition offer_won :: "key option \<Rightarrow> db \<Rightarrow> db \<Rightarrow> bool" where
  "offer_won offerId s s' \<longleftrightarrow> (case offerId of None \<Rightarrow> offers s' = offers s \<and> requests s' = requests s
     | Some i \<Rightarrow> (\<forall>f. find_offer i s = Some f \<longrightarrow>
        offers s' = map_rows (offer_pending_of (of_requestId f) i) offer_closed
          (map_rows (\<lambda>g. of_id g = i) (\<lambda>g. g\<lparr>of_status := O_ACCEPTED, of_paymentHoldExpiresAt := None\<rparr>) (offers s)) \<and>
        requests s' = map_rows (\<lambda>r. rq_id r = of_requestId f) (\<lambda>r. r\<lparr>rq_status := RQ_IN_PROGRESS\<rparr>) (requests s)))"

lemma book_captured_effect:
  assumes run: "book_captured now a c s = Inr (r, s')" and wf: "work_wf s" and od: "distinct (map of_id (offers s))"
    and held: "\<forall>i. at_offerId a = Some i \<longrightarrow> (\<exists>f. find_offer i s = Some f)"
  shows "work_wf s' \<and> fn_created r \<and> \<not> fn_refundRequired r \<and> fn_attempt r = None \<and>
    (\<exists>b q. fn_booking r = Some b \<and> fn_queue r = Some q \<and> bk_id b = nextId s \<and>
      bk_seekerId b = at_seekerId a \<and> bk_providerId b = at_providerId a \<and> bk_status b = B_ACCEPTED \<and>
      bk_paymentStatus b = P_PAID_HELD \<and> bk_agreedAmount b = Some (at_amount a) \<and> bk_paymentAttemptId b = Some (at_id a) \<and>
      bk_paymentMethod b = at_paymentMethod a \<and> bk_offerId b = at_offerId a \<and> bk_serviceId b = at_serviceId a \<and>
      map bk_unplaced (bookings s') = map bk_unplaced (bookings s @ [b]) \<and>
      q_bookingId q = Some (bk_id b) \<and> q_paymentId q = cp_intentId c \<and> q_status q = Q_WAITING \<and>
      map q_id (waiting_line (at_providerId a) (queues s')) = map q_id (waiting_line (at_providerId a) (queues s)) @ [q_id q] \<and>
      (\<exists>e \<in> set (queues s'). q_id e = q_id q \<and> q_bookingId e = Some (bk_id b) \<and> q_status e = Q_WAITING \<and> q_paymentStatus e = P_PAID_HELD)) \<and>
    attempts s' = map_rows (\<lambda>x. at_id x = at_id a) (\<lambda>x. x\<lparr>at_status := A_SUCCEEDED,
      at_providerPaymentId := or_string (cp_paymentId c) None\<rparr>) (attempts s) \<and>
    refunds s' = refunds s \<and> transactions s' = transactions s \<and> completedServices s' = completedServices s \<and>
    nextId s \<le> nextId s' \<and> offer_won (at_offerId a) s s'"
proof -
  let ?p = "at_providerId a" let ?pos = "int (serving_count ?p s) + int (waiting_count ?p s) + 1"
  let ?f = "\<lambda>x. x\<lparr>at_status := A_SUCCEEDED, at_providerPaymentId := or_string (cp_paymentId c) None\<rparr>"
  from book_captured_parts[OF run] obtain b q losing recd s1 u2 s2 s3 u4 s4 u5 s5 u6 s6 s7 where
    r1: "create_booking now (paid_booking a (captured_minutes a s) ?pos) s = Inr (b, s1)" and
    r2: "recordBookingProgress now (bk_id b) PK_ACCEPTED BySystem (EK_Kind PK_ACCEPTED) s1 = Inr (u2, s2)" and
    r3: "enqueue now a c ?pos (bk_id b) s2 = Inr (q, s3)" and
    r4: "clear_waitlist (at_seekerId a) ?p s3 = Inr (u4, s4)" and
    r5: "recalculateQueueInTransaction now ?p s4 = Inr (u5, s5)" and
    r6: "upd_attempt (at_id a) ?f s5 = Inr (u6, s6)" and
    r7: "(case at_offerId a of None \<Rightarrow> ret [] | Some i \<Rightarrow> accept_held_offer i) s6 = Inr (losing, s7)" and
    r8: "recordLifecycleNotice (parties b) [plain_notice (bk_providerId b) ''Paid booking ready to start'',
      plain_notice (bk_seekerId b) ''Payment confirmed''] None s7 = Inr (recd, s')" and
    r: "r = \<lparr>fn_booking = Some b, fn_queue = Some q, fn_created = True, fn_refundRequired = False,
        fn_attempt = None, fn_losing = losing, fn_recorded = Some recd\<rparr>" by blast
  note c1 = create_booking_effect[OF r1]
  have q2: "quiet_rel s1 s2" by (rule quiet.staysD[OF quiet_writes(11) r2])
  note k2 = quiet_core[OF q2]
  note e3 = enqueue_effect[OF r3]
  have q4: "quiet_rel s3 s4" by (rule quiet.staysD[OF quiet_clear_waitlist r4])
  note k4 = quiet_core[OF q4]
  have q8: "quiet_rel s7 s'" by (rule quiet.staysD[OF quiet_notices(3) r8])
  note k8 = quiet_core[OF q8]
  have b: "bk_id b = nextId s" "bk_seekerId b = at_seekerId a" "bk_providerId b = ?p" "bk_status b = B_ACCEPTED"
    "bk_paymentStatus b = P_PAID_HELD" "bk_agreedAmount b = Some (at_amount a)" "bk_paymentAttemptId b = Some (at_id a)"
    "bk_paymentMethod b = at_paymentMethod a" "bk_offerId b = at_offerId a" "bk_serviceId b = at_serviceId a"
    by (simp_all add: c1(1))
  have "work_wf s2" using calm_wf[OF calm.staysD[OF calm_create_booking r1] wf] calm_wf[OF quiet_calm[OF q2]] by blast
  moreover have "\<exists>bk \<in> set (bookings s2). bk_id bk = bk_id b \<and> bk_providerId bk = ?p" by (simp add: k2 c1(2) b)
  ultimately have "work_dirty ?p s3" by (rule enqueue_dirty[OF _ r3])
  then have d4: "work_dirty ?p s4" by (rule calm_dirty[OF quiet_calm[OF q4]])
  then have qd: "queue_ids_distinct s4" by (simp add: work_dirty_def queue_dirty_def)
  have wf5: "work_wf s5" by (rule recalculate_cleans[OF d4 r5])
  note f5 = recalculate_frame[OF r5 qd]
  have s6: "s6 = attempts_update (map_rows (\<lambda>x. at_id x = at_id a) ?f) s5" by (rule upd_attempt_effect[OF r6])
  have q2s: "queues s2 = queues s" by (simp add: k2 c1(5))
  have q4s: "queues s4 = queues s @ [q]" by (simp add: k4 e3(1) q2s)
  have off6: "offers s6 = offers s" "requests s6 = requests s"
    by (simp_all add: s6 f5 k4 e3(1) k2 c1(3,4))
  have won: "offer_won (at_offerId a) s s7 \<and> bookings s7 = bookings s5 \<and> attempts s7 = attempts s6 \<and> queues s7 = queues s5 \<and>
      nextId s7 = nextId s5 \<and> refunds s7 = refunds s5 \<and> transactions s7 = transactions s5 \<and> completedServices s7 = completedServices s5"
  proof (cases "at_offerId a")
    case None
    with r7 show ?thesis by (simp add: ret_Inr offer_won_def off6) (simp add: s6)
  next
    case (Some j)
    with r7 have r7': "accept_held_offer j s6 = Inr (losing, s7)" by simp
    obtain f where "find_offer j s = Some f" using held Some by blast
    then have f: "find_offer j s6 = Some f" by (simp add: find_offer_def off6)
    have "distinct (map of_id (offers s6))" using od by (simp add: off6)
    note e7 = accept_held_effect[OF r7' this f]
    have "offer_won (at_offerId a) s s7" using e7(1,2) \<open>find_offer j s = Some f\<close> by (simp add: offer_won_def Some off6)
    then show ?thesis using e7(3-) by (simp add: s6)
  qed
  have wf: "work_wf s'"
    using calm_wf[OF calm.staysD[OF calm_writes(6) r6] wf5] calm_wf[OF calm.staysD[OF accept_held_calm r7]]
      calm_wf[OF quiet_calm[OF q8]] by blast
  have comp: "compact ?p (queues s)" using \<open>work_wf s\<close> by (simp add: work_wf_def queue_wf_def)
  have wq: "is_waiting ?p q" by (simp add: is_waiting_def e3)
  have line: "map q_id (waiting_line ?p (queues s')) = map q_id (waiting_line ?p (queues s)) @ [q_id q]"
    using recalculateQueueInTransaction_line[OF qd r5] line_snoc[OF comp wq e3(6)] won
    by (simp add: k8 q4s comp_def)
  have bs: "map bk_unplaced (bookings s') = map bk_unplaced (bookings s @ [b])"
    using recalculateQueueInTransaction_effect[OF r5 qd] won by (simp add: k8 k4 e3(1) k2 c1(2))
  obtain e where e: "e \<in> set (queues s5)" "e = seat_row (all_seats ?p s4) q"
    using seated_entry[OF qd r5, of q] by (auto simp: q4s)
  have e': "\<exists>e \<in> set (queues s'). q_id e = q_id q \<and> q_bookingId e = Some (bk_id b) \<and> q_status e = Q_WAITING \<and> q_paymentStatus e = P_PAID_HELD"
    using won e by (intro bexI[of _ e]) (simp_all add: k8 seat_row_same e3)
  have at: "attempts s' = map_rows (\<lambda>x. at_id x = at_id a) ?f (attempts s)"
    using won by (simp add: k8 s6 f5 k4 e3(1) k2 c1(9))
  have c1': "refunds s1 = refunds s" using r1 by (auto simp: create_booking_def fresh_id_def tx_iff Let_def)
  have money: "refunds s' = refunds s \<and> transactions s' = transactions s \<and> completedServices s' = completedServices s"
    using won by (simp add: k8 f5 k4 e3(1) k2 c1 c1')
  have "nextId s5 = nextId s4" "nextId s3 \<le> nextId s4" "nextId s1 \<le> nextId s2" "nextId s7 \<le> nextId s'"
    using f5(1) q4 q2 q8 by (auto simp: quiet_rel_def)
  then have n: "nextId s \<le> nextId s'" using won c1(8) e3(1) by simp
  have "offer_won (at_offerId a) s s'" using won by (simp add: offer_won_def k8 split: option.splits)
  then show ?thesis unfolding r using wf line bs e' at money n b e3(4,5,9) by simp
qed


subsection \<open>Offers under payment\<close>

named_theorems shop_rules \<open>transactions that leave offers and open requests alone\<close>
declare shop.w_rules [shop_rules]

lemma shop_quiet: "quiet.stays m \<Longrightarrow> shop.stays m"
  by (rule shop.staysI) (blast dest: quiet.staysD quiet_shop)

lemma shop_attempts [shop_rules]: "shop.stays (upd_attempt i f)" "shop.stays (require_refund a pid why)"
  "shop.stays (modify (attempts_update g))" "shop.stays fresh_id" "shop.stays (upd_refunds P h)"
  "shop.stays (modify (refunds_update k))"
  unfolding require_refund_def
  by (rule shop.staysI; auto simp: upd_attempt_def upd_refunds_def fresh_id_def modify_Inr shop_rel_def open_ids_def)+

lemma release_effect:
  assumes "releaseOfferHold (Some i) s = Inr (u, s')" "find_offer i s = Some f" "of_status f = O_PENDING_PAYMENT"
  shows "offers s' = map_rows (\<lambda>g. of_id g = i) (\<lambda>g. g\<lparr>of_status := O_PENDING, of_paymentHoldExpiresAt := None\<rparr>) (offers s)"
    "requests s' = map_rows (\<lambda>r. rq_id r = of_requestId f \<and> rq_status r = RQ_PAYMENT_PENDING) (\<lambda>r. r\<lparr>rq_status := RQ_OPEN\<rparr>) (requests s)"
    "nextId s' = nextId s" "attempts s' = attempts s" "bookings s' = bookings s" "queues s' = queues s"
  using assms by (auto simp: releaseOfferHold_def tx_iff upd_offer_def)

lemma release_idle:
  assumes "releaseOfferHold x s = Inr (u, s')" "\<And>i f. x = Some i \<Longrightarrow> find_offer i s = Some f \<Longrightarrow> of_status f \<noteq> O_PENDING_PAYMENT"
  shows "s' = s"
  using assms by (auto simp: releaseOfferHold_def tx_iff split: option.splits if_splits)

lemma release_keeps: "keeps offers_wf (releaseOfferHold x)"
proof (rule keepsI)
  fix s u s' assume wf: "offers_wf s" and run: "releaseOfferHold x s = Inr (u, s')"
  show "offers_wf s'"
  proof (cases "\<exists>i f. x = Some i \<and> find_offer i s = Some f \<and> of_status f = O_PENDING_PAYMENT")
    case False
    then have "s' = s" by (intro release_idle[OF run]) blast
    then show ?thesis using wf by simp
  next
    case True
    then obtain i f where x: "x = Some i" and f: "find_offer i s = Some f" "of_status f = O_PENDING_PAYMENT" by blast
    note e = release_effect[OF run[unfolded x] f]
    have fm: "f \<in> set (offers s)" "of_id f = i" using find_offer_mem[OF f(1)] by simp_all
    define h :: "offer_row \<Rightarrow> offer_row" where
      "h = (\<lambda>g. if of_id g = i then g\<lparr>of_status := O_PENDING, of_paymentHoldExpiresAt := None\<rparr> else g)"
    have os: "offers s' = map h (offers s)" using e(1) by (simp add: map_rows_def h_def)
    have keys: "of_id (h g) = of_id g \<and> of_requestId (h g) = of_requestId g \<and> of_providerId (h g) = of_providerId g" for g
      by (simp add: h_def)
    have row: "g = f" if "g \<in> set (offers s)" "of_id g = i" for g
      using offers_wf_unique[OF wf that(1) fm(1)] that(2) fm(2) by simp
    have sel: "selected f" using f(2) by (simp add: selected_def)
    have opens: "k \<in> open_ids s \<or> k = of_requestId f" if "k \<in> open_ids s'" for k
    proof -
      from that obtain r where r: "r \<in> set (requests s)"
        "rq_id (if rq_id r = of_requestId f \<and> rq_status r = RQ_PAYMENT_PENDING then r\<lparr>rq_status := RQ_OPEN\<rparr> else r) = k"
        "rq_status (if rq_id r = of_requestId f \<and> rq_status r = RQ_PAYMENT_PENDING then r\<lparr>rq_status := RQ_OPEN\<rparr> else r) = RQ_OPEN"
        unfolding open_ids_iff e(2) set_map_rows by blast
      then show ?thesis by (cases "rq_id r = of_requestId f \<and> rq_status r = RQ_PAYMENT_PENDING") (auto simp: open_ids_iff)
    qed
    have down: "selected g \<and> of_id g \<noteq> i" if "selected (h g)" for g
      using that by (cases "of_id g = i") (simp_all add: h_def selected_def)
    show ?thesis
    proof (rule offers_wf_shrink[OF wf os _ keys])
      show "nextId s \<le> nextId s'" using e(3) by simp
      show "live_offer g" if "g \<in> set (offers s)" "live_offer (h g)" for g
      proof (cases "of_id g = i")
        case True
        with row[OF that(1)] f(2) show ?thesis by (simp add: live_offer_def)
      qed (use that in \<open>simp add: h_def\<close>)
      show "selected g" if "selected (h g)" for g using down[OF that] by simp
      show "of_requestId g \<notin> open_ids s'" if g: "g \<in> set (offers s)" "selected (h g)" for g
      proof
        assume "of_requestId g \<in> open_ids s'"
        with opens have "of_requestId g \<in> open_ids s \<or> of_requestId g = of_requestId f" by blast
        moreover have "of_requestId g \<notin> open_ids s" using wf g(1) down[OF g(2)] unfolding offers_wf_def by blast
        ultimately have "of_requestId g = of_requestId f" by blast
        with wf g(1) fm(1) down[OF g(2)] sel have "of_id g = of_id f" unfolding offers_wf_def one_selected_def by blast
        with down[OF g(2)] fm(2) show False by simp
      qed
    qed
  qed
qed

lemma offers_wf_won:
  assumes "offers_wf s" "offer_won x s s'" "nextId s \<le> nextId s'"
    "\<And>i. x = Some i \<Longrightarrow> \<exists>f. find_offer i s = Some f \<and> of_status f = O_PENDING_PAYMENT"
  shows "offers_wf s'"
proof (cases x)
  case None
  with assms(2,3) have "shop_rel s s'" by (simp add: offer_won_def shop_rel_def open_ids_def)
  then show ?thesis using shop_wf assms(1) by blast
next
  case (Some i)
  from assms(4)[OF Some] obtain f where f: "find_offer i s = Some f" "of_status f = O_PENDING_PAYMENT" by blast
  have fm: "f \<in> set (offers s)" "of_id f = i" using find_offer_mem[OF f(1)] by simp_all
  define a :: "offer_row \<Rightarrow> offer_row" where "a = (\<lambda>g. if of_id g = i then g\<lparr>of_status := O_ACCEPTED, of_paymentHoldExpiresAt := None\<rparr> else g)"
  define b :: "offer_row \<Rightarrow> offer_row" where "b = (\<lambda>g. if offer_pending_of (of_requestId f) i g then offer_closed g else g)"
  have m: "map_rows (\<lambda>g. of_id g = i) (\<lambda>g. g\<lparr>of_status := O_ACCEPTED, of_paymentHoldExpiresAt := None\<rparr>) = map a"
    "map_rows (offer_pending_of (of_requestId f) i) offer_closed = map b"
    by (simp_all add: fun_eq_iff map_rows_def a_def b_def)
  have os: "offers s' = map (b \<circ> a) (offers s)" and
    rs: "requests s' = map_rows (\<lambda>r. rq_id r = of_requestId f) (\<lambda>r. r\<lparr>rq_status := RQ_IN_PROGRESS\<rparr>) (requests s)"
    using assms(2) f(1) by (simp_all add: offer_won_def Some m)
  have op: "open_ids s' \<subseteq> open_ids s" using open_ids_close[OF rs] by blast
  have row: "g = f" if "g \<in> set (offers s)" "of_id g = i" for g
    using offers_wf_unique[OF assms(1) that(1) fm(1)] that(2) fm(2) by simp
  have keys: "of_id ((b \<circ> a) g) = of_id g \<and> of_requestId ((b \<circ> a) g) = of_requestId g \<and> of_providerId ((b \<circ> a) g) = of_providerId g" for g
    by (simp add: a_def b_def)
  have was: "selected f" "live_offer f" using f(2) by (simp_all add: selected_def live_offer_def)
  have down: "live_offer ((b \<circ> a) g) \<Longrightarrow> live_offer g" "selected ((b \<circ> a) g) \<Longrightarrow> selected g" if g: "g \<in> set (offers s)" for g
  proof -
    have "live_offer (b x) \<Longrightarrow> live_offer x" "selected (b x) \<Longrightarrow> selected x" for x
      by (simp_all add: b_def live_offer_def selected_def offer_closed_def split: if_splits)
    moreover have "live_offer (a g) \<Longrightarrow> live_offer g" "selected (a g) \<Longrightarrow> selected g"
      using row[OF g] was by (cases "of_id g = i"; simp add: a_def)+
    ultimately show "live_offer ((b \<circ> a) g) \<Longrightarrow> live_offer g" "selected ((b \<circ> a) g) \<Longrightarrow> selected g" by auto
  qed
  show ?thesis
  proof (rule offers_wf_shrink[OF assms(1) os assms(3) keys])
    show "of_requestId g \<notin> open_ids s'" if "g \<in> set (offers s)" "selected ((b \<circ> a) g)" for g
      using assms(1) op down(2)[OF that] that(1) unfolding offers_wf_def by blast
  qed (rule down; assumption)+
qed

text \<open>What a valid hold says of the offer.\<close>

lemma hold_valid:
  assumes "hold_state a s = HoldValid" "at_offerId a = Some i"
  shows "\<exists>f. find_offer i s = Some f \<and> of_status f = O_PENDING_PAYMENT \<and> of_providerId f = at_providerId a"
  using assms by (auto simp: hold_state_def offer_with_request_def split: option.splits if_splits)

lemma book_captured_keeps_offers:
  assumes "book_captured now a c s = Inr (r, s')" "work_wf s" "offers_wf s" "hold_state a s = HoldValid"
  shows "offers_wf s'"
proof -
  have h: "\<exists>f. find_offer i s = Some f \<and> of_status f = O_PENDING_PAYMENT" if "at_offerId a = Some i" for i
    using hold_valid[OF assms(4) that] by blast
  have e: "offer_won (at_offerId a) s s'" "nextId s \<le> nextId s'"
    using book_captured_effect[OF assms(1,2) offers_wf_distinct[OF assms(3)]] h by blast+
  show ?thesis by (rule offers_wf_won[OF assms(3) e h])
qed

end
