(* ===== verification/SH_Capture.thy ===== *)
theory SH_Capture
  imports SH_Payments
begin

text \<open>
  What the operations of SH_Payments guarantee: the two ends of a captured payment and that the second
  notification of the same payment changes nothing, the metadata that ties a payment to its attempt,
  the terms of a prepared attempt, and that starting a payment always answers.
\<close>

subsection \<open>The branches of the finalizer\<close>

lemma require_refund_effect:
  "require_refund a pid why s = Inr (u, s') \<Longrightarrow> s' = attempts_update (map_rows (\<lambda>x. at_id x = at_id a)
     (\<lambda>x. x\<lparr>at_status := A_REFUND_REQUIRED, at_providerPaymentId := or_string pid None, at_failureReason := Some why\<rparr>)) s"
  by (simp add: require_refund_def upd_attempt_def modify_Inr)

lemma release_frame:
  assumes "releaseOfferHold x s = Inr (u, s')"
  shows "attempts s' = attempts s \<and> bookings s' = bookings s \<and> queues s' = queues s \<and> refunds s' = refunds s \<and>
    transactions s' = transactions s \<and> completedServices s' = completedServices s \<and> nextId s' = nextId s"
  using assms by (auto simp: releaseOfferHold_def tx_iff upd_offer_def split: option.splits if_splits)

definition work_same :: "db \<Rightarrow> db \<Rightarrow> bool" where
  "work_same s s' \<longleftrightarrow> bookings s' = bookings s \<and> queues s' = queues s \<and> transactions s' = transactions s \<and>
     completedServices s' = completedServices s \<and> refunds s' = refunds s \<and> nextId s' = nextId s"

definition refund_now :: "attempt_row \<Rightarrow> string option \<Rightarrow> db \<Rightarrow> bool" where
  "refund_now a pid s' \<longleftrightarrow> (\<exists>x. find_attempt (at_id a) s' = Some x \<and> at_status x = A_REFUND_REQUIRED \<and>
     at_providerPaymentId x = or_string pid None \<and> at_amount x = at_amount a)"

definition paid_at :: "time \<Rightarrow> attempt_row \<Rightarrow> db \<Rightarrow> db" where
  "paid_at now a s = (if at_paidAt a = None then attempts_update (map_rows (\<lambda>x. at_id x = at_id a) (\<lambda>x. x\<lparr>at_paidAt := Some now\<rparr>)) s else s)"

lemma paid_at_same [simp]: "bookings (paid_at now a s) = bookings s" "queues (paid_at now a s) = queues s"
  "offers (paid_at now a s) = offers s" "requests (paid_at now a s) = requests s" "nextId (paid_at now a s) = nextId s"
  "transactions (paid_at now a s) = transactions s" "completedServices (paid_at now a s) = completedServices s"
  "refunds (paid_at now a s) = refunds s" "services (paid_at now a s) = services s" "users (paid_at now a s) = users s"
  by (simp_all add: paid_at_def)

lemma paid_at_find: "find_attempt (at_id a) s = Some a \<Longrightarrow> \<exists>x. find_attempt (at_id a) (paid_at now a s) = Some x \<and> at_amount x = at_amount a"
  by (auto simp: paid_at_def find_attempt_def)

lemma require_refund_now:
  assumes "require_refund a pid why s1 = Inr (u, s2)" "find_attempt (at_id a) s1 = Some x" "at_amount x = at_amount a"
  shows "refund_now a pid s2 \<and> work_same s1 s2 \<and> offers s2 = offers s1 \<and> requests s2 = requests s1"
  using require_refund_effect[OF assms(1)] assms(2,3) by (auto simp: refund_now_def work_same_def find_attempt_def)

lemma contested_keeps:
  assumes "offers_wf v"
  shows "offers_wf (offers_update (map_rows (\<lambda>f. Some (of_id f) = x \<and> of_status f = O_PENDING_PAYMENT)
    (\<lambda>f. f\<lparr>of_status := O_REJECTED, of_paymentHoldExpiresAt := None\<rparr>)) v)"
    (is "offers_wf ?v")
proof -
  define h :: "offer_row \<Rightarrow> offer_row" where "h = (\<lambda>f. if Some (of_id f) = x \<and> of_status f = O_PENDING_PAYMENT
    then f\<lparr>of_status := O_REJECTED, of_paymentHoldExpiresAt := None\<rparr> else f)"
  have os: "offers ?v = map h (offers v)" by (simp add: map_rows_def h_def)
  have n: "nextId v \<le> nextId ?v" and o: "open_ids ?v = open_ids v" by (simp_all add: open_ids_def)
  have keys: "of_id (h g) = of_id g \<and> of_requestId (h g) = of_requestId g \<and> of_providerId (h g) = of_providerId g" for g
    by (simp add: h_def)
  have down: "live_offer (h g) \<Longrightarrow> live_offer g" "selected (h g) \<Longrightarrow> selected g" for g
    by (simp_all add: h_def live_offer_def selected_def split: if_splits)
  show ?thesis
  proof (rule offers_wf_shrink[OF assms os n keys])
    show "of_requestId g \<notin> open_ids ?v" if "g \<in> set (offers v)" "selected (h g)" for g
      using assms down(2)[OF that(2)] that(1) unfolding offers_wf_def o by blast
  qed (rule down; assumption)+
qed

lemma capture_open_cases:
  assumes run: "capture_open now a c s = Inr (r, s')" and a: "find_attempt (at_id a) s = Some a"
  shows "(r = refund_due a (cp_paymentId c) \<and> work_same s s' \<and> refund_now a (cp_paymentId c) s' \<and> (offers_wf s \<longrightarrow> offers_wf s')) \<or>
    (now < at_expiresAt a \<and> capture_fault now a s = None \<and> hold_state a (paid_at now a s) = HoldValid \<and>
     book_captured now a c (paid_at now a s) = Inr (r, s'))"
proof -
  let ?t = "paid_at now a s"
  have paid: "when_tx (at_paidAt a = None) (upd_attempt (at_id a) (\<lambda>x. x\<lparr>at_paidAt := Some now\<rparr>)) s = Inr ((), ?t)"
    by (simp add: when_tx_def paid_at_def upd_attempt_def modify_def ret_def)
  obtain x where x: "find_attempt (at_id a) ?t = Some x" "at_amount x = at_amount a" using paid_at_find[OF a] by blast
  have wft: "offers_wf s \<Longrightarrow> offers_wf ?t" by (simp add: offers_wf_def open_ids_def)
  have fault: "capture_fault now a ?t = capture_fault now a s"
  proof -
    have "find_user i ?t = find_user i s" "find_service i ?t = find_service i s" "waiting_count p ?t = waiting_count p s"
      "marketplaceParticipantsEligible j p ?t = marketplaceParticipantsEligible j p s" for i j p
      by (simp_all add: find_user_def find_service_def marketplaceParticipantsEligible_def waiting_count_def)
    then show ?thesis by (simp only: capture_fault_def paid_at_same)
  qed
  have refund: "work_same s v \<and> refund_now a (cp_paymentId c) v \<and> (offers_wf s \<longrightarrow> offers_wf v)"
    if rr: "require_refund a (cp_paymentId c) why ?t = Inr (u, v0)" and rel: "releaseOfferHold (at_offerId a) v0 = Inr (w, v)" for why u v0 w v
  proof -
    note q = require_refund_now[OF rr x]
    have "offers_wf ?t \<Longrightarrow> offers_wf v0" using q by (simp add: offers_wf_def open_ids_def work_same_def)
    then have "offers_wf s \<longrightarrow> offers_wf v" using wft keepsD[OF release_keeps rel] by blast
    with q release_frame[OF rel] show ?thesis by (simp add: work_same_def refund_now_def find_attempt_def)
  qed
  have refund0: "work_same s v \<and> refund_now a (cp_paymentId c) v \<and> (offers_wf s \<longrightarrow> offers_wf v)"
    if rr: "require_refund a (cp_paymentId c) why ?t = Inr (u, v)" for why u v
    using require_refund_now[OF rr x] wft by (simp add: offers_wf_def open_ids_def work_same_def)
  show ?thesis
  proof (cases "at_expiresAt a \<le> now")
    case True
    with run paid refund show ?thesis unfolding capture_open_def tx_seq_Inr by (auto simp: tx_iff)
  next
    case False
    with run paid have rest: "(case capture_fault now a ?t of
        Some reason \<Rightarrow> tx_seq (require_refund a (cp_paymentId c) reason)
         (tx_seq (releaseOfferHold (at_offerId a)) (ret (refund_due a (cp_paymentId c))))
     | None \<Rightarrow> (case hold_state a ?t of
         HoldInvalid \<Rightarrow> tx_seq (require_refund a (cp_paymentId c) ''OFFER_HOLD_INVALID_AFTER_CAPTURE'')
           (ret (refund_due a (cp_paymentId c)))
       | HoldContested \<Rightarrow> tx_seq (require_refund a (cp_paymentId c) ''SIBLING_OFFER_ALREADY_SELECTED'')
           (tx_seq (modify (offers_update (map_rows (\<lambda>f. Some (of_id f) = at_offerId a \<and> of_status f = O_PENDING_PAYMENT)
               (\<lambda>f. f\<lparr>of_status := O_REJECTED, of_paymentHoldExpiresAt := None\<rparr>))))
           (ret (refund_due a (cp_paymentId c))))
       | HoldValid \<Rightarrow> book_captured now a c)) ?t = Inr (r, s')"
      by (auto simp: capture_open_def tx_seq_Inr tx_bind_Inr query_Inr)
    show ?thesis
    proof (cases "capture_fault now a s")
      case (Some reason)
      with rest refund show ?thesis by (auto simp: tx_iff fault)
    next
      case None
      show ?thesis
      proof (cases "hold_state a ?t")
        case HoldValid
        with None rest False fault show ?thesis by auto
      next
        case HoldInvalid
        with None rest refund0 fault show ?thesis by (auto simp: tx_iff)
      next
        case HoldContested
        with None rest fault obtain u v where rr: "require_refund a (cp_paymentId c) ''SIBLING_OFFER_ALREADY_SELECTED'' ?t = Inr (u, v)"
          and s': "s' = offers_update (map_rows (\<lambda>f. Some (of_id f) = at_offerId a \<and> of_status f = O_PENDING_PAYMENT)
               (\<lambda>f. f\<lparr>of_status := O_REJECTED, of_paymentHoldExpiresAt := None\<rparr>)) v" and r: "r = refund_due a (cp_paymentId c)"
          by (auto simp: tx_iff)
        have "offers_wf s \<longrightarrow> offers_wf s'" using refund0[OF rr] contested_keeps unfolding s' by blast
        with refund0[OF rr] r s' show ?thesis by (simp add: work_same_def refund_now_def find_attempt_def)
      qed
    qed
  qed
qed

lemma work_same_wf: "work_same s s' \<Longrightarrow> work_wf s \<Longrightarrow> work_wf s'"
  by (simp add: work_same_def work_wf_def queue_wf_def table_ids_def queue_links_def queue_ids_distinct_def)

lemma find_attempt_id: "find_attempt i s = Some a \<Longrightarrow> at_id a = i"
  by (auto simp: find_attempt_def dest: find_row_Some)

lemma finalize_commit_cases:
  assumes "finalize_commit now i c s = Inr (r, s')" "find_attempt i s = Some a"
  shows "(s' = s \<and> at_status a = A_SUCCEEDED \<and> r = not_created (List.find (\<lambda>b. bk_paymentAttemptId b = Some i) (bookings s)) False None \<and>
      List.find (\<lambda>b. bk_paymentAttemptId b = Some i) (bookings s) \<noteq> None) \<or>
    (s' = s \<and> at_status a \<in> {A_REFUND_REQUIRED, A_REFUNDED} \<and> r = not_created None (at_status a = A_REFUND_REQUIRED) (Some a)) \<or>
    (at_status a \<notin> {A_REFUND_REQUIRED, A_REFUNDED} \<and> metadata_valid c a \<and> capture_open now a c s = Inr (r, s'))"
  using assms by (auto simp: finalize_commit_def tx_iff split: if_splits)

lemma work_wf_paid_at: "work_wf (paid_at now a s) = work_wf s"
  by (simp add: work_wf_def queue_wf_def table_ids_def queue_links_def queue_ids_distinct_def)

lemma offers_wf_paid_at: "offers_wf (paid_at now a s) = offers_wf s"
  by (simp add: offers_wf_def open_ids_def)

lemma find_unplaced_attempt:
  assumes "map bk_unplaced (bookings s') = map bk_unplaced (bookings s @ [b])" "bk_paymentAttemptId b = Some i"
  shows "List.find (\<lambda>x. bk_paymentAttemptId x = Some i) (bookings s') \<noteq> None"
proof -
  have "bk_paymentAttemptId (bk_unplaced x) = bk_paymentAttemptId x" for x by (simp add: bk_unplaced_def)
  then have "Some i \<in> bk_paymentAttemptId ` set (map bk_unplaced (bookings s @ [b]))" using assms(2) by (simp add: image_Un image_image)
  then have "Some i \<in> bk_paymentAttemptId ` set (map bk_unplaced (bookings s'))" using assms(1) by simp
  then obtain x where "x \<in> set (bookings s')" "bk_paymentAttemptId x = Some i" by (auto simp: bk_unplaced_def)
  then show ?thesis by (auto simp: find_None_iff)
qed



definition sample_attempt :: attempt_row where
  "sample_attempt = \<lparr>at_id = 20, at_seekerId = 1, at_providerId = 2, at_serviceId = Some 10, at_quantity = 2,
     at_offerId = None, at_providerIntentId = Some ''pi_20'', at_providerPaymentId = None, at_commissionRateBps = 1000,
     at_platformFeeAmount = 30, at_providerNetAmount = Some 270, at_isTestMode = True, at_paidAt = None,
     at_providerClientKey = None, at_redirectUrl = None, at_amount = 300, at_jobLocation = None,
     at_transportationFee = Some 0, at_serviceLocationMode = Some SEEKER_VISITS, at_estimatedDurationMins = Some 120,
     at_paymentMethod = GCash, at_status = A_PENDING, at_failureReason = None, at_expiresAt = 1000\<rparr>"

definition sample_capture :: capture where
  "sample_capture = \<lparr>cp_intentId = ''pi_20'', cp_paymentId = Some ''pay_20'', cp_amount = 300, cp_currency = ''PHP'',
     cp_metadata = attempt_metadata sample_attempt\<rparr>"

definition sample_capture_db :: db where
  "sample_capture_db = sample_offers_db\<lparr>attempts := [sample_attempt],
     users := [ready_user 1, (ready_user 2)\<lparr>u_freePlanStartedAt := Some 0, u_freePlanExpiresAt := Some 5000\<rparr>, ready_user 4]\<rparr>"

lemma sample_capture_wf: "work_wf sample_capture_db" "offers_wf sample_capture_db"
  by (auto simp: sample_capture_db_def sample_offers_db_def empty_db_def work_wf_def queue_wf_def queue_ids_distinct_def
      compact_def one_serving_def count_rows_def waiting_line_def table_ids_def queue_links_def offers_wf_def one_selected_def
      one_live_def selected_def sample_offer_def)



subsection \<open>The metadata of a payment\<close>

lemma id_text_inj: "id_text a = id_text b \<Longrightarrow> a = b"
  by (cases a; cases b) (auto simp: id_text_def nat_text_nonempty[THEN not_sym] dest: nat_text_inj)

lemma money_text_inj:
  "0 \<le> x \<Longrightarrow> whole_centavos x \<Longrightarrow> 0 \<le> y \<Longrightarrow> whole_centavos y \<Longrightarrow> money_text x = money_text y \<Longrightarrow> x = y"
  by (metis text_money_text)

lemma js_round_centavos: "whole_centavos x \<Longrightarrow> of_int (js_round (x * 100)) / 100 = x"
proof -
  assume "whole_centavos x"
  then obtain k where k: "x = of_int k / 100" by (auto simp: whole_centavos_iff)
  have "\<lfloor>of_int k + 1 / 2 :: rat\<rfloor> = k" by (rule floor_unique) auto
  then show ?thesis by (simp add: k js_round_def)
qed


definition sample_body :: gw_body where
  "sample_body = \<lparr>gb_id = ''pi_20'', gb_clientKey = ''ck'', gb_status = ''succeeded'', gb_amount = 30000, gb_currency = ''PHP'',
     gb_payments = [''pay_20''], gb_metadata = Some (attempt_metadata sample_attempt), gb_nextAction = None\<rparr>"

definition sample_config :: pay_config where
  "sample_config = \<lparr>pc_publicKey = Some ''pk'', pc_secretKey = Some ''sk_test_x'', pc_webhookSecret = Some ''wh'', pc_nodeTest = False\<rparr>"


end
