(* ===== verification/SH_Checkout.thy ===== *)
theory SH_Checkout
  imports SH_Capture
begin

text \<open>
  Starting, reusing, failing and expiring a payment, and giving a captured one back: what the
  transactions of SH_Payments around the finalizer guarantee, and the invariants they keep.
\<close>

subsection \<open>Preparing an attempt\<close>

lemma expire_loop:
  assumes "for_each (\<lambda>a. tx_seq (upd_attempt (at_id a) (\<lambda>r. r\<lparr>at_status := A_EXPIRED\<rparr>)) (releaseOfferHold (at_offerId a))) xs s = Inr (u, s')"
  shows "attempts s' = map_rows (\<lambda>r. at_id r \<in> at_id ` set xs) (\<lambda>r. r\<lparr>at_status := A_EXPIRED\<rparr>) (attempts s)"
  using assms
proof (induction xs arbitrary: s)
  case Nil
  then show ?case by (simp add: ret_Inr map_rows_def)
next
  case (Cons a xs)
  from Cons.prems obtain u1 s1 u2 s2 where
    r: "upd_attempt (at_id a) (\<lambda>r. r\<lparr>at_status := A_EXPIRED\<rparr>) s = Inr (u1, s1)"
      "releaseOfferHold (at_offerId a) s1 = Inr (u2, s2)"
      "for_each (\<lambda>a. tx_seq (upd_attempt (at_id a) (\<lambda>r. r\<lparr>at_status := A_EXPIRED\<rparr>)) (releaseOfferHold (at_offerId a))) xs s2 = Inr (u, s')"
    by (auto simp: tx_seq_Inr)
  have "attempts s2 = map_rows (\<lambda>r. at_id r = at_id a) (\<lambda>r. r\<lparr>at_status := A_EXPIRED\<rparr>) (attempts s)"
    using upd_attempt_effect[OF r(1)] release_frame[OF r(2)] by simp
  then show ?case unfolding Cons.IH[OF r(3)] by (auto simp: map_rows_def)
qed

lemma expire_own_stale_effect:
  assumes "expire_own_stale now p t s = Inr (u, s')"
  shows "\<And>x. x \<in> set (attempts s') \<Longrightarrow> pending_for p t x \<Longrightarrow> now < at_expiresAt x"
    "\<not> (\<exists>x \<in> set (attempts s). pending_for p t x \<and> at_expiresAt x \<le> now) \<Longrightarrow> s' = s"
proof -
  let ?xs = "filter (\<lambda>a. pending_for p t a \<and> at_expiresAt a \<le> now) (attempts s)"
  from assms have run: "for_each (\<lambda>a. tx_seq (upd_attempt (at_id a) (\<lambda>r. r\<lparr>at_status := A_EXPIRED\<rparr>)) (releaseOfferHold (at_offerId a))) ?xs s = Inr (u, s')"
    by (simp add: expire_own_stale_def tx_bind_Inr query_Inr)
  show "now < at_expiresAt x" if x: "x \<in> set (attempts s')" "pending_for p t x" for x
  proof -
    from x(1) obtain r where r: "r \<in> set (attempts s)" "x = (if at_id r \<in> at_id ` set ?xs then r\<lparr>at_status := A_EXPIRED\<rparr> else r)"
      unfolding expire_loop[OF run] set_map_rows by blast
    have "at_id r \<notin> at_id ` set ?xs" using x(2) r(2) by (auto simp: pending_for_def split: if_splits)
    then have "x = r" "r \<notin> set ?xs" using r(2) by auto
    with r(1) x(2) show ?thesis by auto
  qed
  assume "\<not> (\<exists>x \<in> set (attempts s). pending_for p t x \<and> at_expiresAt x \<le> now)"
  then have "?xs = []" by (auto simp: filter_empty_conv)
  with run show "s' = s" by (simp add: ret_Inr)
qed

lemma reuse_attempt_same: "reuse_attempt p t x s = Inr (a, s') \<Longrightarrow> a = x \<and> s' = s"
  by (auto simp: reuse_attempt_def tx_iff)

lemma pay_guards_ok:
  assumes "pay_guards p t s = Inr (terms, s')"
  shows "s' = s" "tg_providerId t \<noteq> pp_seekerId p" "marketplaceParticipantsEligible (pp_seekerId p) (tg_providerId t) s"
    "\<not> exists_row (blocks_payment (pp_seekerId p) (pp_offerId p) (tg_serviceId t)) (bookings s)"
    "waiting_count (tg_providerId t) s < u_onlineQueueLimit (the (find_user (tg_providerId t) s))"
    "tg_offer t \<or> (\<exists>v. Option.bind (tg_serviceId t) (\<lambda>i. find_service i s) = Some v \<and> direct_terms p t (Some v) = Inr terms)"
proof -
  from assms show "s' = s" "tg_providerId t \<noteq> pp_seekerId p" "marketplaceParticipantsEligible (pp_seekerId p) (tg_providerId t) s"
    "\<not> exists_row (blocks_payment (pp_seekerId p) (pp_offerId p) (tg_serviceId t)) (bookings s)"
    "waiting_count (tg_providerId t) s < u_onlineQueueLimit (the (find_user (tg_providerId t) s))"
    unfolding pay_guards_def tx_open by blast+
  let ?v = "if tg_offer t then None else Option.bind (tg_serviceId t) (\<lambda>i. find_service i s)"
  from assms have "tg_offer t \<or> ?v \<noteq> None" "direct_terms p t ?v = Inr terms"
    unfolding pay_guards_def tx_open by blast+
  then show "tg_offer t \<or> (\<exists>v. Option.bind (tg_serviceId t) (\<lambda>i. find_service i s) = Some v \<and> direct_terms p t (Some v) = Inr terms)"
    by (cases "tg_offer t") auto
qed

lemma create_attempt_effect:
  assumes "create_attempt cfg now ex p t c s = Inr (a, s')"
  shows "50 \<le> py_amount c" "py_amount c \<le> 50000" "at_amount a = py_amount c" "at_expiresAt a = ex" "at_status a = A_PENDING"
    "attempts s' = attempts s @ [a]" "at_seekerId a = pp_seekerId p" "at_providerId a = tg_providerId t"
    "at_serviceId a = tg_serviceId t" "at_offerId a = pp_offerId p" "at_quantity a = tg_quantity t"
    "commission_columns_ok (at_commissionRateBps a) (at_platformFeeAmount a) (at_providerNetAmount a) (at_amount a)"
    "\<exists>u. find_user (tg_providerId t) s = Some u \<and> at_commissionRateBps a = planCommissionBps (u_subscriptionPlan u)"
    "offers s' = offers s" "requests s' = requests s" "bookings s' = bookings s" "queues s' = queues s" "nextId s' = Suc (nextId s)"
    "at_id a = nextId s" "users s' = users s"
proof -
  from assms obtain u com where u: "find_user (tg_providerId t) s = Some u"
    and com: "paymentCommission (py_amount c) (bn_commissionRateBps (subscriptionBenefits u now)) = Inr com"
    and b: "50 \<le> py_amount c" "py_amount c \<le> 50000"
    and run: "a = \<lparr>at_id = nextId s, at_seekerId = pp_seekerId p, at_providerId = tg_providerId t, at_serviceId = tg_serviceId t,
        at_quantity = tg_quantity t, at_offerId = pp_offerId p, at_providerIntentId = None, at_providerPaymentId = None,
        at_commissionRateBps = commissionRateBps com, at_platformFeeAmount = platformFeeAmount com,
        at_providerNetAmount = Some (providerNetAmount com), at_isTestMode = (\<not> live_key cfg), at_paidAt = None,
        at_providerClientKey = None, at_redirectUrl = None, at_amount = py_amount c, at_jobLocation = py_jobLocation c,
        at_transportationFee = py_transportationFee c, at_serviceLocationMode = py_mode c,
        at_estimatedDurationMins = py_minutes c, at_paymentMethod = GCash, at_status = A_PENDING,
        at_failureReason = None, at_expiresAt = ex\<rparr>"
      "s' = s\<lparr>nextId := Suc (nextId s), attempts := attempts s @ [a]\<rparr>"
    by (auto simp: create_attempt_def tx_iff fresh_id_def Let_def)
  have "commissionRateBps com = bn_commissionRateBps (subscriptionBenefits u now)" using com by (auto simp: paymentCommission_Inr)
  then have "commissionRateBps com = planCommissionBps (u_subscriptionPlan u)" by (simp add: subscriptionBenefits_def Let_def)
  then show "\<exists>u. find_user (tg_providerId t) s = Some u \<and> at_commissionRateBps a = planCommissionBps (u_subscriptionPlan u)"
    using u run by simp
  show "commission_columns_ok (at_commissionRateBps a) (at_platformFeeAmount a) (at_providerNetAmount a) (at_amount a)"
    using paymentCommission_columns_ok[OF com] by (simp add: run)
qed (use assms in \<open>auto simp: create_attempt_def tx_iff fresh_id_def Let_def\<close>)

lemma assert_gcash_inquiry_same: "assert_gcash_inquiry f r s = Inr (u, s') \<Longrightarrow> s' = s"
  by (auto simp: assert_gcash_inquiry_def tx_iff split: option.splits)

lemma hold_offer_effect:
  assumes "hold_offer ex p t i s = Inr (c, s')"
  shows "\<exists>f r. offer_with_request i s = Some (f, r) \<and> of_status f = O_PENDING \<and> rq_status r = RQ_OPEN \<and>
    rq_seekerId r = pp_seekerId p \<and> of_providerId f = tg_providerId t \<and> py_amount c = of_offeredPrice f \<and>
    offers s' = map_rows (\<lambda>g. of_id g = i) (\<lambda>g. g\<lparr>of_status := O_PENDING_PAYMENT, of_paymentHoldExpiresAt := Some ex\<rparr>) (offers s) \<and>
    requests s' = map_rows (\<lambda>r. rq_id r = of_requestId f) (\<lambda>r. r\<lparr>rq_status := RQ_PAYMENT_PENDING\<rparr>) (requests s) \<and>
    nextId s' = nextId s \<and> attempts s' = attempts s \<and> users s' = users s"
  using assms
  by (auto simp: hold_offer_def tx_iff upd_offer_def upd_request_def dest!: assert_gcash_inquiry_same split: option.splits)

lemma prepare_payment_parts:
  assumes "prepare_payment cfg now p t s = Inr ((a, reused), s')"
  shows "\<exists>t0 t1. quiet_rel s t0 \<and> (\<exists>u. expire_own_stale now p t t0 = Inr (u, t1)) \<and>
    (if reused then List.find (\<lambda>a. pending_for p t a \<and> now < at_expiresAt a) (attempts t1) = Some a \<and> s' = t1
     else List.find (\<lambda>a. pending_for p t a \<and> now < at_expiresAt a) (attempts t1) = None \<and>
       (\<exists>terms c t2. pay_guards p t t1 = Inr (terms, t1) \<and>
         (case pp_offerId p of None \<Rightarrow> ret (direct_columns terms) | Some i \<Rightarrow> hold_offer (now + ATTEMPT_TTL_MS) p t i) t1 = Inr (c, t2) \<and>
         create_attempt cfg now (now + ATTEMPT_TTL_MS) p t c t2 = Inr (a, s')))"
proof -
  from assms obtain u t0 v t1 where 1: "assertNewProviderBusiness now (tg_providerId t) s = Inr (u, t0)"
    "expire_own_stale now p t t0 = Inr (v, t1)"
    and rest: "(case List.find (\<lambda>a. pending_for p t a \<and> now < at_expiresAt a) (attempts t1) of
       Some a \<Rightarrow> tx_bind (reuse_attempt p t a) (\<lambda>a. ret (a, True))
     | None \<Rightarrow>
       tx_bind (pay_guards p t) (\<lambda>terms.
       tx_bind (case pp_offerId p of None \<Rightarrow> ret (direct_columns terms)
           | Some i \<Rightarrow> hold_offer (now + ATTEMPT_TTL_MS) p t i) (\<lambda>c.
       tx_bind (create_attempt cfg now (now + ATTEMPT_TTL_MS) p t c) (\<lambda>a. ret (a, False))))) t1 = Inr ((a, reused), s')"
    unfolding prepare_payment_def tx_bind_Inr tx_seq_Inr query_Inr by blast
  have q: "quiet_rel s t0" by (rule quiet.staysD[OF quiet_trial(2) 1(1)])
  show ?thesis
  proof (cases "List.find (\<lambda>a. pending_for p t a \<and> now < at_expiresAt a) (attempts t1)")
    case None
    with rest obtain terms s1 c t2 where "pay_guards p t t1 = Inr (terms, s1)"
      "(case pp_offerId p of None \<Rightarrow> ret (direct_columns terms) | Some i \<Rightarrow> hold_offer (now + ATTEMPT_TTL_MS) p t i) s1 = Inr (c, t2)"
      "create_attempt cfg now (now + ATTEMPT_TTL_MS) p t c t2 = Inr (a, s')" "\<not> reused"
      by (auto simp: tx_bind_Inr ret_Inr)
    with pay_guards_ok(1)[OF this(1)] q 1(2) None show ?thesis by auto
  next
    case (Some x)
    with rest q 1(2) show ?thesis by (auto simp: tx_bind_Inr ret_Inr dest!: reuse_attempt_same)
  qed
qed

lemma find_append_none: "(\<And>x. x \<in> set xs \<Longrightarrow> \<not> P x) \<Longrightarrow> P y \<Longrightarrow> List.find P (xs @ [y]) = Some y"
  by (induction xs) auto

lemma map_sum_Inr_cases: "map_sum id f x = Inr y \<Longrightarrow> (\<And>z. x = Inr z \<Longrightarrow> y = f z \<Longrightarrow> thesis) \<Longrightarrow> thesis"
  by (cases x) auto

lemma direct_terms_Some: "direct_terms p t (Some v) = Inr terms \<Longrightarrow> \<exists>arr amt mins. terms = Some (arr, amt, mins)"
  unfolding direct_terms_def option.case
  by (cases "resolveDirectArrangement v (pp_mode p) (pp_jobLocation p)"; simp)
    (elim map_sum_Inr_cases; auto)

lemma expire_keeps_services: "keeps (\<lambda>s. services s = c) (expire_own_stale now p t)"
  unfolding expire_own_stale_def releaseOfferHold_def upd_attempt_def upd_offer_def
  by (intro tx_pres keeps_modify) simp_all

lemma pending_for_same:
  "pp_seekerId p2 = pp_seekerId p \<Longrightarrow> pp_offerId p2 = pp_offerId p \<Longrightarrow> tg_serviceId t2 = tg_serviceId t \<Longrightarrow>
   pending_for p2 t2 = pending_for p t"
  by (simp add: fun_eq_iff pending_for_def)

lemma prepare_finds_pending:
  assumes "prepare_payment cfg now p t s = Inr ((b, r), s')"
    "List.find (\<lambda>x. pending_for p t x \<and> now < at_expiresAt x) (attempts s) = Some a"
    "\<And>x. x \<in> set (attempts s) \<Longrightarrow> pending_for p t x \<Longrightarrow> now < at_expiresAt x"
  shows "r \<and> b = a \<and> attempts s' = attempts s"
proof -
  from prepare_payment_parts[OF assms(1)] obtain t0 t1 u where q: "quiet_rel s t0" and ex: "expire_own_stale now p t t0 = Inr (u, t1)"
    and rest: "if r then List.find (\<lambda>a. pending_for p t a \<and> now < at_expiresAt a) (attempts t1) = Some b \<and> s' = t1
     else List.find (\<lambda>a. pending_for p t a \<and> now < at_expiresAt a) (attempts t1) = None" by (auto split: if_splits)
  have at: "attempts t0 = attempts s" by (simp add: quiet_core(9)[OF q])
  have "\<not> (\<exists>x \<in> set (attempts t0). pending_for p t x \<and> at_expiresAt x \<le> now)" using assms(3) at by fastforce
  then have "t1 = t0" by (rule expire_own_stale_effect(2)[OF ex])
  with rest at assms(2) show ?thesis by (auto split: if_splits)
qed



definition sample_pay_params :: pay_params where
  "sample_pay_params = \<lparr>pp_seekerId = 1, pp_serviceId = Some 10, pp_offerId = None, pp_quantity = Some 2, pp_jobLocation = None,
     pp_mode = Some SEEKER_VISITS, pp_retryIntent = None\<rparr>"

definition sample_target :: pay_target where
  "sample_target = \<lparr>tg_offer = False, tg_providerId = 2, tg_serviceId = Some 10, tg_quantity = 2\<rparr>"


end
