(* ===== verification/SH_Resolution.thy ===== *)
theory SH_Resolution
  imports SH_Checkout
begin

text \<open>
  The durable record of a decision (src/src/services/admin-resolution-operation.service.ts): one operation
  per case, with a stage that tells how far its money has moved, so that a decision interrupted between
  the payment gateway and the database is taken up again where it stopped.

  The stages are ordered as the code ranks them. \<open>op_rel\<close> is what every transaction of every component
  keeps of the operations: none disappears, its case and its requested outcome never change, its stage
  never goes back, and a completed operation stays as it is.
\<close>

subsection \<open>The stages in order\<close>

fun stage_rank :: "op_stage \<Rightarrow> nat" where
  "stage_rank CLAIMED = 0"
| "stage_rank DECISION_READY = 1"
| "stage_rank FINANCIAL_EFFECT_RESERVED = 2"
| "stage_rank FINANCIAL_EFFECT_ESTABLISHED = 3"
| "stage_rank CASE_FINALIZED = 4"

lemma stage_rank_inj: "stage_rank a = stage_rank b \<Longrightarrow> a = b"
  by (cases a; cases b) simp_all

instantiation op_stage :: linorder
begin

definition less_eq_op_stage :: "op_stage \<Rightarrow> op_stage \<Rightarrow> bool" where
  "less_eq_op_stage a b \<longleftrightarrow> stage_rank a \<le> stage_rank b"

definition less_op_stage :: "op_stage \<Rightarrow> op_stage \<Rightarrow> bool" where
  "less_op_stage a b \<longleftrightarrow> stage_rank a < stage_rank b"

instance
  by standard (auto simp: less_eq_op_stage_def less_op_stage_def dest: stage_rank_inj)

end

lemma CASE_FINALIZED_top [simp]: "a \<le> CASE_FINALIZED"
  by (cases a) (simp_all add: less_eq_op_stage_def)

lemma not_less_CLAIMED [simp]: "CLAIMED \<le> a"
  by (simp add: less_eq_op_stage_def)

subsection \<open>Operations\<close>

definition operation_of :: "case_type \<Rightarrow> key \<Rightarrow> db \<Rightarrow> operation_row option" where
  "operation_of ct i s = List.find (\<lambda>op. op_caseType op = ct \<and> op_caseId op = i) (operations s)"

definition upd_operations :: "(operation_row \<Rightarrow> bool) \<Rightarrow> (operation_row \<Rightarrow> operation_row) \<Rightarrow> unit dbtx" where
  "upd_operations p f = modify (operations_update (map_rows p f))"

text \<open>\<open>penalty || "none"\<close>\<close>

definition or_none :: "string option \<Rightarrow> string" where
  "or_none p = (if truthy p then the p else ''none'')"

definition op_conflict :: error where
  "op_conflict = Http 409 ''RESOLUTION_OPERATION_CONFLICT''"

definition op_closed :: "operation_row \<Rightarrow> bool" where
  "op_closed op \<longleftrightarrow> op_status op = OP_COMPLETED \<or> op_status op = OP_FAILED_NONRETRYABLE \<or> op_stage op = CASE_FINALIZED"

definition op_running :: "operation_row \<Rightarrow> bool" where
  "op_running op \<longleftrightarrow> op_status op \<in> {OP_PROCESSING, OP_FAILED_RETRYABLE}"

definition beginAdminResolution ::
  "case_type \<Rightarrow> key \<Rightarrow> key \<Rightarrow> key \<Rightarrow> string \<Rightarrow> string option \<Rightarrow> operation_row dbtx" where
  "beginAdminResolution caseType caseId bookingId adminId outcome penalty =
     tx_bind (query (operation_of caseType caseId)) (\<lambda>existing. case existing of
       Some e \<Rightarrow>
         tx_seq (ensure (op_requestedOutcome e = outcome \<and> or_none (op_requestedPenalty e) = or_none penalty) op_conflict)
        (if op_closed e then ret e
         else tx_seq (upd_operations (\<lambda>r. op_id r = op_id e \<and> op_running r \<and> op_stage r = op_stage e)
                (\<lambda>r. r\<lparr>op_status := OP_PROCESSING, op_lastError := None\<rparr>))
             (tx_bind (query (find_operation (op_id e))) (expect (Uncoded ''P2025''))))
     | None \<Rightarrow> tx_bind fresh_id (\<lambda>i.
         let op = \<lparr>op_id = i, op_caseType = caseType, op_caseId = caseId, op_bookingId = bookingId,
           op_requestedByAdminId = adminId, op_requestedOutcome = outcome,
           op_requestedPenalty = (if truthy penalty then penalty else None), op_status = OP_PROCESSING,
           op_stage = CLAIMED, op_lastError = None, op_result = None\<rparr>
         in tx_seq (modify (operations_update (\<lambda>os. os @ [op]))) (ret op)))"

definition hasEstablishedFinancialEffect :: "operation_row \<Rightarrow> bool" where
  "hasEstablishedFinancialEffect op \<longleftrightarrow> op_stage op = FINANCIAL_EFFECT_ESTABLISHED \<or> op_stage op = CASE_FINALIZED"

definition markAdminResolutionStageInTransaction :: "key \<Rightarrow> op_stage \<Rightarrow> operation_row dbtx" where
  "markAdminResolutionStageInTransaction operationId stage =
     tx_bind (query (find_operation operationId)) (\<lambda>found.
     tx_bind (expect op_conflict found) (\<lambda>current.
     if op_closed current \<or> stage < op_stage current then ret current
     else tx_seq (upd_operations (\<lambda>r. op_id r = operationId \<and> op_stage r = op_stage current \<and> op_running r)
            (\<lambda>r. r\<lparr>op_stage := stage, op_status := OP_PROCESSING, op_lastError := None\<rparr>))
         (tx_bind (query (find_operation operationId)) (expect (Uncoded ''P2025'')))))"

definition markAdminResolutionStage :: "key \<Rightarrow> op_stage \<Rightarrow> (db, operation_row) process" where
  "markAdminResolutionStage operationId stage = transact (markAdminResolutionStageInTransaction operationId stage)"

text \<open>The money of a booking that has moved before its operation said so: released with its completion,
  or cancelled with its refund submitted. \<open>Number(null)\<close> is 0.\<close>

definition booking_released :: "booking_row \<Rightarrow> completed_row option \<Rightarrow> bool" where
  "booking_released b completed \<longleftrightarrow> bk_status b = B_COMPLETED \<and> bk_paymentStatus b \<in> {P_RELEASED, P_CASH_CONFIRMED} \<and>
     (case completed of None \<Rightarrow> False | Some c \<Rightarrow> cs_paymentStatus c = bk_paymentStatus b \<and>
        cs_finalPrice c = (case bk_agreedAmount b of None \<Rightarrow> 0 | Some a \<Rightarrow> a))"

definition booking_cancelled :: "booking_row \<Rightarrow> refund_row option \<Rightarrow> bool" where
  "booking_cancelled b refund \<longleftrightarrow> bk_status b = B_CANCELED \<and>
     (if bk_paymentMethod b = OnsiteCash then bk_paymentStatus b = P_UNPAID
      else bk_paymentStatus b = P_REFUNDED \<and> truthy (Option.bind refund rf_paymongoRefundId))"

definition reconcileReservedFinancialEffect :: "operation_row \<Rightarrow> string \<Rightarrow> operation_row dbtx" where
  "reconcileReservedFinancialEffect op outcome =
     (if op_stage op \<noteq> FINANCIAL_EFFECT_RESERVED then ret op
      else tx_bind (query (\<lambda>s. (find_booking (op_bookingId op) s, completed_of (op_bookingId op) s, refund_of (op_bookingId op) s)))
       (\<lambda>(found, completed, refund).
        tx_bind (expect op_conflict found) (\<lambda>b.
        if (outcome = ''release_provider_and_complete'' \<and> booking_released b completed) \<or>
           (outcome \<noteq> ''release_provider_and_complete'' \<and> booking_cancelled b refund)
        then markAdminResolutionStageInTransaction (op_id op) FINANCIAL_EFFECT_ESTABLISHED
        else ret op)))"

definition markAdminResolutionFailed :: "key \<Rightarrow> error \<Rightarrow> (db, unit) process" where
  "markAdminResolutionFailed operationId cause =
     transact (upd_operations (\<lambda>r. op_id r = operationId \<and> op_running r \<and> op_stage r \<noteq> CASE_FINALIZED)
       (\<lambda>r. r\<lparr>op_status := OP_FAILED_RETRYABLE, op_lastError := Some (take 1000 (error_text cause))\<rparr>))"

definition completedResolutionResult :: "operation_row \<Rightarrow> op_result option" where
  "completedResolutionResult op = (if op_status op = OP_COMPLETED then op_result op else None)"

text \<open>The last transaction of every decision: nothing when another run completed the operation meanwhile,
  otherwise the effects of the decision and the closing write, which clears the last error in all but
  the participant's approval.\<close>

definition complete_operation :: "key \<Rightarrow> bool \<Rightarrow> op_result \<Rightarrow> unit dbtx" where
  "complete_operation operationId clear result =
     tx_bind (query (find_operation operationId)) (\<lambda>found.
     tx_seq (ensure (found \<noteq> None) (Uncoded ''P2025''))
     (upd_operation operationId (\<lambda>r. r\<lparr>op_status := OP_COMPLETED, op_stage := CASE_FINALIZED,
       op_result := Some result, op_lastError := (if clear then None else op_lastError r)\<rparr>)))"

definition finish_operation :: "key \<Rightarrow> bool \<Rightarrow> op_result dbtx \<Rightarrow> op_result option dbtx" where
  "finish_operation operationId clear effects =
     tx_bind (query (find_operation operationId)) (\<lambda>operation.
     if map_option op_status operation = Some OP_COMPLETED then ret (Option.bind operation op_result)
     else tx_bind effects (\<lambda>result.
       tx_seq (complete_operation operationId clear result) (ret (Some result))))"

subsection \<open>A decision is made once\<close>

definition op_kept :: "operation_row \<Rightarrow> operation_row \<Rightarrow> bool" where
  "op_kept a b \<longleftrightarrow> op_id b = op_id a \<and> op_caseType b = op_caseType a \<and> op_caseId b = op_caseId a \<and>
     op_bookingId b = op_bookingId a \<and> op_requestedByAdminId b = op_requestedByAdminId a \<and>
     op_requestedOutcome b = op_requestedOutcome a \<and> op_requestedPenalty b = op_requestedPenalty a \<and>
     op_stage a \<le> op_stage b \<and> (op_status a = OP_COMPLETED \<longrightarrow> b = a)"

definition ops_wf :: "db \<Rightarrow> bool" where
  "ops_wf s \<longleftrightarrow> distinct (map op_id (operations s)) \<and> (\<forall>op \<in> set (operations s). op_id op < nextId s)"

definition ops_rel :: "db \<Rightarrow> db \<Rightarrow> bool" where
  "ops_rel s s' \<longleftrightarrow> nextId s \<le> nextId s' \<and> (ops_wf s \<longrightarrow> ops_wf s' \<and>
     (\<exists>old new. operations s' = old @ new \<and> list_all2 op_kept (operations s) old))"

lemma op_kept_refl [simp]: "op_kept a a"
  by (simp add: op_kept_def)

lemma op_kept_trans: "op_kept a b \<Longrightarrow> op_kept b c \<Longrightarrow> op_kept a c"
  by (auto simp: op_kept_def)

interpretation ops: step_rel ops_rel
proof unfold_locales
  have "list_all2 op_kept xs xs" for xs by (simp add: list_all2_refl)
  then show "ops_rel s s" for s by (auto simp: ops_rel_def)
next
  fix s t u assume st: "ops_rel s t" and tu: "ops_rel t u"
  show "ops_rel s u" unfolding ops_rel_def
  proof (intro conjI impI)
    show "nextId s \<le> nextId u" using st tu by (simp add: ops_rel_def)
    assume "ops_wf s"
    then obtain a b where t: "ops_wf t" "operations t = a @ b" "list_all2 op_kept (operations s) a"
      using st by (auto simp: ops_rel_def)
    then obtain c d where u: "ops_wf u" "operations u = c @ d" "list_all2 op_kept (a @ b) c"
      using tu by (auto simp: ops_rel_def)
    then obtain e f where "c = e @ f" "list_all2 op_kept a e" by (auto simp: list_all2_append1)
    with u t(3) show "ops_wf u" "\<exists>old new. operations u = old @ new \<and> list_all2 op_kept (operations s) old"
      using list_all2_trans[of op_kept op_kept op_kept, OF op_kept_trans] by (blast, auto)
  qed
qed

lemma ops_same:
  assumes "operations s' = operations s" "nextId s \<le> nextId s'"
  shows "ops_rel s s'"
  unfolding ops_rel_def
proof (intro conjI impI exI)
  show "nextId s \<le> nextId s'" by (rule assms(2))
  show "ops_wf s'" if "ops_wf s" using that assms by (auto simp: ops_wf_def intro: less_le_trans)
  show "operations s' = operations s @ []" "list_all2 op_kept (operations s) (operations s)"
    by (simp_all add: assms(1) list_all2_same)
qed

lemma ops_quiet: "quiet.stays m \<Longrightarrow> ops.stays m"
  by (rule ops.staysI, rule ops_same) (auto dest!: quiet.staysD simp: quiet_rel_def core_of_def)

lemma ops_found:
  assumes "ops_rel s s'" "ops_wf s" "find_operation i s = Some a"
  shows "\<exists>b. find_operation i s' = Some b \<and> op_kept a b"
proof -
  obtain old new where o: "operations s' = old @ new" "list_all2 op_kept (operations s) old" and wf: "ops_wf s'"
    using assms(1,2) by (auto simp: ops_rel_def)
  have "a \<in> set (operations s)" "op_id a = i" using assms(3) by (auto simp: find_operation_def dest: find_row_Some)
  then obtain b where b: "b \<in> set old" "op_kept a b" using o(2) by (metis list_all2_conv_all_nth in_set_conv_nth)
  then have "op_id b = i" using \<open>op_id a = i\<close> by (simp add: op_kept_def)
  moreover have "find_row op_id (op_id b) (operations s') = Some b"
    using wf b(1) by (intro find_row_distinct) (simp_all add: ops_wf_def o(1))
  ultimately show ?thesis using b(2) by (simp add: find_operation_def)
qed

lemma ops_rewrite_on:
  assumes "operations t = operations s" "nextId s \<le> nextId t"
    "ops_wf s \<Longrightarrow> \<forall>r \<in> set (operations s). p r \<longrightarrow> op_kept r (f r)"
  shows "ops_rel s (operations_update (map_rows p f) t)"
proof (cases "ops_wf s")
  case wf: True
  let ?g = "\<lambda>r. if p r then f r else r"
  have k: "op_kept r (?g r)" if "r \<in> set (operations s)" for r using assms(3)[OF wf] that by simp
  have g: "map_rows p f (operations t) = map ?g (operations s)" by (simp add: map_rows_def assms(1))
  have kept: "list_all2 op_kept (operations s) (map ?g (operations s))"
    by (simp add: list_all2_map2 list_all2_same k)
  have id: "op_id (?g r) = op_id r" if "r \<in> set (operations s)" for r using k[OF that] by (simp add: op_kept_def)
  have "map op_id (map ?g (operations s)) = map op_id (operations s)" by (simp add: id)
  then have "distinct (map op_id (map ?g (operations s)))" using wf by (simp only: ops_wf_def)
  moreover have "op_id (?g r) < nextId t" if "r \<in> set (operations s)" for r
    unfolding id[OF that] using wf that assms(2) by (auto simp: ops_wf_def)
  ultimately have "distinct (map op_id (map_rows p f (operations t))) \<and>
      (\<forall>x \<in> set (map_rows p f (operations t)). op_id x < nextId t)"
    unfolding g by (simp only: ball_simps set_map) blast
  then have "ops_wf (operations_update (map_rows p f) t)" by (simp add: ops_wf_def)
  then show ?thesis
    unfolding ops_rel_def using assms(2) kept
    by (intro conjI impI exI[of _ "map ?g (operations s)"] exI[of _ "[]"]) (simp_all add: g)
qed (use assms(2) in \<open>simp add: ops_rel_def\<close>)

lemma ops_rewrite: "(\<And>r. p r \<Longrightarrow> op_kept r (f r)) \<Longrightarrow> ops_rel s (operations_update (map_rows p f) s)"
  by (rule ops_rewrite_on) simp_all

text \<open>Transactions that do not write the operations (\<open>still\<close>), and those that leave every case alone
  (\<open>aside\<close>: operations, cancellation requests and completion escalations).\<close>

definition still_rel :: "db \<Rightarrow> db \<Rightarrow> bool" where
  "still_rel s s' \<longleftrightarrow> operations s' = operations s \<and> nextId s \<le> nextId s'"

definition aside_rel :: "db \<Rightarrow> db \<Rightarrow> bool" where
  "aside_rel s s' \<longleftrightarrow> still_rel s s' \<and> cancellations s' = cancellations s \<and> escalations s' = escalations s"

interpretation still: step_rel still_rel
  by unfold_locales (auto simp: still_rel_def)

interpretation aside: step_rel aside_rel
  by unfold_locales (auto simp: aside_rel_def still_rel_def)

lemma ops_still: "still.stays m \<Longrightarrow> ops.stays m"
  by (rule ops.staysI) (auto dest!: still.staysD simp: still_rel_def intro: ops_same)

lemma still_aside: "aside.stays m \<Longrightarrow> still.stays m"
  by (rule still.staysI) (auto dest!: aside.staysD simp: aside_rel_def)

lemma aside_quiet: "quiet.stays m \<Longrightarrow> aside.stays m"
  by (rule aside.staysI) (auto dest!: quiet.staysD simp: aside_rel_def still_rel_def quiet_rel_def core_of_def)

named_theorems aside_rules \<open>transactions that leave the cases alone\<close>
named_theorems still_rules \<open>transactions that do not write the operations\<close>
named_theorems ops_rules \<open>transactions that keep the operations\<close>
declare aside.w_rules [aside_rules] still.w_rules [still_rules] ops.w_rules [ops_rules]

lemma aside_writes [aside_rules]:
  "aside.stays fresh_id" "aside.stays (upd_user i fu)" "aside.stays (upd_request i fr)"
  "aside.stays (upd_offer i fo)" "aside.stays (upd_directRequest i fd)" "aside.stays (upd_attempt i fa)"
  "aside.stays (upd_refunds pr fr2)" "aside.stays (upd_reports prp frp)"
  "aside.stays (upd_queue i fq)" "aside.stays (upd_booking now i fb)"
  "aside.stays (modify (queues_update g))" "aside.stays (modify (bookings_update h))"
  "aside.stays (modify (reports_update k))" "aside.stays (modify (refunds_update l3))"
  "aside.stays (modify (completedServices_update l4))" "aside.stays (modify (transactions_update l5))"
  by (rule aside.staysI;
      auto simp: aside_rel_def still_rel_def fresh_id_def upd_user_def upd_request_def upd_offer_def upd_directRequest_def
      upd_attempt_def upd_refunds_def upd_reports_def upd_queue_def upd_booking_def tx_iff)+

lemma still_case_writes [still_rules]:
  "still.stays (upd_cancellation i fc)" "still.stays (upd_escalations pe fe)"
  "still.stays (modify (cancellations_update l))" "still.stays (modify (escalations_update l2))"
  by (rule still.staysI; auto simp: still_rel_def upd_cancellation_def upd_escalations_def tx_iff)+

lemma aside_quiet_parts [aside_rules]:
  "aside.stays (notify u t)" "aside.stays (notify_row n)" "aside.stays (notify_as nk u t)" "aside.stays (audit a tg act res)"
  "aside.stays (emit r e t)" "aside.stays (recordBookingProgress now b k2 ac ek)" "aside.stays (create_notice no)"
  "aside.stays (recordLifecycleNotice ps ns sys)" "aside.stays (recordAdminNotifications t)"
  "aside.stays (publishLifecycleChange ps t rec q)" "aside.stays (emitWaitlistNotification w)"
  "aside.stays (emitProviderQueueUpdates p sk)" "aside.stays (publishNotifications us t)"
  "aside.stays (notifyWaitlistInTransaction now p)" "aside.stays (assertNoRefundInProgress b)"
  "aside.stays (assertNoOtherBlockingCases b ex)" "aside.stays (assertNoFinancialResolutionReserved b own)"
  "aside.stays (awardBookingCompletionTrust now bk)" "aside.stays (applyBookingTrustPenalty now bk u adm tk f re)"
  by (rule aside_quiet, intro quiet_rules)+

lemma aside_reindex [aside_rules]: "aside.stays (reindex_entries now pos w es)"
  by (induction now pos w es rule: reindex_entries.induct)
    (auto simp: reseat_def reseat_booking_def Let_def intro!: aside_rules split: option.splits)

lemma aside_recalculate [aside_rules]: "aside.stays (recalculateQueueInTransaction now p)"
  unfolding recalculateQueueInTransaction_def reseat_def by (intro aside_rules | simp split: option.splits | safe)+

lemma aside_restore [aside_rules]: "aside.stays (restoreBookingIfNoBlockingCases now b)"
  unfolding restoreBookingIfNoBlockingCases_def Let_def by (intro aside_rules)


lemmas still_leaves [still_rules] = aside_writes [THEN still_aside] aside_quiet_parts [THEN still_aside]
  aside_recalculate [THEN still_aside] aside_restore [THEN still_aside]

lemmas ops_leaves [ops_rules] = still_leaves [THEN ops_still] still_case_writes [THEN ops_still]

lemma ops_upd_operations:
  "(\<And>r. p r \<Longrightarrow> op_kept r (f r)) \<Longrightarrow> ops.stays (upd_operations p f)"
  by (rule ops.staysI) (auto simp: upd_operations_def modify_Inr intro: ops_rewrite)

lemma ops_begin [ops_rules]: "ops.stays (beginAdminResolution ct i b a out pen)"
proof -
  have add: "ops_rel s (operations_update (\<lambda>os. os @ [r]) (s\<lparr>nextId := Suc (nextId s)\<rparr>))"
    if id: "op_id r = nextId s" for s r
    unfolding ops_rel_def
  proof (intro conjI impI exI)
    show "ops_wf (operations_update (\<lambda>os. os @ [r]) (s\<lparr>nextId := Suc (nextId s)\<rparr>))" if "ops_wf s"
      using that id by (auto simp: ops_wf_def)
    show "operations (operations_update (\<lambda>os. os @ [r]) (s\<lparr>nextId := Suc (nextId s)\<rparr>)) = operations s @ [r]"
      "list_all2 op_kept (operations s) (operations s)" by (simp_all add: list_all2_same)
  qed simp
  show ?thesis
    unfolding beginAdminResolution_def
    by (rule ops.staysI)
       (auto simp: tx_iff fresh_id_def Let_def upd_operations_def op_kept_def op_running_def
         split: option.splits if_splits intro!: ops_rewrite ops.R_refl add)
qed

lemma ops_mark [ops_rules]: "ops.stays (markAdminResolutionStageInTransaction i st)"
  unfolding markAdminResolutionStageInTransaction_def
  by (rule ops.staysI)
     (auto simp: tx_iff upd_operations_def op_kept_def op_running_def not_less
       split: if_splits intro!: ops_rewrite ops.R_refl)

lemma ops_reconcile [ops_rules]: "ops.stays (reconcileReservedFinancialEffect op out)"
  unfolding reconcileReservedFinancialEffect_def by (intro ops_rules)

text \<open>Completing an operation that the same transaction has seen open.\<close>

lemma ops_finish [ops_rules]:
  assumes "still.stays m"
  shows "ops.stays (finish_operation i clear m)"
proof (rule ops.staysI)
  fix s x s' assume run: "finish_operation i clear m s = Inr (x, s')"
  show "ops_rel s s'"
  proof (cases "\<exists>z. find_operation i s = Some z \<and> op_status z = OP_COMPLETED")
    case True
    then show ?thesis using run by (auto simp: finish_operation_def tx_iff ops.R_refl)
  next
    case False
    with run obtain r t where m: "m s = Inr (r, t)" and
      s': "s' = operations_update (map_rows (\<lambda>o'. op_id o' = i) (\<lambda>o'. o'\<lparr>op_status := OP_COMPLETED,
        op_stage := CASE_FINALIZED, op_result := Some r, op_lastError := (if clear then None else op_lastError o')\<rparr>)) t"
      unfolding finish_operation_def complete_operation_def upd_operation_def
      by (auto simp: tx_iff split: if_splits)
    have st: "operations t = operations s" "nextId s \<le> nextId t" using still.staysD[OF assms m] by (simp_all add: still_rel_def)
    show ?thesis unfolding s'
    proof (rule ops_rewrite_on[OF st], intro ballI impI)
      fix o' assume wf: "ops_wf s" "o' \<in> set (operations s)" "op_id o' = i"
      then have "find_operation i s = Some o'"
        using find_row_distinct[of op_id "operations s" o'] by (simp add: ops_wf_def find_operation_def)
      then show "op_kept o' (o'\<lparr>op_status := OP_COMPLETED, op_stage := CASE_FINALIZED, op_result := Some r,
          op_lastError := (if clear then None else op_lastError o')\<rparr>)"
        using False by (simp add: op_kept_def)
    qed
  qed
qed

end
