(* ===== verification/SH_Cancellation.thy ===== *)
theory SH_Cancellation
  imports SH_Resolution
begin

text \<open>
  Cancelling a booking (src/src/services/cancellation.service.ts and
  cancellation-report-finalization.service.ts): immediately while the work has not started, with the
  other participant's approval afterwards, and by an administrator's decision when the other participant
  declined and the requester escalated.

  A held online payment is refunded through the gateway between two transactions, so the request first
  holds the booking \<open>UNDER_REVIEW\<close> and a retry finds its way back. The answers of the gateway are the
  arguments \<open>intent\<close> and \<open>answer\<close>, as for a refund.
\<close>

subsection \<open>The cancellation itself\<close>

definition not_cancellable :: "booking_status \<Rightarrow> bool" where
  "not_cancellable st \<longleftrightarrow> st \<in> {B_COMPLETED, B_DECLINED, B_REMOVED}"

definition reservation_stale :: "key \<Rightarrow> key option \<Rightarrow> booking_row \<Rightarrow> db \<Rightarrow> bool" where
  "reservation_stale bookingId preStart b s = (case preStart of None \<Rightarrow> False
     | Some r \<Rightarrow> bk_status b \<noteq> B_CANCELED \<and>
         (case find_cancellation r s of None \<Rightarrow> True
          | Some c \<Rightarrow> cr_bookingId c \<noteq> bookingId \<or> cr_status c \<noteq> C_UNDER_REVIEW \<or>
              cr_resolutionOutcome c \<noteq> Some IMMEDIATE_CANCEL_PENDING \<or> bk_started b \<or> bk_status b \<noteq> B_UNDER_REVIEW))"

definition cancel_precheck :: "key \<Rightarrow> key option \<Rightarrow> booking_row option dbtx" where
  "cancel_precheck bookingId preStart =
     tx_bind (query (\<lambda>s. (find_booking bookingId s, s))) (\<lambda>(found, s). case found of None \<Rightarrow> ret None
     | Some b \<Rightarrow>
       tx_seq (ensure (\<not> not_cancellable (bk_status b)) (Http 409 ''This booking can no longer be cancelled''))
      (tx_seq (ensure (\<not> reservation_stale bookingId preStart b s) (Http 409 ''IMMEDIATE_CANCELLATION_STALE''))
      (ret (Some b))))"

text \<open>The branch without a refund: cash, unpaid, or not yet cancelled.\<close>

definition cancel_unpaid :: "time \<Rightarrow> booking_row \<Rightarrow> queue_row option \<Rightarrow> key option \<Rightarrow> (key \<times> string) option dbtx" where
  "cancel_unpaid now b q actorId =
     tx_seq (assertNoRefundInProgress (bk_id b))
    (tx_seq (upd_booking now (bk_id b) (\<lambda>r. r\<lparr>bk_status := B_CANCELED, bk_paymentStatus := bk_paymentStatus b,
        bk_statusBeforeDispute := None\<rparr>))
    (tx_seq (recordBookingProgress now (bk_id b) PK_CANCELED
        (bookingActorRole (bk_seekerId b) (bk_providerId b) actorId) (EK_Kind PK_CANCELED))
    (case q of None \<Rightarrow> ret None
     | Some e \<Rightarrow>
       tx_seq (upd_queue (q_id e) (\<lambda>r. r\<lparr>q_status := Q_CANCELLED, q_paymentStatus := q_paymentStatus e\<rparr>))
      (tx_seq (recalculateQueueInTransaction now (bk_providerId b))
      (notifyWaitlistInTransaction now (bk_providerId b))))))"

definition cancelled_message :: "key \<Rightarrow> db \<Rightarrow> bool" where
  "cancelled_message bookingId s \<longleftrightarrow>
     exists_row (\<lambda>m. ms_bookingId m = bookingId \<and> ms_isSystem m \<and> ms_content m = ''Booking cancelled.'') (messages s)"

text \<open>The notices that are still missing, and whether the refund is announced with them.\<close>

definition cancel_notices :: "booking_row \<Rightarrow> key option \<Rightarrow> (recorded \<times> bool) option dbtx" where
  "cancel_notices b actorId =
     tx_bind (query (\<lambda>s. (bk_status b = B_CANCELED \<and> cancelled_message (bk_id b) s,
        missingBookingCancellationNotifications (parties b) s))) (\<lambda>(historyRecorded, notices).
     if notices = [] then ret None
     else tx_bind (recordLifecycleNotice (parties b) notices
           (if historyRecorded then None
            else Some (if actorId = Some (bk_providerId b) then bk_providerId b else bk_seekerId b, ''Booking cancelled.''))) (\<lambda>recd.
       let refunded = bk_paymentStatus b = P_REFUNDED \<and> \<not> historyRecorded
       in tx_seq (when_tx refunded (create_notice \<lparr>no_id = None, no_userId = bk_seekerId b,
              no_title = ''Refund processed'', no_cancelledBooking = Some (bk_id b)\<rparr>))
         (ret (Some (recd, refunded)))))"

definition close_sources :: "booking_row \<Rightarrow> key option \<Rightarrow> unit dbtx" where
  "close_sources b requestId =
     tx_seq (case bk_directRequestId b of None \<Rightarrow> ret ()
        | Some d \<Rightarrow> upd_directRequest d (\<lambda>r. r\<lparr>dr_status := DR_DECLINED\<rparr>))
     (set_request requestId RQ_CANCELED)"

definition cancel_commit ::
  "time \<Rightarrow> key \<Rightarrow> key option \<Rightarrow> key option \<Rightarrow> bool \<Rightarrow>
   ((key \<times> string) option \<times> (booking_row \<times> recorded \<times> bool) option) dbtx" where
  "cancel_commit now bookingId actorId preStart hasHeldOnlinePayment =
     tx_bind (query (\<lambda>s. (find_booking bookingId s, queue_of bookingId s, completed_of bookingId s,
        Option.bind (find_booking bookingId s) (\<lambda>b. request_of_offer (bk_offerId b) s))))
     (\<lambda>(found, q, completed, requestId). case found of None \<Rightarrow> ret (None, None)
     | Some b \<Rightarrow>
       tx_seq (ensure (completed = None \<and> \<not> not_cancellable (bk_status b)) (Http 409 ''This booking can no longer be cancelled''))
      (tx_seq (ensure (\<not> (preStart \<noteq> None \<and> bk_status b \<noteq> B_CANCELED \<and> (bk_started b \<or> bk_status b \<noteq> B_UNDER_REVIEW)))
          (Http 409 ''IMMEDIATE_CANCELLATION_STALE''))
      (tx_bind (if \<not> hasHeldOnlinePayment \<and> bk_status b \<noteq> B_CANCELED then cancel_unpaid now b q actorId else ret None) (\<lambda>waitlist.
       tx_seq (close_sources b requestId)
      (tx_bind (cancel_notices b actorId) (\<lambda>notices.
       ret (waitlist, map_option (\<lambda>(recd, refunded). (b, recd, refunded)) notices)))))))"

definition publish_cancel :: "key \<Rightarrow> (key \<times> string) option \<Rightarrow> (booking_row \<times> recorded \<times> bool) option \<Rightarrow> unit dbtx" where
  "publish_cancel seekerId waitlist result =
     tx_seq (emitWaitlistNotification waitlist)
     (case result of None \<Rightarrow> ret ()
      | Some (b, recd, refunded) \<Rightarrow>
        tx_seq (publishLifecycleChange (parties b) ''cancelled'' recd True)
        (when_tx refunded (emit (RUser seekerId) ''notification'' ''Refund processed'')))"

definition performImmediateCancel ::
  "time \<Rightarrow> key \<Rightarrow> key option \<Rightarrow> key option \<Rightarrow> error + intent \<Rightarrow> refund_answer \<Rightarrow> (db, unit) process" where
  "performImmediateCancel now bookingId actorId preStart intent answer =
     p_bind (transact (cancel_precheck bookingId preStart)) (\<lambda>found. case found of None \<Rightarrow> p_ret ()
     | Some b \<Rightarrow>
       p_seq (if held (bk_paymentStatus b)
              then p_bind (refundBookingPayment now bookingId (case actorId of None \<Rightarrow> bk_seekerId b | Some a \<Rightarrow> a) intent answer)
                     (\<lambda>_. p_ret ())
              else p_ret ())
      (p_bind (transact (cancel_commit now bookingId actorId preStart (held (bk_paymentStatus b)))) (\<lambda>(waitlist, result).
       transact (publish_cancel (bk_seekerId b) waitlist result))))"


subsection \<open>Asking for a cancellation\<close>

definition httpParticipant :: error where
  "httpParticipant = Http 404 ''Cancellation request not found or access denied''"

text \<open>\<open>findFirst\<close> with \<open>orderBy: { createdAt: "desc" }\<close>: rows of equal time are in the order of creation.\<close>

definition newest :: "('r \<Rightarrow> time) \<Rightarrow> ('r \<Rightarrow> bool) \<Rightarrow> 'r list \<Rightarrow> 'r option" where
  "newest t p rows = (case sort_key t (filter p rows) of [] \<Rightarrow> None | r # rs \<Rightarrow> Some (last (r # rs)))"

definition active_cancellation :: "key \<Rightarrow> db \<Rightarrow> cancellation_row option" where
  "active_cancellation bookingId s = newest cr_createdAt (\<lambda>c. cr_bookingId c = bookingId \<and> cancellation_active c) (cancellations s)"

record cancel_claim =
  cm_booking :: booking_row
  cm_request :: "cancellation_row option"
  cm_immediate :: bool
  cm_alreadyCancelled :: bool
  cm_recorded :: "recorded option"

text \<open>The booking is held for the gateway, with the money frozen.\<close>

definition freeze :: "payment_status \<Rightarrow> payment_status" where
  "freeze p = (if p = P_PAID_HELD then P_FROZEN_HELD else p)"

definition hold_for_cancel :: "time \<Rightarrow> booking_row \<Rightarrow> unit dbtx" where
  "hold_for_cancel now b =
     tx_seq (upd_booking now (bk_id b) (\<lambda>r. r\<lparr>bk_status := B_UNDER_REVIEW, bk_statusBeforeDispute := Some (bk_status b),
        bk_paymentStatus := freeze (bk_paymentStatus b)\<rparr>))
     (when_tx (bk_paymentStatus b = P_PAID_HELD) (modify (queues_update (map_rows (\<lambda>q. q_bookingId q = Some (bk_id b))
        (\<lambda>q. q\<lparr>q_paymentStatus := P_FROZEN_HELD\<rparr>)))))"

definition open_request :: "time \<Rightarrow> booking_row \<Rightarrow> key \<Rightarrow> string \<Rightarrow> cancel_claim dbtx" where
  "open_request now b userId reason =
     tx_bind fresh_id (\<lambda>i.
     let responder = (if userId = bk_seekerId b then bk_providerId b else bk_seekerId b);
         immediate = (\<not> bk_started b);
         request = \<lparr>cr_id = i, cr_bookingId = bk_id b, cr_requestedBy = userId, cr_responderId = Some responder,
           cr_reason = Some (trim reason), cr_status = (if immediate then C_UNDER_REVIEW else C_PENDING),
           cr_responderNote = None, cr_adminNote = None, cr_adminId = None, cr_reportId = None,
           cr_resolutionOutcome = (if immediate then Some IMMEDIATE_CANCEL_PENDING else None),
           cr_createdAt = now, cr_resolvedAt = None\<rparr>
     in tx_seq (modify (cancellations_update (\<lambda>cs. cs @ [request])))
       (tx_seq (recordBookingProgress now (bk_id b) PK_CANCELLATION_REQUESTED
           (bookingActorRole (bk_seekerId b) (bk_providerId b) (Some userId)) (EK_Request i ''requested''))
       (if immediate then
          tx_seq (hold_for_cancel now b)
          (ret \<lparr>cm_booking = b, cm_request = Some request, cm_immediate = True, cm_alreadyCancelled = False, cm_recorded = None\<rparr>)
        else
          tx_bind (recordLifecycleNotice (parties b) [plain_notice responder ''Cancellation request received''] None) (\<lambda>recd.
          ret \<lparr>cm_booking = b, cm_request = Some request, cm_immediate = False, cm_alreadyCancelled = False,
            cm_recorded = Some recd\<rparr>))))"

definition repeat_request :: "booking_row \<Rightarrow> key \<Rightarrow> cancellation_row \<Rightarrow> cancel_claim dbtx" where
  "repeat_request b userId active =
     tx_seq (ensure (cr_requestedBy active = userId) (Http 409 ''ACTIVE_CANCELLATION_EXISTS''))
     (ret \<lparr>cm_booking = b, cm_request = Some active,
        cm_immediate = (cr_status active = C_UNDER_REVIEW \<and> cr_resolutionOutcome active = Some IMMEDIATE_CANCEL_PENDING \<and>
          (\<not> bk_started b \<or> bk_status b = B_CANCELED)),
        cm_alreadyCancelled = False, cm_recorded = None\<rparr>)"

definition request_claim :: "time \<Rightarrow> key \<Rightarrow> key \<Rightarrow> string \<Rightarrow> cancel_claim dbtx" where
  "request_claim now bookingId userId reason =
     tx_bind (query (\<lambda>s. (find_booking bookingId s, active_cancellation bookingId s))) (\<lambda>(found, active).
     tx_bind (expect (Http 404 ''Booking not found or access denied'') found) (\<lambda>b.
     tx_seq (ensure (userId \<in> {bk_seekerId b, bk_providerId b}) (Http 404 ''Booking not found or access denied''))
    (case active of Some a \<Rightarrow> repeat_request b userId a
     | None \<Rightarrow>
       if bk_status b = B_CANCELED
       then ret \<lparr>cm_booking = b, cm_request = None, cm_immediate = True, cm_alreadyCancelled = True, cm_recorded = None\<rparr>
       else tx_seq (ensure (bk_status b \<notin> {B_COMPLETED, B_DECLINED, B_REMOVED, B_DISPUTED, B_UNDER_REVIEW})
              (Http 409 ''This booking can no longer be cancelled''))
           (tx_seq (assertNoFinancialResolutionReserved bookingId None)
           (open_request now b userId reason)))))"

definition finish_immediate :: "time \<Rightarrow> key \<Rightarrow> key \<Rightarrow> (booking_row \<times> cancellation_row) dbtx" where
  "finish_immediate now bookingId requestId =
     tx_bind (query (find_booking bookingId)) (\<lambda>found.
     tx_bind (expect (Http 409 ''Cancellation settlement has not completed'') found) (\<lambda>b.
     tx_seq (ensure (bk_status b = B_CANCELED) (Http 409 ''Cancellation settlement has not completed''))
    (tx_seq (upd_cancellation requestId (\<lambda>c. c\<lparr>cr_status := C_APPROVED, cr_resolutionOutcome := Some IMMEDIATE_CANCEL,
        cr_resolvedAt := Some now\<rparr>))
    (tx_bind (query (find_cancellation requestId)) (\<lambda>c.
     tx_bind (expect (Uncoded ''P2025'') c) (\<lambda>c. ret (b, c)))))))"

definition emitCancellationChange :: "booking_row \<Rightarrow> string \<Rightarrow> unit dbtx" where
  "emitCancellationChange b type =
     tx_seq (emit (RUser (bk_seekerId b)) ''ENGAGEMENT_CHANGED'' type)
    (tx_seq (emit (RUser (bk_providerId b)) ''ENGAGEMENT_CHANGED'' type)
    (emit (RBooking (bk_id b)) ''ENGAGEMENT_CHANGED'' type))"

text \<open>The answer: whether the booking is cancelled, its row and the request, where there is one.\<close>

record cancel_reply =
  cy_cancelled :: bool
  cy_booking :: booking_row
  cy_request :: "cancellation_row option"

definition requestCancellation ::
  "time \<Rightarrow> key \<Rightarrow> key \<Rightarrow> string \<Rightarrow> error + intent \<Rightarrow> refund_answer \<Rightarrow> (db, cancel_reply) process" where
  "requestCancellation now bookingId userId reason intent answer =
     p_bind (transact (request_claim now bookingId userId reason)) (\<lambda>claim.
     if cm_alreadyCancelled claim
     then p_ret \<lparr>cy_cancelled = True, cy_booking = cm_booking claim, cy_request = None\<rparr>
     else (case cm_request claim of
       None \<Rightarrow> p_ret \<lparr>cy_cancelled = True, cy_booking = cm_booking claim, cy_request = None\<rparr>
     | Some request \<Rightarrow>
       if cm_immediate claim then
         p_seq (performImmediateCancel now bookingId (Some userId) (Some (cr_id request)) intent answer)
        (p_bind (transact (finish_immediate now bookingId (cr_id request))) (\<lambda>(b, c).
         p_seq (transact (emitCancellationChange (cm_booking claim) ''cancellation_approved''))
        (p_ret \<lparr>cy_cancelled = True, cy_booking = b, cy_request = Some c\<rparr>)))
       else
         p_seq (case cm_recorded claim of None \<Rightarrow> p_ret ()
            | Some recd \<Rightarrow> transact (publishLifecycleChange (parties (cm_booking claim)) ''cancellation_requested'' recd False))
        (p_ret \<lparr>cy_cancelled = False, cy_booking = cm_booking claim, cy_request = Some request\<rparr>)))"


subsection \<open>The answer of the other participant\<close>

definition may_respond :: "cancellation_row \<Rightarrow> key \<Rightarrow> bool" where
  "may_respond c responderId \<longleftrightarrow> cr_responderId c = Some responderId \<and> cr_requestedBy c \<noteq> responderId"

text \<open>The request with its booking (\<open>include: { booking: true }\<close>); a request always has one.\<close>

definition cancellation_with_booking :: "key \<Rightarrow> db \<Rightarrow> (cancellation_row \<times> booking_row) option" where
  "cancellation_with_booking i s = (case find_cancellation i s of None \<Rightarrow> None
     | Some c \<Rightarrow> map_option (\<lambda>b. (c, b)) (find_booking (cr_bookingId c) s))"

definition decline_request :: "time \<Rightarrow> key \<Rightarrow> key \<Rightarrow> string option \<Rightarrow> (cancellation_row \<times> booking_row) dbtx" where
  "decline_request now requestId responderId note =
     tx_bind (query (cancellation_with_booking requestId)) (\<lambda>found.
     tx_bind (expect httpParticipant found) (\<lambda>(c, b).
     tx_seq (ensure (may_respond c responderId) httpParticipant)
    (tx_seq (ensure (cr_status c = C_PENDING) (Http 409 ''Cancellation request has already been decided''))
    (tx_seq (upd_cancellation requestId (\<lambda>r. r\<lparr>cr_status := C_DECLINED, cr_responderNote := note, cr_resolvedAt := Some now\<rparr>))
    (tx_seq (recordBookingProgress now (cr_bookingId c) PK_CANCELLATION_DECLINED
        (bookingActorRole (bk_seekerId b) (bk_providerId b) (Some responderId)) (EK_Request (cr_id c) ''participant-declined''))
    (tx_seq (notify (cr_requestedBy c) ''Cancellation request declined'')
    (ret (c\<lparr>cr_status := C_DECLINED, cr_responderNote := note, cr_resolvedAt := Some now\<rparr>, b))))))))"

text \<open>What a decision has claimed: the case, its operation, and the result of a decision already made.\<close>

record decision_claim =
  dc_request :: cancellation_row
  dc_booking :: booking_row
  dc_operation :: operation_row
  dc_completed :: "op_result option"

definition approve_claim :: "time \<Rightarrow> key \<Rightarrow> key \<Rightarrow> string option \<Rightarrow> decision_claim dbtx" where
  "approve_claim now requestId responderId note =
     tx_bind (query (cancellation_with_booking requestId)) (\<lambda>found.
     tx_bind (expect httpParticipant found) (\<lambda>(c, b).
     tx_seq (ensure (may_respond c responderId) httpParticipant)
    (tx_bind (query (operation_of CT_CANCELLATION (cr_id c))) (\<lambda>existing.
     if cr_status c \<notin> {C_PENDING, C_UNDER_REVIEW}
     then (case existing of
         Some op \<Rightarrow> tx_seq (ensure (op_status op = OP_COMPLETED) (Http 409 ''Cancellation request has already been decided''))
            (ret \<lparr>dc_request = c, dc_booking = b, dc_operation = op, dc_completed = op_result op\<rparr>)
       | None \<Rightarrow> fail (Http 409 ''Cancellation request has already been decided''))
     else tx_bind (beginAdminResolution CT_CANCELLATION (cr_id c) (cr_bookingId c) responderId ''PARTICIPANT_APPROVE'' None) (\<lambda>op.
       case completedResolutionResult op of
         Some r \<Rightarrow> ret \<lparr>dc_request = c, dc_booking = b, dc_operation = op, dc_completed = Some r\<rparr>
       | None \<Rightarrow>
         tx_seq (upd_cancellation (cr_id c) (\<lambda>r. r\<lparr>cr_status := C_UNDER_REVIEW,
             cr_responderNote := (case note of None \<Rightarrow> cr_responderNote r | Some n \<Rightarrow> Some n)\<rparr>))
        (tx_seq (recordBookingProgress now (cr_bookingId c) PK_CANCELLATION_APPROVED
            (bookingActorRole (bk_seekerId b) (bk_providerId b) (Some responderId)) (EK_Request (cr_id c) ''participant-approved''))
        (ret \<lparr>dc_request = c, dc_booking = b, dc_operation = op, dc_completed = None\<rparr>)))))))"

definition reserveCancellationFinancialOutcome :: "key \<Rightarrow> key \<Rightarrow> operation_row dbtx" where
  "reserveCancellationFinancialOutcome operationId requestId =
     tx_bind (query (\<lambda>s. (find_cancellation requestId s, find_operation operationId s))) (\<lambda>(found, operation).
     tx_bind (expect (Http 404 ''Cancellation request not found'') found) (\<lambda>c.
     tx_seq (ensure (cr_status c = C_UNDER_REVIEW) (Http 409 ''STALE_CANCELLATION''))
    (tx_bind (expect (Http 500 ''Resolution operation not found'') operation) (\<lambda>op.
     if op_status op = OP_COMPLETED \<or> hasEstablishedFinancialEffect op then ret op
     else tx_seq (assertNoOtherBlockingCases (cr_bookingId c) \<lparr>ex_report = cr_reportId c,
            ex_cancellation = Some (cr_id c), ex_escalation = None\<rparr>)
         (markAdminResolutionStageInTransaction (op_id op) FINANCIAL_EFFECT_RESERVED)))))"

definition closeParticipantCancellationReport :: "cancellation_row \<Rightarrow> time \<Rightarrow> bool dbtx" where
  "closeParticipantCancellationReport c resolvedAt = (case cr_reportId c of None \<Rightarrow> ret False
     | Some r \<Rightarrow>
       let open = (\<lambda>x. rp_id x = r \<and> rp_bookingId x = cr_bookingId c \<and> rp_reportType x = RT_CANCELLATION_ESCALATION \<and> report_active x)
       in tx_bind (query (\<lambda>s. exists_row open (reports s))) (\<lambda>changed.
          tx_seq (upd_reports open (\<lambda>x. x\<lparr>rp_status := RP_RESOLVED, rp_resolvedAt := Some resolvedAt\<rparr>))
         (tx_seq (case cr_responderId c of None \<Rightarrow> ret ()
             | Some u \<Rightarrow> when_tx changed (audit u None ''CANCELLATION_CASE_CLOSED_BY_PARTICIPANT'' r))
         (ret changed))))"

text \<open>The final state of a cancelled booking: cash, or refunded online.\<close>

definition cancellation_settled :: "booking_row \<Rightarrow> bool" where
  "cancellation_settled b \<longleftrightarrow> bk_status b = B_CANCELED \<and> (bk_paymentMethod b = OnsiteCash \<or> bk_paymentStatus b = P_REFUNDED)"

definition approval_effects :: "time \<Rightarrow> decision_claim \<Rightarrow> op_result dbtx" where
  "approval_effects now claim =
     tx_bind (query (find_booking (cr_bookingId (dc_request claim)))) (\<lambda>booking.
     tx_bind (expect (Http 409 ''Cancellation/refund has not reached its valid final state'') booking) (\<lambda>b.
     tx_seq (ensure (cancellation_settled b) (Http 409 ''Cancellation/refund has not reached its valid final state''))
    (tx_seq (upd_cancellation (cr_id (dc_request claim)) (\<lambda>r. r\<lparr>cr_status := C_APPROVED,
        cr_resolutionOutcome := Some PARTICIPANT_APPROVED, cr_resolvedAt := Some now\<rparr>))
    (tx_seq (tx_bind (closeParticipantCancellationReport (dc_request claim) now) (\<lambda>_. ret ()))
    (tx_seq (create_notice \<lparr>no_id = None, no_userId = cr_requestedBy (dc_request claim),
        no_title = ''Cancellation request approved'', no_cancelledBooking = Some (bk_id b)\<rparr>)
    (ret (ParticipantCancellation (op_id (dc_operation claim)))))))))"

definition finish_approval :: "time \<Rightarrow> decision_claim \<Rightarrow> op_result option dbtx" where
  "finish_approval now claim = finish_operation (op_id (dc_operation claim)) False (approval_effects now claim)"

text \<open>The settlement of a claimed decision, and the mark of its failure.\<close>

definition establish_cancellation ::
  "time \<Rightarrow> decision_claim \<Rightarrow> key \<Rightarrow> error + intent \<Rightarrow> refund_answer \<Rightarrow> (db, unit) process" where
  "establish_cancellation now claim actorId intent answer =
     p_bind (transact (reserveCancellationFinancialOutcome (op_id (dc_operation claim)) (cr_id (dc_request claim)))) (\<lambda>_.
     p_seq (performImmediateCancel now (cr_bookingId (dc_request claim)) (Some actorId) None intent answer)
    (p_bind (markAdminResolutionStage (op_id (dc_operation claim)) FINANCIAL_EFFECT_ESTABLISHED) (\<lambda>_. p_ret ())))"

text \<open>The answer of a decision: approved or not, and the stored result where one is returned.\<close>

record decision_reply =
  dr_approved :: bool
  dr_result :: "op_result option"

definition approve_request ::
  "time \<Rightarrow> key \<Rightarrow> key \<Rightarrow> string option \<Rightarrow> error + intent \<Rightarrow> refund_answer \<Rightarrow> (db, op_result option) process" where
  "approve_request now requestId responderId note intent answer =
     p_bind (transact (approve_claim now requestId responderId note)) (\<lambda>claim.
     if dc_completed claim \<noteq> None then p_ret (dc_completed claim)
     else
       p_seq (transact (emitCancellationChange (dc_booking claim) ''cancellation_processing''))
      (p_rethrow
        (p_seq (if hasEstablishedFinancialEffect (dc_operation claim) then p_ret ()
                else establish_cancellation now claim responderId intent answer)
        (p_bind (transact (finish_approval now claim)) (\<lambda>response.
         p_seq (transact (tx_seq (emit (RUser (cr_requestedBy (dc_request claim))) ''notification'' ''Cancellation request approved'')
            (tx_seq (emitCancellationChange (dc_booking claim) ''cancellation_approved'')
            (when_tx (cr_reportId (dc_request claim) \<noteq> None) (emit RAdmin ''ADMIN_MODERATION_CHANGED'' '''')))))
        (p_ret response))))
        (\<lambda>cause. p_seq (markAdminResolutionFailed (op_id (dc_operation claim)) cause)
           (transact (emitCancellationChange (dc_booking claim) ''cancellation_settlement_failed'')))))"

definition respondToCancellationRequest ::
  "time \<Rightarrow> key \<Rightarrow> key \<Rightarrow> bool \<Rightarrow> string option \<Rightarrow> error + intent \<Rightarrow> refund_answer \<Rightarrow> (db, decision_reply) process" where
  "respondToCancellationRequest now requestId responderId approve responderNote intent answer =
     (let note = map_option trim responderNote in
      if approve then p_bind (approve_request now requestId responderId note intent answer)
             (\<lambda>r. p_ret \<lparr>dr_approved = True, dr_result = r\<rparr>)
      else if (case note of None \<Rightarrow> True | Some n \<Rightarrow> length n < 3)
        then transact (fail (Http 400 ''CANCELLATION_DECLINE_REASON_REQUIRED''))
      else p_bind (transact (decline_request now requestId responderId note)) (\<lambda>(c, b).
        p_seq (transact (tx_seq (emit (RUser (cr_requestedBy c)) ''notification'' ''Cancellation request declined'')
            (emitCancellationChange b ''cancellation_declined'')))
        (p_ret \<lparr>dr_approved = False, dr_result = None\<rparr>)))"


definition repair_report :: "key \<Rightarrow> bool dbtx" where
  "repair_report requestId =
     tx_bind (query (\<lambda>s. (cancellation_with_booking requestId s, operation_of CT_CANCELLATION requestId s))) (\<lambda>(found, operation).
     tx_bind (expect (Uncoded ''Cancellation request not found'') found) (\<lambda>(c, b).
     case (cr_resolvedAt c, operation) of
       (Some t, Some op) \<Rightarrow>
         tx_seq (ensure (cr_status c = C_APPROVED \<and> cr_resolutionOutcome c = Some PARTICIPANT_APPROVED \<and> cancellation_settled b \<and>
             op_status op = OP_COMPLETED \<and> op_stage op = CASE_FINALIZED \<and> op_requestedOutcome op = ''PARTICIPANT_APPROVE'')
           (Uncoded ''This case has no verified completed participant cancellation to reconcile''))
         (closeParticipantCancellationReport c t)
     | _ \<Rightarrow> fail (Uncoded ''This case has no verified completed participant cancellation to reconcile'')))"

definition repairCompletedParticipantCancellationReport :: "key \<Rightarrow> (db, bool) process" where
  "repairCompletedParticipantCancellationReport requestId =
     p_bind (transact (repair_report requestId)) (\<lambda>repaired.
     p_seq (transact (when_tx repaired (emit RAdmin ''ADMIN_MODERATION_CHANGED'' ''''))) (p_ret repaired))"

subsection \<open>Escalation to an administrator\<close>

definition escalate_request :: "time \<Rightarrow> key \<Rightarrow> key \<Rightarrow> (cancellation_row \<times> report_row \<times> bool \<times> key list) dbtx" where
  "escalate_request now requestId userId =
     tx_bind (query (\<lambda>s. (cancellation_with_booking requestId s,
        Option.bind (Option.bind (find_cancellation requestId s) cr_reportId) (\<lambda>r. find_report r s)))) (\<lambda>(found, report).
     tx_bind (expect httpParticipant found) (\<lambda>(c, b).
     tx_seq (ensure (cr_requestedBy c = userId) httpParticipant)
    (if cr_status c = C_ESCALATED \<and> report \<noteq> None then ret (c, the report, False, [])
     else
       tx_seq (ensure (cr_status c = C_DECLINED) (Http 409 ''Only a declined cancellation request can be escalated''))
      (tx_seq (assertNoFinancialResolutionReserved (cr_bookingId c) None)
      (tx_bind fresh_id (\<lambda>i.
       let other = (if userId = bk_seekerId b then bk_providerId b else bk_seekerId b);
           r = \<lparr>rp_id = i, rp_bookingId = cr_bookingId c, rp_reporterId = userId, rp_reportedUserId = other,
             rp_reason = INCOMPLETE_SERVICE, rp_reportType = RT_CANCELLATION_ESCALATION,
             rp_dedupeKey = Some (RK_Cancellation (cr_id c)), rp_status = RP_PENDING, rp_adminId = None, rp_resolvedAt = None\<rparr>
       in tx_seq (modify (reports_update (\<lambda>rs. rs @ [r])))
         (tx_seq (upd_cancellation (cr_id c) (\<lambda>x. x\<lparr>cr_status := C_ESCALATED, cr_reportId := Some i\<rparr>))
         (tx_seq (recordBookingProgress now (cr_bookingId c) PK_CANCELLATION_ESCALATED
             (bookingActorRole (bk_seekerId b) (bk_providerId b) (Some userId)) (EK_Request (cr_id c) ''escalated''))
         (tx_seq (notify other ''Cancellation escalated to Admin'')
         (tx_bind (recordAdminNotifications ''Cancellation escalation requires review'') (\<lambda>adminIds.
          ret (c\<lparr>cr_status := C_ESCALATED, cr_reportId := Some i\<rparr>, r, True, adminIds))))))))))))"

definition escalateCancellationRequest :: "time \<Rightarrow> key \<Rightarrow> key \<Rightarrow> (db, cancellation_row) process" where
  "escalateCancellationRequest now requestId userId =
     p_bind (transact (escalate_request now requestId userId)) (\<lambda>(c, report, created, adminIds).
     p_seq (transact (tx_seq (when_tx created (publishNotifications adminIds ''Cancellation escalation requires review''))
        (tx_seq (emit (RUser (rp_reportedUserId report)) ''notification'' ''Cancellation escalated to Admin'')
        (tx_seq (emit (RUser (cr_requestedBy c)) ''ENGAGEMENT_CHANGED'' ''cancellation_escalated'')
        (case cr_responderId c of None \<Rightarrow> ret ()
         | Some u \<Rightarrow> emit (RUser u) ''ENGAGEMENT_CHANGED'' ''cancellation_escalated'')))))
     (p_ret c))"

subsection \<open>The decision of an administrator\<close>

datatype fault = NoFault | SeekerFault | ProviderFault

definition fault_text :: "fault \<Rightarrow> string" where
  "fault_text f = (case f of NoFault \<Rightarrow> ''none'' | SeekerFault \<Rightarrow> ''seeker'' | ProviderFault \<Rightarrow> ''provider'')"

definition fault_penalty :: "fault \<Rightarrow> string" where
  "fault_penalty f = (if f = NoFault then ''none'' else ''cancellation_fault_'' @ fault_text f)"

definition fault_user :: "fault \<Rightarrow> booking_row \<Rightarrow> key option" where
  "fault_user f b = (case f of NoFault \<Rightarrow> None | SeekerFault \<Rightarrow> Some (bk_seekerId b) | ProviderFault \<Rightarrow> Some (bk_providerId b))"

definition decision_outcome :: "bool \<Rightarrow> string" where
  "decision_outcome approve = (if approve then ''ADMIN_APPROVE'' else ''ADMIN_DENY'')"

definition decision_inputs :: "bool \<Rightarrow> string \<Rightarrow> fault \<Rightarrow> error + unit" where
  "decision_inputs approve adminNote fault =
     (if \<not> approve \<and> fault \<noteq> NoFault then Inl (Http 422 ''Choose a valid fault finding for an approved cancellation'')
      else if length (trim adminNote) < 3 then Inl (Http 422 ''Explain the cancellation decision and any fault finding'')
      else if fault \<noteq> NoFault \<and> length (trim adminNote) < 20
      then Inl (Http 422 ''Explain the fault finding and supporting evidence in at least 20 characters'')
      else Inr ())"

text \<open>The writes of a new or resumed claim.\<close>

definition admin_open :: "time \<Rightarrow> cancellation_row \<Rightarrow> booking_row \<Rightarrow> operation_row \<Rightarrow> bool \<Rightarrow> string \<Rightarrow> key \<Rightarrow> decision_claim dbtx" where
  "admin_open now c b op approve adminNote adminId =
     tx_bind (query (\<lambda>s. Option.bind (cr_reportId c) (\<lambda>r. find_report r s))) (\<lambda>report.
     tx_seq (ensure (report \<noteq> None) (Http 409 ''CANCELLATION_REPORT_LINK_MISSING''))
    (tx_seq (when_tx (approve \<and> \<not> hasEstablishedFinancialEffect op)
        (assertNoOtherBlockingCases (cr_bookingId c) \<lparr>ex_report = cr_reportId c, ex_cancellation = Some (cr_id c), ex_escalation = None\<rparr>))
    (tx_seq (upd_cancellation (cr_id c) (\<lambda>x. x\<lparr>cr_status := C_UNDER_REVIEW, cr_adminId := Some adminId, cr_adminNote := Some adminNote\<rparr>))
    (tx_seq (upd_reports (\<lambda>r. Some (rp_id r) = cr_reportId c \<and> report_active r)
        (\<lambda>r. r\<lparr>rp_status := RP_UNDER_REVIEW, rp_adminId := Some adminId\<rparr>))
    (tx_seq (recordBookingProgress now (cr_bookingId c) (if approve then PK_CANCELLATION_APPROVED else PK_CANCELLATION_DECLINED)
        ByAdmin (EK_Request (cr_id c) ''admin-response''))
    (ret \<lparr>dc_request = c, dc_booking = b, dc_operation = op, dc_completed = None\<rparr>))))))"

definition admin_claim :: "time \<Rightarrow> key \<Rightarrow> bool \<Rightarrow> string \<Rightarrow> key \<Rightarrow> fault \<Rightarrow> decision_claim dbtx" where
  "admin_claim now requestId approve adminNote adminId fault =
     tx_bind (query (\<lambda>s. (cancellation_with_booking requestId s, operation_of CT_CANCELLATION requestId s))) (\<lambda>(found, existing).
     tx_bind (expect (Http 404 ''Cancellation request not found'') found) (\<lambda>(c, b).
     tx_seq (ensure (case existing of None \<Rightarrow> True | Some op \<Rightarrow> op_requestedOutcome op = decision_outcome approve \<and>
          or_none (op_requestedPenalty op) = fault_penalty fault) op_conflict)
    (tx_seq (ensure (fault = NoFault \<or> bk_started b) (Http 422 ''Cancellation penalties apply only after work has started''))
    (if cr_status c \<notin> {C_ESCALATED, C_UNDER_REVIEW}
     then (case existing of
         Some op \<Rightarrow> tx_seq (ensure (op_status op = OP_COMPLETED) (Http 409 ''Only an escalated cancellation request can be resolved by Admin''))
            (ret \<lparr>dc_request = c, dc_booking = b, dc_operation = op, dc_completed = op_result op\<rparr>)
       | None \<Rightarrow> fail (Http 409 ''Only an escalated cancellation request can be resolved by Admin''))
     else tx_bind (beginAdminResolution CT_CANCELLATION (cr_id c) (cr_bookingId c) adminId (decision_outcome approve)
             (Some (fault_penalty fault))) (\<lambda>op.
       case completedResolutionResult op of
         Some r \<Rightarrow> ret \<lparr>dc_request = c, dc_booking = b, dc_operation = op, dc_completed = Some r\<rparr>
       | None \<Rightarrow> admin_open now c b op approve adminNote adminId)))))"

definition admin_effects :: "time \<Rightarrow> decision_claim \<Rightarrow> bool \<Rightarrow> string \<Rightarrow> key \<Rightarrow> fault \<Rightarrow> op_result dbtx" where
  "admin_effects now claim approve adminNote adminId fault =
     tx_bind (query (cancellation_with_booking (cr_id (dc_request claim)))) (\<lambda>found.
     tx_bind (expect (Http 409 ''Cancellation case changed before finalization'') found) (\<lambda>(c, b).
     tx_bind (expect (Http 409 ''Cancellation case changed before finalization'')
        (if cr_status c = C_UNDER_REVIEW then cr_reportId c else None)) (\<lambda>reportId.
     tx_seq (ensure (approve \<longrightarrow> cancellation_settled b) (Http 409 ''Cancellation/refund has not reached its valid final state''))
    (tx_seq (upd_cancellation (cr_id c) (\<lambda>x. x\<lparr>cr_status := C_RESOLVED,
        cr_resolutionOutcome := Some (if approve then CO_APPROVED else CO_DENIED), cr_adminId := Some adminId,
        cr_adminNote := Some adminNote, cr_resolvedAt := Some now\<rparr>))
    (tx_seq (upd_reports (\<lambda>r. rp_id r = reportId) (\<lambda>r. r\<lparr>rp_status := (if approve then RP_RESOLVED else RP_DISMISSED),
        rp_adminId := Some adminId, rp_resolvedAt := Some now\<rparr>))
    (tx_seq (if approve then ret () else tx_bind (restoreBookingIfNoBlockingCases now (cr_bookingId c)) (\<lambda>_. ret ()))
    (tx_seq (case (if approve then fault_user fault b else None) of None \<Rightarrow> ret ()
       | Some u \<Rightarrow> tx_bind (applyBookingTrustPenalty now (cr_bookingId c) u adminId (TK_Cancellation (cr_id c) u) True
           ((if fault = ProviderFault then ''Provider'' else ''Seeker'') @ '' at fault for cancelling started work: '' @ adminNote)) (\<lambda>_. ret ()))
    (tx_seq (audit adminId (Some (case fault_user fault b of None \<Rightarrow> bk_providerId b | Some u \<Rightarrow> u))
        (if approve then ''CANCELLATION_APPROVED'' else ''CANCELLATION_DENIED'') (cr_id c))
    (tx_seq (notify (bk_seekerId b) ''Cancellation case resolved'')
    (tx_seq (notify (bk_providerId b) ''Cancellation case resolved'')
    (ret (AdminCancellation approve (op_id (dc_operation claim)) (fault_text fault)))))))))))))"

definition finish_admin_decision :: "time \<Rightarrow> decision_claim \<Rightarrow> bool \<Rightarrow> string \<Rightarrow> key \<Rightarrow> fault \<Rightarrow> op_result option dbtx" where
  "finish_admin_decision now claim approve adminNote adminId fault =
     finish_operation (op_id (dc_operation claim)) True (admin_effects now claim approve adminNote adminId fault)"

definition adminResolveCancellationRequest ::
  "time \<Rightarrow> key \<Rightarrow> bool \<Rightarrow> string \<Rightarrow> key \<Rightarrow> fault \<Rightarrow> error + intent \<Rightarrow> refund_answer \<Rightarrow> (db, op_result option) process" where
  "adminResolveCancellationRequest now requestId approve adminNote adminId fault intent answer =
     p_bind (transact (lift_sum (decision_inputs approve adminNote fault))) (\<lambda>_.
     p_bind (transact (admin_claim now requestId approve adminNote adminId fault)) (\<lambda>claim.
     if dc_completed claim \<noteq> None then p_ret (dc_completed claim)
     else p_rethrow
       (p_seq (if approve \<and> \<not> hasEstablishedFinancialEffect (dc_operation claim)
               then establish_cancellation now claim adminId intent answer
               else p_bind (markAdminResolutionStage (op_id (dc_operation claim)) DECISION_READY) (\<lambda>_. p_ret ()))
       (p_bind (transact (finish_admin_decision now claim approve adminNote adminId fault)) (\<lambda>response.
        p_seq (transact (for_each (\<lambda>u. emit (RUser u) ''ENGAGEMENT_CHANGED'' ''cancellation_admin_resolved'')
           [bk_seekerId (dc_booking claim), bk_providerId (dc_booking claim)]))
       (p_ret response))))
       (\<lambda>cause. markAdminResolutionFailed (op_id (dc_operation claim)) cause)))"


subsection \<open>What every operation keeps\<close>

lemma aside_refund_parts [aside_rules]:
  "aside.stays (insert_transaction t)" "aside.stays (set_request rq st)" "aside.stays (refund_ledger b k i a)"
  "aside.stays (fail_refund b e)" "aside.stays (publish_refund b w)" "aside.stays (refund_precheck b)"
proof -
  show 1: "aside.stays (insert_transaction t)" for t
    by (rule aside.staysI) (auto simp: aside_rel_def still_rel_def tx_iff)
  show "aside.stays (set_request rq st)" unfolding set_request_def by (intro aside_rules)
  show "aside.stays (refund_ledger b k i a)" unfolding refund_ledger_def by (intro aside_rules 1)
  show "aside.stays (fail_refund b e)" unfolding fail_refund_def by (intro aside_rules)
  show "aside.stays (publish_refund b w)" unfolding publish_refund_def by (intro aside_rules)
  show "aside.stays (refund_precheck b)" unfolding refund_precheck_def Let_def by (intro aside_rules)
qed

lemma aside_refund [aside_rules]:
  "aside.stays (reserve_refund b k p a)" "aside.stays (settle_refund now bk q k i gs a)"
  "aside.stays (finalize_refund now b k r i gs a)"
proof -
  show "aside.stays (reserve_refund b k p a)" unfolding reserve_refund_def Let_def by (intro aside_rules)
  show 1: "aside.stays (settle_refund now bk q k i gs a)" for bk q unfolding settle_refund_def by (intro aside_rules)
  show "aside.stays (finalize_refund now b k r i gs a)" unfolding finalize_refund_def
    by (intro aside_rules 1 | simp split: option.splits | safe)+
qed

lemmas still_refund_leaves [still_rules] = aside_refund_parts [THEN still_aside] aside_refund [THEN still_aside]

lemma p_still: "still.stays m \<Longrightarrow> p_keeps (ops_rel s0) (transact m)"
  and p_ops: "ops.stays m \<Longrightarrow> p_keeps (ops_rel s0) (transact m)"
  by (rule p_keeps_transact, rule keepsI, metis ops_still ops.staysD ops.R_trans)+

lemma p_ops_refund [p_pres]: "p_keeps (ops_rel s0) (refundBookingPayment now b who ia ra)"
  unfolding refundBookingPayment_def gateway_refund_def
  by (auto split: refund_start.splits intro!: p_pres p_still still_rules)

lemma aside_cancel [aside_rules]:
  "aside.stays (cancel_precheck b pre)" "aside.stays (cancel_unpaid now bk q a)" "aside.stays (cancel_notices bk a)"
  "aside.stays (close_sources bk rq)" "aside.stays (cancel_commit now b a pre h)" "aside.stays (publish_cancel k w r)"
proof -
  show "aside.stays (cancel_precheck b pre)" unfolding cancel_precheck_def by (intro aside_rules)
  show 1: "aside.stays (cancel_unpaid now bk q a)" for bk q unfolding cancel_unpaid_def by (intro aside_rules)
  show 2: "aside.stays (cancel_notices bk a)" for bk unfolding cancel_notices_def Let_def by (intro aside_rules)
  show 3: "aside.stays (close_sources bk rq)" for bk rq unfolding close_sources_def by (intro aside_rules)
  show "aside.stays (cancel_commit now b a pre h)" unfolding cancel_commit_def by (intro aside_rules 1 2 3)
  show "aside.stays (publish_cancel k w r)" unfolding publish_cancel_def by (intro aside_rules)
qed

lemmas still_cancel_leaves [still_rules] = aside_cancel [THEN still_aside]

lemma p_ops_cancel [p_pres]: "p_keeps (ops_rel s0) (performImmediateCancel now b a pre ia ra)"
  unfolding performImmediateCancel_def by (intro p_pres p_still still_rules)

lemma still_request [still_rules]:
  "still.stays (hold_for_cancel now bk)" "still.stays (open_request now bk k why)" "still.stays (repeat_request bk k c)"
  "still.stays (request_claim now b k why)" "still.stays (finish_immediate now b i)" "still.stays (emitCancellationChange bk t)"
  "still.stays (decline_request now i k note)" "still.stays (closeParticipantCancellationReport c now)"
  "still.stays (approval_effects now cl)" "still.stays (repair_report i)" "still.stays (escalate_request now i k)"
  "still.stays (admin_open now c bk op ap nt adm)" "still.stays (admin_effects now cl ap nt adm fl)"
proof -
  show 1: "still.stays (hold_for_cancel now bk)" for bk unfolding hold_for_cancel_def by (intro still_rules)
  show 2: "still.stays (open_request now bk k why)" for bk unfolding open_request_def Let_def by (intro still_rules 1)
  show 3: "still.stays (repeat_request bk k c)" for bk c unfolding repeat_request_def by (intro still_rules)
  show "still.stays (request_claim now b k why)" unfolding request_claim_def by (intro still_rules 1 2 3)
  show "still.stays (finish_immediate now b i)" unfolding finish_immediate_def by (intro still_rules)
  show "still.stays (emitCancellationChange bk t)" unfolding emitCancellationChange_def by (intro still_rules)
  show "still.stays (decline_request now i k note)" unfolding decline_request_def by (intro still_rules)
  show 4: "still.stays (closeParticipantCancellationReport c now)" for c now
    unfolding closeParticipantCancellationReport_def Let_def by (intro still_rules)
  show "still.stays (approval_effects now cl)" unfolding approval_effects_def by (intro still_rules 4)
  show "still.stays (repair_report i)" unfolding repair_report_def
    by (intro still_rules 4 | simp split: option.splits | safe)+
  show "still.stays (escalate_request now i k)" unfolding escalate_request_def Let_def by (intro still_rules)
  show "still.stays (admin_open now c bk op ap nt adm)" unfolding admin_open_def by (intro still_rules)
  show "still.stays (admin_effects now cl ap nt adm fl)" unfolding admin_effects_def by (intro still_rules)
qed

lemmas p_shape = p_keeps_ret p_keeps_bind p_keeps_seq p_keeps_rethrow p_keeps_if p_keeps_case_option
  p_keeps_case_sum p_keeps_case_prod p_keeps_let

lemmas ops_still_parts [ops_rules] = still_refund_leaves [THEN ops_still] still_cancel_leaves [THEN ops_still]
  still_request [THEN ops_still]

lemma ops_decisions [ops_rules]:
  "ops.stays (reserveCancellationFinancialOutcome op i)" "ops.stays (approve_claim now i k note)"
  "ops.stays (admin_claim now i ap nt adm fl)" "ops.stays (finish_approval now cl)"
  "ops.stays (finish_admin_decision now cl ap nt adm fl)"
proof -
  show "ops.stays (reserveCancellationFinancialOutcome op i)" unfolding reserveCancellationFinancialOutcome_def by (intro ops_rules)
  show "ops.stays (approve_claim now i k note)" unfolding approve_claim_def by (intro ops_rules)
  show "ops.stays (admin_claim now i ap nt adm fl)" unfolding admin_claim_def by (intro ops_rules)
  show "ops.stays (finish_approval now cl)" unfolding finish_approval_def by (intro ops_rules still_rules)
  show "ops.stays (finish_admin_decision now cl ap nt adm fl)" unfolding finish_admin_decision_def by (intro ops_rules still_rules)
qed

lemma p_ops_marks [p_pres]:
  "p_keeps (ops_rel s0) (markAdminResolutionStage i st)" "p_keeps (ops_rel s0) (markAdminResolutionFailed i e)"
proof -
  show "p_keeps (ops_rel s0) (markAdminResolutionStage i st)"
    unfolding markAdminResolutionStage_def by (intro p_ops ops_rules)
  show "p_keeps (ops_rel s0) (markAdminResolutionFailed i e)"
    unfolding markAdminResolutionFailed_def
    by (intro p_ops ops_upd_operations) (auto simp: op_kept_def op_running_def)
qed

lemma cancellation_keeps_ops:
  "p_keeps (ops_rel s0) (requestCancellation now b k why ia ra)"
  "p_keeps (ops_rel s0) (respondToCancellationRequest now i k ap note ia ra)"
  "p_keeps (ops_rel s0) (escalateCancellationRequest now i k)"
  "p_keeps (ops_rel s0) (adminResolveCancellationRequest now i ap nt adm fl ia ra)"
  "p_keeps (ops_rel s0) (repairCompletedParticipantCancellationReport i)"
proof -
  have e: "p_keeps (ops_rel s0) (establish_cancellation now cl k ia ra)" for cl k
    unfolding establish_cancellation_def by (intro p_shape p_ops_cancel p_ops_marks p_ops ops_rules)
  show "p_keeps (ops_rel s0) (requestCancellation now b k why ia ra)"
    unfolding requestCancellation_def by (intro p_shape p_ops_cancel e p_ops ops_rules)
  have "p_keeps (ops_rel s0) (approve_request now i k nt ia ra)" for nt
    unfolding approve_request_def by (intro p_shape e p_ops_marks p_ops ops_rules)
  then show "p_keeps (ops_rel s0) (respondToCancellationRequest now i k ap note ia ra)"
    unfolding respondToCancellationRequest_def Let_def by (intro p_shape p_ops ops_rules)
  show "p_keeps (ops_rel s0) (escalateCancellationRequest now i k)"
    unfolding escalateCancellationRequest_def by (intro p_shape p_ops_cancel e p_ops ops_rules)
  show "p_keeps (ops_rel s0) (adminResolveCancellationRequest now i ap nt adm fl ia ra)"
    unfolding adminResolveCancellationRequest_def
    by (intro p_shape e p_ops_marks p_ops ops_rules)
  show "p_keeps (ops_rel s0) (repairCompletedParticipantCancellationReport i)"
    unfolding repairCompletedParticipantCancellationReport_def by (intro p_shape p_ops_cancel e p_ops ops_rules)
qed

end
