(* ===== verification/SH_Cancelled.thy ===== *)
theory SH_Cancelled
  imports SH_Cancellation
begin

text \<open>
  What a cancellation does to the work tables, the offers and the requests for cancellation: the effects
  of the transactions of SH_Cancellation, the invariants they keep, and the properties that rest on them.
\<close>

subsection \<open>A cancellation without a refund\<close>

lemma cancel_unpaid_effect:
  assumes run: "cancel_unpaid now b q actor s = Inr (w, s')" and wf: "work_wf s"
    and b: "find_booking (bk_id b) s = Some b" and q: "queue_of (bk_id b) s = q"
  shows "work_wf s' \<and> completedServices s' = completedServices s \<and> transactions s' = transactions s \<and>
    refunds s' = refunds s \<and> offers s' = offers s \<and> requests s' = requests s \<and> cancellations s' = cancellations s \<and>
    nextId s \<le> nextId s' \<and> map_option rf_status (refund_of (bk_id b) s) \<noteq> Some ''PROCESSING'' \<and>
    (\<exists>c. find_booking (bk_id b) s' = Some c \<and> bk_status c = B_CANCELED \<and> bk_paymentStatus c = bk_paymentStatus b \<and>
       bk_seekerId c = bk_seekerId b \<and> bk_providerId c = bk_providerId b) \<and>
    (\<forall>e. q = Some e \<longrightarrow> (\<forall>r \<in> set (queues s'). q_id r = q_id e \<longrightarrow> q_status r = Q_CANCELLED \<and>
       q_paymentStatus r = q_paymentStatus e))"
proof -
  let ?i = "bk_id b" let ?p = "bk_providerId b"
  let ?h = "\<lambda>r. r\<lparr>bk_status := B_CANCELED, bk_paymentStatus := bk_paymentStatus b, bk_statusBeforeDispute := None\<rparr>"
  from run obtain u0 s0 u1 s1 u2 s2 where
    r0: "assertNoRefundInProgress ?i s = Inr (u0, s0)" and
    r1: "upd_booking now ?i ?h s0 = Inr (u1, s1)" and
    r2: "recordBookingProgress now ?i PK_CANCELED (bookingActorRole (bk_seekerId b) ?p actor) (EK_Kind PK_CANCELED) s1 = Inr (u2, s2)" and
    r3: "(case q of None \<Rightarrow> ret None
     | Some e \<Rightarrow>
       tx_seq (upd_queue (q_id e) (\<lambda>r. r\<lparr>q_status := Q_CANCELLED, q_paymentStatus := q_paymentStatus e\<rparr>))
      (tx_seq (recalculateQueueInTransaction now ?p) (notifyWaitlistInTransaction now ?p))) s2 = Inr (w, s')"
    unfolding cancel_unpaid_def tx_seq_Inr by blast
  have s0: "s0 = s" "map_option rf_status (refund_of ?i s) \<noteq> Some ''PROCESSING''"
    using r0 by (auto simp: assertNoRefundInProgress_def tx_iff)
  have s1: "s1 = bookings_update (map_rows (\<lambda>r. bk_id r = ?i) (\<lambda>r. (?h r)\<lparr>bk_updatedAt := now\<rparr>)) s"
    using r1 s0(1) by (simp add: upd_booking_def modify_Inr)
  have f1: "find_booking ?i s1 = Some ((?h b)\<lparr>bk_updatedAt := now\<rparr>)"
    using find_upd_booking(1)[OF r1, of b] b s0(1) by simp
  have "calm_rel s s1" using calm.staysD[OF calm_upd_booking r1] s0(1) by (simp add: bk_key_def)
  then have wf1: "work_wf s1" using wf by (rule calm_wf)
  have q2: "quiet_rel s1 s2" by (rule quiet.staysD[OF quiet_writes(11) r2])
  have wf2: "work_wf s2" using wf1 quiet_calm[OF q2] by (blast intro: calm_wf)
  have f2: "find_booking ?i s2 = Some ((?h b)\<lparr>bk_updatedAt := now\<rparr>)"
    using f1 quiet_bookings[OF q2] by simp
  have t2: "completedServices s2 = completedServices s" "transactions s2 = transactions s" "refunds s2 = refunds s"
    "offers s2 = offers s" "requests s2 = requests s" "cancellations s2 = cancellations s" "nextId s \<le> nextId s2"
    "queues s2 = queues s"
    using quiet_core[OF q2] q2 by (simp_all add: s1 quiet_rel_def)
  show ?thesis
  proof (cases q)
    case None
    then show ?thesis using r3 wf2 f2 t2 s0(2) by (simp add: ret_Inr)
  next
    case (Some e)
    let ?f = "\<lambda>r. r\<lparr>q_status := Q_CANCELLED, q_paymentStatus := q_paymentStatus e\<rparr>"
    from r3 Some obtain u3 s3 u4 s4 where r4: "upd_queue (q_id e) ?f s2 = Inr (u3, s3)"
      and r5: "recalculateQueueInTransaction now ?p s3 = Inr (u4, s4)" and r6: "notifyWaitlistInTransaction now ?p s4 = Inr (w, s')"
      by (auto simp: tx_seq_Inr)
    have e: "e \<in> set (queues s2)" "q_providerId e = ?p"
      using queue_of_row[OF q[unfolded Some]] work_wf_owner[OF wf b q[unfolded Some]] t2(8) by auto
    note rr = retire_and_reindex[OF r4 r5 wf2 e]
    have sk: "seat_kept ?f" "\<And>q. \<not> is_serving ?p (?f q)" by (simp_all add: seat_kept_def is_serving_def)
    have q6: "quiet_rel s4 s'" by (rule quiet.staysD[OF quiet_waitlist r6])
    have wf': "work_wf s'" using rr(1)[OF sk] quiet_calm[OF q6] by (blast intro: calm_wf)
    from rr(4)[OF sk f2] obtain y where y: "find_booking ?i s4 = Some y" "bk_unplaced y = bk_unplaced ((?h b)\<lparr>bk_updatedAt := now\<rparr>)"
      by blast
    have f: "find_booking ?i s' = Some y" using y(1) quiet_bookings[OF q6] by simp
    have fields: "bk_status y = B_CANCELED" "bk_paymentStatus y = bk_paymentStatus b" "bk_seekerId y = bk_seekerId b"
      "bk_providerId y = bk_providerId b"
      using arg_cong[OF y(2), of bk_status] arg_cong[OF y(2), of bk_paymentStatus] arg_cong[OF y(2), of bk_seekerId]
        arg_cong[OF y(2), of bk_providerId] by simp_all
    have st: "aside_rel s3 s4" by (rule aside.staysD[OF aside_recalculate r5])
    have d: "queue_ids_distinct s3"
    proof -
      have "map q_id (queues s3) = map q_id (queues s2)" using r4 by (simp add: upd_queue_def modify_Inr)
      then show ?thesis using wf2 by (simp add: queue_ids_distinct_def work_wf_def queue_wf_def)
    qed
    have s3: "s3 = queues_update (map_rows (\<lambda>r. q_id r = q_id e) ?f) s2" using r4 by (simp add: upd_queue_def modify_Inr)
    from recalculateQueueInTransaction_effect[OF r5 d] have s4: "\<exists>x y. s4 = s3\<lparr>queues := x, bookings := y\<rparr>" by metis
    then have t4: "requests s4 = requests s2" "cancellations s4 = cancellations s2" "nextId s4 = nextId s2" by (auto simp: s3)
    show ?thesis
      using wf' f fields s0(2) rr(2,3,7,8)[OF sk] t2 t4 quiet_core[OF q6] q6 rr(5)[OF sk] Some
      by (auto simp: quiet_rel_def)
  qed
qed


subsection \<open>The offers\<close>

lemma shop_same:
  "offers s' = offers s \<Longrightarrow> requests s' = requests s \<Longrightarrow> nextId s \<le> nextId s' \<Longrightarrow> shop_rel s s'"
  by (simp add: shop_rel_def open_ids_def)

lemma shop_writes [shop_rules]:
  "shop.stays (upd_directRequest i fd)" "shop.stays (upd_cancellation i fc)" "shop.stays (upd_reports prp frp)"
  "shop.stays (upd_escalations pe fe)" "shop.stays (upd_queue i fq)" "shop.stays (upd_booking now i fb)"
  "shop.stays (upd_operation i fo)" "shop.stays (upd_operations po fo)"
  "shop.stays (modify (queues_update g))" "shop.stays (modify (bookings_update h))"
  "shop.stays (modify (reports_update k))" "shop.stays (modify (cancellations_update l))"
  "shop.stays (modify (escalations_update l2))" "shop.stays (modify (operations_update l3))"
  "shop.stays (modify (completedServices_update l4))" "shop.stays (modify (transactions_update l5))"
  "shop.stays (insert_transaction t)"
  by (rule shop.staysI, rule shop_same;
      auto simp: upd_directRequest_def upd_cancellation_def upd_reports_def upd_escalations_def
      upd_queue_def upd_booking_def upd_operation_def upd_operations_def tx_iff)+

lemma shop_quiet_parts [shop_rules]:
  "shop.stays (notify u t)" "shop.stays (notify_row n)" "shop.stays (notify_as nk u t)" "shop.stays (audit a tg act res)"
  "shop.stays (emit r e t)" "shop.stays (recordBookingProgress now b k2 ac ek)" "shop.stays (create_notice no)"
  "shop.stays (recordLifecycleNotice ps ns sys)" "shop.stays (recordAdminNotifications t)"
  "shop.stays (publishLifecycleChange ps t rec q)" "shop.stays (emitWaitlistNotification w)"
  "shop.stays (emitProviderQueueUpdates p sk)" "shop.stays (publishNotifications us t)"
  "shop.stays (notifyWaitlistInTransaction now p)" "shop.stays (assertNoRefundInProgress b)"
  "shop.stays (assertNoOtherBlockingCases b ex)" "shop.stays (assertNoFinancialResolutionReserved b own)"
  "shop.stays (awardBookingCompletionTrust now bk)" "shop.stays (applyBookingTrustPenalty now bk u adm tk f re)"
  by (rule shop_quiet, intro quiet_rules)+

lemma shop_set_request [shop_rules]: "st \<noteq> RQ_OPEN \<Longrightarrow> shop.stays (set_request rq st)"
  unfolding set_request_def upd_request_def
  by (rule shop.staysI)
     (auto simp: tx_iff shop_rel_def open_ids_def set_map_rows split: option.splits if_splits)

lemma shop_reindex [shop_rules]: "shop.stays (reindex_entries now pos w es)"
  by (induction now pos w es rule: reindex_entries.induct)
    (auto simp: reseat_def reseat_booking_def Let_def intro!: shop_rules split: option.splits)

lemma shop_recalculate [shop_rules]: "shop.stays (recalculateQueueInTransaction now p)"
  unfolding recalculateQueueInTransaction_def reseat_def by (intro shop_rules | simp split: option.splits | safe)+

lemma shop_restore [shop_rules]: "shop.stays (restoreBookingIfNoBlockingCases now b)"
  unfolding restoreBookingIfNoBlockingCases_def Let_def by (intro shop_rules)

lemma shop_refund [shop_rules]:
  "shop.stays (refund_ledger b k i a)" "shop.stays (fail_refund b e)" "shop.stays (publish_refund b w)"
  "shop.stays (refund_precheck b)" "shop.stays (reserve_refund b k p a)" "shop.stays (settle_refund now bk q k i gs a)"
  "shop.stays (finalize_refund now b k r i gs a)"
proof -
  show 1: "shop.stays (refund_ledger b k i a)" for b k i a unfolding refund_ledger_def by (intro shop_rules)
  show "shop.stays (fail_refund b e)" unfolding fail_refund_def by (intro shop_rules)
  show "shop.stays (publish_refund b w)" unfolding publish_refund_def by (intro shop_rules)
  show "shop.stays (refund_precheck b)" unfolding refund_precheck_def Let_def by (intro shop_rules)
  show "shop.stays (reserve_refund b k p a)" unfolding reserve_refund_def Let_def by (intro shop_rules)
  show 2: "shop.stays (settle_refund now bk q k i gs a)" for bk q unfolding settle_refund_def by (intro shop_rules 1) simp
  show "shop.stays (finalize_refund now b k r i gs a)" unfolding finalize_refund_def
    by (intro shop_rules 2 | simp split: option.splits | safe)+
qed

lemma shop_cancel [shop_rules]:
  "shop.stays (cancel_precheck b pre)" "shop.stays (cancel_unpaid now bk q a)" "shop.stays (cancel_notices bk a)"
  "shop.stays (close_sources bk rq)" "shop.stays (cancel_commit now b a pre h)" "shop.stays (publish_cancel k w r)"
proof -
  show "shop.stays (cancel_precheck b pre)" unfolding cancel_precheck_def by (intro shop_rules)
  show 1: "shop.stays (cancel_unpaid now bk q a)" for bk q unfolding cancel_unpaid_def by (intro shop_rules)
  show 2: "shop.stays (cancel_notices bk a)" for bk unfolding cancel_notices_def Let_def by (intro shop_rules)
  show 3: "shop.stays (close_sources bk rq)" for bk rq unfolding close_sources_def by (intro shop_rules) simp
  show "shop.stays (cancel_commit now b a pre h)" unfolding cancel_commit_def by (intro shop_rules 1 2 3)
  show "shop.stays (publish_cancel k w r)" unfolding publish_cancel_def by (intro shop_rules)
qed

lemma p_shop: "shop.stays m \<Longrightarrow> p_keeps offers_wf (transact m)"
  by (rule p_keeps_transact[OF shop_keeps])

lemma p_shop_refund: "p_keeps offers_wf (refundBookingPayment now b who ia ra)"
  unfolding refundBookingPayment_def gateway_refund_def
  by (intro p_shape p_shop shop_rules | simp split: refund_start.splits | safe)+

lemma p_shop_cancel: "p_keeps offers_wf (performImmediateCancel now b a pre ia ra)"
  unfolding performImmediateCancel_def by (intro p_shape p_shop p_shop_refund shop_rules)

subsection \<open>The work tables\<close>

lemma cancel_commit_cases:
  assumes "cancel_commit now i a pre h s = Inr ((w, r), s')"
  obtains "find_booking i s = None" "s' = s" "w = None" "r = None"
  | b s1 u s2 n where "find_booking i s = Some b" "completed_of i s = None" "\<not> not_cancellable (bk_status b)"
      "\<not> (pre \<noteq> None \<and> bk_status b \<noteq> B_CANCELED \<and> (bk_started b \<or> bk_status b \<noteq> B_UNDER_REVIEW))"
      "(if \<not> h \<and> bk_status b \<noteq> B_CANCELED then cancel_unpaid now b (queue_of i s) a else ret None) s = Inr (w, s1)"
      "close_sources b (request_of_offer (bk_offerId b) s) s1 = Inr (u, s2)" "cancel_notices b a s2 = Inr (n, s')"
      "r = map_option (\<lambda>(recd, refunded). (b, recd, refunded)) n"
proof (cases "find_booking i s")
  case None
  with assms that(1) show thesis by (simp add: cancel_commit_def tx_bind_query ret_Inr)
next
  case (Some b)
  from assms have "tx_seq (ensure (completed_of i s = None \<and> \<not> not_cancellable (bk_status b)) (Http 409 ''This booking can no longer be cancelled''))
      (tx_seq (ensure (\<not> (pre \<noteq> None \<and> bk_status b \<noteq> B_CANCELED \<and> (bk_started b \<or> bk_status b \<noteq> B_UNDER_REVIEW)))
          (Http 409 ''IMMEDIATE_CANCELLATION_STALE''))
      (tx_bind (if \<not> h \<and> bk_status b \<noteq> B_CANCELED then cancel_unpaid now b (queue_of i s) a else ret None) (\<lambda>waitlist.
       tx_seq (close_sources b (request_of_offer (bk_offerId b) s))
      (tx_bind (cancel_notices b a) (\<lambda>notices.
       ret (waitlist, map_option (\<lambda>(recd, refunded). (b, recd, refunded)) notices)))))) s = Inr ((w, r), s')"
    by (simp only: cancel_commit_def tx_bind_query prod.case Some option.case Option.bind.simps)
  then show thesis
    unfolding tx_seq_Inr tx_bind_Inr ensure_Inr ret_Inr prod.inject using that(2)[OF Some] by blast
qed


lemma calm_cancel [calm_rules]:
  "calm.stays (cancel_precheck b pre)" "calm.stays (cancel_notices bk a)" "calm.stays (close_sources bk rq)"
  "calm.stays (publish_cancel k w r)"
  unfolding cancel_precheck_def cancel_notices_def close_sources_def publish_cancel_def Let_def
  by (intro calm_rules)+

lemma quiet_cancel_notices: "quiet.stays (cancel_notices bk a)"
  unfolding cancel_notices_def Let_def by (intro quiet_rules)

lemma cancel_commit_effect:
  assumes run: "cancel_commit now i a pre h s = Inr ((w, r), s')" and wf: "work_wf s" and b: "find_booking i s = Some b"
    and go: "\<not> h" "bk_status b \<noteq> B_CANCELED"
  shows "work_wf s' \<and> completedServices s' = completedServices s \<and> transactions s' = transactions s \<and>
    refunds s' = refunds s \<and> cancellations s' = cancellations s \<and>
    completed_of i s = None \<and> \<not> not_cancellable (bk_status b) \<and> map_option rf_status (refund_of i s) \<noteq> Some ''PROCESSING'' \<and>
    (\<exists>c. find_booking i s' = Some c \<and> bk_status c = B_CANCELED \<and> bk_paymentStatus c = bk_paymentStatus b \<and>
       bk_seekerId c = bk_seekerId b \<and> bk_providerId c = bk_providerId b) \<and>
    (\<forall>e. queue_of i s = Some e \<longrightarrow> (\<forall>r \<in> set (queues s'). q_id r = q_id e \<longrightarrow> q_status r = Q_CANCELLED \<and>
       q_paymentStatus r = q_paymentStatus e)) \<and>
    (\<forall>j f. bk_offerId b = Some j \<longrightarrow> find_offer j s = Some f \<longrightarrow> of_requestId f \<notin> open_ids s')"
  using run
proof (cases rule: cancel_commit_cases)
  case (2 b' s1 u s2 n)
  have bb: "b' = b" and i: "bk_id b = i" using 2(1) b find_booking_mem[OF b] by auto
  have cu: "cancel_unpaid now b (queue_of i s) a s = Inr (w, s1)" using 2(5) go bb by simp
  note e = cancel_unpaid_effect[OF cu wf, unfolded i, OF b refl]
  have cs: "close_sources b (request_of_offer (bk_offerId b) s) s1 = Inr (u, s2)" using 2(6) bb by simp
  have nt: "cancel_notices b a s2 = Inr (n, s')" using 2(7) bb by simp
  have c: "calm_rel s1 s2" by (rule calm.staysD[OF calm_cancel(3) cs])
  have q: "quiet_rel s2 s'"
    by (rule quiet.staysD[OF quiet_cancel_notices nt])
  have s2: "completedServices s2 = completedServices s1" "transactions s2 = transactions s1" "refunds s2 = refunds s1"
    "cancellations s2 = cancellations s1" "bookings s2 = bookings s1" "queues s2 = queues s1"
    using cs by (auto simp: close_sources_def set_request_def upd_directRequest_def upd_request_def tx_iff split: option.splits)
  have req: "of_requestId f \<notin> open_ids s'" if "bk_offerId b = Some j" "find_offer j s = Some f" for j f
  proof -
    have "request_of_offer (bk_offerId b) s = Some (of_requestId f)" using that by (simp add: request_of_offer_def)
    with cs have "requests s2 = map_rows (\<lambda>r. rq_id r = of_requestId f) (\<lambda>r. r\<lparr>rq_status := RQ_CANCELED\<rparr>) (requests s1)"
      by (auto simp: close_sources_def set_request_def upd_directRequest_def upd_request_def tx_iff split: option.splits)
    then have "requests s' = map_rows (\<lambda>r. rq_id r = of_requestId f) (\<lambda>r. r\<lparr>rq_status := RQ_CANCELED\<rparr>) (requests s1)"
      using quiet_core[OF q] by simp
    then show ?thesis using open_ids_close[of s' "of_requestId f" RQ_CANCELED s1] by auto
  qed
  have wf': "work_wf s'" using e c quiet_calm[OF q] by (blast intro: calm_wf)
  have same: "find_booking i s' = find_booking i s1" "queues s' = queues s1"
    "completedServices s' = completedServices s" "transactions s' = transactions s" "refunds s' = refunds s"
    "cancellations s' = cancellations s"
    using quiet_bookings[OF q, of i] quiet_core[OF q] s2 e by (simp_all add: find_booking_def)
  have open_ok: "completed_of i s = None" "\<not> not_cancellable (bk_status b)" using 2(2,3) bb by simp_all
  show ?thesis
    unfolding same using wf' e open_ok req by blast
qed (use b in simp)

lemma keeps_cancel_commit: "keeps work_wf (cancel_commit now i a pre h)"
proof (rule keepsI)
  fix s x s' assume wf: "work_wf s" and run: "cancel_commit now i a pre h s = Inr (x, s')"
  obtain w r where x: "x = (w, r)" by (cases x)
  from run[unfolded x] show "work_wf s'"
  proof (cases rule: cancel_commit_cases)
    case (2 b s1 u s2 n)
    show ?thesis
    proof (cases "\<not> h \<and> bk_status b \<noteq> B_CANCELED")
      case True
      then show ?thesis using cancel_commit_effect[OF run[unfolded x] wf 2(1)] by simp
    next
      case False
      then have "s1 = s" using 2(5) by (simp only: if_False ret_Inr)
      then show ?thesis using wf calm.staysD[OF calm_cancel(3) 2(6)] calm.staysD[OF calm_cancel(2) 2(7)]
        by (blast intro: calm_wf)
    qed
  qed (use wf in simp)
qed

lemma p_work: "calm.stays m \<Longrightarrow> p_keeps work_wf (transact m)"
  by (rule p_keeps_transact[OF calm_keeps_wf])

lemma p_work_cancel: "p_keeps work_wf (performImmediateCancel now b a pre ia ra)"
  unfolding performImmediateCancel_def
  by (intro p_shape p_work refundBookingPayment_keeps p_keeps_transact[OF keeps_cancel_commit] calm_rules)


subsection \<open>A cancellation ends the booking\<close>

lemma p_run_simps:
  "transact m s = (Inr x, s') \<longleftrightarrow> m s = Inr (x, s')"
  "p_ret y s = (Inr x, s') \<longleftrightarrow> y = x \<and> s = s'"
  "p_bind n f s = (Inr x, s') \<longleftrightarrow> (\<exists>z t. n s = (Inr z, t) \<and> f z t = (Inr x, s'))"
  "p_seq k g s = (Inr x, s') \<longleftrightarrow> (\<exists>z t. k s = (Inr z, t) \<and> g t = (Inr x, s'))"
  by (auto simp: transact_def p_ret_def p_bind_def p_seq_def split: sum.splits prod.splits)

lemma quiet_publish_refund: "quiet.stays (publish_refund i w)"
  unfolding publish_refund_def by (intro quiet_rules)

lemma quiet_publish_cancel: "quiet.stays (publish_cancel k w r)"
  unfolding publish_cancel_def by (intro quiet_rules)

lemma gateway_refund_ran:
  assumes "gateway_refund i resumed row answer s = (Inr x, s')"
  shows "s' = s"
proof (cases "resumed \<and> truthy (rf_paymongoRefundId row)")
  case False
  then have "p_rethrow (transact (lift_sum answer)) (\<lambda>e. transact (fail_refund i e)) s = (Inr x, s')"
    using assms by (auto simp: gateway_refund_def split: if_splits)
  then show ?thesis
    by (cases answer) (auto simp: p_rethrow_def transact_def lift_sum_def ret_def fail_def split: sum.splits prod.splits)
qed (use assms in \<open>simp add: gateway_refund_def p_ret_def\<close>)

lemma refund_run_settles:
  assumes run: "refundBookingPayment now i who it ra s = (Inr r, s')" and wf: "work_wf s"
    and b: "find_booking i s = Some b" "held (bk_paymentStatus b)"
  shows "work_wf s' \<and> completed_of i s = None \<and> completed_of i s' = None \<and>
    (\<exists>c. find_booking i s' = Some c \<and> bk_status c = B_CANCELED \<and> bk_paymentStatus c = P_REFUNDED) \<and>
    (\<exists>t \<in> set (transactions s'). tr_relatedBookingId t = Some i \<and> tr_type t = REFUND)"
proof -
  from run obtain st t0 where pre: "refund_precheck i s = Inr (st, t0)"
    and rest: "(case st of
       AlreadyRefunded r \<Rightarrow> p_ret \<lparr>rr_refundId = the (rf_paymongoRefundId r), rr_status = rf_status r,
         rr_amount = rf_amount r, rr_alreadySubmitted = True\<rparr>
     | RefundOf q \<Rightarrow>
       p_bind (transact (lift_sum it)) (\<lambda>intent.
       p_bind (transact (lift_sum (refundable_payment q intent))) (\<lambda>paymentId.
       p_bind (transact (reserve_refund i who paymentId (it_amount intent))) (\<lambda>(resumed, row).
       p_bind (gateway_refund i resumed row ra) (\<lambda>(refundId, gatewayStatus).
       p_bind (transact (tx_bind (finalize_refund now i who resumed refundId gatewayStatus (it_amount intent))
          (publish_refund i))) (\<lambda>_.
       p_ret \<lparr>rr_refundId = refundId, rr_status = gatewayStatus, rr_amount = it_amount intent,
         rr_alreadySubmitted = resumed\<rparr>)))))) t0 = (Inr r, s')"
    unfolding refundBookingPayment_def p_run_simps by blast
  have t0: "t0 = s" "\<exists>q. st = RefundOf q"
    using pre b by (auto simp: refund_precheck_def Let_def tx_iff held_def split: option.splits if_splits)
  then obtain q where "st = RefundOf q" by blast
  with rest t0(1) obtain intent :: intent and pid resumed row t1 t2 rid gs w t3 u where
    rs: "reserve_refund i who pid (it_amount intent) s = Inr ((resumed, row), t1)"
    and gw: "gateway_refund i resumed row ra t1 = (Inr (rid, gs), t2)"
    and fin: "finalize_refund now i who resumed rid gs (it_amount intent) t2 = Inr (w, t3)"
    and pub: "publish_refund i w t3 = Inr (u, s')"
    by (auto simp: p_run_simps tx_iff)
  note r1 = reserve_refund_effect[OF rs]
  have t2: "t2 = t1" by (rule gateway_refund_ran[OF gw])
  have wf2: "work_wf t2" using r1 wf t2 by (blast intro: calm_wf)
  have f2: "find_booking i t2 = Some b" "completed_of i t2 = completed_of i s"
    using r1 b(1) t2 by (simp_all add: find_booking_def completed_of_def)
  have i: "bk_id b = i" using find_booking_mem[OF b(1)] by simp
  from finalize_refund_cases[OF fin] obtain q2 where q2: "queue_of i t2 = Some q2" "completed_of i t2 = None"
    "settle_refund now b q2 who rid gs (it_amount intent) t2 = Inr (w, t3)"
    using f2(1) b(2) by (auto simp: held_def)
  note e = settle_refund_effect[OF q2(3) wf2, unfolded i, OF f2(1) q2(1)]
  have q3: "quiet_rel t3 s'" by (rule quiet.staysD[OF quiet_publish_refund pub])
  have "work_wf s'" using e quiet_calm[OF q3] by (blast intro: calm_wf)
  moreover have "completed_of i s = None" "completed_of i s' = None"
    using q2(2) f2(2) e quiet_core(3)[OF q3] by (simp_all add: completed_of_def)
  moreover have "\<exists>c. find_booking i s' = Some c \<and> bk_status c = B_CANCELED \<and> bk_paymentStatus c = P_REFUNDED"
    using e quiet_bookings[OF q3, of i] by simp
  moreover have "transactions s' = transactions t3" using quiet_core(4)[OF q3] .
  ultimately show ?thesis using e by auto
qed


lemma cancel_commit_settled:
  assumes run: "cancel_commit now i a pre h s = Inr ((w, r), s')" and wf: "work_wf s"
    and b: "find_booking i s = Some b" and st: "h \<or> bk_status b = B_CANCELED"
  shows "work_wf s' \<and> find_booking i s' = Some b \<and> transactions s' = transactions s \<and> refunds s' = refunds s \<and>
    completedServices s' = completedServices s \<and> completed_of i s = None \<and> \<not> not_cancellable (bk_status b)"
  using run
proof (cases rule: cancel_commit_cases)
  case (2 b' s1 u s2 n)
  have bb: "b' = b" using 2(1) b by simp
  have s1: "s1 = s" using 2(5) st bb by (simp only: if_False simp_thms ret_Inr) (auto simp: ret_Inr)
  have q: "quiet_rel s2 s'" by (rule quiet.staysD[OF quiet_cancel_notices 2(7)])
  have s2: "completedServices s2 = completedServices s" "transactions s2 = transactions s" "refunds s2 = refunds s"
    "bookings s2 = bookings s"
    using 2(6) by (auto simp: s1 close_sources_def set_request_def upd_directRequest_def upd_request_def tx_iff split: option.splits)
  have wf': "work_wf s'" using wf calm.staysD[OF calm_cancel(3) 2(6)] quiet_calm[OF q] unfolding s1 by (blast intro: calm_wf)
  have "find_booking i s' = Some b" using quiet_bookings[OF q, of i] s2 b by (simp add: find_booking_def)
  with wf' s2 quiet_core[OF q] 2(2,3) bb show ?thesis by simp
qed (use b in simp)

text \<open>C11: A cancellation that returns has ended the booking with its money accounted for: the booking is
  \<open>CANCELED\<close>, it was not completed, a payment that was held is refunded and in the ledger, and any other
  booking keeps its payment status with no ledger row or refund added; all queues stay well formed.\<close>

theorem cancellation_ends_booking:
  assumes "performImmediateCancel now i actor pre it ra s = (Inr u, s')" "work_wf s" "find_booking i s = Some b"
  shows "work_wf s' \<and> completed_of i s' = None \<and>
    (\<exists>c. find_booking i s' = Some c \<and> bk_status c = B_CANCELED \<and>
      (if held (bk_paymentStatus b)
       then bk_paymentStatus c = P_REFUNDED \<and>
         (\<exists>t \<in> set (transactions s'). tr_relatedBookingId t = Some i \<and> tr_type t = REFUND)
       else bk_paymentStatus c = bk_paymentStatus b \<and> transactions s' = transactions s \<and> refunds s' = refunds s))"
proof -
  have pc: "t0 = s \<and> x = Some b" if "cancel_precheck i pre s = Inr (x, t0)" for x t0
    using that assms(3) by (auto simp: cancel_precheck_def tx_iff)
  from assms(1) obtain t1 t2 w r where
    mid: "(if held (bk_paymentStatus b) then p_bind (refundBookingPayment now i (case actor of None \<Rightarrow> bk_seekerId b | Some a \<Rightarrow> a) it ra)
        (\<lambda>_. p_ret ()) else p_ret ()) s = (Inr (), t1)"
    and cm: "cancel_commit now i actor pre (held (bk_paymentStatus b)) t1 = Inr ((w, r), t2)"
    and pub: "publish_cancel (bk_seekerId b) w r t2 = Inr ((), s')"
    unfolding performImmediateCancel_def by (auto simp: p_run_simps dest!: pc)
  have q: "quiet_rel t2 s'" by (rule quiet.staysD[OF quiet_publish_cancel pub])
  have same: "find_booking i s' = find_booking i t2" "completed_of i s' = completed_of i t2" "transactions s' = transactions t2"
    "refunds s' = refunds t2"
    using quiet_bookings[OF q, of i] quiet_core[OF q] by simp_all
  have up: "work_wf t2 \<Longrightarrow> work_wf s'" using quiet_calm[OF q] by (blast intro: calm_wf)
  show ?thesis
  proof (cases "held (bk_paymentStatus b)")
    case True
    with mid obtain rr where rf: "refundBookingPayment now i (case actor of None \<Rightarrow> bk_seekerId b | Some a \<Rightarrow> a) it ra s = (Inr rr, t1)"
      by (auto simp: p_run_simps)
    from refund_run_settles[OF rf assms(2,3) True] obtain c where c: "work_wf t1" "completed_of i t1 = None"
      "find_booking i t1 = Some c" "bk_status c = B_CANCELED" "bk_paymentStatus c = P_REFUNDED"
      "\<exists>t \<in> set (transactions t1). tr_relatedBookingId t = Some i \<and> tr_type t = REFUND" by blast
    from cancel_commit_settled[OF cm c(1,3)] c True show ?thesis unfolding same using up by (simp add: completed_of_def)
  next
    case False
    then have t1: "t1 = s" using mid by (simp add: p_run_simps)
    show ?thesis
    proof (cases "bk_status b = B_CANCELED")
      case True
      with cancel_commit_settled[OF cm[unfolded t1] assms(2,3)] False show ?thesis unfolding same using up
        by (simp add: completed_of_def)
    next
      case c: False
      from cancel_commit_effect[OF cm[unfolded t1] assms(2,3) False c] False show ?thesis unfolding same using up
        by (auto simp: completed_of_def)
    qed
  qed
qed

theorem cancellation_ends_booking_witness:
  "\<exists>s' c. performImmediateCancel 9 5 (Some 1) None (Inr sample_intent) (Inr (''ref_1'', ''pending'')) sample_paid_db = (Inr (), s') \<and>
     find_booking 5 s' = Some c \<and> bk_status c = B_CANCELED \<and> bk_paymentStatus c = P_REFUNDED"
proof -
  let ?m = "performImmediateCancel 9 5 (Some 1) None (Inr sample_intent) (Inr (''ref_1'', ''pending''))"
  have "\<not> isl (fst (?m sample_paid_db))" by code_simp
  then obtain s' where run: "?m sample_paid_db = (Inr (), s')"
    by (cases "?m sample_paid_db"; cases "fst (?m sample_paid_db)") auto
  have f: "find_booking 5 sample_paid_db = Some (sample_booking 5 B_ACCEPTED GCash P_PAID_HELD)" by code_simp
  have h: "held (bk_paymentStatus (sample_booking 5 B_ACCEPTED GCash P_PAID_HELD))" by code_simp
  from cancellation_ends_booking[OF run work_wf_sample_paid f] h run show ?thesis by auto
qed

end
