(* ===== verification/SH_OneCase.thy ===== *)
theory SH_OneCase
  imports SH_Cancelled
begin

text \<open>
  At most one active case of a kind per booking. \<open>open_cases\<close> states it for a table of cases and
  carries the three ways in which a transaction can touch the table; it is interpreted on the requests
  for cancellation (and, in SH_Escalation, on the completion escalations). The operations of
  SH_Cancellation keep it.
\<close>

locale open_cases =
  fixes rows :: "db \<Rightarrow> 'r list" and rid :: "'r \<Rightarrow> key" and book :: "'r \<Rightarrow> 'k" and active :: "'r \<Rightarrow> bool"
    and put :: "('r list \<Rightarrow> 'r list) \<Rightarrow> db \<Rightarrow> db"
  assumes rows_put: "rows (put g s) = g (rows s)"
    and next_put: "nextId (put g s) = nextId s"
begin

definition one_open :: "db \<Rightarrow> bool" where
  "one_open s \<longleftrightarrow> distinct (map rid (rows s)) \<and> (\<forall>r \<in> set (rows s). rid r < nextId s) \<and>
     (\<forall>a \<in> set (rows s). \<forall>b \<in> set (rows s). active a \<longrightarrow> active b \<longrightarrow> book a = book b \<longrightarrow> rid a = rid b)"

lemma open_same:
  assumes "rows s' = rows s" "nextId s \<le> nextId s'" "one_open s"
  shows "one_open s'"
proof -
  have "\<forall>r \<in> set (rows s). rid r < nextId s'" using assms(2,3) unfolding one_open_def by (meson less_le_trans)
  then show ?thesis using assms(3) unfolding one_open_def assms(1) by blast
qed

lemma open_rewrite:
  assumes "one_open s" "\<And>r. r \<in> set (rows s) \<Longrightarrow> p r \<Longrightarrow> rid (f r) = rid r \<and> book (f r) = book r \<and> (active (f r) \<longrightarrow> active r)"
  shows "one_open (put (map_rows p f) s)"
proof -
  let ?g = "\<lambda>r. if p r then f r else r"
  have g: "rid (?g r) = rid r" "book (?g r) = book r" "active (?g r) \<longrightarrow> active r" if "r \<in> set (rows s)" for r
    using assms(2)[OF that] by simp_all
  have rows: "rows (put (map_rows p f) s) = map ?g (rows s)" by (simp add: rows_put map_rows_def)
  have "map rid (map ?g (rows s)) = map rid (rows s)" using g(1) by simp
  then have "distinct (map rid (map ?g (rows s)))" using assms(1) by (simp only: one_open_def)
  moreover have "rid x < nextId (put (map_rows p f) s)" if "x \<in> set (map ?g (rows s))" for x
  proof -
    obtain r where "r \<in> set (rows s)" "x = ?g r" using \<open>x \<in> set (map ?g (rows s))\<close> by (auto simp only: set_map)
    then show ?thesis using g(1)[of r] assms(1) by (simp add: one_open_def next_put)
  qed
  moreover have "rid x = rid y" if xy: "x \<in> set (map ?g (rows s))" "y \<in> set (map ?g (rows s))" "active x" "active y" "book x = book y" for x y
  proof -
    obtain a b where "a \<in> set (rows s)" "x = ?g a" "b \<in> set (rows s)" "y = ?g b" using xy(1,2) by (auto simp only: set_map)
    then show ?thesis using g[of a] g[of b] xy(3-5) assms(1) unfolding one_open_def by metis
  qed
  ultimately show ?thesis unfolding one_open_def rows by blast
qed

lemma open_add:
  assumes "one_open s" "rid r < nextId s" "rid r \<notin> rid ` set (rows s)"
    "\<And>x. x \<in> set (rows s) \<Longrightarrow> active x \<Longrightarrow> book x \<noteq> book r"
  shows "one_open (put (\<lambda>rs. rs @ [r]) s)"
proof -
  have one: "rid a = rid b" if "a \<in> set (rows s)" "b \<in> set (rows s)" "active a" "active b" "book a = book b" for a b
    using assms(1) that unfolding one_open_def by blast
  have "rid a = rid b" if ab: "a \<in> set (rows s @ [r])" "b \<in> set (rows s @ [r])" "active a" "active b" "book a = book b" for a b
  proof (cases "a = r \<or> b = r")
    case True
    then show ?thesis using ab assms(4)[of a] assms(4)[of b] by (cases "a = r"; cases "b = r") auto
  next
    case False
    then show ?thesis using ab one[of a b] by simp
  qed
  moreover have "distinct (map rid (rows s @ [r]))" "\<forall>x \<in> set (rows s @ [r]). rid x < nextId s"
    using assms(1-3) unfolding one_open_def by auto
  ultimately show ?thesis unfolding one_open_def rows_put next_put by blast
qed

lemma open_unique:
  assumes "one_open s" "a \<in> set (rows s)" "b \<in> set (rows s)" "active a" "active b" "book a = book b"
  shows "a = b"
proof -
  have "rid a = rid b" using assms unfolding one_open_def by blast
  then show ?thesis using assms(1-3) by (auto simp: one_open_def distinct_map inj_on_def)
qed

end

interpretation cancels: open_cases cancellations cr_id cr_bookingId cancellation_active cancellations_update
  by unfold_locales simp_all

abbreviation cancels_wf :: "db \<Rightarrow> bool" where
  "cancels_wf \<equiv> cancels.one_open"

lemma aside_keeps: "aside.stays m \<Longrightarrow> keeps cancels_wf m"
  by (rule keepsI) (auto dest!: aside.staysD simp: aside_rel_def still_rel_def intro: cancels.open_same)

text \<open>The operations are another table.\<close>

lemma cancels_ops:
  "keeps cancels_wf (beginAdminResolution ct i b a out pen)" "keeps cancels_wf (markAdminResolutionStageInTransaction i st)"
  "keeps cancels_wf (complete_operation i cl r)" "keeps cancels_wf (upd_operations p f)"
proof -
  have add: "cancels_wf (operations_update g s)" if "cancels_wf s" for g s
    using that by (rule cancels.open_same[rotated 2]) simp_all
  have u: "keeps cancels_wf (upd_operations p f)" for p f
    unfolding upd_operations_def by (intro keeps_modify add)
  show "keeps cancels_wf (upd_operations p f)" by (rule u)
  show "keeps cancels_wf (beginAdminResolution ct i b a out pen)"
    unfolding beginAdminResolution_def Let_def
    by (intro tx_pres u keeps_modify add aside_keeps[OF aside_writes(1)])
  show "keeps cancels_wf (markAdminResolutionStageInTransaction i st)"
    unfolding markAdminResolutionStageInTransaction_def by (intro tx_pres u)
  show "keeps cancels_wf (complete_operation i cl r)"
    unfolding complete_operation_def upd_operation_def by (intro tx_pres keeps_modify add)
qed

lemma begin_cancellations:
  assumes "beginAdminResolution ct i b a out pen s = Inr (r, s')"
  shows "cancellations s' = cancellations s"
  using assms
  by (auto simp: beginAdminResolution_def fresh_id_def upd_operations_def tx_iff Let_def split: option.splits if_splits)

lemma find_cancellation_mem: "find_cancellation i s = Some c \<Longrightarrow> c \<in> set (cancellations s) \<and> cr_id c = i"
  by (auto simp: find_cancellation_def dest: find_row_Some)

text \<open>Rewriting a request that is found active, or closing one.\<close>

lemma upd_active_request:
  assumes "upd_cancellation i f s = Inr (u, s')" "cancels_wf s" "find_cancellation i t = Some c"
    "cancellations t = cancellations s" "cancellation_active c"
    "\<And>r. cr_id (f r) = cr_id r \<and> cr_bookingId (f r) = cr_bookingId r"
  shows "cancels_wf s'"
proof -
  have d: "distinct (map cr_id (cancellations s))" using assms(2) by (simp add: cancels.one_open_def)
  have "cancellation_active r" if "r \<in> set (cancellations s)" "cr_id r = i" for r
    using find_row_distinct[OF d that(1)] assms(3-5) that(2) by (simp add: find_cancellation_def)
  then have "cancels_wf (cancellations_update (map_rows (\<lambda>r. cr_id r = i) f) s)"
    using assms(6) by (intro cancels.open_rewrite[OF assms(2)]) auto
  then show ?thesis using assms(1) by (simp add: upd_cancellation_def modify_Inr)
qed

lemma keeps_closing:
  assumes "\<And>r. cr_id (f r) = cr_id r \<and> cr_bookingId (f r) = cr_bookingId r \<and> \<not> cancellation_active (f r)"
  shows "keeps cancels_wf (upd_cancellation i f)"
  unfolding upd_cancellation_def using assms by (intro keeps_modify cancels.open_rewrite) auto

lemma newest_None: "newest t p rows = None \<longleftrightarrow> filter p rows = []"
proof -
  have "sort_key t (filter p rows) = [] \<longleftrightarrow> filter p rows = []" by (metis set_empty set_sort)
  then show ?thesis by (cases "sort_key t (filter p rows)") (simp_all add: newest_def)
qed


lemma newest_Some: "newest t p rows = Some r \<Longrightarrow> r \<in> set rows \<and> p r"
proof -
  assume n: "newest t p rows = Some r"
  then have "sort_key t (filter p rows) \<noteq> []" "r = last (sort_key t (filter p rows))"
    by (auto simp: newest_def split: list.splits)
  then have "r \<in> set (sort_key t (filter p rows))" by (metis last_in_set)
  then show ?thesis by simp
qed

subsection \<open>Asking for a cancellation\<close>

lemma aside_hold: "aside.stays (hold_for_cancel now b)"
  unfolding hold_for_cancel_def by (intro aside_rules)

lemma open_request_effect:
  assumes "open_request now b k why s = Inr (cl, s')"
  shows "\<exists>r. cancellations s' = cancellations s @ [r] \<and> cr_id r = nextId s \<and> cr_bookingId r = bk_id b \<and>
    cr_requestedBy r = k \<and> cr_responderId r = Some (if k = bk_seekerId b then bk_providerId b else bk_seekerId b) \<and>
    cr_status r = (if bk_started b then C_PENDING else C_UNDER_REVIEW) \<and> cancellation_active r \<and>
    cr_resolutionOutcome r = (if bk_started b then None else Some IMMEDIATE_CANCEL_PENDING) \<and>
    cm_request cl = Some r \<and> cm_booking cl = b \<and> cm_immediate cl = (\<not> bk_started b) \<and> nextId s < nextId s'"
proof -
  define r where r: "r = \<lparr>cr_id = nextId s, cr_bookingId = bk_id b, cr_requestedBy = k,
      cr_responderId = Some (if k = bk_seekerId b then bk_providerId b else bk_seekerId b), cr_reason = Some (trim why),
      cr_status = (if \<not> bk_started b then C_UNDER_REVIEW else C_PENDING), cr_responderNote = None, cr_adminNote = None,
      cr_adminId = None, cr_reportId = None,
      cr_resolutionOutcome = (if \<not> bk_started b then Some IMMEDIATE_CANCEL_PENDING else None),
      cr_createdAt = now, cr_resolvedAt = None\<rparr>"
  define s1 where s1: "s1 = cancellations_update (\<lambda>cs. cs @ [r]) (s\<lparr>nextId := Suc (nextId s)\<rparr>)"
  have "tx_seq (recordBookingProgress now (bk_id b) PK_CANCELLATION_REQUESTED
           (bookingActorRole (bk_seekerId b) (bk_providerId b) (Some k)) (EK_Request (nextId s) ''requested''))
       (if \<not> bk_started b then
          tx_seq (hold_for_cancel now b)
          (ret \<lparr>cm_booking = b, cm_request = Some r, cm_immediate = True, cm_alreadyCancelled = False, cm_recorded = None\<rparr>)
        else
          tx_bind (recordLifecycleNotice (parties b) [plain_notice (if k = bk_seekerId b then bk_providerId b else bk_seekerId b)
              ''Cancellation request received''] None) (\<lambda>recd.
          ret \<lparr>cm_booking = b, cm_request = Some r, cm_immediate = \<not> bk_started b, cm_alreadyCancelled = False,
            cm_recorded = Some recd\<rparr>)) s1 = Inr (cl, s')"
    using assms unfolding open_request_def tx_bind_fresh Let_def r[symmetric] tx_seq_modify s1 by (cases "bk_started b") simp_all
  then obtain u s2 where pr: "recordBookingProgress now (bk_id b) PK_CANCELLATION_REQUESTED
           (bookingActorRole (bk_seekerId b) (bk_providerId b) (Some k)) (EK_Request (nextId s) ''requested'') s1 = Inr (u, s2)"
    and rest: "(if \<not> bk_started b then
          tx_seq (hold_for_cancel now b)
          (ret \<lparr>cm_booking = b, cm_request = Some r, cm_immediate = True, cm_alreadyCancelled = False, cm_recorded = None\<rparr>)
        else
          tx_bind (recordLifecycleNotice (parties b) [plain_notice (if k = bk_seekerId b then bk_providerId b else bk_seekerId b)
              ''Cancellation request received''] None) (\<lambda>recd.
          ret \<lparr>cm_booking = b, cm_request = Some r, cm_immediate = \<not> bk_started b, cm_alreadyCancelled = False,
            cm_recorded = Some recd\<rparr>)) s2 = Inr (cl, s')"
    unfolding tx_seq_Inr[of "recordBookingProgress _ _ _ _ _"] by blast
  have "aside_rel s1 s2" by (rule aside.staysD[OF aside_quiet_parts(6) pr])
  moreover have "aside_rel s2 s'"
  proof (cases "bk_started b")
    case True
    with rest show ?thesis by (auto simp: tx_bind_Inr ret_Inr dest: aside.staysD[OF aside_quiet_parts(8)])
  next
    case False
    with rest show ?thesis by (auto simp: tx_seq_Inr ret_Inr dest: aside.staysD[OF aside_hold])
  qed
  ultimately have "cancellations s' = cancellations s @ [r]" "nextId s < nextId s'"
    by (auto simp: aside_rel_def still_rel_def s1)
  moreover have "cm_request cl = Some r \<and> cm_booking cl = b \<and> cm_immediate cl = (\<not> bk_started b)"
    using rest by (auto simp: tx_seq_Inr tx_bind_Inr ret_Inr split: if_splits)
  ultimately show ?thesis by (intro exI[of _ r]) (simp add: r cancellation_active_def)
qed

lemma request_claim_cases:
  assumes "request_claim now i k why s = Inr (cl, s')"
  obtains b a where "find_booking i s = Some b" "k \<in> {bk_seekerId b, bk_providerId b}" "active_cancellation i s = Some a"
      "repeat_request b k a s = Inr (cl, s')"
  | b where "find_booking i s = Some b" "active_cancellation i s = None" "bk_status b = B_CANCELED" "s' = s"
      "cm_alreadyCancelled cl" "cm_request cl = None"
  | b where "find_booking i s = Some b" "k \<in> {bk_seekerId b, bk_providerId b}" "active_cancellation i s = None"
      "bk_status b \<notin> {B_CANCELED, B_COMPLETED, B_DECLINED, B_REMOVED, B_DISPUTED, B_UNDER_REVIEW}"
      "open_request now b k why s = Inr (cl, s')"
proof -
  from assms obtain b where b: "find_booking i s = Some b" "k \<in> {bk_seekerId b, bk_providerId b}"
    and rest: "(case active_cancellation i s of Some a \<Rightarrow> repeat_request b k a
     | None \<Rightarrow>
       if bk_status b = B_CANCELED
       then ret \<lparr>cm_booking = b, cm_request = None, cm_immediate = True, cm_alreadyCancelled = True, cm_recorded = None\<rparr>
       else tx_seq (ensure (bk_status b \<notin> {B_COMPLETED, B_DECLINED, B_REMOVED, B_DISPUTED, B_UNDER_REVIEW})
              (Http 409 ''This booking can no longer be cancelled''))
           (tx_seq (assertNoFinancialResolutionReserved i None)
           (open_request now b k why))) s = Inr (cl, s')"
    unfolding request_claim_def tx_bind_query prod.case tx_bind_Inr[of "expect _ _"] expect_Inr tx_seq_Inr[of "ensure _ _"] ensure_Inr
    by blast
  show thesis
  proof (cases "active_cancellation i s")
    case (Some a)
    with rest b that(1) show thesis by simp
  next
    case None
    show thesis
    proof (cases "bk_status b = B_CANCELED")
      case True
      with rest None b that(2) show thesis by (simp add: ret_Inr)
    next
      case False
      with rest None have "bk_status b \<notin> {B_COMPLETED, B_DECLINED, B_REMOVED, B_DISPUTED, B_UNDER_REVIEW}"
        "open_request now b k why s = Inr (cl, s')"
        by (auto simp: tx_seq_Inr ensure_Inr assertNoFinancialResolutionReserved_def tx_bind_query)
      with b None False that(3) show thesis by simp
    qed
  qed
qed

lemma keeps_request_claim: "keeps cancels_wf (request_claim now i k why)"
proof (rule keepsI)
  fix s cl s' assume wf: "cancels_wf s" and run: "request_claim now i k why s = Inr (cl, s')"
  from run show "cancels_wf s'"
  proof (cases rule: request_claim_cases)
    case (1 b a)
    then show ?thesis using wf by (auto simp: repeat_request_def tx_iff)
  next
    case (3 b)
    have i: "bk_id b = i" using find_booking_mem[OF 3(1)] by simp
    have no: "\<not> cancellation_active c \<or> cr_bookingId c \<noteq> i" if "c \<in> set (cancellations s)" for c
      using 3(3) that by (auto simp: active_cancellation_def newest_None filter_empty_conv)
    from open_request_effect[OF 3(5)] obtain r where r: "cancellations s' = cancellations s @ [r]" "cr_id r = nextId s"
      "cr_bookingId r = i" "nextId s < nextId s'" unfolding i by blast
    let ?t = "s\<lparr>nextId := nextId s'\<rparr>"
    have t: "cancels_wf ?t" using wf r(4) by (intro cancels.open_same[of ?t s]) simp_all
    have add: "cancels_wf (cancellations_update (\<lambda>cs. cs @ [r]) ?t)"
    proof (rule cancels.open_add[OF t])
      have "\<forall>x \<in> set (cancellations s). cr_id x < nextId s" using wf unfolding cancels.one_open_def by blast
      then show "cr_id r \<notin> cr_id ` set (cancellations ?t)" using r(2) by fastforce
      show "cr_bookingId x \<noteq> cr_bookingId r" if "x \<in> set (cancellations ?t)" "cancellation_active x" for x
        using no[of x] that r(3) by simp
    qed (use r in simp)
    show ?thesis by (rule cancels.open_same[OF _ _ add]) (simp_all add: r(1))
  qed (use wf in simp)
qed

subsection \<open>Answering, escalating, deciding\<close>

lemma begin_keeps_found:
  assumes "beginAdminResolution ct i b a out pen s = Inr (r, s')"
  shows "cancellations s' = cancellations s" "cancels_wf s \<Longrightarrow> cancels_wf s'"
  using begin_cancellations[OF assms] keepsD[OF cancels_ops(1) assms] by blast+

lemma cancellation_with_booking_Some:
  "cancellation_with_booking i s = Some (c, b) \<longleftrightarrow> find_cancellation i s = Some c \<and> find_booking (cr_bookingId c) s = Some b"
  by (auto simp: cancellation_with_booking_def split: option.splits)

lemma keeps_decline: "keeps cancels_wf (decline_request now i k note)"
proof (rule keepsI)
  fix s x s' assume wf: "cancels_wf s" and run: "decline_request now i k note s = Inr (x, s')"
  let ?n = "\<lambda>c b. tx_seq (recordBookingProgress now (cr_bookingId c) PK_CANCELLATION_DECLINED
        (bookingActorRole (bk_seekerId b) (bk_providerId b) (Some k)) (EK_Request (cr_id c) ''participant-declined''))
    (tx_seq (notify (cr_requestedBy c) ''Cancellation request declined'')
    (ret (c\<lparr>cr_status := C_DECLINED, cr_responderNote := note, cr_resolvedAt := Some now\<rparr>, b)))"
  have quiet: "aside.stays (?n c b)" for c b by (intro aside_rules)
  from run obtain c b u t where c: "find_cancellation i s = Some c" "cr_status c = C_PENDING"
    and up: "upd_cancellation i (\<lambda>r. r\<lparr>cr_status := C_DECLINED, cr_responderNote := note, cr_resolvedAt := Some now\<rparr>) s = Inr (u, t)"
    and rest: "?n c b t = Inr (x, s')"
    unfolding decline_request_def tx_bind_query tx_bind_Inr[of "expect _ _"] expect_Inr split_paired_Ex prod.case
      cancellation_with_booking_Some tx_seq_Inr[of "ensure _ _"] ensure_Inr tx_seq_Inr[of "upd_cancellation _ _"]
    by blast
  have "cancels_wf t" by (rule upd_active_request[OF up wf c(1)]) (simp_all add: c(2) cancellation_active_def)
  then show "cancels_wf s'" by (rule keepsD[OF aside_keeps[OF quiet] rest])
qed

lemma approve_claim_cases:
  assumes "approve_claim now i k note s = Inr (cl, s')"
  obtains c b op where "cancellation_with_booking i s = Some (c, b)" "may_respond c k"
      "operation_of CT_CANCELLATION (cr_id c) s = Some op" "op_status op = OP_COMPLETED" "s' = s"
      "dc_completed cl = op_result op" "dc_request cl = c" "dc_operation cl = op"
  | c b op where "cancellation_with_booking i s = Some (c, b)" "may_respond c k" "cr_status c \<in> {C_PENDING, C_UNDER_REVIEW}"
      "beginAdminResolution CT_CANCELLATION (cr_id c) (cr_bookingId c) k ''PARTICIPANT_APPROVE'' None s = Inr (op, s')"
      "completedResolutionResult op \<noteq> None" "dc_completed cl = completedResolutionResult op" "dc_request cl = c" "dc_operation cl = op"
  | c b op t where "cancellation_with_booking i s = Some (c, b)" "may_respond c k" "cr_status c \<in> {C_PENDING, C_UNDER_REVIEW}"
      "beginAdminResolution CT_CANCELLATION (cr_id c) (cr_bookingId c) k ''PARTICIPANT_APPROVE'' None s = Inr (op, t)"
      "completedResolutionResult op = None" "dc_completed cl = None" "dc_request cl = c" "dc_operation cl = op"
      "tx_seq (upd_cancellation (cr_id c) (\<lambda>r. r\<lparr>cr_status := C_UNDER_REVIEW,
             cr_responderNote := (case note of None \<Rightarrow> cr_responderNote r | Some n \<Rightarrow> Some n)\<rparr>))
        (recordBookingProgress now (cr_bookingId c) PK_CANCELLATION_APPROVED
            (bookingActorRole (bk_seekerId b) (bk_providerId b) (Some k)) (EK_Request (cr_id c) ''participant-approved'')) t = Inr ((), s')"
proof -
  from assms obtain c b where cb: "cancellation_with_booking i s = Some (c, b)" "may_respond c k"
    and rest: "(if cr_status c \<notin> {C_PENDING, C_UNDER_REVIEW}
     then (case operation_of CT_CANCELLATION (cr_id c) s of
         Some op \<Rightarrow> tx_seq (ensure (op_status op = OP_COMPLETED) (Http 409 ''Cancellation request has already been decided''))
            (ret \<lparr>dc_request = c, dc_booking = b, dc_operation = op, dc_completed = op_result op\<rparr>)
       | None \<Rightarrow> fail (Http 409 ''Cancellation request has already been decided''))
     else tx_bind (beginAdminResolution CT_CANCELLATION (cr_id c) (cr_bookingId c) k ''PARTICIPANT_APPROVE'' None) (\<lambda>op.
       case completedResolutionResult op of
         Some r \<Rightarrow> ret \<lparr>dc_request = c, dc_booking = b, dc_operation = op, dc_completed = Some r\<rparr>
       | None \<Rightarrow>
         tx_seq (upd_cancellation (cr_id c) (\<lambda>r. r\<lparr>cr_status := C_UNDER_REVIEW,
             cr_responderNote := (case note of None \<Rightarrow> cr_responderNote r | Some n \<Rightarrow> Some n)\<rparr>))
        (tx_seq (recordBookingProgress now (cr_bookingId c) PK_CANCELLATION_APPROVED
            (bookingActorRole (bk_seekerId b) (bk_providerId b) (Some k)) (EK_Request (cr_id c) ''participant-approved''))
        (ret \<lparr>dc_request = c, dc_booking = b, dc_operation = op, dc_completed = None\<rparr>)))) s = Inr (cl, s')"
    unfolding approve_claim_def tx_bind_query tx_bind_Inr[of "expect _ _"] expect_Inr split_paired_Ex prod.case
      tx_seq_Inr[of "ensure _ httpParticipant"] ensure_Inr by blast
  show thesis
  proof (cases "cr_status c \<in> {C_PENDING, C_UNDER_REVIEW}")
    case False
    then show thesis using rest that(1)[OF cb] by (auto simp: tx_iff split: option.splits)
  next
    case True
    then have nt: "(cr_status c \<notin> {C_PENDING, C_UNDER_REVIEW}) = False" by simp
    obtain op t where op: "beginAdminResolution CT_CANCELLATION (cr_id c) (cr_bookingId c) k ''PARTICIPANT_APPROVE'' None s = Inr (op, t)"
      and rest2: "(case completedResolutionResult op of
         Some r \<Rightarrow> ret \<lparr>dc_request = c, dc_booking = b, dc_operation = op, dc_completed = Some r\<rparr>
       | None \<Rightarrow>
         tx_seq (upd_cancellation (cr_id c) (\<lambda>r. r\<lparr>cr_status := C_UNDER_REVIEW,
             cr_responderNote := (case note of None \<Rightarrow> cr_responderNote r | Some n \<Rightarrow> Some n)\<rparr>))
        (tx_seq (recordBookingProgress now (cr_bookingId c) PK_CANCELLATION_APPROVED
            (bookingActorRole (bk_seekerId b) (bk_providerId b) (Some k)) (EK_Request (cr_id c) ''participant-approved''))
        (ret \<lparr>dc_request = c, dc_booking = b, dc_operation = op, dc_completed = None\<rparr>))) t = Inr (cl, s')"
      using rest unfolding nt if_False tx_bind_Inr[of "beginAdminResolution _ _ _ _ _ _"] by blast
    show thesis
    proof (cases "completedResolutionResult op")
      case None
      with rest2 show thesis by (intro that(3)[OF cb True op]) (auto simp: tx_iff)
    next
      case (Some r)
      with rest2 have "cl = \<lparr>dc_request = c, dc_booking = b, dc_operation = op, dc_completed = Some r\<rparr>" "s' = t" by (auto simp: ret_Inr)
      with Some op show thesis by (intro that(2)[OF cb True]) simp_all
    qed
  qed
qed

lemma keeps_approve_claim: "keeps cancels_wf (approve_claim now i k note)"
proof (rule keepsI)
  fix s cl s' assume wf: "cancels_wf s" and run: "approve_claim now i k note s = Inr (cl, s')"
  from run show "cancels_wf s'"
  proof (cases rule: approve_claim_cases)
    case (2 c b op)
    then show ?thesis using begin_keeps_found(2) wf by blast
  next
    case (3 c b op t)
    note b = begin_keeps_found[OF 3(4)]
    from 3(9) obtain u w where up: "upd_cancellation (cr_id c) (\<lambda>r. r\<lparr>cr_status := C_UNDER_REVIEW,
             cr_responderNote := (case note of None \<Rightarrow> cr_responderNote r | Some n \<Rightarrow> Some n)\<rparr>) t = Inr (u, w)"
      and pr: "recordBookingProgress now (cr_bookingId c) PK_CANCELLATION_APPROVED
            (bookingActorRole (bk_seekerId b) (bk_providerId b) (Some k)) (EK_Request (cr_id c) ''participant-approved'') w = Inr ((), s')"
      unfolding tx_seq_Inr by blast
    have c: "find_cancellation (cr_id c) s = Some c"
      using 3(1) find_cancellation_mem[of i s c] by (auto simp: cancellation_with_booking_Some)
    have "cancels_wf w"
      by (rule upd_active_request[OF up b(2)[OF wf] c]) (use 3(3) b(1) in \<open>auto simp: cancellation_active_def\<close>)
    then show ?thesis by (rule keepsD[OF aside_keeps[OF aside_quiet_parts(6)] pr])
  qed (use wf in simp)
qed

text \<open>From a condition on the state before to one on the state after. The reading head of a transaction
  runs at one fixed state, so its rules instantiate the precondition with that state.\<close>

definition leads :: "('s \<Rightarrow> bool) \<Rightarrow> ('s \<Rightarrow> bool) \<Rightarrow> ('s, 'a) tx \<Rightarrow> bool" where
  "leads P Q m \<longleftrightarrow> (\<forall>s x s'. P s \<longrightarrow> m s = Inr (x, s') \<longrightarrow> Q s')"

lemma leadsD: "leads P Q m \<Longrightarrow> m s = Inr (x, s') \<Longrightarrow> P s \<Longrightarrow> Q s'"
  by (auto simp: leads_def)

lemma leads_bind: "leads P R m \<Longrightarrow> (\<And>x. leads R Q (f x)) \<Longrightarrow> leads P Q (tx_bind m f)"
  unfolding leads_def tx_bind_Inr by blast

lemma leads_seq: "leads P R m \<Longrightarrow> leads R Q n \<Longrightarrow> leads P Q (tx_seq m n)"
  unfolding leads_def tx_seq_Inr by blast

lemma leads_weaken: "(\<And>s. P s \<Longrightarrow> R s) \<Longrightarrow> leads R Q m \<Longrightarrow> leads P Q m"
  unfolding leads_def by blast

lemma leads_keeps: "keeps Q m \<Longrightarrow> leads Q Q m"
  by (simp add: leads_def keeps_def)

lemma leads_if: "(d \<Longrightarrow> leads P Q m) \<Longrightarrow> (\<not> d \<Longrightarrow> leads P Q n) \<Longrightarrow> leads P Q (if d then m else n)"
  by simp

lemma leads_option:
  "(v = None \<Longrightarrow> leads P Q m) \<Longrightarrow> (\<And>x. v = Some x \<Longrightarrow> leads P Q (f x)) \<Longrightarrow> leads P Q (case v of None \<Rightarrow> m | Some x \<Rightarrow> f x)"
  by (cases v) simp_all

lemma leads_prod: "(\<And>a b. v = (a, b) \<Longrightarrow> leads P Q (f a b)) \<Longrightarrow> leads P Q (case v of (a, b) \<Rightarrow> f a b)"
  by (cases v) simp

lemma leads_start: "(\<And>s. I s \<Longrightarrow> leads ((=) s) I m) \<Longrightarrow> keeps I m"
  unfolding leads_def keeps_def by blast

lemma leads_query: "leads ((=) s) Q (g (f s)) \<Longrightarrow> leads ((=) s) Q (tx_bind (query f) g)"
  by (simp add: leads_def tx_bind_query)

lemma leads_ensure: "(c \<Longrightarrow> leads P Q m) \<Longrightarrow> leads P Q (tx_seq (ensure c e) m)"
  unfolding leads_def tx_seq_Inr ensure_Inr by blast

lemma leads_expect: "(\<And>x. v = Some x \<Longrightarrow> leads P Q (g x)) \<Longrightarrow> leads P Q (tx_bind (expect e v) g)"
  unfolding leads_def tx_bind_Inr expect_Inr by blast

lemma leads_ret: "(\<And>s. P s \<Longrightarrow> Q s) \<Longrightarrow> leads P Q (ret x)"
  and leads_fail: "leads P Q (fail e)"
  by (auto simp: leads_def ret_Inr fail_Inr)

lemmas leads_head = leads_query leads_ensure leads_expect leads_prod leads_if

text \<open>The rest of a transaction that has found the request \<open>i\<close>, and writes it once.\<close>

definition holds :: "key \<Rightarrow> cancellation_row \<Rightarrow> db \<Rightarrow> bool" where
  "holds i c s \<longleftrightarrow> cancels_wf s \<and> find_cancellation i s = Some c"

lemma leads_upd:
  assumes "cancellation_active c" "\<And>r. cr_id (f r) = cr_id r \<and> cr_bookingId (f r) = cr_bookingId r" "keeps cancels_wf n"
  shows "leads (holds i c) cancels_wf (tx_seq (upd_cancellation i f) n)"
proof (rule leads_seq[OF _ leads_keeps[OF assms(3)]], unfold leads_def, intro allI impI)
  fix s u t assume h: "holds i c s" and up: "upd_cancellation i f s = Inr (u, t)"
  from h have "cancels_wf s" "find_cancellation i s = Some c" by (simp_all add: holds_def)
  then show "cancels_wf t" by (rule upd_active_request[OF up _ _ refl assms(1,2)])
qed

lemma holds_aside:
  assumes "aside.stays m"
  shows "leads (holds i c) (holds i c) m"
proof (rule leads_keeps, rule keepsI)
  fix s x s' assume h: "holds i c s" and run: "m s = Inr (x, s')"
  have "cancellations s' = cancellations s" using aside.staysD[OF assms run] by (simp add: aside_rel_def)
  then show "holds i c s'" using h keepsD[OF aside_keeps[OF assms] run] by (simp add: holds_def find_cancellation_def)
qed

lemma holds_begin: "leads (holds i c) (holds i c) (beginAdminResolution ct j b a out pen)"
proof (rule leads_keeps, rule keepsI)
  fix s x s' assume "holds i c s" "beginAdminResolution ct j b a out pen s = Inr (x, s')"
  then show "holds i c s'" using begin_keeps_found[of ct j b a out pen s x s'] unfolding holds_def find_cancellation_def by metis
qed

lemma leads_found:
  assumes "cancellation_with_booking i s = Some (c, b)" "cancels_wf s" "leads (holds (cr_id c) c) cancels_wf m"
  shows "leads ((=) s) cancels_wf m"
  using assms find_cancellation_mem[of i s c]
  by (intro leads_weaken[OF _ assms(3)]) (simp add: holds_def cancellation_with_booking_Some)

lemmas held_tail = leads_upd aside_keeps leads_seq[OF holds_aside] leads_bind[OF holds_aside] leads_bind[OF holds_begin]

lemma keeps_escalate: "keeps cancels_wf (escalate_request now i k)"
  unfolding escalate_request_def Let_def
  apply (rule leads_start, rule leads_query, rule leads_prod, rule leads_expect, rule leads_prod, rule leads_ensure, rule leads_if)
  subgoal by (simp add: leads_ret)
  apply (rule leads_ensure, rule leads_found, blast, blast)
  by (rule held_tail | (intro aside_rules; fail) | simp add: cancellation_active_def)+

lemma keeps_admin_open:
  assumes "cr_status c \<in> {C_ESCALATED, C_UNDER_REVIEW}"
  shows "leads (holds (cr_id c) c) cancels_wf (admin_open now c b op ap note adm)"
  using assms unfolding admin_open_def
  by - (rule held_tail | (intro aside_rules; fail) | (simp add: cancellation_active_def; blast))+

lemma keeps_admin_claim: "keeps cancels_wf (admin_claim now i ap note adm f)"
  unfolding admin_claim_def
  apply (rule leads_start, rule leads_query, rule leads_prod, rule leads_expect, rule leads_prod,
      rule leads_ensure, rule leads_ensure, rule leads_if)
  subgoal by (rule leads_weaken[of _ cancels_wf, OF _ leads_keeps]) (blast, intro tx_pres)
  apply (rule leads_found, blast, blast)
  apply (rule leads_bind[OF holds_begin], rule leads_option)
  subgoal by (rule keeps_admin_open) blast
  subgoal by (rule leads_ret) (simp add: holds_def)
  done

text \<open>A decision that is finished closes its case.\<close>

lemma keeps_finish_operation: "keeps cancels_wf m \<Longrightarrow> keeps cancels_wf (finish_operation i clear m)"
  unfolding finish_operation_def by (intro tx_pres cancels_ops)

lemma aside_close_report: "aside.stays (closeParticipantCancellationReport c t)"
  unfolding closeParticipantCancellationReport_def Let_def by (intro aside_rules)

lemma keeps_settled:
  "keeps cancels_wf (finish_immediate now b i)" "keeps cancels_wf (finish_approval now cl)"
  "keeps cancels_wf (finish_admin_decision now cl ap note adm f)" "keeps cancels_wf (reserveCancellationFinancialOutcome op i)"
proof -
  show "keeps cancels_wf (finish_immediate now b i)"
    unfolding finish_immediate_def by (intro tx_pres keeps_closing) (simp add: cancellation_active_def)
  show "keeps cancels_wf (finish_approval now cl)"
    unfolding finish_approval_def approval_effects_def
    by (intro keeps_finish_operation tx_pres keeps_closing aside_keeps[OF aside_close_report] aside_keeps[OF aside_quiet_parts(7)])
      (simp add: cancellation_active_def)
  show "keeps cancels_wf (finish_admin_decision now cl ap note adm f)"
    unfolding finish_admin_decision_def admin_effects_def
    by (intro keeps_finish_operation tx_pres keeps_closing aside_keeps[OF aside_restore] aside_keeps[OF aside_writes(8)]
        aside_keeps[OF aside_quiet_parts(1)] aside_keeps[OF aside_quiet_parts(4)] aside_keeps[OF aside_quiet_parts(19)])
      (simp add: cancellation_active_def)
  show "keeps cancels_wf (reserveCancellationFinancialOutcome op i)"
    unfolding reserveCancellationFinancialOutcome_def by (intro tx_pres cancels_ops aside_keeps[OF aside_quiet_parts(16)])
qed

subsection \<open>The operations\<close>

lemma p_aside: "aside.stays m \<Longrightarrow> p_keeps cancels_wf (transact m)"
  by (intro p_keeps_transact aside_keeps)

lemma p_one_parts:
  "p_keeps cancels_wf (refundBookingPayment now b who it ra)" "p_keeps cancels_wf (performImmediateCancel now b a pre it ra)"
  "p_keeps cancels_wf (markAdminResolutionStage i st)" "p_keeps cancels_wf (markAdminResolutionFailed i e)"
  "p_keeps cancels_wf (establish_cancellation now cl k it ra)"
proof -
  show refund: "p_keeps cancels_wf (refundBookingPayment now b who it ra)" for b who
    unfolding refundBookingPayment_def gateway_refund_def
    by (auto split: refund_start.splits intro!: p_pres p_aside aside_rules)
  show cancel: "p_keeps cancels_wf (performImmediateCancel now b a pre it ra)" for b a pre
    unfolding performImmediateCancel_def by (intro p_shape refund p_aside aside_rules)
  show mark: "p_keeps cancels_wf (markAdminResolutionStage i st)" for i st
    unfolding markAdminResolutionStage_def by (intro p_keeps_transact cancels_ops)
  show "p_keeps cancels_wf (markAdminResolutionFailed i e)"
    unfolding markAdminResolutionFailed_def by (intro p_keeps_transact cancels_ops)
  show "p_keeps cancels_wf (establish_cancellation now cl k it ra)"
    unfolding establish_cancellation_def by (intro p_shape cancel mark p_keeps_transact keeps_settled)
qed

lemma aside_change: "aside.stays (emitCancellationChange b t)"
  unfolding emitCancellationChange_def by (intro aside_rules)

lemma p_one_request: "p_keeps cancels_wf (requestCancellation now b k why it ra)"
  unfolding requestCancellation_def
  by (intro p_shape p_one_parts p_keeps_transact keeps_request_claim keeps_settled aside_keeps[OF aside_change]
      aside_keeps[OF aside_quiet_parts(10)])

lemma p_one_respond: "p_keeps cancels_wf (respondToCancellationRequest now i k ap note it ra)"
proof -
  have "p_keeps cancels_wf (approve_request now i k nt it ra)" for nt
    unfolding approve_request_def
    by (intro p_shape p_one_parts p_keeps_transact keeps_approve_claim keeps_settled aside_keeps[OF aside_change] tx_pres
        aside_keeps[OF aside_quiet_parts(5)])
  then show ?thesis
    unfolding respondToCancellationRequest_def Let_def
    by (intro p_shape p_keeps_transact keeps_decline aside_keeps[OF aside_change] tx_pres aside_keeps[OF aside_quiet_parts(5)])
qed

lemma p_one_escalate: "p_keeps cancels_wf (escalateCancellationRequest now i k)"
  unfolding escalateCancellationRequest_def
  by (intro p_shape p_keeps_transact keeps_escalate tx_pres aside_keeps[OF aside_quiet_parts(13)] aside_keeps[OF aside_quiet_parts(5)])

lemma p_one_decide: "p_keeps cancels_wf (adminResolveCancellationRequest now i ap note adm f it ra)"
  unfolding adminResolveCancellationRequest_def
  by (intro p_shape p_one_parts p_keeps_transact keeps_admin_claim keeps_settled tx_pres aside_keeps[OF aside_quiet_parts(5)])

lemma p_one_repair: "p_keeps cancels_wf (repairCompletedParticipantCancellationReport i)"
  unfolding repairCompletedParticipantCancellationReport_def repair_report_def
  by (intro p_shape p_keeps_transact tx_pres aside_keeps[OF aside_close_report] aside_keeps[OF aside_quiet_parts(5)])

lemma p_keepsD: "p_keeps I m \<Longrightarrow> I s \<Longrightarrow> I (snd (m s))"
  by (simp add: p_keeps_def)

subsection \<open>What cancelling promises\<close>

text \<open>C12: A booking never has two active cancellation requests, and ids stay unique: asking, answering
  (approving or declining), escalating, the administrator's decision and the repair of a closed case each
  keep it, whatever the payment gateway answers and wherever the operation stops.\<close>

theorem one_active_cancellation:
  assumes "cancels_wf s"
  shows "cancels_wf (snd (requestCancellation now b k why it ra s)) \<and>
    cancels_wf (snd (respondToCancellationRequest now i k ap note it ra s)) \<and>
    cancels_wf (snd (escalateCancellationRequest now i k s)) \<and>
    cancels_wf (snd (adminResolveCancellationRequest now i ap adminNote adm f it ra s)) \<and>
    cancels_wf (snd (repairCompletedParticipantCancellationReport i s))"
  by (intro conjI p_keepsD[OF p_one_request] p_keepsD[OF p_one_respond] p_keepsD[OF p_one_escalate] p_keepsD[OF p_one_decide]
      p_keepsD[OF p_one_repair] assms)

theorem one_active_cancellation_witness:
  "\<exists>c. cancellations (snd (requestCancellation 9 5 1 ''sick'' (Inl (Http 503 ''down'')) (Inl (Http 503 ''down'')) sample_paid_db)) = [c] \<and>
     cancellation_active c \<and> cancels_wf (snd (requestCancellation 9 5 1 ''sick'' (Inl (Http 503 ''down'')) (Inl (Http 503 ''down'')) sample_paid_db))"
proof -
  let ?s = "snd (requestCancellation 9 5 1 ''sick'' (Inl (Http 503 ''down'')) (Inl (Http 503 ''down'')) sample_paid_db)"
  have "length (cancellations ?s) = 1 \<and> cancellation_active (cancellations ?s ! 0)" by code_simp
  then obtain c where c: "cancellations ?s = [c]" "cancellation_active c" by (cases "cancellations ?s") auto
  have "cancellations sample_paid_db = []" by code_simp
  then have "cancels_wf sample_paid_db" by (simp add: cancels.one_open_def)
  from one_active_cancellation[OF this] c show ?thesis by blast
qed

text \<open>The administrator's decision is idempotent: once it is made, the same decision returns the stored
  result and a contrary one (the other outcome or another finding of fault) is refused as a conflict,
  both without a write.\<close>

lemma admin_decision_idempotent:
  assumes "decision_inputs ap note f = Inr ()" "cancellation_with_booking i s = Some (c, b)" "f = NoFault \<or> bk_started b"
    "operation_of CT_CANCELLATION i s = Some op" "op_status op = OP_COMPLETED" "op_result op = Some r"
  shows "adminResolveCancellationRequest now i ap note adm f it ra s =
    (if op_requestedOutcome op = decision_outcome ap \<and> or_none (op_requestedPenalty op) = fault_penalty f
     then (Inr (Some r), s) else (Inl op_conflict, s))"
proof -
  have c: "cr_id c = i" using assms(2) find_cancellation_mem by (auto simp: cancellation_with_booking_Some)
  note op = assms(4-6)
  let ?m = "op_requestedOutcome op = decision_outcome ap \<and> or_none (op_requestedPenalty op) = fault_penalty f"
  let ?cl = "\<lparr>dc_request = c, dc_booking = b, dc_operation = op, dc_completed = Some r\<rparr>"
  have fp: "or_none (Some (fault_penalty f)) = fault_penalty f" by (cases f) (simp_all add: or_none_def fault_penalty_def fault_text_def truthy_def)
  have found: "query (\<lambda>s. (cancellation_with_booking i s, operation_of CT_CANCELLATION i s)) s = Inr ((Some (c, b), Some op), s)"
    by (simp add: query_def assms(2) op)
  have started: "beginAdminResolution CT_CANCELLATION i bk adm (decision_outcome ap) (Some (fault_penalty f)) s = Inr (op, s)" if ?m for bk
    using that op fp by (simp add: beginAdminResolution_def query_def op_closed_def tx_seq_def tx_bind_def ensure_def ret_def)
  have claim: "admin_claim now i ap note adm f s = (if ?m then Inr (?cl, s) else Inl op_conflict)"
  proof (cases ?m)
    case True
    have "(case completedResolutionResult op of Some q \<Rightarrow> ret \<lparr>dc_request = c, dc_booking = b, dc_operation = op, dc_completed = Some q\<rparr>
       | None \<Rightarrow> admin_open now c b op ap note adm) s = Inr (?cl, s)"
      using op by (simp add: completedResolutionResult_def ret_def)
    then show ?thesis
      using True assms(3) op c started[OF True]
      by (simp add: admin_claim_def tx_bind_def found tx_seq_def ensure_def expect_def ret_def)
  next
    case False
    then show ?thesis by (auto simp add: admin_claim_def tx_bind_def found tx_seq_def ensure_def expect_def ret_def fail_def)
  qed
  then show ?thesis
    using assms(1) by (auto simp: adminResolveCancellationRequest_def p_bind_def transact_def lift_sum_def ret_def p_ret_def)
qed

definition sample_decided_db :: db where
  "sample_decided_db = sample_paid_db\<lparr>cancellations := [\<lparr>cr_id = 30, cr_bookingId = 5, cr_requestedBy = 1,
     cr_responderId = Some 2, cr_reason = Some ''sick'', cr_status = C_RESOLVED, cr_responderNote = None,
     cr_adminNote = Some ''fine'', cr_adminId = Some 9, cr_reportId = Some 31, cr_resolutionOutcome = Some CO_DENIED,
     cr_createdAt = 0, cr_resolvedAt = Some 5\<rparr>],
   operations := [\<lparr>op_id = 32, op_caseType = CT_CANCELLATION, op_caseId = 30, op_bookingId = 5, op_requestedByAdminId = 9,
     op_requestedOutcome = ''ADMIN_DENY'', op_requestedPenalty = Some ''none'', op_status = OP_COMPLETED,
     op_stage = CASE_FINALIZED, op_lastError = None, op_result = Some (AdminCancellation False 32 ''none'')\<rparr>]\<rparr>"

lemma sample_decided:
  "ops_wf sample_decided_db" "decision_inputs False ''fine'' NoFault = Inr ()"
  by (simp add: ops_wf_def sample_decided_db_def sample_paid_db_def) code_simp


end
