(* ===== verification/SH_Decision.thy ===== *)
theory SH_Decision
  imports SH_OneCase
begin

text \<open>
  What the decisions of an administrator share (the parts of admin-resolution-operation.service.ts,
  completion-escalation.service.ts, admin-booking-resolution.service.ts and admin-report.service.ts
  under src/src/services that have one form): a first transaction claims the operation of the case, the
  money is moved, a last transaction checks the outcome and closes case and operation together.

  The locale \<open>decision\<close> states what each service provides for this, and carries the two facts the
  properties rest on: no operation is rewritten, and a decision that returns has closed its operation
  with the effects of its own last transaction.
\<close>

subsection \<open>The shared parts\<close>

record case_claim =
  cc_operation :: operation_row
  cc_completed :: "op_result option"

definition no_operation :: error where
  "no_operation = Http 500 ''Resolution operation not found''"

text \<open>\<open>if (!operation) throw\<close> before the rest of the closing transaction.\<close>

definition finish_case :: "error \<Rightarrow> key \<Rightarrow> op_result dbtx \<Rightarrow> op_result option dbtx" where
  "finish_case missing operationId effects =
     tx_bind (query (find_operation operationId)) (\<lambda>operation.
     tx_seq (ensure (operation \<noteq> None) missing)
     (finish_operation operationId True effects))"

lemma ops_finish_case [ops_rules]: "still.stays m \<Longrightarrow> ops.stays (finish_case e i m)"
  unfolding finish_case_def by (intro ops_rules)

lemma finish_case_Inr: "finish_case e i m s = Inr (r, s') \<Longrightarrow> finish_operation i True m s = Inr (r, s')"
  by (auto simp: finish_case_def tx_bind_query tx_seq_Inr ensure_Inr)

subsection \<open>Operations that are still open\<close>

definition undecided :: "case_type \<Rightarrow> key \<Rightarrow> db \<Rightarrow> bool" where
  "undecided ct i s \<longleftrightarrow> (\<forall>op. operation_of ct i s = Some op \<longrightarrow> op_status op \<noteq> OP_COMPLETED)"

definition found_open :: "operation_row \<Rightarrow> db \<Rightarrow> bool" where
  "found_open op s \<longleftrightarrow> find_operation (op_id op) s = Some op \<and> op_status op \<noteq> OP_COMPLETED"

definition uncompleted :: "key \<Rightarrow> db \<Rightarrow> bool" where
  "uncompleted j s \<longleftrightarrow> (\<exists>op. find_operation j s = Some op \<and> op_status op \<noteq> OP_COMPLETED)"

lemma found_uncompleted: "found_open op s \<Longrightarrow> uncompleted (op_id op) s"
  by (simp add: found_open_def uncompleted_def)

text \<open>Partial correctness with a result.\<close>

definition gives :: "('s \<Rightarrow> bool) \<Rightarrow> ('a \<Rightarrow> 's \<Rightarrow> bool) \<Rightarrow> ('s, 'a) tx \<Rightarrow> bool" where
  "gives P Q m \<longleftrightarrow> (\<forall>s x s'. P s \<longrightarrow> m s = Inr (x, s') \<longrightarrow> Q x s')"

lemma givesD: "gives P Q m \<Longrightarrow> m s = Inr (x, s') \<Longrightarrow> P s \<Longrightarrow> Q x s'"
  by (simp add: gives_def)

lemma gives_bind: "gives P R m \<Longrightarrow> (\<And>x. gives (R x) Q (f x)) \<Longrightarrow> gives P Q (tx_bind m f)"
  unfolding gives_def tx_bind_Inr by blast

lemma gives_seq: "gives P (\<lambda>_. R) m \<Longrightarrow> gives R Q n \<Longrightarrow> gives P Q (tx_seq m n)"
  unfolding gives_def tx_seq_Inr by blast

lemma gives_query: "gives ((=) s) Q (g (f s)) \<Longrightarrow> gives ((=) s) Q (tx_bind (query f) g)"
  by (simp add: gives_def tx_bind_query)

lemma gives_start: "(\<And>s. P s \<Longrightarrow> gives ((=) s) Q m) \<Longrightarrow> gives P Q m"
  unfolding gives_def by blast

lemma gives_at: "P s \<Longrightarrow> gives P Q m \<Longrightarrow> gives ((=) s) Q m"
  unfolding gives_def by blast

lemma gives_ensure: "(c \<Longrightarrow> gives P Q m) \<Longrightarrow> gives P Q (tx_seq (ensure c e) m)"
  unfolding gives_def tx_seq_Inr ensure_Inr by blast

lemma gives_expect: "(\<And>x. v = Some x \<Longrightarrow> gives P Q (g x)) \<Longrightarrow> gives P Q (tx_bind (expect e v) g)"
  unfolding gives_def tx_bind_Inr expect_Inr by blast

lemma gives_prod: "(\<And>a b. v = (a, b) \<Longrightarrow> gives P Q (f a b)) \<Longrightarrow> gives P Q (case v of (a, b) \<Rightarrow> f a b)"
  by (cases v) simp

lemma gives_if: "(c \<Longrightarrow> gives P Q m) \<Longrightarrow> (\<not> c \<Longrightarrow> gives P Q n) \<Longrightarrow> gives P Q (if c then m else n)"
  by simp

lemma gives_option:
  "(v = None \<Longrightarrow> gives P Q m) \<Longrightarrow> (\<And>x. v = Some x \<Longrightarrow> gives P Q (f x)) \<Longrightarrow> gives P Q (case v of None \<Rightarrow> m | Some x \<Rightarrow> f x)"
  by (cases v) simp_all

lemma gives_ret: "(\<And>s. P s \<Longrightarrow> Q x s) \<Longrightarrow> gives P Q (ret x)"
  and gives_fail: "gives P Q (fail e)"
  by (auto simp: gives_def ret_Inr fail_Inr)

lemma still_found: "still_rel s s' \<Longrightarrow> find_operation j s' = find_operation j s"
  by (simp add: still_rel_def find_operation_def)

lemma gives_still: "still.stays m \<Longrightarrow> gives (found_open op) (\<lambda>_. found_open op) m"
  unfolding gives_def by (auto dest!: still.staysD simp: found_open_def still_found)

lemma find_operation_id: "find_operation j s = Some op \<Longrightarrow> op_id op = j"
  by (auto simp: find_operation_def dest: find_row_Some)

lemma find_upd_operations:
  assumes "\<And>r. op_id (f r) = op_id r"
  shows "find_operation j (operations_update (map_rows p f) s) = map_option (\<lambda>r. if p r then f r else r) (find_operation j s)"
  unfolding find_operation_def using find_row_map_rows[of op_id f j p "operations s", OF assms] by simp

lemma begin_gives:
  assumes "beginAdminResolution ct i b a out pen s = Inr (op, s')" "ops_wf s" "undecided ct i s"
  shows "found_open op s'"
proof (cases "operation_of ct i s")
  case (Some e)
  have e: "op_status e \<noteq> OP_COMPLETED" using assms(3) Some by (simp add: undecided_def)
  have "e \<in> set (operations s)" using Some by (auto simp: operation_of_def find_Some_iff)
  then have f: "find_operation (op_id e) s = Some e"
    using assms(2) find_row_distinct[of op_id "operations s" e] by (simp add: ops_wf_def find_operation_def)
  show ?thesis
  proof (cases "op_closed e")
    case True
    then show ?thesis using assms(1) Some e f
      by (simp add: beginAdminResolution_def tx_bind_query tx_seq_Inr ensure_Inr ret_Inr found_open_def)
  next
    case False
    define t where "t = operations_update (map_rows (\<lambda>r. op_id r = op_id e \<and> op_running r \<and> op_stage r = op_stage e)
                (\<lambda>r. r\<lparr>op_status := OP_PROCESSING, op_lastError := None\<rparr>)) s"
    have "find_operation (op_id e) t = Some op \<and> s' = t"
      using assms(1) Some False
      by (simp add: beginAdminResolution_def tx_bind_query tx_seq_Inr ensure_Inr upd_operations_def modify_Inr expect_Inr t_def)
    moreover have "find_operation (op_id e) t = Some (if op_running e then e\<lparr>op_status := OP_PROCESSING, op_lastError := None\<rparr> else e)"
      unfolding t_def by (subst find_upd_operations) (simp_all add: f)
    ultimately have "find_operation (op_id e) s' = Some op" "op_id op = op_id e" "op_status op \<noteq> OP_COMPLETED"
      using e by (auto split: if_splits)
    then show ?thesis by (simp add: found_open_def)
  qed
next
  case None
  have no: "find_row op_id (nextId s) (operations s) = None"
    using assms(2) by (auto simp: find_row_None ops_wf_def)
  let ?q = "\<lparr>op_id = nextId s, op_caseType = ct, op_caseId = i, op_bookingId = b, op_requestedByAdminId = a,
      op_requestedOutcome = out, op_requestedPenalty = (if truthy pen then pen else None), op_status = OP_PROCESSING,
      op_stage = CLAIMED, op_lastError = None, op_result = None\<rparr>"
  have "op = ?q \<and> operations s' = operations s @ [?q]"
    using assms(1) None by (simp add: beginAdminResolution_def tx_bind_query tx_bind_fresh Let_def tx_seq_modify ret_Inr)
  then show ?thesis by (simp add: found_open_def find_operation_def find_row_append no) (simp add: find_row_def)
qed

lemma gives_begin:
  "gives (\<lambda>s. ops_wf s \<and> undecided ct i s) found_open (beginAdminResolution ct i b a out pen)"
  unfolding gives_def using begin_gives by blast

lemma mark_cases:
  assumes "markAdminResolutionStageInTransaction i st s = Inr (op, s')"
  obtains "find_operation i s = Some op" "s' = s"
  | c where "find_operation i s = Some c" "find_operation i s' = Some op"
      "s' = operations_update (map_rows (\<lambda>r. op_id r = i \<and> op_stage r = op_stage c \<and> op_running r)
            (\<lambda>r. r\<lparr>op_stage := st, op_status := OP_PROCESSING, op_lastError := None\<rparr>)) s"
proof -
  obtain c where c: "find_operation i s = Some c"
    using assms by (auto simp: markAdminResolutionStageInTransaction_def tx_bind_query tx_bind_Inr[of "expect _ _"] expect_Inr)
  show thesis
  proof (cases "op_closed c \<or> st < op_stage c")
    case True
    then show thesis using assms c that(1)
      by (simp add: markAdminResolutionStageInTransaction_def tx_bind_query tx_bind_Inr expect_Inr ret_Inr)
  next
    case False
    then show thesis using assms c
      by (intro that(2)[OF c]) (simp_all add: markAdminResolutionStageInTransaction_def tx_bind_query tx_bind_Inr[of "expect _ _"] expect_Inr
        upd_operations_def tx_seq_modify)
  qed
qed

lemma mark_gives:
  assumes "markAdminResolutionStageInTransaction i st s = Inr (op, s')" "uncompleted i s"
  shows "found_open op s' \<and> op_id op = i"
  using assms(1)
proof (cases rule: mark_cases)
  case 1
  then show ?thesis using assms(2) find_operation_id[of i s op] by (auto simp: uncompleted_def found_open_def)
next
  case (2 c)
  have "find_operation i s' = Some (if op_id c = i \<and> op_running c then c\<lparr>op_stage := st, op_status := OP_PROCESSING, op_lastError := None\<rparr> else c)"
    unfolding 2(3) by (subst find_upd_operations) (simp_all add: 2(1))
  then show ?thesis using 2 assms(2) find_operation_id[of i s c] by (auto simp: uncompleted_def found_open_def split: if_splits)
qed

lemma gives_mark: "gives (found_open op) found_open (markAdminResolutionStageInTransaction (op_id op) st)"
  unfolding gives_def using mark_gives found_uncompleted by blast

lemma gives_reconcile: "gives (found_open op) found_open (reconcileReservedFinancialEffect op out)"
  unfolding reconcileReservedFinancialEffect_def
proof (rule gives_if)
  show "gives (found_open op) found_open (ret op)" by (rule gives_ret)
  show "gives (found_open op) found_open (tx_bind (query (\<lambda>s. (find_booking (op_bookingId op) s, completed_of (op_bookingId op) s, refund_of (op_bookingId op) s)))
       (\<lambda>(found, completed, refund).
        tx_bind (expect op_conflict found) (\<lambda>b.
        if (out = ''release_provider_and_complete'' \<and> booking_released b completed) \<or>
           (out \<noteq> ''release_provider_and_complete'' \<and> booking_cancelled b refund)
        then markAdminResolutionStageInTransaction (op_id op) FINANCIAL_EFFECT_ESTABLISHED
        else ret op)))"
    by (rule gives_start, rule gives_query, rule gives_prod, rule gives_prod, rule gives_expect, rule gives_at, assumption, rule gives_if)
      (rule gives_mark, rule gives_ret)
qed

lemma keeps_uncompleted_still: "still.stays m \<Longrightarrow> keeps (uncompleted j) m"
  by (rule keepsI) (auto dest!: still.staysD simp: uncompleted_def still_found)

lemma keeps_uncompleted_mark: "keeps (uncompleted j) (markAdminResolutionStageInTransaction i st)"
proof (rule keepsI)
  fix s op s' assume u: "uncompleted j s" and run: "markAdminResolutionStageInTransaction i st s = Inr (op, s')"
  show "uncompleted j s'"
  proof (cases "j = i")
    case True
    then show ?thesis using mark_gives[OF run] u found_uncompleted by blast
  next
    case False
    from run show ?thesis
    proof (cases rule: mark_cases)
      case (2 c)
      have "find_operation j s' = map_option (\<lambda>r. if op_id r = i \<and> op_stage r = op_stage c \<and> op_running r
            then r\<lparr>op_stage := st, op_status := OP_PROCESSING, op_lastError := None\<rparr> else r) (find_operation j s)"
        unfolding 2(3) by (rule find_upd_operations) simp
      then show ?thesis using u False by (auto simp: uncompleted_def dest: find_operation_id)
    qed (use u in simp)
  qed
qed

lemma p_uncompleted_still: "still.stays m \<Longrightarrow> p_keeps (uncompleted j) (transact m)"
  by (intro p_keeps_transact keeps_uncompleted_still)

lemma p_uncompleted_mark: "p_keeps (uncompleted j) (markAdminResolutionStage i st)"
  unfolding markAdminResolutionStage_def by (intro p_keeps_transact keeps_uncompleted_mark)

lemma p_uncompleted_refund: "p_keeps (uncompleted j) (refundBookingPayment now b who ia ra)"
  unfolding refundBookingPayment_def gateway_refund_def
  by (auto split: refund_start.splits intro!: p_pres p_uncompleted_still still_rules)

lemma p_uncompleted_cancel: "p_keeps (uncompleted j) (performImmediateCancel now b a pre ia ra)"
  unfolding performImmediateCancel_def by (intro p_shape p_uncompleted_refund p_uncompleted_still still_rules)

subsection \<open>The interface\<close>

text \<open>All tables but the operations, as far as a decision reads them when it is over.\<close>

definition cases_of where
  "cases_of s = (bookings s, queues s, completedServices s, transactions s, refunds s, cancellations s, escalations s, reports s)"

locale decision =
  fixes kind :: case_type and caseId :: key
    and claim :: "'c dbtx" and operation :: "'c \<Rightarrow> operation_row" and answered :: "'c \<Rightarrow> op_result option"
    and establish :: "'c \<Rightarrow> (db, unit) process" and finish :: "'c \<Rightarrow> op_result option dbtx"
    and effects :: "'c \<Rightarrow> op_result dbtx" and publish :: "'c \<Rightarrow> op_result option \<Rightarrow> unit dbtx"
  assumes claim_ops: "ops.stays claim"
    and claim_new: "gives (\<lambda>s. ops_wf s \<and> undecided kind caseId s) (\<lambda>c t. answered c = None \<and> found_open (operation c) t) claim"
    and establish_ops: "p_keeps (ops_rel s0) (establish c)"
    and establish_open: "p_keeps (uncompleted j) (establish c)"
    and effects_still: "still.stays (effects c)"
    and finish_runs: "finish c s = Inr (r, s') \<Longrightarrow> finish_operation (op_id (operation c)) True (effects c) s = Inr (r, s')"
    and publish_quiet: "quiet.stays (publish c r)"
begin

definition decide :: "(db, op_result option) process" where
  "decide = p_bind (transact claim) (\<lambda>c.
     if answered c \<noteq> None then p_ret (answered c)
     else p_rethrow
       (p_seq (establish c)
       (p_bind (transact (finish c)) (\<lambda>r. p_seq (transact (publish c r)) (p_ret r))))
       (\<lambda>cause. markAdminResolutionFailed (op_id (operation c)) cause))"

lemma finish_ops: "ops.stays (finish c)"
proof (rule ops.staysI)
  fix s r s' assume "finish c s = Inr (r, s')"
  then show "ops_rel s s'" by (rule ops.staysD[OF ops_finish[OF effects_still] finish_runs])
qed

lemma decide_keeps_ops: "p_keeps (ops_rel s0) decide"
  unfolding decide_def
  by (intro p_shape p_ops claim_ops establish_ops finish_ops ops_quiet[OF publish_quiet] p_ops_marks)

lemma decide_closes:
  assumes "decide s = (Inr r, s')" "ops_wf s" "undecided kind caseId s"
  shows "\<exists>c t t1 x t2 op. claim s = Inr (c, t) \<and> establish c t = (Inr (), t1) \<and> effects c t1 = Inr (x, t2) \<and> r = Some x \<and>
    cases_of s' = cases_of t2 \<and> find_operation (op_id (operation c)) s' = Some op \<and> op_status op = OP_COMPLETED \<and> op_result op = r"
proof -
  from assms(1) obtain c t where cl: "claim s = Inr (c, t)" and
    rest: "(if answered c \<noteq> None then p_ret (answered c)
     else p_rethrow
       (p_seq (establish c)
       (p_bind (transact (finish c)) (\<lambda>r. p_seq (transact (publish c r)) (p_ret r))))
       (\<lambda>cause. markAdminResolutionFailed (op_id (operation c)) cause)) t = (Inr r, s')"
    unfolding decide_def by (auto simp: p_run_simps)
  have new: "answered c = None" "found_open (operation c) t"
    using givesD[OF claim_new cl] assms(2,3) by simp_all
  let ?m = "p_seq (establish c) (p_bind (transact (finish c)) (\<lambda>r. p_seq (transact (publish c r)) (p_ret r)))"
  have "?m t = (Inr r, s')"
    using rest new(1) by (simp add: p_rethrow_def split: prod.splits sum.splits)
  then obtain t1 u t3 where est: "establish c t = (Inr (), t1)" and fin: "finish c t1 = Inr (r, t3)"
    and pub: "publish c r t3 = Inr (u, s')"
    by (auto simp: p_run_simps)
  let ?i = "op_id (operation c)"
  have "uncompleted ?i t1" using establish_open[of ?i c] found_uncompleted[OF new(2)] est by (metis p_keeps_def snd_conv)
  then obtain o1 where o1: "find_operation ?i t1 = Some o1" "op_status o1 \<noteq> OP_COMPLETED" by (auto simp: uncompleted_def)
  from finish_runs[OF fin] o1 obtain x t2 v where eff: "effects c t1 = Inr (x, t2)" and
    co: "complete_operation ?i True x t2 = Inr (v, t3)" and r: "r = Some x"
    by (auto simp: finish_operation_def tx_bind_query tx_bind_Inr tx_seq_Inr ret_Inr)
  have o2: "find_operation ?i t2 = Some o1" using still_found[OF still.staysD[OF effects_still eff]] o1(1) by simp
  let ?f = "\<lambda>q. q\<lparr>op_status := OP_COMPLETED, op_stage := CASE_FINALIZED, op_result := Some x, op_lastError := None\<rparr>"
  have t3: "t3 = operations_update (map_rows (\<lambda>q. op_id q = ?i) ?f) t2"
    using co by (simp add: complete_operation_def tx_bind_query tx_seq_Inr ensure_Inr upd_operation_def modify_Inr)
  have "find_operation ?i t3 = Some (?f o1)"
    unfolding t3 by (subst find_upd_operations) (simp_all add: o2 find_operation_id[OF o2])
  moreover have q: "quiet_rel t3 s'" by (rule quiet.staysD[OF publish_quiet pub])
  ultimately have "find_operation ?i s' = Some (?f o1)" using quiet_core[OF q] by (simp add: find_operation_def)
  moreover have "cases_of s' = cases_of t2" using quiet_core[OF q] by (simp add: cases_of_def t3)
  ultimately show ?thesis using cl est eff r
    by (intro exI[of _ c] exI[of _ t] exI[of _ t1] exI[of _ x] exI[of _ t2] exI[of _ "?f o1"]) simp
qed

end


lemmas gives_head = gives_query gives_ensure gives_expect gives_prod gives_if gives_option gives_fail
lemmas gives_tail = gives_seq[OF gives_still] gives_bind[OF gives_still]

subsection \<open>The decision on a cancellation\<close>

lemma open_gives:
  "gives (found_open op) (\<lambda>c t. dc_completed c = None \<and> found_open (dc_operation c) t) (admin_open now c b op ap note adm)"
  unfolding admin_open_def
  by (rule gives_tail, intro still_rules)+ (rule gives_ret, simp)

lemma admin_claim_new:
  "gives (\<lambda>s. ops_wf s \<and> undecided CT_CANCELLATION i s)
     (\<lambda>c t. dc_completed c = None \<and> found_open (dc_operation c) t) (admin_claim now i ap note adm f)"
proof (rule gives_start)
  fix s assume s: "ops_wf s \<and> undecided CT_CANCELLATION i s"
  show "gives ((=) s) (\<lambda>c t. dc_completed c = None \<and> found_open (dc_operation c) t) (admin_claim now i ap note adm f)"
    unfolding admin_claim_def
  proof (rule gives_query, rule gives_prod, rule gives_expect, rule gives_prod, rule gives_ensure, rule gives_ensure, rule gives_if)
    fix found existing x c b
    assume v: "(cancellation_with_booking i s, operation_of CT_CANCELLATION i s) = (found, existing)" "found = Some x" "x = (c, b)"
    have c: "cr_id c = i" using v find_cancellation_mem[of i s c] by (auto simp: cancellation_with_booking_Some)
    show "gives ((=) s) (\<lambda>c t. dc_completed c = None \<and> found_open (dc_operation c) t)
       (case existing of None \<Rightarrow> fail (Http 409 ''Only an escalated cancellation request can be resolved by Admin'')
        | Some op \<Rightarrow> tx_seq (ensure (op_status op = OP_COMPLETED) (Http 409 ''Only an escalated cancellation request can be resolved by Admin''))
            (ret \<lparr>dc_request = c, dc_booking = b, dc_operation = op, dc_completed = op_result op\<rparr>))"
      by (intro gives_head) (use s v in \<open>simp add: undecided_def\<close>)
    show "gives ((=) s) (\<lambda>c t. dc_completed c = None \<and> found_open (dc_operation c) t)
       (tx_bind (beginAdminResolution CT_CANCELLATION (cr_id c) (cr_bookingId c) adm (decision_outcome ap) (Some (fault_penalty f))) (\<lambda>op.
          case completedResolutionResult op of
            Some r \<Rightarrow> ret \<lparr>dc_request = c, dc_booking = b, dc_operation = op, dc_completed = Some r\<rparr>
          | None \<Rightarrow> admin_open now c b op ap note adm))"
      unfolding c
      by (rule gives_at[of "\<lambda>s. ops_wf s \<and> undecided CT_CANCELLATION i s", OF s], rule gives_bind[OF gives_begin], rule gives_option, rule open_gives)
        (auto simp: gives_def found_open_def completedResolutionResult_def)
  qed
qed

definition establish_decision ::
  "time \<Rightarrow> bool \<Rightarrow> key \<Rightarrow> error + intent \<Rightarrow> refund_answer \<Rightarrow> decision_claim \<Rightarrow> (db, unit) process" where
  "establish_decision now ap adm it ra c = (if ap \<and> \<not> hasEstablishedFinancialEffect (dc_operation c)
     then establish_cancellation now c adm it ra
     else p_bind (markAdminResolutionStage (op_id (dc_operation c)) DECISION_READY) (\<lambda>_. p_ret ()))"

lemma p_ops_establish: "p_keeps (ops_rel s0) (establish_cancellation now cl k ia ra)"
  unfolding establish_cancellation_def by (intro p_shape p_ops_cancel p_ops_marks p_ops ops_rules)

lemma keeps_uncompleted_reserve: "keeps (uncompleted j) (reserveCancellationFinancialOutcome op i)"
  unfolding reserveCancellationFinancialOutcome_def
  by (intro tx_pres keeps_uncompleted_mark keeps_uncompleted_still still_rules)

lemma p_uncompleted_establish: "p_keeps (uncompleted j) (establish_cancellation now cl k ia ra)"
  unfolding establish_cancellation_def
  by (intro p_shape p_uncompleted_cancel p_uncompleted_mark p_keeps_transact keeps_uncompleted_reserve)

interpretation cancel_decision: decision CT_CANCELLATION i "admin_claim now i ap nt adm f" dc_operation dc_completed
  "establish_decision now ap adm it ra" "\<lambda>c. finish_admin_decision now c ap nt adm f" "\<lambda>c. admin_effects now c ap nt adm f"
  "\<lambda>c _. for_each (\<lambda>u. emit (RUser u) ''ENGAGEMENT_CHANGED'' ''cancellation_admin_resolved'') [bk_seekerId (dc_booking c), bk_providerId (dc_booking c)]"
  for now i ap nt adm f it ra
proof unfold_locales
  show "ops.stays (admin_claim now i ap nt adm f)" by (intro ops_rules)
  show "gives (\<lambda>s. ops_wf s \<and> undecided CT_CANCELLATION i s) (\<lambda>c t. dc_completed c = None \<and> found_open (dc_operation c) t)
     (admin_claim now i ap nt adm f)" by (rule admin_claim_new)
  show "p_keeps (ops_rel s0) (establish_decision now ap adm it ra c)" for s0 c
    unfolding establish_decision_def by (intro p_shape p_ops_establish p_ops_marks)
  show "p_keeps (uncompleted j) (establish_decision now ap adm it ra c)" for j c
    unfolding establish_decision_def by (intro p_shape p_uncompleted_establish p_uncompleted_mark)
  show "still.stays (admin_effects now c ap nt adm f)" for c by (intro still_rules)
  show "finish_admin_decision now c ap nt adm f s = Inr (r, s') \<Longrightarrow>
      finish_operation (op_id (dc_operation c)) True (admin_effects now c ap nt adm f) s = Inr (r, s')" for c s r s'
    by (simp add: finish_admin_decision_def)
  show "quiet.stays (for_each (\<lambda>u. emit (RUser u) ''ENGAGEMENT_CHANGED'' ''cancellation_admin_resolved'')
      [bk_seekerId (dc_booking c), bk_providerId (dc_booking c)])" for c by (intro quiet_rules)
qed

lemma p_lift_first: "p_bind (transact (lift_sum v)) f s = (Inr r, s') \<longleftrightarrow> (\<exists>x. v = Inr x \<and> f x s = (Inr r, s'))"
  by (cases v) (simp_all add: p_bind_def transact_def lift_sum_def ret_def fail_def)

lemma adminResolve_decides:
  "adminResolveCancellationRequest now i ap note adm f it ra s = (Inr r, s') \<longleftrightarrow>
     decision_inputs ap note f = Inr () \<and> cancel_decision.decide now i ap note adm f it ra s = (Inr r, s')"
  unfolding adminResolveCancellationRequest_def cancel_decision.decide_def establish_decision_def p_lift_first
  by (simp del: not_None_eq)

end
