(* ===== verification/SH_Escalation.thy ===== *)
theory SH_Escalation
  imports SH_Decision
begin

text \<open>
  The review of a completion that the seeker does not confirm
  (src/src/services/completion-escalation.service.ts): the provider asks for it when the waiting time is
  over, and an administrator releases the payment, refunds it, or lets the booking wait on.

  As with a cancellation, the decision is an operation of SH_Resolution, and the booking is held
  \<open>UNDER_REVIEW\<close> while the money moves. The answers of the gateway are the arguments \<open>intent\<close> and \<open>answer\<close>.
\<close>

subsection \<open>Asking for a review\<close>

definition RETRY_COOLDOWN_MS :: int where
  "RETRY_COOLDOWN_MS = COMPLETION_REVIEW_WAIT_MS"

definition newest_escalation :: "key \<Rightarrow> db \<Rightarrow> escalation_row option" where
  "newest_escalation bookingId s = newest es_createdAt (\<lambda>e. es_bookingId e = bookingId) (escalations s)"

definition cooling_down :: "time \<Rightarrow> escalation_row option \<Rightarrow> bool" where
  "cooling_down now previous = (case previous of None \<Rightarrow> False
     | Some p \<Rightarrow> es_resolution p = Some KEEP_AWAITING \<and>
         (case es_resolvedAt p of None \<Rightarrow> False | Some t \<Rightarrow> now < t + RETRY_COOLDOWN_MS))"

text \<open>\<open>eo_notice\<close> is there when the escalation is new.\<close>

record escalation_opened =
  eo_escalation :: escalation_row
  eo_admins :: "key list"
  eo_notice :: "(booking_row \<times> recorded) option"

definition open_escalation :: "time \<Rightarrow> booking_row \<Rightarrow> key \<Rightarrow> string \<Rightarrow> escalation_opened dbtx" where
  "open_escalation now b providerId reason =
     tx_bind fresh_id (\<lambda>i.
     let e = \<lparr>es_id = i, es_bookingId = bk_id b, es_requestedBy = providerId, es_reason = trim reason,
           es_status = E_PENDING, es_adminId = None, es_resolution = None, es_createdAt = now, es_resolvedAt = None\<rparr>
     in tx_seq (modify (escalations_update (\<lambda>es. es @ [e])))
       (tx_bind (recordAdminNotifications ''Completion escalation requires review'') (\<lambda>admins.
        tx_bind (recordLifecycleNotice (parties b) [plain_notice (bk_seekerId b) ''Completion review requested''] None) (\<lambda>recd.
        ret \<lparr>eo_escalation = e, eo_admins = admins, eo_notice = Some (b, recd)\<rparr>))))"

definition create_escalation :: "time \<Rightarrow> key \<Rightarrow> key \<Rightarrow> string \<Rightarrow> escalation_opened dbtx" where
  "create_escalation now bookingId providerId reason =
     tx_bind (query (\<lambda>s. (find_booking bookingId s, newest_escalation bookingId s,
        filter (\<lambda>e. pe_bookingId e = bookingId) (progressEvents s)))) (\<lambda>(found, previous, progress).
     tx_bind (expect (Http 404 ''Booking not found or access denied'') found) (\<lambda>b.
     tx_seq (ensure (bk_providerId b = providerId) (Http 404 ''Booking not found or access denied''))
    (tx_seq (ensure (bk_paymentMethod b = GCash) (Http 409 ''CASH_COMPLETION_REVIEW_NOT_AVAILABLE''))
    (tx_seq (assertNoFinancialResolutionReserved bookingId None)
    (tx_seq (ensure (bk_status b = B_AWAITING_CONFIRMATION) (Http 409 ''Only a booking awaiting seeker confirmation can be escalated''))
    (if previous \<noteq> None \<and> escalation_active (the previous)
     then ret \<lparr>eo_escalation = the previous, eo_admins = [], eo_notice = None\<rparr>
     else tx_seq (ensure (\<not> cooling_down now previous) (Http 409 ''ESCALATION_COOLDOWN''))
         (tx_bind (expect (Uncoded ''TypeError'') (completionReviewAvailability b progress previous)) (\<lambda>availability.
          tx_seq (ensure (rv_availableAt availability \<le> now) (Http 409 ''ESCALATION_WAIT_PERIOD''))
          (open_escalation now b providerId reason)))))))))"

definition createCompletionEscalation :: "time \<Rightarrow> key \<Rightarrow> key \<Rightarrow> string \<Rightarrow> (db, escalation_row) process" where
  "createCompletionEscalation now bookingId providerId reason =
     p_bind (transact (create_escalation now bookingId providerId reason)) (\<lambda>r.
     p_seq (case eo_notice r of None \<Rightarrow> p_ret ()
        | Some (b, recd) \<Rightarrow> transact (tx_seq (publishLifecycleChange (parties b) ''completion_escalated'' recd False)
            (tx_seq (for_each (\<lambda>a. emit (RUser a) ''notification'' ''Completion escalation requires review'') (eo_admins r))
            (emit RAdmin ''ADMIN_MODERATION_CHANGED'' ''completion_escalation''))))
    (p_ret (eo_escalation r)))"

text \<open>The open escalations, oldest first, with their operations, the total and the number of pages.\<close>

definition listCompletionEscalations ::
  "nat \<Rightarrow> nat \<Rightarrow> db \<Rightarrow> (escalation_row \<times> operation_row option) list \<times> nat \<times> nat" where
  "listCompletionEscalations page limit s =
     (let live = filter escalation_active (escalations s);
          items = take limit (drop ((page - 1) * limit) (sort_key es_createdAt live))
      in (map (\<lambda>e. (e, operation_of CT_COMPLETION_ESCALATION (es_id e) s)) items, length live,
          (length live + limit - 1) div limit))"

subsection \<open>The decision\<close>

datatype escalation_action = ReleaseProvider | RefundSeeker | KeepAwaiting

definition action_text :: "escalation_action \<Rightarrow> string" where
  "action_text a = (case a of ReleaseProvider \<Rightarrow> ''release_provider_and_complete'' | RefundSeeker \<Rightarrow> ''refund_seeker''
     | KeepAwaiting \<Rightarrow> ''keep_awaiting'')"

definition resolutionCode :: "escalation_action \<Rightarrow> escalation_code" where
  "resolutionCode a = (case a of ReleaseProvider \<Rightarrow> RELEASE_PROVIDER_AND_COMPLETE | RefundSeeker \<Rightarrow> REFUND_SEEKER
     | KeepAwaiting \<Rightarrow> KEEP_AWAITING)"

definition code_text :: "escalation_action \<Rightarrow> string" where
  "code_text a = (case a of ReleaseProvider \<Rightarrow> ''RELEASE_PROVIDER_AND_COMPLETE'' | RefundSeeker \<Rightarrow> ''REFUND_SEEKER''
     | KeepAwaiting \<Rightarrow> ''KEEP_AWAITING'')"

definition stale_escalation :: error where
  "stale_escalation = Http 409 ''STALE_ESCALATION''"

definition escalation_with_booking :: "key \<Rightarrow> db \<Rightarrow> (escalation_row \<times> booking_row) option" where
  "escalation_with_booking i s = (case find_escalation i s of None \<Rightarrow> None
     | Some e \<Rightarrow> map_option (\<lambda>b. (e, b)) (find_booking (es_bookingId e) s))"

text \<open>The booking is held for this decision.\<close>

definition held_for_review :: "booking_row \<Rightarrow> bool" where
  "held_for_review b \<longleftrightarrow> bk_status b = B_UNDER_REVIEW \<and> bk_statusBeforeDispute b = Some B_AWAITING_CONFIRMATION"

definition claim_escalation :: "key \<Rightarrow> key \<Rightarrow> escalation_action \<Rightarrow> case_claim dbtx" where
  "claim_escalation escalationId adminId action =
     tx_bind (query (\<lambda>s. (escalation_with_booking escalationId s, operation_of CT_COMPLETION_ESCALATION escalationId s)))
       (\<lambda>(found, existing).
     tx_bind (expect (Http 404 ''Completion escalation not found'') found) (\<lambda>(e, b).
     if \<not> escalation_active e
     then (case existing of None \<Rightarrow> fail stale_escalation
       | Some op \<Rightarrow> tx_seq (ensure (op_status op = OP_COMPLETED) stale_escalation)
           (ret \<lparr>cc_operation = op, cc_completed = op_result op\<rparr>))
     else tx_bind (beginAdminResolution CT_COMPLETION_ESCALATION (es_id e) (es_bookingId e) adminId (action_text action) None) (\<lambda>begun.
       tx_bind (if action \<noteq> KeepAwaiting then reconcileReservedFinancialEffect begun (action_text action) else ret begun) (\<lambda>op.
       case completedResolutionResult op of Some r \<Rightarrow> ret \<lparr>cc_operation = op, cc_completed = Some r\<rparr>
       | None \<Rightarrow>
         tx_seq (ensure (hasEstablishedFinancialEffect op \<or> bk_status b = B_AWAITING_CONFIRMATION \<or>
             (held_for_review b \<and> op_stage op = FINANCIAL_EFFECT_RESERVED)) stale_escalation)
        (tx_seq (upd_escalations (\<lambda>x. es_id x = es_id e) (\<lambda>x. x\<lparr>es_status := E_UNDER_REVIEW, es_adminId := Some adminId,
            es_resolution := Some (resolutionCode action)\<rparr>))
        (ret \<lparr>cc_operation = op, cc_completed = None\<rparr>))))))"

definition reserveCompletionFinancialOutcome :: "time \<Rightarrow> key \<Rightarrow> key \<Rightarrow> operation_row dbtx" where
  "reserveCompletionFinancialOutcome now operationId escalationId =
     tx_bind (query (\<lambda>s. (escalation_with_booking escalationId s, find_operation operationId s))) (\<lambda>(found, operation).
     tx_bind (expect (Http 404 ''Completion escalation not found'') found) (\<lambda>(e, b).
     tx_bind (expect stale_escalation (if es_status e = E_UNDER_REVIEW then operation else None)) (\<lambda>op.
     tx_seq (ensure (op_status op \<noteq> OP_COMPLETED) stale_escalation)
    (if hasEstablishedFinancialEffect op then ret op
     else tx_seq (assertNoOtherBlockingCases (es_bookingId e) \<lparr>ex_report = None, ex_cancellation = None, ex_escalation = Some (es_id e)\<rparr>)
         (tx_seq (ensure (held_for_review b \<or> bk_status b = B_AWAITING_CONFIRMATION) stale_escalation)
         (tx_seq (when_tx (\<not> held_for_review b) (upd_booking now (es_bookingId e) (\<lambda>r. r\<lparr>bk_status := B_UNDER_REVIEW,
             bk_statusBeforeDispute := Some B_AWAITING_CONFIRMATION\<rparr>)))
         (markAdminResolutionStageInTransaction operationId FINANCIAL_EFFECT_RESERVED)))))))"

text \<open>What each action must have reached.\<close>

definition action_reached :: "escalation_action \<Rightarrow> booking_row \<Rightarrow> bool" where
  "action_reached a b \<longleftrightarrow> (case a of
       ReleaseProvider \<Rightarrow> bk_status b = B_COMPLETED \<and> bk_paymentStatus b \<in> {P_RELEASED, P_CASH_CONFIRMED}
     | RefundSeeker \<Rightarrow> cancellation_settled b
     | KeepAwaiting \<Rightarrow> bk_status b = B_AWAITING_CONFIRMATION)"

definition unreached :: "escalation_action \<Rightarrow> error" where
  "unreached a = (case a of ReleaseProvider \<Rightarrow> Http 409 ''Completion settlement has not reached its valid final state''
     | RefundSeeker \<Rightarrow> Http 409 ''Cancellation/refund has not reached its valid final state'' | KeepAwaiting \<Rightarrow> stale_escalation)"

definition escalation_effects :: "time \<Rightarrow> key \<Rightarrow> key \<Rightarrow> key \<Rightarrow> escalation_action \<Rightarrow> op_result dbtx" where
  "escalation_effects now operationId escalationId adminId action =
     tx_bind (query (escalation_with_booking escalationId)) (\<lambda>found.
     tx_bind (expect stale_escalation found) (\<lambda>(e, b).
     tx_seq (ensure (es_status e = E_UNDER_REVIEW) stale_escalation)
    (tx_seq (ensure (action_reached action b) (unreached action))
    (tx_seq (upd_escalations (\<lambda>x. es_id x = es_id e) (\<lambda>x. x\<lparr>es_status := E_RESOLVED, es_adminId := Some adminId,
        es_resolution := Some (resolutionCode action), es_resolvedAt := Some now\<rparr>))
    (tx_seq (audit adminId (Some (es_requestedBy e)) (''COMPLETION_ESCALATION_'' @ code_text action) (es_id e))
    (tx_seq (notify (bk_providerId b) ''Completion escalation resolved'')
    (tx_seq (notify (bk_seekerId b) ''Completion escalation resolved'')
    (tx_seq (awardBookingCompletionTrust now (es_bookingId e))
    (ret (EscalationResolved (resolutionCode action) (es_bookingId e) operationId))))))))))"

definition finish_escalation :: "time \<Rightarrow> key \<Rightarrow> key \<Rightarrow> key \<Rightarrow> escalation_action \<Rightarrow> op_result option dbtx" where
  "finish_escalation now operationId escalationId adminId action =
     finish_case no_operation operationId (escalation_effects now operationId escalationId adminId action)"

text \<open>The money moves once: neither branch runs when an earlier attempt has moved it.\<close>

definition establish_escalation ::
  "time \<Rightarrow> operation_row \<Rightarrow> key \<Rightarrow> key \<Rightarrow> escalation_action \<Rightarrow> error + intent \<Rightarrow> refund_answer \<Rightarrow> (db, unit) process" where
  "establish_escalation now op escalationId adminId action intent answer =
     (if action \<noteq> KeepAwaiting \<and> \<not> hasEstablishedFinancialEffect op
      then p_bind (transact (reserveCompletionFinancialOutcome now (op_id op) escalationId)) (\<lambda>_.
        p_seq (if action = ReleaseProvider
               then p_bind (settleCompletedBooking now (op_bookingId op) (ByAdminId adminId)) (\<lambda>_. p_ret ())
               else performImmediateCancel now (op_bookingId op) (Some adminId) None intent answer)
       (p_bind (markAdminResolutionStage (op_id op) FINANCIAL_EFFECT_ESTABLISHED) (\<lambda>_. p_ret ())))
      else p_bind (markAdminResolutionStage (op_id op) DECISION_READY) (\<lambda>_. p_ret ()))"

definition resolveCompletionEscalation ::
  "time \<Rightarrow> key \<Rightarrow> key \<Rightarrow> escalation_action \<Rightarrow> error + intent \<Rightarrow> refund_answer \<Rightarrow> (db, op_result option) process" where
  "resolveCompletionEscalation now escalationId adminId action intent answer =
     p_bind (transact (claim_escalation escalationId adminId action)) (\<lambda>claimed.
     if cc_completed claimed \<noteq> None then p_ret (cc_completed claimed)
     else p_rethrow
       (p_seq (establish_escalation now (cc_operation claimed) escalationId adminId action intent answer)
       (p_bind (transact (finish_escalation now (op_id (cc_operation claimed)) escalationId adminId action)) (\<lambda>result.
        p_seq (transact (emit REveryone ''ADMIN_MODERATION_CHANGED'' ''completion_escalation_resolved''))
       (p_ret result))))
       (\<lambda>cause. markAdminResolutionFailed (op_id (cc_operation claimed)) cause))"


subsection \<open>What the operations keep\<close>

lemma still_update_booking [still_rules]: "still.stays (update_booking now i f)"
  unfolding update_booking_def by (intro still_rules)

lemma still_settle_parts [still_rules]:
  "still.stays (create_completed c)" "still.stays (earning i j p net)" "still.stays (retire_queue now b q st)"
  "still.stays (close_escalations now i)"
  unfolding create_completed_def earning_def retire_queue_def close_escalations_def Let_def by (intro still_rules)+

lemma still_settle [still_rules]: "still.stays (settle now i actor)"
proof -
  have "still.stays (settle_booking now actor b q a)" for b q a
    unfolding settle_booking_def Let_def by (intro still_rules)
  then show ?thesis unfolding settle_def by (intro still_rules)
qed

lemma p_ops_settle: "p_keeps (ops_rel s0) (settleCompletedBooking now i actor)"
  unfolding settleCompletedBooking_def by (intro p_shape p_still still_rules)

lemma still_escalation [still_rules]:
  "still.stays (create_escalation now b k why)" "still.stays (escalation_effects now op i adm act)"
proof -
  have "still.stays (open_escalation now b k why)" for b
    unfolding open_escalation_def Let_def by (intro still_rules)
  then show "still.stays (create_escalation now b k why)" unfolding create_escalation_def by (intro still_rules)
  show "still.stays (escalation_effects now op i adm act)" unfolding escalation_effects_def by (intro still_rules)
qed

lemmas ops_escalation_parts [ops_rules] = still_settle [THEN ops_still] still_escalation [THEN ops_still]

lemma ops_escalation [ops_rules]:
  "ops.stays (claim_escalation i adm act)" "ops.stays (reserveCompletionFinancialOutcome now op i)"
  "ops.stays (finish_escalation now op i adm act)"
  unfolding claim_escalation_def reserveCompletionFinancialOutcome_def finish_escalation_def
  by (intro ops_rules still_rules)+

lemma escalation_keeps_ops:
  "p_keeps (ops_rel s0) (createCompletionEscalation now b k why)"
  "p_keeps (ops_rel s0) (resolveCompletionEscalation now i adm act it ra)"
proof -
  show "p_keeps (ops_rel s0) (createCompletionEscalation now b k why)"
    unfolding createCompletionEscalation_def by (intro p_shape p_ops ops_rules)
  show "p_keeps (ops_rel s0) (resolveCompletionEscalation now i adm act it ra)"
    unfolding resolveCompletionEscalation_def establish_escalation_def
    by (intro p_shape p_ops_settle p_ops_cancel p_ops_marks p_ops ops_rules)
qed


subsection \<open>The decision is made\<close>

lemma keeps_uncompleted_completion: "keeps (uncompleted j) (reserveCompletionFinancialOutcome now op i)"
  unfolding reserveCompletionFinancialOutcome_def
  by (intro tx_pres keeps_uncompleted_mark keeps_uncompleted_still still_rules)

lemma p_uncompleted_settle: "p_keeps (uncompleted j) (settleCompletedBooking now i actor)"
  unfolding settleCompletedBooking_def by (intro p_shape p_uncompleted_still still_rules)

lemma found_case:
  assumes "completedResolutionResult op = None \<Longrightarrow> gives (found_open op) Q m"
  shows "gives (found_open op) Q (case completedResolutionResult op of Some r \<Rightarrow> f r | None \<Rightarrow> m)"
  using assms by (auto simp: gives_def found_open_def completedResolutionResult_def)

lemma claim_escalation_new:
  "gives (\<lambda>s. ops_wf s \<and> undecided CT_COMPLETION_ESCALATION i s)
     (\<lambda>c t. cc_completed c = None \<and> found_open (cc_operation c) t) (claim_escalation i adm act)"
proof (rule gives_start)
  let ?Q = "\<lambda>c t. cc_completed c = None \<and> found_open (cc_operation c) t"
  fix s assume s: "ops_wf s \<and> undecided CT_COMPLETION_ESCALATION i s"
  show "gives ((=) s) ?Q (claim_escalation i adm act)"
    unfolding claim_escalation_def
  proof (rule gives_query, rule gives_prod, rule gives_expect, rule gives_prod, rule gives_if)
    fix found existing x e b
    assume v: "(escalation_with_booking i s, operation_of CT_COMPLETION_ESCALATION i s) = (found, existing)" "found = Some x" "x = (e, b)"
    have e: "es_id e = i" using v by (auto simp: escalation_with_booking_def find_escalation_def split: option.splits dest: find_row_Some)
    show "gives ((=) s) ?Q (case existing of None \<Rightarrow> fail stale_escalation
       | Some op \<Rightarrow> tx_seq (ensure (op_status op = OP_COMPLETED) stale_escalation) (ret \<lparr>cc_operation = op, cc_completed = op_result op\<rparr>))"
      by (intro gives_head) (use s v in \<open>simp add: undecided_def\<close>)
    show "gives ((=) s) ?Q (tx_bind (beginAdminResolution CT_COMPLETION_ESCALATION (es_id e) (es_bookingId e) adm (action_text act) None) (\<lambda>begun.
       tx_bind (if act \<noteq> KeepAwaiting then reconcileReservedFinancialEffect begun (action_text act) else ret begun) (\<lambda>op.
       case completedResolutionResult op of Some r \<Rightarrow> ret \<lparr>cc_operation = op, cc_completed = Some r\<rparr>
       | None \<Rightarrow>
         tx_seq (ensure (hasEstablishedFinancialEffect op \<or> bk_status b = B_AWAITING_CONFIRMATION \<or>
             (held_for_review b \<and> op_stage op = FINANCIAL_EFFECT_RESERVED)) stale_escalation)
        (tx_seq (upd_escalations (\<lambda>x. es_id x = es_id e) (\<lambda>x. x\<lparr>es_status := E_UNDER_REVIEW, es_adminId := Some adm,
            es_resolution := Some (resolutionCode act)\<rparr>))
        (ret \<lparr>cc_operation = op, cc_completed = None\<rparr>)))))"
      unfolding e
      by (rule gives_at[of "\<lambda>s. ops_wf s \<and> undecided CT_COMPLETION_ESCALATION i s", OF s], rule gives_bind[OF gives_begin],
          rule gives_bind[of _ found_open], rule gives_if, rule gives_reconcile, rule gives_ret, assumption,
          rule found_case, rule gives_ensure, rule gives_tail, intro still_rules, rule gives_ret, simp)
  qed
qed

interpretation escalation_decision: decision CT_COMPLETION_ESCALATION i "claim_escalation i adm act" cc_operation cc_completed
  "\<lambda>c. establish_escalation now (cc_operation c) i adm act it ra" "\<lambda>c. finish_escalation now (op_id (cc_operation c)) i adm act"
  "\<lambda>c. escalation_effects now (op_id (cc_operation c)) i adm act"
  "\<lambda>_ _. emit REveryone ''ADMIN_MODERATION_CHANGED'' ''completion_escalation_resolved''"
  for now i adm act it ra
proof unfold_locales
  show "ops.stays (claim_escalation i adm act)" by (intro ops_rules)
  show "gives (\<lambda>s. ops_wf s \<and> undecided CT_COMPLETION_ESCALATION i s)
     (\<lambda>c t. cc_completed c = None \<and> found_open (cc_operation c) t) (claim_escalation i adm act)" by (rule claim_escalation_new)
  show "p_keeps (ops_rel s0) (establish_escalation now (cc_operation c) i adm act it ra)" for s0 c
    unfolding establish_escalation_def by (intro p_shape p_ops_settle p_ops_cancel p_ops_marks p_ops ops_rules)
  show "p_keeps (uncompleted j) (establish_escalation now (cc_operation c) i adm act it ra)" for j c
    unfolding establish_escalation_def
    by (intro p_shape p_uncompleted_settle p_uncompleted_cancel p_uncompleted_mark p_keeps_transact keeps_uncompleted_completion)
  show "still.stays (escalation_effects now (op_id (cc_operation c)) i adm act)" for c by (intro still_rules)
  show "finish_escalation now (op_id (cc_operation c)) i adm act s = Inr (r, s') \<Longrightarrow>
      finish_operation (op_id (cc_operation c)) True (escalation_effects now (op_id (cc_operation c)) i adm act) s = Inr (r, s')" for c s r s'
    unfolding finish_escalation_def by (rule finish_case_Inr)
  show "quiet.stays (emit REveryone ''ADMIN_MODERATION_CHANGED'' ''completion_escalation_resolved'')" by (intro quiet_rules)
qed

lemma resolveEscalation_decides: "resolveCompletionEscalation now i adm act it ra = escalation_decision.decide i adm act now it ra"
  unfolding resolveCompletionEscalation_def escalation_decision.decide_def by simp

lemma find_escalation_upd:
  assumes "upd_escalations (\<lambda>x. es_id x = i) f s = Inr (u, s')" "\<And>x. es_id (f x) = es_id x" "find_escalation i s = Some e"
  shows "find_escalation i s' = Some (f e)" "bookings s' = bookings s"
  using assms by (auto simp: upd_escalations_def modify_Inr find_escalation_def)

lemma escalation_effects_reached:
  assumes "escalation_effects now op i adm act s = Inr (x, s')"
  shows "\<exists>e b. find_escalation i s' = Some e \<and> es_status e = E_RESOLVED \<and> es_resolution e = Some (resolutionCode act) \<and>
    es_adminId e = Some adm \<and> find_booking (es_bookingId e) s' = Some b \<and> action_reached act b \<and>
    x = EscalationResolved (resolutionCode act) (es_bookingId e) op"
proof -
  let ?f = "\<lambda>x. x\<lparr>es_status := E_RESOLVED, es_adminId := Some adm, es_resolution := Some (resolutionCode act), es_resolvedAt := Some now\<rparr>"
  let ?tail = "\<lambda>e b. tx_seq (audit adm (Some (es_requestedBy e)) (''COMPLETION_ESCALATION_'' @ code_text act) (es_id e))
    (tx_seq (notify (bk_providerId b) ''Completion escalation resolved'')
    (tx_seq (notify (bk_seekerId b) ''Completion escalation resolved'')
    (tx_seq (awardBookingCompletionTrust now (es_bookingId e))
    (ret (EscalationResolved (resolutionCode act) (es_bookingId e) op)))))"
  from assms obtain e b u t where f: "escalation_with_booking i s = Some (e, b)" "action_reached act b"
    and up: "upd_escalations (\<lambda>x. es_id x = es_id e) ?f s = Inr (u, t)" and rest: "?tail e b t = Inr (x, s')"
    unfolding escalation_effects_def tx_bind_query tx_bind_Inr[of "expect _ _"] expect_Inr split_paired_Ex prod.case
      tx_seq_Inr[of "ensure _ _"] ensure_Inr tx_seq_Inr[of "upd_escalations _ _"] by blast
  have e: "find_escalation i s = Some e" "find_booking (es_bookingId e) s = Some b" "es_id e = i"
    using f(1) by (auto simp: escalation_with_booking_def find_escalation_def split: option.splits dest: find_row_Some)
  note w = find_escalation_upd[OF up[unfolded e(3)] _ e(1)]
  have st: "quiet.stays (?tail e b)" by (intro quiet_rules)
  have q: "quiet_rel t s'" by (rule quiet.staysD[OF st rest])
  have "find_escalation i s' = Some (?f e)" "find_booking (es_bookingId e) s' = Some b"
    using w e(2) quiet_core[OF q] by (simp_all add: find_escalation_def find_booking_def)
  moreover have "x = EscalationResolved (resolutionCode act) (es_bookingId e) op" using rest by (auto simp: tx_seq_Inr ret_Inr)
  ultimately show ?thesis using f(2) by (intro exI[of _ "?f e"] exI[of _ b]) simp
qed

text \<open>C8: A review that an administrator decides is over with its money where the decision says: when the
  decision returns, the escalation is resolved with the chosen action, the booking has reached the state the
  action asks for (paid out, refunded, or waiting on), and the operation is completed with the returned result.\<close>

theorem escalation_decided:
  assumes "resolveCompletionEscalation now i adm act it ra s = (Inr r, s')" "ops_wf s" "undecided CT_COMPLETION_ESCALATION i s"
  shows "\<exists>e b op. find_escalation i s' = Some e \<and> es_status e = E_RESOLVED \<and> es_resolution e = Some (resolutionCode act) \<and>
    es_adminId e = Some adm \<and> find_booking (es_bookingId e) s' = Some b \<and> action_reached act b \<and>
    r = Some (EscalationResolved (resolutionCode act) (es_bookingId e) (op_id op)) \<and>
    find_operation (op_id op) s' = Some op \<and> op_status op = OP_COMPLETED \<and> op_result op = r"
proof -
  from escalation_decision.decide_closes[OF assms(1)[unfolded resolveEscalation_decides] assms(2,3)]
  obtain c :: case_claim and t1 x t2 op where eff: "escalation_effects now (op_id (cc_operation c)) i adm act t1 = Inr (x, t2)" and r: "r = Some x"
    and same: "cases_of s' = cases_of t2" and op: "find_operation (op_id (cc_operation c)) s' = Some op" "op_status op = OP_COMPLETED"
      "op_result op = r" by blast
  have "op_id op = op_id (cc_operation c)" by (rule find_operation_id[OF op(1)])
  moreover have "find_escalation i s' = find_escalation i t2" "find_booking k s' = find_booking k t2" for k
    using same by (simp_all add: cases_of_def find_escalation_def find_booking_def)
  ultimately show ?thesis using escalation_effects_reached[OF eff] op r by (metis (no_types, lifting))
qed


definition sample_review_db :: db where
  "sample_review_db = sample_done_db\<lparr>escalations := [\<lparr>es_id = 40, es_bookingId = 5, es_requestedBy = 2, es_reason = ''no answer'',
     es_status = E_PENDING, es_adminId = None, es_resolution = None, es_createdAt = 0, es_resolvedAt = None\<rparr>]\<rparr>"

lemma sample_review: "ops_wf sample_review_db" "undecided CT_COMPLETION_ESCALATION 40 sample_review_db"
  by (simp_all add: ops_wf_def undecided_def operation_of_def sample_review_db_def sample_done_db_def sample_ready_db_def empty_db_def)

theorem escalation_decided_witness:
  "\<exists>r s' b. resolveCompletionEscalation 9 40 8 ReleaseProvider (Inl (Http 503 ''down'')) (Inl (Http 503 ''down'')) sample_review_db = (Inr r, s') \<and>
     find_booking 5 s' = Some b \<and> bk_status b = B_COMPLETED \<and> bk_paymentStatus b = P_RELEASED"
proof -
  let ?m = "resolveCompletionEscalation 9 40 8 ReleaseProvider (Inl (Http 503 ''down'')) (Inl (Http 503 ''down'')) sample_review_db"
  have ok: "\<not> isl (fst ?m) \<and> map_option es_bookingId (find_escalation 40 (snd ?m)) = Some 5 \<and>
     map_option bk_paymentStatus (find_booking 5 (snd ?m)) = Some P_RELEASED" by code_simp
  obtain r s' where run: "?m = (Inr r, s')" using ok by (cases "fst ?m") (auto simp: prod_eq_iff)
  from escalation_decided[OF run sample_review] ok obtain b where "find_booking 5 s' = Some b" "action_reached ReleaseProvider b"
    by (auto simp: run)
  with run ok show ?thesis by (auto simp: action_reached_def run)
qed

end
