(* ===== verification/SH_AdminBooking.thy ===== *)
theory SH_AdminBooking
  imports SH_Escalation
begin

text \<open>
  The decision of an administrator on a booking itself (src/src/services/admin-booking-resolution.service.ts):
  cancel it, or, when a participant is banned, complete it and release the payment. As in the other
  decisions the booking is held \<open>UNDER_REVIEW\<close> and the decision is an operation of SH_Resolution.
\<close>

subsection \<open>Which decisions a booking allows\<close>

datatype booking_outcome = CancelBooking | ReleaseBooking

definition outcome_text :: "booking_outcome \<Rightarrow> string" where
  "outcome_text o' = (case o' of CancelBooking \<Rightarrow> ''cancel_booking'' | ReleaseBooking \<Rightarrow> ''release_provider_and_complete'')"

definition adminBookingOutcomeAllowed :: "booking_row \<Rightarrow> bool \<Rightarrow> booking_outcome \<Rightarrow> bool" where
  "adminBookingOutcomeAllowed b hasBannedParticipant outcome \<longleftrightarrow> (case outcome of
       ReleaseBooking \<Rightarrow> hasBannedParticipant \<and> bk_status b = B_AWAITING_CONFIRMATION \<and> bk_paymentMethod b \<noteq> OnsiteCash
     | CancelBooking \<Rightarrow> (\<not> bk_started b \<and> bk_status b \<in> {B_PENDING_APPROVAL, B_WAITING, B_ACCEPTED}) \<or>
         (hasBannedParticipant \<and> bk_status b \<in> {B_ONGOING, B_AWAITING_CONFIRMATION}))"

definition booking_conflict :: error where
  "booking_conflict = Http 409 ''ADMIN_BOOKING_RESOLUTION_CONFLICT''"

definition is_banned :: "key \<Rightarrow> db \<Rightarrow> bool" where
  "is_banned k s = (case find_user k s of None \<Rightarrow> False | Some u \<Rightarrow> u_moderationStatus u = M_BANNED)"

definition banned_participant :: "booking_row \<Rightarrow> db \<Rightarrow> bool" where
  "banned_participant b s \<longleftrightarrow> is_banned (bk_seekerId b) s \<or> is_banned (bk_providerId b) s"

text \<open>The booking is held \<open>UNDER_REVIEW\<close> before its money moves.\<close>

definition reserve_booking ::
  "time \<Rightarrow> booking_row \<Rightarrow> bool \<Rightarrow> booking_outcome \<Rightarrow> operation_row \<Rightarrow> operation_row dbtx" where
  "reserve_booking now b hasBanned outcome op =
     (if hasEstablishedFinancialEffect op then ret op
      else if op_stage op = FINANCIAL_EFFECT_RESERVED
      then tx_seq (ensure (bk_status b = B_UNDER_REVIEW \<and> bk_statusBeforeDispute b \<noteq> None) booking_conflict) (ret op)
      else tx_seq (ensure (adminBookingOutcomeAllowed b hasBanned outcome) booking_conflict)
          (tx_seq (assertNoOtherBlockingCases (bk_id b) \<lparr>ex_report = None, ex_cancellation = None, ex_escalation = None\<rparr>)
          (tx_seq (assertNoFinancialResolutionReserved (bk_id b) (Some (op_id op)))
          (tx_seq (upd_booking now (bk_id b) (\<lambda>r. r\<lparr>bk_status := B_UNDER_REVIEW, bk_statusBeforeDispute := Some (bk_status b)\<rparr>))
          (markAdminResolutionStageInTransaction (op_id op) FINANCIAL_EFFECT_RESERVED)))))"

definition claim_booking :: "time \<Rightarrow> key \<Rightarrow> key \<Rightarrow> booking_outcome \<Rightarrow> bool \<Rightarrow> case_claim dbtx" where
  "claim_booking now bookingId adminId outcome requireBanned =
     tx_bind (query (\<lambda>s. (map_option (\<lambda>b. (b, banned_participant b s)) (find_booking bookingId s),
        operation_of CT_ADMIN_BOOKING bookingId s))) (\<lambda>(found, existing).
     tx_bind (expect (Http 404 ''Booking not found'') found) (\<lambda>(b, hasBanned).
     if map_option op_status existing = Some OP_COMPLETED
     then tx_seq (ensure (op_requestedOutcome (the existing) = outcome_text outcome) booking_conflict)
         (ret \<lparr>cc_operation = the existing, cc_completed = op_result (the existing)\<rparr>)
     else
       tx_seq (ensure (map_option op_status existing \<noteq> Some OP_FAILED_NONRETRYABLE \<and>
           map_option op_stage existing \<noteq> Some CASE_FINALIZED) booking_conflict)
      (tx_seq (ensure (\<not> (requireBanned \<and> \<not> hasBanned \<and> existing = None)) booking_conflict)
      (tx_seq (ensure (existing \<noteq> None \<or> adminBookingOutcomeAllowed b hasBanned outcome) booking_conflict)
      (tx_bind (beginAdminResolution CT_ADMIN_BOOKING (bk_id b) (bk_id b) adminId (outcome_text outcome) None) (\<lambda>begun.
       tx_bind (reconcileReservedFinancialEffect begun (outcome_text outcome)) (\<lambda>op.
       case completedResolutionResult op of Some r \<Rightarrow> ret \<lparr>cc_operation = op, cc_completed = Some r\<rparr>
       | None \<Rightarrow> tx_bind (reserve_booking now b hasBanned outcome op) (\<lambda>reserved.
           ret \<lparr>cc_operation = reserved, cc_completed = None\<rparr>))))))))"

text \<open>A cancelled booking whose cash was never due, or whose payment is refunded.\<close>

definition cancelled_cleanly :: "booking_row \<Rightarrow> bool" where
  "cancelled_cleanly b \<longleftrightarrow> bk_status b = B_CANCELED \<and>
     (if bk_paymentMethod b = OnsiteCash then bk_paymentStatus b = P_UNPAID else bk_paymentStatus b = P_REFUNDED)"

definition outcome_reached :: "booking_outcome \<Rightarrow> booking_row \<Rightarrow> bool" where
  "outcome_reached outcome b \<longleftrightarrow> (case outcome of CancelBooking \<Rightarrow> cancelled_cleanly b
     | ReleaseBooking \<Rightarrow> bk_status b = B_COMPLETED \<and> bk_paymentStatus b = P_RELEASED)"

definition booking_effects :: "key \<Rightarrow> key \<Rightarrow> key \<Rightarrow> booking_outcome \<Rightarrow> op_result dbtx" where
  "booking_effects operationId bookingId adminId outcome =
     tx_bind (query (find_booking bookingId)) (\<lambda>found.
     tx_bind (expect (Uncoded ''P2025'') found) (\<lambda>b.
     tx_seq (ensure (outcome_reached outcome b) booking_conflict)
    (tx_seq (audit adminId (Some (bk_providerId b))
        (case outcome of CancelBooking \<Rightarrow> ''ADMIN_BOOKING_CANCELLED'' | ReleaseBooking \<Rightarrow> ''ADMIN_BOOKING_COMPLETED'') (bk_id b))
    (let title = (case outcome of CancelBooking \<Rightarrow> ''Booking cancelled by Admin'' | ReleaseBooking \<Rightarrow> ''Booking completed by Admin'') in
     tx_seq (notify (bk_seekerId b) title)
    (tx_seq (notify (bk_providerId b) title)
    (ret (BookingResolved (outcome_text outcome) (bk_id b) operationId)))))))"

definition finish_booking :: "key \<Rightarrow> key \<Rightarrow> key \<Rightarrow> booking_outcome \<Rightarrow> op_result option dbtx" where
  "finish_booking operationId bookingId adminId outcome =
     finish_case (Uncoded ''P2025'') operationId (booking_effects operationId bookingId adminId outcome)"

definition establish_booking ::
  "time \<Rightarrow> operation_row \<Rightarrow> key \<Rightarrow> key \<Rightarrow> booking_outcome \<Rightarrow> error + intent \<Rightarrow> refund_answer \<Rightarrow> (db, unit) process" where
  "establish_booking now op bookingId adminId outcome intent answer =
     (if hasEstablishedFinancialEffect op then p_ret ()
      else p_seq (case outcome of CancelBooking \<Rightarrow> performImmediateCancel now bookingId (Some adminId) None intent answer
             | ReleaseBooking \<Rightarrow> p_bind (settleCompletedBooking now bookingId (ByAdminId adminId)) (\<lambda>_. p_ret ()))
          (p_bind (markAdminResolutionStage (op_id op) FINANCIAL_EFFECT_ESTABLISHED) (\<lambda>_. p_ret ())))"

definition publish_resolved :: "key \<Rightarrow> unit dbtx" where
  "publish_resolved bookingId =
     tx_bind (query (find_booking bookingId)) (\<lambda>found.
     tx_seq (case found of None \<Rightarrow> ret ()
       | Some b \<Rightarrow> for_each (\<lambda>u. tx_seq (emit (RUser u) ''notification'' ''Booking resolution completed'')
           (emit (RUser u) ''ENGAGEMENT_CHANGED'' ''admin_resolved'')) [bk_seekerId b, bk_providerId b])
     (emit REveryone ''ADMIN_MODERATION_CHANGED'' ''booking_resolved''))"

definition resolveAdminBooking ::
  "time \<Rightarrow> key \<Rightarrow> key \<Rightarrow> booking_outcome \<Rightarrow> bool \<Rightarrow> error + intent \<Rightarrow> refund_answer \<Rightarrow> (db, op_result option) process" where
  "resolveAdminBooking now bookingId adminId outcome requireBanned intent answer =
     p_bind (transact (claim_booking now bookingId adminId outcome requireBanned)) (\<lambda>claimed.
     if cc_completed claimed \<noteq> None then p_ret (cc_completed claimed)
     else p_rethrow
       (p_seq (establish_booking now (cc_operation claimed) bookingId adminId outcome intent answer)
       (p_bind (transact (finish_booking (op_id (cc_operation claimed)) bookingId adminId outcome)) (\<lambda>result.
        p_seq (transact (publish_resolved bookingId)) (p_ret result))))
       (\<lambda>cause. markAdminResolutionFailed (op_id (cc_operation claimed)) cause))"


subsection \<open>What the operation keeps\<close>

lemma quiet_publish_resolved: "quiet.stays (publish_resolved i)"
  unfolding publish_resolved_def by (intro quiet_rules)

lemma still_booking_effects [still_rules]: "still.stays (booking_effects op i adm out)"
  unfolding booking_effects_def Let_def by (intro still_rules)

lemma ops_claim_booking [ops_rules]: "ops.stays (claim_booking now i adm out req)"
proof -
  have "ops.stays (reserve_booking now b h out op)" for b h op unfolding reserve_booking_def by (intro ops_rules)
  then show ?thesis unfolding claim_booking_def by (intro ops_rules)
qed

lemma reserve_booking_gives: "gives (found_open op) found_open (reserve_booking now b h out op)"
  unfolding reserve_booking_def
  by (intro gives_if gives_ensure gives_tail gives_mark gives_ret still_rules)

lemma claim_booking_new:
  "gives (\<lambda>s. ops_wf s \<and> undecided CT_ADMIN_BOOKING i s)
     (\<lambda>c t. cc_completed c = None \<and> found_open (cc_operation c) t) (claim_booking now i adm out req)"
proof (rule gives_start)
  let ?Q = "\<lambda>c t. cc_completed c = None \<and> found_open (cc_operation c) t"
  fix s assume s: "ops_wf s \<and> undecided CT_ADMIN_BOOKING i s"
  show "gives ((=) s) ?Q (claim_booking now i adm out req)"
    unfolding claim_booking_def
  proof (rule gives_query, rule gives_prod, rule gives_expect, rule gives_prod, rule gives_if)
    fix found existing x b h
    assume v: "(map_option (\<lambda>b. (b, banned_participant b s)) (find_booking i s), operation_of CT_ADMIN_BOOKING i s) = (found, existing)"
      "found = Some x" "x = (b, h)"
    have b: "bk_id b = i" using v find_booking_mem[of i s b] by auto
    show "gives ((=) s) ?Q (tx_seq (ensure (op_requestedOutcome (the existing) = outcome_text out) booking_conflict)
         (ret \<lparr>cc_operation = the existing, cc_completed = op_result (the existing)\<rparr>))"
      if "map_option op_status existing = Some OP_COMPLETED"
      using s v that by (auto simp: undecided_def)
    show "gives ((=) s) ?Q (tx_seq (ensure (map_option op_status existing \<noteq> Some OP_FAILED_NONRETRYABLE \<and>
           map_option op_stage existing \<noteq> Some CASE_FINALIZED) booking_conflict)
      (tx_seq (ensure (\<not> (req \<and> \<not> h \<and> existing = None)) booking_conflict)
      (tx_seq (ensure (existing \<noteq> None \<or> adminBookingOutcomeAllowed b h out) booking_conflict)
      (tx_bind (beginAdminResolution CT_ADMIN_BOOKING (bk_id b) (bk_id b) adm (outcome_text out) None) (\<lambda>begun.
       tx_bind (reconcileReservedFinancialEffect begun (outcome_text out)) (\<lambda>op.
       case completedResolutionResult op of Some r \<Rightarrow> ret \<lparr>cc_operation = op, cc_completed = Some r\<rparr>
       | None \<Rightarrow> tx_bind (reserve_booking now b h out op) (\<lambda>reserved.
           ret \<lparr>cc_operation = reserved, cc_completed = None\<rparr>)))))))"
      unfolding b
      by (rule gives_ensure, rule gives_ensure, rule gives_ensure, rule gives_at[of "\<lambda>s. ops_wf s \<and> undecided CT_ADMIN_BOOKING i s", OF s],
          rule gives_bind[OF gives_begin], rule gives_bind[OF gives_reconcile], rule found_case,
          rule gives_bind[OF reserve_booking_gives], rule gives_ret, simp)
  qed
qed

interpretation booking_decision: decision CT_ADMIN_BOOKING i "claim_booking now i adm out req" cc_operation cc_completed
  "\<lambda>c. establish_booking now (cc_operation c) i adm out it ra" "\<lambda>c. finish_booking (op_id (cc_operation c)) i adm out"
  "\<lambda>c. booking_effects (op_id (cc_operation c)) i adm out" "\<lambda>_ _. publish_resolved i"
  for now i adm out req it ra
proof unfold_locales
  show "ops.stays (claim_booking now i adm out req)" by (intro ops_rules)
  show "gives (\<lambda>s. ops_wf s \<and> undecided CT_ADMIN_BOOKING i s)
     (\<lambda>c t. cc_completed c = None \<and> found_open (cc_operation c) t) (claim_booking now i adm out req)" by (rule claim_booking_new)
  show "p_keeps (ops_rel s0) (establish_booking now (cc_operation c) i adm out it ra)" for s0 c
    unfolding establish_booking_def
    by (cases out; simp only: booking_outcome.case; intro p_shape p_ops_settle p_ops_cancel p_ops_marks)
  show "p_keeps (uncompleted j) (establish_booking now (cc_operation c) i adm out it ra)" for j c
    unfolding establish_booking_def
    by (cases out; simp only: booking_outcome.case; intro p_shape p_uncompleted_settle p_uncompleted_cancel p_uncompleted_mark)
  show "still.stays (booking_effects (op_id (cc_operation c)) i adm out)" for c by (intro still_rules)
  show "finish_booking (op_id (cc_operation c)) i adm out s = Inr (r, s') \<Longrightarrow>
      finish_operation (op_id (cc_operation c)) True (booking_effects (op_id (cc_operation c)) i adm out) s = Inr (r, s')" for c s r s'
    unfolding finish_booking_def by (rule finish_case_Inr)
  show "quiet.stays (publish_resolved i)" by (rule quiet_publish_resolved)
qed

lemma resolveAdminBooking_decides: "resolveAdminBooking now i adm out req it ra = booking_decision.decide now i adm out req it ra"
  unfolding resolveAdminBooking_def booking_decision.decide_def by simp

lemma booking_effects_reached:
  assumes "booking_effects op i adm out s = Inr (x, s')"
  shows "\<exists>b. find_booking i s' = Some b \<and> outcome_reached out b \<and> x = BookingResolved (outcome_text out) i op"
proof -
  let ?title = "case out of CancelBooking \<Rightarrow> ''Booking cancelled by Admin'' | ReleaseBooking \<Rightarrow> ''Booking completed by Admin''"
  let ?tail = "\<lambda>b. tx_seq (audit adm (Some (bk_providerId b))
        (case out of CancelBooking \<Rightarrow> ''ADMIN_BOOKING_CANCELLED'' | ReleaseBooking \<Rightarrow> ''ADMIN_BOOKING_COMPLETED'') (bk_id b))
     (tx_seq (notify (bk_seekerId b) ?title) (tx_seq (notify (bk_providerId b) ?title)
     (ret (BookingResolved (outcome_text out) (bk_id b) op))))"
  from assms obtain b where b: "find_booking i s = Some b" "outcome_reached out b" and rest: "?tail b s = Inr (x, s')"
    unfolding booking_effects_def Let_def tx_bind_query tx_bind_Inr[of "expect _ _"] expect_Inr tx_seq_Inr[of "ensure _ _"] ensure_Inr by blast
  have st: "quiet.stays (?tail b)" by (intro quiet_rules)
  have q: "quiet_rel s s'" by (rule quiet.staysD[OF st rest])
  have "bk_id b = i" using find_booking_mem[OF b(1)] by simp
  moreover have "x = BookingResolved (outcome_text out) (bk_id b) op" using rest by (auto simp: tx_seq_Inr ret_Inr)
  moreover have "find_booking i s' = Some b" using b(1) quiet_bookings[OF q, of i] by simp
  ultimately show ?thesis using b(2) by simp
qed

lemma claim_booking_allowed:
  assumes "claim_booking now i adm out req s = Inr (c, t)" "undecided CT_ADMIN_BOOKING i s"
  shows "\<exists>b. find_booking i s = Some b \<and> (operation_of CT_ADMIN_BOOKING i s = None \<longrightarrow>
    adminBookingOutcomeAllowed b (banned_participant b s) out \<and> (req \<longrightarrow> banned_participant b s))"
proof -
  have nd: "map_option op_status (operation_of CT_ADMIN_BOOKING i s) \<noteq> Some OP_COMPLETED" using assms(2) by (auto simp: undecided_def)
  show ?thesis
    using assms(1) unfolding claim_booking_def tx_bind_query tx_bind_Inr[of "expect _ _"] expect_Inr prod.case split_paired_Ex
    using nd by (auto simp: tx_seq_Inr[of "ensure _ _"] ensure_Inr split: if_splits)
qed

text \<open>C7: An administrator's decision on a booking is allowed and reached: a first decision is made only on
  a booking that allows it (completing and paying out needs a banned participant, an online payment and work
  that waits for confirmation), and when the decision returns the booking is cancelled with its cash never
  due or its payment refunded, or completed with the payment released, and the operation is completed.\<close>

theorem admin_booking_decided:
  assumes "resolveAdminBooking now i adm out req it ra s = (Inr r, s')" "ops_wf s" "undecided CT_ADMIN_BOOKING i s"
  shows "\<exists>b0 b op. find_booking i s = Some b0 \<and> (operation_of CT_ADMIN_BOOKING i s = None \<longrightarrow>
      adminBookingOutcomeAllowed b0 (banned_participant b0 s) out \<and> (req \<longrightarrow> banned_participant b0 s)) \<and>
    find_booking i s' = Some b \<and> outcome_reached out b \<and> r = Some (BookingResolved (outcome_text out) i (op_id op)) \<and>
    find_operation (op_id op) s' = Some op \<and> op_status op = OP_COMPLETED \<and> op_result op = r"
proof -
  from booking_decision.decide_closes[OF assms(1)[unfolded resolveAdminBooking_decides] assms(2,3)]
  obtain c :: case_claim and t t1 x t2 op where cl: "claim_booking now i adm out req s = Inr (c, t)" and
    eff: "booking_effects (op_id (cc_operation c)) i adm out t1 = Inr (x, t2)" and r: "r = Some x"
    and same: "cases_of s' = cases_of t2" and op: "find_operation (op_id (cc_operation c)) s' = Some op" "op_status op = OP_COMPLETED"
      "op_result op = r" by blast
  have "op_id op = op_id (cc_operation c)" by (rule find_operation_id[OF op(1)])
  moreover have "find_booking i s' = find_booking i t2" using same by (simp add: cases_of_def find_booking_def)
  ultimately show ?thesis
    using booking_effects_reached[OF eff] claim_booking_allowed[OF cl assms(3)] op r by (metis (no_types, lifting))
qed

theorem admin_booking_decided_witness:
  "\<exists>r s' b. resolveAdminBooking 9 5 8 CancelBooking False (Inr sample_intent) (Inr (''ref_1'', ''pending'')) sample_ready_db = (Inr r, s') \<and>
     find_booking 5 s' = Some b \<and> bk_status b = B_CANCELED \<and> bk_paymentStatus b = P_REFUNDED"
proof -
  let ?m = "resolveAdminBooking 9 5 8 CancelBooking False (Inr sample_intent) (Inr (''ref_1'', ''pending'')) sample_ready_db"
  have ok: "\<not> isl (fst ?m) \<and> map_option bk_paymentMethod (find_booking 5 (snd ?m)) = Some GCash" by code_simp
  obtain r s' where run: "?m = (Inr r, s')" using ok by (cases "fst ?m") (auto simp: prod_eq_iff)
  have w: "ops_wf sample_ready_db" "undecided CT_ADMIN_BOOKING 5 sample_ready_db"
    by (simp_all add: ops_wf_def undecided_def operation_of_def sample_ready_db_def empty_db_def)
  from admin_booking_decided[OF run w] obtain b where "find_booking 5 s' = Some b" "outcome_reached CancelBooking b" by blast
  with run ok show ?thesis by (auto simp: outcome_reached_def cancelled_cleanly_def)
qed

end
