(* ===== verification/SH_Text.thy ===== *)
theory SH_Text
  imports SH_Arrangement
begin

text \<open>
  What the code does with texts beside trimming: case, blanks, characters of a class and pieces between
  separators, on ASCII.
\<close>

text \<open>\<open>replace(/\\s+/g, " ")\<close> and \<open>toLocaleLowerCase("en")\<close> on ASCII.\<close>

fun collapse_spaces :: "string \<Rightarrow> string" where
  "collapse_spaces [] = []"
| "collapse_spaces (c # cs) = (if js_space c
     then (case cs of d # _ \<Rightarrow> if js_space d then collapse_spaces cs else CHR '' '' # collapse_spaces cs | [] \<Rightarrow> '' '')
     else c # collapse_spaces cs)"

definition toLowerCase :: "string \<Rightarrow> string" where
  "toLowerCase s = map (\<lambda>c. let n = (of_char c :: nat) in if 65 \<le> n \<and> n \<le> 90 then char_of (n + 32) else c) s"

definition is_upper :: "char \<Rightarrow> bool" where "is_upper x \<longleftrightarrow> (let n = (of_char x :: nat) in 65 \<le> n \<and> n \<le> 90)"
definition is_lower :: "char \<Rightarrow> bool" where "is_lower x \<longleftrightarrow> (let n = (of_char x :: nat) in 97 \<le> n \<and> n \<le> 122)"
definition is_digit :: "char \<Rightarrow> bool" where "is_digit x \<longleftrightarrow> (let n = (of_char x :: nat) in 48 \<le> n \<and> n \<le> 57)"

text \<open>\<open>split(c)\<close> for one character.\<close>

fun split_on :: "char \<Rightarrow> string \<Rightarrow> string list" where
  "split_on c [] = [[]]"
| "split_on c (x # xs) = (if x = c then [] # split_on c xs
     else (case split_on c xs of [] \<Rightarrow> [[x]] | w # ws \<Rightarrow> (x # w) # ws))"

end
