(* ===== verification/SH_Reports.thy ===== *)
theory SH_Reports
  imports SH_AdminBooking SH_Text
begin

text \<open>
  Reports: the safety report by which a participant opens a case
  (src/src/services/safety-report.service.ts), and the decision of an administrator
  (admin-report.service.ts with report-decision-policy.ts and report-penalty-policy.ts), which chooses
  what becomes of the booking and, separately, a penalty for the reported account.
\<close>

subsection \<open>Which decisions a report allows\<close>

datatype report_outcome = Dismiss | ResolveSafety | CancelReported | ReleaseReported
datatype penalty = NoPenalty | Warn | TrustDeduct | Suspend | Ban

definition report_outcome_text :: "report_outcome \<Rightarrow> string" where
  "report_outcome_text o' = (case o' of Dismiss \<Rightarrow> ''dismiss'' | ResolveSafety \<Rightarrow> ''resolve_safety''
     | CancelReported \<Rightarrow> ''cancel_booking'' | ReleaseReported \<Rightarrow> ''release_provider_and_complete'')"

definition penalty_text :: "penalty \<Rightarrow> string" where
  "penalty_text p = (case p of NoPenalty \<Rightarrow> ''none'' | Warn \<Rightarrow> ''warn'' | TrustDeduct \<Rightarrow> ''trust_deduct''
     | Suspend \<Rightarrow> ''suspend'' | Ban \<Rightarrow> ''ban'')"

definition allowedReportOutcomes :: "report_row \<Rightarrow> booking_row \<Rightarrow> report_outcome list" where
  "allowedReportOutcomes r b =
     (if \<not> report_active r \<or> rp_reportType r = RT_CANCELLATION_ESCALATION then []
      else [Dismiss] @ (if rp_reportType r = RT_SAFETY then [ResolveSafety] else []) @
        (if bk_status b \<notin> {B_COMPLETED, B_CANCELED} then [CancelReported] else []) @
        (if rp_reportType r = RT_COMPLETION_DISPUTE \<and> bk_statusBeforeDispute b = Some B_AWAITING_CONFIRMATION
         then [ReleaseReported] else []))"

definition assertReportDecision :: "report_row \<Rightarrow> booking_row \<Rightarrow> report_outcome \<Rightarrow> penalty \<Rightarrow> error + unit" where
  "assertReportDecision r b outcome penalty =
     (if outcome = Dismiss \<and> penalty \<noteq> NoPenalty then Inl (Http 422 ''DISMISSED_REPORT_PENALTY'')
      else if outcome \<notin> set (allowedReportOutcomes r b) then Inl (Http 422 ''INVALID_REPORT_OUTCOME'')
      else Inr ())"

subsection \<open>Which penalties an account allows\<close>

definition allowedReportPenalties :: "user_row option \<Rightarrow> key \<Rightarrow> penalty list" where
  "allowedReportPenalties account adminId = (case account of None \<Rightarrow> [NoPenalty]
     | Some u \<Rightarrow> if u_id u = adminId \<or> u_role u \<noteq> R_User \<or> \<not> u_isActive u \<or> u_deactivatedAt u \<noteq> None then [NoPenalty]
         else [NoPenalty, Warn, TrustDeduct] @ (if u_moderationStatus u = M_ACTIVE then [Suspend] else []) @
           (if u_moderationStatus u \<noteq> M_BANNED then [Ban] else []))"

text \<open>The penalty to apply, and whether the account changed so that a claimed one is dropped
  (\<open>note\<close>). \<open>cancelled\<close> is the booking that the same decision cancels.\<close>

definition checkReportPenalty :: "key \<Rightarrow> key \<Rightarrow> penalty \<Rightarrow> bool \<Rightarrow> key option \<Rightarrow> (penalty \<times> bool) dbtx" where
  "checkReportPenalty userId adminId penalty resuming cancelled =
     (if penalty = NoPenalty then ret (NoPenalty, False)
      else tx_bind (query (\<lambda>s. (find_user userId s, count_rows (\<lambda>b. bk_providerId b = userId \<and> \<not> bk_started b \<and>
          bk_status b \<in> {B_PENDING_APPROVAL, B_WAITING, B_ACCEPTED} \<and> Some (bk_id b) \<noteq> cancelled) (bookings s)))) (\<lambda>(account, blockers).
        if penalty \<notin> set (allowedReportPenalties account adminId)
        then (if resuming then ret (NoPenalty, True) else fail (Http 409 ''INVALID_REPORT_PENALTY''))
        else tx_seq (ensure (penalty = Suspend \<longrightarrow> blockers = 0) (Http 409 ''SUSPENSION_BOOKINGS_BLOCKED''))
            (ret (penalty, False))))"

text \<open>Seven days of suspension.\<close>

definition SUSPENSION_MS :: int where
  "SUSPENSION_MS = 7 * 24 * 60 * 60 * 1000"

definition moderate :: "time \<Rightarrow> key \<Rightarrow> penalty \<Rightarrow> unit dbtx" where
  "moderate now userId penalty = upd_user userId (\<lambda>u. u\<lparr>
     u_moderationStatus := (if penalty = Ban then M_BANNED else M_SUSPENDED),
     u_suspendedUntil := (if penalty = Suspend then Some (now + SUSPENSION_MS) else None)\<rparr>)"

definition applyReportPenalty :: "time \<Rightarrow> report_row \<Rightarrow> key \<Rightarrow> penalty \<Rightarrow> string \<Rightarrow> (penalty \<times> bool) dbtx" where
  "applyReportPenalty now r adminId penalty notes =
     tx_bind (checkReportPenalty (rp_reportedUserId r) adminId penalty True None) (\<lambda>(applied, note).
     tx_seq (case applied of
         TrustDeduct \<Rightarrow> tx_bind (applyBookingTrustPenalty now (rp_bookingId r) (rp_reportedUserId r) adminId (TK_Report (rp_id r)) False
             (''Confirmed serious misconduct: '' @ notes)) (\<lambda>_. ret ())
       | Suspend \<Rightarrow> moderate now (rp_reportedUserId r) Suspend
       | Ban \<Rightarrow> tx_seq (moderate now (rp_reportedUserId r) Ban)
           (audit adminId (Some (rp_reportedUserId r)) ''USER_BANNED'' (rp_reportedUserId r))
       | _ \<Rightarrow> ret ())
     (ret (applied, note)))"

subsection \<open>The decision\<close>

text \<open>What an administrator may ask for: an outcome, the older name of a refund, or a bare penalty, which
  is refused.\<close>

datatype report_action = Outcome report_outcome | ApproveRefund | PenaltyOnly penalty

definition action_outcome :: "report_action \<Rightarrow> report_outcome option" where
  "action_outcome a = (case a of Outcome o' \<Rightarrow> Some o' | ApproveRefund \<Rightarrow> Some CancelReported | PenaltyOnly _ \<Rightarrow> None)"

definition report_inputs :: "report_action \<Rightarrow> string \<Rightarrow> penalty \<Rightarrow> error + report_outcome" where
  "report_inputs a notes penalty =
     (if penalty = TrustDeduct \<and> length (trim notes) < 20
      then Inl (Http 422 ''Describe the serious violation and supporting evidence in at least 20 characters'')
      else case action_outcome a of None \<Rightarrow> Inl (Http 422 ''BOOKING_OUTCOME_REQUIRED'') | Some o' \<Rightarrow> Inr o')"

definition moves_money :: "report_outcome \<Rightarrow> bool" where
  "moves_money o' \<longleftrightarrow> o' \<in> {CancelReported, ReleaseReported}"

definition report_with_booking :: "key \<Rightarrow> db \<Rightarrow> (report_row \<times> booking_row) option" where
  "report_with_booking i s = (case find_report i s of None \<Rightarrow> None
     | Some r \<Rightarrow> map_option (\<lambda>b. (r, b)) (find_booking (rp_bookingId r) s))"

record report_claim =
  rc_report :: report_row
  rc_booking :: booking_row
  rc_operation :: operation_row
  rc_completed :: "op_result option"

text \<open>A decision that has already reserved the money is taken up again without the policy checks.\<close>

definition financial_retry :: "operation_row option \<Rightarrow> report_outcome \<Rightarrow> bool" where
  "financial_retry existing outcome = (case existing of None \<Rightarrow> False
     | Some op \<Rightarrow> op_stage op \<in> {FINANCIAL_EFFECT_RESERVED, FINANCIAL_EFFECT_ESTABLISHED} \<and>
         op_requestedOutcome op = report_outcome_text outcome)"

definition decide_report :: "report_row \<Rightarrow> booking_row \<Rightarrow> operation_row option \<Rightarrow> key \<Rightarrow> report_outcome \<Rightarrow> penalty \<Rightarrow> unit dbtx" where
  "decide_report r b existing adminId outcome penalty =
     tx_seq (when_tx (\<not> financial_retry existing outcome) (lift_sum (assertReportDecision r b outcome penalty)))
    (tx_seq (when_tx (outcome = Dismiss \<and> penalty \<noteq> NoPenalty) (lift_sum (assertReportDecision r b outcome penalty)))
    (if existing = None then tx_bind (checkReportPenalty (rp_reportedUserId r) adminId penalty False
         (if outcome = CancelReported then Some (rp_bookingId r) else None)) (\<lambda>_. ret ())
     else ret ()))"

definition claim_report :: "key \<Rightarrow> key \<Rightarrow> report_outcome \<Rightarrow> penalty \<Rightarrow> report_claim dbtx" where
  "claim_report reportId adminId outcome penalty =
     tx_bind (query (\<lambda>s. (report_with_booking reportId s, operation_of CT_REPORT reportId s))) (\<lambda>(found, existing).
     tx_bind (expect (Http 404 ''Report not found'') found) (\<lambda>(r, b).
     tx_seq (ensure (rp_reportType r \<noteq> RT_CANCELLATION_ESCALATION) (Http 422 ''USE_CANCELLATION_RESOLUTION''))
    (if \<not> report_active r
     then (case existing of None \<Rightarrow> fail (Http 409 ''Report has already been resolved'')
       | Some op \<Rightarrow> tx_seq (ensure (op_status op = OP_COMPLETED) (Http 409 ''Report has already been resolved''))
           (ret \<lparr>rc_report = r, rc_booking = b, rc_operation = op, rc_completed = op_result op\<rparr>))
     else tx_seq (decide_report r b existing adminId outcome penalty)
      (tx_bind (beginAdminResolution CT_REPORT (rp_id r) (rp_bookingId r) adminId (report_outcome_text outcome)
          (Some (penalty_text penalty))) (\<lambda>begun.
       tx_bind (if moves_money outcome then reconcileReservedFinancialEffect begun (report_outcome_text outcome) else ret begun) (\<lambda>op.
       case completedResolutionResult op of
         Some res \<Rightarrow> ret \<lparr>rc_report = r, rc_booking = b, rc_operation = op, rc_completed = Some res\<rparr>
       | None \<Rightarrow>
         tx_seq (ensure (\<not> (\<not> hasEstablishedFinancialEffect op \<and> outcome = ReleaseReported \<and>
             (rp_reportType r \<noteq> RT_COMPLETION_DISPUTE \<or> bk_statusBeforeDispute b \<noteq> Some B_AWAITING_CONFIRMATION)))
           (Http 422 ''INVALID_REPORT_OUTCOME''))
        (tx_seq (when_tx (\<not> hasEstablishedFinancialEffect op \<and> moves_money outcome)
            (assertNoOtherBlockingCases (rp_bookingId r) \<lparr>ex_report = Some (rp_id r), ex_cancellation = None, ex_escalation = None\<rparr>))
        (tx_seq (upd_reports (\<lambda>x. rp_id x = rp_id r) (\<lambda>x. x\<lparr>rp_status := RP_UNDER_REVIEW, rp_adminId := Some adminId\<rparr>))
        (ret \<lparr>rc_report = r, rc_booking = b, rc_operation = op, rc_completed = None\<rparr>)))))))))"

definition reserveReportFinancialOutcome :: "key \<Rightarrow> key \<Rightarrow> operation_row dbtx" where
  "reserveReportFinancialOutcome operationId reportId =
     tx_bind (query (\<lambda>s. (find_report reportId s, find_operation operationId s))) (\<lambda>(found, operation).
     tx_bind (expect (Http 404 ''Report not found'') found) (\<lambda>r.
     tx_seq (ensure (rp_status r = RP_UNDER_REVIEW) (Http 409 ''STALE_REPORT''))
    (tx_bind (expect no_operation operation) (\<lambda>op.
     if op_status op = OP_COMPLETED \<or> hasEstablishedFinancialEffect op then ret op
     else tx_seq (assertNoOtherBlockingCases (rp_bookingId r) \<lparr>ex_report = Some (rp_id r), ex_cancellation = None, ex_escalation = None\<rparr>)
         (markAdminResolutionStageInTransaction (op_id op) FINANCIAL_EFFECT_RESERVED)))))"

definition report_reached :: "report_outcome \<Rightarrow> booking_row \<Rightarrow> error + unit" where
  "report_reached outcome b = (case outcome of
       CancelReported \<Rightarrow> if cancelled_cleanly b then Inr ()
         else Inl (Http 409 ''Booking cancellation/refund has not reached a valid final state'')
     | ReleaseReported \<Rightarrow> if bk_status b = B_COMPLETED \<and> bk_paymentStatus b \<in> {P_RELEASED, P_CASH_CONFIRMED} then Inr ()
         else Inl (Http 409 ''Booking completion has not reached a valid final state'')
     | _ \<Rightarrow> Inr ())"

definition report_effects :: "time \<Rightarrow> key \<Rightarrow> key \<Rightarrow> key \<Rightarrow> report_outcome \<Rightarrow> penalty \<Rightarrow> string \<Rightarrow> op_result dbtx" where
  "report_effects now operationId reportId adminId outcome penalty notes =
     tx_bind (query (report_with_booking reportId)) (\<lambda>found.
     tx_bind (expect (Http 409 ''Report changed before finalization'') found) (\<lambda>(r, b).
     tx_seq (ensure (rp_status r = RP_UNDER_REVIEW) (Http 409 ''Report changed before finalization''))
    (tx_seq (lift_sum (report_reached outcome b))
    (tx_bind (applyReportPenalty now r adminId penalty notes) (\<lambda>(applied, note).
     tx_seq (upd_reports (\<lambda>x. rp_id x = rp_id r) (\<lambda>x. x\<lparr>rp_status := (if outcome = Dismiss then RP_DISMISSED else RP_RESOLVED),
        rp_adminId := Some adminId, rp_resolvedAt := Some now\<rparr>))
    (tx_seq (awardBookingCompletionTrust now (rp_bookingId r))
    (tx_seq (if outcome \<in> {Dismiss, ResolveSafety}
       then tx_bind (restoreBookingIfNoBlockingCases now (rp_bookingId r)) (\<lambda>_. ret ()) else ret ())
    (tx_seq (notify (rp_reporterId r) ''Report resolved'')
    (tx_seq (notify (rp_reportedUserId r) (if applied = Warn then ''Official administrator warning'' else ''Report resolved''))
    (tx_seq (audit adminId (Some (rp_reportedUserId r)) (''REPORT_'' @ toUpperCase (report_outcome_text outcome)) (rp_id r))
    (ret (ReportResolved (report_outcome_text outcome) (penalty_text penalty) (penalty_text applied) operationId))))))))))))"

definition finish_report :: "time \<Rightarrow> key \<Rightarrow> key \<Rightarrow> key \<Rightarrow> report_outcome \<Rightarrow> penalty \<Rightarrow> string \<Rightarrow> op_result option dbtx" where
  "finish_report now operationId reportId adminId outcome penalty notes =
     finish_case no_operation operationId (report_effects now operationId reportId adminId outcome penalty notes)"

definition establish_report ::
  "time \<Rightarrow> report_claim \<Rightarrow> key \<Rightarrow> report_outcome \<Rightarrow> error + intent \<Rightarrow> refund_answer \<Rightarrow> (db, unit) process" where
  "establish_report now c adminId outcome intent answer =
     (if moves_money outcome \<and> \<not> hasEstablishedFinancialEffect (rc_operation c)
      then p_bind (transact (reserveReportFinancialOutcome (op_id (rc_operation c)) (rp_id (rc_report c)))) (\<lambda>_.
        p_seq (if outcome = CancelReported
               then performImmediateCancel now (rp_bookingId (rc_report c)) (Some adminId) None intent answer
               else p_bind (settleCompletedBooking now (rp_bookingId (rc_report c)) (ByAdminId adminId)) (\<lambda>_. p_ret ()))
       (p_bind (markAdminResolutionStage (op_id (rc_operation c)) FINANCIAL_EFFECT_ESTABLISHED) (\<lambda>_. p_ret ())))
      else p_bind (markAdminResolutionStage (op_id (rc_operation c)) DECISION_READY) (\<lambda>_. p_ret ()))"

text \<open>The penalty that the stored result names (\<open>|| requestedPenalty\<close>).\<close>

definition applied_text :: "op_result option \<Rightarrow> penalty \<Rightarrow> string" where
  "applied_text result requested = (case result of Some (ReportResolved _ _ applied _) \<Rightarrow> applied | _ \<Rightarrow> penalty_text requested)"

definition publish_report :: "report_claim \<Rightarrow> op_result option \<Rightarrow> penalty \<Rightarrow> unit dbtx" where
  "publish_report c result penalty =
     tx_seq (when_tx (applied_text result penalty \<in> {''suspend'', ''ban''}) (emit (RUser (rp_reportedUserId (rc_report c))) ''forceLogout''
        (if applied_text result penalty = ''ban'' then ''ACCOUNT_BANNED'' else '''')))
    (tx_seq (emit (RUser (rp_reporterId (rc_report c))) ''notification'' ''Report resolved'')
    (tx_seq (emit (RUser (rp_reportedUserId (rc_report c))) ''notification'' ''Report resolved'')
    (tx_seq (for_each (\<lambda>u. emit (RUser u) ''ENGAGEMENT_CHANGED'' '''') [bk_seekerId (rc_booking c), bk_providerId (rc_booking c)])
    (emit REveryone ''ADMIN_MODERATION_CHANGED'' ''''))))"

definition resolveAdminReport ::
  "time \<Rightarrow> key \<Rightarrow> key \<Rightarrow> report_action \<Rightarrow> string \<Rightarrow> penalty \<Rightarrow> error + intent \<Rightarrow> refund_answer \<Rightarrow> (db, op_result option) process" where
  "resolveAdminReport now reportId adminId act notes penalty intent answer =
     p_bind (transact (lift_sum (report_inputs act notes penalty))) (\<lambda>outcome.
     p_bind (transact (claim_report reportId adminId outcome penalty)) (\<lambda>claim.
     if rc_completed claim \<noteq> None then p_ret (rc_completed claim)
     else p_rethrow
       (p_seq (establish_report now claim adminId outcome intent answer)
       (p_bind (transact (finish_report now (op_id (rc_operation claim)) reportId adminId outcome penalty notes)) (\<lambda>result.
        p_seq (transact (publish_report claim result penalty)) (p_ret result))))
       (\<lambda>cause. markAdminResolutionFailed (op_id (rc_operation claim)) cause)))"

subsection \<open>A safety report\<close>

text \<open>The code hashes these parts; two reports have one key when the parts agree.\<close>

definition safetyIncidentKey :: "key \<Rightarrow> key \<Rightarrow> report_reason \<Rightarrow> string \<Rightarrow> report_key" where
  "safetyIncidentKey bookingId reporterId reason description =
     RK_Safety bookingId reporterId reason (toLowerCase (collapse_spaces (trim description)))"

definition safety_eligible :: "booking_status \<Rightarrow> bool" where
  "safety_eligible st \<longleftrightarrow> st \<in> {B_ACCEPTED, B_ONGOING, B_AWAITING_CONFIRMATION, B_UNDER_REVIEW, B_DISPUTED, B_COMPLETED, B_CANCELED}"

definition evidence_prefix :: "key \<Rightarrow> key \<Rightarrow> string" where
  "evidence_prefix bookingId reporterId = ''servicehub/safety/'' @ nat_text bookingId @ ''/'' @ nat_text reporterId @ ''/''"

definition pauses :: "booking_status \<Rightarrow> bool" where
  "pauses st \<longleftrightarrow> st \<in> {B_ACCEPTED, B_ONGOING, B_AWAITING_CONFIRMATION}"

definition pause_booking :: "time \<Rightarrow> booking_row \<Rightarrow> unit dbtx" where
  "pause_booking now b =
     tx_seq (upd_booking now (bk_id b) (\<lambda>r. r\<lparr>bk_statusBeforeDispute := Some (bk_status b), bk_status := B_DISPUTED,
        bk_paymentStatus := freeze (bk_paymentStatus r)\<rparr>))
     (when_tx (bk_paymentStatus b = P_PAID_HELD) (modify (queues_update (map_rows (\<lambda>q. q_bookingId q = Some (bk_id b))
        (\<lambda>q. q\<lparr>q_paymentStatus := P_FROZEN_HELD\<rparr>)))))"

record safety_opened =
  so_report :: report_row
  so_created :: bool
  so_admins :: "key list"
  so_booking :: booking_row
  so_recorded :: "recorded option"

definition open_safety :: "time \<Rightarrow> booking_row \<Rightarrow> key \<Rightarrow> report_reason \<Rightarrow> report_key \<Rightarrow> safety_opened dbtx" where
  "open_safety now b reporterId reason dedupeKey =
     tx_bind fresh_id (\<lambda>i.
     let r = \<lparr>rp_id = i, rp_bookingId = bk_id b, rp_reporterId = reporterId,
           rp_reportedUserId = (if bk_seekerId b = reporterId then bk_providerId b else bk_seekerId b), rp_reason = reason,
           rp_reportType = RT_SAFETY, rp_dedupeKey = Some dedupeKey, rp_status = RP_PENDING, rp_adminId = None, rp_resolvedAt = None\<rparr>
     in tx_seq (modify (reports_update (\<lambda>rs. rs @ [r])))
       (tx_seq (when_tx (pauses (bk_status b)) (pause_booking now b))
       (tx_bind (recordAdminNotifications ''Safety report requires review'') (\<lambda>admins.
        tx_bind (if pauses (bk_status b)
          then tx_bind (recordLifecycleNotice (parties b) [plain_notice (bk_seekerId b) ''Booking under review'',
              plain_notice (bk_providerId b) ''Booking under review''] None) (\<lambda>recd. ret (Some recd))
          else ret None) (\<lambda>recd.
        ret \<lparr>so_report = r, so_created = True, so_admins = admins, so_booking = b, so_recorded = recd\<rparr>)))))"

definition file_safety :: "time \<Rightarrow> key \<Rightarrow> key \<Rightarrow> report_reason \<Rightarrow> string \<Rightarrow> string option \<Rightarrow> safety_opened dbtx" where
  "file_safety now bookingId reporterId reason description evidence =
     (let dedupeKey = safetyIncidentKey bookingId reporterId reason description in
      tx_bind (query (\<lambda>s. (find_booking bookingId s,
         List.find (\<lambda>r. rp_dedupeKey r = Some dedupeKey \<and> report_active r) (rev (reports s))))) (\<lambda>(found, existing).
      tx_bind (expect (Http 404 ''Booking not found or access denied'') found) (\<lambda>b.
      tx_seq (ensure (reporterId \<in> {bk_seekerId b, bk_providerId b}) (Http 404 ''Booking not found or access denied''))
     (tx_seq (assertActiveMarketplaceAccount reporterId)
     (tx_seq (ensure (safety_eligible (bk_status b)) (Http 409 ''This booking is not eligible for a safety report''))
     (tx_seq (ensure (\<not> (\<not> bk_started b \<and> reason \<in> {POOR_SERVICE_QUALITY, INCOMPLETE_SERVICE}))
         (Http 409 ''Service quality and incomplete-service reports are available only after the provider starts the job.''))
     (tx_seq (assertNoRefundInProgress (bk_id b))
     (tx_seq (assertNoFinancialResolutionReserved (bk_id b) None)
     (tx_seq (ensure (truthy evidence \<longrightarrow> take (length (evidence_prefix (bk_id b) reporterId)) (the evidence) =
           evidence_prefix (bk_id b) reporterId) (Http 403 ''Safety evidence does not belong to this booking participant''))
     (case existing of
       Some r \<Rightarrow> ret \<lparr>so_report = r, so_created = False, so_admins = [], so_booking = b, so_recorded = None\<rparr>
     | None \<Rightarrow> open_safety now b reporterId reason dedupeKey))))))))))"

definition createSafetyReport ::
  "time \<Rightarrow> key \<Rightarrow> key \<Rightarrow> report_reason \<Rightarrow> string \<Rightarrow> string option \<Rightarrow> (db, report_row \<times> bool) process" where
  "createSafetyReport now bookingId reporterId reason description evidence =
     p_bind (transact (file_safety now bookingId reporterId reason description evidence)) (\<lambda>r.
     p_seq (if so_created r then transact (
          tx_seq (for_each (\<lambda>a. emit (RUser a) ''notification'' ''Safety report requires review'') (so_admins r))
         (tx_seq (emit RAdmin ''ADMIN_MODERATION_CHANGED'' ''safety_report'')
         (case so_recorded r of
            Some recd \<Rightarrow> publishLifecycleChange (parties (so_booking r)) ''safety_report'' recd False
          | None \<Rightarrow> for_each (\<lambda>u. emit (RUser u) ''ENGAGEMENT_CHANGED'' ''safety_report'')
              [bk_seekerId (so_booking r), bk_providerId (so_booking r)])))
        else p_ret ())
     (p_ret (so_report r, so_created r)))"


subsection \<open>What the operations keep\<close>

lemma still_report_parts [still_rules]:
  "still.stays (checkReportPenalty u adm p res c)" "still.stays (moderate now u p)" "still.stays (applyReportPenalty now r adm p nts)"
  "still.stays (decide_report r b ex adm out p)" "still.stays (report_effects now op i adm out p nts)"
proof -
  show 1: "still.stays (checkReportPenalty u adm p res c)" for u adm p res c unfolding checkReportPenalty_def by (intro still_rules)
  show 2: "still.stays (moderate now u p)" for u p unfolding moderate_def by (intro still_rules)
  show 3: "still.stays (applyReportPenalty now r adm p nts)" for r p
    unfolding applyReportPenalty_def by (intro still_rules 1 2 | simp split: penalty.split | safe)+
  show "still.stays (decide_report r b ex adm out p)" unfolding decide_report_def by (intro still_rules 1)
  show "still.stays (report_effects now op i adm out p nts)" unfolding report_effects_def by (intro still_rules 3)
qed

lemma quiet_publish_report: "quiet.stays (publish_report c r p)"
  unfolding publish_report_def by (intro quiet_rules)

lemma still_safety [still_rules]: "still.stays (file_safety now b k why d ev)"
proof -
  have 1: "still.stays (pause_booking now b)" for b unfolding pause_booking_def by (intro still_rules)
  have 2: "still.stays (assertActiveMarketplaceAccount k)" for k
    unfolding assertActiveMarketplaceAccount_def Let_def by (intro still_rules)
  have "still.stays (open_safety now b k why dk)" for b dk unfolding open_safety_def Let_def by (intro still_rules 1)
  then show ?thesis unfolding file_safety_def Let_def by (intro still_rules 2)
qed

lemmas ops_report_parts [ops_rules] = still_report_parts [THEN ops_still] still_safety [THEN ops_still]

lemma ops_claim_report [ops_rules]: "ops.stays (claim_report i adm out p)" "ops.stays (reserveReportFinancialOutcome op i)"
  unfolding claim_report_def reserveReportFinancialOutcome_def by (intro ops_rules)+

lemma keeps_uncompleted_report: "keeps (uncompleted j) (reserveReportFinancialOutcome op i)"
  unfolding reserveReportFinancialOutcome_def
  by (intro tx_pres keeps_uncompleted_mark keeps_uncompleted_still still_rules)

lemma safety_keeps_ops: "p_keeps (ops_rel s0) (createSafetyReport now b k why d ev)"
  unfolding createSafetyReport_def by (intro p_shape p_ops ops_rules)

lemma claim_report_new:
  "gives (\<lambda>s. ops_wf s \<and> undecided CT_REPORT i s)
     (\<lambda>c t. rc_completed c = None \<and> found_open (rc_operation c) t) (claim_report i adm out p)"
proof (rule gives_start)
  let ?Q = "\<lambda>c t. rc_completed c = None \<and> found_open (rc_operation c) t" let ?P = "\<lambda>s. ops_wf s \<and> undecided CT_REPORT i s"
  fix s assume s: "?P s"
  have checks: "gives ((=) s) (\<lambda>_. ?P) m" if "still.stays m" for m :: "unit dbtx"
    unfolding gives_def using s still.staysD[OF that]
    by (auto simp: still_rel_def ops_wf_def undecided_def operation_of_def intro: less_le_trans)
  show "gives ((=) s) ?Q (claim_report i adm out p)"
    unfolding claim_report_def
  proof (rule gives_query, rule gives_prod, rule gives_expect, rule gives_prod, rule gives_ensure, rule gives_if)
    fix found existing x r b
    assume v: "(report_with_booking i s, operation_of CT_REPORT i s) = (found, existing)" "found = Some x" "x = (r, b)"
    have r: "rp_id r = i" using v by (auto simp: report_with_booking_def find_report_def split: option.splits dest: find_row_Some)
    show "gives ((=) s) ?Q (case existing of None \<Rightarrow> fail (Http 409 ''Report has already been resolved'')
       | Some op \<Rightarrow> tx_seq (ensure (op_status op = OP_COMPLETED) (Http 409 ''Report has already been resolved''))
           (ret \<lparr>rc_report = r, rc_booking = b, rc_operation = op, rc_completed = op_result op\<rparr>))"
      by (intro gives_head) (use s v in \<open>simp add: undecided_def\<close>)
    show "gives ((=) s) ?Q (tx_seq (decide_report r b existing adm out p)
      (tx_bind (beginAdminResolution CT_REPORT (rp_id r) (rp_bookingId r) adm (report_outcome_text out) (Some (penalty_text p))) (\<lambda>begun.
       tx_bind (if moves_money out then reconcileReservedFinancialEffect begun (report_outcome_text out) else ret begun) (\<lambda>op.
       case completedResolutionResult op of
         Some res \<Rightarrow> ret \<lparr>rc_report = r, rc_booking = b, rc_operation = op, rc_completed = Some res\<rparr>
       | None \<Rightarrow>
         tx_seq (ensure (\<not> (\<not> hasEstablishedFinancialEffect op \<and> out = ReleaseReported \<and>
             (rp_reportType r \<noteq> RT_COMPLETION_DISPUTE \<or> bk_statusBeforeDispute b \<noteq> Some B_AWAITING_CONFIRMATION)))
           (Http 422 ''INVALID_REPORT_OUTCOME''))
        (tx_seq (when_tx (\<not> hasEstablishedFinancialEffect op \<and> moves_money out)
            (assertNoOtherBlockingCases (rp_bookingId r) \<lparr>ex_report = Some (rp_id r), ex_cancellation = None, ex_escalation = None\<rparr>))
        (tx_seq (upd_reports (\<lambda>x. rp_id x = rp_id r) (\<lambda>x. x\<lparr>rp_status := RP_UNDER_REVIEW, rp_adminId := Some adm\<rparr>))
        (ret \<lparr>rc_report = r, rc_booking = b, rc_operation = op, rc_completed = None\<rparr>)))))))"
      unfolding r
      by (rule gives_seq[OF checks], intro still_rules, rule gives_bind[OF gives_begin],
          rule gives_bind[of _ found_open], rule gives_if, rule gives_reconcile, rule gives_ret, assumption,
          rule found_case, rule gives_ensure, rule gives_tail, intro still_rules, rule gives_tail, intro still_rules, rule gives_ret, simp)
  qed
qed

interpretation report_decision: decision CT_REPORT i "claim_report i adm out p" rc_operation rc_completed
  "\<lambda>c. establish_report now c adm out it ra" "\<lambda>c. finish_report now (op_id (rc_operation c)) i adm out p nts"
  "\<lambda>c. report_effects now (op_id (rc_operation c)) i adm out p nts" "\<lambda>c r. publish_report c r p"
  for now i adm out p nts it ra
proof unfold_locales
  show "ops.stays (claim_report i adm out p)" by (intro ops_rules)
  show "gives (\<lambda>s. ops_wf s \<and> undecided CT_REPORT i s)
     (\<lambda>c t. rc_completed c = None \<and> found_open (rc_operation c) t) (claim_report i adm out p)" by (rule claim_report_new)
  show "p_keeps (ops_rel s0) (establish_report now c adm out it ra)" for s0 c
    unfolding establish_report_def by (intro p_shape p_ops_settle p_ops_cancel p_ops_marks p_ops ops_rules)
  show "p_keeps (uncompleted j) (establish_report now c adm out it ra)" for j c
    unfolding establish_report_def
    by (intro p_shape p_uncompleted_settle p_uncompleted_cancel p_uncompleted_mark p_keeps_transact keeps_uncompleted_report)
  show "still.stays (report_effects now (op_id (rc_operation c)) i adm out p nts)" for c by (intro still_rules)
  show "finish_report now (op_id (rc_operation c)) i adm out p nts s = Inr (r, s') \<Longrightarrow>
      finish_operation (op_id (rc_operation c)) True (report_effects now (op_id (rc_operation c)) i adm out p nts) s = Inr (r, s')" for c s r s'
    unfolding finish_report_def by (rule finish_case_Inr)
  show "quiet.stays (publish_report c r p)" for c r by (rule quiet_publish_report)
qed

lemma resolveReport_decides:
  "resolveAdminReport now i adm act nts p it ra s = (Inr r, s') \<longleftrightarrow>
     (\<exists>out. report_inputs act nts p = Inr out \<and> report_decision.decide i adm out p now it ra nts s = (Inr r, s'))"
  unfolding resolveAdminReport_def report_decision.decide_def p_lift_first by (simp del: not_None_eq)


subsection \<open>The report is closed\<close>

definition moved_money :: "report_outcome \<Rightarrow> booking_row \<Rightarrow> bool" where
  "moved_money outcome b \<longleftrightarrow> (case outcome of CancelReported \<Rightarrow> cancelled_cleanly b
     | ReleaseReported \<Rightarrow> bk_status b = B_COMPLETED \<and> bk_paymentStatus b \<in> {P_RELEASED, P_CASH_CONFIRMED} | _ \<Rightarrow> True)"

lemma report_reached_moved: "report_reached outcome b = Inr u \<longleftrightarrow> moved_money outcome b"
  by (auto simp: report_reached_def moved_money_def split: report_outcome.splits)

lemma find_upd_reports:
  assumes "upd_reports (\<lambda>x. rp_id x = i) f s = Inr (u, s')" "\<And>x. rp_id (f x) = rp_id x" "find_report i s = Some r"
  shows "find_report i s' = Some (f r)" "bookings s' = bookings s"
  using assms by (auto simp: upd_reports_def modify_Inr find_report_def)

lemma quiet_case_penalty:
  "quiet.stays a \<Longrightarrow> quiet.stays b \<Longrightarrow> quiet.stays c \<Longrightarrow> quiet.stays d \<Longrightarrow> quiet.stays e \<Longrightarrow>
   quiet.stays (case p of NoPenalty \<Rightarrow> a | Warn \<Rightarrow> b | TrustDeduct \<Rightarrow> c | Suspend \<Rightarrow> d | Ban \<Rightarrow> e)"
  by (cases p) simp_all

lemma quiet_penalty: "quiet.stays (applyReportPenalty now r adm p notesText)"
proof -
  have "quiet.stays (checkReportPenalty u adm p res c)" for u p res c unfolding checkReportPenalty_def by (intro quiet_rules)
  moreover have "quiet.stays (moderate now u p)" for u p unfolding moderate_def by (intro quiet_rules)
  ultimately show ?thesis
    unfolding applyReportPenalty_def by (intro quiet_rules quiet_case_penalty)
qed

lemma report_effects_reached:
  assumes "report_effects now op i adm out p nts s = Inr (x, s')"
  shows "\<exists>r b applied. find_report i s' = Some r \<and> rp_status r = (if out = Dismiss then RP_DISMISSED else RP_RESOLVED) \<and>
    rp_adminId r = Some adm \<and> (moves_money out \<longrightarrow> find_booking (rp_bookingId r) s' = Some b) \<and> moved_money out b \<and>
    x = ReportResolved (report_outcome_text out) (penalty_text p) (penalty_text applied) op"
proof -
  let ?f = "\<lambda>x. x\<lparr>rp_status := (if out = Dismiss then RP_DISMISSED else RP_RESOLVED), rp_adminId := Some adm, rp_resolvedAt := Some now\<rparr>"
  let ?restore = "\<lambda>r. if out \<in> {Dismiss, ResolveSafety} then tx_bind (restoreBookingIfNoBlockingCases now (rp_bookingId r)) (\<lambda>_. ret ()) else ret ()"
  let ?tail = "\<lambda>r applied. tx_seq (notify (rp_reporterId r) ''Report resolved'')
    (tx_seq (notify (rp_reportedUserId r) (if applied = Warn then ''Official administrator warning'' else ''Report resolved''))
    (tx_seq (audit adm (Some (rp_reportedUserId r)) (''REPORT_'' @ toUpperCase (report_outcome_text out)) (rp_id r))
    (ret (ReportResolved (report_outcome_text out) (penalty_text p) (penalty_text applied) op))))"
  from assms obtain r b y applied nt s1 u s2 v s3 w s4 where f: "report_with_booking i s = Some (r, b)" "report_reached out b = Inr y"
    and pen: "applyReportPenalty now r adm p nts s = Inr ((applied, nt), s1)"
    and up: "upd_reports (\<lambda>x. rp_id x = rp_id r) ?f s1 = Inr (u, s2)"
    and aw: "awardBookingCompletionTrust now (rp_bookingId r) s2 = Inr (v, s3)"
    and re: "?restore r s3 = Inr (w, s4)" and rest: "?tail r applied s4 = Inr (x, s')"
    unfolding report_effects_def tx_bind_query tx_bind_Inr[of "expect _ _"] expect_Inr split_paired_Ex prod.case
      tx_seq_Inr[of "ensure _ _"] ensure_Inr tx_seq_Inr[of "lift_sum _"] lift_sum_Inr tx_bind_Inr[of "applyReportPenalty _ _ _ _ _"]
      tx_seq_Inr[of "upd_reports _ _"] tx_seq_Inr[of "awardBookingCompletionTrust _ _"] tx_seq_Inr[of "if _ then _ else _"] by blast
  have r: "find_report i s = Some r" "find_booking (rp_bookingId r) s = Some b" "rp_id r = i"
    using f(1) by (auto simp: report_with_booking_def find_report_def split: option.splits dest: find_row_Some)
  have q1: "quiet_rel s s1" by (rule quiet.staysD[OF quiet_penalty pen])
  have r1: "find_report i s1 = Some r" "bookings s1 = bookings s" using r(1) quiet_core[OF q1] by (simp_all add: find_report_def)
  note w2 = find_upd_reports[OF up[unfolded r(3)] _ r1(1)]
  have aq: "quiet.stays (awardBookingCompletionTrust now (rp_bookingId r))" by (intro quiet_rules)
  have q3: "quiet_rel s2 s3" by (rule quiet.staysD[OF aq aw])
  have st: "quiet.stays (?tail r applied)" by (intro quiet_rules)
  have q4: "quiet_rel s4 s'" by (rule quiet.staysD[OF st rest])
  have rr: "reports s4 = reports s3"
    using re by (auto simp: restoreBookingIfNoBlockingCases_def Let_def upd_booking_def tx_iff split: if_splits option.splits)
  have "find_report i s' = Some (?f r)" using w2(1) quiet_core[OF q3] quiet_core[OF q4] rr by (simp add: find_report_def)
  moreover have "find_booking (rp_bookingId r) s' = Some b" if "moves_money out"
  proof -
    have "s4 = s3" using re that by (auto simp: moves_money_def ret_Inr)
    then show ?thesis using r(2) r1(2) w2(2) quiet_core[OF q3] quiet_core[OF q4] by (simp add: find_booking_def)
  qed
  moreover have "x = ReportResolved (report_outcome_text out) (penalty_text p) (penalty_text applied) op"
    using rest by (auto simp: tx_seq_Inr ret_Inr)
  ultimately show ?thesis using f(2) by (intro exI[of _ "?f r"] exI[of _ b] exI[of _ applied]) (simp add: report_reached_moved)
qed

text \<open>C6: A report that an administrator decides is closed with its money where the decision says: when the
  decision returns, the report is dismissed or resolved as asked, a booking that the decision cancels is
  cancelled with its cash never due or its payment refunded, one that it releases is completed and paid out,
  and the operation is completed with the returned result.\<close>

theorem report_decided:
  assumes "resolveAdminReport now i adm act nts p it ra s = (Inr r, s')" "ops_wf s" "undecided CT_REPORT i s"
  shows "\<exists>out rep b applied op. report_inputs act nts p = Inr out \<and> find_report i s' = Some rep \<and>
    rp_status rep = (if out = Dismiss then RP_DISMISSED else RP_RESOLVED) \<and> rp_adminId rep = Some adm \<and>
    (moves_money out \<longrightarrow> find_booking (rp_bookingId rep) s' = Some b) \<and> moved_money out b \<and>
    r = Some (ReportResolved (report_outcome_text out) (penalty_text p) (penalty_text applied) (op_id op)) \<and>
    find_operation (op_id op) s' = Some op \<and> op_status op = OP_COMPLETED \<and> op_result op = r"
proof -
  from assms(1) obtain out where out: "report_inputs act nts p = Inr out"
    "report_decision.decide i adm out p now it ra nts s = (Inr r, s')" unfolding resolveReport_decides by blast
  from report_decision.decide_closes[OF out(2) assms(2,3)]
  obtain c :: report_claim and t1 x t2 op where eff: "report_effects now (op_id (rc_operation c)) i adm out p nts t1 = Inr (x, t2)"
    and r: "r = Some x" and same: "cases_of s' = cases_of t2"
    and op: "find_operation (op_id (rc_operation c)) s' = Some op" "op_status op = OP_COMPLETED" "op_result op = r" by blast
  have "op_id op = op_id (rc_operation c)" by (rule find_operation_id[OF op(1)])
  moreover have "find_report i s' = find_report i t2" "find_booking k s' = find_booking k t2" for k
    using same by (simp_all add: cases_of_def find_report_def find_booking_def)
  ultimately show ?thesis using report_effects_reached[OF eff] op r out(1) by (metis (no_types, lifting))
qed

subsection \<open>The penalty\<close>

definition standing_of :: "key \<Rightarrow> db \<Rightarrow> (account_moderation \<times> time option) option" where
  "standing_of k s = map_option (\<lambda>u. (u_moderationStatus u, u_suspendedUntil u)) (find_user k s)"

lemma standing_trust [tx_pres]:
  "keeps (\<lambda>s. standing_of k s = c) (applyTrustEventInTransaction now i)" "keeps (\<lambda>s. standing_of k s = c) (notify u t)"
  "keeps (\<lambda>s. standing_of k s = c) (audit a tg act res)"
proof -
  show "keeps (\<lambda>s. standing_of k s = c) (applyTrustEventInTransaction now i)"
    by (rule keepsI) (auto simp: applyTrustEvent_Inr trust_written_def standing_of_def find_user_def option.map_comp o_def split: option.splits)
qed (auto simp: keeps_def notify_def audit_def fresh_id_def tx_iff standing_of_def find_user_def)

lemma standing_penalty: "keeps (\<lambda>s. standing_of k s = c) (applyBookingTrustPenalty now b u a ek f r)"
  unfolding applyBookingTrustPenalty_def by (auto split: trust_result.splits intro!: tx_pres)

lemma checkReportPenalty_Inr:
  assumes "checkReportPenalty u adm p True None s = Inr ((applied, nt), s')"
  shows "s' = s \<and> applied \<in> set (allowedReportPenalties (find_user u s) adm) \<and> (if nt then applied = NoPenalty \<and> p \<noteq> NoPenalty else applied = p)"
proof -
  have no: "NoPenalty \<in> set (allowedReportPenalties v adm)" for v by (auto simp: allowedReportPenalties_def split: option.splits)
  from assms no show ?thesis by (auto simp: checkReportPenalty_def tx_iff split: if_splits)
qed

lemma moderate_standing:
  assumes "moderate now u p s = Inr (x, s')" "find_user u s \<noteq> None"
  shows "standing_of k s' = (if k = u then Some (if p = Ban then M_BANNED else M_SUSPENDED, if p = Suspend then Some (now + SUSPENSION_MS) else None)
     else standing_of k s)"
  using assms by (auto simp: moderate_def upd_user_def modify_Inr standing_of_def find_user_def)

text \<open>A report penalises only the reported account, and only as its standing allows: the penalty that is
  applied is the requested one or, when the account no longer allows that, none; a suspension ends after
  seven days, a ban does not end, every other account keeps its standing, and an administrator, an inactive
  account and the deciding administrator are never suspended or banned.\<close>

lemma report_penalty_policy:
  assumes "applyReportPenalty now r adm p nts s = Inr ((applied, nt), s')"
  shows "applied \<in> {p, NoPenalty} \<and> applied \<in> set (allowedReportPenalties (find_user (rp_reportedUserId r) s) adm) \<and>
    (\<forall>k. standing_of k s' = (if k = rp_reportedUserId r \<and> applied = Suspend then Some (M_SUSPENDED, Some (now + SUSPENSION_MS))
       else if k = rp_reportedUserId r \<and> applied = Ban then Some (M_BANNED, None) else standing_of k s)) \<and>
    (\<forall>u. find_user (rp_reportedUserId r) s = Some u \<longrightarrow> u_role u \<noteq> R_User \<or> \<not> u_isActive u \<or> u_id u = adm \<longrightarrow>
       standing_of (rp_reportedUserId r) s' = standing_of (rp_reportedUserId r) s)"
proof -
  let ?u = "rp_reportedUserId r"
  let ?m = "case applied of
         TrustDeduct \<Rightarrow> tx_bind (applyBookingTrustPenalty now (rp_bookingId r) ?u adm (TK_Report (rp_id r)) False
             (''Confirmed serious misconduct: '' @ nts)) (\<lambda>_. ret ())
       | Suspend \<Rightarrow> moderate now ?u Suspend
       | Ban \<Rightarrow> tx_seq (moderate now ?u Ban) (audit adm (Some ?u) ''USER_BANNED'' ?u)
       | _ \<Rightarrow> ret ()"
  from assms obtain s1 x where ck: "checkReportPenalty ?u adm p True None s = Inr ((applied, nt), s1)" and m: "?m s1 = Inr (x, s')"
    by (auto simp: applyReportPenalty_def tx_bind_Inr[of "checkReportPenalty _ _ _ _ _"] tx_seq_Inr ret_Inr)
  note c = checkReportPenalty_Inr[OF ck]
  have some: "find_user ?u s \<noteq> None" if "applied \<noteq> NoPenalty" using c that by (auto simp: allowedReportPenalties_def split: option.splits)
  have st: "standing_of k s' = (if k = ?u \<and> applied = Suspend then Some (M_SUSPENDED, Some (now + SUSPENSION_MS))
       else if k = ?u \<and> applied = Ban then Some (M_BANNED, None) else standing_of k s)" for k
  proof (cases applied)
    case TrustDeduct
    then obtain y where "applyBookingTrustPenalty now (rp_bookingId r) ?u adm (TK_Report (rp_id r)) False
             (''Confirmed serious misconduct: '' @ nts) s = Inr (y, s')" using m c by (auto simp: tx_bind_Inr ret_Inr)
    from keepsD[OF standing_penalty[of k "standing_of k s"] this] TrustDeduct show ?thesis by simp
  next
    case Suspend
    then have "moderate now ?u Suspend s = Inr (x, s')" using m c by simp
    from moderate_standing[OF this some] Suspend show ?thesis by simp
  next
    case Ban
    then obtain y t where mo: "moderate now ?u Ban s = Inr (y, t)" and au: "audit adm (Some ?u) ''USER_BANNED'' ?u t = Inr (x, s')"
      using m c by (auto simp: tx_seq_Inr)
    from keepsD[OF standing_trust(3)[of k "standing_of k t"] au] moderate_standing[OF mo some] Ban show ?thesis by simp
  qed (use m c in \<open>simp_all add: ret_Inr\<close>)
  have "applied \<notin> {Suspend, Ban}" if "find_user ?u s = Some u" "u_role u \<noteq> R_User \<or> \<not> u_isActive u \<or> u_id u = adm" for u
    using c that by (auto simp: allowedReportPenalties_def split: if_splits)
  with st c show ?thesis by (auto split: if_splits)
qed


definition sample_report :: report_row where
  "sample_report = \<lparr>rp_id = 41, rp_bookingId = 5, rp_reporterId = 1, rp_reportedUserId = 2, rp_reason = INAPPROPRIATE_BEHAVIOR,
     rp_reportType = RT_SAFETY, rp_dedupeKey = None, rp_status = RP_PENDING, rp_adminId = None, rp_resolvedAt = None\<rparr>"

definition sample_report_db :: db where
  "sample_report_db = sample_ready_db\<lparr>reports := [sample_report]\<rparr>"

lemma sample_reported: "ops_wf sample_report_db" "undecided CT_REPORT 41 sample_report_db"
  by (simp_all add: ops_wf_def undecided_def operation_of_def sample_report_db_def sample_ready_db_def empty_db_def)

theorem report_decided_witness:
  "\<exists>r s' b. resolveAdminReport 9 41 8 ApproveRefund ''proved'' Warn (Inr sample_intent) (Inr (''ref_1'', ''pending'')) sample_report_db = (Inr r, s') \<and>
     find_booking 5 s' = Some b \<and> cancelled_cleanly b"
proof -
  let ?m = "resolveAdminReport 9 41 8 ApproveRefund ''proved'' Warn (Inr sample_intent) (Inr (''ref_1'', ''pending'')) sample_report_db"
  have ok: "\<not> isl (fst ?m) \<and> map_option rp_bookingId (find_report 41 (snd ?m)) = Some 5" by code_simp
  obtain r s' where run: "?m = (Inr r, s')" using ok by (cases "fst ?m") (auto simp: prod_eq_iff)
  from report_decided[OF run sample_reported] obtain out rep b where o: "report_inputs ApproveRefund ''proved'' Warn = Inr out"
    "find_report 41 s' = Some rep" "moves_money out \<longrightarrow> find_booking (rp_bookingId rep) s' = Some b" "moved_money out b" by blast
  have "out = CancelReported" using o(1) by (simp add: report_inputs_def action_outcome_def)
  with o ok run show ?thesis by (auto simp: moves_money_def moved_money_def)
qed


subsection \<open>What a safety report does\<close>

abbreviation open_incident :: "key \<Rightarrow> key \<Rightarrow> report_reason \<Rightarrow> string \<Rightarrow> db \<Rightarrow> report_row option" where
  "open_incident i k why d s \<equiv>
     List.find (\<lambda>r. rp_dedupeKey r = Some (safetyIncidentKey i k why d) \<and> report_active r) (rev (reports s))"

lemma file_safety_parts:
  assumes "file_safety now i k why d ev s = Inr (r, s')"
  obtains b where "find_booking i s = Some b" "k \<in> {bk_seekerId b, bk_providerId b}" "safety_eligible (bk_status b)"
    "open_incident i k why d s = Some (so_report r)" "\<not> so_created r" "s' = s"
  | b where "find_booking i s = Some b" "k \<in> {bk_seekerId b, bk_providerId b}" "safety_eligible (bk_status b)"
    "open_incident i k why d s = None" "open_safety now b k why (safetyIncidentKey i k why d) s = Inr (r, s')"
proof -
  let ?rest = "\<lambda>b. case open_incident i k why d s of
       Some r \<Rightarrow> ret \<lparr>so_report = r, so_created = False, so_admins = [], so_booking = b, so_recorded = None\<rparr>
     | None \<Rightarrow> open_safety now b k why (safetyIncidentKey i k why d)"
  from assms obtain b u s1 v s2 w s3 where b: "find_booking i s = Some b" "k \<in> {bk_seekerId b, bk_providerId b}" "safety_eligible (bk_status b)"
    and g: "assertActiveMarketplaceAccount k s = Inr (u, s1)" "assertNoRefundInProgress (bk_id b) s1 = Inr (v, s2)"
      "assertNoFinancialResolutionReserved (bk_id b) None s2 = Inr (w, s3)" and rest: "?rest b s3 = Inr (r, s')"
    unfolding file_safety_def Let_def tx_bind_query prod.case tx_bind_Inr[of "expect _ _"] expect_Inr tx_seq_Inr ensure_Inr by blast
  have "s3 = s" using g by (auto simp: assertActiveMarketplaceAccount_Inr dest!: assertNoRefund_same assertNoFinancial_same)
  with rest have rest: "?rest b s = Inr (r, s')" by simp
  show thesis
  proof (cases "open_incident i k why d s")
    case None
    with rest that(2)[OF b] show thesis by simp
  next
    case (Some x)
    with rest that(1)[OF b] show thesis by (simp add: ret_Inr)
  qed
qed

lemma open_safety_effect:
  assumes "open_safety now b k why key s = Inr (r, s')" "find_booking (bk_id b) s = Some b"
  shows "reports s' = reports s @ [so_report r] \<and> so_created r \<and> rp_bookingId (so_report r) = bk_id b \<and>
    rp_reporterId (so_report r) = k \<and> rp_reportType (so_report r) = RT_SAFETY \<and> rp_dedupeKey (so_report r) = Some key \<and>
    report_active (so_report r) \<and>
    rp_reportedUserId (so_report r) = (if bk_seekerId b = k then bk_providerId b else bk_seekerId b) \<and>
    find_booking (bk_id b) s' = Some (if pauses (bk_status b) then b\<lparr>bk_statusBeforeDispute := Some (bk_status b), bk_status := B_DISPUTED,
        bk_paymentStatus := freeze (bk_paymentStatus b), bk_updatedAt := now\<rparr> else b)"
proof -
  define w where "w = \<lparr>rp_id = nextId s, rp_bookingId = bk_id b, rp_reporterId = k,
           rp_reportedUserId = (if bk_seekerId b = k then bk_providerId b else bk_seekerId b), rp_reason = why,
           rp_reportType = RT_SAFETY, rp_dedupeKey = Some key, rp_status = RP_PENDING, rp_adminId = None, rp_resolvedAt = None\<rparr>"
  define s1 where "s1 = reports_update (\<lambda>rs. rs @ [w]) (s\<lparr>nextId := Suc (nextId s)\<rparr>)"
  let ?tail = "tx_bind (recordAdminNotifications ''Safety report requires review'') (\<lambda>admins.
        tx_bind (if pauses (bk_status b)
          then tx_bind (recordLifecycleNotice (parties b) [plain_notice (bk_seekerId b) ''Booking under review'',
              plain_notice (bk_providerId b) ''Booking under review''] None) (\<lambda>recd. ret (Some recd))
          else ret None) (\<lambda>recd.
        ret \<lparr>so_report = w, so_created = True, so_admins = admins, so_booking = b, so_recorded = recd\<rparr>))"
  from assms(1) obtain u s2 where p: "when_tx (pauses (bk_status b)) (pause_booking now b) s1 = Inr (u, s2)"
    and t: "?tail s2 = Inr (r, s')"
    unfolding open_safety_def tx_bind_fresh Let_def w_def[symmetric] tx_seq_modify s1_def[symmetric]
      tx_seq_Inr[of "when_tx _ _"] by blast
  have q: "quiet.stays ?tail" by (intro quiet_rules)
  have q: "quiet_rel s2 s'" by (rule quiet.staysD[OF q t])
  have r: "so_report r = w \<and> so_created r" using t by (auto simp: tx_bind_Inr ret_Inr)
  have s2: "reports s2 = reports s @ [w]"
    using p by (auto simp: pause_booking_def upd_booking_def tx_iff s1_def split: if_splits)
  have "find_booking (bk_id b) s1 = Some b" using assms(2) by (simp add: s1_def find_booking_def)
  then have "find_booking (bk_id b) s2 = Some (if pauses (bk_status b) then b\<lparr>bk_statusBeforeDispute := Some (bk_status b), bk_status := B_DISPUTED,
        bk_paymentStatus := freeze (bk_paymentStatus b), bk_updatedAt := now\<rparr> else b)"
    using p by (auto simp: pause_booking_def upd_booking_def tx_iff find_booking_def split: if_splits)
  then show ?thesis using r s2 quiet_core[OF q] by (simp add: find_booking_def w_def report_active_def)
qed

text \<open>A safety report stops the booking once: a new report names the other participant, is open under its
  incident key, and puts an accepted, ongoing or waiting booking on hold with its status remembered and its
  payment frozen, while any other booking stays as it is; the same report filed again finds the open one
  and writes nothing.\<close>

lemma safety_report_holds_booking:
  assumes "file_safety now i k why d ev s = Inr (r, s')"
  shows "\<exists>b c. find_booking i s = Some b \<and> k \<in> {bk_seekerId b, bk_providerId b} \<and> find_booking i s' = Some c \<and>
    rp_dedupeKey (so_report r) = Some (safetyIncidentKey i k why d) \<and> report_active (so_report r) \<and> so_report r \<in> set (reports s') \<and>
    (so_created r \<longrightarrow> rp_reporterId (so_report r) = k \<and>
       rp_reportedUserId (so_report r) = (if bk_seekerId b = k then bk_providerId b else bk_seekerId b) \<and>
       c = (if pauses (bk_status b) then b\<lparr>bk_statusBeforeDispute := Some (bk_status b), bk_status := B_DISPUTED,
              bk_paymentStatus := freeze (bk_paymentStatus b), bk_updatedAt := now\<rparr> else b)) \<and>
    (\<not> so_created r \<longrightarrow> s' = s) \<and>
    (\<forall>later ev2 r2 s2. file_safety later i k why d ev2 s' = Inr (r2, s2) \<longrightarrow> s2 = s' \<and> \<not> so_created r2)"
proof -
  let ?key = "safetyIncidentKey i k why d"
  let ?p = "\<lambda>r. rp_dedupeKey r = Some ?key \<and> report_active r"
  have again: "s2 = s' \<and> \<not> so_created r2" if "file_safety later i k why d ev2 s' = Inr (r2, s2)" "x \<in> set (reports s')" "?p x" for later ev2 r2 s2 x
    using that(1)
  proof (cases rule: file_safety_parts)
    case (2 b)
    then show ?thesis using that(2,3) by (auto simp: find_None_iff)
  qed simp
  from assms show ?thesis
  proof (cases rule: file_safety_parts)
    case (1 b)
    from 1(4) have x: "so_report r \<in> set (reports s')" "?p (so_report r)"
      unfolding 1(6) find_Some_iff by (metis nth_mem set_rev)+
    then show ?thesis using 1 again by blast
  next
    case (2 b)
    have i: "bk_id b = i" using find_booking_mem[OF 2(1)] by simp
    note e = open_safety_effect[OF 2(5), unfolded i, OF 2(1)]
    have x: "so_report r \<in> set (reports s')" "?p (so_report r)" using e by simp_all
    then show ?thesis using 2(1,2) e again by blast
  qed
qed



subsection \<open>A decision is final\<close>

lemma decisions_keep_ops:
  "p_keeps (ops_rel s0) (resolveAdminBooking now i adm out req it ra)" "p_keeps (ops_rel s0) (resolveAdminReport now i adm act nts p it ra)"
proof -
  show "p_keeps (ops_rel s0) (resolveAdminBooking now i adm out req it ra)"
    unfolding resolveAdminBooking_decides by (rule booking_decision.decide_keeps_ops)
  have "resolveAdminReport now i adm act nts p it ra = p_bind (transact (lift_sum (report_inputs act nts p)))
      (\<lambda>out. report_decision.decide i adm out p now it ra nts)"
    unfolding resolveAdminReport_def report_decision.decide_def by (simp del: not_None_eq)
  then show "p_keeps (ops_rel s0) (resolveAdminReport now i adm act nts p it ra)"
    by (simp only:) (intro p_shape p_ops ops_rules report_decision.decide_keeps_ops)
qed

lemma final_by:
  assumes "p_keeps (ops_rel s) m" "ops_wf s" "find_operation j s = Some op" "op_status op = OP_COMPLETED"
  shows "find_operation j (snd (m s)) = Some op"
  using ops_found[OF p_keepsD[OF assms(1) ops.R_refl] assms(2,3)] assms(4) by (auto simp: op_kept_def)

text \<open>C5: A decision is final: an operation that is completed is never written again, whatever is done
  afterwards to a cancellation, a completion review, a booking or a report: a repeated or contrary decision
  of the same or of another kind, a retry, a new case.\<close>

theorem decision_final:
  assumes "ops_wf s" "find_operation j s = Some op" "op_status op = OP_COMPLETED"
  shows "find_operation j (snd (requestCancellation now b k why it ra s)) = Some op \<and>
    find_operation j (snd (respondToCancellationRequest now i k ap nt it ra s)) = Some op \<and>
    find_operation j (snd (escalateCancellationRequest now i k s)) = Some op \<and>
    find_operation j (snd (adminResolveCancellationRequest now i ap adminNote adm f it ra s)) = Some op \<and>
    find_operation j (snd (repairCompletedParticipantCancellationReport i s)) = Some op \<and>
    find_operation j (snd (createCompletionEscalation now b k why s)) = Some op \<and>
    find_operation j (snd (resolveCompletionEscalation now i adm act it ra s)) = Some op \<and>
    find_operation j (snd (resolveAdminBooking now b adm out req it ra s)) = Some op \<and>
    find_operation j (snd (createSafetyReport now b k rs d ev s)) = Some op \<and>
    find_operation j (snd (resolveAdminReport now i adm ract nts pen it ra s)) = Some op"
  by (intro conjI final_by[OF _ assms] cancellation_keeps_ops escalation_keeps_ops decisions_keep_ops safety_keeps_ops)

theorem decision_final_witness:
  "\<exists>op. find_operation 32 (snd (adminResolveCancellationRequest 9 30 True ''fine'' 9 NoFault (Inl (Http 503 ''down'')) (Inl (Http 503 ''down''))
       sample_decided_db)) = Some op \<and> op_status op = OP_COMPLETED"
proof -
  let ?op = "hd (operations sample_decided_db)"
  have "find_operation 32 sample_decided_db = Some ?op" "op_status ?op = OP_COMPLETED" by code_simp+
  from decision_final[OF sample_decided(1) this, THEN conjunct2, THEN conjunct2, THEN conjunct2, THEN conjunct1,
      of 9 30 True "''fine''" 9 NoFault "Inl (Http 503 ''down'')" "Inl (Http 503 ''down'')"] this(2)
  show ?thesis by blast
qed

end
