(* ===== verification/SH_Money.thy ===== *)
theory SH_Money
  imports SH_Reports
begin

text \<open>
  The money of a booking as an abstract machine, and the simulation that every operation of the code is a
  path of it: what a booking's \<open>paymentStatus\<close>, \<open>paymentMethod\<close> and \<open>status\<close> mean together, over all
  services under src/src/services that write them.

  \<open>pay_typed\<close> is what holds of a booking row at every moment, \<open>money_step\<close> the abstract machine,
  \<open>money_rel\<close> the relation between the states before and after a transaction. Most transactions do not
  write the bookings at all (\<open>desk\<close>); the others write one booking that they have read, and carry the
  reason why it stays typed.
\<close>

subsection \<open>The abstract machine\<close>

datatype money = Unpaid | Held | PaidOut | Returned

inductive money_step :: "money \<Rightarrow> money \<Rightarrow> bool" where
  cash_confirmed: "money_step Unpaid PaidOut"
| released: "money_step Held PaidOut"
| refunded: "money_step Held Returned"

inductive_simps money_step_simps [simp]: "money_step Unpaid m" "money_step Held m" "money_step PaidOut m" "money_step Returned m"

abbreviation money_path :: "money \<Rightarrow> money \<Rightarrow> bool" where
  "money_path \<equiv> money_step\<^sup>*\<^sup>*"

lemma money_path_iff: "money_path a b \<longleftrightarrow> a = b \<or> money_step a b"
proof
  show "money_path a b \<Longrightarrow> a = b \<or> money_step a b"
    by (induction rule: rtranclp_induct) (auto elim!: money_step.cases)
qed auto

fun money_at :: "payment_status \<Rightarrow> money" where
  "money_at P_UNPAID = Unpaid"
| "money_at P_PAID_HELD = Held"
| "money_at P_FROZEN_HELD = Held"
| "money_at P_CASH_CONFIRMED = PaidOut"
| "money_at P_RELEASED = PaidOut"
| "money_at P_REFUNDED = Returned"

abbreviation money_of :: "booking_row \<Rightarrow> money" where
  "money_of b \<equiv> money_at (bk_paymentStatus b)"

lemma held_money: "held p \<longleftrightarrow> money_at p = Held"
  by (cases p) (simp_all add: held_def)

subsection \<open>A well-typed booking\<close>

text \<open>Cash is confirmed with the completion and unpaid otherwise. An online payment is captured before the
  booking exists: it is held until the booking is completed (released) or cancelled (refunded), and the
  booking never waits for an approval. The status remembered for a review is never a final one.\<close>

fun pay_fits :: "pay_method \<Rightarrow> payment_status \<Rightarrow> booking_status \<Rightarrow> booking_status option \<Rightarrow> bool" where
  "pay_fits OnsiteCash p st before \<longleftrightarrow> p = (if st = B_COMPLETED then P_CASH_CONFIRMED else P_UNPAID) \<and>
     before \<notin> {Some B_COMPLETED, Some B_CANCELED}"
| "pay_fits GCash p st before \<longleftrightarrow>
     (if st = B_COMPLETED then p = P_RELEASED else if st = B_CANCELED then p = P_REFUNDED else held p) \<and>
     st \<noteq> B_PENDING_APPROVAL \<and> before \<notin> {Some B_COMPLETED, Some B_CANCELED, Some B_PENDING_APPROVAL}"

definition pay_typed :: "booking_row \<Rightarrow> bool" where
  "pay_typed b \<longleftrightarrow> pay_fits (bk_paymentMethod b) (bk_paymentStatus b) (bk_status b) (bk_statusBeforeDispute b)"

text \<open>What may happen to a booking: its parties, price and method stay, and its money follows the machine.\<close>

definition follows :: "booking_row \<Rightarrow> booking_row \<Rightarrow> bool" where
  "follows b c \<longleftrightarrow> bk_id c = bk_id b \<and> bk_seekerId c = bk_seekerId b \<and> bk_providerId c = bk_providerId b \<and>
     bk_paymentMethod c = bk_paymentMethod b \<and> bk_agreedAmount c = bk_agreedAmount b \<and>
     bk_paymentAttemptId c = bk_paymentAttemptId b \<and> money_path (money_of b) (money_of c)"

lemma follows_refl [simp]: "follows b b"
  by (simp add: follows_def)

lemma follows_trans: "follows a b \<Longrightarrow> follows b c \<Longrightarrow> follows a c"
  by (auto simp: follows_def)

definition pay_wf :: "db \<Rightarrow> bool" where
  "pay_wf s \<longleftrightarrow> distinct (map bk_id (bookings s)) \<and> (\<forall>b \<in> set (bookings s). bk_id b < nextId s \<and> pay_typed b) \<and>
     (\<forall>a \<in> set (attempts s). at_paymentMethod a = GCash)"

definition trail :: "db \<Rightarrow> db \<Rightarrow> bool" where
  "trail s s' \<longleftrightarrow> (\<forall>i b. find_booking i s = Some b \<longrightarrow> (\<exists>c. find_booking i s' = Some c \<and> follows b c))"

definition money_rel :: "db \<Rightarrow> db \<Rightarrow> bool" where
  "money_rel s s' \<longleftrightarrow> (pay_wf s \<longrightarrow> nextId s \<le> nextId s' \<and> pay_wf s' \<and> trail s s')"

lemma trail_refl: "trail s s"
  unfolding trail_def using follows_refl by blast

lemma trail_trans: "trail s t \<Longrightarrow> trail t u \<Longrightarrow> trail s u"
  unfolding trail_def using follows_trans by blast

interpretation money: step_rel money_rel
proof unfold_locales
  show "money_rel s s" for s by (simp add: money_rel_def trail_refl)
  show "money_rel s t \<Longrightarrow> money_rel t u \<Longrightarrow> money_rel s u" for s t u
    unfolding money_rel_def using trail_trans by (meson le_trans)
qed

text \<open>Transactions that write no booking, and no method of an attempt.\<close>

definition all_gcash :: "db \<Rightarrow> bool" where
  "all_gcash s \<longleftrightarrow> (\<forall>a \<in> set (attempts s). at_paymentMethod a = GCash)"

definition desk_rel :: "db \<Rightarrow> db \<Rightarrow> bool" where
  "desk_rel s s' \<longleftrightarrow> bookings s' = bookings s \<and> nextId s \<le> nextId s' \<and> (all_gcash s \<longrightarrow> all_gcash s')"

interpretation desk: step_rel desk_rel
  by unfold_locales (auto simp: desk_rel_def)

lemma trail_same: "bookings s' = bookings s \<Longrightarrow> trail s s'"
  unfolding trail_def find_booking_def using follows_refl by metis

lemma money_desk: "desk_rel s s' \<Longrightarrow> money_rel s s'"
  by (auto simp: desk_rel_def money_rel_def pay_wf_def all_gcash_def intro: trail_same less_le_trans)

lemma money_rewrite:
  assumes "bookings s' = map_rows p f (bookings s)" "nextId s \<le> nextId s'" "all_gcash s \<Longrightarrow> all_gcash s'"
    and f: "\<And>r. pay_wf s \<Longrightarrow> r \<in> set (bookings s) \<Longrightarrow> p r \<Longrightarrow> pay_typed r \<Longrightarrow> pay_typed (f r) \<and> follows r (f r)"
  shows "money_rel s s'"
  unfolding money_rel_def
proof (intro conjI impI)
  assume wf: "pay_wf s"
  let ?g = "\<lambda>r. if p r then f r else r"
  have g: "pay_typed (?g r) \<and> follows r (?g r)" if "r \<in> set (bookings s)" for r
    using f[OF wf that] that wf by (auto simp: pay_wf_def)
  then have id: "bk_id (?g r) = bk_id r" if "r \<in> set (bookings s)" for r using that by (simp add: follows_def)
  have bs: "bookings s' = map ?g (bookings s)" by (simp add: assms(1) map_rows_def)
  have "map bk_id (bookings s') = map bk_id (bookings s)" unfolding bs using id by simp
  then have d: "distinct (map bk_id (bookings s'))" using wf by (simp add: pay_wf_def)
  have "bk_id c < nextId s' \<and> pay_typed c" if "c \<in> set (bookings s')" for c
  proof -
    obtain r where r: "r \<in> set (bookings s)" "c = ?g r" using \<open>c \<in> set (bookings s')\<close> unfolding bs by auto
    then show ?thesis using g[OF r(1)] id[OF r(1)] wf assms(2) by (auto simp: pay_wf_def intro: less_le_trans)
  qed
  then show "pay_wf s'" using d wf assms(3) by (simp add: pay_wf_def all_gcash_def)
  show "nextId s \<le> nextId s'" by (rule assms(2))
  show "trail s s'" unfolding trail_def
  proof (intro allI impI)
    fix i b assume b: "find_booking i s = Some b"
    then have m: "b \<in> set (bookings s)" "bk_id b = i" using find_booking_mem by auto
    have "?g b \<in> set (bookings s')" unfolding bs using m(1) by simp
    from find_row_distinct[OF d this] have "find_booking i s' = Some (?g b)" using id[OF m(1)] m(2) by (simp add: find_booking_def)
    then show "\<exists>c. find_booking i s' = Some c \<and> follows b c" using g[OF m(1)] by blast
  qed
qed

lemma money_add:
  assumes "bookings s' = bookings s @ [r]" "bk_id r = nextId s" "nextId s < nextId s'" "all_gcash s \<Longrightarrow> all_gcash s'" "pay_wf s \<Longrightarrow> pay_typed r"
  shows "money_rel s s'"
  unfolding money_rel_def
proof (intro conjI impI)
  assume wf: "pay_wf s"
  then show "pay_wf s'" using assms by (auto simp: pay_wf_def all_gcash_def intro: less_trans)
  show "nextId s \<le> nextId s'" using assms(3) by simp
  show "trail s s'" unfolding trail_def find_booking_def assms(1) find_row_append by auto
qed

lemma money_of_desk: "desk.stays m \<Longrightarrow> money.stays m"
  by (rule money.staysI) (blast dest: desk.staysD money_desk)

lemma desk_quiet: "quiet.stays m \<Longrightarrow> desk.stays m"
  by (rule desk.staysI) (auto dest!: quiet.staysD simp: desk_rel_def quiet_rel_def core_of_def all_gcash_def)

named_theorems desk_rules \<open>transactions that write no booking\<close>
named_theorems money_rules \<open>transactions that follow the money machine\<close>
declare desk.w_rules [desk_rules] money.w_rules [money_rules]

lemma desk_upd_attempt: "(\<And>a. at_paymentMethod (f a) = at_paymentMethod a) \<Longrightarrow> desk.stays (upd_attempt i f)"
  by (rule desk.staysI) (auto simp: upd_attempt_def modify_Inr desk_rel_def all_gcash_def set_map_rows)

lemma desk_writes [desk_rules]:
  "desk.stays fresh_id" "desk.stays (upd_user i fu)" "desk.stays (upd_request i fr)" "desk.stays (upd_offer i fo)"
  "desk.stays (upd_directRequest i fd)" "desk.stays (upd_refunds pr fr2)" "desk.stays (upd_reports prp frp)"
  "desk.stays (upd_queue i fq)" "desk.stays (upd_cancellation i fc)" "desk.stays (upd_escalations pe fe)"
  "desk.stays (upd_operation i fop)" "desk.stays (upd_operations po fop2)"
  "desk.stays (modify (queues_update g))" "desk.stays (modify (reports_update k))" "desk.stays (modify (refunds_update l3))"
  "desk.stays (modify (completedServices_update l4))" "desk.stays (modify (transactions_update l5))"
  "desk.stays (modify (cancellations_update l6))" "desk.stays (modify (escalations_update l7))"
  "desk.stays (modify (operations_update l8))" "desk.stays (modify (offers_update l9))" "desk.stays (modify (requests_update l10))"
  "desk.stays (modify (directRequests_update l11))" "desk.stays (insert_transaction t)"
  by (rule desk.staysI;
      auto simp: desk_rel_def all_gcash_def fresh_id_def upd_user_def upd_request_def upd_offer_def upd_directRequest_def
      upd_refunds_def upd_reports_def upd_queue_def upd_cancellation_def upd_escalations_def upd_operation_def upd_operations_def tx_iff)+

lemma desk_quiet_parts [desk_rules]:
  "desk.stays (notify u t)" "desk.stays (notify_row n)" "desk.stays (notify_as nk u t)" "desk.stays (audit a tg act res)"
  "desk.stays (emit r e t)" "desk.stays (recordBookingProgress now b k2 ac ek)" "desk.stays (create_notice no)"
  "desk.stays (recordLifecycleNotice ps ns sys)" "desk.stays (recordAdminNotifications tt)"
  "desk.stays (publishLifecycleChange ps t rec q)" "desk.stays (emitWaitlistNotification w)"
  "desk.stays (emitProviderQueueUpdates p sk)" "desk.stays (publishNotifications us t)"
  "desk.stays (notifyWaitlistInTransaction now p)" "desk.stays (assertNoRefundInProgress b)"
  "desk.stays (assertNoOtherBlockingCases b ex)" "desk.stays (assertNoFinancialResolutionReserved b own)"
  "desk.stays (awardBookingCompletionTrust now bk)" "desk.stays (applyBookingTrustPenalty now bk u adm tk f re)"
  "desk.stays (ensureProviderTrial now p)" "desk.stays (assertNewProviderBusiness now p)"
  by (rule desk_quiet, intro quiet_rules)+

lemmas money_desk_writes [money_rules] = desk_writes [THEN money_of_desk] desk_quiet_parts [THEN money_of_desk]

subsection \<open>A transaction that writes a booking it has read\<close>

text \<open>\<open>writes P m\<close>: from a state with \<open>P\<close>, the transaction follows the machine. \<open>at_hand b\<close> is the read booking.\<close>

definition writes :: "(db \<Rightarrow> bool) \<Rightarrow> 'a dbtx \<Rightarrow> bool" where
  "writes P m \<longleftrightarrow> (\<forall>s x s'. P s \<longrightarrow> m s = Inr (x, s') \<longrightarrow> money_rel s s')"

definition at_hand :: "booking_row \<Rightarrow> db \<Rightarrow> bool" where
  "at_hand b s \<longleftrightarrow> find_booking (bk_id b) s = Some b"

lemma writes_start: "(\<And>s. writes ((=) s) m) \<Longrightarrow> money.stays m"
  unfolding writes_def money.stays_def by blast

lemma writes_query: "writes ((=) s) (g (f s)) \<Longrightarrow> writes ((=) s) (tx_bind (query f) g)"
  by (simp add: writes_def tx_bind_query)

lemma writes_ensure: "(c \<Longrightarrow> writes P m) \<Longrightarrow> writes P (tx_seq (ensure c e) m)"
  unfolding writes_def tx_seq_Inr ensure_Inr by blast

lemma writes_expect: "(\<And>x. v = Some x \<Longrightarrow> writes P (g x)) \<Longrightarrow> writes P (tx_bind (expect e v) g)"
  unfolding writes_def tx_bind_Inr expect_Inr by blast

lemma writes_prod: "(\<And>a b. v = (a, b) \<Longrightarrow> writes P (f a b)) \<Longrightarrow> writes P (case v of (a, b) \<Rightarrow> f a b)"
  by (cases v) simp

lemma writes_if: "(c \<Longrightarrow> writes P m) \<Longrightarrow> (\<not> c \<Longrightarrow> writes P n) \<Longrightarrow> writes P (if c then m else n)"
  by simp

lemma writes_option:
  "(v = None \<Longrightarrow> writes P m) \<Longrightarrow> (\<And>x. v = Some x \<Longrightarrow> writes P (f x)) \<Longrightarrow> writes P (case v of None \<Rightarrow> m | Some x \<Rightarrow> f x)"
  by (cases v) simp_all

lemma writes_at: "P s \<Longrightarrow> writes P m \<Longrightarrow> writes ((=) s) m"
  unfolding writes_def by blast

lemma writes_stays: "money.stays m \<Longrightarrow> writes P m"
  unfolding writes_def money.stays_def by blast

lemma writes_same:
  assumes "assertNoRefundInProgress i = m \<or> assertNoFinancialResolutionReserved i own = m" "writes ((=) s) n"
  shows "writes ((=) s) (tx_seq m n)"
  using assms unfolding writes_def tx_seq_Inr by (auto dest!: assertNoRefund_same assertNoFinancial_same)

lemma at_hand_desk: "desk_rel s s' \<Longrightarrow> at_hand b s \<Longrightarrow> at_hand b s'"
  by (simp add: desk_rel_def at_hand_def find_booking_def)

lemma writes_bind_desk:
  assumes m: "desk.stays m" and n: "\<And>x. writes (at_hand b) (g x)"
  shows "writes (at_hand b) (tx_bind m g)"
  unfolding writes_def
proof (intro allI impI)
  fix s x s' assume h: "at_hand b s" and "tx_bind m g s = Inr (x, s')"
  then obtain y t where y: "m s = Inr (y, t)" "g y t = Inr (x, s')" by (auto simp: tx_bind_Inr)
  have d: "desk_rel s t" by (rule desk.staysD[OF m y(1)])
  then have "money_rel t s'" using n[of y] y(2) at_hand_desk[OF d h] unfolding writes_def by blast
  then show "money_rel s s'" using money_desk[OF d] money.R_trans by blast
qed

lemma writes_seq_desk: "desk.stays m \<Longrightarrow> writes (at_hand b) n \<Longrightarrow> writes (at_hand b) (tx_seq m n)"
  unfolding tx_seq_def by (rule writes_bind_desk)

definition sound_for :: "booking_row \<Rightarrow> (booking_row \<Rightarrow> booking_row) \<Rightarrow> bool" where
  "sound_for b f \<longleftrightarrow> (pay_typed b \<longrightarrow> pay_typed (f b) \<and> follows b (f b))"

lemma stamped: "pay_typed (c\<lparr>bk_updatedAt := now\<rparr>) = pay_typed c" "follows b (c\<lparr>bk_updatedAt := now\<rparr>) = follows b c"
  by (simp_all add: pay_typed_def follows_def)

lemma only_row: "pay_wf s \<Longrightarrow> at_hand b s \<Longrightarrow> r \<in> set (bookings s) \<Longrightarrow> bk_id r = bk_id b \<Longrightarrow> r = b"
  unfolding pay_wf_def at_hand_def find_booking_def by (metis find_row_distinct option.inject)

lemma money_upd_booking:
  assumes "upd_booking now (bk_id b) f s = Inr (u, s')" "at_hand b s" "sound_for b f"
  shows "money_rel s s'"
proof (rule money_rewrite)
  show "bookings s' = map_rows (\<lambda>r. bk_id r = bk_id b) (\<lambda>r. (f r)\<lparr>bk_updatedAt := now\<rparr>) (bookings s)" "nextId s \<le> nextId s'"
    "all_gcash s \<Longrightarrow> all_gcash s'"
    using assms(1) by (simp_all add: upd_booking_def modify_Inr all_gcash_def)
  fix r assume "pay_wf s" "r \<in> set (bookings s)" "bk_id r = bk_id b" "pay_typed r"
  then show "pay_typed ((f r)\<lparr>bk_updatedAt := now\<rparr>) \<and> follows r ((f r)\<lparr>bk_updatedAt := now\<rparr>)"
    using only_row[OF _ assms(2)] assms(3) unfolding stamped sound_for_def by blast
qed

lemma writes_upd_only: "sound_for b f \<Longrightarrow> writes (at_hand b) (upd_booking now (bk_id b) f)"
  unfolding writes_def using money_upd_booking by blast

lemma writes_upd: "sound_for b f \<Longrightarrow> money.stays n \<Longrightarrow> writes (at_hand b) (tx_seq (upd_booking now (bk_id b) f) n)"
  unfolding writes_def tx_seq_Inr money.stays_def using money_upd_booking money.R_trans by blast

lemma writes_update_only: "sound_for b f \<Longrightarrow> writes (at_hand b) (update_booking now (bk_id b) f)"
  unfolding writes_def update_booking_def using money_upd_booking by (auto simp: tx_seq_Inr tx_bind_query expect_Inr)

lemma writes_update: "sound_for b f \<Longrightarrow> (\<And>x. money.stays (g x)) \<Longrightarrow> writes (at_hand b) (tx_bind (update_booking now (bk_id b) f) g)"
  unfolding writes_def tx_bind_Inr money.stays_def using writes_update_only[unfolded writes_def] money.R_trans by blast

lemma found_at_hand: "find_booking i s = Some b \<Longrightarrow> at_hand b s"
  using find_booking_mem[of i s b] by (simp add: at_hand_def)

end
