(* ===== verification/SH_Paths.thy ===== *)
theory SH_Paths
  imports SH_Money
begin

text \<open>
  Every transaction follows the money machine of SH_Money: first those that write no booking, then the
  writers of a booking one by one, then the operations that are composed of them.
\<close>

subsection \<open>Bookings that are not written\<close>

lemma desk_refund [desk_rules]:
  "desk.stays (set_request rq st)" "desk.stays (refund_ledger b k i a)" "desk.stays (fail_refund b e)"
  "desk.stays (publish_refund b w)" "desk.stays (refund_precheck b)" "desk.stays (reserve_refund b k p a)"
proof -
  show 1: "desk.stays (set_request rq st)" for rq st unfolding set_request_def by (intro desk_rules)
  show "desk.stays (refund_ledger b k i a)" unfolding refund_ledger_def by (intro desk_rules)
  show "desk.stays (fail_refund b e)" unfolding fail_refund_def by (intro desk_rules)
  show "desk.stays (publish_refund b w)" unfolding publish_refund_def by (intro desk_rules)
  show "desk.stays (refund_precheck b)" unfolding refund_precheck_def Let_def by (intro desk_rules)
  show "desk.stays (reserve_refund b k p a)" unfolding reserve_refund_def Let_def by (intro desk_rules)
qed

lemma desk_cancel [desk_rules]:
  "desk.stays (cancel_precheck b pre)" "desk.stays (cancel_notices bk a)" "desk.stays (close_sources bk rq)"
  "desk.stays (publish_cancel k w r)" "desk.stays (emitCancellationChange bk t)" "desk.stays (repeat_request bk k c)"
  "desk.stays (decline_request now i k note)" "desk.stays (closeParticipantCancellationReport c t2)"
  "desk.stays (finish_immediate now b i)" "desk.stays (repair_report i)" "desk.stays (escalate_request now i k)"
  "desk.stays (admin_open now c bk op ap nt adm)"
proof -
  show "desk.stays (cancel_precheck b pre)" unfolding cancel_precheck_def by (intro desk_rules)
  show "desk.stays (cancel_notices bk a)" unfolding cancel_notices_def Let_def by (intro desk_rules)
  show "desk.stays (close_sources bk rq)" unfolding close_sources_def by (intro desk_rules)
  show "desk.stays (publish_cancel k w r)" unfolding publish_cancel_def by (intro desk_rules)
  show "desk.stays (emitCancellationChange bk t)" unfolding emitCancellationChange_def by (intro desk_rules)
  show "desk.stays (repeat_request bk k c)" unfolding repeat_request_def by (intro desk_rules)
  show "desk.stays (decline_request now i k note)" unfolding decline_request_def by (intro desk_rules)
  show 1: "desk.stays (closeParticipantCancellationReport c t2)" for c t2
    unfolding closeParticipantCancellationReport_def Let_def by (intro desk_rules)
  show "desk.stays (finish_immediate now b i)" unfolding finish_immediate_def by (intro desk_rules)
  show "desk.stays (repair_report i)" unfolding repair_report_def
    by (intro desk_rules 1 | simp split: option.splits | safe)+
  show "desk.stays (escalate_request now i k)" unfolding escalate_request_def Let_def by (intro desk_rules)
  show "desk.stays (admin_open now c bk op ap nt adm)" unfolding admin_open_def by (intro desk_rules)
qed

lemma desk_operations [desk_rules]:
  "desk.stays (beginAdminResolution ct i b a out pen)" "desk.stays (markAdminResolutionStageInTransaction i st)"
  "desk.stays (reconcileReservedFinancialEffect op out)" "desk.stays (complete_operation i cl r)"
  "desk.stays m \<Longrightarrow> desk.stays (finish_operation i cl m)" "desk.stays m \<Longrightarrow> desk.stays (finish_case e i m)"
proof -
  show "desk.stays (beginAdminResolution ct i b a out pen)" unfolding beginAdminResolution_def Let_def by (intro desk_rules)
  show 1: "desk.stays (markAdminResolutionStageInTransaction i st)" for i st
    unfolding markAdminResolutionStageInTransaction_def by (intro desk_rules)
  show "desk.stays (reconcileReservedFinancialEffect op out)" unfolding reconcileReservedFinancialEffect_def by (intro desk_rules 1)
  show 2: "desk.stays (complete_operation i cl r)" for i cl r unfolding complete_operation_def by (intro desk_rules)
  show 3: "desk.stays m \<Longrightarrow> desk.stays (finish_operation i cl m)" for i cl m unfolding finish_operation_def by (intro desk_rules 2)
  show "desk.stays m \<Longrightarrow> desk.stays (finish_case e i m)" unfolding finish_case_def by (intro desk_rules 3)
qed

lemma desk_decisions [desk_rules]:
  "desk.stays (approve_claim now i k note)" "desk.stays (admin_claim now i ap nt adm f)" "desk.stays (finish_approval now cl)"
  "desk.stays (reserveCancellationFinancialOutcome op i)" "desk.stays (claim_escalation i adm act)"
  "desk.stays (create_escalation now b k why)" "desk.stays (finish_escalation now op i adm act)"
  "desk.stays (finish_booking op i adm out)" "desk.stays (publish_resolved i)"
  "desk.stays (claim_report i adm rout p)" "desk.stays (reserveReportFinancialOutcome op i)" "desk.stays (publish_report c r p)"
  "desk.stays (applyReportPenalty now rr adm p nts)"
proof -
  show "desk.stays (approve_claim now i k note)" unfolding approve_claim_def by (intro desk_rules)
  show "desk.stays (admin_claim now i ap nt adm f)" unfolding admin_claim_def by (intro desk_rules)
  show "desk.stays (finish_approval now cl)" unfolding finish_approval_def approval_effects_def by (intro desk_rules)
  show "desk.stays (reserveCancellationFinancialOutcome op i)" unfolding reserveCancellationFinancialOutcome_def by (intro desk_rules)
  show "desk.stays (claim_escalation i adm act)" unfolding claim_escalation_def by (intro desk_rules)
  have "desk.stays (open_escalation now b k why)" for b unfolding open_escalation_def Let_def by (intro desk_rules)
  then show "desk.stays (create_escalation now b k why)" unfolding create_escalation_def by (intro desk_rules)
  show "desk.stays (finish_escalation now op i adm act)" unfolding finish_escalation_def escalation_effects_def by (intro desk_rules)
  show "desk.stays (finish_booking op i adm out)" unfolding finish_booking_def booking_effects_def Let_def by (intro desk_rules)
  show "desk.stays (publish_resolved i)" by (rule desk_quiet[OF quiet_publish_resolved])
  show "desk.stays (publish_report c r p)" by (rule desk_quiet[OF quiet_publish_report])
  show "desk.stays (applyReportPenalty now rr adm p nts)" by (rule desk_quiet[OF quiet_penalty])
  have 1: "desk.stays (checkReportPenalty u adm p res c)" for u c res unfolding checkReportPenalty_def by (intro desk_rules)
  have "desk.stays (decide_report r b ex adm rout p)" for r b ex unfolding decide_report_def by (intro desk_rules 1)
  then show "desk.stays (claim_report i adm rout p)" unfolding claim_report_def by (intro desk_rules)
  show "desk.stays (reserveReportFinancialOutcome op i)" unfolding reserveReportFinancialOutcome_def by (intro desk_rules)
qed

lemma desk_settle_parts [desk_rules]:
  "desk.stays (create_completed c)" "desk.stays (earning i j p net)" "desk.stays (close_escalations now i)" "desk.stays (take_place p q)"
  unfolding create_completed_def earning_def close_escalations_def take_place_def Let_def by (intro desk_rules)+

lemma desk_payments [desk_rules]:
  "desk.stays (releaseOfferHold oi)" "desk.stays (emitOfferPaymentChange a)" "desk.stays (rejectSiblingOffersAndNotify rq ofr)"
  "desk.stays (enqueue now a c pos bk)" "desk.stays (clear_waitlist k p)" "desk.stays (require_refund a opid why)"
  "desk.stays (publish_finalized r)" "desk.stays (fail_attempt i o' why)" "desk.stays (expire_attempt now i)"
  "desk.stays (reserve_attempt_refund a pid)" "desk.stays (close_attempt_refund rr i ans)" "desk.stays (getPaymentAttemptStatus k pin)"
  "desk.stays (record_checkout i ck)"
proof -
  show 1: "desk.stays (releaseOfferHold oi)" for oi unfolding releaseOfferHold_def by (intro desk_rules)
  show "desk.stays (emitOfferPaymentChange a)" unfolding emitOfferPaymentChange_def by (intro desk_rules)
  show "desk.stays (rejectSiblingOffersAndNotify rq ofr)" unfolding rejectSiblingOffersAndNotify_def
    by (intro desk_rules desk_quiet quiet_rules)
  show "desk.stays (enqueue now a c pos bk)" unfolding enqueue_def Let_def by (intro desk_rules)
  show "desk.stays (clear_waitlist k p)" unfolding clear_waitlist_def by (intro desk_rules desk_quiet quiet_rules)
  show "desk.stays (require_refund a opid why)" unfolding require_refund_def by (intro desk_upd_attempt) simp
  show "desk.stays (publish_finalized r)" unfolding publish_finalized_def by (intro desk_rules)
  show "desk.stays (fail_attempt i o' why)" unfolding fail_attempt_def by (intro desk_rules 1 desk_upd_attempt) simp
  show "desk.stays (expire_attempt now i)" unfolding expire_attempt_def by (intro desk_rules 1 desk_upd_attempt) simp
  show "desk.stays (reserve_attempt_refund a pid)" unfolding reserve_attempt_refund_def Let_def by (intro desk_rules)
  show "desk.stays (close_attempt_refund rr i ans)" unfolding close_attempt_refund_def by (intro desk_rules desk_upd_attempt) simp
  show "desk.stays (getPaymentAttemptStatus k pin)" unfolding getPaymentAttemptStatus_def by (intro desk_rules)
  show "desk.stays (record_checkout i ck)" unfolding record_checkout_def by (intro desk_rules desk_upd_attempt) simp
qed


lemmas money_desk_parts [money_rules] = desk_refund [THEN money_of_desk] desk_cancel [THEN money_of_desk]
  desk_operations(1-4) [THEN money_of_desk] desk_decisions [THEN money_of_desk] desk_settle_parts [THEN money_of_desk]
  desk_payments [THEN money_of_desk]

subsection \<open>The writers of a booking\<close>

lemma money_map:
  assumes "\<And>r. p r \<Longrightarrow> pay_typed r \<Longrightarrow> pay_typed (f r) \<and> follows r (f r)"
  shows "money.stays (modify (bookings_update (map_rows p f)))"
proof (rule money.staysI)
  fix s s' :: db and u assume "modify (bookings_update (map_rows p f)) s = Inr (u, s')"
  then have s': "s' = bookings_update (map_rows p f) s" by (simp add: modify_Inr)
  show "money_rel s s'" by (rule money_rewrite[of s' p f]) (use assms in \<open>auto simp: s' all_gcash_def\<close>)
qed

text \<open>The queue position is no part of the payment.\<close>

lemma money_reseat_booking [money_rules]: "money.stays (reseat_booking now b pos)"
  unfolding reseat_booking_def
  by (rule money.w_option, rule money.w_ret, rule money_map) (simp add: pay_typed_def follows_def)

lemma money_reindex [money_rules]: "money.stays (reindex_entries now pos w es)"
  by (induction now pos w es rule: reindex_entries.induct) (auto simp: reseat_def intro!: money_rules)

lemma money_recalculate [money_rules]: "money.stays (recalculateQueueInTransaction now p)"
  unfolding recalculateQueueInTransaction_def reseat_def by (intro money_rules)

lemma money_create_booking:
  assumes "pay_typed b"
  shows "money.stays (create_booking now b)"
proof (rule money.staysI)
  fix s x s' assume "create_booking now b s = Inr (x, s')"
  then have s': "s' = bookings_update (\<lambda>bs. bs @ [b\<lparr>bk_id := nextId s, bk_updatedAt := now\<rparr>]) (s\<lparr>nextId := Suc (nextId s)\<rparr>)"
    by (simp add: create_booking_def tx_bind_fresh Let_def tx_seq_modify ret_Inr)
  show "money_rel s s'" by (rule money_add[of s' s "b\<lparr>bk_id := nextId s, bk_updatedAt := now\<rparr>"]) (use assms in \<open>simp_all add: s' all_gcash_def pay_typed_def\<close>)
qed

lemma sound_forI: "(pay_typed b \<Longrightarrow> pay_typed (f b) \<and> follows b (f b)) \<Longrightarrow> sound_for b f"
  by (simp add: sound_for_def)

lemmas typed_simps = pay_typed_def follows_def money_path_iff

text \<open>A tactic in three rules: the read booking is at hand, writes without the bookings keep it there,
  and the update is sound for it.\<close>

lemma writes_at_hand: "at_hand b s \<Longrightarrow> writes (at_hand b) m \<Longrightarrow> writes ((=) s) m"
  by (rule writes_at)

lemma writes_found: "find_booking i s = Some b \<Longrightarrow> writes (at_hand b) m \<Longrightarrow> writes ((=) s) m"
  by (rule writes_at_hand[OF found_at_hand])

lemma writes_update_at: "find_booking i s = Some b \<Longrightarrow> sound_for b f \<Longrightarrow> writes ((=) s) (update_booking now i f)"
  using find_booking_mem[of i s b] by (auto intro: writes_found writes_update_only)

lemma writes_then: "writes P m \<Longrightarrow> money.stays n \<Longrightarrow> writes P (tx_seq m n)"
  unfolding writes_def tx_seq_Inr money.stays_def using money.R_trans by blast

lemma writes_then_bind: "writes P m \<Longrightarrow> (\<And>x. money.stays (g x)) \<Longrightarrow> writes P (tx_bind m g)"
  unfolding writes_def tx_bind_Inr money.stays_def using money.R_trans by blast

lemma writes_when: "(c \<Longrightarrow> writes P m) \<Longrightarrow> writes P (when_tx c m)"
  by (cases c) (auto simp: when_tx_def intro: writes_stays money.w_ret)

lemmas writes_read = writes_query writes_ensure writes_expect writes_prod writes_if
lemmas writes_hand = writes_seq_desk writes_bind_desk

lemma money_hide [money_rules]: "money.stays (hideBookingService now i k)"
  unfolding hideBookingService_def
  apply (rule writes_start, rule writes_query, rule writes_expect, rule writes_ensure)
  subgoal for s b
    using find_booking_mem[of i s b]
    by (auto intro!: writes_found writes_upd sound_forI money_rules simp: typed_simps split: if_splits)
  done


lemma money_restore [money_rules]: "money.stays (restoreBookingIfNoBlockingCases now i)"
  unfolding restoreBookingIfNoBlockingCases_def Let_def
  apply (rule writes_start, rule writes_query, rule writes_prod, rule writes_if, rule writes_stays, rule money.w_ret,
      rule writes_option, rule writes_stays, rule money.w_ret, rule writes_if, rule writes_stays, rule money.w_ret,
      rule writes_option, rule writes_stays, rule money.w_ret)
  subgoal for s n found b before
    using find_booking_mem[of i s b]
    by (cases "bk_paymentMethod b"; auto intro!: writes_found writes_upd sound_forI money_rules simp: typed_simps held_money)
  done

lemma writes_cancelled:
  assumes "held (bk_paymentStatus b)"
  shows "sound_for b (\<lambda>b. b\<lparr>bk_status := B_CANCELED, bk_paymentStatus := P_REFUNDED, bk_statusBeforeDispute := None\<rparr>)"
  using assms by (cases "bk_paymentMethod b") (auto simp: sound_for_def typed_simps held_def split: if_splits)

lemma money_finalize_refund [money_rules]: "money.stays (finalize_refund now i k r rid gs a)"
proof -
  have settle: "writes (at_hand b) (settle_refund now b q k rid gs a)" if "held (bk_paymentStatus b)" for b q
    unfolding settle_refund_def by (rule writes_hand writes_upd writes_cancelled[OF that] | intro desk_rules money_rules; fail)+
  show ?thesis
    unfolding finalize_refund_def
    apply (rule writes_start, rule writes_query, rule writes_prod, rule writes_prod, rule writes_prod)
    subgoal for s found x queue y completed current
    proof (cases "found \<noteq> None \<and> queue \<noteq> None")
      case True
      moreover assume "(find_booking i s, queue_of i s, completed_of i s, refund_of i s) = (found, x)" "x = (queue, y)"
        "y = (completed, current)"
      ultimately obtain b q where b: "found = Some b" "queue = Some q" "at_hand b s" using found_at_hand by auto
      show ?thesis unfolding b(1,2) prod.case option.case
        by (rule writes_if, rule writes_stays, rule money.w_ret, rule writes_ensure, rule writes_ensure, rule writes_at_hand[OF b(3)], rule settle) simp
    qed (auto intro!: writes_stays money_rules split: option.split)
    done
qed


lemma writes_ended:
  assumes "bk_paymentMethod b = OnsiteCash \<or> bk_paymentStatus b = P_REFUNDED" "bk_status b \<noteq> B_COMPLETED"
  shows "sound_for b (\<lambda>r. r\<lparr>bk_status := B_CANCELED, bk_paymentStatus := bk_paymentStatus b, bk_statusBeforeDispute := None\<rparr>)"
  using assms by (cases "bk_paymentMethod b") (auto simp: sound_for_def typed_simps)

lemma money_hold [money_rules]:
  assumes "bk_status b \<notin> {B_CANCELED, B_COMPLETED}"
  shows "writes (at_hand b) (hold_for_cancel now b)"
  unfolding hold_for_cancel_def
  by (rule writes_upd, rule sound_forI, cases "bk_paymentMethod b")
    (use assms in \<open>auto simp: typed_simps freeze_def held_def intro!: money_rules split: if_splits\<close>)

lemma money_request_claim [money_rules]: "money.stays (request_claim now i k why)"
proof -
  have op: "writes (at_hand b) (open_request now b k why)" if "bk_status b \<notin> {B_CANCELED, B_COMPLETED}" for b
    unfolding open_request_def Let_def
    by (rule writes_hand, intro desk_rules)+
      (rule writes_if, rule writes_then, rule money_hold[OF that], intro money_rules, rule writes_stays, intro money_rules)
  show ?thesis
    unfolding request_claim_def
    apply (rule writes_start, rule writes_query, rule writes_prod, rule writes_expect, rule writes_ensure, rule writes_option)
    subgoal for s found active b
      apply (rule writes_if, rule writes_stays, rule money.w_ret, rule writes_ensure, rule writes_found[of i])
       apply simp
      by (rule writes_seq_desk, intro desk_rules, rule op) simp
    subgoal by (rule writes_stays) (intro money_rules)
    done
qed


text \<open>The part of a cancellation without a refund is sound for a booking that is not held online.\<close>

lemma returned_money: "money_at p = Returned \<longleftrightarrow> p = P_REFUNDED"
  by (cases p) simp_all

definition no_hold :: "key \<Rightarrow> db \<Rightarrow> bool" where
  "no_hold i s \<longleftrightarrow> (\<forall>b. find_booking i s = Some b \<longrightarrow> bk_paymentMethod b = OnsiteCash \<or> money_of b = Returned)"

lemma writes_cancel_commit:
  assumes "h \<or> no_hold i s"
  shows "writes ((=) s) (cancel_commit now i a pre h)"
proof -
  have unpaid: "writes (at_hand b) (cancel_unpaid now b q a)"
    if "bk_paymentMethod b = OnsiteCash \<or> bk_paymentStatus b = P_REFUNDED" "bk_status b \<noteq> B_COMPLETED" for b q
    unfolding cancel_unpaid_def
    by (rule writes_hand, intro desk_rules, rule writes_upd, rule writes_ended[OF that], intro money_rules)
  show ?thesis
    unfolding cancel_commit_def
    apply (rule writes_query, rule writes_prod, rule writes_prod, rule writes_prod, rule writes_option)
    subgoal by (rule writes_stays) (intro money_rules)
    subgoal for found x q y completed requestId b
      apply (rule writes_ensure, rule writes_ensure, rule writes_then_bind, rule writes_if)
         apply (rule writes_found[of i])
          apply simp
         apply (rule unpaid)
      using assms
      by (auto simp: no_hold_def returned_money not_cancellable_def intro!: writes_stays money_rules)
    done
qed


lemma money_retire [money_rules]: "money.stays (retire_queue now b q p)"
  unfolding retire_queue_def by (intro money_rules)

lemma money_start_job [money_rules]: "money.stays (start_job now i p)"
proof -
  have job: "money.stays (begin_job now b q)" for b q
    unfolding begin_job_def
    apply (rule writes_start, rule writes_query, rule writes_ensure)
    subgoal for s
    proof (cases "find_booking (bk_id b) s")
      case (Some c)
      moreover assume "case find_booking (bk_id b) s of None \<Rightarrow> False
        | Some b \<Rightarrow> \<not> bk_started b \<and> bk_status b \<in> (if q then {B_ACCEPTED, B_WAITING} else {B_ACCEPTED})"
      ultimately have "bk_status c \<in> {B_ACCEPTED, B_WAITING}" by (auto split: if_splits)
      then show ?thesis
        by (intro writes_update_at[OF Some] sound_forI; cases "bk_paymentMethod c") (auto simp: typed_simps)
    qed simp
    done
  show ?thesis unfolding start_job_def by (intro money_rules job)
qed

lemma booking_or_queue_at_hand: "booking_or_queue_booking i s = Some b \<Longrightarrow> at_hand b s"
  by (simp add: at_hand_def booking_or_queue_find)

lemma money_mark_complete [money_rules]: "money.stays (mark_complete now i p)"
proof -
  have work: "writes (at_hand b) (complete_work now b)" for b
    unfolding complete_work_def
    by (rule writes_ensure, rule writes_update, rule sound_forI, cases "bk_paymentMethod b")
      (auto simp: typed_simps intro!: money_rules)
  show ?thesis
    unfolding mark_complete_def
    by (rule writes_start, rule writes_query, rule writes_expect, rule writes_ensure, rule writes_same, blast, rule writes_if,
        rule writes_stays, rule money.w_ret, rule writes_at_hand, rule booking_or_queue_at_hand, assumption, rule work)
qed

lemma money_settle [money_rules]: "money.stays (settle now i actor)"
proof -
  have sound: "sound_for b (\<lambda>r. r\<lparr>bk_status := B_COMPLETED, bk_paymentStatus := (if bk_paymentMethod b = OnsiteCash then P_CASH_CONFIRMED else P_RELEASED),
      bk_statusBeforeDispute := None\<rparr>)" if "settlement_fault actor b = None" for b
    using that by (cases "bk_paymentMethod b") (auto simp: sound_for_def typed_simps settlement_fault_def held_def split: if_splits)
  have book: "writes (at_hand b) (settle_booking now actor b q a)" if "settlement_fault actor b = None" for b q a
    unfolding settle_booking_def Let_def
    apply (rule writes_hand, intro desk_rules, rule writes_hand, intro desk_rules, rule writes_update, rule sound[OF that])
    by (intro money_rules)
  show ?thesis
    unfolding settle_def
    apply (rule writes_start, rule writes_query, rule writes_prod, rule writes_prod, rule writes_expect, rule writes_same, blast,
        rule writes_ensure, rule writes_if, rule writes_stays, rule money.w_ret, rule writes_option)
    subgoal for s found x q d b
      by (rule writes_found[of i], simp, rule writes_then_bind, rule book) (simp, intro money_rules)
    subgoal by (rule writes_stays) (intro money_rules)
    done
qed

lemma money_dispute [money_rules]: "money.stays (dispute_job now i k why)"
proof -
  have sound: "sound_for b (\<lambda>r. r\<lparr>bk_status := B_DISPUTED, bk_statusBeforeDispute := Some (bk_status b),
      bk_paymentStatus := (if bk_paymentMethod b = OnsiteCash then P_UNPAID else P_FROZEN_HELD)\<rparr>)" if "bk_status b = B_AWAITING_CONFIRMATION" for b
    using that by (cases "bk_paymentMethod b") (auto simp: sound_for_def typed_simps held_def)
  show ?thesis
    unfolding dispute_job_def Let_def
    apply (rule writes_start, rule writes_query, rule writes_prod, rule writes_expect, rule writes_ensure, rule writes_same, blast,
        rule writes_same, blast, rule writes_query, rule writes_ensure, rule writes_ensure)
    subgoal for s found q b
      apply (rule writes_found[of i], simp, rule writes_seq_desk, intro desk_rules, rule writes_update, rule sound, assumption)
      by (intro money_rules)
    done
qed


lemma cash_typed: "bk_paymentMethod b = OnsiteCash \<Longrightarrow> bk_paymentStatus b = P_UNPAID \<Longrightarrow> bk_status b \<in> {B_PENDING_APPROVAL, B_ACCEPTED} \<Longrightarrow>
    bk_statusBeforeDispute b = None \<Longrightarrow> pay_typed b"
  by (auto simp: pay_typed_def)

lemma desk_agreement [desk_rules]: "desk.stays (recordAgreement now b p)" "desk.stays (set_directRequest d st)"
  "desk.stays (assert_request_pending d)" "desk.stays (assertActiveMarketplaceAccount k)" "desk.stays (assert_cash_inquiry f rq)"
  unfolding recordAgreement_def set_directRequest_def assert_request_pending_def assertActiveMarketplaceAccount_def assert_cash_inquiry_def
  by (intro desk_rules)+

lemma desk_select [desk_rules]: "desk.stays (select_offer i rq)"
  unfolding select_offer_def by (intro desk_rules)

lemmas money_desk_bookings [money_rules] = desk_agreement [THEN money_of_desk] desk_select [THEN money_of_desk]

lemma money_direct [money_rules]: "money.stays (direct_precheck k p sv n m loc)" "money.stays (direct_commit now k p sv n m loc)"
proof -
  show "money.stays (direct_precheck k p sv n m loc)" unfolding direct_precheck_def Let_def by (intro money_rules)
  have "money.stays (create_direct now k p sv n arr price mins)" for arr price mins
    unfolding create_direct_def Let_def by (intro money_rules money_create_booking cash_typed) (simp_all add: blank_booking_def)
  then show "money.stays (direct_commit now k p sv n m loc)" unfolding direct_commit_def Let_def by (intro money_rules)
qed

lemma money_offer_commit [money_rules]: "money.stays (offer_precheck i k)" "money.stays (offer_commit now k f loc)"
proof -
  show "money.stays (offer_precheck i k)" unfolding offer_precheck_def by (intro money_rules)
  have "money.stays (offer_accept now k f ff r loc)" for ff r
    unfolding offer_accept_def
    by (intro money_rules money_create_booking cash_typed) (simp_all add: cash_offer_booking_def blank_booking_def)
  then show "money.stays (offer_commit now k f loc)" unfolding offer_commit_def by (intro money_rules)
qed

lemma money_respond_accept [money_rules]: "money.stays (respond_accept now p d b)"
proof -
  have new: "money.stays (case b of Some bk \<Rightarrow> fail e | None \<Rightarrow> (case d of None \<Rightarrow> fail (Uncoded ''unreachable'')
         | Some dr \<Rightarrow> create_booking now ((blank_booking (dr_seekerId dr) p)\<lparr>
             bk_serviceId := Some (dr_serviceId dr), bk_directRequestId := Some (dr_id dr),
             bk_paymentMethod := OnsiteCash, bk_agreedAmount := Some (dr_agreedPrice dr),
             bk_estimatedDurationMins := Some (case service of None \<Rightarrow> 60 | Some v \<Rightarrow> sv_estimatedDurationMins v),
             bk_paymentStatus := P_UNPAID, bk_status := B_ACCEPTED, bk_started := False\<rparr>)))" for service e
    by (intro money_rules money_create_booking cash_typed) (simp_all add: blank_booking_def)
  have accept: "writes (at_hand c) (update_booking now (bk_id c) (\<lambda>r. r\<lparr>bk_status := B_ACCEPTED, bk_started := False\<rparr>))"
    if "bk_status c = B_PENDING_APPROVAL" for c
    by (rule writes_update_only, rule sound_forI, cases "bk_paymentMethod c") (use that in \<open>auto simp: typed_simps\<close>)
  show ?thesis
  proof (cases b)
    case None
    with new show ?thesis unfolding respond_accept_def by (auto intro!: money_rules)
  next
    case (Some bk)
    have tail: "writes ((=) s) (tx_seq (ensure (map_option bk_status (find_booking (bk_id bk) s) = Some B_PENDING_APPROVAL) e)
      (tx_seq (set_directRequest d DR_ACCEPTED)
      (tx_bind (update_booking now (bk_id bk) (\<lambda>r. r\<lparr>bk_status := B_ACCEPTED, bk_started := False\<rparr>))
        (\<lambda>accepted. tx_bind (recordAgreement now accepted True) (\<lambda>recd. ret (accepted, recd))))))" for s e
    proof (rule writes_ensure)
      assume "map_option bk_status (find_booking (bk_id bk) s) = Some B_PENDING_APPROVAL"
      then obtain c where c: "find_booking (bk_id bk) s = Some c" "bk_status c = B_PENDING_APPROVAL" by auto
      have "bk_id c = bk_id bk" using find_booking_mem[OF c(1)] by simp
      then show "writes ((=) s) (tx_seq (set_directRequest d DR_ACCEPTED)
      (tx_bind (update_booking now (bk_id bk) (\<lambda>r. r\<lparr>bk_status := B_ACCEPTED, bk_started := False\<rparr>))
        (\<lambda>accepted. tx_bind (recordAgreement now accepted True) (\<lambda>recd. ret (accepted, recd)))))"
        using accept[OF c(2)]
        by (intro writes_found[OF c(1)] writes_seq_desk desk_rules writes_then_bind) (simp_all, intro money_rules)
    qed
    have "money.stays (tx_bind (query (\<lambda>s. (find_booking (bk_id bk) s, Option.bind d (\<lambda>dr. find_service (dr_serviceId dr) s))))
     (\<lambda>(fresh, service). tx_seq (ensure (map_option bk_status fresh = Some B_PENDING_APPROVAL) e)
      (tx_seq (set_directRequest d DR_ACCEPTED)
      (tx_bind (update_booking now (bk_id bk) (\<lambda>r. r\<lparr>bk_status := B_ACCEPTED, bk_started := False\<rparr>))
        (\<lambda>accepted. tx_bind (recordAgreement now accepted True) (\<lambda>recd. ret (accepted, recd)))))))" for e
      by (rule writes_start, rule writes_query) (use tail in simp)
    then show ?thesis
      unfolding respond_accept_def Some
      apply -
      apply (rule money.w_bind, rule money.w_query, rule money.w_seq, rule money.w_ensure, rule money.w_bind, (intro money_rules)[1],
          rule money.w_seq, (intro money_rules)[1])
      by simp
  qed
qed


lemma writes_seq_same: "(\<And>u s'. m s = Inr (u, s') \<Longrightarrow> s' = s) \<Longrightarrow> writes ((=) s) n \<Longrightarrow> writes ((=) s) (tx_seq m n)"
  unfolding writes_def tx_seq_Inr by blast

text \<open>A decline writes back the payment status that was read before the refund.\<close>

definition declines_cash :: "bool \<Rightarrow> booking_row option \<Rightarrow> db \<Rightarrow> bool" where
  "declines_cash hasHeld b s \<longleftrightarrow> (\<forall>bk c. b = Some bk \<longrightarrow> find_booking (bk_id bk) s = Some c \<longrightarrow> pay_typed c \<longrightarrow>
     bk_status c = B_PENDING_APPROVAL \<longrightarrow> \<not> hasHeld \<and> bk_paymentStatus bk = P_UNPAID)"

lemma writes_decline:
  assumes "declines_cash hasHeld b s"
  shows "writes ((=) s) (respond_decline now p hasHeld d b)"
proof -
  have pending: "s' = t" if "assert_request_pending d t = Inr (u, s')" for u t s'
    using that by (auto simp: assert_request_pending_def tx_iff split: option.splits)
  have sound: "sound_for c (\<lambda>r. r\<lparr>bk_status := B_DECLINED, bk_paymentStatus := (if hasHeld then P_REFUNDED else bk_paymentStatus bk)\<rparr>)"
    if "b = Some bk" "find_booking (bk_id bk) s = Some c" "bk_status c = B_PENDING_APPROVAL" for bk c
  proof (rule sound_forI)
    assume "pay_typed c"
    then have "\<not> hasHeld \<and> bk_paymentStatus bk = P_UNPAID" using assms that unfolding declines_cash_def by blast
    with \<open>pay_typed c\<close> that(3) show "pay_typed (c\<lparr>bk_status := B_DECLINED, bk_paymentStatus := (if hasHeld then P_REFUNDED else bk_paymentStatus bk)\<rparr>) \<and>
        follows c (c\<lparr>bk_status := B_DECLINED, bk_paymentStatus := (if hasHeld then P_REFUNDED else bk_paymentStatus bk)\<rparr>)"
      by (cases "bk_paymentMethod c") (auto simp: typed_simps)
  qed
  have some: "writes ((=) s) (tx_seq (ensure (map_option bk_status (find_booking (bk_id bk) s) = Some B_PENDING_APPROVAL) e)
              (tx_seq (set_directRequest d DR_DECLINED)
              (tx_bind (update_booking now (bk_id bk) (\<lambda>r. r\<lparr>bk_status := B_DECLINED,
                  bk_paymentStatus := (if hasHeld then P_REFUNDED else bk_paymentStatus bk)\<rparr>)) (\<lambda>declined.
               tx_seq (recordBookingProgress now (bk_id declined) PK_DECLINED ByProvider (EK_Kind PK_DECLINED))
               (ret (Some declined))))))" if "b = Some bk" for bk e
  proof (rule writes_ensure)
    assume "map_option bk_status (find_booking (bk_id bk) s) = Some B_PENDING_APPROVAL"
    then obtain c where c: "find_booking (bk_id bk) s = Some c" "bk_status c = B_PENDING_APPROVAL" by auto
    have i: "bk_id bk = bk_id c" using find_booking_mem[OF c(1)] by simp
    show "writes ((=) s) (tx_seq (set_directRequest d DR_DECLINED)
              (tx_bind (update_booking now (bk_id bk) (\<lambda>r. r\<lparr>bk_status := B_DECLINED,
                  bk_paymentStatus := (if hasHeld then P_REFUNDED else bk_paymentStatus bk)\<rparr>)) (\<lambda>declined.
               tx_seq (recordBookingProgress now (bk_id declined) PK_DECLINED ByProvider (EK_Kind PK_DECLINED))
               (ret (Some declined)))))"
      unfolding i
      by (rule writes_found[OF c(1)], rule writes_seq_desk, (intro desk_rules)[1], rule writes_update, rule sound[OF that c])
        (intro money_rules)
  qed
  show ?thesis
    unfolding respond_decline_def Let_def
    apply (rule writes_then_bind, rule writes_seq_same, rule pending, assumption, rule writes_option)
    subgoal by (rule writes_stays) (intro money_rules)
    subgoal for bk
      by (rule writes_query, rule writes_if, rule writes_stays, rule money.w_ret, rule some)
    subgoal by (intro money_rules)
    done
qed

lemma money_completion [money_rules]: "money.stays (reserveCompletionFinancialOutcome now op i)"
proof -
  have sound: "sound_for b (\<lambda>r. r\<lparr>bk_status := B_UNDER_REVIEW, bk_statusBeforeDispute := Some B_AWAITING_CONFIRMATION\<rparr>)"
    if "\<not> held_for_review b" "held_for_review b \<or> bk_status b = B_AWAITING_CONFIRMATION" for b
    by (rule sound_forI, cases "bk_paymentMethod b") (use that in \<open>auto simp: typed_simps\<close>)
  show ?thesis
    unfolding reserveCompletionFinancialOutcome_def
    apply (rule writes_start, rule writes_query, rule writes_prod, rule writes_expect, rule writes_prod, rule writes_expect,
        rule writes_ensure, rule writes_if, rule writes_stays, rule money.w_ret)
    subgoal for s found operation x e b
    proof -
      assume "(escalation_with_booking i s, find_operation op s) = (found, operation)" "found = Some x" "x = (e, b)"
      then have b: "find_booking (es_bookingId e) s = Some b" by (auto simp: escalation_with_booking_def split: option.splits)
      then have "es_bookingId e = bk_id b" using find_booking_mem[OF b] by simp
      with b show ?thesis
        by (intro writes_found[OF b] writes_seq_desk desk_rules writes_ensure writes_then writes_when)
          (auto intro!: writes_upd_only sound money_rules)
    qed
    done
qed

lemma money_claim_booking [money_rules]: "money.stays (claim_booking now i adm out req)"
proof -
  have sound: "sound_for b (\<lambda>r. r\<lparr>bk_status := B_UNDER_REVIEW, bk_statusBeforeDispute := Some (bk_status b)\<rparr>)"
    if "adminBookingOutcomeAllowed b hb out" for b hb
    by (rule sound_forI, cases "bk_paymentMethod b") (use that in \<open>auto simp: typed_simps adminBookingOutcomeAllowed_def split: booking_outcome.splits\<close>)
  have reserve: "writes (at_hand b) (reserve_booking now b hb out op)" for b hb op
    unfolding reserve_booking_def
    apply (rule writes_if, rule writes_stays, rule money.w_ret, rule writes_if, rule writes_ensure, rule writes_stays, rule money.w_ret,
        rule writes_ensure, rule writes_seq_desk, (intro desk_rules)[1], rule writes_seq_desk, (intro desk_rules)[1], rule writes_upd, rule sound, assumption)
    by (intro money_rules)
  show ?thesis
    unfolding claim_booking_def
    apply (rule writes_start, rule writes_query, rule writes_prod, rule writes_expect, rule writes_prod, rule writes_if)
    subgoal by (rule writes_stays) (intro money_rules)
    subgoal for s found existing x b hb
    proof -
      assume "(map_option (\<lambda>b. (b, banned_participant b s)) (find_booking i s), operation_of CT_ADMIN_BOOKING i s) = (found, existing)"
        "found = Some x" "x = (b, hb)"
      then have b: "find_booking i s = Some b" by auto
      show ?thesis
        apply (rule writes_ensure, rule writes_ensure, rule writes_ensure, rule writes_found[OF b], rule writes_bind_desk, (intro desk_rules)[1],
            rule writes_bind_desk, (intro desk_rules)[1], rule writes_option, rule writes_then_bind, rule reserve)
        by (rule money.w_ret, rule writes_stays, rule money.w_ret)
    qed
    done
qed

lemma money_file_safety [money_rules]: "money.stays (file_safety now i k why d ev)"
proof -
  have sound: "sound_for b (\<lambda>r. r\<lparr>bk_statusBeforeDispute := Some (bk_status b), bk_status := B_DISPUTED, bk_paymentStatus := freeze (bk_paymentStatus r)\<rparr>)"
    if "pauses (bk_status b)" for b
    by (rule sound_forI, cases "bk_paymentMethod b") (use that in \<open>auto simp: typed_simps pauses_def freeze_def held_def\<close>)
  have pause: "writes (at_hand b) (pause_booking now b)" if "pauses (bk_status b)" for b
    unfolding pause_booking_def by (rule writes_upd, rule sound[OF that]) (intro money_rules)
  have opens: "writes (at_hand b) (open_safety now b k why key)" for b key
    unfolding open_safety_def Let_def
    apply (rule writes_bind_desk, (intro desk_rules)[1], rule writes_seq_desk, (intro desk_rules)[1], rule writes_then, rule writes_when, rule pause, assumption)
    by (intro money_rules)
  show ?thesis
    unfolding file_safety_def Let_def
    apply (rule writes_start, rule writes_query, rule writes_prod, rule writes_expect, rule writes_ensure)
    subgoal for s found existing b
      apply (rule writes_found[of i], simp)
      apply (rule writes_seq_desk, (intro desk_rules)[1], rule writes_ensure, rule writes_ensure, rule writes_seq_desk, (intro desk_rules)[1],
          rule writes_seq_desk, (intro desk_rules)[1], rule writes_ensure, rule writes_option, rule opens)
      by (rule writes_stays, rule money.w_ret)
    done
qed

lemma money_finish_decisions [money_rules]:
  "money.stays (finish_admin_decision now cl ap nt adm f)" "money.stays (finish_report now op i adm rout p nts)"
proof -
  have fin: "money.stays (finish_operation op cl m)" if "money.stays m" for op cl m
    unfolding finish_operation_def by (intro money_rules that)
  show "money.stays (finish_admin_decision now cl ap nt adm f)"
    unfolding finish_admin_decision_def admin_effects_def by (intro fin money_rules)
  show "money.stays (finish_report now op i adm rout p nts)"
    unfolding finish_report_def finish_case_def report_effects_def by (intro money_rules fin)
qed


subsection \<open>Payments\<close>

lemma desk_prepare [desk_rules]:
  "desk.stays (expire_own_stale now p t)" "desk.stays (reuse_attempt p t a)" "desk.stays (pay_guards p t)"
  "desk.stays (hold_offer ex p t i)" "desk.stays (create_attempt cfg now ex p t c)"
proof -
  show "desk.stays (expire_own_stale now p t)" unfolding expire_own_stale_def by (intro desk_rules desk_upd_attempt) simp
  show "desk.stays (reuse_attempt p t a)" unfolding reuse_attempt_def by (intro desk_rules)
  show "desk.stays (pay_guards p t)" unfolding pay_guards_def by (intro desk_rules)
  have "desk.stays (assert_gcash_inquiry f r)" for f r unfolding assert_gcash_inquiry_def by (intro desk_rules)
  then show "desk.stays (hold_offer ex p t i)" unfolding hold_offer_def by (intro desk_rules)
  have "desk.stays (modify (attempts_update (\<lambda>as. as @ [a])))" if "at_paymentMethod a = GCash" for a
    by (rule desk.staysI) (use that in \<open>auto simp: modify_Inr desk_rel_def all_gcash_def\<close>)
  then show "desk.stays (create_attempt cfg now ex p t c)"
    unfolding create_attempt_def Let_def by (intro desk_rules) simp
qed

lemma desk_prepare_payment [desk_rules]: "desk.stays (prepare_payment cfg now p t)"
  unfolding prepare_payment_def by (intro desk_rules)

lemmas money_prepare [money_rules] = desk_prepare_payment [THEN money_of_desk]

lemma money_capture:
  assumes "at_paymentMethod a = GCash"
  shows "money.stays (capture_open now a c)"
proof -
  have create: "money.stays (create_booking now (paid_booking a mins pos))" for mins pos
    by (rule money_create_booking) (use assms in \<open>simp add: paid_booking_def blank_booking_def pay_typed_def held_def\<close>)
  have att: "money.stays (upd_attempt i f)" if "\<And>a. at_paymentMethod (f a) = at_paymentMethod a" for i f
    by (rule money_of_desk[OF desk_upd_attempt[OF that]])
  have accept: "money.stays (accept_held_offer i)" for i unfolding accept_held_offer_def by (intro money_rules)
  have book: "money.stays (book_captured now a c)"
    unfolding book_captured_def by (intro money_rules create att accept) simp
  have hold: "money.stays (case h of HoldValid \<Rightarrow> m | HoldInvalid \<Rightarrow> n | HoldContested \<Rightarrow> k)"
    if "money.stays m" "money.stays n" "money.stays k" for h and m n k :: "'a dbtx"
    using that by (cases h) simp_all
  show ?thesis unfolding capture_open_def by (intro money_rules book att hold) simp_all
qed

lemma money_finalize_commit [money_rules]: "money.stays (finalize_commit now i c)"
proof (rule money.staysI)
  fix s x s' assume run: "finalize_commit now i c s = Inr (x, s')"
  show "money_rel s s'"
  proof (cases "pay_wf s")
    case True
    have g: "at_paymentMethod a = GCash" if "find_attempt i s = Some a" for a
      using True that by (auto simp: pay_wf_def find_attempt_def dest: find_row_Some)
    have "writes ((=) s) (finalize_commit now i c)"
      unfolding finalize_commit_def
      apply (rule writes_query, rule writes_prod, rule writes_option)
      subgoal by (rule writes_stays) (intro money_rules)
      subgoal for found ex a
        using g by (intro writes_if writes_ensure writes_stays money_capture money_rules) simp
      done
    then show ?thesis using run unfolding writes_def by blast
  qed (simp add: money_rel_def)
qed

end
