(* ===== verification/SH_Subscription.thy ===== *)
theory SH_Subscription
  imports SH_Paths
begin

text \<open>
  Provider memberships that are paid for: src/src/services/subscriptions.service.ts. A price is quoted and
  signed, a checkout is opened at the gateway, the intent that the gateway reports is applied to the
  account or found to be due back, and a checkout can be given up.

  The signature of a quote (HMAC over its JSON text) is the parameter \<open>sign\<close>; a token is the decoded
  payload with its signature, or \<open>None\<close> for a text that is not of that shape. The idempotency key of a
  payment row is its id. Texts that the gateway and the browser see are parsed as far as the code does.
\<close>

subsection \<open>Rows and their view\<close>

definition subscription_fail :: "string \<Rightarrow> error" where
  "subscription_fail message = Http 409 message"

text \<open>\<open>new URL(url)\<close> of an https address, to its host name.\<close>

definition https_host :: "string \<Rightarrow> string option" where
  "https_host url = (if toLowerCase (take 8 url) = ''https://''
     then let authority = takeWhile (\<lambda>c. c \<notin> set ''/?#'' \<and> of_char c \<noteq> (92 :: nat)) (drop 8 url);
              host = rev (takeWhile (\<lambda>c. c \<noteq> CHR ''@'') (rev authority))
          in Some (toLowerCase (takeWhile (\<lambda>c. c \<noteq> CHR '':'') host))
     else None)"

definition ends_with :: "string \<Rightarrow> string \<Rightarrow> bool" where
  "ends_with suffix s \<longleftrightarrow> take (length suffix) (rev s) = rev suffix"

definition validRedirect :: "string option \<Rightarrow> bool" where
  "validRedirect url = (case url of None \<Rightarrow> False | Some u \<Rightarrow> (case https_host u of None \<Rightarrow> False
     | Some h \<Rightarrow> h = ''paymongo.com'' \<or> ends_with ''.paymongo.com'' h))"

record payment_view =
  sw_id :: key
  sw_plan :: plan
  sw_amount :: decimal
  sw_reference :: "string option"
  sw_intentId :: "string option"
  sw_status :: subscription_payment_status
  sw_redirectUrl :: "string option"
  sw_isTestMode :: bool
  sw_checkoutExpiresAt :: time
  sw_startedAt :: "time option"
  sw_expiresAt :: "time option"
  sw_billingAction :: billing_action
  sw_paidAt :: "time option"

definition subscriptionPaymentView :: "subscription_payment_row \<Rightarrow> payment_view" where
  "subscriptionPaymentView p = \<lparr>sw_id = sp_id p, sw_plan = sp_plan p, sw_amount = sp_amount p, sw_reference = sp_paymentReference p,
     sw_intentId = sp_providerIntentId p, sw_status = sp_paymentStatus p,
     sw_redirectUrl = (if validRedirect (sp_redirectUrl p) then sp_redirectUrl p else None),
     sw_isTestMode = sp_isTestMode p, sw_checkoutExpiresAt = sp_checkoutExpiresAt p, sw_startedAt = sp_subscriptionStartedAt p,
     sw_expiresAt = sp_subscriptionExpiresAt p, sw_billingAction = sp_billingAction p, sw_paidAt = sp_paidAt p\<rparr>"

definition find_payment :: "key \<Rightarrow> db \<Rightarrow> subscription_payment_row option" where
  "find_payment i s = find_row sp_id i (subscriptionPayments s)"

definition payment_of_intent :: "string \<Rightarrow> db \<Rightarrow> subscription_payment_row option" where
  "payment_of_intent i s = List.find (\<lambda>p. sp_providerIntentId p = Some i) (subscriptionPayments s)"

definition upd_payments ::
  "(subscription_payment_row \<Rightarrow> bool) \<Rightarrow> (subscription_payment_row \<Rightarrow> subscription_payment_row) \<Rightarrow> unit dbtx" where
  "upd_payments p f = modify (subscriptionPayments_update (map_rows p f))"

text \<open>\<open>update\<close> of one row by its id, to the written row.\<close>

definition update_payment :: "key \<Rightarrow> (subscription_payment_row \<Rightarrow> subscription_payment_row) \<Rightarrow> subscription_payment_row dbtx" where
  "update_payment i f = tx_seq (upd_payments (\<lambda>p. sp_id p = i) f) (tx_bind (query (find_payment i)) (expect (Uncoded ''P2025'')))"

definition payment_now :: "key \<Rightarrow> subscription_payment_row dbtx" where
  "payment_now i = tx_bind (query (find_payment i)) (expect (Uncoded ''P2025''))"

subsection \<open>The membership of a provider\<close>

record membership_view =
  mv_benefits :: benefits
  mv_activeListings :: nat
  mv_isTestMode :: bool
  mv_payments :: "payment_view list"

definition active_listings :: "key \<Rightarrow> db \<Rightarrow> service_row list" where
  "active_listings providerId s = filter (\<lambda>v. sv_providerId v = providerId \<and> sv_status v = S_ACTIVE) (services s)"

definition getProviderSubscription :: "pay_config \<Rightarrow> time \<Rightarrow> key \<Rightarrow> membership_view dbtx" where
  "getProviderSubscription cfg now providerId =
     tx_bind (query (\<lambda>s. (find_user providerId s, active_listings providerId s,
        filter (\<lambda>p. sp_providerId p = providerId) (subscriptionPayments s)))) (\<lambda>(found, listings, payments).
     tx_bind (expect (Uncoded ''P2025'') found) (\<lambda>user.
     ret \<lparr>mv_benefits = subscriptionBenefits user now, mv_activeListings = length listings, mv_isTestMode = \<not> live_key cfg,
          mv_payments = map subscriptionPaymentView (take 30 (rev payments))\<rparr>))"

definition cancel_membership :: "time \<Rightarrow> key \<Rightarrow> unit dbtx" where
  "cancel_membership now providerId =
     tx_seq (assertActiveMarketplaceAccount providerId)
    (tx_bind (query (find_user providerId)) (\<lambda>found.
     tx_bind (expect (Uncoded ''P2025'') found) (\<lambda>user.
     tx_seq (ensure (bn_marketplaceAccess (subscriptionBenefits user now) \<and> bn_plan (subscriptionBenefits user now) \<noteq> FREE)
       (subscription_fail ''There is no active paid membership to cancel.''))
     (upd_user providerId (\<lambda>u. u\<lparr>u_subscriptionStatus := SUB_CANCELLED, u_subscriptionUpdatedAt := now\<rparr>)))))"

definition cancelProviderSubscription :: "pay_config \<Rightarrow> time \<Rightarrow> key \<Rightarrow> (db, membership_view) process" where
  "cancelProviderSubscription cfg now providerId =
     p_seq (transact (cancel_membership now providerId)) (transact (getProviderSubscription cfg now providerId))"

definition enrollProviderMembership :: "pay_config \<Rightarrow> time \<Rightarrow> key \<Rightarrow> (db, membership_view) process" where
  "enrollProviderMembership cfg now providerId =
     p_bind (transact (ensureProviderTrial now providerId)) (\<lambda>_. transact (getProviderSubscription cfg now providerId))"

subsection \<open>The signed price\<close>

record quote_payload =
  qp_providerId :: key
  qp_plan :: plan
  qp_amount :: decimal
  qp_billingAction :: billing_action
  qp_membershipUpdatedAt :: time
  qp_periodExpiresAt :: "time option"
  qp_validUntil :: time

type_synonym quote_token = "(quote_payload \<times> string) option"

definition parseQuote ::
  "(quote_payload \<Rightarrow> string) \<Rightarrow> time \<Rightarrow> quote_token \<Rightarrow> key \<Rightarrow> plan \<Rightarrow> error + quote_payload" where
  "parseQuote sign now token providerId target = (case token of
       None \<Rightarrow> Inl (subscription_fail ''Refresh the price before continuing.'')
     | Some (q, signature) \<Rightarrow>
       if signature \<noteq> sign q then Inl (subscription_fail ''Refresh the price before continuing.'')
       else if qp_providerId q \<noteq> providerId \<or> qp_plan q \<noteq> target \<or> qp_validUntil q \<le> now
       then Inl (subscription_fail ''This price expired. Review your membership again.'')
       else Inr q)"

record price_offer =
  po_plan :: plan
  po_amount :: decimal
  po_billingAction :: billing_action
  po_periodExpiresAt :: "time option"
  po_monthlyPrice :: decimal
  po_listingsToPause :: nat
  po_token :: quote_token
  po_validUntil :: time

definition quoteProviderMembership :: "(quote_payload \<Rightarrow> string) \<Rightarrow> time \<Rightarrow> key \<Rightarrow> plan \<Rightarrow> price_offer dbtx" where
  "quoteProviderMembership sign now providerId target =
     tx_seq (assertActiveMarketplaceAccount providerId)
    (tx_bind (query (\<lambda>s. (find_user providerId s, active_listings providerId s))) (\<lambda>(found, listings).
     tx_bind (expect (Uncoded ''P2025'') found) (\<lambda>user.
     tx_seq (ensure (u_freePlanStartedAt user \<noteq> None)
       (Http 403 ''Enter the Provider workspace to start your Free plan before choosing a membership.''))
    (tx_bind (lift_sum (membershipQuote user target now)) (\<lambda>q.
     let payload = \<lparr>qp_providerId = providerId, qp_plan = target, qp_amount = qt_amount q, qp_billingAction = qt_billingAction q,
           qp_membershipUpdatedAt = u_subscriptionUpdatedAt user, qp_periodExpiresAt = qt_quotedPeriodExpiresAt q,
           qp_validUntil = now + 15 * 60000\<rparr>
     in ret \<lparr>po_plan = target, po_amount = qt_amount q, po_billingAction = qt_billingAction q,
          po_periodExpiresAt = qt_quotedPeriodExpiresAt q, po_monthlyPrice = monthlyPrice target,
          po_listingsToPause = (if target = BASIC then length listings - 3 else 0),
          po_token = Some (payload, sign payload), po_validUntil = qp_validUntil payload\<rparr>)))))"

subsection \<open>Opening a checkout\<close>

definition pending_payment :: "key \<Rightarrow> db \<Rightarrow> subscription_payment_row option" where
  "pending_payment providerId s =
     List.find (\<lambda>p. sp_providerId p = providerId \<and> sp_paymentStatus p = SP_PENDING) (rev (subscriptionPayments s))"

definition new_payment :: "pay_config \<Rightarrow> time \<Rightarrow> user_row \<Rightarrow> plan \<Rightarrow> quote_payload option \<Rightarrow> quote \<Rightarrow> subscription_payment_row dbtx" where
  "new_payment cfg now user target signed q =
     tx_bind fresh_id (\<lambda>i.
     let p = \<lparr>sp_id = i, sp_providerId = u_id user, sp_plan = target,
           sp_amount = (case signed of None \<Rightarrow> qt_amount q | Some t \<Rightarrow> qp_amount t),
           sp_paymentReference = None, sp_providerIntentId = None, sp_redirectUrl = None, sp_paymentStatus = SP_PENDING,
           sp_isTestMode = \<not> live_key cfg, sp_checkoutExpiresAt = now + 15 * 60000, sp_checkoutClaimedAt = Some now,
           sp_failureReason = None,
           sp_billingAction = (case signed of None \<Rightarrow> qt_billingAction q | Some t \<Rightarrow> qp_billingAction t),
           sp_quotedMembershipUpdatedAt = Some (u_subscriptionUpdatedAt user),
           sp_quotedPeriodExpiresAt = (case Option.bind signed qp_periodExpiresAt of Some t \<Rightarrow> Some t | None \<Rightarrow> qt_quotedPeriodExpiresAt q),
           sp_subscriptionStartedAt = None, sp_subscriptionExpiresAt = None, sp_paidAt = None, sp_refundedAt = None\<rparr>
     in tx_seq (modify (subscriptionPayments_update (\<lambda>ps. ps @ [p]))) (ret p))"

definition claim_checkout ::
  "(quote_payload \<Rightarrow> string) \<Rightarrow> pay_config \<Rightarrow> time \<Rightarrow> key \<Rightarrow> plan \<Rightarrow> quote_token option \<Rightarrow> subscription_payment_row dbtx" where
  "claim_checkout sign cfg now providerId target token =
     tx_seq (assertActiveMarketplaceAccount providerId)
    (tx_bind (query (\<lambda>s. (find_user providerId s, pending_payment providerId s))) (\<lambda>(found, existing).
     tx_bind (expect (Uncoded ''P2025'') found) (\<lambda>user.
     tx_seq (ensure (u_freePlanStartedAt user \<noteq> None) (Http 403 ''Start your Free Provider plan before choosing a membership.''))
    (tx_bind (case token of None \<Rightarrow> ret None | Some t \<Rightarrow> lift_sum (map_sum id Some (parseQuote sign now t providerId target))) (\<lambda>signed.
     tx_bind (lift_sum (membershipQuote user target now)) (\<lambda>q.
     tx_seq (ensure (case signed of None \<Rightarrow> True | Some t \<Rightarrow> qp_membershipUpdatedAt t = u_subscriptionUpdatedAt user)
       (subscription_fail ''Your membership changed. Review the price again.''))
    (case existing of None \<Rightarrow> new_payment cfg now user target signed q
     | Some p \<Rightarrow>
       tx_seq (ensure (sp_plan p = target) (subscription_fail ''Finish or cancel your pending membership payment before choosing another plan.''))
      (if truthy (sp_redirectUrl p) \<and> now < sp_checkoutExpiresAt p then ret p
       else tx_seq (ensure (\<not> (case sp_checkoutClaimedAt p of None \<Rightarrow> False | Some t \<Rightarrow> now - 60000 < t))
              (subscription_fail ''Your checkout is being prepared. Please try again in a moment.''))
           (update_payment (sp_id p) (\<lambda>r. r\<lparr>sp_checkoutClaimedAt := Some now\<rparr>))))))))))"

subsection \<open>Applying a payment\<close>

definition publication_order :: "service_row \<Rightarrow> bool \<times> time \<times> key" where
  "publication_order v = (sv_publishedAt v = None, case sv_publishedAt v of None \<Rightarrow> 0 | Some t \<Rightarrow> t, sv_id v)"

text \<open>Basic keeps the oldest three published active listings; the others are paused, none is deleted.\<close>

definition pause_excess :: "key \<Rightarrow> unit dbtx" where
  "pause_excess providerId =
     tx_bind (query (active_listings providerId)) (\<lambda>listings.
     let excess = map sv_id (drop 3 (sort_key publication_order listings))
     in when_tx (3 < length listings)
       (modify (services_update (map_rows (\<lambda>v. sv_id v \<in> set excess \<and> sv_providerId v = providerId)
         (\<lambda>v. v\<lparr>sv_status := S_INACTIVE, sv_isAvailable := False\<rparr>)))))"

definition valid_upgrade :: "time \<Rightarrow> user_row \<Rightarrow> subscription_payment_row \<Rightarrow> bool" where
  "valid_upgrade now user p \<longleftrightarrow> bn_marketplaceAccess (subscriptionBenefits user now) \<and> u_subscriptionPlan user = BASIC \<and>
     sp_plan p = PRO \<and> sp_quotedPeriodExpiresAt p = u_subscriptionExpiresAt user"

text \<open>A paid intent is due back when the account or its membership is not the one that was quoted.\<close>

definition not_applicable :: "time \<Rightarrow> user_row \<Rightarrow> subscription_payment_row \<Rightarrow> bool" where
  "not_applicable now user p \<longleftrightarrow> sp_paymentStatus p = SP_CANCELLED \<or> u_role user \<noteq> R_User \<or> \<not> u_isActive user \<or>
     u_deactivatedAt user \<noteq> None \<or> u_moderationStatus user \<noteq> M_ACTIVE \<or>
     \<not> (case sp_quotedMembershipUpdatedAt p of None \<Rightarrow> True | Some t \<Rightarrow> t = u_subscriptionUpdatedAt user) \<or>
     (if sp_billingAction p = UPGRADE then \<not> valid_upgrade now user p
      else bn_marketplaceAccess (subscriptionBenefits user now) \<and> bn_plan (subscriptionBenefits user now) \<noteq> FREE)"

definition payment_closed :: "subscription_payment_row \<Rightarrow> bool" where
  "payment_closed p \<longleftrightarrow> sp_paymentStatus p \<in> {SP_SUCCEEDED, SP_REFUNDED, SP_REFUND_REQUIRED}"

definition grant_membership :: "time \<Rightarrow> user_row \<Rightarrow> subscription_payment_row \<Rightarrow> string option \<Rightarrow> subscription_payment_row dbtx" where
  "grant_membership now user p reference =
     (let upgrade = (sp_billingAction p = UPGRADE);
          startsAt = (if upgrade then u_subscriptionStartedAt user else Some now);
          expiresAt = (if upgrade then sp_quotedPeriodExpiresAt p else Some (oneCalendarMonthFrom now))
      in tx_seq (when_tx (sp_plan p = BASIC) (pause_excess (u_id user)))
        (tx_seq (upd_user (sp_providerId p) (\<lambda>u. u\<lparr>u_subscriptionPlan := sp_plan p, u_subscriptionStatus := SUB_ACTIVE,
            u_subscriptionStartedAt := startsAt, u_subscriptionExpiresAt := expiresAt, u_subscriptionUpdatedAt := now\<rparr>))
        (tx_bind (notify_once (N_MembershipPaid (sp_id p)) (u_id user)
            (if sp_billingAction p = RENEWAL then ''Provider membership renewed''
             else ''Your '' @ (if sp_plan p = BASIC then ''Basic'' else ''Pro'') @ '' membership is active'')) (\<lambda>_.
         update_payment (sp_id p) (\<lambda>r. r\<lparr>sp_paymentStatus := SP_SUCCEEDED, sp_paymentReference := reference, sp_paidAt := Some now,
            sp_subscriptionStartedAt := startsAt, sp_subscriptionExpiresAt := expiresAt, sp_failureReason := None,
            sp_checkoutClaimedAt := None\<rparr>)))))"

definition apply_payment :: "time \<Rightarrow> key \<Rightarrow> string option \<Rightarrow> subscription_payment_row dbtx" where
  "apply_payment now paymentId reference =
     tx_bind (payment_now paymentId) (\<lambda>p.
     if payment_closed p then ret p
     else tx_bind (query (find_user (sp_providerId p))) (\<lambda>found.
       tx_bind (expect (Uncoded ''P2025'') found) (\<lambda>user.
       if not_applicable now user p
       then update_payment paymentId (\<lambda>r. r\<lparr>sp_paymentStatus := SP_REFUND_REQUIRED, sp_paymentReference := reference,
          sp_paidAt := Some now, sp_failureReason := Some ''PAID_SUBSCRIPTION_NOT_APPLIED''\<rparr>)
       else grant_membership now user p reference)))"

definition subscription_intent_matches :: "intent \<Rightarrow> subscription_payment_row \<Rightarrow> bool" where
  "subscription_intent_matches i p \<longleftrightarrow> truthy (it_paymentId i) \<and> it_amount i = sp_amount p \<and> it_currency i = ''PHP'' \<and>
     it_metadata i ''servicehub_subscription_payment_id'' = Some (nat_text (sp_id p)) \<and>
     it_metadata i ''servicehub_provider_id'' = Some (nat_text (sp_providerId p)) \<and>
     it_metadata i ''servicehub_purpose'' = Some ''provider_subscription''"

definition finalizeSubscriptionPayment :: "time \<Rightarrow> intent \<Rightarrow> (db, subscription_payment_row) process" where
  "finalizeSubscriptionPayment now i =
     p_bind (transact (query (payment_of_intent (it_id i)))) (\<lambda>found. case found of
       None \<Rightarrow> transact (fail (Http 404 ''Subscription payment not found.''))
     | Some p \<Rightarrow>
       if it_status i \<noteq> ''succeeded'' then p_ret p
       else if \<not> subscription_intent_matches i p then transact (fail (Http 409 ''Subscription payment details do not match.''))
       else transact (apply_payment now (sp_id p) (it_paymentId i)))"

subsection \<open>Reconciliation with the gateway\<close>

definition subscription_refund_key :: "key \<Rightarrow> string" where
  "subscription_refund_key paymentId = ''subscription-refund-'' @ nat_text paymentId"

definition refund_succeeded :: "subscription_payment_row \<Rightarrow> string \<Rightarrow> bool" where
  "refund_succeeded p status \<longleftrightarrow> status = ''succeeded'' \<or> (sp_isTestMode p \<and> status = ''simulated_test_mode'')"

definition give_back :: "pay_config \<Rightarrow> remote \<Rightarrow> time \<Rightarrow> subscription_payment_row \<Rightarrow> (db, subscription_payment_row) process" where
  "give_back cfg remote now p =
     (if sp_paymentStatus p = SP_REFUND_REQUIRED \<and> truthy (sp_paymentReference p)
      then p_bind (transact (lift_sum (createRefund cfg remote (the (sp_paymentReference p)) None (subscription_refund_key (sp_id p)))))
        (\<lambda>(refundId, status). if refund_succeeded p status
           then transact (update_payment (sp_id p) (\<lambda>r. r\<lparr>sp_paymentStatus := SP_REFUNDED, sp_refundedAt := Some now\<rparr>))
           else p_ret p)
      else p_ret p)"

definition abandoned_status :: "string \<Rightarrow> subscription_payment_status" where
  "abandoned_status st = (if st = ''awaiting_payment_method'' then SP_FAILED else if st = ''cancelled'' then SP_CANCELLED else SP_EXPIRED)"

definition settle_subscription_intent :: "time \<Rightarrow> subscription_payment_row \<Rightarrow> intent \<Rightarrow> (db, subscription_payment_row) process" where
  "settle_subscription_intent now owned i =
     (if it_status i = ''succeeded'' then finalizeSubscriptionPayment now i
      else if sp_paymentStatus owned = SP_PENDING \<and>
          (it_status i \<in> {''awaiting_payment_method'', ''cancelled''} \<or> sp_checkoutExpiresAt owned \<le> now)
      then p_seq (transact (upd_payments (\<lambda>p. sp_id p = sp_id owned \<and> sp_paymentStatus p = SP_PENDING)
             (\<lambda>p. p\<lparr>sp_paymentStatus := abandoned_status (it_status i)\<rparr>)))
           (transact (payment_now (sp_id owned)))
      else p_ret owned)"

definition reconcileSubscriptionPayment ::
  "pay_config \<Rightarrow> remote \<Rightarrow> time \<Rightarrow> key \<Rightarrow> string \<Rightarrow> (db, payment_view) process" where
  "reconcileSubscriptionPayment cfg remote now providerId intentId =
     p_bind (transact (tx_bind (query (\<lambda>s. List.find (\<lambda>p. sp_providerId p = providerId \<and> sp_providerIntentId p = Some intentId)
         (subscriptionPayments s))) (expect (Http 404 ''Subscription payment not found.'')))) (\<lambda>owned.
     p_bind (if sp_paymentStatus owned \<in> {SP_SUCCEEDED, SP_REFUNDED} then p_ret owned
         else p_bind (transact (lift_sum (getPaymentIntent cfg remote intentId))) (settle_subscription_intent now owned)) (\<lambda>payment.
     p_bind (give_back cfg remote now payment) (\<lambda>p. p_ret (subscriptionPaymentView p))))"

definition cancelSubscriptionCheckout ::
  "pay_config \<Rightarrow> remote \<Rightarrow> time \<Rightarrow> key \<Rightarrow> string \<Rightarrow> (db, payment_view) process" where
  "cancelSubscriptionCheckout cfg remote now providerId intentId =
     p_bind (reconcileSubscriptionPayment cfg remote now providerId intentId) (\<lambda>checked.
     if sw_status checked \<noteq> SP_PENDING then p_ret checked
     else p_seq (transact (upd_payments (\<lambda>p. sp_providerId p = providerId \<and> sp_providerIntentId p = Some intentId \<and>
              sp_paymentStatus p = SP_PENDING) (\<lambda>p. p\<lparr>sp_paymentStatus := SP_CANCELLED\<rparr>)))
         (transact (tx_bind (query (payment_of_intent intentId)) (\<lambda>found.
            tx_bind (expect (Uncoded ''P2025'') found) (\<lambda>p. ret (subscriptionPaymentView p))))))"

definition handleSubscriptionWebhook :: "pay_config \<Rightarrow> remote \<Rightarrow> time \<Rightarrow> string \<Rightarrow> (db, bool) process" where
  "handleSubscriptionWebhook cfg remote now intentId =
     p_bind (transact (query (payment_of_intent intentId))) (\<lambda>found. case found of
       None \<Rightarrow> p_ret False
     | Some p \<Rightarrow> p_bind (reconcileSubscriptionPayment cfg remote now (sp_providerId p) intentId) (\<lambda>_. p_ret True))"

subsection \<open>The checkout at the gateway\<close>

text \<open>What the code reads of an intent: id, status, and where there is one the client key and the link.\<close>

record opened_intent =
  oi_id :: string
  oi_status :: string
  oi_clientKey :: string
  oi_link :: "string option"

definition reopen_intent :: "pay_config \<Rightarrow> remote \<Rightarrow> string \<Rightarrow> error + opened_intent" where
  "reopen_intent cfg remote intentId =
     map_sum id (\<lambda>b. \<lparr>oi_id = gb_id b, oi_status = gb_status b, oi_clientKey = gb_clientKey b,
        oi_link = Option.bind (gb_nextAction b) snd\<rparr>) (paymongoFetch cfg remote (GetIntent intentId))"

definition open_intent :: "pay_config \<Rightarrow> remote \<Rightarrow> subscription_payment_row \<Rightarrow> error + opened_intent" where
  "open_intent cfg remote p =
     map_sum id (\<lambda>b. \<lparr>oi_id = gb_id b, oi_status = gb_status b, oi_clientKey = gb_clientKey b, oi_link = None\<rparr>)
       (paymongoFetch cfg remote (CreateIntent (js_round (sp_amount p * 100)) ''PHP'' ''gcash''
          [''servicehub_subscription_payment_id'' \<mapsto> nat_text (sp_id p), ''servicehub_provider_id'' \<mapsto> nat_text (sp_providerId p),
           ''servicehub_purpose'' \<mapsto> ''provider_subscription''] (sp_id p)))"

text \<open>The link of a restored intent, or of attaching a new payment method to it.\<close>

definition checkout_link :: "pay_config \<Rightarrow> remote \<Rightarrow> opened_intent \<Rightarrow> error + string option" where
  "checkout_link cfg remote i =
     (if truthy (oi_link i) then Inr (oi_link i)
      else if oi_clientKey i = [] then Inl (Http 502 ''GCash checkout could not be prepared. Please try again.'')
      else (case createPaymentMethod cfg remote ''gcash'' of Inl e \<Rightarrow> Inl e
        | Inr methodId \<Rightarrow> map_sum id (\<lambda>(_, nextAction). Option.bind nextAction snd)
            (attachPaymentMethod cfg remote (oi_id i) methodId (oi_clientKey i))))"

definition store_intent :: "key \<Rightarrow> string \<Rightarrow> subscription_payment_row dbtx" where
  "store_intent paymentId intentId =
     tx_bind (query (\<lambda>s. exists_row (\<lambda>p. sp_id p \<noteq> paymentId \<and> sp_providerIntentId p = Some intentId) (subscriptionPayments s))) (\<lambda>taken.
     tx_seq (ensure (\<not> taken) (Uncoded ''P2002''))
     (update_payment paymentId (\<lambda>p. p\<lparr>sp_providerIntentId := Some intentId\<rparr>)))"

definition publish_link :: "subscription_payment_row \<Rightarrow> string option \<Rightarrow> payment_view dbtx" where
  "publish_link p link =
     tx_seq (ensure (validRedirect link) (Http 502 ''GCash did not return a valid checkout link. Please try again.''))
    (tx_bind (query (\<lambda>s. exists_row (\<lambda>r. sp_id r = sp_id p \<and> sp_paymentStatus r = SP_PENDING) (subscriptionPayments s))) (\<lambda>pending.
     tx_seq (ensure pending (subscription_fail ''This checkout is no longer pending. Refresh your subscription.''))
    (tx_bind (update_payment (sp_id p) (\<lambda>r. r\<lparr>sp_redirectUrl := link, sp_checkoutClaimedAt := None, sp_failureReason := None\<rparr>))
      (\<lambda>r. ret (subscriptionPaymentView r)))))"

definition close_expired :: "key \<Rightarrow> unit dbtx" where
  "close_expired paymentId = upd_payments (\<lambda>p. sp_id p = paymentId \<and> sp_paymentStatus p = SP_PENDING)
     (\<lambda>p. p\<lparr>sp_paymentStatus := SP_EXPIRED, sp_checkoutClaimedAt := None\<rparr>)"

definition prepare_checkout ::
  "pay_config \<Rightarrow> remote \<Rightarrow> time \<Rightarrow> key \<Rightarrow> subscription_payment_row \<Rightarrow> (db, payment_view) process" where
  "prepare_checkout cfg remote now providerId p =
     p_bind (transact (lift_sum (if truthy (sp_providerIntentId p) then reopen_intent cfg remote (the (sp_providerIntentId p))
         else open_intent cfg remote p))) (\<lambda>i.
     p_bind (transact (store_intent (sp_id p) (oi_id i))) (\<lambda>_.
     if oi_status i = ''succeeded''
     then p_bind (reconcileSubscriptionPayment cfg remote now providerId (oi_id i)) (\<lambda>_.
       transact (tx_bind (payment_now (sp_id p)) (\<lambda>r. ret (subscriptionPaymentView r))))
     else if sp_checkoutExpiresAt p \<le> now
     then p_seq (transact (close_expired (sp_id p))) (transact (fail (subscription_fail ''This checkout expired. Start a new checkout.'')))
     else p_bind (transact (lift_sum (checkout_link cfg remote i))) (\<lambda>link. transact (publish_link p link))))"

definition checkout_unavailable :: "key \<Rightarrow> unit dbtx" where
  "checkout_unavailable paymentId = upd_payments (\<lambda>p. sp_id p = paymentId \<and> sp_paymentStatus p = SP_PENDING)
     (\<lambda>p. p\<lparr>sp_checkoutClaimedAt := None, sp_failureReason := Some ''CHECKOUT_UNAVAILABLE''\<rparr>)"

definition startSubscriptionCheckout ::
  "(quote_payload \<Rightarrow> string) \<Rightarrow> pay_config \<Rightarrow> remote \<Rightarrow> time \<Rightarrow> key \<Rightarrow> plan \<Rightarrow> quote_token option \<Rightarrow> (db, payment_view) process" where
  "startSubscriptionCheckout sign cfg remote now providerId target token =
     p_seq (transact (ensure (truthy (pc_secretKey cfg) \<and> truthy (pc_publicKey cfg) \<and> truthy (pc_webhookSecret cfg))
        (Http 503 ''GCash checkout is unavailable. Please try again later.'')))
    (p_bind (transact (claim_checkout sign cfg now providerId target token)) (\<lambda>p.
     if truthy (sp_redirectUrl p) \<and> now < sp_checkoutExpiresAt p then p_ret (subscriptionPaymentView p)
     else p_rethrow (prepare_checkout cfg remote now providerId p) (\<lambda>_. transact (checkout_unavailable (sp_id p)))))"

subsection \<open>The overview of an administrator\<close>

definition paid_member :: "time \<Rightarrow> plan \<Rightarrow> user_row \<Rightarrow> bool" where
  "paid_member now p u \<longleftrightarrow> u_role u = R_User \<and> u_isActive u \<and> u_moderationStatus u = M_ACTIVE \<and> u_subscriptionPlan u = p \<and>
     u_subscriptionStatus u \<in> {SUB_ACTIVE, SUB_CANCELLED} \<and> opt_le (u_subscriptionStartedAt u) now \<and> opt_gt (u_subscriptionExpiresAt u) now"

definition free_member :: "time \<Rightarrow> user_row \<Rightarrow> bool" where
  "free_member now u \<longleftrightarrow> u_role u = R_User \<and> u_isActive u \<and> u_moderationStatus u = M_ACTIVE \<and> u_subscriptionPlan u = FREE \<and>
     opt_le (u_freePlanStartedAt u) now \<and> opt_gt (u_freePlanExpiresAt u) now"

record subscription_summary =
  ss_activeBasic :: nat
  ss_activeFree :: nat
  ss_activePro :: nat
  ss_expiredPro :: nat
  ss_revenue :: decimal
  ss_testTotal :: decimal
  ss_payments :: "payment_view list"
  ss_total :: nat
  ss_memberships :: "(key \<times> benefits) list"
  ss_membershipTotal :: nat

definition enrolled :: "user_row \<Rightarrow> bool" where
  "enrolled u \<longleftrightarrow> u_role u = R_User \<and> (u_freePlanStartedAt u \<noteq> None \<or> u_subscriptionPlan u \<in> {BASIC, PRO})"

definition page_of :: "nat \<Rightarrow> nat \<Rightarrow> 'a list \<Rightarrow> 'a list" where
  "page_of page limit rows = take limit (drop ((page - 1) * limit) rows)"

definition paid_total :: "bool \<Rightarrow> db \<Rightarrow> decimal" where
  "paid_total testMode s = sum_list (map sp_amount (filter (\<lambda>p. sp_paymentStatus p = SP_SUCCEEDED \<and> sp_isTestMode p = testMode)
     (subscriptionPayments s)))"

definition adminSubscriptionOverview :: "time \<Rightarrow> nat \<Rightarrow> nat \<Rightarrow> db \<Rightarrow> subscription_summary" where
  "adminSubscriptionOverview now page limit s =
     \<lparr>ss_activeBasic = count_rows (paid_member now BASIC) (users s), ss_activeFree = count_rows (free_member now) (users s),
      ss_activePro = count_rows (paid_member now PRO) (users s),
      ss_expiredPro = count_rows (\<lambda>u. u_role u = R_User \<and> u_subscriptionPlan u = PRO \<and> opt_le (u_subscriptionExpiresAt u) now) (users s),
      ss_revenue = paid_total False s, ss_testTotal = paid_total True s,
      ss_payments = map subscriptionPaymentView (page_of page limit (rev (subscriptionPayments s))),
      ss_total = length (subscriptionPayments s),
      ss_memberships = map (\<lambda>u. (u_id u, subscriptionBenefits u now))
        (page_of page limit (sort_key (\<lambda>u. (- u_subscriptionUpdatedAt u, u_id u)) (filter enrolled (users s)))),
      ss_membershipTotal = count_rows enrolled (users s)\<rparr>"


subsection \<open>One pending payment per provider\<close>

abbreviation pending :: "subscription_payment_row \<Rightarrow> bool" where
  "pending p \<equiv> sp_paymentStatus p = SP_PENDING"

interpretation subs: open_cases subscriptionPayments sp_id sp_providerId pending subscriptionPayments_update
  by unfold_locales simp_all

abbreviation payments_wf :: "db \<Rightarrow> bool" where
  "payments_wf \<equiv> subs.one_open"

definition till_rel :: "db \<Rightarrow> db \<Rightarrow> bool" where
  "till_rel s s' \<longleftrightarrow> subscriptionPayments s' = subscriptionPayments s \<and> nextId s \<le> nextId s'"

interpretation till: step_rel till_rel
  by unfold_locales (auto simp: till_rel_def)

named_theorems till_rules \<open>transactions that write no membership payment\<close>
declare till.w_rules [till_rules]

lemma till_writes [till_rules]:
  "till.stays fresh_id" "till.stays (upd_user i f)" "till.stays (notify_once n u t)" "till.stays (modify (services_update g))"
  "till.stays (assertActiveMarketplaceAccount i)" "till.stays (payment_now i)"
  by (rule till.staysI; auto simp: till_rel_def fresh_id_def upd_user_def notify_once_def assertActiveMarketplaceAccount_def
      payment_now_def tx_iff split: if_splits)+

lemma till_parts [till_rules]: "till.stays (pause_excess i)" "till.stays (ensureProviderTrial now i)"
  "till.stays (cancel_membership now i)" "till.stays (getProviderSubscription cfg now i)"
  unfolding pause_excess_def ensureProviderTrial_def cancel_membership_def getProviderSubscription_def Let_def
  by (intro till_rules)+

lemma till_keeps: "till.stays m \<Longrightarrow> keeps payments_wf m"
  by (rule keepsI) (auto simp: till_rel_def dest!: till.staysD intro: subs.open_same)

text \<open>No update opens a payment again or moves it to another provider.\<close>

lemma keeps_upd_payments:
  assumes "\<And>r. sp_id (f r) = sp_id r \<and> sp_providerId (f r) = sp_providerId r \<and> (pending (f r) \<longrightarrow> pending r)"
  shows "keeps payments_wf (upd_payments p f)"
  by (rule keepsI) (use assms in \<open>auto simp: upd_payments_def modify_Inr intro: subs.open_rewrite\<close>)

lemma keeps_update_payment:
  assumes "\<And>r. sp_id (f r) = sp_id r \<and> sp_providerId (f r) = sp_providerId r \<and> (pending (f r) \<longrightarrow> pending r)"
  shows "keeps payments_wf (update_payment i f)"
  unfolding update_payment_def by (intro tx_pres keeps_upd_payments assms)

lemma pending_payment_None:
  "pending_payment k s = None \<longleftrightarrow> (\<forall>p \<in> set (subscriptionPayments s). sp_providerId p = k \<longrightarrow> \<not> pending p)"
  by (auto simp: pending_payment_def find_None_iff)

lemma gives_same:
  assumes "\<And>u x t. m u = Inr (x, t) \<Longrightarrow> t = u"
  shows "gives ((=) s) Q n \<Longrightarrow> gives ((=) s) Q (tx_seq m n)"
    and "(\<And>x. gives ((=) s) Q (f x)) \<Longrightarrow> gives ((=) s) Q (tx_bind m f)"
  using assms unfolding gives_def tx_seq_Inr tx_bind_Inr by blast+

lemma assertActive_same: "assertActiveMarketplaceAccount k u = Inr (x, t) \<Longrightarrow> t = u"
  by (auto simp: assertActiveMarketplaceAccount_def tx_iff)

lemma new_payment_keeps:
  assumes "payments_wf s" "pending_payment (u_id user) s = None"
  shows "gives ((=) s) (\<lambda>_. payments_wf) (new_payment cfg now user target signed q)"
proof -
  have "payments_wf s'" if run: "new_payment cfg now user target signed q s = Inr (p, s')" for p s'
  proof -
    obtain r where r: "s' = subscriptionPayments_update (\<lambda>ps. ps @ [r]) (s\<lparr>nextId := Suc (nextId s)\<rparr>)"
      "sp_id r = nextId s" "sp_providerId r = u_id user"
    proof -
      have "p = p \<and> s' = subscriptionPayments_update (\<lambda>ps. ps @ [p]) (s\<lparr>nextId := Suc (nextId s)\<rparr>) \<and>
          sp_id p = nextId s \<and> sp_providerId p = u_id user"
        using run unfolding new_payment_def tx_bind_fresh Let_def tx_seq_modify ret_Inr by (elim conjE) simp
      then show ?thesis using that by blast
    qed
    have "payments_wf (s\<lparr>nextId := Suc (nextId s)\<rparr>)" by (rule subs.open_same[OF _ _ assms(1)]) simp_all
    moreover have "\<forall>x \<in> set (subscriptionPayments s). sp_id x < nextId s" using assms(1) unfolding subs.one_open_def by blast
    then have "sp_id r \<notin> sp_id ` set (subscriptionPayments s)" unfolding r(2) by (metis imageE less_irrefl)
    moreover have "\<forall>x \<in> set (subscriptionPayments s). pending x \<longrightarrow> sp_providerId x \<noteq> sp_providerId r"
      using assms(2) r(3) unfolding pending_payment_None by metis
    ultimately show ?thesis
      unfolding r(1) by (intro subs.open_add) (simp_all add: r(2))
  qed
  then show ?thesis by (simp add: gives_def)
qed

lemma keeps_claim_checkout: "keeps payments_wf (claim_checkout sign cfg now k target token)"
proof -
  have keep: "gives ((=) s) (\<lambda>_. payments_wf) m" if "keeps payments_wf m" "payments_wf s" for s and m :: "'a dbtx"
    using that by (auto simp: gives_def keeps_def)
  have parse: "t = u" if "(case token of None \<Rightarrow> ret None | Some t \<Rightarrow> lift_sum (map_sum id Some (parseQuote sign now t k target))) u = Inr (x, t)" for u x t
    using that by (auto simp: tx_iff split: option.splits)
  have "gives ((=) s) (\<lambda>_. payments_wf) (claim_checkout sign cfg now k target token)" if wf: "payments_wf s" for s
    unfolding claim_checkout_def
  proof (rule gives_same(1)[OF assertActive_same], assumption, rule gives_query, rule gives_prod, rule gives_expect, rule gives_ensure,
      rule gives_same(2), rule parse, assumption, rule gives_same(2), goal_cases)
    case (1 found existing user signed)
    then show ?case by (simp add: tx_iff)
  next
    case (2 found existing user signed q)
    then have "find_user k s = Some user" "pending_payment k s = existing" by simp_all
    moreover then have "u_id user = k" by (auto simp: find_user_def dest: find_row_Some)
    ultimately show ?case
      by (intro gives_ensure gives_option gives_if new_payment_keeps wf keep keeps_update_payment tx_pres) simp_all
  qed
  then show ?thesis by (auto simp: keeps_def gives_def)
qed

lemma keeps_apply_payment: "keeps payments_wf (apply_payment now i ref)"
  unfolding apply_payment_def grant_membership_def Let_def
  by (intro tx_pres till_keeps till_rules keeps_update_payment) simp_all

lemma p_till: "till.stays m \<Longrightarrow> p_keeps payments_wf (transact m)"
  by (intro p_keeps_transact till_keeps)

lemma p_payments_reconcile: "p_keeps payments_wf (reconcileSubscriptionPayment cfg remote now k it)"
proof -
  have abandoned: "abandoned_status st \<noteq> SP_PENDING" for st by (simp add: abandoned_status_def)
  have "p_keeps payments_wf (settle_subscription_intent now owned i)" for owned i
    unfolding settle_subscription_intent_def finalizeSubscriptionPayment_def
    by (intro p_shape p_till till_rules p_keeps_transact[OF keeps_apply_payment] p_keeps_transact[OF keeps_upd_payments])
      (simp add: abandoned)
  moreover have "p_keeps payments_wf (give_back cfg remote now p)" for p
    unfolding give_back_def by (intro p_shape p_till till_rules p_keeps_transact[OF keeps_update_payment]) simp
  ultimately show ?thesis
    unfolding reconcileSubscriptionPayment_def by (intro p_shape p_till till_rules)
qed

lemma p_payments_checkout: "p_keeps payments_wf (startSubscriptionCheckout sign cfg remote now k target token)"
proof -
  have store: "keeps payments_wf (store_intent i it)" and link: "keeps payments_wf (publish_link p l)" for i it p l
    unfolding store_intent_def publish_link_def by (intro tx_pres keeps_update_payment; simp)+
  have close: "keeps payments_wf (close_expired i)" "keeps payments_wf (checkout_unavailable i)" for i
    unfolding close_expired_def checkout_unavailable_def by (intro keeps_upd_payments; simp)+
  have "p_keeps payments_wf (prepare_checkout cfg remote now k p)" for p
    unfolding prepare_checkout_def
    by (intro p_shape p_payments_reconcile p_keeps_transact[OF store] p_keeps_transact[OF link] p_keeps_transact[OF close(1)] p_till till_rules)
  then show ?thesis
    unfolding startSubscriptionCheckout_def
    by (intro p_shape p_till till_rules p_keeps_transact[OF keeps_claim_checkout] p_keeps_transact[OF close(2)])
qed

lemma p_payments_cancel:
  "p_keeps payments_wf (cancelSubscriptionCheckout cfg remote now k it)" "p_keeps payments_wf (handleSubscriptionWebhook cfg remote now it)"
  "p_keeps payments_wf (cancelProviderSubscription cfg now k)" "p_keeps payments_wf (enrollProviderMembership cfg now k)"
proof -
  show "p_keeps payments_wf (cancelSubscriptionCheckout cfg remote now k it)"
    unfolding cancelSubscriptionCheckout_def
    by (intro p_shape p_payments_reconcile p_till till_rules p_keeps_transact[OF keeps_upd_payments]) simp
  show "p_keeps payments_wf (handleSubscriptionWebhook cfg remote now it)"
    unfolding handleSubscriptionWebhook_def by (intro p_shape p_payments_reconcile p_till till_rules)
  show "p_keeps payments_wf (cancelProviderSubscription cfg now k)" "p_keeps payments_wf (enrollProviderMembership cfg now k)"
    unfolding cancelProviderSubscription_def enrollProviderMembership_def by (intro p_shape p_till till_rules)+
qed


subsection \<open>A running paid membership\<close>

definition running :: "time \<Rightarrow> user_row \<Rightarrow> bool" where
  "running now u \<longleftrightarrow> bn_marketplaceAccess (subscriptionBenefits u now) \<and> u_subscriptionPlan u \<noteq> FREE"

lemma running_iff: "running now u \<longleftrightarrow> u_subscriptionPlan u \<noteq> FREE \<and> u_subscriptionStatus u \<in> {SUB_ACTIVE, SUB_CANCELLED} \<and>
    (\<exists>a. u_subscriptionStartedAt u = Some a \<and> a \<le> now) \<and> (\<exists>e. u_subscriptionExpiresAt u = Some e \<and> now < e)"
  by (auto simp: running_def subscriptionBenefits_def Let_def plan_start_def plan_expiry_def split: option.splits)

lemma benefits_plan [simp]: "bn_plan (subscriptionBenefits u now) = u_subscriptionPlan u"
  by (simp add: subscriptionBenefits_def Let_def)

definition serves :: "time \<Rightarrow> user_row \<Rightarrow> user_row \<Rightarrow> bool" where
  "serves now u v \<longleftrightarrow> running now v \<and> u_subscriptionExpiresAt v = u_subscriptionExpiresAt u \<and>
     u_subscriptionPlan v \<in> {u_subscriptionPlan u, PRO}"

definition member_rel :: "time \<Rightarrow> db \<Rightarrow> db \<Rightarrow> bool" where
  "member_rel now s s' \<longleftrightarrow> (\<forall>k u. find_user k s = Some u \<longrightarrow> running now u \<longrightarrow> (\<exists>v. find_user k s' = Some v \<and> serves now u v))"

interpretation member: step_rel "member_rel now" for now
proof unfold_locales
  show "member_rel now s s" for s by (auto simp: member_rel_def serves_def)
  show "member_rel now s t \<Longrightarrow> member_rel now t w \<Longrightarrow> member_rel now s w" for s t w
    unfolding member_rel_def serves_def by fastforce
qed

named_theorems member_rules \<open>transactions that keep a running membership\<close>
declare member.w_rules [member_rules]

lemma member_same: "users s' = users s \<Longrightarrow> member_rel now s s'"
  unfolding member_rel_def find_user_def by (metis member.R_refl[unfolded member_rel_def find_user_def])

lemma member_writes [member_rules]:
  "member.stays now fresh_id" "member.stays now (notify_once n u t)" "member.stays now (modify (services_update g))"
  "member.stays now (assertActiveMarketplaceAccount i)" "member.stays now (payment_now i)" "member.stays now (upd_payments p f)"
  "member.stays now (update_payment i f)" "member.stays now (modify (subscriptionPayments_update h))" "member.stays now (pause_excess i)"
  by (rule member.staysI, rule member_same;
      auto simp: fresh_id_def notify_once_def assertActiveMarketplaceAccount_def upd_payments_def update_payment_def pause_excess_def
      Let_def payment_now_def tx_iff split: if_splits)+

lemma member_upd_user:
  assumes "\<And>u. u_id (f u) = u_id u" "\<And>u. find_user i s = Some u \<Longrightarrow> running now u \<Longrightarrow> serves now u (f u)"
    "upd_user i f s = Inr (x, s')"
  shows "member_rel now s s'"
proof -
  have s': "users s' = map_rows (\<lambda>r. u_id r = i) f (users s)" using assms(3) by (simp add: upd_user_def modify_Inr)
  have "find_user k s' = map_option (\<lambda>r. if u_id r = i then f r else r) (find_user k s)" for k
    unfolding find_user_def s' by (rule find_row_map_rows) (simp add: assms(1))
  moreover have "u_id u = k" if "find_user k s = Some u" for k u using that by (auto simp: find_user_def dest: find_row_Some)
  ultimately show ?thesis
    unfolding member_rel_def using assms(2) by (auto simp: serves_def)
qed

lemma member_trial [member_rules]: "member.stays now (ensureProviderTrial later i)"
proof -
  have "member.stays now (upd_user i (\<lambda>u. u\<lparr>u_freePlanStartedAt := Some later,
     u_freePlanExpiresAt := Some (later + FREE_PERIOD_MS), u_subscriptionUpdatedAt := later\<rparr>))"
    by (rule member.staysI, rule member_upd_user) (auto simp: running_iff serves_def)
  then show ?thesis unfolding ensureProviderTrial_def by (intro member_rules)
qed

lemma member_cancel [member_rules]: "member.stays now (cancel_membership later i)"
proof -
  have "member.stays now (upd_user i (\<lambda>u. u\<lparr>u_subscriptionStatus := SUB_CANCELLED, u_subscriptionUpdatedAt := later\<rparr>))"
    by (rule member.staysI, rule member_upd_user) (auto simp: running_iff serves_def)
  then show ?thesis unfolding cancel_membership_def by (intro member_rules)
qed

lemma member_claim [member_rules]: "member.stays now (claim_checkout sign cfg t k target token)"
  unfolding claim_checkout_def new_payment_def Let_def by (intro member_rules)

text \<open>A membership is granted to an account whose running membership is the one to upgrade.\<close>

lemma applicable_serves:
  assumes "\<not> not_applicable now u p" "running now u"
  shows "serves now u (u\<lparr>u_subscriptionPlan := sp_plan p, u_subscriptionStatus := SUB_ACTIVE,
      u_subscriptionStartedAt := (if sp_billingAction p = UPGRADE then u_subscriptionStartedAt u else Some now),
      u_subscriptionExpiresAt := (if sp_billingAction p = UPGRADE then sp_quotedPeriodExpiresAt p else Some (oneCalendarMonthFrom now)),
      u_subscriptionUpdatedAt := now\<rparr>)"
proof -
  from assms have "sp_billingAction p = UPGRADE" "valid_upgrade now u p"
    by (auto simp: not_applicable_def running_def split: if_splits)
  with assms(2) show ?thesis by (auto simp: valid_upgrade_def serves_def running_iff)
qed

lemma same_users_find: "users s' = users s \<Longrightarrow> find_user k s' = find_user k s"
  by (simp add: find_user_def)

lemma member_middle:
  assumes "tx_seq m (tx_seq w n) s = Inr (x, s')" "\<And>y t. m s = Inr (y, t) \<Longrightarrow> users t = users s" "member.stays now n"
    "\<And>t1 t2 y. users t1 = users s \<Longrightarrow> w t1 = Inr (y, t2) \<Longrightarrow> member_rel now t1 t2"
  shows "member_rel now s s'"
proof -
  obtain y t1 z t2 where t: "m s = Inr (y, t1)" "w t1 = Inr (z, t2)" "n t2 = Inr (x, s')"
    using assms(1) unfolding tx_seq_Inr by blast
  have u: "users t1 = users s" by (rule assms(2)[OF t(1)])
  have "member_rel now s t1" by (rule member_same[OF u])
  moreover have "member_rel now t1 t2" by (rule assms(4)[OF u t(2)])
  moreover have "member_rel now t2 s'" using assms(3) t(3) unfolding member.stays_def by blast
  ultimately show ?thesis using member.R_trans by blast
qed

lemma pause_users: "when_tx c (pause_excess k) s = Inr (y, t) \<Longrightarrow> users t = users s"
  by (auto simp: when_tx_Inr pause_excess_def Let_def tx_iff split: if_splits)

lemma member_grant:
  assumes "\<not> not_applicable now u p" "find_user (sp_providerId p) s = Some u" "grant_membership now u p ref s = Inr (x, s')"
  shows "member_rel now s s'"
proof (rule member_middle[OF assms(3)[unfolded grant_membership_def Let_def] pause_users])
  fix t1 t2 y assume u: "users t1 = users s" and w: "upd_user (sp_providerId p) (\<lambda>r. r\<lparr>u_subscriptionPlan := sp_plan p, u_subscriptionStatus := SUB_ACTIVE,
      u_subscriptionStartedAt := (if sp_billingAction p = UPGRADE then u_subscriptionStartedAt u else Some now),
      u_subscriptionExpiresAt := (if sp_billingAction p = UPGRADE then sp_quotedPeriodExpiresAt p else Some (oneCalendarMonthFrom now)),
      u_subscriptionUpdatedAt := now\<rparr>) t1 = Inr (y, t2)"
  have "find_user (sp_providerId p) t1 = Some u" using assms(2) u by (simp add: find_user_def)
  then show "member_rel now t1 t2"
    by (intro member_upd_user[OF _ _ w]) (auto dest: applicable_serves[OF assms(1)])
qed (assumption, intro member_rules)

lemma member_apply [member_rules]: "member.stays now (apply_payment now i ref)"
proof (rule member.staysI)
  fix s x s' assume run: "apply_payment now i ref s = Inr (x, s')"
  have "gives ((=) s) (\<lambda>_. member_rel now s) (apply_payment now i ref)"
    unfolding apply_payment_def
  proof (rule gives_same(2), goal_cases)
    case (1 u p t)
    then show ?case by (auto simp: payment_now_def tx_iff)
  next
    case (2 p)
    have other: "gives ((=) s) (\<lambda>_. member_rel now s) (update_payment i f)" for f
      by (auto simp: gives_def intro: member_same dest!: member.staysD[OF member_writes(7)[of now]]) 
    have grant: "gives ((=) s) (\<lambda>_. member_rel now s) (grant_membership now user p ref)"
      if "\<not> not_applicable now user p" "find_user (sp_providerId p) s = Some user" for user
      using member_grant[OF that] by (auto simp: gives_def)
    show ?case
      by (intro gives_if gives_query gives_expect other grant) (auto intro: gives_ret simp: member.R_refl)
  qed
  then show "member_rel now s s'" using run by (auto simp: gives_def)
qed

lemma p_member: "member.stays now m \<Longrightarrow> p_keeps (member_rel now s0) (transact m)"
  by (rule p_keeps_transact, rule keepsI) (blast dest: member.staysD intro: member.R_trans)

lemma p_member_reconcile: "p_keeps (member_rel now s0) (reconcileSubscriptionPayment cfg remote now k it)"
  unfolding reconcileSubscriptionPayment_def settle_subscription_intent_def finalizeSubscriptionPayment_def give_back_def
  by (intro p_shape p_member member_rules)

lemma p_member_operations:
  "p_keeps (member_rel now s0) (startSubscriptionCheckout sign cfg remote now k target token)"
  "p_keeps (member_rel now s0) (cancelSubscriptionCheckout cfg remote now k it)"
  "p_keeps (member_rel now s0) (handleSubscriptionWebhook cfg remote now it)"
  "p_keeps (member_rel now s0) (cancelProviderSubscription cfg now k)"
  "p_keeps (member_rel now s0) (enrollProviderMembership cfg now k)"
  unfolding startSubscriptionCheckout_def prepare_checkout_def cancelSubscriptionCheckout_def handleSubscriptionWebhook_def
    cancelProviderSubscription_def enrollProviderMembership_def store_intent_def publish_link_def close_expired_def
    checkout_unavailable_def getProviderSubscription_def
  by (intro p_shape p_member_reconcile p_member member_rules)+


subsection \<open>What the memberships promise\<close>

lemma distinct_same_key:
  assumes "\<And>x y. x \<in> set xs \<Longrightarrow> y \<in> set xs \<Longrightarrow> f x = f y" "distinct (map f xs)"
  shows "length xs \<le> 1"
proof (cases xs)
  case (Cons x ys)
  then show ?thesis using assms by (cases ys) auto
qed simp

text \<open>C20: No operation on memberships opens a second payment while one of the same provider is pending: the
  payments of a provider hold at most one pending row after every checkout, reconciliation, cancellation
  and webhook, whatever the gateway answers and wherever the operation fails.\<close>

theorem one_pending_membership_payment:
  assumes "payments_wf s"
    "s' \<in> {snd (startSubscriptionCheckout sign cfg remote now k target token s), snd (reconcileSubscriptionPayment cfg remote now k it s),
      snd (cancelSubscriptionCheckout cfg remote now k it s), snd (handleSubscriptionWebhook cfg remote now it s),
      snd (cancelProviderSubscription cfg now k s), snd (enrollProviderMembership cfg now k s)}"
  shows "payments_wf s' \<and> length (filter (\<lambda>p. sp_providerId p = i \<and> sp_paymentStatus p = SP_PENDING) (subscriptionPayments s')) \<le> 1"
proof -
  have wf: "payments_wf s'"
    using assms(2) by (elim insertE emptyE) (simp_all only: p_keepsD[OF p_payments_checkout assms(1)]
      p_keepsD[OF p_payments_reconcile assms(1)] p_keepsD[OF p_payments_cancel(1) assms(1)]
      p_keepsD[OF p_payments_cancel(2) assms(1)] p_keepsD[OF p_payments_cancel(3) assms(1)]
      p_keepsD[OF p_payments_cancel(4) assms(1)])
  have "sp_id x = sp_id y" if "x \<in> set (filter (\<lambda>p. sp_providerId p = i \<and> pending p) (subscriptionPayments s'))"
    "y \<in> set (filter (\<lambda>p. sp_providerId p = i \<and> pending p) (subscriptionPayments s'))" for x y
    using wf that unfolding subs.one_open_def by (metis (mono_tags, lifting) mem_Collect_eq set_filter)
  moreover have "distinct (map sp_id (filter (\<lambda>p. sp_providerId p = i \<and> pending p) (subscriptionPayments s')))"
    using wf by (simp add: subs.one_open_def distinct_map_filter)
  ultimately show ?thesis using wf distinct_same_key by blast
qed

text \<open>C33: A paid membership that runs is never cut short: at the instant of any membership operation, of this
  provider or another, a member whose paid period runs still has access afterwards, until the same
  instant, on the same plan or upgraded to Pro. Cancelling only stops the renewal.\<close>

theorem running_membership_kept:
  assumes "find_user i s = Some u" "bn_marketplaceAccess (subscriptionBenefits u now)" "u_subscriptionPlan u \<noteq> FREE"
    "s' \<in> {snd (startSubscriptionCheckout sign cfg remote now k target token s), snd (reconcileSubscriptionPayment cfg remote now k it s),
      snd (cancelSubscriptionCheckout cfg remote now k it s), snd (handleSubscriptionWebhook cfg remote now it s),
      snd (cancelProviderSubscription cfg now k s), snd (enrollProviderMembership cfg now k s)}"
  shows "\<exists>v. find_user i s' = Some v \<and> bn_marketplaceAccess (subscriptionBenefits v now) \<and>
    u_subscriptionExpiresAt v = u_subscriptionExpiresAt u \<and> u_subscriptionPlan v \<in> {u_subscriptionPlan u, PRO}"
proof -
  have "member_rel now s s'"
    using assms(4) by (elim insertE emptyE) (simp_all only: p_keepsD[OF p_member_reconcile member.R_refl]
      p_keepsD[OF p_member_operations(1) member.R_refl] p_keepsD[OF p_member_operations(2) member.R_refl]
      p_keepsD[OF p_member_operations(3) member.R_refl] p_keepsD[OF p_member_operations(4) member.R_refl]
      p_keepsD[OF p_member_operations(5) member.R_refl])
  moreover have "running now u" using assms(2,3) by (simp add: running_def)
  ultimately obtain v where "find_user i s' = Some v" "serves now u v" using assms(1) unfolding member_rel_def by blast
  then show ?thesis by (auto simp: serves_def running_def)
qed


lemma split_sorted:
  assumes "distinct (map key xs)" "x \<in> set xs"
  shows "key x \<notin> key ` set (drop n (sort_key f xs)) \<longleftrightarrow> x \<in> set (take n (sort_key f xs))"
proof -
  let ?S = "sort_key f xs"
  have d: "distinct ?S" "inj_on key (set ?S)" using assms(1) by (simp_all add: distinct_map)
  have x: "x \<in> set (take n ?S) \<union> set (drop n ?S)"
    using assms(2) set_sort[of f xs] by (metis append_take_drop_id set_append)
  have disj: "set (take n ?S) \<inter> set (drop n ?S) = {}" by (rule set_take_disj_set_drop_if_distinct[OF d(1)]) simp
  have mem: "key x \<in> key ` set (drop n ?S) \<longleftrightarrow> x \<in> set (drop n ?S)"
  proof
    assume "key x \<in> key ` set (drop n ?S)"
    then obtain y where y: "y \<in> set (drop n ?S)" "key y = key x" by auto
    then have "y \<in> set ?S" by (meson in_set_dropD)
    then show "x \<in> set (drop n ?S)" using y d(2) assms(2) by (metis inj_onD set_sort)
  qed simp
  show ?thesis using x disj mem by blast
qed

lemma set_filter_map: "set (filter P (map h xs)) = h ` {v \<in> set xs. P (h v)}"
  by auto

lemma pause_effect:
  assumes "when_tx basic (pause_excess k) s = Inr (y, s')" "distinct (map sv_id (services s))"
  shows "users s' = users s" "subscriptionPayments s' = subscriptionPayments s"
    "basic \<Longrightarrow> set (active_listings k s') = set (take 3 (sort_key publication_order (active_listings k s)))"
    "\<not> basic \<Longrightarrow> services s' = services s"
proof -
  let ?L = "active_listings k s"
  define t where "t = services_update (map_rows (\<lambda>v. sv_id v \<in> set (map sv_id (drop 3 (sort_key publication_order ?L))) \<and> sv_providerId v = k)
         (\<lambda>v. v\<lparr>sv_status := S_INACTIVE, sv_isAvailable := False\<rparr>)) s"
  have run: "s' = (if basic \<and> 3 < length ?L then t else s)"
    using assms(1) unfolding when_tx_Inr pause_excess_def Let_def tx_bind_query modify_Inr t_def[symmetric] by (simp split: if_splits)
  have t: "users t = users s" "subscriptionPayments t = subscriptionPayments s" by (simp_all add: t_def)
  show "users s' = users s" "subscriptionPayments s' = subscriptionPayments s" "\<not> basic \<Longrightarrow> services s' = services s"
    unfolding run by (simp_all add: t)
  have d: "distinct (map sv_id ?L)" using assms(2) by (simp add: active_listings_def distinct_map_filter)
  assume basic
  show "set (active_listings k s') = set (take 3 (sort_key publication_order ?L))"
  proof (cases "3 < length ?L")
    case False
    then have "s' = s" using run by simp
    then show ?thesis using False by simp
  next
    case True
    define E where "E = sv_id ` set (drop 3 (sort_key publication_order ?L))"
    have s': "services s' = map_rows (\<lambda>v. sv_id v \<in> E \<and> sv_providerId v = k)
         (\<lambda>v. v\<lparr>sv_status := S_INACTIVE, sv_isAvailable := False\<rparr>) (services s)"
      using run True \<open>basic\<close> by (simp add: t_def E_def)
    let ?h = "\<lambda>v. if sv_id v \<in> E \<and> sv_providerId v = k then v\<lparr>sv_status := S_INACTIVE, sv_isAvailable := False\<rparr> else v"
    have h: "sv_providerId (?h v) = k \<and> sv_status (?h v) = S_ACTIVE \<longleftrightarrow> sv_providerId v = k \<and> sv_status v = S_ACTIVE \<and> sv_id v \<notin> E" for v
      by (cases "sv_id v \<in> E"; cases "sv_providerId v = k") (simp_all del: image_iff)
    have "set (active_listings k s') = ?h ` {v \<in> set (services s). sv_providerId (?h v) = k \<and> sv_status (?h v) = S_ACTIVE}"
      unfolding active_listings_def s' map_rows_def by (rule set_filter_map)
    also have "\<dots> = ?h ` {v \<in> set ?L. sv_id v \<notin> E}"
      unfolding h by (rule arg_cong[where f = "(`) ?h"]) (auto simp: active_listings_def)
    also have "\<dots> = id ` {v \<in> set ?L. sv_id v \<notin> E}"
      by (rule image_cong) auto
    also have "\<dots> = {v \<in> set ?L. sv_id v \<notin> E}" by simp
    also have "\<dots> = {v \<in> set ?L. v \<in> set (take 3 (sort_key publication_order ?L))}"
      unfolding E_def using split_sorted[OF d] by blast
    also have "\<dots> = set (take 3 (sort_key publication_order ?L))"
      using set_take_subset[of 3 "sort_key publication_order ?L"] by auto
    finally show ?thesis .
  qed
qed

lemma payment_of_intent_row: "payment_of_intent j s = find_row sp_providerIntentId (Some j) (subscriptionPayments s)"
  by (simp add: payment_of_intent_def find_row_def)

lemma update_payment_effect:
  assumes "update_payment i f s = Inr (p, s')" "find_payment i s = Some q"
    "\<And>r. sp_id (f r) = sp_id r" "\<And>r. sp_providerIntentId (f r) = sp_providerIntentId r"
  shows "p = f q" "find_payment i s' = Some p" "users s' = users s" "services s' = services s"
    "payment_of_intent j s' = map_option (\<lambda>r. if sp_id r = i then f r else r) (payment_of_intent j s)"
proof -
  from assms(1) have s': "s' = subscriptionPayments_update (map_rows (\<lambda>p. sp_id p = i) f) s" and p: "find_payment i s' = Some p"
    by (simp_all add: update_payment_def upd_payments_def tx_seq_Inr modify_Inr tx_bind_query expect_Inr)
  have "find_payment i s' = map_option f (find_payment i s)"
    unfolding find_payment_def s' by (simp add: assms(3))
  then show "p = f q" using p assms(2) by simp
  show "find_payment i s' = Some p" by (rule p)
  show "users s' = users s" "services s' = services s" by (simp_all add: s')
  show "payment_of_intent j s' = map_option (\<lambda>r. if sp_id r = i then f r else r) (payment_of_intent j s)"
    unfolding payment_of_intent_row s' by (simp add: find_row_map_rows[of sp_providerIntentId] assms(4))
qed

lemma intent_payment:
  assumes "payment_of_intent j s = Some q" "payments_wf s"
  shows "find_payment (sp_id q) s = Some q" "sp_providerIntentId q = Some j"
proof -
  have "q \<in> set (subscriptionPayments s)" "sp_providerIntentId q = Some j"
    using assms(1) by (auto simp: payment_of_intent_def find_Some_iff)
  then show "find_payment (sp_id q) s = Some q" "sp_providerIntentId q = Some j"
    using assms(2) find_row_distinct[of sp_id "subscriptionPayments s" q] unfolding find_payment_def subs.one_open_def by blast+
qed

text \<open>The granted row and the paid row.\<close>

definition member_of :: "time \<Rightarrow> subscription_payment_row \<Rightarrow> user_row \<Rightarrow> user_row" where
  "member_of now q u = u\<lparr>u_subscriptionPlan := sp_plan q, u_subscriptionStatus := SUB_ACTIVE,
     u_subscriptionStartedAt := (if sp_billingAction q = UPGRADE then u_subscriptionStartedAt u else Some now),
     u_subscriptionExpiresAt := (if sp_billingAction q = UPGRADE then u_subscriptionExpiresAt u else Some (oneCalendarMonthFrom now)),
     u_subscriptionUpdatedAt := now\<rparr>"

lemma grant_effect:
  assumes "grant_membership now u q ref s = Inr (p, s')" "\<not> not_applicable now u q" "find_user (sp_providerId q) s = Some u"
    "find_payment (sp_id q) s = Some q" "distinct (map sv_id (services s))"
  shows "sp_paymentStatus p = SP_SUCCEEDED \<and> sp_paymentReference p = ref \<and> sp_id p = sp_id q \<and>
    sp_amount p = sp_amount q \<and> sp_providerId p = sp_providerId q \<and> find_payment (sp_id q) s' = Some p \<and> find_user (sp_providerId q) s' = Some (member_of now q u) \<and>
    (sp_plan q = BASIC \<longrightarrow> set (active_listings (sp_providerId q) s') =
       set (take 3 (sort_key publication_order (active_listings (sp_providerId q) s)))) \<and>
    (\<forall>j. payment_of_intent j s = Some q \<longrightarrow> payment_of_intent j s' = Some p)"
proof -
  let ?f = "\<lambda>r. r\<lparr>u_subscriptionPlan := sp_plan q, u_subscriptionStatus := SUB_ACTIVE,
      u_subscriptionStartedAt := (if sp_billingAction q = UPGRADE then u_subscriptionStartedAt u else Some now),
      u_subscriptionExpiresAt := (if sp_billingAction q = UPGRADE then sp_quotedPeriodExpiresAt q else Some (oneCalendarMonthFrom now)),
      u_subscriptionUpdatedAt := now\<rparr>"
  let ?g = "\<lambda>r. r\<lparr>sp_paymentStatus := SP_SUCCEEDED, sp_paymentReference := ref, sp_paidAt := Some now,
      sp_subscriptionStartedAt := (if sp_billingAction q = UPGRADE then u_subscriptionStartedAt u else Some now),
      sp_subscriptionExpiresAt := (if sp_billingAction q = UPGRADE then sp_quotedPeriodExpiresAt q else Some (oneCalendarMonthFrom now)),
      sp_failureReason := None, sp_checkoutClaimedAt := None\<rparr>"
  from assms(1) obtain y t1 z t2 n t3 where t1: "when_tx (sp_plan q = BASIC) (pause_excess (u_id u)) s = Inr (y, t1)"
    and t2: "upd_user (sp_providerId q) ?f t1 = Inr (z, t2)"
    and t3: "notify_once (N_MembershipPaid (sp_id q)) (u_id u) (if sp_billingAction q = RENEWAL then ''Provider membership renewed''
             else ''Your '' @ (if sp_plan q = BASIC then ''Basic'' else ''Pro'') @ '' membership is active'') t2 = Inr (n, t3)"
    and t4: "update_payment (sp_id q) ?g t3 = Inr (p, s')"
    unfolding grant_membership_def Let_def tx_seq_Inr tx_bind_Inr by blast
  note e1 = pause_effect[OF t1 assms(5)]
  have e2: "users t2 = map_rows (\<lambda>r. u_id r = sp_providerId q) ?f (users t1)" "subscriptionPayments t2 = subscriptionPayments t1" "services t2 = services t1"
    using t2 by (simp_all add: upd_user_def modify_Inr)
  have e3: "users t3 = users t2" "subscriptionPayments t3 = subscriptionPayments t2" "services t3 = services t2"
    using t3 by (auto simp: notify_once_def split: if_splits)
  have q3: "find_payment (sp_id q) t3 = Some q" using assms(4) by (simp add: find_payment_def e3 e2 e1)
  have "sp_id (?g r) = sp_id r" "sp_providerIntentId (?g r) = sp_providerIntentId r" for r by simp_all
  note e4 = update_payment_effect[OF t4 q3 this]
  have k: "u_id u = sp_providerId q" using assms(3) by (auto simp: find_user_def dest: find_row_Some)
  have "find_user (sp_providerId q) s' = map_option ?f (find_user (sp_providerId q) s)"
    unfolding find_user_def e4(3) e3 e2 e1(1) by simp
  moreover have "?f u = member_of now q u"
    using assms(2) by (auto simp: member_of_def not_applicable_def valid_upgrade_def split: if_splits)
  ultimately have "find_user (sp_providerId q) s' = Some (member_of now q u)" using assms(3) k by simp
  moreover have "sp_plan q = BASIC \<longrightarrow> set (active_listings (sp_providerId q) s') =
       set (take 3 (sort_key publication_order (active_listings (sp_providerId q) s)))"
    using e1(3) k by (simp add: active_listings_def e4(4) e3 e2)
  moreover have "payment_of_intent j s' = Some p" if "payment_of_intent j s = Some q" for j
    using that e4(1) e4(5)[of j] by (simp add: payment_of_intent_def e3 e2 e1(2))
  ultimately show ?thesis using e4(1,2) by simp
qed

lemma p_bind_read: "p_bind (transact (query f)) g s = g (f s) s"
  by (simp add: p_bind_def transact_def query_def)

lemma transact_run: "transact m s = (Inr x, s') \<longleftrightarrow> m s = Inr (x, s')"
  by (cases "m s") (auto simp: transact_def)

lemma apply_closed:
  assumes "find_payment i s = Some p" "payment_closed p"
  shows "apply_payment now i ref s = Inr (p, s)"
  using assms by (simp add: apply_payment_def payment_now_def tx_bind_def query_def expect_def ret_def)


subsection \<open>Witnesses\<close>

definition sample_member :: user_row where
  "sample_member = (ready_user 2)\<lparr>u_subscriptionPlan := BASIC, u_subscriptionStatus := SUB_ACTIVE, u_subscriptionStartedAt := Some 0,
     u_subscriptionExpiresAt := Some 3000, u_subscriptionUpdatedAt := 0, u_freePlanStartedAt := Some 0\<rparr>"

definition sample_payment :: subscription_payment_row where
  "sample_payment = \<lparr>sp_id = 9, sp_providerId = 2, sp_plan = PRO, sp_amount = 50, sp_paymentReference = None,
     sp_providerIntentId = Some ''pi_9'', sp_redirectUrl = None, sp_paymentStatus = SP_PENDING, sp_isTestMode = True,
     sp_checkoutExpiresAt = 2000, sp_checkoutClaimedAt = None, sp_failureReason = None, sp_billingAction = UPGRADE,
     sp_quotedMembershipUpdatedAt = Some 0, sp_quotedPeriodExpiresAt = Some 3000, sp_subscriptionStartedAt = None,
     sp_subscriptionExpiresAt = None, sp_paidAt = None, sp_refundedAt = None\<rparr>"

definition sample_membership_db :: db where
  "sample_membership_db = empty_db\<lparr>users := [sample_member], subscriptionPayments := [sample_payment], nextId := 50\<rparr>"

lemma sample_membership:
  "payments_wf sample_membership_db" "find_user 2 sample_membership_db = Some sample_member"
  "bn_marketplaceAccess (subscriptionBenefits sample_member 1000)" "u_subscriptionPlan sample_member \<noteq> FREE"
  "payment_of_intent ''pi_9'' sample_membership_db = Some sample_payment"
proof -
  show "payments_wf sample_membership_db"
    unfolding subs.one_open_def by (simp add: sample_membership_db_def sample_payment_def)
  show "find_user 2 sample_membership_db = Some sample_member"
    by (simp add: find_user_def find_row_def sample_membership_db_def sample_member_def ready_user_def)
  show "bn_marketplaceAccess (subscriptionBenefits sample_member 1000)" "u_subscriptionPlan sample_member \<noteq> FREE" by code_simp+
  show "payment_of_intent ''pi_9'' sample_membership_db = Some sample_payment"
    by (simp add: payment_of_intent_def sample_membership_db_def sample_payment_def)
qed

theorem one_pending_membership_payment_witness:
  "let s' = snd (startSubscriptionCheckout (\<lambda>_. []) sample_config (\<lambda>_. GR_Unreachable) 1000 2 PRO None sample_membership_db)
   in length (filter (\<lambda>p. sp_providerId p = 2 \<and> sp_paymentStatus p = SP_PENDING) (subscriptionPayments s')) \<le> 1 \<and>
      subscriptionPayments s' \<noteq> subscriptionPayments sample_membership_db"
proof -
  let ?s = "snd (startSubscriptionCheckout (\<lambda>_. []) sample_config (\<lambda>_. GR_Unreachable) 1000 2 PRO None sample_membership_db)"
  have "map sp_failureReason (subscriptionPayments ?s) = [Some ''CHECKOUT_UNAVAILABLE'']" by code_simp
  then have "subscriptionPayments ?s \<noteq> subscriptionPayments sample_membership_db"
    by (auto simp: sample_membership_db_def sample_payment_def)
  moreover have "payments_wf ?s \<and> length (filter (\<lambda>p. sp_providerId p = 2 \<and> sp_paymentStatus p = SP_PENDING) (subscriptionPayments ?s)) \<le> 1"
    by (rule one_pending_membership_payment[OF sample_membership(1), where sign = "\<lambda>_. []" and cfg = sample_config
        and remote = "\<lambda>_. GR_Unreachable" and now = 1000 and k = 2 and target = PRO and token = None]) simp
  ultimately show ?thesis unfolding Let_def by blast
qed

theorem running_membership_kept_witness:
  "\<exists>v. find_user 2 (snd (cancelProviderSubscription sample_config 1000 2 sample_membership_db)) = Some v \<and>
     u_subscriptionStatus v = SUB_CANCELLED \<and> bn_marketplaceAccess (subscriptionBenefits v 1000) \<and> u_subscriptionExpiresAt v = Some 3000"
proof -
  let ?s = "snd (cancelProviderSubscription sample_config 1000 2 sample_membership_db)"
  have c: "map_option u_subscriptionStatus (find_user 2 ?s) = Some SUB_CANCELLED" by code_simp
  have "\<exists>v. find_user 2 ?s = Some v \<and> bn_marketplaceAccess (subscriptionBenefits v 1000) \<and>
    u_subscriptionExpiresAt v = u_subscriptionExpiresAt sample_member \<and> u_subscriptionPlan v \<in> {u_subscriptionPlan sample_member, PRO}"
    by (rule running_membership_kept[OF sample_membership(2-4), where cfg = sample_config and k = 2]) simp
  with c show ?thesis by (auto simp: sample_member_def)
qed


end
