(* ===== verification/SH_Webhook.thy ===== *)
theory SH_Webhook
  imports SH_Subscription
begin

text \<open>
  The webhook of the payment gateway: src/src/controllers/payments.controller.ts. A delivery is accepted when
  its signature is valid, and each event is processed once: a repeated delivery of a processed event is
  answered without effect, and a failed one is left to be delivered again.

  \<open>hmac secret text\<close> stands for the hexadecimal HMAC-SHA256 of the crypto library, \<open>decode\<close> for the JSON parser
  and what the code reads of its result.
\<close>

subsection \<open>The signature\<close>

definition hex64 :: "string \<Rightarrow> bool" where
  "hex64 s \<longleftrightarrow> length s = 64 \<and> list_all (\<lambda>c. c \<in> set ''0123456789abcdef'') (toLowerCase s)"

definition secureEqualHex :: "string \<Rightarrow> string \<Rightarrow> bool" where
  "secureEqualHex l r \<longleftrightarrow> hex64 l \<and> hex64 r \<and> toLowerCase l = toLowerCase r"

text \<open>\<open>part.trim().split("=", 2)\<close> of every part, as an object: a later key replaces an earlier one.\<close>

definition key_value :: "string \<Rightarrow> string \<times> string" where
  "key_value part = (case split_on (CHR ''='') (trim part) of k # v # _ \<Rightarrow> (k, v) | [k] \<Rightarrow> (k, []) | [] \<Rightarrow> ([], []))"

definition header_parts :: "string \<Rightarrow> string \<rightharpoonup> string" where
  "header_parts header = map_of (rev (map key_value (split_on (CHR '','') header)))"

definition digits :: "string \<Rightarrow> bool" where
  "digits s \<longleftrightarrow> s \<noteq> [] \<and> list_all (\<lambda>c. c \<in> set ''0123456789'') s"

definition fresh_stamp :: "time \<Rightarrow> string \<Rightarrow> bool" where
  "fresh_stamp now stamp \<longleftrightarrow> digits stamp \<and> \<bar>now - 1000 * text_int stamp\<bar> \<le> 300 * 1000"

definition validPaymongoSignature ::
  "(string \<Rightarrow> string \<Rightarrow> string) \<Rightarrow> pay_config \<Rightarrow> time \<Rightarrow> string \<Rightarrow> string option \<Rightarrow> bool" where
  "validPaymongoSignature hmac cfg now raw header =
     (if \<not> truthy (pc_webhookSecret cfg) \<or> \<not> truthy header then False
      else let secret = the (pc_webhookSecret cfg); h = the header in
        secureEqualHex (trim h) (hmac secret raw) \<or>
        (let parts = header_parts h in
         case parts ''t'' of None \<Rightarrow> False
         | Some stamp \<Rightarrow> fresh_stamp now stamp \<and>
             (let expected = hmac secret (stamp @ ''.'' @ raw) in
              secureEqualHex (meta_or_empty parts ''te'') expected \<or> secureEqualHex (meta_or_empty parts ''li'') expected)))"

subsection \<open>One event\<close>

record webhook_event =
  ev_id :: "string option"
  ev_type :: "string option"
  ev_intentAttribute :: "string option"
  ev_dataType :: "string option"
  ev_dataId :: "string option"

definition paymentIntentIdFromEvent :: "webhook_event \<Rightarrow> string option" where
  "paymentIntentIdFromEvent ev = (if truthy (ev_intentAttribute ev) then ev_intentAttribute ev
     else if ev_dataType ev = Some ''payment_intent'' then ev_dataId ev else None)"

definition find_delivery :: "string \<Rightarrow> db \<Rightarrow> webhook_row option" where
  "find_delivery i s = find_row wh_eventId i (webhookEvents s)"

text \<open>\<open>upsert\<close> with an empty update: the known row, or a new one that is being processed.\<close>

definition register_event :: "string \<Rightarrow> string \<Rightarrow> webhook_row dbtx" where
  "register_event i type =
     tx_bind (query (find_delivery i)) (\<lambda>known. case known of Some e \<Rightarrow> ret e
     | None \<Rightarrow> let e = \<lparr>wh_eventId = i, wh_eventType = type, wh_status = WH_PROCESSING, wh_failureReason = None\<rparr>
       in tx_seq (modify (webhookEvents_update (\<lambda>es. es @ [e]))) (ret e))"

definition mark_event :: "string \<Rightarrow> (webhook_row \<Rightarrow> webhook_row) \<Rightarrow> webhook_row dbtx" where
  "mark_event i f =
     tx_seq (modify (webhookEvents_update (map_rows (\<lambda>e. wh_eventId e = i) f)))
    (tx_bind (query (find_delivery i)) (expect (Uncoded ''P2025'')))"

definition fail_event :: "string \<Rightarrow> error \<Rightarrow> unit dbtx" where
  "fail_event i e = modify (webhookEvents_update (map_rows (\<lambda>r. wh_eventId r = i)
     (\<lambda>r. r\<lparr>wh_status := WH_FAILED, wh_failureReason := Some (take 500 (error_text e))\<rparr>)))"

datatype webhook_reply = Reply nat string

definition payment_events :: "string list" where
  "payment_events = [''payment.paid'', ''payment_intent.succeeded'', ''payment.failed'', ''payment_intent.payment_failed'']"

definition failure_events :: "string list" where
  "failure_events = [''payment.failed'', ''payment_intent.payment_failed'']"

definition settle_event :: "pay_config \<Rightarrow> remote \<Rightarrow> time \<Rightarrow> string \<Rightarrow> string \<Rightarrow> (db, unit) process" where
  "settle_event cfg remote now type intentId =
     p_bind (handleSubscriptionWebhook cfg remote now intentId) (\<lambda>subscription.
     if subscription then p_ret ()
     else if type \<in> set failure_events then p_bind (markPaymentAttemptFailed intentId type) (\<lambda>_. p_ret ())
     else p_bind (transact (lift_sum (getPaymentIntent cfg remote intentId))) (\<lambda>i.
       if it_status i \<noteq> ''succeeded'' then transact (fail (Uncoded ''Payment intent has not reached succeeded state''))
       else p_bind (finalizeSuccessfulPayment now (capture_of i)) (\<lambda>r. case fn_attempt r of
           Some a \<Rightarrow> if fn_refundRequired r then p_bind (refundCapturedAttempt cfg remote (at_id a)) (\<lambda>_. p_ret ()) else p_ret ()
         | None \<Rightarrow> p_ret ())))"

definition process_event :: "pay_config \<Rightarrow> remote \<Rightarrow> time \<Rightarrow> string \<Rightarrow> string \<Rightarrow> webhook_event \<Rightarrow> (db, webhook_reply) process" where
  "process_event cfg remote now i type ev =
     p_bind (transact (register_event i type)) (\<lambda>row.
     if wh_status row = WH_PROCESSED then p_ret (Reply 200 ''duplicate'')
     else if type \<notin> set payment_events
     then p_bind (transact (mark_event i (\<lambda>e. e\<lparr>wh_status := WH_PROCESSED\<rparr>))) (\<lambda>_. p_ret (Reply 200 ''ignored''))
     else if \<not> truthy (paymentIntentIdFromEvent ev) then transact (fail (Uncoded ''Webhook does not identify a payment intent''))
     else p_seq (settle_event cfg remote now type (the (paymentIntentIdFromEvent ev)))
         (p_bind (transact (mark_event i (\<lambda>e. e\<lparr>wh_status := WH_PROCESSED, wh_failureReason := None\<rparr>)))
           (\<lambda>_. p_ret (Reply 200 ''success''))))"

definition receivePaymongoWebhook ::
  "(string \<Rightarrow> string \<Rightarrow> string) \<Rightarrow> (string \<Rightarrow> webhook_event option) \<Rightarrow> pay_config \<Rightarrow> remote \<Rightarrow> time \<Rightarrow> string \<Rightarrow> string option \<Rightarrow>
   (db, webhook_reply) process" where
  "receivePaymongoWebhook hmac decode cfg remote now raw header =
     (if \<not> validPaymongoSignature hmac cfg now raw header then p_ret (Reply 401 ''Invalid webhook signature'')
      else case decode raw of None \<Rightarrow> p_ret (Reply 400 ''Invalid webhook payload'')
      | Some ev \<Rightarrow> (case (ev_id ev, ev_type ev) of
          (Some i, Some type) \<Rightarrow> p_rethrow (process_event cfg remote now i type ev) (\<lambda>e. transact (fail_event i e))
        | _ \<Rightarrow> p_ret (Reply 400 ''Webhook event identity is missing'')))"

subsection \<open>Once\<close>

lemma mark_event_processed:
  assumes "mark_event i f s = Inr (e, s')" "\<And>r. wh_eventId (f r) = wh_eventId r" "\<And>r. wh_status (f r) = WH_PROCESSED"
  shows "map_option wh_status (find_delivery i s') = Some WH_PROCESSED"
proof -
  have s': "s' = webhookEvents_update (map_rows (\<lambda>e. wh_eventId e = i) f) s" "find_delivery i s' = Some e"
    using assms(1) by (simp_all add: mark_event_def tx_seq_Inr modify_Inr tx_bind_query expect_Inr)
  have "find_delivery i s' = map_option f (find_delivery i s)" unfolding find_delivery_def s'(1) by (simp add: assms(2))
  then show ?thesis using s'(2) assms(3) by (cases "find_delivery i s") auto
qed

lemma register_runs:
  "\<exists>row t. register_event i type s = Inr (row, t) \<and> (wh_status row = WH_PROCESSED \<longrightarrow> find_delivery i s = Some row)"
  by (cases "find_delivery i s") (simp_all add: register_event_def tx_bind_query Let_def tx_seq_modify ret_def)

lemma processed_duplicate:
  assumes "map_option wh_status (find_delivery i s) = Some WH_PROCESSED"
  shows "process_event cfg remote now i type ev s = (Inr (Reply 200 ''duplicate''), s)"
  using assms by (auto simp: process_event_def register_event_def p_bind_def p_ret_def transact_def tx_bind_query ret_def)

lemma process_event_done:
  assumes "process_event cfg remote now i type ev s = (Inr r, s')"
  shows "map_option wh_status (find_delivery i s') = Some WH_PROCESSED"
proof -
  obtain row t where reg: "register_event i type s = Inr (row, t)"
    and old: "wh_status row = WH_PROCESSED \<Longrightarrow> find_delivery i s = Some row" using register_runs by blast
  show ?thesis
  proof (cases "wh_status row = WH_PROCESSED")
    case True
    then have p: "map_option wh_status (find_delivery i s) = Some WH_PROCESSED" using old by simp
    with assms processed_duplicate[OF p, of cfg remote now type ev] show ?thesis by simp
  next
    case False
    then show ?thesis
      using assms reg
      by (auto simp: process_event_def p_bind_def p_seq_def p_ret_def transact_def fail_def split: if_splits sum.splits prod.splits
          dest!: mark_event_processed)
  qed
qed

text \<open>C19: Every event of the gateway takes effect at most once. A delivery is answered with 200 only when its
  signature is valid and its event is then recorded as processed, and whatever is delivered for that event
  afterwards, under any valid signature, is answered as a duplicate and changes nothing.\<close>

theorem webhook_processed_once:
  assumes "receivePaymongoWebhook hmac decode cfg remote now raw header s = (Inr (Reply 200 x), s1)"
    "decode raw = Some ev" "ev_id ev = Some i"
    "decode raw2 = Some ev2" "ev_id ev2 = Some i" "ev_type ev2 = Some type2"
  shows "validPaymongoSignature hmac cfg now raw header \<and> map_option wh_status (find_delivery i s1) = Some WH_PROCESSED \<and>
    (validPaymongoSignature hmac cfg later raw2 header2 \<longrightarrow>
      receivePaymongoWebhook hmac decode cfg remote2 later raw2 header2 s1 = (Inr (Reply 200 ''duplicate''), s1))"
proof -
  from assms(1-3) have v: "validPaymongoSignature hmac cfg now raw header"
    by (auto simp: receivePaymongoWebhook_def p_ret_def split: if_splits)
  with assms(1-3) obtain type where "ev_type ev = Some type"
    and "p_rethrow (process_event cfg remote now i type ev) (\<lambda>e. transact (fail_event i e)) s = (Inr (Reply 200 x), s1)"
    by (auto simp: receivePaymongoWebhook_def p_ret_def split: option.splits)
  then have "process_event cfg remote now i type ev s = (Inr (Reply 200 x), s1)"
    by (auto simp: p_rethrow_def split: prod.splits sum.splits)
  then have p: "map_option wh_status (find_delivery i s1) = Some WH_PROCESSED" by (rule process_event_done)
  then show ?thesis
    using v assms(4-6) processed_duplicate[OF p]
    by (auto simp: receivePaymongoWebhook_def p_rethrow_def)
qed

text \<open>A delivery that fails is not forgotten: when processing throws, no row of the event says that it was
  processed, so that the next delivery of the gateway runs it again.\<close>

lemma webhook_failure_retried:
  assumes "receivePaymongoWebhook hmac decode cfg remote now raw header s = (Inl e, s1)" "decode raw = Some ev" "ev_id ev = Some i"
  shows "\<forall>r \<in> set (webhookEvents s1). wh_eventId r = i \<longrightarrow> wh_status r = WH_FAILED \<and> wh_failureReason r \<noteq> None"
proof -
  have "validPaymongoSignature hmac cfg now raw header" using assms(1) by (auto simp: receivePaymongoWebhook_def p_ret_def split: if_splits)
  moreover obtain type where "ev_type ev = Some type"
    using assms by (cases "ev_type ev") (auto simp: receivePaymongoWebhook_def p_ret_def split: if_splits)
  ultimately have run: "p_rethrow (process_event cfg remote now i type ev) (\<lambda>e. transact (fail_event i e)) s = (Inl e, s1)"
    using assms by (simp add: receivePaymongoWebhook_def)
  obtain r t where "process_event cfg remote now i type ev s = (r, t)" by fastforce
  with run obtain d where "s1 = snd (transact (fail_event i d) t)"
    by (cases r) (auto simp: p_rethrow_def transact_def fail_event_def modify_def)
  then have s1: "s1 = webhookEvents_update (map_rows (\<lambda>r. wh_eventId r = i)
     (\<lambda>r. r\<lparr>wh_status := WH_FAILED, wh_failureReason := Some (take 500 (error_text d))\<rparr>)) t"
    by (simp add: transact_def fail_event_def modify_def)
  define mark :: "webhook_row \<Rightarrow> webhook_row" where "mark = (\<lambda>r. r\<lparr>wh_status := WH_FAILED, wh_failureReason := Some (take 500 (error_text d))\<rparr>)"
  have mark: "wh_status (mark r) = WH_FAILED" "wh_failureReason (mark r) \<noteq> None" for r by (simp_all add: mark_def)
  have rows: "webhookEvents s1 = map (\<lambda>r. if wh_eventId r = i then mark r else r) (webhookEvents t)"
    unfolding s1 mark_def by (simp add: map_rows_def)
  show ?thesis
  proof (intro ballI impI)
    fix x assume x: "x \<in> set (webhookEvents s1)" "wh_eventId x = i"
    from x(1) obtain r where "x = (if wh_eventId r = i then mark r else r)" unfolding rows set_map by (rule imageE)
    with x(2) have "x = mark r" by (simp split: if_splits)
    then show "wh_status x = WH_FAILED \<and> wh_failureReason x \<noteq> None" using mark by simp
  qed
qed

subsection \<open>Witnesses\<close>

text \<open>A delivery for the membership payment of \<open>sample_membership_db\<close>, with a crypto library that signs everything
  with the same digest.\<close>

definition sample_digest :: string where "sample_digest = replicate 64 (CHR ''a'')"

definition sample_event :: webhook_event where
  "sample_event = \<lparr>ev_id = Some ''evt_1'', ev_type = Some ''payment.paid'', ev_intentAttribute = Some ''pi_9'',
     ev_dataType = None, ev_dataId = None\<rparr>"

definition sample_paid :: gw_body where
  "sample_paid = \<lparr>gb_id = ''pi_9'', gb_clientKey = ''ck'', gb_status = ''succeeded'', gb_amount = 5000, gb_currency = ''PHP'',
     gb_payments = [''pay_9''],
     gb_metadata = Some [''servicehub_subscription_payment_id'' \<mapsto> ''9'', ''servicehub_provider_id'' \<mapsto> ''2'',
       ''servicehub_purpose'' \<mapsto> ''provider_subscription''], gb_nextAction = None\<rparr>"

definition deliver :: "remote \<Rightarrow> time \<Rightarrow> (db, webhook_reply) process" where
  "deliver remote now = receivePaymongoWebhook (\<lambda>_ _. sample_digest) (\<lambda>_. Some sample_event) sample_config remote now
     ''{}'' (Some sample_digest)"

theorem webhook_processed_once_witness:
  "\<exists>s1 u. deliver (\<lambda>_. GR_Ok sample_paid) 1000 sample_membership_db = (Inr (Reply 200 ''success''), s1) \<and>
     find_user 2 s1 = Some u \<and> u_subscriptionPlan u = PRO \<and>
     deliver (\<lambda>_. GR_Unreachable) 1500 s1 = (Inr (Reply 200 ''duplicate''), s1)"
proof -
  let ?m = "deliver (\<lambda>_. GR_Ok sample_paid) 1000 sample_membership_db"
  have r: "fst ?m = Inr (Reply 200 ''success'')" and u: "map_option u_subscriptionPlan (find_user 2 (snd ?m)) = Some PRO" by code_simp+
  have v: "validPaymongoSignature (\<lambda>_ _. sample_digest) sample_config 1500 ''{}'' (Some sample_digest)" by code_simp
  from r have "deliver (\<lambda>_. GR_Ok sample_paid) 1000 sample_membership_db = (Inr (Reply 200 ''success''), snd ?m)" by (metis prod.collapse)
  moreover have "deliver (\<lambda>_. GR_Unreachable) 1500 (snd ?m) = (Inr (Reply 200 ''duplicate''), snd ?m)"
    using webhook_processed_once[OF calculation[unfolded deliver_def], where ev = sample_event and ?ev2.0 = sample_event
        and i = "''evt_1''" and ?type2.0 = "''payment.paid''" and later = 1500 and ?raw2.0 = "''{}''" and ?header2.0 = "Some sample_digest"
        and ?remote2.0 = "\<lambda>_. GR_Unreachable"] v
    by (simp add: sample_event_def deliver_def)
  ultimately show ?thesis using u by auto
qed


end
