(* ===== verification/SH_Machine.thy ===== *)
theory SH_Machine
  imports SH_Webhook
begin

text \<open>
  The operations as one state machine over the database. \<open>step s s'\<close> is one call of an operation of the
  booking, payment, case, offer and membership services or a delivery of the gateway, with any arguments and any answers of the gateway, and
  with every transaction that an error cut short left in place. Every step implements the money machine
  of SH_Money for every booking, and reachable states hold only well-typed bookings.
\<close>

subsection \<open>Operations of several transactions\<close>

lemma p_money: "money.stays m \<Longrightarrow> p_keeps (money_rel s0) (transact m)"
  by (rule p_keeps_transact, rule keepsI) (blast dest: money.staysD intro: money.R_trans)

text \<open>What follows a transaction starts in the state that the transaction ends in.\<close>

lemma p_money_read:
  assumes "\<And>s x s'. m s = Inr (x, s') \<Longrightarrow> money_rel s s' \<and> money_rel s' (snd (f x s'))"
  shows "p_keeps (money_rel s0) (p_bind (transact m) f)"
  unfolding p_keeps_def
proof (intro allI impI)
  fix s assume s: "money_rel s0 s"
  show "money_rel s0 (snd (p_bind (transact m) f s))"
  proof (cases "m s")
    case (Inl e)
    with s show ?thesis by (simp add: p_bind_def transact_def)
  next
    case (Inr r)
    then obtain x s' where "m s = Inr (x, s')" by (cases r) simp
    with assms[OF this] s show ?thesis by (auto simp: p_bind_def transact_def intro: money.R_trans)
  qed
qed

lemma p_moneyD: "(\<And>s0. p_keeps (money_rel s0) m) \<Longrightarrow> money_rel s (snd (m s))"
  unfolding p_keeps_def using money.R_refl by blast

lemma snd_p_bind_writes:
  assumes "writes ((=) s) m" "\<And>x s0. p_keeps (money_rel s0) (f x)"
  shows "money_rel s (snd (p_bind (transact m) f s))"
proof (cases "m s")
  case (Inl e)
  then show ?thesis by (simp add: p_bind_def transact_def money.R_refl)
next
  case (Inr r)
  then obtain x s' where r: "m s = Inr (x, s')" by (cases r) simp
  then have "money_rel s s'" using assms(1) unfolding writes_def by blast
  moreover have "money_rel s' (snd (f x s'))" by (rule p_moneyD[OF assms(2)])
  ultimately show ?thesis using r by (auto simp: p_bind_def transact_def intro: money.R_trans)
qed

lemma snd_p_seq:
  assumes "\<And>s0. p_keeps (money_rel s0) m" "\<And>t. money_rel s t \<Longrightarrow> money_rel t (snd (n t))"
  shows "money_rel s (snd (p_seq m n s))"
proof -
  obtain r t where r: "m s = (r, t)" by fastforce
  have t: "money_rel s t" using p_moneyD[of m s, OF assms(1)] r by simp
  show ?thesis using r t assms(2)[OF t] by (cases r) (auto simp: p_seq_def p_bind_def intro: money.R_trans)
qed

lemma p_seq_ret: "p_seq (p_ret ()) n = n"
  by (simp add: p_seq_def p_bind_def p_ret_def fun_eq_iff)

named_theorems p_rules \<open>operations that follow the money machine\<close>
declare p_shape [p_rules]

lemma p_money_refund [p_rules]: "p_keeps (money_rel s0) (refundBookingPayment now b who ia ra)"
  unfolding refundBookingPayment_def gateway_refund_def
  by (auto split: refund_start.splits intro!: p_rules p_money money_rules)

lemma p_money_resolution [p_rules]:
  "p_keeps (money_rel s0) (markAdminResolutionStage i st)" "p_keeps (money_rel s0) (markAdminResolutionFailed i e)"
  unfolding markAdminResolutionStage_def markAdminResolutionFailed_def
  by (intro p_rules p_money money_rules)+

subsection \<open>The cancellation of a booking\<close>

lemma precheck_found:
  assumes "cancel_precheck i pre s = Inr (Some b, s')"
  shows "s' = s \<and> find_booking i s = Some b \<and> \<not> not_cancellable (bk_status b)"
  using assms unfolding cancel_precheck_def
  by (auto simp: tx_bind_query tx_seq_Inr ensure_Inr ret_def split: option.splits)

lemma unheld_no_hold:
  assumes "pay_wf s" "find_booking i s = Some b" "\<not> held (bk_paymentStatus b)" "\<not> not_cancellable (bk_status b)"
  shows "no_hold i s"
proof -
  have "pay_typed b" using assms(1) find_booking_mem[OF assms(2)] by (simp add: pay_wf_def)
  then show ?thesis using assms(2-4)
    by (cases "bk_paymentMethod b") (auto simp: no_hold_def pay_typed_def not_cancellable_def held_def split: if_splits)
qed

lemma p_money_cancel [p_rules]: "p_keeps (money_rel s0) (performImmediateCancel now i a pre ia ra)"
  unfolding performImmediateCancel_def
proof (rule p_money_read, goal_cases)
  case (1 s found s')
  let ?publish = "\<lambda>b. \<lambda>(w, r). transact (publish_cancel (bk_seekerId b) w r)"
  have publish: "p_keeps (money_rel s0) (?publish b x)" for b x s0 by (cases x) (auto intro!: p_money money_rules)
  have commit: "money_rel t (snd (p_bind (transact (cancel_commit now i a pre h)) (?publish b) t))" if "h \<or> no_hold i t" for t h b
    by (rule snd_p_bind_writes[OF writes_cancel_commit[OF that] publish])
  show ?case
  proof (cases found)
    case None
    with 1 show ?thesis by (simp add: p_ret_def money.R_refl money.staysD[OF desk_cancel(1)[THEN money_of_desk]])
  next
    case (Some b)
    with 1 have b: "s' = s" "find_booking i s = Some b" "\<not> not_cancellable (bk_status b)"
      using precheck_found by blast+
    let ?refund = "if held (bk_paymentStatus b)
       then p_bind (refundBookingPayment now i (case a of None \<Rightarrow> bk_seekerId b | Some a \<Rightarrow> a) ia ra) (\<lambda>_. p_ret ()) else p_ret ()"
    have run: "money_rel s (snd (p_seq ?refund (p_bind (transact (cancel_commit now i a pre (held (bk_paymentStatus b)))) (?publish b)) s))"
    proof (cases "held (bk_paymentStatus b)")
      case True
      then show ?thesis by (intro snd_p_seq p_rules commit) simp
    next
      case False
      then show ?thesis
        using commit[of False s b] unheld_no_hold[OF _ b(2) False b(3)] by (cases "pay_wf s") (auto simp: money_rel_def p_seq_ret)
    qed
    then show ?thesis using Some b(1) by (simp add: money.R_refl)
  qed
qed

subsection \<open>The answer to a direct request\<close>

lemma respond_precheck_found:
  assumes "respond_precheck i p s = Inr ((d, b), s')"
  shows "s' = s \<and> (\<forall>bk. b = Some bk \<longrightarrow> bk \<in> set (bookings s) \<and> bk_status bk = B_PENDING_APPROVAL)"
proof -
  have "s' = s \<and> respond_target i s = (d, b) \<and> (\<forall>bk. b = Some bk \<longrightarrow> bk_status bk = B_PENDING_APPROVAL)"
    using assms unfolding respond_precheck_def
    by (auto simp: tx_bind_query tx_seq_Inr ensure_Inr ret_def opt_status_in_def split: prod.splits)
  moreover have "bk \<in> set (bookings s)" if "respond_target i s = (d, Some bk)" for bk
    using that by (auto simp: respond_target_def find_Some_iff split: option.splits dest: find_booking_mem)
  ultimately show ?thesis by blast
qed

lemma p_money_respond [p_rules]: "p_keeps (money_rel s0) (respondToDirectBookingService now i p acc ia ra)"
  unfolding respondToDirectBookingService_def
proof (rule p_money_read, goal_cases)
  case (1 s x s')
  obtain d b where x: "x = (d, b)" by (cases x)
  with 1 have b: "s' = s" "\<And>bk. b = Some bk \<Longrightarrow> bk \<in> set (bookings s) \<and> bk_status bk = B_PENDING_APPROVAL"
    using respond_precheck_found[of i p s d b s'] by auto
  let ?held = "opt_status_in bk_paymentStatus {P_PAID_HELD, P_FROZEN_HELD} b"
  have publish: "p_keeps (money_rel s0) (case r of (bo, recd) \<Rightarrow> p_seq (transact (publishLifecycleChange (k bo) t recd False)) (p_ret bo))" for r k t s0
    by (cases r) (auto intro!: p_rules p_money money_rules)
  have decline: "money_rel s (snd (p_bind (transact (respond_decline now p ?held d b)) (\<lambda>(booking, recd).
       p_seq (transact (publishLifecycleChange (case booking of Some x \<Rightarrow> parties x
          | None \<Rightarrow> (case d of None \<Rightarrow> 0 | Some dr \<Rightarrow> dr_id dr, fst (respond_parties d b), p)) ''declined'' recd False)) (p_ret booking)) s))"
    if wf: "pay_wf s"
  proof (rule snd_p_bind_writes)
    have "bk_paymentStatus bk = P_UNPAID" if "b = Some bk" for bk
      using b(2)[OF that] wf by (cases "bk_paymentMethod bk") (auto simp: pay_wf_def pay_typed_def dest!: bspec)
    then have "declines_cash ?held b s" by (auto simp: declines_cash_def opt_status_in_def)
    then show "writes ((=) s) (respond_decline now p ?held d b)" by (rule writes_decline)
  qed (rule publish)
  have accept: "p_keeps (money_rel s0) (p_bind (transact (respond_accept now p d b)) (\<lambda>(booking, recd).
         p_seq (transact (publishLifecycleChange (parties booking) ''accepted'' recd False))
        (p_seq (transact (emit (RUser p) ''notification'' ''Booking Confirmed!'')) (p_ret (Some booking)))))" for s0
    by (intro p_rules p_money money_rules)
  have unheld: "\<not> ?held" if wf: "pay_wf s"
  proof -
    have "pay_typed bk" if "b = Some bk" for bk using b(2)[OF that] wf by (simp add: pay_wf_def)
    then show ?thesis using b(2) by (cases b; cases "bk_paymentMethod (the b)") (auto simp: opt_status_in_def pay_typed_def)
  qed
  show ?case
  proof (cases "pay_wf s")
    case True
    show ?thesis
      using p_moneyD[of _ s, OF accept] decline[OF True] unheld[OF True] b(1) unfolding x
      by (cases acc) (simp_all add: Let_def p_seq_ret money.R_refl)
  qed (use b(1) in \<open>simp add: money_rel_def\<close>)
qed

subsection \<open>Every operation\<close>

lemma p_money_payment [p_rules]:
  "p_keeps (money_rel s0) (finalizeSuccessfulPayment now cp)" "p_keeps (money_rel s0) (markPaymentAttemptFailed it why)"
  "p_keeps (money_rel s0) (refundCapturedAttempt cfg remote i)" "p_keeps (money_rel s0) (expireStalePaymentAttempts now)"
proof -
  show "p_keeps (money_rel s0) (finalizeSuccessfulPayment now cp)"
    unfolding finalizeSuccessfulPayment_def by (intro p_rules p_money money_rules)
  show "p_keeps (money_rel s0) (markPaymentAttemptFailed it why)"
    unfolding markPaymentAttemptFailed_def by (intro p_rules p_money money_rules)
  show "p_keeps (money_rel s0) (refundCapturedAttempt cfg remote i)"
    unfolding refundCapturedAttempt_def by (intro p_rules p_money money_rules)
  have "p_keeps (money_rel s0) (expire_each now ks n)" for ks n
    by (induction ks arbitrary: n) (auto intro!: p_rules p_money money_rules)
  then show "p_keeps (money_rel s0) (expireStalePaymentAttempts now)"
    unfolding expireStalePaymentAttempts_def by (intro p_rules p_money money_rules)
qed

lemma p_money_reconcile [p_rules]: "p_keeps (money_rel s0) (reconcileOnlinePaymentReturn cfg remote now k it)"
  unfolding reconcileOnlinePaymentReturn_def settle_intent_def by (intro p_rules p_money money_rules)

lemma p_money_initiate [p_rules]: "p_keeps (money_rel s0) (initiateOnlinePayment fuel cfg remote now p)"
proof (induction fuel arbitrary: p)
  case (Suc fuel)
  have "p_keeps (money_rel s0) (abandon_attempt a e)" for a e
    unfolding abandon_attempt_def by (intro p_rules p_money money_rules money_of_desk[OF desk_upd_attempt]) simp
  then have "p_keeps (money_rel s0) (initiate_once cfg remote now p)"
    unfolding initiate_once_def hand_over_def by (intro p_rules p_money money_rules)
  then show ?case using Suc by (auto intro!: p_rules split: retry.splits)
qed (auto intro!: p_rules)

lemma p_money_bookings [p_rules]:
  "p_keeps (money_rel s0) (createDirectRequest now k p v n m loc)" "p_keeps (money_rel s0) (createDirectFromOfferService now i k loc)"
  "p_keeps (money_rel s0) (providerStartJob now i p)" "p_keeps (money_rel s0) (markJobComplete now i p)"
  "p_keeps (money_rel s0) (settleCompletedBooking now i actor)" "p_keeps (money_rel s0) (disputeJobService now i k why)"
  unfolding createDirectRequest_def createDirectFromOfferService_def providerStartJob_def markJobComplete_def
    settleCompletedBooking_def disputeJobService_def Let_def
  by (intro p_rules p_money money_rules)+

lemma p_money_establish_booking [p_rules]: "p_keeps (money_rel s0) (establish_booking now op i adm out ia ra)"
  unfolding establish_booking_def by (cases out) (auto intro!: p_rules)

lemma p_money_cases [p_rules]:
  "p_keeps (money_rel s0) (requestCancellation now i k why ia ra)"
  "p_keeps (money_rel s0) (respondToCancellationRequest now i k ap note ia ra)"
  "p_keeps (money_rel s0) (escalateCancellationRequest now i k)"
  "p_keeps (money_rel s0) (adminResolveCancellationRequest now i ap nt adm f ia ra)"
  "p_keeps (money_rel s0) (repairCompletedParticipantCancellationReport i)"
  "p_keeps (money_rel s0) (createCompletionEscalation now i k why)"
  "p_keeps (money_rel s0) (resolveCompletionEscalation now i adm act ia ra)"
  "p_keeps (money_rel s0) (resolveAdminBooking now i adm out req ia ra)"
  "p_keeps (money_rel s0) (resolveAdminReport now i adm ract nts pen ia ra)"
  "p_keeps (money_rel s0) (createSafetyReport now i k rwhy desc ev)"
  unfolding requestCancellation_def respondToCancellationRequest_def approve_request_def establish_cancellation_def
    escalateCancellationRequest_def adminResolveCancellationRequest_def repairCompletedParticipantCancellationReport_def
    createCompletionEscalation_def resolveCompletionEscalation_def establish_escalation_def resolveAdminBooking_def
    resolveAdminReport_def establish_report_def createSafetyReport_def Let_def
  by (intro p_rules p_money money_rules)+

lemma p_money_offers [p_rules]:
  "p_keeps (money_rel s0) (submitOffer now k op)" "p_keeps (money_rel s0) (rejectOffer i k)"
  "p_keeps (money_rel s0) (transact (acceptOffer i k))" "p_keeps (money_rel s0) (transact (joinWaitlist now v k))"
  "p_keeps (money_rel s0) (transact (hideBookingService now i k))" "p_keeps (money_rel s0) (transact (recalculateQueue now p))"
proof -
  have "desk.stays (submit_offer now k op)"
    unfolding submit_offer_def place_offer_def insert_offer_def assertOfferParticipant_def Let_def by (intro desk_rules)
  then show "p_keeps (money_rel s0) (submitOffer now k op)" unfolding submitOffer_def by (intro p_rules p_money money_rules money_of_desk)
  have "desk.stays (reject_offer f r pr)" for f r pr
    unfolding reject_offer_def decide_offer_def Let_def by (intro desk_rules)
  then have "money.stays (reject_offer f r pr)" for f r pr by (rule money_of_desk)
  then show "p_keeps (money_rel s0) (rejectOffer i k)" unfolding rejectOffer_def publish_rejection_def Let_def
    by (intro p_rules p_money money_rules)
  show "p_keeps (money_rel s0) (transact (acceptOffer i k))" unfolding acceptOffer_def by (intro p_money money_rules)
  have waits: "desk.stays (modify (queueNotifies_update g))" for g
    by (rule desk.staysI) (auto simp: modify_Inr desk_rel_def all_gcash_def)
  have "desk.stays (joinWaitlist now v k)" unfolding joinWaitlist_def Let_def by (intro desk_rules waits)
  then show "p_keeps (money_rel s0) (transact (joinWaitlist now v k))" by (intro p_money money_of_desk)
  show "p_keeps (money_rel s0) (transact (hideBookingService now i k))" by (intro p_money money_rules)
  show "p_keeps (money_rel s0) (transact (recalculateQueue now p))" unfolding recalculateQueue_def by (intro p_money money_rules)
qed


text \<open>Memberships write no booking.\<close>

lemma desk_memberships [desk_rules]:
  "desk.stays (upd_payments pr f)" "desk.stays (modify (services_update g))" "desk.stays (modify (subscriptionPayments_update h))"
  "desk.stays (notify_once n u t)" "desk.stays (assertActiveMarketplaceAccount k)" "desk.stays (payment_now i)"
  "desk.stays (modify (webhookEvents_update g2))"
  by (rule desk.staysI; auto simp: desk_rel_def all_gcash_def upd_payments_def notify_once_def assertActiveMarketplaceAccount_def
      payment_now_def tx_iff split: if_splits)+

lemma desk_membership_parts [desk_rules]:
  "desk.stays (update_payment i f)" "desk.stays (pause_excess k)" "desk.stays (getProviderSubscription cfg now k)"
  "desk.stays (cancel_membership now k)" "desk.stays (new_payment cfg now user target signed q)" "desk.stays (close_expired i)"
  "desk.stays (checkout_unavailable i)" "desk.stays (store_intent i it)" "desk.stays (publish_link p l)"
  unfolding update_payment_def pause_excess_def getProviderSubscription_def cancel_membership_def new_payment_def close_expired_def
    checkout_unavailable_def store_intent_def publish_link_def Let_def
  by (intro desk_rules)+

lemma desk_membership_steps [desk_rules]:
  "desk.stays (claim_checkout sign cfg now k target token)" "desk.stays (grant_membership now u p ref)" "desk.stays (apply_payment now i ref)"
proof -
  show grant: "desk.stays (grant_membership now u p ref)" for u p
    unfolding grant_membership_def Let_def by (intro desk_rules)
  show "desk.stays (claim_checkout sign cfg now k target token)" "desk.stays (apply_payment now i ref)"
    unfolding claim_checkout_def apply_payment_def by (intro desk_rules grant)+
qed

lemma p_desk: "desk.stays m \<Longrightarrow> p_keeps (money_rel s0) (transact m)"
  by (intro p_money money_of_desk)

lemma p_money_membership_settle [p_rules]: "p_keeps (money_rel s0) (reconcileSubscriptionPayment cfg remote now k it)"
  unfolding reconcileSubscriptionPayment_def settle_subscription_intent_def finalizeSubscriptionPayment_def give_back_def
  by (intro p_rules p_desk desk_rules)

lemma p_money_memberships [p_rules]:
  "p_keeps (money_rel s0) (startSubscriptionCheckout sign cfg remote now k target token)"
  "p_keeps (money_rel s0) (cancelSubscriptionCheckout cfg remote now k it)" "p_keeps (money_rel s0) (handleSubscriptionWebhook cfg remote now it)"
  "p_keeps (money_rel s0) (cancelProviderSubscription cfg now k)" "p_keeps (money_rel s0) (enrollProviderMembership cfg now k)"
  unfolding startSubscriptionCheckout_def prepare_checkout_def cancelSubscriptionCheckout_def handleSubscriptionWebhook_def
    cancelProviderSubscription_def enrollProviderMembership_def
  by (intro p_rules p_desk desk_rules)+

lemma p_money_webhook [p_rules]: "p_keeps (money_rel s0) (receivePaymongoWebhook hmac decode cfg remote now raw header)"
proof -
  have marks: "desk.stays (register_event i type)" "desk.stays (mark_event i f)" "desk.stays (fail_event i e)" for i type f e
    unfolding register_event_def mark_event_def fail_event_def Let_def by (intro desk_rules)+
  have "p_keeps (money_rel s0) (process_event cfg remote now i type ev)" for i type ev
    unfolding process_event_def settle_event_def by (intro p_rules p_desk desk_rules marks)
  then show ?thesis
    unfolding receivePaymongoWebhook_def
    by (auto intro!: p_rules p_desk[OF marks(3)] simp del: split_paired_All split: option.splits prod.splits)
qed


subsection \<open>The machine\<close>

text \<open>One rule per operation. The last rule stands for the services beside these (accounts, listings,
  messages, requests): they write neither a booking nor a payment attempt.\<close>

inductive step :: "db \<Rightarrow> db \<Rightarrow> bool" where
  createDirectRequest: "step s (snd (createDirectRequest now k p v n m loc s))"
| respondToDirectBooking: "step s (snd (respondToDirectBookingService now i p acc ia ra s))"
| createDirectFromOffer: "step s (snd (createDirectFromOfferService now i k loc s))"
| joinWaitlist: "step s (snd (transact (joinWaitlist now v k) s))"
| submitOffer: "step s (snd (submitOffer now k ofr s))"
| acceptOffer: "step s (snd (transact (acceptOffer i k) s))"
| rejectOffer: "step s (snd (rejectOffer i k s))"
| initiateOnlinePayment: "step s (snd (initiateOnlinePayment fuel cfg remote now pp s))"
| reconcileOnlinePaymentReturn: "step s (snd (reconcileOnlinePaymentReturn cfg remote now k it s))"
| finalizeSuccessfulPayment: "step s (snd (finalizeSuccessfulPayment now cp s))"
| markPaymentAttemptFailed: "step s (snd (markPaymentAttemptFailed it why s))"
| refundCapturedAttempt: "step s (snd (refundCapturedAttempt cfg remote i s))"
| expireStalePaymentAttempts: "step s (snd (expireStalePaymentAttempts now s))"
| providerStartJob: "step s (snd (providerStartJob now i p s))"
| markJobComplete: "step s (snd (markJobComplete now i p s))"
| confirmCompletion: "step s (snd (confirmCompletionService now i k s))"
| disputeJob: "step s (snd (disputeJobService now i k reason s))"
| hideBooking: "step s (snd (transact (hideBookingService now i k) s))"
| requestCancellation: "step s (snd (requestCancellation now i k why ia ra s))"
| respondToCancellation: "step s (snd (respondToCancellationRequest now i k ap comment ia ra s))"
| escalateCancellation: "step s (snd (escalateCancellationRequest now i k s))"
| adminResolveCancellation: "step s (snd (adminResolveCancellationRequest now i ap nt adm f ia ra s))"
| repairCancellationReport: "step s (snd (repairCompletedParticipantCancellationReport i s))"
| createCompletionEscalation: "step s (snd (createCompletionEscalation now i k why s))"
| resolveCompletionEscalation: "step s (snd (resolveCompletionEscalation now i adm act ia ra s))"
| resolveAdminBooking: "step s (snd (resolveAdminBooking now i adm out req ia ra s))"
| createSafetyReport: "step s (snd (createSafetyReport now i k reason2 desc ev s))"
| resolveAdminReport: "step s (snd (resolveAdminReport now i adm ract nts pen ia ra s))"
| startSubscriptionCheckout: "step s (snd (startSubscriptionCheckout sign cfg remote now k target token s))"
| cancelSubscriptionCheckout: "step s (snd (cancelSubscriptionCheckout cfg remote now k it s))"
| reconcileSubscriptionPayment: "step s (snd (reconcileSubscriptionPayment cfg remote now k it s))"
| cancelProviderSubscription: "step s (snd (cancelProviderSubscription cfg now k s))"
| enrollProviderMembership: "step s (snd (enrollProviderMembership cfg now k s))"
| receivePaymongoWebhook: "step s (snd (receivePaymongoWebhook hmac decode cfg remote now raw header s))"
| other_services: "bookings s' = bookings s \<Longrightarrow> attempts s' = attempts s \<Longrightarrow> nextId s \<le> nextId s' \<Longrightarrow> step s s'"

inductive_cases step_cases: "step s s'"

inductive reachable :: "db \<Rightarrow> bool" where
  start: "bookings s = [] \<Longrightarrow> attempts s = [] \<Longrightarrow> reachable s"
| move: "reachable s \<Longrightarrow> step s s' \<Longrightarrow> reachable s'"

lemma step_money: "step s s' \<Longrightarrow> money_rel s s'"
proof (induction rule: step.induct)
  case (confirmCompletion s now i k)
  show ?case unfolding confirmCompletionService_def by (rule p_moneyD) (rule p_rules)
next
  case (other_services s' s)
  then show ?case by (intro money_desk) (simp add: desk_rel_def all_gcash_def)
qed (rule p_moneyD, rule p_rules)+

lemma reachable_pay_wf: "reachable s \<Longrightarrow> pay_wf s"
proof (induction rule: reachable.induct)
  case (move s s')
  then show ?case using step_money by (simp add: money_rel_def)
qed (simp add: pay_wf_def)

lemma steps_trail: "step\<^sup>*\<^sup>* s s' \<Longrightarrow> pay_wf s \<Longrightarrow> pay_wf s' \<and> trail s s'"
proof (induction rule: rtranclp_induct)
  case (step t u)
  then show ?case using step_money[of t u] trail_trans by (auto simp: money_rel_def)
qed (simp add: trail_refl)

subsection \<open>What the machine guarantees\<close>


text \<open>C2: Every operation implements the money machine: whatever it does and whatever goes wrong on the way,
  each booking that existed before it still exists, between the same parties, for the same price and by
  the same method, and its money has taken at most one step of the machine, from unpaid to paid out,
  from held to paid out, or from held to returned.\<close>

theorem operations_refine_money:
  assumes "pay_wf s" "step s s'" "find_booking i s = Some b"
  shows "\<exists>c. find_booking i s' = Some c \<and> bk_seekerId c = bk_seekerId b \<and> bk_providerId c = bk_providerId b \<and>
    bk_paymentMethod c = bk_paymentMethod b \<and> bk_agreedAmount c = bk_agreedAmount b \<and>
    (money_of c = money_of b \<or> money_step (money_of b) (money_of c))"
proof -
  from step_money[OF assms(2)] assms(1) have "trail s s'" by (simp add: money_rel_def)
  with assms(3) obtain c where "find_booking i s' = Some c" "follows b c" by (auto simp: trail_def)
  then show ?thesis by (auto simp: follows_def money_path_iff)
qed

text \<open>C3: Money that has been paid out or returned stays so: from a state where a booking is settled no
  sequence of operations pays it again, takes the payment back or returns it as well.\<close>

theorem settled_money_final:
  assumes "pay_wf s" "step\<^sup>*\<^sup>* s s'" "find_booking i s = Some b" "money_of b \<in> {PaidOut, Returned}"
  shows "\<exists>c. find_booking i s' = Some c \<and> bk_paymentStatus c = bk_paymentStatus b \<and> bk_agreedAmount c = bk_agreedAmount b \<and>
    (bk_status c = B_COMPLETED \<longleftrightarrow> bk_status b = B_COMPLETED)"
proof -
  from steps_trail[OF assms(2,1)] assms(3) obtain c where c: "find_booking i s' = Some c" "follows b c" "pay_wf s'"
    by (auto simp: trail_def)
  have t: "pay_typed b" "pay_typed c" using assms(1) c(3) find_booking_mem[OF assms(3)] find_booking_mem[OF c(1)]
    by (simp_all add: pay_wf_def)
  have m: "money_of c = money_of b" using c(2) assms(4) by (auto simp: follows_def money_path_iff)
  have "bk_paymentMethod c = bk_paymentMethod b" "bk_agreedAmount c = bk_agreedAmount b" using c(2) by (simp_all add: follows_def)
  with t m assms(4) c(1) show ?thesis
    by (cases "bk_paymentMethod b") (auto simp: pay_typed_def held_money split: if_splits)
qed

subsection \<open>Witnesses\<close>


lemma sample_settled:
  "step sample_done_db (snd (confirmCompletionService 9 5 1 sample_done_db))" "pay_wf sample_done_db"
  "map_option (\<lambda>b. (bk_paymentStatus b, bk_status b, bk_agreedAmount b)) (find_booking 5 (snd (confirmCompletionService 9 5 1 sample_done_db))) =
     Some (P_RELEASED, B_COMPLETED, Some 150)"
proof -
  show "pay_wf sample_done_db" by code_simp
  show "map_option (\<lambda>b. (bk_paymentStatus b, bk_status b, bk_agreedAmount b)) (find_booking 5 (snd (confirmCompletionService 9 5 1 sample_done_db))) =
     Some (P_RELEASED, B_COMPLETED, Some 150)" by code_simp
qed (rule step.confirmCompletion)

theorem operations_refine_money_witness:
  "\<exists>b s' c. find_booking 5 sample_done_db = Some b \<and> money_of b = Held \<and> step sample_done_db s' \<and>
     find_booking 5 s' = Some c \<and> bk_paymentStatus c = P_RELEASED \<and> bk_seekerId c = bk_seekerId b"
proof -
  have f: "find_booking 5 sample_done_db = Some (sample_booking 5 B_AWAITING_CONFIRMATION GCash P_PAID_HELD)"
    by (simp add: find_booking_def find_row_def sample_done_db_def sample_booking_def)
  from operations_refine_money[OF sample_settled(2,1) f] f sample_settled(1,3) show ?thesis
    by (intro exI[of _ "sample_booking 5 B_AWAITING_CONFIRMATION GCash P_PAID_HELD"]) (auto simp: sample_booking_def)
qed

theorem settled_money_final_witness:
  "\<exists>s s' b c. step\<^sup>*\<^sup>* s s' \<and> s \<noteq> s' \<and> find_booking 5 s = Some b \<and> money_of b = PaidOut \<and>
     find_booking 5 s' = Some c \<and> bk_paymentStatus c = P_RELEASED"
proof -
  let ?s = "snd (confirmCompletionService 9 5 1 sample_done_db)"
  let ?t = "snd (transact (hideBookingService 10 5 1) ?s)"
  have w: "pay_wf ?s" using step_money[OF sample_settled(1)] sample_settled(2) by (simp add: money_rel_def)
  obtain b where b: "find_booking 5 ?s = Some b" "bk_paymentStatus b = P_RELEASED" using sample_settled(3) by auto
  have st: "step\<^sup>*\<^sup>* ?s ?t" by (rule r_into_rtranclp, rule step.hideBooking)
  have "map bk_hiddenBySeeker (bookings ?s) \<noteq> map bk_hiddenBySeeker (bookings ?t)" by code_simp
  then have "?s \<noteq> ?t" by metis
  moreover have m: "money_of b = PaidOut" using b(2) by simp
  moreover obtain c where "find_booking 5 ?t = Some c" "bk_paymentStatus c = P_RELEASED"
    using settled_money_final[OF w st b(1)] m b(2) by auto
  ultimately show ?thesis using st b(1) by blast
qed

end
