(* ===== verification/SH_Auth.thy ===== *)
theory SH_Auth
  imports SH_Bookings SH_Text
begin

text \<open>
  Signing in: src/src/services/auth/authentication.service.ts. A session is a row of the refresh tokens;
  its token is stored as a hash and replaced at every refresh. The random strings that the code draws
  (opaque tokens, token ids, salts) are arguments, texts are ASCII, and what an e-mail provider answers is
  an argument.

  \<open>crypto\<close> stands for the libraries: SHA-256, bcrypt and the signed tokens (jsonwebtoken).
\<close>

record password_proof =
  pr_sub :: key
  pr_sid :: key
  pr_googleSubject :: string
  pr_email :: string
  pr_nonce :: string
  pr_version :: string
  pr_isGrant :: bool
  pr_iat :: int

record crypto =
  kx_sha256 :: "string \<Rightarrow> string"
  kx_bcrypt :: "string \<Rightarrow> string \<Rightarrow> string"
  kx_matches :: "string \<Rightarrow> string \<Rightarrow> bool"
  kx_access :: "key \<Rightarrow> role \<Rightarrow> key \<Rightarrow> time \<Rightarrow> string"
  kx_readAccess :: "time \<Rightarrow> string \<Rightarrow> (key \<times> key option) option"
  kx_refresh :: "key \<Rightarrow> key \<Rightarrow> string \<Rightarrow> time \<Rightarrow> string"
  kx_refreshValid :: "time \<Rightarrow> string \<Rightarrow> bool"
  kx_refreshClaims :: "string \<Rightarrow> (key \<times> key) option"
  kx_signProof :: "password_proof \<Rightarrow> time \<Rightarrow> string"
  kx_readProof :: "time \<Rightarrow> string \<Rightarrow> password_proof option"

subsection \<open>The rows\<close>

definition user_by_email :: "string \<Rightarrow> db \<Rightarrow> user_row option" where
  "user_by_email e s = find_row (lg_email \<circ> u_login) e (users s)"

definition user_by_subject :: "string \<Rightarrow> db \<Rightarrow> user_row option" where
  "user_by_subject g s = find_row (lg_googleSubject \<circ> u_login) (Some g) (users s)"

definition find_session :: "key \<Rightarrow> db \<Rightarrow> session_row option" where
  "find_session i s = find_row rk_id i (refreshTokens (sessions s))"

definition session_by_token :: "string \<Rightarrow> db \<Rightarrow> session_row option" where
  "session_by_token h s = find_row rk_token h (refreshTokens (sessions s))"

definition find_email_token :: "string \<Rightarrow> db \<Rightarrow> email_token_row option" where
  "find_email_token h s = find_row et_token h (emailTokens (sessions s))"

definition find_reset_token :: "string \<Rightarrow> db \<Rightarrow> reset_token_row option" where
  "find_reset_token h s = find_row pt_token h (resetTokens (sessions s))"

text \<open>A write that would repeat the value of a unique column fails; an update of a missing row fails.\<close>

definition unique :: "bool \<Rightarrow> unit dbtx" where
  "unique free = ensure free (Uncoded ''P2002'')"

definition update_user :: "key \<Rightarrow> (user_row \<Rightarrow> user_row) \<Rightarrow> user_row dbtx" where
  "update_user i f = tx_seq (upd_user i f) (tx_bind (query (find_user i)) (expect (Uncoded ''P2025'')))"

definition upd_login :: "(login \<Rightarrow> login) \<Rightarrow> user_row \<Rightarrow> user_row" where
  "upd_login f u = u\<lparr>u_login := f (u_login u)\<rparr>"

definition insert_session :: "session_row \<Rightarrow> unit dbtx" where
  "insert_session r = tx_bind (query (session_by_token (rk_token r))) (\<lambda>taken.
     tx_seq (unique (taken = None)) (modify (sessions_update (refreshTokens_update (\<lambda>rs. rs @ [r])))))"

definition set_session_token :: "key \<Rightarrow> string \<Rightarrow> unit dbtx" where
  "set_session_token i h = tx_bind (query (session_by_token h)) (\<lambda>taken.
     tx_seq (unique (case taken of None \<Rightarrow> True | Some r \<Rightarrow> rk_id r = i))
      (modify (sessions_update (refreshTokens_update (map_rows (\<lambda>r. rk_id r = i) (\<lambda>r. r\<lparr>rk_token := h\<rparr>))))))"

definition delete_sessions :: "(session_row \<Rightarrow> bool) \<Rightarrow> unit dbtx" where
  "delete_sessions p = modify (sessions_update (refreshTokens_update (filter (\<lambda>r. \<not> p r))))"

definition delete_email_tokens :: "(email_token_row \<Rightarrow> bool) \<Rightarrow> unit dbtx" where
  "delete_email_tokens p = modify (sessions_update (emailTokens_update (filter (\<lambda>r. \<not> p r))))"

definition delete_reset_tokens :: "(reset_token_row \<Rightarrow> bool) \<Rightarrow> unit dbtx" where
  "delete_reset_tokens p = modify (sessions_update (resetTokens_update (filter (\<lambda>r. \<not> p r))))"

definition insert_email_token :: "email_token_row \<Rightarrow> unit dbtx" where
  "insert_email_token r = tx_bind (query (find_email_token (et_token r))) (\<lambda>taken.
     tx_seq (unique (taken = None)) (modify (sessions_update (emailTokens_update (\<lambda>rs. rs @ [r])))))"

definition insert_reset_token :: "reset_token_row \<Rightarrow> unit dbtx" where
  "insert_reset_token r = tx_bind (query (find_reset_token (pt_token r))) (\<lambda>taken.
     tx_seq (unique (taken = None)) (modify (sessions_update (resetTokens_update (\<lambda>rs. rs @ [r])))))"

text \<open>\<open>recordSecurityEvent\<close> and \<open>securityEventData\<close>: written when there is a request context.\<close>

definition recordSecurityEvent ::
  "bool \<Rightarrow> key option \<Rightarrow> security_action \<Rightarrow> string \<Rightarrow> sign_in_method option \<Rightarrow> key option \<Rightarrow> unit dbtx" where
  "recordSecurityEvent ctx u act why meth sess = when_tx ctx (modify (sessions_update (securityEvents_update (\<lambda>es. es @
     [\<lparr>se_userId = u, se_action = act, se_reason = why, se_method = meth, se_session = sess\<rparr>]))))"

subsection \<open>Tokens and sessions\<close>

definition hashOpaqueToken :: "crypto \<Rightarrow> string \<Rightarrow> string" where
  "hashOpaqueToken c t = kx_sha256 c t"

definition day_ms :: int where
  "day_ms = 24 * 60 * 60 * 1000"

definition refreshTokenExpiresAt :: "time \<Rightarrow> time" where
  "refreshTokenExpiresAt now = now + 7 * day_ms"

record sign_in_methods =
  sm_passwordEnabled :: bool
  sm_googleConnected :: bool
  sm_legacyPasswordUnconfirmed :: bool

definition signInMethods :: "login \<Rightarrow> sign_in_methods" where
  "signInMethods l = \<lparr>sm_passwordEnabled = (lg_passwordState l = PW_SET), sm_googleConnected = truthy (lg_googleSubject l),
     sm_legacyPasswordUnconfirmed = (lg_passwordState l = PW_LEGACY_UNCONFIRMED)\<rparr>"

record auth_user =
  au_id :: key
  au_name :: string
  au_email :: string
  au_phone :: string
  au_location :: string
  au_avatarUrl :: "string option"
  au_bio :: "string option"
  au_role :: role
  au_trustScore :: int
  au_verificationStatus :: verification_status
  au_emailVerified :: bool
  au_moderationStatus :: account_moderation
  au_signInMethods :: sign_in_methods

definition toPublicUser :: "user_row \<Rightarrow> auth_user" where
  "toPublicUser u = \<lparr>au_id = u_id u, au_name = lg_name (u_login u), au_email = lg_email (u_login u), au_phone = lg_phone (u_login u),
     au_location = lg_location (u_login u), au_avatarUrl = lg_avatarUrl (u_login u), au_bio = lg_bio (u_login u), au_role = u_role u,
     au_trustScore = u_trustScore u, au_verificationStatus = u_verificationStatus u, au_emailVerified = u_emailVerified u,
     au_moderationStatus = u_moderationStatus u, au_signInMethods = signInMethods (u_login u)\<rparr>"

record auth_tokens =
  ax_accessToken :: string
  ax_refreshToken :: string

text \<open>Banned accounts may sign in (to appeal); closed and inactive ones may not.\<close>

definition may_sign_in :: "user_row \<Rightarrow> bool" where
  "may_sign_in u \<longleftrightarrow> u_deactivatedAt u = None \<and> (u_isActive u \<or> u_moderationStatus u = M_BANNED)"

definition bad_credentials :: error where
  "bad_credentials = Http 401 ''Invalid credentials''"

definition open_session ::
  "crypto \<Rightarrow> time \<Rightarrow> key \<Rightarrow> bool \<Rightarrow> sign_in_method \<Rightarrow> string \<Rightarrow> string \<Rightarrow> (key \<times> string) dbtx" where
  "open_session c now userId ctx method seed jti =
     tx_bind fresh_id (\<lambda>i. let refresh = kx_refresh c userId i jti now in
     tx_seq (insert_session \<lparr>rk_id = i, rk_token = hashOpaqueToken c seed, rk_userId = userId,
        rk_expiresAt = refreshTokenExpiresAt now\<rparr>)
    (tx_seq (set_session_token i (hashOpaqueToken c refresh))
    (tx_seq (recordSecurityEvent ctx (Some userId) SIGN_IN_SUCCESS
        (if method = BY_REGISTRATION then ''Signed in after registration'' else ''Authentication succeeded'') (Some method) (Some i))
    (ret (i, refresh)))))"

definition issue_session ::
  "crypto \<Rightarrow> time \<Rightarrow> key \<Rightarrow> string \<Rightarrow> bool \<Rightarrow> bool \<Rightarrow> sign_in_method \<Rightarrow> string \<Rightarrow> string \<Rightarrow> (user_row \<times> key \<times> string) dbtx" where
  "issue_session c now userId expected passwordAuthenticated ctx method seed jti =
     tx_bind (query (find_user userId)) (\<lambda>found.
     tx_bind (expect bad_credentials found) (\<lambda>current.
     tx_seq (ensure (may_sign_in current \<and> lg_passwordHash (u_login current) = expected) bad_credentials)
    (tx_seq (when_tx passwordAuthenticated
       (tx_seq (ensure (lg_passwordState (u_login current) \<noteq> PW_NONE) bad_credentials)
         (when_tx (lg_passwordState (u_login current) = PW_LEGACY_UNCONFIRMED)
           (upd_user userId (upd_login (\<lambda>l. l\<lparr>lg_passwordState := PW_SET\<rparr>))))))
    (tx_bind (open_session c now userId ctx method seed jti) (\<lambda>(i, refresh).
     ret (current, i, refresh))))))"

definition issueTokens ::
  "crypto \<Rightarrow> time \<Rightarrow> key \<Rightarrow> string \<Rightarrow> bool \<Rightarrow> bool \<Rightarrow> sign_in_method \<Rightarrow> string \<Rightarrow> string \<Rightarrow>
   (db, auth_tokens \<times> account_moderation) process" where
  "issueTokens c now userId expected passwordAuthenticated ctx method seed jti =
     p_bind (transact (issue_session c now userId expected passwordAuthenticated ctx method seed jti)) (\<lambda>(current, i, refresh).
     p_ret (\<lparr>ax_accessToken = kx_access c userId (u_role current) i now, ax_refreshToken = refresh\<rparr>, u_moderationStatus current))"

subsection \<open>Registration\<close>

definition isRegistrationEmailAvailable :: "string \<Rightarrow> db \<Rightarrow> bool" where
  "isRegistrationEmailAvailable e s \<longleftrightarrow>
     \<not> exists_row (\<lambda>u. toLowerCase (lg_email (u_login u)) = toLowerCase (trim e)) (users s)"

definition registeredEmailError :: error where
  "registeredEmailError = Http 409 ''EMAIL_ALREADY_REGISTERED''"

record register_input =
  rg_name :: string
  rg_email :: string
  rg_password :: string
  rg_phone :: string
  rg_location :: string
  rg_bio :: "string option"
  rg_avatarUrl :: "string option"

text \<open>A new account with its trust baseline; the columns that the code does not set have their defaults.\<close>

definition new_user :: "time \<Rightarrow> key \<Rightarrow> bool \<Rightarrow> login \<Rightarrow> user_row" where
  "new_user now i verified l = \<lparr>u_id = i, u_role = R_User, u_trustScore = 50, u_verificationStatus = V_UNVERIFIED, u_isActive = True,
     u_moderationStatus = M_ACTIVE, u_suspendedUntil = None, u_onlineQueueLimit = 5, u_subscriptionPlan = FREE,
     u_subscriptionStatus = SUB_ACTIVE, u_subscriptionStartedAt = None, u_subscriptionExpiresAt = None,
     u_subscriptionUpdatedAt = now, u_freePlanStartedAt = None, u_freePlanExpiresAt = None, u_emailVerified = verified,
     u_deactivatedAt = None, u_login = l\<rparr>"

definition create_user :: "time \<Rightarrow> bool \<Rightarrow> login \<Rightarrow> user_row dbtx" where
  "create_user now verified l =
     tx_bind (query (user_by_email (lg_email l))) (\<lambda>sameEmail.
     tx_bind (query (\<lambda>s. case lg_googleSubject l of None \<Rightarrow> None | Some g \<Rightarrow> user_by_subject g s)) (\<lambda>sameSubject.
     tx_seq (unique (sameEmail = None \<and> sameSubject = None))
    (tx_bind fresh_id (\<lambda>i. let u = new_user now i verified l in
     tx_seq (modify (users_update (\<lambda>us. us @ [u])))
    (tx_bind fresh_id (\<lambda>k.
     tx_seq (modify (trustEvents_update (\<lambda>es. es @ [\<lparr>te_id = k, te_userId = i, te_delta = 50, te_requestedDelta = None,
        te_reason = ''Initial Account Base Trust Score Baseline'', te_scoreBefore = 0, te_scoreAfter = 50, te_actorAdminId = None,
        te_eventKey = Some (TK_AccountBaseline i), te_createdAt = now, te_bookingId = None, te_category = T_LEGACY,
        te_penaltyKey = None, te_reversesEventId = None\<rparr>])))
    (ret u)))))))"

definition register_account :: "crypto \<Rightarrow> time \<Rightarrow> register_input \<Rightarrow> string \<Rightarrow> string \<Rightarrow> user_row dbtx" where
  "register_account c now input salt verifyToken =
     tx_bind (create_user now False \<lparr>lg_name = rg_name input, lg_email = rg_email input,
        lg_passwordHash = kx_bcrypt c (rg_password input) salt, lg_passwordState = PW_SET, lg_googleSubject = None,
        lg_googleConnectedAt = None, lg_phone = rg_phone input, lg_gcashNumber = None, lg_location = rg_location input,
        lg_avatarUrl = rg_avatarUrl input, lg_bio = rg_bio input, lg_postingSuspended = False\<rparr>) (\<lambda>u.
     tx_seq (insert_email_token \<lparr>et_token = hashOpaqueToken c verifyToken, et_userId = u_id u, et_expiresAt = now + day_ms,
        et_used = False, et_createdAt = now\<rparr>)
    (ret u))"

definition p_catch :: "('s, 'a) process \<Rightarrow> (error \<Rightarrow> ('s, 'a) process) \<Rightarrow> ('s, 'a) process" where
  "p_catch m h s = (case m s of (Inr x, s') \<Rightarrow> (Inr x, s') | (Inl e, s') \<Rightarrow> h e s')"

definition registerUser ::
  "crypto \<Rightarrow> time \<Rightarrow> bool \<Rightarrow> register_input \<Rightarrow> string \<Rightarrow> string \<Rightarrow> bool \<Rightarrow> string \<Rightarrow> string \<Rightarrow>
   (db, auth_user \<times> auth_tokens \<times> bool) process" where
  "registerUser c now ctx input salt verifyToken mailed seed jti =
     p_bind (transact (query (isRegistrationEmailAvailable (rg_email input)))) (\<lambda>available.
     p_seq (transact (ensure available registeredEmailError))
    (p_bind (p_catch (transact (register_account c now input salt verifyToken))
       (\<lambda>e. p_bind (transact (query (isRegistrationEmailAvailable (rg_email input)))) (\<lambda>still.
          transact (fail (if e = Uncoded ''P2002'' \<and> \<not> still then registeredEmailError else e))))) (\<lambda>user.
     p_bind (issueTokens c now (u_id user) (lg_passwordHash (u_login user)) False ctx BY_REGISTRATION seed jti) (\<lambda>(tokens, _).
     p_ret (toPublicUser user, tokens, mailed)))))"

subsection \<open>Signing in with a password\<close>

definition login_body ::
  "crypto \<Rightarrow> time \<Rightarrow> bool \<Rightarrow> user_row option \<Rightarrow> string \<Rightarrow> string \<Rightarrow> string \<Rightarrow> (db, auth_user \<times> auth_tokens) process" where
  "login_body c now ctx found password seed jti =
     p_bind (transact (expect bad_credentials found)) (\<lambda>user.
     p_seq (transact (ensure (lg_passwordState (u_login user) \<noteq> PW_NONE \<and> kx_matches c password (lg_passwordHash (u_login user))) bad_credentials))
    (p_seq (transact (ensure (may_sign_in user) (Http 403 ''Your account has been suspended. Please contact support.'')))
    (p_bind (issueTokens c now (u_id user) (lg_passwordHash (u_login user)) True ctx BY_PASSWORD seed jti) (\<lambda>(tokens, moderation).
     p_ret (toPublicUser (upd_login (\<lambda>l. l\<lparr>lg_passwordState := PW_SET\<rparr>) (user\<lparr>u_moderationStatus := moderation\<rparr>)), tokens)))))"

fun denial :: "error \<Rightarrow> string option" where
  "denial (Http n _) = (if n = 403 then Some ''Account access denied'' else if n = 401 then Some ''Credentials rejected'' else None)"
| "denial (Uncoded _) = None"

definition loginUser ::
  "crypto \<Rightarrow> time \<Rightarrow> bool \<Rightarrow> string \<Rightarrow> string \<Rightarrow> string \<Rightarrow> string \<Rightarrow> (db, auth_user \<times> auth_tokens) process" where
  "loginUser c now ctx email password seed jti =
     p_bind (transact (query (user_by_email email))) (\<lambda>found.
     p_rethrow (login_body c now ctx found password seed jti)
       (\<lambda>e. case denial e of None \<Rightarrow> p_ret ()
          | Some why \<Rightarrow> transact (recordSecurityEvent ctx (map_option u_id found) SIGN_IN_FAILED why (Some BY_PASSWORD) None)))"

subsection \<open>Refreshing and ending a session\<close>

definition resolveRefreshTokenUser :: "crypto \<Rightarrow> time \<Rightarrow> string \<Rightarrow> (string \<times> user_row \<times> key) dbtx" where
  "resolveRefreshTokenUser c now token =
     tx_seq (ensure (kx_refreshValid c now token) (Http 401 ''Invalid or expired refresh token''))
    (let h = hashOpaqueToken c token in
     tx_bind (query (session_by_token h)) (\<lambda>found.
     tx_bind (expect (Http 401 ''Refresh token not found or expired'') found) (\<lambda>stored.
     tx_seq (ensure (now \<le> rk_expiresAt stored) (Http 401 ''Refresh token not found or expired''))
    (tx_bind (query (find_user (rk_userId stored))) (\<lambda>owner.
     tx_bind (expect (Http 401 ''User not found or suspended'') owner) (\<lambda>user.
     tx_seq (ensure (may_sign_in user) (Http 401 ''User not found or suspended''))
    (ret (h, user, rk_id stored))))))))"

definition recoverSession :: "crypto \<Rightarrow> time \<Rightarrow> string \<Rightarrow> (string \<times> auth_user) dbtx" where
  "recoverSession c now token =
     tx_bind (resolveRefreshTokenUser c now token) (\<lambda>(h, user, i).
     ret (kx_access c (u_id user) (u_role user) i now, toPublicUser user))"

definition replace_token :: "crypto \<Rightarrow> time \<Rightarrow> key \<Rightarrow> string \<Rightarrow> string \<Rightarrow> unit dbtx" where
  "replace_token c now i h refresh =
     tx_bind (query (find_session i)) (\<lambda>row.
     tx_seq (ensure (case row of None \<Rightarrow> False | Some r \<Rightarrow> rk_token r = h \<and> now < rk_expiresAt r)
       (Http 401 ''Refresh token already used or revoked''))
    (tx_seq (set_session_token i (hashOpaqueToken c refresh))
    (modify (sessions_update (refreshTokens_update (map_rows (\<lambda>r. rk_id r = i)
       (\<lambda>r. r\<lparr>rk_expiresAt := refreshTokenExpiresAt now\<rparr>)))))))"

definition refreshAccessToken :: "crypto \<Rightarrow> time \<Rightarrow> string \<Rightarrow> string \<Rightarrow> (db, auth_tokens) process" where
  "refreshAccessToken c now token jti =
     p_bind (transact (resolveRefreshTokenUser c now token)) (\<lambda>(h, user, i).
     let refresh = kx_refresh c (u_id user) i jti now in
     p_seq (transact (replace_token c now i h refresh))
    (p_ret \<lparr>ax_accessToken = kx_access c (u_id user) (u_role user) i now, ax_refreshToken = refresh\<rparr>))"

text \<open>A signed cookie names its session even after it was rotated; any other one is looked up by its hash.\<close>

definition session_to_end :: "crypto \<Rightarrow> string \<Rightarrow> db \<Rightarrow> session_row option" where
  "session_to_end c token s = (case kx_refreshClaims c token of
     Some (u, i) \<Rightarrow> (case find_session i s of Some r \<Rightarrow> if rk_userId r = u then Some r else None | None \<Rightarrow> None)
   | None \<Rightarrow> session_by_token (hashOpaqueToken c token) s)"

definition logoutUser :: "crypto \<Rightarrow> bool \<Rightarrow> string \<Rightarrow> (db, unit) process" where
  "logoutUser c ctx token =
     p_bind (transact (query (session_to_end c token))) (\<lambda>found. case found of
       None \<Rightarrow> p_ret ()
     | Some r \<Rightarrow>
       p_bind (transact (tx_bind (query (find_session (rk_id r))) (\<lambda>there.
          tx_seq (delete_sessions (\<lambda>x. rk_id x = rk_id r)) (ret (there \<noteq> None))))) (\<lambda>revoked.
       p_seq (if revoked then transact (recordSecurityEvent ctx (Some (rk_userId r)) SIGN_OUT ''Explicit sign-out'' None (Some (rk_id r)))
              else p_ret ())
         (transact (emit (RSession (rk_id r)) ''forceLogout'' ''You signed out of this browser.''))))"

subsection \<open>The verification of the e-mail address\<close>

definition invalid_link :: error where
  "invalid_link = Http 400 ''Invalid or expired verification link''"

definition verifyEmail :: "crypto \<Rightarrow> time \<Rightarrow> string \<Rightarrow> (db, unit) process" where
  "verifyEmail c now token =
     (let h = hashOpaqueToken c token in
      p_bind (transact (query (find_email_token h))) (\<lambda>found.
      p_bind (transact (expect invalid_link found)) (\<lambda>r.
      if et_used r then p_ret ()
      else if et_expiresAt r < now
      then p_seq (transact (delete_email_tokens (\<lambda>x. et_token x = h))) (transact (fail invalid_link))
      else transact (tx_seq (tx_bind (update_user (et_userId r) (\<lambda>u. u\<lparr>u_emailVerified := True\<rparr>)) (\<lambda>_. ret ()))
        (modify (sessions_update (emailTokens_update (map_rows (\<lambda>x. et_token x = h) (\<lambda>x. x\<lparr>et_used := True\<rparr>)))))))))"

text \<open>\<open>mail\<close> is what the e-mail provider answers: an error, or nothing.\<close>

definition deliver_mail :: "error option \<Rightarrow> (db, unit) process" where
  "deliver_mail mail = (case mail of None \<Rightarrow> p_ret () | Some e \<Rightarrow> transact (fail e))"

definition email_token_of :: "key \<Rightarrow> db \<Rightarrow> email_token_row option" where
  "email_token_of u s = List.find (\<lambda>r. et_userId r = u) (emailTokens (sessions s))"

definition resendVerificationEmail :: "crypto \<Rightarrow> time \<Rightarrow> string \<Rightarrow> string \<Rightarrow> error option \<Rightarrow> (db, unit) process" where
  "resendVerificationEmail c now email token mail =
     p_bind (transact (query (user_by_email email))) (\<lambda>found. case found of None \<Rightarrow> p_ret () | Some user \<Rightarrow>
     if u_emailVerified user then p_ret ()
     else p_bind (transact (query (email_token_of (u_id user)))) (\<lambda>existing.
       p_seq (transact (ensure (case existing of None \<Rightarrow> True | Some r \<Rightarrow> 60 * 1000 \<le> now - et_createdAt r)
         (Http 429 ''Please wait 60 seconds before requesting another verification email.'')))
      (p_seq (transact (delete_email_tokens (\<lambda>r. et_userId r = u_id user)))
      (p_seq (transact (insert_email_token \<lparr>et_token = hashOpaqueToken c token, et_userId = u_id user, et_expiresAt = now + day_ms,
          et_used = False, et_createdAt = now\<rparr>))
      (deliver_mail mail)))))"

subsection \<open>A forgotten password\<close>

text \<open>An account whose password nobody has confirmed since a Google account was connected has no password to reset.\<close>

definition resettable :: "login \<Rightarrow> bool" where
  "resettable l \<longleftrightarrow> lg_passwordState l \<noteq> PW_NONE \<and> \<not> (lg_passwordState l = PW_LEGACY_UNCONFIRMED \<and> truthy (lg_googleSubject l))"

definition forgotPassword :: "crypto \<Rightarrow> time \<Rightarrow> string \<Rightarrow> string \<Rightarrow> error option \<Rightarrow> (db, unit) process" where
  "forgotPassword c now email token mail =
     p_bind (transact (query (user_by_email email))) (\<lambda>found. case found of None \<Rightarrow> p_ret () | Some user \<Rightarrow>
     if \<not> resettable (u_login user) then p_ret ()
     else p_seq (transact (delete_reset_tokens (\<lambda>r. pt_userId r = u_id user)))
      (p_seq (transact (insert_reset_token \<lparr>pt_token = hashOpaqueToken c token, pt_userId = u_id user,
          pt_expiresAt = now + 30 * 60 * 1000, pt_used = False\<rparr>))
      (deliver_mail mail)))"

text \<open>The schema of a strong password, on texts of one byte per character.\<close>

definition strong_password :: "string \<Rightarrow> bool" where
  "strong_password p \<longleftrightarrow> 8 \<le> length p \<and> length p \<le> 72 \<and> list_ex is_upper p \<and> list_ex is_lower p \<and> list_ex is_digit p \<and>
     list_ex (\<lambda>x. \<not> is_upper x \<and> \<not> is_lower x \<and> \<not> is_digit x \<and> \<not> js_space x) p"

definition weak_password :: error where
  "weak_password = Uncoded ''ZodError''"

definition invalid_reset :: error where
  "invalid_reset = Http 400 ''Invalid or expired reset link''"

definition set_password :: "string \<Rightarrow> login \<Rightarrow> login" where
  "set_password h l = l\<lparr>lg_passwordHash := h, lg_passwordState := PW_SET\<rparr>"

definition reset_commit :: "time \<Rightarrow> key \<Rightarrow> string \<Rightarrow> string \<Rightarrow> unit dbtx" where
  "reset_commit now userId h passwordHash =
     tx_bind (query (find_user userId)) (\<lambda>found.
     tx_bind (expect invalid_reset found) (\<lambda>user.
     tx_seq (ensure (u_deactivatedAt user = None \<and> u_isActive user \<and> resettable (u_login user)) invalid_reset)
    (tx_bind (query (find_reset_token h)) (\<lambda>row.
     tx_seq (ensure (case row of None \<Rightarrow> False | Some r \<Rightarrow> \<not> pt_used r \<and> now < pt_expiresAt r) invalid_reset)
    (tx_seq (modify (sessions_update (resetTokens_update (map_rows (\<lambda>r. pt_token r = h) (\<lambda>r. r\<lparr>pt_used := True\<rparr>)))))
    (tx_seq (upd_user userId (upd_login (set_password passwordHash)))
    (delete_sessions (\<lambda>r. rk_userId r = userId))))))))"

definition resetPassword :: "crypto \<Rightarrow> time \<Rightarrow> string \<Rightarrow> string \<Rightarrow> string \<Rightarrow> (db, unit) process" where
  "resetPassword c now token newPassword salt =
     p_seq (transact (ensure (strong_password newPassword) weak_password))
    (let h = hashOpaqueToken c token in
     p_bind (transact (query (find_reset_token h))) (\<lambda>found.
     p_bind (transact (expect invalid_reset found)) (\<lambda>r.
     p_seq (transact (ensure (\<not> pt_used r \<and> now \<le> pt_expiresAt r) invalid_reset))
    (p_seq (transact (reset_commit now (pt_userId r) h (kx_bcrypt c newPassword salt)))
    (transact (emit (RUser (pt_userId r)) ''forceLogout'' ''Your password was reset. Please sign in again.''))))))"

end
