(* ===== verification/SH_Password.thy ===== *)
theory SH_Password
  imports SH_Auth
begin

text \<open>
  The rest of an account's identity: signing in with Google (authentication.service.ts), setting and changing
  a password (password-management.service.ts, profile.service.ts), the profile and the wallet number
  (profile.service.ts, gcash-number.service.ts), and the guards of the HTTP routes (auth.middleware.ts,
  utils/permissions.ts). What Google answers about a credential is an argument.
\<close>

subsection \<open>Google\<close>

record google_claims =
  gc_aud :: string
  gc_iss :: string
  gc_verified :: bool
  gc_sub :: "string option"
  gc_email :: "string option"
  gc_exp :: "int option"
  gc_iat :: "int option"
  gc_nonce :: "string option"
  gc_name :: "string option"
  gc_picture :: "string option"

datatype google_reply = G_Unreachable | G_Refused | G_Claims google_claims

definition google_issuers :: "string list" where
  "google_issuers = [''accounts.google.com'', ''https://accounts.google.com'']"

record google_identity =
  gi_email :: string
  gi_name :: string
  gi_avatarUrl :: "string option"
  gi_subject :: string

definition google_failed :: error where
  "google_failed = Http 401 ''Google sign-in failed''"

definition verified_google :: "string option \<Rightarrow> time \<Rightarrow> google_reply \<Rightarrow> error + google_identity" where
  "verified_google client now reply =
     (if \<not> truthy client then Inl (Http 503 ''Google sign-in failed: Google sign-in is not configured'')
      else case reply of G_Claims d \<Rightarrow>
          if \<not> truthy (gc_email d) \<or> \<not> truthy (gc_sub d) then Inl google_failed
          else if Some (gc_aud d) \<noteq> client \<or> gc_iss d \<notin> set google_issuers \<or> \<not> gc_verified d \<or>
             (case gc_exp d of None \<Rightarrow> True | Some t \<Rightarrow> 1000 * t \<le> now) then Inl google_failed
          else (let email = toLowerCase (trim (the (gc_email d))) in
            Inr \<lparr>gi_email = email,
              gi_name = (if truthy (gc_name d) then the (gc_name d) else takeWhile (\<lambda>x. x \<noteq> CHR ''@'') email),
              gi_avatarUrl = (if truthy (gc_picture d) then gc_picture d else None), gi_subject = the (gc_sub d)\<rparr>)
        | _ \<Rightarrow> Inl google_failed)"

definition other_subject :: "string \<Rightarrow> user_row \<Rightarrow> bool" where
  "other_subject g u \<longleftrightarrow> truthy (lg_googleSubject (u_login u)) \<and> lg_googleSubject (u_login u) \<noteq> Some g"

text \<open>The subject is a unique column.\<close>

definition connect_google :: "time \<Rightarrow> key \<Rightarrow> string \<Rightarrow> user_row dbtx" where
  "connect_google now i g =
     tx_bind (query (user_by_subject g)) (\<lambda>holder.
     tx_seq (unique (case holder of None \<Rightarrow> True | Some h \<Rightarrow> u_id h = i))
      (update_user i (\<lambda>u. upd_login (\<lambda>l. l\<lparr>lg_googleSubject := Some g,
         lg_googleConnectedAt := (case lg_googleConnectedAt l of None \<Rightarrow> Some now | t \<Rightarrow> t)\<rparr>) (u\<lparr>u_emailVerified := True\<rparr>))))"

definition link_google :: "time \<Rightarrow> key \<Rightarrow> string \<Rightarrow> user_row dbtx" where
  "link_google now i g =
     tx_bind (query (find_user i)) (\<lambda>found.
     tx_bind (expect (Uncoded ''P2025'') found) (\<lambda>latest.
     tx_seq (ensure (may_sign_in latest) (Http 403 ''Account inactive''))
    (tx_seq (ensure (\<not> other_subject g latest) (Http 403 ''Google account does not match.''))
    (connect_google now i g))))"

definition google_account :: "google_identity \<Rightarrow> db \<Rightarrow> user_row option" where
  "google_account g s = (case user_by_subject (gi_subject g) s of Some u \<Rightarrow> Some u | None \<Rightarrow> user_by_email (gi_email g) s)"

definition googleLoginUser ::
  "crypto \<Rightarrow> string option \<Rightarrow> time \<Rightarrow> bool \<Rightarrow> google_reply \<Rightarrow> string \<Rightarrow> string \<Rightarrow> string \<Rightarrow> string \<Rightarrow>
   (db, auth_user \<times> auth_tokens) process" where
  "googleLoginUser c client now ctx reply randomPassword salt seed jti =
     p_bind (transact (lift_sum (verified_google client now reply))) (\<lambda>g.
     p_bind (transact (query (google_account g))) (\<lambda>found. case found of
       Some user \<Rightarrow>
         p_seq (transact (ensure (may_sign_in user) (Http 403 ''Your account has been suspended. Please contact support.'')))
        (p_seq (transact (ensure (\<not> other_subject (gi_subject g) user) (Http 403 ''This email is connected to a different Google account.'')))
        (p_bind (transact (link_google now (u_id user) (gi_subject g))) (\<lambda>linked.
         p_bind (issueTokens c now (u_id linked) (lg_passwordHash (u_login linked)) False ctx BY_GOOGLE seed jti) (\<lambda>(tokens, moderation).
         p_ret (toPublicUser (linked\<lparr>u_moderationStatus := moderation\<rparr>), tokens)))))
     | None \<Rightarrow>
         p_bind (transact (create_user now True \<lparr>lg_name = gi_name g, lg_email = gi_email g,
           lg_passwordHash = kx_bcrypt c randomPassword salt, lg_passwordState = PW_NONE, lg_googleSubject = Some (gi_subject g),
           lg_googleConnectedAt = Some now, lg_phone = [], lg_gcashNumber = None, lg_location = [], lg_avatarUrl = gi_avatarUrl g,
           lg_bio = None, lg_postingSuspended = False\<rparr>)) (\<lambda>user.
         p_bind (issueTokens c now (u_id user) (lg_passwordHash (u_login user)) False ctx BY_GOOGLE seed jti) (\<lambda>(tokens, _).
         p_ret (toPublicUser user, tokens)))))"

subsection \<open>Setting a first password after a fresh verification by Google\<close>

definition live_session :: "time \<Rightarrow> key \<Rightarrow> key \<Rightarrow> db \<Rightarrow> bool" where
  "live_session now u i s \<longleftrightarrow> (case find_session i s of None \<Rightarrow> False | Some r \<Rightarrow> rk_userId r = u \<and> now < rk_expiresAt r)"

definition activeSession :: "time \<Rightarrow> key \<Rightarrow> key \<Rightarrow> user_row dbtx" where
  "activeSession now u i =
     tx_bind (query (\<lambda>s. (find_user u s, live_session now u i s))) (\<lambda>(found, live).
     tx_seq (ensure (case found of None \<Rightarrow> False
         | Some x \<Rightarrow> u_isActive x \<and> u_deactivatedAt x = None \<and> u_moderationStatus x \<noteq> M_BANNED \<and> live)
       (Http 401 ''SESSION_EXPIRED''))
    (expect (Http 401 ''SESSION_EXPIRED'') found))"

definition getSecurityMethods :: "string option \<Rightarrow> key \<Rightarrow> (sign_in_methods \<times> string \<times> bool) dbtx" where
  "getSecurityMethods client u =
     tx_bind (query (find_user u)) (\<lambda>found.
     tx_bind (expect (Uncoded ''P2025'') found) (\<lambda>x. ret (signInMethods (u_login x), lg_email (u_login x), truthy client)))"

definition proof_ttl :: int where
  "proof_ttl = 300"

definition stale_proof :: error where
  "stale_proof = Http 403 ''GOOGLE_VERIFICATION_EXPIRED''"

text \<open>A proof is valid for its own user, session and kind.\<close>

definition readPasswordProof :: "crypto \<Rightarrow> time \<Rightarrow> string \<Rightarrow> key \<Rightarrow> key \<Rightarrow> bool \<Rightarrow> error + password_proof" where
  "readPasswordProof c now text u i isGrant = (case kx_readProof c now text of None \<Rightarrow> Inl stale_proof
     | Some p \<Rightarrow> if pr_sub p = u \<and> pr_sid p = i \<and> pr_isGrant p = isGrant then Inr p else Inl stale_proof)"

definition startPasswordSetup ::
  "crypto \<Rightarrow> string option \<Rightarrow> time \<Rightarrow> key \<Rightarrow> key \<Rightarrow> string \<Rightarrow> (string \<times> string \<times> int) dbtx" where
  "startPasswordSetup c client now u i nonce =
     tx_seq (ensure (truthy client) (Http 503 ''GOOGLE_UNAVAILABLE''))
    (tx_bind (activeSession now u i) (\<lambda>user. let l = u_login user in
     tx_seq (ensure (lg_passwordState l \<noteq> PW_SET) (Http 409 ''PASSWORD_ALREADY_SET''))
    (tx_seq (ensure (truthy (lg_googleSubject l) \<or> lg_passwordState l = PW_LEGACY_UNCONFIRMED) (Http 409 ''GOOGLE_NOT_CONNECTED''))
    (ret (nonce, kx_signProof c \<lparr>pr_sub = u, pr_sid = i, pr_googleSubject = (case lg_googleSubject l of None \<Rightarrow> [] | Some g \<Rightarrow> g),
       pr_email = lg_email l, pr_nonce = nonce, pr_version = [], pr_isGrant = False, pr_iat = now div 1000\<rparr> now, proof_ttl)))))"

definition google_rejected :: error where
  "google_rejected = Http 403 ''GOOGLE_VERIFICATION_FAILED''"

definition verifyPasswordGoogleClaims :: "string option \<Rightarrow> time \<Rightarrow> google_reply \<Rightarrow> password_proof \<Rightarrow> error + string" where
  "verifyPasswordGoogleClaims client now reply p = (let t = now div 1000 in
     case reply of G_Unreachable \<Rightarrow> Inl (Http 503 ''GOOGLE_UNAVAILABLE'') | G_Refused \<Rightarrow> Inl google_rejected
     | G_Claims d \<Rightarrow>
       if \<not> truthy client \<or> Some (gc_aud d) \<noteq> client \<or> gc_iss d \<notin> set google_issuers \<or> \<not> gc_verified d \<or> \<not> truthy (gc_sub d) \<or>
         (if pr_googleSubject p \<noteq> [] then gc_sub d \<noteq> Some (pr_googleSubject p)
          else map_option toLowerCase (gc_email d) \<noteq> Some (toLowerCase (pr_email p))) \<or>
         gc_nonce d \<noteq> Some (pr_nonce p) \<or>
         (case gc_exp d of None \<Rightarrow> True | Some e \<Rightarrow> e \<le> t) \<or>
         (case gc_iat d of None \<Rightarrow> True | Some n \<Rightarrow> n < t - proof_ttl \<or> n > t + 30 \<or> n < pr_iat p - 30)
       then Inl google_rejected else Inr (the (gc_sub d)))"

definition methods_changed :: error where
  "methods_changed = Http 409 ''SIGN_IN_METHODS_CHANGED''"

definition verify_setup_commit :: "crypto \<Rightarrow> time \<Rightarrow> key \<Rightarrow> key \<Rightarrow> password_proof \<Rightarrow> string \<Rightarrow> (string \<times> int) dbtx" where
  "verify_setup_commit c now u i p g =
     tx_bind (activeSession now u i) (\<lambda>user. let l = u_login user in
     tx_seq (ensure (lg_passwordState l \<noteq> PW_SET) (Http 409 ''PASSWORD_ALREADY_SET''))
    (tx_seq (ensure (\<not> other_subject g user) methods_changed)
    (tx_seq (when_tx (\<not> truthy (lg_googleSubject l))
       (tx_seq (ensure (lg_passwordState l = PW_LEGACY_UNCONFIRMED \<and> lg_email l = pr_email p) methods_changed)
       (tx_bind (query (user_by_subject g)) (\<lambda>linked.
        tx_seq (ensure (case linked of None \<Rightarrow> True | Some h \<Rightarrow> u_id h = u) methods_changed)
       (tx_bind (update_user u (\<lambda>x. upd_login (\<lambda>y. y\<lparr>lg_googleSubject := Some g, lg_googleConnectedAt := Some now\<rparr>)
          (x\<lparr>u_emailVerified := True\<rparr>))) (\<lambda>_. ret ()))))))
    (ret (kx_signProof c \<lparr>pr_sub = u, pr_sid = i, pr_googleSubject = g, pr_email = [], pr_nonce = [],
       pr_version = kx_sha256 c (lg_passwordHash l), pr_isGrant = True, pr_iat = now div 1000\<rparr> now, proof_ttl)))))"

definition verifyPasswordSetup ::
  "crypto \<Rightarrow> string option \<Rightarrow> time \<Rightarrow> key \<Rightarrow> key \<Rightarrow> google_reply \<Rightarrow> string \<Rightarrow> (db, string \<times> int) process" where
  "verifyPasswordSetup c client now u i reply challenge =
     p_bind (transact (lift_sum (readPasswordProof c now challenge u i False))) (\<lambda>p.
     p_bind (transact (lift_sum (verifyPasswordGoogleClaims client now reply p))) (\<lambda>g.
     transact (verify_setup_commit c now u i p g)))"

definition setUserPassword :: "crypto \<Rightarrow> time \<Rightarrow> key \<Rightarrow> key \<Rightarrow> string \<Rightarrow> string \<Rightarrow> string \<Rightarrow> sign_in_methods dbtx" where
  "setUserPassword c now u i grant newPassword salt =
     tx_seq (ensure (strong_password newPassword) weak_password)
    (tx_bind (lift_sum (readPasswordProof c now grant u i True)) (\<lambda>p.
     tx_bind (activeSession now u i) (\<lambda>user. let l = u_login user in
     tx_seq (ensure (lg_passwordState l \<noteq> PW_SET) (Http 409 ''PASSWORD_ALREADY_SET''))
    (tx_seq (ensure (lg_googleSubject l = Some (pr_googleSubject p) \<and> kx_sha256 c (lg_passwordHash l) = pr_version p) methods_changed)
    (tx_seq (upd_user u (upd_login (set_password (kx_bcrypt c newPassword salt))))
    (tx_seq (delete_reset_tokens (\<lambda>r. pt_userId r = u))
    (tx_seq (delete_sessions (\<lambda>r. rk_userId r = u \<and> rk_id r \<noteq> i))
    (ret \<lparr>sm_passwordEnabled = True, sm_googleConnected = True, sm_legacyPasswordUnconfirmed = False\<rparr>))))))))"

subsection \<open>Changing the password\<close>

definition change_commit :: "time \<Rightarrow> key \<Rightarrow> key option \<Rightarrow> string \<Rightarrow> string \<Rightarrow> unit dbtx" where
  "change_commit now u sess oldHash newHash =
     tx_bind (query (find_user u)) (\<lambda>found.
     tx_seq (ensure (case found of None \<Rightarrow> False | Some x \<Rightarrow> u_isActive x \<and> u_deactivatedAt x = None) (Http 403 ''Account inactive.''))
    (tx_bind (query (\<lambda>s. case sess of None \<Rightarrow> True | Some i \<Rightarrow> live_session now u i s)) (\<lambda>live.
     tx_seq (ensure live (Http 401 ''Your session ended. Sign in again.''))
    (tx_seq (ensure (map_option (lg_passwordHash \<circ> u_login) found = Some oldHash) (Http 409 ''CURRENT_PASSWORD_CHANGED''))
    (tx_seq (upd_user u (upd_login (set_password newHash)))
    (tx_seq (delete_reset_tokens (\<lambda>r. pt_userId r = u))
    (delete_sessions (\<lambda>r. rk_userId r = u))))))))"

definition changeUserPassword ::
  "crypto \<Rightarrow> time \<Rightarrow> key \<Rightarrow> string option \<Rightarrow> string option \<Rightarrow> key option \<Rightarrow> string \<Rightarrow> (db, unit) process" where
  "changeUserPassword c now u current new sess salt =
     p_seq (transact (ensure (truthy current \<and> truthy new) (Http 400 ''Current and new password are required'')))
    (p_seq (transact (ensure (strong_password (the new)) weak_password))
    (p_bind (transact (query (find_user u))) (\<lambda>found.
     p_bind (transact (expect (Http 404 ''User not found'') found)) (\<lambda>user.
     p_seq (transact (ensure (lg_passwordState (u_login user) \<noteq> PW_NONE) (Http 409 ''PASSWORD_NOT_SET'')))
    (p_seq (transact (ensure (kx_matches c (the current) (lg_passwordHash (u_login user))) (Http 400 ''CURRENT_PASSWORD_INCORRECT'')))
    (p_seq (transact (change_commit now u sess (lg_passwordHash (u_login user)) (kx_bcrypt c (the new) salt)))
    (transact (emit (RUser u) ''forceLogout'' ''Your password changed successfully. Please sign in again.''))))))))"

subsection \<open>The profile and the wallet number\<close>

record profile_input =
  pi_name :: "string option"
  pi_bio :: "string option"
  pi_phone :: "string option"
  pi_location :: "string option"
  pi_avatarUrl :: "string option"
  pi_currentPassword :: "string option"

definition phone_changes :: "profile_input \<Rightarrow> login \<Rightarrow> bool" where
  "phone_changes d l \<longleftrightarrow> (case pi_phone d of None \<Rightarrow> False | Some p \<Rightarrow> trim p \<noteq> [] \<and> trim p \<noteq> trim (lg_phone l))"

definition in_engagement :: "key \<Rightarrow> db \<Rightarrow> bool" where
  "in_engagement u s = exists_row (\<lambda>b. (bk_providerId b = u \<or> bk_seekerId b = u) \<and> bk_status b \<in> open_statuses) (bookings s)"

definition write_profile :: "profile_input \<Rightarrow> login \<Rightarrow> login" where
  "write_profile d l = l\<lparr>lg_name := (case pi_name d of None \<Rightarrow> lg_name l | Some x \<Rightarrow> x),
     lg_bio := (case pi_bio d of None \<Rightarrow> lg_bio l | x \<Rightarrow> x), lg_phone := (case pi_phone d of None \<Rightarrow> lg_phone l | Some x \<Rightarrow> x),
     lg_location := (case pi_location d of None \<Rightarrow> lg_location l | Some x \<Rightarrow> x),
     lg_avatarUrl := (case pi_avatarUrl d of None \<Rightarrow> lg_avatarUrl l | x \<Rightarrow> x)\<rparr>"

definition reauthenticated :: "crypto \<Rightarrow> profile_input \<Rightarrow> login \<Rightarrow> unit dbtx" where
  "reauthenticated c d l = when_tx (lg_passwordHash l \<noteq> [])
     (tx_seq (ensure (truthy (pi_currentPassword d)) (Http 400 ''Current password is required to update your contact mobile number.''))
       (ensure (kx_matches c (the (pi_currentPassword d)) (lg_passwordHash l)) (Http 400 ''Incorrect current password. Mobile number was not updated.'')))"

definition profile_commit :: "key \<Rightarrow> bool \<Rightarrow> string \<Rightarrow> profile_input \<Rightarrow> user_row dbtx" where
  "profile_commit u changing hash d =
     tx_bind (query (find_user u)) (\<lambda>found.
     tx_seq (ensure (case found of None \<Rightarrow> False | Some x \<Rightarrow> u_isActive x \<and> u_deactivatedAt x = None) (Http 403 ''This account is no longer active.''))
    (tx_seq (ensure (changing \<longrightarrow> map_option (lg_passwordHash \<circ> u_login) found = Some hash)
       (Http 409 ''Your password changed. Verify your current password again.''))
    (update_user u (upd_login (write_profile d)))))"

definition updateUserProfile :: "crypto \<Rightarrow> key \<Rightarrow> profile_input \<Rightarrow> (db, auth_user) process" where
  "updateUserProfile c u d =
     p_bind (transact (query (find_user u))) (\<lambda>found.
     p_bind (transact (expect (Http 404 ''User not found'') found)) (\<lambda>current.
     let changing = phone_changes d (u_login current) in
     p_seq (transact (when_tx changing
        (tx_bind (query (in_engagement u)) (\<lambda>engaged.
         tx_seq (ensure (\<not> engaged) (Http 400 ''Mobile number cannot be changed while you have active service engagements in progress.''))
           (reauthenticated c d (u_login current))))))
    (p_bind (transact (profile_commit u changing (lg_passwordHash (u_login current)) d)) (\<lambda>updated.
     p_seq (if changing then p_seq (transact (notify u ''Security Alert: Mobile Number Updated''))
        (transact (emit (RUser u) ''notification'' ''Security Alert: Mobile Number Updated'')) else p_ret ())
    (p_ret (toPublicUser updated))))))"

definition assertListingGCashNumber :: "key \<Rightarrow> pay_methods option \<Rightarrow> unit dbtx" where
  "assertListingGCashNumber u methods = (if \<not> (case methods of None \<Rightarrow> False | Some m \<Rightarrow> pm_gcash m) then ret ()
     else tx_bind (query (find_user u)) (\<lambda>found.
       ensure (case found of None \<Rightarrow> False | Some x \<Rightarrow> (case lg_gcashNumber (u_login x) of None \<Rightarrow> False | Some n \<Rightarrow> normalizeGCashNumber n \<noteq> None))
         (Http 422 ''GCASH_NUMBER_REQUIRED'')))"

definition getOwnGCashNumber :: "key \<Rightarrow> string option dbtx" where
  "getOwnGCashNumber u = tx_bind (query (find_user u)) (\<lambda>found.
     tx_seq (ensure (case found of None \<Rightarrow> False
         | Some x \<Rightarrow> u_role x = R_User \<and> u_isActive x \<and> u_deactivatedAt x = None \<and> u_moderationStatus x = M_ACTIVE)
       (Http 403 ''This account cannot manage a GCash number.''))
     (ret (case found of None \<Rightarrow> None | Some x \<Rightarrow> lg_gcashNumber (u_login x))))"

definition takes_gcash :: "pay_methods option \<Rightarrow> bool" where
  "takes_gcash m = (case m of None \<Rightarrow> False | Some x \<Rightarrow> pm_gcash x)"

definition gcash_in_use :: "key \<Rightarrow> db \<Rightarrow> bool" where
  "gcash_in_use u s \<longleftrightarrow>
     exists_row (\<lambda>v. sv_providerId v = u \<and> sv_status v \<noteq> S_DELETED \<and> pm_gcash (sv_paymentMethods v)) (services s) \<or>
     exists_row (\<lambda>r. rq_seekerId r = u \<and> rq_targetServiceId r = None \<and> rq_archivedAt r = None \<and>
       rq_status r \<in> {RQ_OPEN, RQ_CLOSED, RQ_PAYMENT_PENDING, RQ_IN_PROGRESS} \<and> takes_gcash (rq_paymentMethods r)) (requests s)"

text \<open>The new number is None (remove it) or a text that the schema accepts.\<close>

definition updateOwnGCashNumber :: "time \<Rightarrow> key \<Rightarrow> key option \<Rightarrow> string option \<Rightarrow> string option dbtx" where
  "updateOwnGCashNumber now u sess text =
     (let number = (case text of None \<Rightarrow> None | Some t \<Rightarrow> normalizeGCashNumber t) in
      tx_seq (ensure (text = None \<or> number \<noteq> None) (Uncoded ''ZodError''))
     (tx_bind (expect (Http 401 ''Your session expired. Sign in again.'') sess) (\<lambda>i.
      tx_seq (assertActiveMarketplaceAccount u)
     (tx_bind (query (\<lambda>s. (live_session now u i s, gcash_in_use u s))) (\<lambda>(live, used).
      tx_seq (ensure live (Http 401 ''Your session expired. Sign in again.''))
     (tx_seq (ensure (number \<noteq> None \<or> \<not> used) (Http 409 ''GCASH_NUMBER_IN_USE''))
     (tx_bind (update_user u (upd_login (\<lambda>l. l\<lparr>lg_gcashNumber := number\<rparr>))) (\<lambda>_. ret number))))))))"

subsection \<open>The guards of the routes\<close>

datatype access = ALLOW | ACCOUNT_INACTIVE | ACCOUNT_BANNED

definition accountAccessDecision :: "user_row \<Rightarrow> bool \<Rightarrow> access" where
  "accountAccessDecision u allowBanned = (if u_deactivatedAt u \<noteq> None then ACCOUNT_INACTIVE
     else if u_moderationStatus u = M_BANNED then (if allowBanned then ALLOW else ACCOUNT_BANNED)
     else if \<not> u_isActive u then ACCOUNT_INACTIVE else ALLOW)"

datatype gate = Denied nat string | Admitted user_row key

definition suspension_lapsed :: "time \<Rightarrow> user_row \<Rightarrow> bool" where
  "suspension_lapsed now u \<longleftrightarrow> u_moderationStatus u = M_SUSPENDED \<and> (case u_suspendedUntil u of None \<Rightarrow> False | Some t \<Rightarrow> t \<le> now)"

definition lift_suspension :: "user_row \<Rightarrow> user_row" where
  "lift_suspension u = u\<lparr>u_isActive := True, u_moderationStatus := M_ACTIVE, u_suspendedUntil := None\<rparr>"

definition admit :: "bool \<Rightarrow> user_row \<Rightarrow> key \<Rightarrow> gate" where
  "admit allowBanned u i = (case accountAccessDecision u allowBanned of
     ACCOUNT_BANNED \<Rightarrow> Denied 403 ''ACCOUNT_BANNED''
   | ACCOUNT_INACTIVE \<Rightarrow> Denied 403 (if u_moderationStatus u = M_SUSPENDED then ''ACCOUNT_SUSPENDED'' else ''Account inactive'')
   | ALLOW \<Rightarrow> Admitted u i)"

definition authenticate :: "crypto \<Rightarrow> time \<Rightarrow> bool \<Rightarrow> string option \<Rightarrow> (db, gate) process" where
  "authenticate c now allowBanned header = (case header of None \<Rightarrow> p_ret (Denied 401 ''Authentication required'') | Some h \<Rightarrow>
     if take 7 h \<noteq> ''Bearer '' then p_ret (Denied 401 ''Authentication required'')
     else (case kx_readAccess c now (takeWhile (\<lambda>x. x \<noteq> CHR '' '') (drop 7 h)) of
         None \<Rightarrow> p_ret (Denied 401 ''Invalid or expired token'')
       | Some (u, None) \<Rightarrow> p_ret (Denied 401 ''Session expired'')
       | Some (u, Some i) \<Rightarrow>
         p_bind (transact (query (live_session now u i))) (\<lambda>live. if \<not> live then p_ret (Denied 401 ''Session expired'')
         else p_bind (transact (query (find_user u))) (\<lambda>found. case found of
             None \<Rightarrow> p_ret (Denied 401 ''User not found'')
           | Some user \<Rightarrow> if suspension_lapsed now user
             then p_bind (transact (update_user u lift_suspension)) (\<lambda>_. p_ret (admit allowBanned (lift_suspension user) i))
             else p_ret (admit allowBanned user i)))))"

definition requireAdmin :: "user_row option \<Rightarrow> (nat \<times> string) option" where
  "requireAdmin u = (if map_option u_role u = Some R_Admin then None else Some (403, ''Admin access required''))"

definition requireMarketplaceUser :: "user_row option \<Rightarrow> (nat \<times> string) option" where
  "requireMarketplaceUser u = (if u = None \<or> map_option u_role u = Some R_Admin
     then Some (403, ''Marketplace action restricted to standard users'') else None)"

definition requireEmailVerified :: "user_row \<Rightarrow> (nat \<times> string) option" where
  "requireEmailVerified u = (if u_emailVerified u then None else Some (403, ''EMAIL_NOT_VERIFIED''))"

definition requireVerification :: "user_row \<Rightarrow> (nat \<times> string) option" where
  "requireVerification u = (if \<not> u_emailVerified u then Some (403, ''EMAIL_NOT_VERIFIED'')
     else if \<not> canTransact (getUserPermissions u)
     then Some (403, if u_moderationStatus u = M_SUSPENDED then ''ACCOUNT_SUSPENDED''
        else if u_moderationStatus u = M_BANNED then ''ACCOUNT_BANNED''
        else if \<not> u_isActive u then ''ACCOUNT_INACTIVE'' else ''VERIFICATION_REQUIRED'')
     else None)"

definition requirePostingPrivilege :: "user_row \<Rightarrow> (nat \<times> string) option" where
  "requirePostingPrivilege u = (if lg_postingSuspended (u_login u) then Some (403, ''POSTING_SUSPENDED'') else None)"

text \<open>A token without a session check: an active account is attached to the request, anyone else stays anonymous.\<close>

definition optionalAuth :: "crypto \<Rightarrow> time \<Rightarrow> string option \<Rightarrow> db \<Rightarrow> user_row option" where
  "optionalAuth c now header s = (case header of None \<Rightarrow> None | Some h \<Rightarrow>
     if take 7 h \<noteq> ''Bearer '' then None
     else (case kx_readAccess c now (takeWhile (\<lambda>x. x \<noteq> CHR '' '') (drop 7 h)) of None \<Rightarrow> None
       | Some (u, _) \<Rightarrow> (case find_user u s of None \<Rightarrow> None
           | Some x \<Rightarrow> if u_isActive x \<and> u_moderationStatus x \<noteq> M_BANNED then Some x else None)))"

definition requireTrustedOrigin :: "bool \<Rightarrow> string list \<Rightarrow> string option \<Rightarrow> (nat \<times> string) option" where
  "requireTrustedOrigin production allowed origin = (if \<not> production then None
     else if \<not> truthy origin \<or> the origin \<notin> set allowed then Some (403, ''Untrusted request origin'') else None)"

end
