(* ===== verification/SH_Runs.thy ===== *)
theory SH_Runs
  imports SH_Auth
begin

text \<open>How processes run: what a caught error keeps, reads and guards at the head of a process, and the parts of a successful run.\<close>

subsection \<open>Properties a process keeps\<close>

lemma p_keeps_catch [p_pres]:
  assumes "p_keeps I m" "\<And>e. p_keeps I (h e)"
  shows "p_keeps I (p_catch m h)"
  unfolding p_keeps_def
proof (intro allI impI)
  fix s assume "I s"
  then have m: "I (snd (m s))" using assms(1) by (simp add: p_keeps_def)
  show "I (snd (p_catch m h s))"
  proof (cases "m s")
    case (Pair r t)
    with m assms(2) show ?thesis by (cases r) (simp_all add: p_catch_def p_keeps_def)
  qed
qed

lemmas p_flow = p_keeps_ret p_keeps_bind p_keeps_seq p_keeps_rethrow p_keeps_catch p_keeps_if p_keeps_case_option
  p_keeps_case_sum p_keeps_case_prod p_keeps_let

lemma p_bind_query: "p_bind (transact (query f)) g s = g (f s) s"
  by (simp add: p_bind_def transact_def query_def)

lemma p_seq_ensure: "p_seq (transact (ensure b e)) m s = (if b then m s else (Inl e, s))"
  by (simp add: p_seq_def p_bind_def transact_def ensure_def ret_def fail_def)

lemma p_bind_expect: "p_bind (transact (expect e v)) f s = (case v of None \<Rightarrow> (Inl e, s) | Some x \<Rightarrow> f x s)"
  by (simp add: p_bind_def transact_def expect_def ret_def fail_def split: option.splits)

text \<open>A transaction whose read decides what follows.\<close>

lemma p_keeps_read:
  assumes "\<And>s x s'. I s \<Longrightarrow> m s = Inr (x, s') \<Longrightarrow> I (snd (f x s'))"
  shows "p_keeps I (p_bind (transact m) f)"
  unfolding p_keeps_def
proof (intro allI impI)
  fix s assume I: "I s"
  show "I (snd (p_bind (transact m) f s))"
  proof (cases "m s")
    case (Inr r)
    then obtain x s' where "m s = Inr (x, s')" by (cases r) simp
    with assms[OF I this] show ?thesis by (simp add: p_bind_def transact_def)
  qed (simp add: p_bind_def transact_def I)
qed

subsection \<open>Successful runs\<close>

lemma transact_seq_Inr: "p_seq (transact m) n s = (Inr x, s') \<longleftrightarrow> (\<exists>y t. m s = Inr (y, t) \<and> n t = (Inr x, s'))"
  by (auto simp: p_seq_def p_bind_def transact_def split: sum.splits)

lemma transact_bind_Inr: "p_bind (transact m) n s = (Inr x, s') \<longleftrightarrow> (\<exists>y t. m s = Inr (y, t) \<and> n y t = (Inr x, s'))"
  by (auto simp: p_bind_def transact_def split: sum.splits)

lemma transact_Inr: "transact m s = (Inr x, s') \<longleftrightarrow> m s = Inr (x, s')"
  by (auto simp: transact_def split: sum.splits)

lemma p_ret_Inr: "p_ret y s = (Inr x, s') \<longleftrightarrow> y = x \<and> s' = s"
  by (auto simp: p_ret_def)

lemmas p_Inr = transact_seq_Inr transact_bind_Inr transact_Inr p_ret_Inr

lemma p_keeps_run: "p_keeps I m \<Longrightarrow> I s \<Longrightarrow> m s = (r, t) \<Longrightarrow> I t"
  by (force simp: p_keeps_def)

lemma done_some: "\<not> isl (fst m) \<Longrightarrow> \<exists>r s'. m = (Inr r, s')"
  by (cases m; cases "fst m") auto

lemma done_unit: "\<not> isl (fst m) \<Longrightarrow> \<exists>s'. m = (Inr (), s')"
  by (cases m; cases "fst m") auto

end
