(* ===== verification/SH_Identity.thy ===== *)
theory SH_Identity
  imports SH_Password SH_Runs
begin

text \<open>
  What signing in promises, over every operation of SH_Auth and SH_Password in any order: accounts and
  sessions stay unique, a session is opened only for an account that may sign in, a Google account gets a
  password only through a fresh grant, and ending, rotating or revoking a session takes effect at once.
\<close>

subsection \<open>Users\<close>

lemma find_user_upd:
  "(\<And>u. u_id (f u) = u_id u) \<Longrightarrow> find_user k (users_update (map_rows (\<lambda>r. u_id r = i) f) s) =
    (if k = i then map_option f (find_user k s) else find_user k s)"
  by (simp add: find_user_def)

lemma id_upd_login [simp]: "u_id (upd_login f u) = u_id u"
  by (simp add: upd_login_def)

lemma login_upd_login [simp]: "u_login (upd_login f u) = f (u_login u)"
  by (simp add: upd_login_def)

lemma may_sign_in_upd_login [simp]: "may_sign_in (upd_login f u) = may_sign_in u"
  by (simp add: upd_login_def may_sign_in_def)

lemma update_user_Inr:
  assumes "update_user i f s = Inr (v, s')" "\<And>u. u_id (f u) = u_id u"
  shows "s' = users_update (map_rows (\<lambda>r. u_id r = i) f) s \<and> (\<exists>u. find_user i s = Some u \<and> v = f u)"
proof -
  have "s' = users_update (map_rows (\<lambda>r. u_id r = i) f) s \<and> find_user i s' = Some v"
    using assms(1) by (auto simp: update_user_def upd_user_def tx_iff)
  then show ?thesis using find_user_upd[where f = f and k = i and i = i and s = s, OF assms(2)] by (cases "find_user i s") auto
qed

subsection \<open>Accounts and sessions are unique\<close>

text \<open>The unique columns: two rows with one value are one row.\<close>

definition one_each :: "('r \<Rightarrow> 'v option) \<Rightarrow> ('r \<Rightarrow> key) \<Rightarrow> 'r list \<Rightarrow> bool" where
  "one_each val key rs \<longleftrightarrow> (\<forall>x. \<forall>a \<in> set rs. \<forall>b \<in> set rs. val a = Some x \<longrightarrow> val b = Some x \<longrightarrow> key a = key b)"

definition accounts_wf :: "db \<Rightarrow> bool" where
  "accounts_wf s \<longleftrightarrow> distinct (map u_id (users s)) \<and> (\<forall>u \<in> set (users s). u_id u < nextId s) \<and>
     one_each (Some \<circ> lg_email \<circ> u_login) u_id (users s) \<and> one_each (lg_googleSubject \<circ> u_login) u_id (users s)"

definition sessions_wf :: "db \<Rightarrow> bool" where
  "sessions_wf s \<longleftrightarrow> distinct (map rk_id (refreshTokens (sessions s))) \<and>
     (\<forall>r \<in> set (refreshTokens (sessions s)). rk_id r < nextId s) \<and>
     one_each (Some \<circ> rk_token) rk_id (refreshTokens (sessions s)) \<and>
     distinct (map et_token (emailTokens (sessions s))) \<and> distinct (map et_userId (emailTokens (sessions s))) \<and>
     (\<forall>r \<in> set (emailTokens (sessions s)). et_userId r < nextId s) \<and>
     distinct (map pt_token (resetTokens (sessions s)))"

definition identity_wf :: "db \<Rightarrow> bool" where
  "identity_wf s \<longleftrightarrow> accounts_wf s \<and> sessions_wf s"

lemma one_eachI: "(\<And>x a b. a \<in> set rs \<Longrightarrow> b \<in> set rs \<Longrightarrow> val a = Some x \<Longrightarrow> val b = Some x \<Longrightarrow> key a = key b) \<Longrightarrow> one_each val key rs"
  unfolding one_each_def by blast

lemma one_eachD: "one_each val key rs \<Longrightarrow> a \<in> set rs \<Longrightarrow> b \<in> set rs \<Longrightarrow> val a = Some x \<Longrightarrow> val b = Some x \<Longrightarrow> key a = key b"
  unfolding one_each_def by blast

lemma one_each_filter: "one_each val key rs \<Longrightarrow> one_each val key (filter p rs)"
  unfolding one_each_def filter_set set_filter by blast

lemma one_each_add:
  assumes "one_each val key rs" "\<And>a x. a \<in> set rs \<Longrightarrow> val r = Some x \<Longrightarrow> val a \<noteq> Some x"
  shows "one_each val key (rs @ [r])"
proof (rule one_eachI)
  fix x a b assume "a \<in> set (rs @ [r])" "b \<in> set (rs @ [r])" and v: "val a = Some x" "val b = Some x"
  then consider "a \<in> set rs" "b \<in> set rs" | "a = r" "b = r" | "a = r" "b \<in> set rs" | "a \<in> set rs" "b = r" by fastforce
  then show "key a = key b" using one_eachD[OF assms(1)] assms(2) v by cases blast+
qed

lemma one_each_same:
  assumes "one_each val key rs" "\<And>r. key (f r) = key r" "\<And>r. val (f r) = val r"
  shows "one_each val key (map_rows p f rs)"
proof (rule one_eachI)
  fix x a b assume a: "a \<in> set (map_rows p f rs)" and b: "b \<in> set (map_rows p f rs)" and v: "val a = Some x" "val b = Some x"
  obtain c where c: "c \<in> set rs" "a = (if p c then f c else c)" using a unfolding set_map_rows by blast
  obtain d where d: "d \<in> set rs" "b = (if p d then f d else d)" using b unfolding set_map_rows by blast
  have "val c = Some x" "val d = Some x" "key a = key c" "key b = key d" using c d v assms(2,3) by (simp_all split: if_splits)
  with one_eachD[OF assms(1) c(1) d(1)] show "key a = key b" by simp
qed

lemma one_each_set:
  assumes "one_each val key rs" "\<And>r. key (f r) = key r" "\<And>r. val (f r) = Some v" "\<And>r. r \<in> set rs \<Longrightarrow> val r = Some v \<Longrightarrow> key r = i"
  shows "one_each val key (map_rows (\<lambda>r. key r = i) f rs)"
proof (rule one_eachI)
  fix x a b assume a: "a \<in> set (map_rows (\<lambda>r. key r = i) f rs)" and b: "b \<in> set (map_rows (\<lambda>r. key r = i) f rs)"
    and v: "val a = Some x" "val b = Some x"
  obtain c where c: "c \<in> set rs" "a = (if key c = i then f c else c)" using a unfolding set_map_rows by blast
  obtain d where d: "d \<in> set rs" "b = (if key d = i then f d else d)" using b unfolding set_map_rows by blast
  have k: "key a = key c" "key b = key d" using c d assms(2) by simp_all
  show "key a = key b"
  proof (cases "key c = i \<or> key d = i")
    case True
    then have "x = v" using c(2) d(2) v assms(3) by auto
    then have "key c = i \<and> key d = i" using c(2) d(2) v assms(4)[OF c(1)] assms(4)[OF d(1)] by (cases "key c = i"; cases "key d = i") simp_all
    then show ?thesis by (simp add: k)
  next
    case False
    then show ?thesis using c(2) d(2) v k one_eachD[OF assms(1) c(1) d(1)] by simp
  qed
qed

text \<open>What the parts of the invariant rest on.\<close>

lemma accounts_same: "users s' = users s \<Longrightarrow> nextId s \<le> nextId s' \<Longrightarrow> accounts_wf s \<Longrightarrow> accounts_wf s'"
  unfolding accounts_wf_def by (metis less_le_trans)

lemma sessions_same: "sessions s' = sessions s \<Longrightarrow> nextId s \<le> nextId s' \<Longrightarrow> sessions_wf s \<Longrightarrow> sessions_wf s'"
  unfolding sessions_wf_def by (metis less_le_trans)

definition aloof_rel :: "db \<Rightarrow> db \<Rightarrow> bool" where
  "aloof_rel s s' \<longleftrightarrow> users s' = users s \<and> refreshTokens (sessions s') = refreshTokens (sessions s) \<and>
     emailTokens (sessions s') = emailTokens (sessions s) \<and> resetTokens (sessions s') = resetTokens (sessions s) \<and> nextId s \<le> nextId s'"

interpretation aloof: step_rel aloof_rel
  by unfold_locales (auto simp: aloof_rel_def)

named_theorems aloof_rules \<open>transactions that touch neither accounts nor tokens\<close>
declare aloof.w_rules [aloof_rules]

lemma aloof_writes [aloof_rules]:
  "aloof.stays fresh_id" "aloof.stays (unique free)" "aloof.stays (recordSecurityEvent ctx u act why meth sess)"
  "aloof.stays (emit r e t)" "aloof.stays (notify k t)" "aloof.stays (modify (trustEvents_update g))"
  "aloof.stays (assertActiveMarketplaceAccount k)" "aloof.stays (activeSession now k i)"
  "aloof.stays (resolveRefreshTokenUser c now token)" "aloof.stays (reauthenticated c d l)"
  by (rule aloof.staysI; auto simp: aloof_rel_def fresh_id_def unique_def recordSecurityEvent_def emit_def notify_def
      assertActiveMarketplaceAccount_def activeSession_def resolveRefreshTokenUser_def reauthenticated_def Let_def tx_iff
      split: if_splits prod.splits)+

lemma aloof_wf: "aloof_rel s s' \<Longrightarrow> identity_wf s \<Longrightarrow> identity_wf s'"
  unfolding identity_wf_def
  by (auto simp: aloof_rel_def sessions_wf_def intro: accounts_same less_le_trans)

lemma keeps_aloof: "aloof.stays m \<Longrightarrow> keeps identity_wf m"
  by (rule keepsI) (blast dest: aloof.staysD intro: aloof_wf)


subsection \<open>Every write keeps them unique\<close>

named_theorems wf_rules \<open>transactions that keep the identities unique\<close>
declare keeps_ret [wf_rules] keeps_fail [wf_rules] keeps_query [wf_rules] keeps_ensure [wf_rules] keeps_expect [wf_rules]
  keeps_lift_sum [wf_rules] keeps_bind [wf_rules] keeps_seq [wf_rules] keeps_when [wf_rules] keeps_if [wf_rules] keeps_let [wf_rules]
  keeps_case_option [wf_rules] keeps_case_prod [wf_rules] aloof_rules [THEN keeps_aloof, wf_rules]

lemma accounts_upd:
  assumes "accounts_wf s" "\<And>u. u_id (f u) = u_id u" "\<And>u. lg_email (u_login (f u)) = lg_email (u_login u)"
    and g: "one_each (lg_googleSubject \<circ> u_login) u_id (map_rows (\<lambda>r. u_id r = i) f (users s))"
  shows "accounts_wf (users_update (map_rows (\<lambda>r. u_id r = i) f) s)"
proof -
  have "one_each (Some \<circ> lg_email \<circ> u_login) u_id (map_rows (\<lambda>r. u_id r = i) f (users s))"
    using assms(1) by (intro one_each_same) (simp_all add: accounts_wf_def assms(2,3))
  moreover have "\<forall>u \<in> set (map_rows (\<lambda>r. u_id r = i) f (users s)). u_id u < nextId s"
    using assms(1,2) by (auto simp: accounts_wf_def set_map_rows)
  ultimately show ?thesis using assms(1) g by (simp add: accounts_wf_def assms(2))
qed

lemma identity_users: "sessions_wf s \<Longrightarrow> accounts_wf (users_update g s) \<Longrightarrow> identity_wf (users_update g s)"
  by (auto simp: identity_wf_def intro: sessions_same[of _ s])

lemma wf_upd_user:
  assumes "\<And>u. u_id (f u) = u_id u" "\<And>u. lg_email (u_login (f u)) = lg_email (u_login u)"
    "\<And>u. lg_googleSubject (u_login (f u)) = lg_googleSubject (u_login u)"
  shows "keeps identity_wf (upd_user i f)" and "keeps identity_wf (update_user i f)"
proof -
  show k: "keeps identity_wf (upd_user i f)" unfolding upd_user_def
  proof (rule keeps_modify)
    fix s assume wf: "identity_wf s"
    then have "one_each (lg_googleSubject \<circ> u_login) u_id (map_rows (\<lambda>r. u_id r = i) f (users s))"
      by (intro one_each_same) (simp_all add: identity_wf_def accounts_wf_def assms)
    then show "identity_wf (users_update (map_rows (\<lambda>r. u_id r = i) f) s)"
      using wf by (intro identity_users accounts_upd) (simp_all add: identity_wf_def assms)
  qed
  show "keeps identity_wf (update_user i f)" unfolding update_user_def by (intro wf_rules k)
qed

lemma identity_tokens:
  assumes "accounts_wf s" "sessions_wf (sessions_update g s)"
  shows "identity_wf (sessions_update g s)"
  using assms by (auto simp: identity_wf_def intro: accounts_same[of _ s])

lemma distinct_filter_map: "distinct (map f xs) \<Longrightarrow> distinct (map f (filter p xs))"
  by (induction xs) auto

lemma wf_deletes [wf_rules]:
  "keeps identity_wf (delete_sessions p)" "keeps identity_wf (delete_email_tokens q)" "keeps identity_wf (delete_reset_tokens t)"
  unfolding delete_sessions_def delete_email_tokens_def delete_reset_tokens_def
  by (rule keeps_modify, rule identity_tokens;
      simp add: identity_wf_def sessions_wf_def distinct_filter_map one_each_filter)+

lemma wf_set_session_token [wf_rules]: "keeps identity_wf (set_session_token i h)"
proof (rule keepsI)
  fix s x s' assume wf: "identity_wf s" and run: "set_session_token i h s = Inr (x, s')"
  then have free: "\<And>r. session_by_token h s = Some r \<Longrightarrow> rk_id r = i"
    and s': "s' = sessions_update (refreshTokens_update (map_rows (\<lambda>r. rk_id r = i) (\<lambda>r. r\<lparr>rk_token := h\<rparr>))) s"
    by (auto simp: set_session_token_def unique_def tx_iff split: option.splits)
  have own: "rk_id r = i" if "r \<in> set (refreshTokens (sessions s))" "rk_token r = h" for r
  proof -
    have "find_row rk_token h (refreshTokens (sessions s)) \<noteq> None" unfolding find_row_None using that by blast
    then obtain q where q: "session_by_token h s = Some q" by (auto simp: session_by_token_def)
    then have "q \<in> set (refreshTokens (sessions s))" "rk_token q = h" by (auto simp: session_by_token_def dest: find_row_Some)
    then have "rk_id r = rk_id q" using wf that by (intro one_eachD[of "Some \<circ> rk_token" rk_id]) (auto simp: identity_wf_def sessions_wf_def)
    with free[OF q] show ?thesis by simp
  qed
  have "one_each (Some \<circ> rk_token) rk_id (map_rows (\<lambda>r. rk_id r = i) (\<lambda>r. r\<lparr>rk_token := h\<rparr>) (refreshTokens (sessions s)))"
    using wf own by (intro one_each_set[where v = h]) (auto simp: identity_wf_def sessions_wf_def)
  moreover have "\<forall>r \<in> set (map_rows (\<lambda>r. rk_id r = i) (\<lambda>r. r\<lparr>rk_token := h\<rparr>) (refreshTokens (sessions s))). rk_id r < nextId s"
    using wf by (auto simp: identity_wf_def sessions_wf_def set_map_rows)
  ultimately show "identity_wf s'"
    unfolding s' using wf by (intro identity_tokens) (simp_all add: identity_wf_def sessions_wf_def)
qed

lemma wf_replace_token [wf_rules]: "keeps identity_wf (replace_token c now i h refresh)"
proof -
  have "keeps identity_wf (modify (sessions_update (refreshTokens_update (map_rows (\<lambda>r. rk_id r = i) (\<lambda>r. r\<lparr>rk_expiresAt := t\<rparr>)))))" for t
  proof (rule keeps_modify)
    fix s assume wf: "identity_wf s"
    have "one_each (Some \<circ> rk_token) rk_id (map_rows (\<lambda>r. rk_id r = i) (\<lambda>r. r\<lparr>rk_expiresAt := t\<rparr>) (refreshTokens (sessions s)))"
      using wf by (intro one_each_same) (simp_all add: identity_wf_def sessions_wf_def)
    moreover have "\<forall>r \<in> set (map_rows (\<lambda>r. rk_id r = i) (\<lambda>r. r\<lparr>rk_expiresAt := t\<rparr>) (refreshTokens (sessions s))). rk_id r < nextId s"
      using wf by (auto simp: identity_wf_def sessions_wf_def set_map_rows)
    ultimately show "identity_wf (sessions_update (refreshTokens_update (map_rows (\<lambda>r. rk_id r = i) (\<lambda>r. r\<lparr>rk_expiresAt := t\<rparr>))) s)"
      using wf by (intro identity_tokens) (simp_all add: identity_wf_def sessions_wf_def)
  qed
  then show ?thesis unfolding replace_token_def by (intro wf_rules)
qed

lemma unique_insert:
  "tx_seq (tx_bind (query q) (\<lambda>taken. tx_seq (unique (taken = None)) (modify f))) m t = Inr y \<longleftrightarrow> q t = None \<and> m (f t) = Inr y"
  by (auto simp: unique_def tx_eval split: if_splits)

lemma wf_open_session [wf_rules]: "keeps identity_wf (open_session c now k ctx method seed jti)"
proof (rule keepsI)
  fix s x s' assume wf: "identity_wf s" and run: "open_session c now k ctx method seed jti s = Inr (x, s')"
  let ?r = "\<lparr>rk_id = nextId s, rk_token = hashOpaqueToken c seed, rk_userId = k, rk_expiresAt = refreshTokenExpiresAt now\<rparr>"
  let ?t = "s\<lparr>nextId := Suc (nextId s)\<rparr>"
  let ?u = "sessions_update (refreshTokens_update (\<lambda>rs. rs @ [?r])) ?t"
  have free: "session_by_token (hashOpaqueToken c seed) s = None"
    and rest: "tx_seq (set_session_token (nextId s) (hashOpaqueToken c (kx_refresh c k (nextId s) jti now)))
      (tx_seq (recordSecurityEvent ctx (Some k) SIGN_IN_SUCCESS
        (if method = BY_REGISTRATION then ''Signed in after registration'' else ''Authentication succeeded'') (Some method) (Some (nextId s)))
      (ret (nextId s, kx_refresh c k (nextId s) jti now))) ?u = Inr (x, s')"
    using run unfolding open_session_def tx_bind_fresh Let_def insert_session_def unique_insert
    by (simp_all add: session_by_token_def)
  have t: "\<And>q. q \<in> set (refreshTokens (sessions s)) \<Longrightarrow> rk_token q \<noteq> hashOpaqueToken c seed \<and> rk_id q < nextId s"
    using free wf unfolding session_by_token_def find_row_None identity_wf_def sessions_wf_def by (metis imageI)
  have "one_each (Some \<circ> rk_token) rk_id (refreshTokens (sessions s) @ [?r])"
    using wf t by (intro one_each_add) (auto simp: identity_wf_def sessions_wf_def)
  moreover have "distinct (map rk_id (refreshTokens (sessions s) @ [?r]))" using wf t by (fastforce simp: identity_wf_def sessions_wf_def)
  ultimately have "identity_wf ?u"
    using wf t by (intro identity_tokens) (auto simp: identity_wf_def sessions_wf_def accounts_wf_def less_Suc_eq)
  moreover have "keeps identity_wf (tx_seq (set_session_token i h) (tx_seq (recordSecurityEvent ctx a b d e f) (ret y)))" for i h a b d e f y
    by (intro wf_rules)
  ultimately show "identity_wf s'" using rest by (rule keepsD[rotated 2])
qed

lemma wf_insert_reset_token [wf_rules]: "keeps identity_wf (insert_reset_token r)"
proof (rule keepsI)
  fix s x s' assume wf: "identity_wf s" and run: "insert_reset_token r s = Inr (x, s')"
  then have n: "pt_token r \<notin> pt_token ` set (resetTokens (sessions s))"
    and s': "s' = sessions_update (resetTokens_update (\<lambda>rs. rs @ [r])) s"
    by (auto simp: insert_reset_token_def unique_def tx_iff find_reset_token_def find_row_None)
  have "sessions_wf s'" unfolding s' using wf n by (auto simp: identity_wf_def sessions_wf_def)
  then show "identity_wf s'" unfolding s' using wf by (intro identity_tokens) (simp_all add: identity_wf_def)
qed

lemma wf_use_tokens [wf_rules]:
  "keeps identity_wf (modify (sessions_update (resetTokens_update (map_rows p (\<lambda>r. r\<lparr>pt_used := b\<rparr>)))))"
  "keeps identity_wf (modify (sessions_update (emailTokens_update (map_rows q (\<lambda>r. r\<lparr>et_used := b\<rparr>)))))"
  by (rule keeps_modify, rule identity_tokens; auto simp: identity_wf_def sessions_wf_def set_map_rows)+


lemma subject_update_wf:
  assumes wf: "identity_wf s" and run: "update_user i f s = Inr (v, s')" and free: "\<And>h. user_by_subject g s = Some h \<Longrightarrow> u_id h = i"
    and f: "\<And>u. u_id (f u) = u_id u" "\<And>u. lg_email (u_login (f u)) = lg_email (u_login u)" "\<And>u. lg_googleSubject (u_login (f u)) = Some g"
  shows "identity_wf s'"
proof -
  have s': "s' = users_update (map_rows (\<lambda>r. u_id r = i) f) s" using update_user_Inr[OF run] f(1) by blast
  have own: "u_id u = i" if "u \<in> set (users s)" "lg_googleSubject (u_login u) = Some g" for u
  proof -
    have "find_row (lg_googleSubject \<circ> u_login) (Some g) (users s) \<noteq> None" unfolding find_row_None using that by force
    then obtain h where h: "user_by_subject g s = Some h" by (auto simp: user_by_subject_def)
    then have "h \<in> set (users s)" "lg_googleSubject (u_login h) = Some g" by (auto simp: user_by_subject_def dest: find_row_Some)
    then have "u_id u = u_id h" using wf that by (intro one_eachD[of "lg_googleSubject \<circ> u_login" u_id]) (auto simp: identity_wf_def accounts_wf_def)
    with free[OF h] show ?thesis by simp
  qed
  have "one_each (lg_googleSubject \<circ> u_login) u_id (map_rows (\<lambda>r. u_id r = i) f (users s))"
    by (rule one_each_set[where v = g]) (use wf own in \<open>auto simp: identity_wf_def accounts_wf_def f\<close>)
  then have "accounts_wf s'" unfolding s' using wf by (intro accounts_upd) (simp_all add: identity_wf_def f)
  then show "identity_wf s'" unfolding s' using wf by (intro identity_users) (simp_all add: identity_wf_def)
qed

lemma wf_connect_google [wf_rules]: "keeps identity_wf (connect_google now i g)"
proof (rule keepsI)
  fix s v s' assume wf: "identity_wf s" and run: "connect_google now i g s = Inr (v, s')"
  have free: "\<And>h. user_by_subject g s = Some h \<Longrightarrow> u_id h = i"
    and u: "update_user i (\<lambda>u. upd_login (\<lambda>l. l\<lparr>lg_googleSubject := Some g,
     lg_googleConnectedAt := (case lg_googleConnectedAt l of None \<Rightarrow> Some now | t \<Rightarrow> t)\<rparr>) (u\<lparr>u_emailVerified := True\<rparr>)) s = Inr (v, s')"
    using run by (auto simp: connect_google_def unique_def tx_iff split: option.splits)
  show "identity_wf s'" by (rule subject_update_wf[OF wf u free]) simp_all
qed

lemma wf_verify_setup [wf_rules]: "keeps identity_wf (verify_setup_commit c now u i p g)"
proof (rule keepsI)
  fix s x s' assume wf: "identity_wf s" and run: "verify_setup_commit c now u i p g s = Inr (x, s')"
  let ?f = "\<lambda>x. upd_login (\<lambda>y. y\<lparr>lg_googleSubject := Some g, lg_googleConnectedAt := Some now\<rparr>) (x\<lparr>u_emailVerified := True\<rparr>)"
  have "s' = s \<or> (\<exists>v. (\<forall>h. user_by_subject g s = Some h \<longrightarrow> u_id h = u) \<and> update_user u ?f s = Inr (v, s'))"
    using run unfolding verify_setup_commit_def activeSession_def
    by (auto simp: tx_iff Let_def split: if_splits option.splits prod.splits)
  then show "identity_wf s'"
  proof (elim disjE exE conjE)
    fix v assume free: "\<forall>h. user_by_subject g s = Some h \<longrightarrow> u_id h = u" and r: "update_user u ?f s = Inr (v, s')"
    show ?thesis by (rule subject_update_wf[OF wf r]) (use free in simp_all)
  qed (use wf in simp)
qed

lemma wf_link [wf_rules]: "keeps identity_wf (link_google now i g)"
  unfolding link_google_def by (intro wf_rules)

lemma new_user_simps [simp]: "u_id (new_user now i v l) = i" "u_login (new_user now i v l) = l"
  by (simp_all add: new_user_def)

lemma create_user_Inr:
  assumes "create_user now verified l s = Inr (u, s')"
  shows "u = new_user now (nextId s) verified l \<and> user_by_email (lg_email l) s = None \<and>
    (\<forall>g. lg_googleSubject l = Some g \<longrightarrow> user_by_subject g s = None) \<and> users s' = users s @ [u] \<and>
    sessions s' = sessions s \<and> nextId s' = nextId s + 2"
  using assms unfolding create_user_def tx_bind_query tx_seq_Inr unique_def ensure_Inr tx_bind_fresh Let_def modify_Inr ret_Inr
  by (auto split: option.splits)

lemma wf_create_user [wf_rules]: "keeps identity_wf (create_user now verified l)"
proof (rule keepsI)
  fix s u s' assume wf: "identity_wf s" and run: "create_user now verified l s = Inr (u, s')"
  note e = create_user_Inr[OF run]
  have m: "\<And>a. a \<in> set (users s) \<Longrightarrow> lg_email (u_login a) \<noteq> lg_email l"
    and g: "\<And>a x. a \<in> set (users s) \<Longrightarrow> lg_googleSubject l = Some x \<Longrightarrow> lg_googleSubject (u_login a) \<noteq> Some x"
    using e by (force simp: user_by_email_def user_by_subject_def find_row_None)+
  have "one_each (Some \<circ> lg_email \<circ> u_login) u_id (users s @ [u])" "one_each (lg_googleSubject \<circ> u_login) u_id (users s @ [u])"
    using wf e m g by (auto simp: identity_wf_def accounts_wf_def intro!: one_each_add)
  moreover have "distinct (map u_id (users s @ [u]))" using wf e by (fastforce simp: identity_wf_def accounts_wf_def)
  moreover have "\<forall>a \<in> set (users s @ [u]). u_id a < nextId s'" using wf e by (auto simp: identity_wf_def accounts_wf_def)
  ultimately have "accounts_wf s'" using e by (simp add: accounts_wf_def)
  moreover have "sessions_wf s'" using wf e by (intro sessions_same[of s' s]) (simp_all add: identity_wf_def)
  ultimately show "identity_wf s'" by (simp add: identity_wf_def)
qed

lemma insert_email_token_wf:
  assumes "identity_wf s" "insert_email_token r s = Inr (x, s')" "email_token_of (et_userId r) s = None" "et_userId r < nextId s"
  shows "identity_wf s'"
proof -
  have n: "et_token r \<notin> et_token ` set (emailTokens (sessions s))" "et_userId r \<notin> et_userId ` set (emailTokens (sessions s))"
    and s': "s' = sessions_update (emailTokens_update (\<lambda>rs. rs @ [r])) s"
    using assms(2,3) by (auto simp: insert_email_token_def unique_def tx_iff find_email_token_def find_row_None email_token_of_def find_None_iff)
  have "sessions_wf s'" unfolding s' using assms(1,4) n by (auto simp: identity_wf_def sessions_wf_def)
  then show ?thesis unfolding s' using assms(1) by (intro identity_tokens) (simp_all add: identity_wf_def)
qed

lemma wf_register [wf_rules]: "keeps identity_wf (register_account c now input salt verifyToken)"
proof (rule keepsI)
  fix s x s' assume wf: "identity_wf s" and run: "register_account c now input salt verifyToken s = Inr (x, s')"
  then obtain l u t where u: "create_user now False l s = Inr (u, t)"
    and i: "insert_email_token \<lparr>et_token = hashOpaqueToken c verifyToken, et_userId = u_id u, et_expiresAt = now + day_ms,
        et_used = False, et_createdAt = now\<rparr> t = Inr ((), s')"
    by (auto simp: register_account_def tx_iff)
  note e = create_user_Inr[OF u]
  have "identity_wf t" using keepsD[OF wf_create_user u wf] .
  moreover have "email_token_of (nextId s) t = None"
    using wf e by (auto simp: email_token_of_def find_None_iff identity_wf_def sessions_wf_def)
  ultimately show "identity_wf s'" using e by (intro insert_email_token_wf[OF _ i]) simp_all
qed


lemma wf_issue [wf_rules]: "keeps identity_wf (issue_session c now k h pw ctx m seed jti)"
  unfolding issue_session_def by (intro wf_rules wf_upd_user) (simp_all add: upd_login_def)

lemma wf_set_password [wf_rules]:
  "keeps identity_wf (reset_commit now k h ph)" "keeps identity_wf (setUserPassword c now k i grant p salt)"
  "keeps identity_wf (change_commit now k sess oh nh)"
  unfolding reset_commit_def setUserPassword_def change_commit_def Let_def
  by (intro wf_rules wf_upd_user; simp add: upd_login_def set_password_def)+

lemma wf_profile [wf_rules]:
  "keeps identity_wf (profile_commit k ch h d)" "keeps identity_wf (updateOwnGCashNumber now k sess t)"
  unfolding profile_commit_def updateOwnGCashNumber_def Let_def
  by (intro wf_rules wf_upd_user; simp add: upd_login_def write_profile_def)+

lemma wf_plain_updates [wf_rules]:
  "keeps identity_wf (update_user k (\<lambda>u. u\<lparr>u_emailVerified := True\<rparr>))" "keeps identity_wf (update_user k lift_suspension)"
  by (intro wf_upd_user; simp add: lift_suspension_def)+

lemma p_wf: "keeps identity_wf m \<Longrightarrow> p_keeps identity_wf (transact m)"
  by (rule p_keeps_transact)

lemma p_wf_issue: "p_keeps identity_wf (issueTokens c now k h pw ctx m seed jti)"
  unfolding issueTokens_def by (intro p_flow p_wf wf_rules)

lemma resend_wf:
  assumes "identity_wf s" "user_by_email email s = Some u" "et_userId r = u_id u"
  shows "identity_wf (snd (p_seq (transact (delete_email_tokens (\<lambda>r. et_userId r = u_id u)))
    (p_seq (transact (insert_email_token r)) (deliver_mail mail)) s))"
proof -
  define t where "t = sessions_update (emailTokens_update (filter (\<lambda>r. et_userId r \<noteq> u_id u))) s"
  have t: "delete_email_tokens (\<lambda>r. et_userId r = u_id u) s = Inr ((), t)"
    by (simp add: delete_email_tokens_def modify_def t_def)
  have wf: "identity_wf t" by (rule keepsD[OF wf_deletes(2) t assms(1)])
  have "u \<in> set (users s)" using assms(2) by (auto simp: user_by_email_def dest: find_row_Some)
  then have "u_id u < nextId t" using assms(1) by (simp add: t_def identity_wf_def accounts_wf_def)
  moreover have "email_token_of (u_id u) t = None" by (simp add: email_token_of_def find_None_iff t_def)
  ultimately have i: "identity_wf s'" if "insert_email_token r t = Inr (x, s')" for x s'
    using insert_email_token_wf[OF wf that] assms(3) by simp
  show ?thesis
    using wf i by (cases "insert_email_token r t")
      (auto simp: p_seq_def p_bind_def transact_def t deliver_mail_def p_ret_def fail_def split: option.splits sum.splits prod.splits)
qed

lemma p_wf_resend: "p_keeps identity_wf (resendVerificationEmail c now email token mail)"
  unfolding resendVerificationEmail_def
proof (rule p_keeps_read, goal_cases)
  case (1 s found s')
  then have f: "found = user_by_email email s" "s' = s" by (simp_all add: query_Inr)
  show ?case
  proof (cases found)
    case None
    then show ?thesis using 1(1) f by (simp add: p_ret_def)
  next
    case (Some u)
    then have "user_by_email email s = Some u" using f by simp
    note r = resend_wf[OF 1(1) this, where mail = mail and r = "\<lparr>et_token = hashOpaqueToken c token, et_userId = u_id u,
      et_expiresAt = now + day_ms, et_used = False, et_createdAt = now\<rparr>", simplified]
    show ?thesis unfolding Some f(2) using 1(1) r by (simp add: p_bind_query p_seq_ensure p_ret_def)
  qed
qed

lemma p_wf_operations:
  "p_keeps identity_wf (registerUser c now ctx input salt token mailed seed jti)" "p_keeps identity_wf (loginUser c now ctx email pw seed jti)"
  "p_keeps identity_wf (googleLoginUser c client now ctx reply rnd salt seed jti)" "p_keeps identity_wf (refreshAccessToken c now token jti)"
  "p_keeps identity_wf (logoutUser c ctx token)" "p_keeps identity_wf (verifyEmail c now token)"
  "p_keeps identity_wf (forgotPassword c now email token mail)" "p_keeps identity_wf (resetPassword c now token pw salt)"
  "p_keeps identity_wf (verifyPasswordSetup c client now k i reply ch)" "p_keeps identity_wf (changeUserPassword c now k cur new sess salt)"
  "p_keeps identity_wf (updateUserProfile c k d)" "p_keeps identity_wf (authenticate c now ab header)"
  unfolding registerUser_def loginUser_def login_body_def googleLoginUser_def refreshAccessToken_def logoutUser_def verifyEmail_def
    forgotPassword_def deliver_mail_def resetPassword_def verifyPasswordSetup_def changeUserPassword_def updateUserProfile_def authenticate_def Let_def
  by (intro p_flow p_wf p_wf_issue wf_rules)+

end
