(* ===== verification/SH_SignIn.thy ===== *)
theory SH_SignIn
  imports SH_Identity
begin

text \<open>
  The operations of signing in as one state machine, and what it guarantees. The rule \<open>elsewhere\<close> stands for
  the other services: they neither write the columns of signing in nor touch a session.
\<close>

inductive auth_step :: "crypto \<Rightarrow> string option \<Rightarrow> db \<Rightarrow> db \<Rightarrow> bool" for c client where
  registerUser: "auth_step c client s (snd (registerUser c now ctx input salt token mailed seed jti s))"
| loginUser: "auth_step c client s (snd (loginUser c now ctx email pw seed jti s))"
| googleLoginUser: "auth_step c client s (snd (googleLoginUser c client now ctx reply rnd salt seed jti s))"
| recoverSession: "auth_step c client s (snd (transact (recoverSession c now token) s))"
| refreshAccessToken: "auth_step c client s (snd (refreshAccessToken c now token jti s))"
| logoutUser: "auth_step c client s (snd (logoutUser c ctx token s))"
| verifyEmail: "auth_step c client s (snd (verifyEmail c now token s))"
| resendVerificationEmail: "auth_step c client s (snd (resendVerificationEmail c now email token mail s))"
| forgotPassword: "auth_step c client s (snd (forgotPassword c now email token mail s))"
| resetPassword: "auth_step c client s (snd (resetPassword c now token pw salt s))"
| startPasswordSetup: "auth_step c client s (snd (transact (startPasswordSetup c client now k i nonce) s))"
| verifyPasswordSetup: "auth_step c client s (snd (verifyPasswordSetup c client now k i reply challenge s))"
| setUserPassword: "auth_step c client s (snd (transact (setUserPassword c now k i grant pw salt) s))"
| changeUserPassword: "auth_step c client s (snd (changeUserPassword c now k old new sess salt s))"
| updateUserProfile: "auth_step c client s (snd (updateUserProfile c k d s))"
| updateOwnGCashNumber: "auth_step c client s (snd (transact (updateOwnGCashNumber now k sess number) s))"
| authenticate: "auth_step c client s (snd (authenticate c now allowBanned header s))"
| elsewhere: "map u_id (users s') = map u_id (users s) \<Longrightarrow> map u_login (users s') = map u_login (users s) \<Longrightarrow>
    sessions s' = sessions s \<Longrightarrow> nextId s \<le> nextId s' \<Longrightarrow> auth_step c client s s'"

inductive_cases auth_stepE: "auth_step c client s s'"

lemma p_keepsD': "p_keeps I m \<Longrightarrow> I s \<Longrightarrow> I (snd (m s))"
  by (simp add: p_keeps_def)

lemma wf_reads [wf_rules]:
  "keeps identity_wf (recoverSession c now token)" "keeps identity_wf (startPasswordSetup c client now k i nonce)"
  unfolding recoverSession_def startPasswordSetup_def Let_def by (intro wf_rules)+

lemma one_each_map: "map key rs' = map key rs \<Longrightarrow> map val rs' = map val rs \<Longrightarrow> one_each val key rs \<Longrightarrow> one_each val key rs'"
proof (rule one_eachI)
  fix x a b
  assume m: "map key rs' = map key rs" "map val rs' = map val rs" and o: "one_each val key rs"
    and a: "a \<in> set rs'" "val a = Some x" and b: "b \<in> set rs'" "val b = Some x"
  have len: "length rs' = length rs" using m(1) by (rule map_eq_imp_length_eq)
  obtain i where i: "i < length rs'" "a = rs' ! i" using a(1) by (metis in_set_conv_nth)
  obtain j where j: "j < length rs'" "b = rs' ! j" using b(1) by (metis in_set_conv_nth)
  have k: "key (rs' ! n) = key (rs ! n)" "val (rs' ! n) = val (rs ! n)" if "n < length rs'" for n
    using m len that by (metis nth_map)+
  have "rs ! i \<in> set rs" "rs ! j \<in> set rs" using i j len by simp_all
  with o show "key a = key b" using i j k a(2) b(2) one_eachD[of val key rs "rs ! i" "rs ! j" x] by simp
qed

lemma identity_elsewhere:
  assumes "map u_id (users s') = map u_id (users s)" "map u_login (users s') = map u_login (users s)"
    "sessions s' = sessions s" "nextId s \<le> nextId s'" "identity_wf s"
  shows "identity_wf s'"
proof -
  have v: "map (Some \<circ> lg_email \<circ> u_login) (users s') = map (Some \<circ> lg_email \<circ> u_login) (users s)"
    "map (lg_googleSubject \<circ> u_login) (users s') = map (lg_googleSubject \<circ> u_login) (users s)"
    using arg_cong[OF assms(2), of "map (Some \<circ> lg_email)"] arg_cong[OF assms(2), of "map lg_googleSubject"] by simp_all
  have "\<forall>u \<in> set (users s'). u_id u < nextId s'"
  proof
    fix u assume "u \<in> set (users s')"
    then have "u_id u \<in> set (map u_id (users s))" unfolding assms(1)[symmetric] by simp
    then show "u_id u < nextId s'" using assms(4,5) by (auto simp: identity_wf_def accounts_wf_def intro: less_le_trans)
  qed
  moreover have "one_each (Some \<circ> lg_email \<circ> u_login) u_id (users s')" "one_each (lg_googleSubject \<circ> u_login) u_id (users s')"
    using assms(5) one_each_map[OF assms(1) v(1)] one_each_map[OF assms(1) v(2)] by (simp_all add: identity_wf_def accounts_wf_def)
  ultimately have "accounts_wf s'" using assms(1,5) by (simp add: identity_wf_def accounts_wf_def)
  then show ?thesis using assms(3-5) by (auto simp: identity_wf_def intro: sessions_same[of s' s])
qed

lemma auth_step_wf: "auth_step c client s s' \<Longrightarrow> identity_wf s \<Longrightarrow> identity_wf s'"
proof (induction rule: auth_step.induct)
  case (elsewhere s' s)
  then show ?case by (blast intro: identity_elsewhere)
qed (rule p_keepsD', rule p_wf_operations p_wf_resend p_wf wf_rules, (rule wf_rules)?, assumption)+


subsection \<open>Sessions are opened only for accounts that may sign in\<close>

definition gate_rel :: "db \<Rightarrow> db \<Rightarrow> bool" where
  "gate_rel s s' \<longleftrightarrow> (\<forall>k u. find_user k s = Some u \<longrightarrow> (\<exists>v. find_user k s' = Some v \<and> (may_sign_in u \<longrightarrow> may_sign_in v))) \<and>
     (\<forall>r \<in> set (refreshTokens (sessions s')).
        (\<exists>q \<in> set (refreshTokens (sessions s)). rk_id q = rk_id r \<and> rk_userId q = rk_userId r) \<or>
        (\<exists>u. find_user (rk_userId r) s' = Some u \<and> may_sign_in u))"

lemma gate_relI:
  assumes "\<And>k u. find_user k s = Some u \<Longrightarrow> \<exists>v. find_user k s' = Some v \<and> (may_sign_in u \<longrightarrow> may_sign_in v)"
    "\<And>r. r \<in> set (refreshTokens (sessions s')) \<Longrightarrow> (\<exists>q \<in> set (refreshTokens (sessions s)). rk_id q = rk_id r \<and> rk_userId q = rk_userId r) \<or>
        (\<exists>u. find_user (rk_userId r) s' = Some u \<and> may_sign_in u)"
  shows "gate_rel s s'"
  using assms unfolding gate_rel_def by blast

interpretation gate: step_rel gate_rel
proof unfold_locales
  show "gate_rel s s" for s unfolding gate_rel_def by blast
  fix s t u assume st: "gate_rel s t" and tu: "gate_rel t u"
  show "gate_rel s u"
  proof (rule gate_relI)
    fix k x assume "find_user k s = Some x"
    with st tu show "\<exists>v. find_user k u = Some v \<and> (may_sign_in x \<longrightarrow> may_sign_in v)" unfolding gate_rel_def by meson
  next
    fix r assume "r \<in> set (refreshTokens (sessions u))"
    with tu consider q where "q \<in> set (refreshTokens (sessions t))" "rk_id q = rk_id r" "rk_userId q = rk_userId r"
      | v where "find_user (rk_userId r) u = Some v" "may_sign_in v" unfolding gate_rel_def by blast
    then show "(\<exists>q \<in> set (refreshTokens (sessions s)). rk_id q = rk_id r \<and> rk_userId q = rk_userId r) \<or>
        (\<exists>v. find_user (rk_userId r) u = Some v \<and> may_sign_in v)"
    proof cases
      case (1 q)
      then show ?thesis using st tu unfolding gate_rel_def by (metis (no_types, lifting))
    qed blast
  qed
qed

named_theorems gate_rules \<open>transactions that open no session for a closed account\<close>
declare gate.w_rules [gate_rules]

lemma gate_same:
  assumes "users s' = users s" "\<And>r. r \<in> set (refreshTokens (sessions s')) \<Longrightarrow>
    \<exists>q \<in> set (refreshTokens (sessions s)). rk_id q = rk_id r \<and> rk_userId q = rk_userId r"
  shows "gate_rel s s'"
  by (rule gate_relI) (use assms in \<open>auto simp: find_user_def\<close>)

lemma gate_aloof: "aloof.stays m \<Longrightarrow> gate.stays m"
  by (rule gate.staysI, drule aloof.staysD, assumption, rule gate_same) (auto simp: aloof_rel_def)

lemmas gate_aloofs [gate_rules] = aloof_rules [THEN gate_aloof]

lemma gate_users:
  assumes "\<And>u. u_id (f u) = u_id u" "\<And>u. may_sign_in u \<Longrightarrow> may_sign_in (f u)"
  shows "gate.stays (upd_user i f)" and "gate.stays (update_user i f)"
proof -
  show k: "gate.stays (upd_user i f)"
  proof (rule gate.staysI)
    fix s x s' assume "upd_user i f s = Inr (x, s')"
    then have s': "s' = users_update (map_rows (\<lambda>r. u_id r = i) f) s" by (simp add: upd_user_def modify_Inr)
    then have u: "find_user k s' = (if k = i then map_option f (find_user k s) else find_user k s)" for k
      by (simp add: find_user_upd assms(1))
    show "gate_rel s s'"
    proof (rule gate_relI)
      fix k u assume "find_user k s = Some u"
      then show "\<exists>v. find_user k s' = Some v \<and> (may_sign_in u \<longrightarrow> may_sign_in v)" using u[of k] assms(2) by auto
    qed (auto simp: s')
  qed
  show "gate.stays (update_user i f)" unfolding update_user_def by (intro gate_rules k)
qed

lemma gate_writes [gate_rules]:
  "gate.stays (delete_sessions p)" "gate.stays (delete_email_tokens q)" "gate.stays (delete_reset_tokens t)"
  "gate.stays (insert_reset_token r)" "gate.stays (insert_email_token e)" "gate.stays (set_session_token i h)"
  "gate.stays (modify (sessions_update (resetTokens_update g)))" "gate.stays (modify (sessions_update (emailTokens_update g2)))"
  "gate.stays (modify (sessions_update (refreshTokens_update (map_rows (\<lambda>r. rk_id r = i) (\<lambda>r. r\<lparr>rk_expiresAt := x\<rparr>)))))"
  by (rule gate.staysI, rule gate_same; auto simp: delete_sessions_def delete_email_tokens_def delete_reset_tokens_def insert_reset_token_def
      insert_email_token_def set_session_token_def unique_def tx_iff set_map_rows split: option.splits)+

lemma gate_create_user [gate_rules]: "gate.stays (create_user now v l)"
proof (rule gate.staysI)
  fix s u s' assume "create_user now v l s = Inr (u, s')"
  from create_user_Inr[OF this] show "gate_rel s s'"
    by (intro gate_relI) (auto simp: find_user_def find_row_append)
qed

lemma gate_open_session:
  assumes "open_session c now k ctx m seed jti s = Inr (x, s')" "find_user k s = Some u" "may_sign_in u"
  shows "gate_rel s s'"
proof -
  let ?r = "\<lparr>rk_id = nextId s, rk_token = hashOpaqueToken c seed, rk_userId = k, rk_expiresAt = refreshTokenExpiresAt now\<rparr>"
  let ?u = "sessions_update (refreshTokens_update (\<lambda>rs. rs @ [?r])) (s\<lparr>nextId := Suc (nextId s)\<rparr>)"
  let ?m = "tx_seq (set_session_token (nextId s) (hashOpaqueToken c (kx_refresh c k (nextId s) jti now)))
      (tx_seq (recordSecurityEvent ctx (Some k) SIGN_IN_SUCCESS
        (if m = BY_REGISTRATION then ''Signed in after registration'' else ''Authentication succeeded'') (Some m) (Some (nextId s)))
      (ret (nextId s, kx_refresh c k (nextId s) jti now)))"
  have run: "?m ?u = Inr (x, s')"
    using assms(1) unfolding open_session_def tx_bind_fresh Let_def insert_session_def unique_insert by simp
  have "gate.stays ?m" by (intro gate_rules)
  then have "gate_rel ?u s'" using run by (rule gate.staysD[where m = ?m])
  moreover have "gate_rel s ?u"
    by (rule gate_relI) (use assms(2,3) in \<open>auto simp: find_user_def\<close>)
  ultimately show ?thesis by (rule gate.R_trans[rotated])
qed

lemma gate_issue [gate_rules]: "gate.stays (issue_session c now k h pw ctx m seed jti)"
proof (rule gate.staysI)
  fix s x s' assume run: "issue_session c now k h pw ctx m seed jti s = Inr (x, s')"
  let ?first = "\<lambda>current. when_tx pw (tx_seq (ensure (lg_passwordState (u_login current) \<noteq> PW_NONE) bad_credentials)
         (when_tx (lg_passwordState (u_login current) = PW_LEGACY_UNCONFIRMED)
           (upd_user k (upd_login (\<lambda>l. l\<lparr>lg_passwordState := PW_SET\<rparr>)))))"
  obtain u y t z where u: "find_user k s = Some u" "may_sign_in u" and t: "?first u s = Inr (y, t)"
    and z: "open_session c now k ctx m seed jti t = Inr (z, s')"
    using run unfolding issue_session_def by (auto simp only: tx_bind_Inr tx_seq_Inr query_Inr expect_Inr ensure_Inr ret_Inr split: prod.splits) metis
  have "gate.stays (?first u)" by (intro gate_rules gate_users) (simp_all add: upd_login_def may_sign_in_def)
  then have st: "gate_rel s t" using t by (rule gate.staysD)
  with u obtain v where "find_user k t = Some v" "may_sign_in v" unfolding gate_rel_def by blast
  with gate_open_session[OF z] st show "gate_rel s s'" by (blast intro: gate.R_trans)
qed

lemma gate_parts [gate_rules]:
  "gate.stays (register_account c now input salt token)" "gate.stays (replace_token c now i h r)" "gate.stays (recoverSession c now token)"
  "gate.stays (reset_commit now k h ph)" "gate.stays (setUserPassword c now k i grant p salt)" "gate.stays (change_commit now k sess oh nh)"
  "gate.stays (profile_commit k ch h d)" "gate.stays (updateOwnGCashNumber now k sess number)" "gate.stays (startPasswordSetup c client now k i nonce)"
  "gate.stays (connect_google now i g)" "gate.stays (update_user k (\<lambda>u. u\<lparr>u_emailVerified := True\<rparr>))" "gate.stays (update_user k lift_suspension)"
  unfolding register_account_def replace_token_def recoverSession_def reset_commit_def setUserPassword_def change_commit_def profile_commit_def
    updateOwnGCashNumber_def startPasswordSetup_def connect_google_def Let_def
  by (intro gate_rules gate_users; simp add: may_sign_in_def upd_login_def lift_suspension_def)+

lemma gate_google [gate_rules]: "gate.stays (link_google now i g)" "gate.stays (verify_setup_commit c now u i p g)"
  unfolding link_google_def verify_setup_commit_def Let_def
  by (intro gate_rules gate_users; simp add: may_sign_in_def upd_login_def)+

lemma p_gate: "gate.stays m \<Longrightarrow> p_keeps (gate_rel s0) (transact m)"
  by (rule p_keeps_transact, rule keepsI) (blast dest: gate.staysD intro: gate.R_trans)

lemma p_gate_operations:
  "p_keeps (gate_rel s0) (registerUser c now ctx input salt token mailed seed jti)" "p_keeps (gate_rel s0) (loginUser c now ctx email pw seed jti)"
  "p_keeps (gate_rel s0) (googleLoginUser c client now ctx reply rnd salt seed jti)" "p_keeps (gate_rel s0) (refreshAccessToken c now token jti)"
  "p_keeps (gate_rel s0) (logoutUser c ctx token)" "p_keeps (gate_rel s0) (verifyEmail c now token)"
  "p_keeps (gate_rel s0) (resendVerificationEmail c now email token mail)" "p_keeps (gate_rel s0) (forgotPassword c now email token mail)"
  "p_keeps (gate_rel s0) (resetPassword c now token pw salt)" "p_keeps (gate_rel s0) (verifyPasswordSetup c client now k i reply ch)"
  "p_keeps (gate_rel s0) (changeUserPassword c now k cur new sess salt)" "p_keeps (gate_rel s0) (updateUserProfile c k d)"
  "p_keeps (gate_rel s0) (authenticate c now ab header)"
  unfolding registerUser_def loginUser_def login_body_def googleLoginUser_def refreshAccessToken_def logoutUser_def verifyEmail_def issueTokens_def
    resendVerificationEmail_def forgotPassword_def deliver_mail_def resetPassword_def verifyPasswordSetup_def changeUserPassword_def
    updateUserProfile_def authenticate_def Let_def
  by (intro p_flow p_gate gate_rules)+

lemma p_gateD: "(\<And>s0. p_keeps (gate_rel s0) m) \<Longrightarrow> gate_rel s (snd (m s))"
  unfolding p_keeps_def using gate.R_refl by blast

lemma auth_step_gate:
  assumes "auth_step c client s s'" "r \<in> set (refreshTokens (sessions s'))"
  shows "(\<exists>q \<in> set (refreshTokens (sessions s)). rk_id q = rk_id r \<and> rk_userId q = rk_userId r) \<or>
        (\<exists>u. find_user (rk_userId r) s' = Some u \<and> may_sign_in u)"
proof -
  have "gate_rel s s' \<or> sessions s' = sessions s" using assms(1)
  proof (induction rule: auth_step.induct)
    case (elsewhere s' s)
    then show ?case by blast
  qed (rule disjI1, rule p_gateD, rule p_gate_operations p_gate gate_rules, (rule gate_rules)?)+
  with assms(2) show ?thesis unfolding gate_rel_def by auto
qed

end
