(* ===== verification/SH_Credentials.thy ===== *)
theory SH_Credentials
  imports SH_SignIn
begin

text \<open>
  Passwords and sessions over every step of signing in: an account without a password gets one only through a
  fresh grant, and resetting a password, refreshing, resending a link and authenticating do what they promise.
\<close>

subsection \<open>A first password needs a fresh grant\<close>

definition locked :: "key \<Rightarrow> db \<Rightarrow> bool" where
  "locked k s \<longleftrightarrow> (\<exists>u. find_user k s = Some u \<and> lg_passwordState (u_login u) = PW_NONE)"

named_theorems lock_rules \<open>transactions that leave an account without a password\<close>
declare keeps_ret [lock_rules] keeps_fail [lock_rules] keeps_query [lock_rules] keeps_ensure [lock_rules] keeps_expect [lock_rules]
  keeps_lift_sum [lock_rules] keeps_bind [lock_rules] keeps_seq [lock_rules] keeps_when [lock_rules] keeps_if [lock_rules] keeps_let [lock_rules]
  keeps_case_option [lock_rules] keeps_case_prod [lock_rules]

lemma locked_users: "users s' = users s \<Longrightarrow> locked k s' = locked k s"
  by (simp add: locked_def find_user_def)

lemma locked_aloof [lock_rules]: "aloof.stays m \<Longrightarrow> keeps (locked k) m"
  by (rule keepsI) (auto dest!: aloof.staysD simp: aloof_rel_def cong: locked_users)

lemma locked_upd:
  assumes "\<And>u. u_id (f u) = u_id u" "\<And>u. i = k \<Longrightarrow> lg_passwordState (u_login u) = PW_NONE \<Longrightarrow> lg_passwordState (u_login (f u)) = PW_NONE"
  shows "keeps (locked k) (upd_user i f)" and "keeps (locked k) (update_user i f)"
proof -
  show k: "keeps (locked k) (upd_user i f)" unfolding upd_user_def
    by (rule keeps_modify) (use assms in \<open>auto simp: locked_def find_user_upd\<close>)
  show "keeps (locked k) (update_user i f)" unfolding update_user_def by (intro lock_rules k)
qed

lemma locked_writes [lock_rules]:
  "keeps (locked k) (delete_sessions p)" "keeps (locked k) (delete_email_tokens q)" "keeps (locked k) (delete_reset_tokens t)"
  "keeps (locked k) (insert_reset_token r)" "keeps (locked k) (insert_email_token e)" "keeps (locked k) (insert_session x)"
  "keeps (locked k) (set_session_token i h)" "keeps (locked k) (modify (sessions_update g))"
  by (rule keepsI; auto simp: delete_sessions_def delete_email_tokens_def delete_reset_tokens_def insert_reset_token_def insert_session_def
      insert_email_token_def set_session_token_def unique_def tx_iff locked_def find_user_def split: option.splits)+

lemma locked_create_user [lock_rules]: "keeps (locked k) (create_user now v l)"
proof (rule keepsI)
  fix s u s' assume "locked k s" "create_user now v l s = Inr (u, s')"
  with create_user_Inr[of now v l s u s'] show "locked k s'"
    by (auto simp: locked_def find_user_def find_row_append)
qed

lemma locked_open_session [lock_rules]: "keeps (locked k) (open_session c now i ctx m seed jti)"
  unfolding open_session_def Let_def by (intro lock_rules locked_aloof aloof_writes)

text \<open>The transactions that set a password refuse an account without one.\<close>

lemma locked_issue_session [lock_rules]: "keeps (locked k) (issue_session c now i h pw ctx m seed jti)"
proof (rule keepsI)
  fix s x s' assume l: "locked k s" and run: "issue_session c now i h pw ctx m seed jti s = Inr (x, s')"
  let ?first = "\<lambda>current. when_tx pw (tx_seq (ensure (lg_passwordState (u_login current) \<noteq> PW_NONE) bad_credentials)
         (when_tx (lg_passwordState (u_login current) = PW_LEGACY_UNCONFIRMED)
           (upd_user i (upd_login (\<lambda>l. l\<lparr>lg_passwordState := PW_SET\<rparr>)))))"
  obtain u y t z where u: "find_user i s = Some u" and t: "?first u s = Inr (y, t)"
    and z: "open_session c now i ctx m seed jti t = Inr (z, s')"
    using run unfolding issue_session_def by (auto simp only: tx_bind_Inr tx_seq_Inr query_Inr expect_Inr ensure_Inr ret_Inr split: prod.splits) metis
  have "locked k t"
  proof (cases "i = k")
    case True
    then have "lg_passwordState (u_login u) = PW_NONE" using l u by (simp add: locked_def)
    then have "t = s" using t by (auto simp: tx_iff when_tx_Inr split: if_splits)
    with l show ?thesis by simp
  next
    case False
    then have "keeps (locked k) (?first u)" by (intro lock_rules locked_upd) simp_all
    with l t show ?thesis by (blast intro: keepsD)
  qed
  with z show "locked k s'" by (blast intro: keepsD[OF locked_open_session])
qed

lemma locked_reset_commit [lock_rules]: "keeps (locked k) (reset_commit now i h p)"
proof (cases "i = k")
  case True
  show ?thesis
  proof (rule keepsI)
    fix s x s' assume "locked k s" "reset_commit now i h p s = Inr (x, s')"
    then have False unfolding reset_commit_def
      by (auto simp: locked_def True resettable_def tx_bind_query tx_iff)
    then show "locked k s'" ..
  qed
next
  case False
  then show ?thesis unfolding reset_commit_def by (intro lock_rules locked_upd) simp_all
qed

lemma locked_change_commit [lock_rules]: "i \<noteq> k \<Longrightarrow> keeps (locked k) (change_commit now i sess h p)"
  unfolding change_commit_def by (intro lock_rules locked_upd) simp_all

lemma locked_parts [lock_rules]:
  "keeps (locked k) (register_account c now input salt token)" "keeps (locked k) (replace_token c now i h r)" "keeps (locked k) (recoverSession c now token)"
  "keeps (locked k) (profile_commit j ch h d)" "keeps (locked k) (updateOwnGCashNumber now j sess number)" "keeps (locked k) (startPasswordSetup c client now j i nonce)"
  "keeps (locked k) (connect_google now i g)" "keeps (locked k) (update_user j (\<lambda>u. u\<lparr>u_emailVerified := True\<rparr>))" "keeps (locked k) (update_user j lift_suspension)"
  unfolding register_account_def replace_token_def recoverSession_def profile_commit_def
    updateOwnGCashNumber_def startPasswordSetup_def connect_google_def Let_def
  by (intro lock_rules locked_aloof aloof_writes locked_upd; simp add: write_profile_def lift_suspension_def upd_login_def)+

lemma locked_google [lock_rules]: "keeps (locked k) (link_google now i g)" "keeps (locked k) (verify_setup_commit c now j i p g)"
  unfolding link_google_def verify_setup_commit_def Let_def
  by (intro lock_rules locked_aloof aloof_writes locked_upd; simp add: upd_login_def)+

lemma locked_emits [lock_rules]: "keeps (locked k) (emit r e t)" "keeps (locked k) (notify j t)" "keeps (locked k) (recordSecurityEvent ctx u act why meth sess)"
  "keeps (locked k) (reauthenticated c d l)"
  by (rule locked_aloof, rule aloof_writes)+

lemmas p_locked = p_keeps_transact [where I = "locked k" for k]

lemma locked_change: "p_keeps (locked k) (changeUserPassword c now j old new sess salt)"
  unfolding changeUserPassword_def
proof (rule p_keeps_seq, rule p_locked, rule lock_rules, rule p_keeps_seq, rule p_locked, rule lock_rules, rule p_keeps_read)
  fix s x s' assume l: "locked k s" and q: "query (find_user j) s = Inr (x, s')"
  let ?m = "\<lambda>user. p_seq (transact (ensure (kx_matches c (the old) (lg_passwordHash (u_login user))) (Http 400 ''CURRENT_PASSWORD_INCORRECT'')))
    (p_seq (transact (change_commit now j sess (lg_passwordHash (u_login user)) (kx_bcrypt c (the new) salt)))
    (transact (emit (RUser j) ''forceLogout'' ''Your password changed successfully. Please sign in again.'')))"
  have s': "s' = s" "x = find_user j s" using q by (simp_all add: query_Inr)
  show "locked k (snd (p_bind (transact (expect (Http 404 ''User not found'') x)) (\<lambda>user.
     p_seq (transact (ensure (lg_passwordState (u_login user) \<noteq> PW_NONE) (Http 409 ''PASSWORD_NOT_SET''))) (?m user)) s'))"
  proof (cases "j = k")
    case True
    then obtain u where "x = Some u" "lg_passwordState (u_login u) = PW_NONE" using l s' by (auto simp: locked_def)
    then show ?thesis using l s' by (simp add: p_bind_expect p_seq_ensure)
  next
    case False
    then have "p_keeps (locked k) (p_bind (transact (expect (Http 404 ''User not found'') x)) (\<lambda>user.
     p_seq (transact (ensure (lg_passwordState (u_login user) \<noteq> PW_NONE) (Http 409 ''PASSWORD_NOT_SET''))) (?m user)))"
      by (intro p_flow p_locked lock_rules)
    with l s' show ?thesis by (simp add: p_keeps_def)
  qed
qed

lemma locked_operations:
  "p_keeps (locked k) (registerUser c now ctx input salt token mailed seed jti)" "p_keeps (locked k) (loginUser c now ctx email pw seed jti)"
  "p_keeps (locked k) (googleLoginUser c client now ctx reply rnd salt seed jti)" "p_keeps (locked k) (refreshAccessToken c now token jti)"
  "p_keeps (locked k) (logoutUser c ctx token)" "p_keeps (locked k) (verifyEmail c now token)"
  "p_keeps (locked k) (resendVerificationEmail c now email token mail)" "p_keeps (locked k) (forgotPassword c now email token mail)"
  "p_keeps (locked k) (resetPassword c now token pw salt)" "p_keeps (locked k) (verifyPasswordSetup c client now j i reply ch)"
  "p_keeps (locked k) (updateUserProfile c j d)" "p_keeps (locked k) (authenticate c now ab header)"
  "p_keeps (locked k) (transact (recoverSession c now token))" "p_keeps (locked k) (transact (startPasswordSetup c client now j i nonce))"
  "p_keeps (locked k) (transact (updateOwnGCashNumber now j sess number))"
  unfolding registerUser_def loginUser_def login_body_def googleLoginUser_def refreshAccessToken_def logoutUser_def verifyEmail_def issueTokens_def
    resendVerificationEmail_def forgotPassword_def deliver_mail_def resetPassword_def verifyPasswordSetup_def
    updateUserProfile_def authenticate_def Let_def
  by (intro p_flow p_locked lock_rules locked_aloof aloof_writes)+

lemma find_user_same_login:
  assumes "map u_id (users s') = map u_id (users s)" "map u_login (users s') = map u_login (users s)"
  shows "map_option u_login (find_user k s') = map_option u_login (find_user k s)"
proof -
  have len: "length (users s') = length (users s)" using assms(1) by (rule map_eq_imp_length_eq)
  show ?thesis unfolding find_user_def using len assms
    by (induction rule: list_induct2) (auto simp: find_row_def)
qed

lemma locked_elsewhere:
  assumes "map u_id (users s') = map u_id (users s)" "map u_login (users s') = map u_login (users s)" "locked k s"
  shows "locked k s'"
  using find_user_same_login[OF assms(1,2), of k] assms(3) by (auto simp: locked_def)

lemma locked_set_password: "i \<noteq> k \<Longrightarrow> keeps (locked k) (setUserPassword c now i j grant pw salt)"
  unfolding setUserPassword_def Let_def by (intro lock_rules locked_aloof aloof_writes locked_upd) simp_all

lemma auth_step_locked:
  assumes "auth_step c client s s'" "locked k s"
  shows "locked k s' \<or> (\<exists>now i grant pw salt. s' = snd (transact (setUserPassword c now k i grant pw salt) s))"
  using assms
proof (induction rule: auth_step.induct)
  case (elsewhere s' s)
  then show ?case using locked_elsewhere by blast
next
  case (setUserPassword s now i j grant pw salt)
  then show ?case using locked_set_password[of i k] p_keepsD'[OF p_locked] by blast
next
  case (changeUserPassword s now i old new sess salt)
  then show ?case using p_keepsD'[OF locked_change] by blast
qed (rule disjI1, rule p_keepsD', rule locked_operations, assumption)+


subsection \<open>What the operations promise\<close>

text \<open>C23: Whatever signing in does, accounts stay unique by id, e-mail address and Google subject, sessions by id and
  token, and an account has at most one verification link.\<close>

theorem identity_unique:
  assumes "auth_step c client s s'" "identity_wf s"
  shows "identity_wf s'"
  using assms by (rule auth_step_wf)

lemma refresh_tokens_after_delete:
  "delete_sessions p s = Inr (x, s') \<Longrightarrow> refreshTokens (sessions s') = filter (\<lambda>r. \<not> p r) (refreshTokens (sessions s))"
  by (auto simp: delete_sessions_def tx_iff)

text \<open>The pieces of a password reset.\<close>

lemma find_reset_upd:
  "find_row pt_token h (map_rows (\<lambda>r. pt_token r = h) (\<lambda>r. r\<lparr>pt_used := True\<rparr>) rs) =
    map_option (\<lambda>r. r\<lparr>pt_used := True\<rparr>) (find_row pt_token h rs)"
  by (induction rs) (auto simp: find_row_def map_rows_def)

lemma reset_commit_Inr:
  assumes "reset_commit now k h p s = Inr (x, s')"
  shows "\<exists>u. find_user k s = Some u \<and> find_user k s' = Some (upd_login (set_password p) u) \<and>
     resettable (u_login u) \<and> u_isActive u \<and> u_deactivatedAt u = None \<and>
     refreshTokens (sessions s') = filter (\<lambda>r. rk_userId r \<noteq> k) (refreshTokens (sessions s)) \<and>
     find_reset_token h s' = map_option (\<lambda>r. r\<lparr>pt_used := True\<rparr>) (find_reset_token h s)"
  using assms unfolding reset_commit_def
  by (auto simp: tx_iff upd_user_def delete_sessions_def find_user_upd find_reset_token_def find_reset_upd find_user_def)

lemma resetPassword_Inr:
  assumes "resetPassword c now token pw salt s = (Inr (), s')"
  shows "\<exists>r t. strong_password pw \<and> find_reset_token (hashOpaqueToken c token) s = Some r \<and> \<not> pt_used r \<and> now \<le> pt_expiresAt r \<and>
     reset_commit now (pt_userId r) (hashOpaqueToken c token) (kx_bcrypt c pw salt) s = Inr ((), t) \<and>
     users s' = users t \<and> sessions s' = sessions t"
  using assms unfolding resetPassword_def
  by (auto simp: p_Inr tx_iff emit_def Let_def)

lemma no_session_denied:
  assumes "\<forall>q \<in> set (refreshTokens (sessions s)). rk_userId q \<noteq> k"
  shows "\<not> live_session now k i s"
  using assms by (auto simp: live_session_def find_session_def dest: find_row_Some split: option.splits)

lemma authenticate_dead_session:
  assumes "kx_readAccess c now (takeWhile (\<lambda>x. x \<noteq> CHR '' '') token) = Some (k, Some i)" "\<not> live_session now k i s"
  shows "authenticate c now ab (Some (''Bearer '' @ token)) s = (Inr (Denied 401 ''Session expired''), s)"
  using assms by (simp add: authenticate_def p_bind_query p_ret_def)

lemma stale_hash_refused:
  assumes "find_user k s = Some u" "lg_passwordHash (u_login u) \<noteq> h"
  shows "issueTokens c now k h pw ctx m seed jti s = (Inl bad_credentials, s)"
proof -
  have "issue_session c now k h pw ctx m seed jti s = Inl bad_credentials"
    using assms by (simp add: issue_session_def tx_eval)
  then show ?thesis by (simp add: issueTokens_def p_bind_def transact_def)
qed

text \<open>C18: A completed password reset used a valid link and a strong password. Afterwards the account has the new
  password and no session; an access token of one of its old sessions is refused, a sign-in that checked the
  former password gets no session, other accounts keep theirs, and the link is spent.\<close>

theorem reset_revokes:
  assumes "resetPassword c now token pw salt s = (Inr (), s')"
  shows "\<exists>r u. find_reset_token (hashOpaqueToken c token) s = Some r \<and> \<not> pt_used r \<and> now \<le> pt_expiresAt r \<and> strong_password pw \<and>
     find_user (pt_userId r) s' = Some u \<and> lg_passwordHash (u_login u) = kx_bcrypt c pw salt \<and> lg_passwordState (u_login u) = PW_SET \<and>
     refreshTokens (sessions s') = filter (\<lambda>q. rk_userId q \<noteq> pt_userId r) (refreshTokens (sessions s)) \<and>
     (\<forall>now' ab text i. kx_readAccess c now' (takeWhile (\<lambda>x. x \<noteq> CHR '' '') text) = Some (pt_userId r, Some i) \<longrightarrow>
        authenticate c now' ab (Some (''Bearer '' @ text)) s' = (Inr (Denied 401 ''Session expired''), s')) \<and>
     (\<forall>now' h ctx m seed jti pwd. h \<noteq> kx_bcrypt c pw salt \<longrightarrow>
        issueTokens c now' (pt_userId r) h pwd ctx m seed jti s' = (Inl bad_credentials, s')) \<and>
     (\<forall>now' pw' salt'. strong_password pw' \<longrightarrow> resetPassword c now' token pw' salt' s' = (Inl invalid_reset, s'))"
proof -
  from resetPassword_Inr[OF assms] obtain r t where r: "strong_password pw" "find_reset_token (hashOpaqueToken c token) s = Some r"
    "\<not> pt_used r" "now \<le> pt_expiresAt r"
    and com: "reset_commit now (pt_userId r) (hashOpaqueToken c token) (kx_bcrypt c pw salt) s = Inr ((), t)"
    and t: "users s' = users t" "sessions s' = sessions t" by blast
  from reset_commit_Inr[OF com] obtain u where u: "find_user (pt_userId r) t = Some (upd_login (set_password (kx_bcrypt c pw salt)) u)"
    and rows: "refreshTokens (sessions t) = filter (\<lambda>q. rk_userId q \<noteq> pt_userId r) (refreshTokens (sessions s))"
    and tok: "find_reset_token (hashOpaqueToken c token) t = Some (r\<lparr>pt_used := True\<rparr>)" using r by auto
  let ?u = "upd_login (set_password (kx_bcrypt c pw salt)) u"
  have u': "find_user (pt_userId r) s' = Some ?u" "lg_passwordHash (u_login ?u) = kx_bcrypt c pw salt" "lg_passwordState (u_login ?u) = PW_SET"
    using u t by (simp_all add: find_user_def set_password_def)
  have none: "\<And>now' i. \<not> live_session now' (pt_userId r) i s'"
    by (rule no_session_denied) (simp add: t rows)
  have dead: "\<And>now' ab text i. kx_readAccess c now' (takeWhile (\<lambda>x. x \<noteq> CHR '' '') text) = Some (pt_userId r, Some i) \<Longrightarrow>
        authenticate c now' ab (Some (''Bearer '' @ text)) s' = (Inr (Denied 401 ''Session expired''), s')"
    by (rule authenticate_dead_session[OF _ none])
  have stale: "\<And>now' h ctx m seed jti pwd. h \<noteq> kx_bcrypt c pw salt \<Longrightarrow>
        issueTokens c now' (pt_userId r) h pwd ctx m seed jti s' = (Inl bad_credentials, s')"
    by (rule stale_hash_refused[OF u'(1)]) (use u'(2) in auto)
  have spent: "\<And>now' pw' salt'. strong_password pw' \<Longrightarrow> resetPassword c now' token pw' salt' s' = (Inl invalid_reset, s')"
    using tok t by (simp add: resetPassword_def p_seq_ensure p_bind_query p_bind_expect Let_def find_reset_token_def)
  show ?thesis
    by (intro exI[of _ r] exI[of _ ?u] conjI r u' allI impI dead stale spent) (simp_all add: t rows)
qed

lemma session_unique:
  assumes "identity_wf s" "q \<in> set (refreshTokens (sessions s))" "r \<in> set (refreshTokens (sessions s))"
  shows "rk_token q = rk_token r \<Longrightarrow> rk_id q = rk_id r" and "rk_id q = rk_id r \<Longrightarrow> q = r"
  using assms one_eachD[of "Some \<circ> rk_token" rk_id "refreshTokens (sessions s)" q r "rk_token r"]
  by (auto simp: identity_wf_def sessions_wf_def distinct_map dest: inj_onD)

lemma session_by_token_Some: "session_by_token h s = Some r \<Longrightarrow> r \<in> set (refreshTokens (sessions s)) \<and> rk_token r = h"
  by (auto simp: session_by_token_def dest: find_row_Some)

lemma session_by_token_exists: "r \<in> set (refreshTokens (sessions s)) \<Longrightarrow> \<exists>q. session_by_token (rk_token r) s = Some q"
  unfolding session_by_token_def using find_row_None[of rk_token "rk_token r" "refreshTokens (sessions s)"]
  by (cases "find_row rk_token (rk_token r) (refreshTokens (sessions s))") auto

lemma refreshAccessToken_Inr:
  assumes "refreshAccessToken c now token jti s = (Inr tokens, s')"
  shows "\<exists>r u. session_by_token (hashOpaqueToken c token) s = Some r \<and> find_user (rk_userId r) s = Some u \<and> may_sign_in u \<and>
     replace_token c now (rk_id r) (hashOpaqueToken c token) (ax_refreshToken tokens) s = Inr ((), s')"
  using assms unfolding refreshAccessToken_def resolveRefreshTokenUser_def
  by (auto simp: p_Inr tx_iff Let_def)

lemma replace_token_Inr:
  assumes "replace_token c now i h refresh s = Inr ((), s')"
  shows "\<exists>r. find_session i s = Some r \<and> rk_token r = h \<and> now < rk_expiresAt r \<and>
     (\<forall>q. session_by_token (hashOpaqueToken c refresh) s = Some q \<longrightarrow> rk_id q = i) \<and>
     refreshTokens (sessions s') = map (\<lambda>q. if rk_id q = i then q\<lparr>rk_token := hashOpaqueToken c refresh,
       rk_expiresAt := refreshTokenExpiresAt now\<rparr> else q) (refreshTokens (sessions s))"
  using assms unfolding replace_token_def set_session_token_def unique_def
  by (auto simp: tx_iff map_rows_def split: option.splits)

lemma refresh_unknown:
  assumes "session_by_token (hashOpaqueToken c token) s = None"
  shows "\<exists>why. refreshAccessToken c now token jti s = (Inl (Http 401 why), s)"
proof -
  have "\<exists>why. resolveRefreshTokenUser c now token s = Inl (Http 401 why)"
    using assms by (auto simp: resolveRefreshTokenUser_def tx_eval Let_def fail_def expect_def ensure_def)
  then show ?thesis by (auto simp: refreshAccessToken_def p_bind_def transact_def)
qed

text \<open>Refreshing keeps the session and replaces its token: the old token is refused afterwards, for every
  request and at every time, and no other session changes.\<close>

lemma refresh_rotates:
  assumes "refreshAccessToken c now token jti s = (Inr tokens, s')" "identity_wf s"
    "hashOpaqueToken c (ax_refreshToken tokens) \<noteq> hashOpaqueToken c token"
  shows "\<exists>r u. session_by_token (hashOpaqueToken c token) s = Some r \<and> find_user (rk_userId r) s = Some u \<and> may_sign_in u \<and> now < rk_expiresAt r \<and>
     session_by_token (hashOpaqueToken c (ax_refreshToken tokens)) s' =
       Some (r\<lparr>rk_token := hashOpaqueToken c (ax_refreshToken tokens), rk_expiresAt := refreshTokenExpiresAt now\<rparr>) \<and>
     (\<forall>q \<in> set (refreshTokens (sessions s)). rk_id q \<noteq> rk_id r \<longrightarrow> q \<in> set (refreshTokens (sessions s'))) \<and>
     (\<forall>now' jti'. \<exists>why. refreshAccessToken c now' token jti' s' = (Inl (Http 401 why), s'))"
proof -
  let ?h = "hashOpaqueToken c token" and ?n = "hashOpaqueToken c (ax_refreshToken tokens)"
  let ?f = "\<lambda>q. q\<lparr>rk_token := ?n, rk_expiresAt := refreshTokenExpiresAt now\<rparr>"
  from refreshAccessToken_Inr[OF assms(1)] obtain r u where r: "session_by_token ?h s = Some r"
    and u: "find_user (rk_userId r) s = Some u" "may_sign_in u"
    and rep: "replace_token c now (rk_id r) ?h (ax_refreshToken tokens) s = Inr ((), s')" by blast
  from replace_token_Inr[OF rep] obtain q where q: "find_session (rk_id r) s = Some q" "now < rk_expiresAt q"
    and free: "\<And>q. session_by_token ?n s = Some q \<Longrightarrow> rk_id q = rk_id r"
    and rows: "refreshTokens (sessions s') = map (\<lambda>q. if rk_id q = rk_id r then ?f q else q) (refreshTokens (sessions s))" by blast
  have mem: "r \<in> set (refreshTokens (sessions s))" "rk_token r = ?h" using session_by_token_Some[OF r] by simp_all
  have "q \<in> set (refreshTokens (sessions s))" "rk_id q = rk_id r" using q(1) by (auto simp: find_session_def dest: find_row_Some)
  then have "q = r" using session_unique(2)[OF assms(2) _ mem(1)] by blast
  with q have exp: "now < rk_expiresAt r" by simp
  have new: "x = ?f r" if x: "x \<in> set (refreshTokens (sessions s'))" "rk_token x = ?n" for x
  proof -
    obtain y where y: "y \<in> set (refreshTokens (sessions s))" "x = (if rk_id y = rk_id r then ?f y else y)" using x(1) unfolding rows by auto
    have "rk_id y = rk_id r"
    proof (rule ccontr)
      assume n: "rk_id y \<noteq> rk_id r"
      with x(2) y have t: "rk_token y = ?n" by simp
      obtain z where z: "session_by_token ?n s = Some z" using session_by_token_exists[OF y(1)] t by auto
      have "rk_id y = rk_id z" using session_unique(1)[OF assms(2) y(1)] session_by_token_Some[OF z] t by simp
      with free[OF z] n show False by simp
    qed
    with y session_unique(2)[OF assms(2) y(1) mem(1)] show ?thesis by simp
  qed
  have "?f r \<in> set (refreshTokens (sessions s'))" using mem(1) unfolding rows by force
  then obtain x where "session_by_token ?n s' = Some x" using session_by_token_exists[of "?f r" s'] by auto
  then have "session_by_token ?n s' = Some (?f r)" using new session_by_token_Some by blast
  moreover have "session_by_token ?h s' = None"
  proof (rule ccontr)
    assume "session_by_token ?h s' \<noteq> None"
    then obtain x where "x \<in> set (refreshTokens (sessions s'))" "rk_token x = ?h" using session_by_token_Some by blast
    then obtain y where y: "y \<in> set (refreshTokens (sessions s))" "x = (if rk_id y = rk_id r then ?f y else y)" "rk_token x = ?h"
      unfolding rows by auto
    then have "rk_id y \<noteq> rk_id r" using assms(3) by auto
    with y session_unique(1)[OF assms(2) y(1) mem(1)] mem(2) show False by simp
  qed
  then have "\<forall>now' jti'. \<exists>why. refreshAccessToken c now' token jti' s' = (Inl (Http 401 why), s')" using refresh_unknown by blast
  moreover have "\<forall>q \<in> set (refreshTokens (sessions s)). rk_id q \<noteq> rk_id r \<longrightarrow> q \<in> set (refreshTokens (sessions s'))" unfolding rows by force
  ultimately show ?thesis using r u exp by blast
qed

lemma find_after_filter: "List.find P (filter (\<lambda>r. \<not> P r) xs @ ys) = List.find P ys"
  by (induction xs) simp_all

text \<open>A verification link is sent at most once a minute: after one was sent, another request within 60 seconds
  is refused and changes nothing.\<close>

lemma resend_limited:
  assumes "resendVerificationEmail c now email token mail s = (Inr (), s')" "user_by_email email s = Some u" "\<not> u_emailVerified u"
    "now' < now + 60000"
  shows "resendVerificationEmail c now' email token' mail' s' =
     (Inl (Http 429 ''Please wait 60 seconds before requesting another verification email.''), s')"
proof -
  let ?r = "\<lparr>et_token = hashOpaqueToken c token, et_userId = u_id u, et_expiresAt = now + day_ms, et_used = False, et_createdAt = now\<rparr>"
  have s': "users s' = users s \<and> emailTokens (sessions s') = filter (\<lambda>r. et_userId r \<noteq> u_id u) (emailTokens (sessions s)) @ [?r]"
    using assms(1-3) unfolding resendVerificationEmail_def insert_email_token_def delete_email_tokens_def unique_def
    by (auto simp: p_bind_query p_Inr tx_iff deliver_mail_def split: option.splits)
  then have "email_token_of (u_id u) s' = Some ?r" by (simp add: email_token_of_def find_after_filter)
  moreover have "user_by_email email s' = Some u" using s' assms(2) by (simp add: user_by_email_def)
  ultimately show ?thesis using assms(3,4) by (simp add: resendVerificationEmail_def p_bind_query p_seq_ensure)
qed

text \<open>C22: A request that passes \<open>authenticate\<close> carries a token of a live session of that very account, which is not
  closed, is active or banned, and is banned only where the route allows it; when that session ends, the same
  token is refused.\<close>

theorem authenticate_sound:
  assumes "authenticate c now allowBanned (Some header) s = (Inr (Admitted u i), s')"
  shows "live_session now (u_id u) i s \<and> live_session now (u_id u) i s' \<and> find_user (u_id u) s' = Some u \<and> u_deactivatedAt u = None \<and>
     (u_moderationStatus u = M_BANNED \<longrightarrow> allowBanned) \<and> (u_moderationStatus u \<noteq> M_BANNED \<longrightarrow> u_isActive u) \<and>
     (u_moderationStatus u = M_SUSPENDED \<longrightarrow> \<not> suspension_lapsed now u) \<and>
     (\<forall>t. \<not> live_session now (u_id u) i t \<longrightarrow>
        authenticate c now allowBanned (Some header) t = (Inr (Denied 401 ''Session expired''), t))"
proof -
  let ?t = "takeWhile (\<lambda>x. x \<noteq> CHR '' '') (drop 7 header)"
  have bearer: "take 7 header = ''Bearer ''" using assms by (auto simp: authenticate_def p_ret_def split: if_splits)
  obtain k j where a: "kx_readAccess c now ?t = Some (k, Some j)" and live: "live_session now k j s"
    using assms bearer by (auto simp: authenticate_def p_ret_def p_bind_query split: option.splits if_splits)
  obtain x where x: "find_user k s = Some x"
    using assms bearer a live by (auto simp: authenticate_def p_ret_def p_bind_query split: option.splits)
  have idx: "u_id x = k" using x by (auto simp: find_user_def dest: find_row_Some)
  let ?y = "if suspension_lapsed now x then lift_suspension x else x"
  have out: "admit allowBanned ?y j = Admitted u i \<and> find_user k s' = Some ?y \<and> sessions s' = sessions s"
  proof (cases "suspension_lapsed now x")
    case True
    then obtain v where v: "update_user k lift_suspension s = Inr (v, s')" "admit allowBanned (lift_suspension x) j = Admitted u i"
      using assms bearer a live x by (auto simp: authenticate_def p_bind_query p_Inr)
    have "s' = users_update (map_rows (\<lambda>r. u_id r = k) lift_suspension) s"
      using update_user_Inr[OF v(1)] by (simp add: lift_suspension_def)
    then show ?thesis using True v(2) x find_user_upd[where f = lift_suspension and k = k and i = k and s = s] by (simp add: lift_suspension_def)
  next
    case False
    then show ?thesis using assms bearer a live x by (auto simp: authenticate_def p_bind_query p_Inr)
  qed
  then have u: "u = ?y" "i = j" and allowed: "accountAccessDecision u allowBanned = ALLOW" by (auto simp: admit_def split: access.splits)
  have id: "u_id u = k" using u(1) idx by (simp add: lift_suspension_def)
  have l: "live_session now k i s'" using live out u(2) by (simp add: live_session_def find_session_def)
  have later: "\<And>t. \<not> live_session now k i t \<Longrightarrow> authenticate c now allowBanned (Some header) t = (Inr (Denied 401 ''Session expired''), t)"
    using bearer a u(2) by (simp add: authenticate_def p_bind_query p_ret_def)
  have "u_moderationStatus u = M_SUSPENDED \<longrightarrow> \<not> suspension_lapsed now u" using u(1) by (auto simp: lift_suspension_def suspension_lapsed_def)
  then show ?thesis unfolding id using live l out u later allowed by (auto simp: accountAccessDecision_def split: if_splits)
qed

text \<open>C21: Signing in opens a session only for an account that may sign in: after any step, every session either
  existed before with the same owner, or its owner's account is not closed and is active or banned.\<close>

theorem sessions_for_open_accounts:
  assumes "auth_step c client s s'" "r \<in> set (refreshTokens (sessions s'))"
  shows "(\<exists>q \<in> set (refreshTokens (sessions s)). rk_id q = rk_id r \<and> rk_userId q = rk_userId r) \<or>
     (\<exists>u. find_user (rk_userId r) s' = Some u \<and> may_sign_in u)"
  using assms by (rule auth_step_gate)

subsection \<open>The guarantees at work\<close>

definition sample_crypto :: crypto where
  "sample_crypto = \<lparr>kx_sha256 = (\<lambda>t. CHR ''#'' # t), kx_bcrypt = (\<lambda>p salt. salt @ p), kx_matches = (\<lambda>p h. drop 4 h = p),
     kx_access = (\<lambda>k r i t. ''access''), kx_readAccess = (\<lambda>t text. if text = ''access'' then Some (1, Some 20) else None),
     kx_refresh = (\<lambda>k i jti t. jti), kx_refreshValid = (\<lambda>t text. True), kx_refreshClaims = (\<lambda>text. None),
     kx_signProof = (\<lambda>p t. pr_nonce p),
     kx_readProof = (\<lambda>t text. if text = ''grant'' then Some \<lparr>pr_sub = 2, pr_sid = 21, pr_googleSubject = ''g2'', pr_email = [],
        pr_nonce = [], pr_version = ''#h'', pr_isGrant = True, pr_iat = 0\<rparr> else None)\<rparr>"

definition google_user :: user_row where
  "google_user = upd_login (\<lambda>l. l\<lparr>lg_email := ''b@b.ph'', lg_passwordState := PW_NONE, lg_googleSubject := Some ''g2''\<rparr>)
     ((ready_user 2)\<lparr>u_emailVerified := False\<rparr>)"

definition sample_identity_db :: db where
  "sample_identity_db = empty_db\<lparr>users := [ready_user 1, google_user], nextId := 50,
     sessions := \<lparr>refreshTokens = [\<lparr>rk_id = 20, rk_token = ''#old'', rk_userId = 1, rk_expiresAt = 9000\<rparr>,
         \<lparr>rk_id = 21, rk_token = ''#other'', rk_userId = 2, rk_expiresAt = 9000\<rparr>], emailTokens = [],
       resetTokens = [\<lparr>pt_token = ''#link'', pt_userId = 1, pt_expiresAt = 9000, pt_used = False\<rparr>], securityEvents = []\<rparr>\<rparr>"

lemma sample_identity: "identity_wf sample_identity_db"
  by (auto simp: identity_wf_def accounts_wf_def sessions_wf_def sample_identity_db_def empty_db_def one_each_def google_user_def ready_user_def upd_login_def)


theorem sessions_for_open_accounts_witness:
  "\<exists>r s'. loginUser sample_crypto 1000 True ''a@b.ph'' ''pass'' ''seed'' ''jti'' (sample_identity_db\<lparr>users := [upd_login (\<lambda>l. l\<lparr>lg_passwordHash := ''saltpass''\<rparr>) (ready_user 1)]\<rparr>) = (Inr r, s') \<and>
     map rk_id (refreshTokens (sessions s')) = [20, 21, 50] \<and>
     (\<exists>u. find_user 1 s' = Some u \<and> may_sign_in u)"
proof -
  let ?d = "sample_identity_db\<lparr>users := [upd_login (\<lambda>l. l\<lparr>lg_passwordHash := ''saltpass''\<rparr>) (ready_user 1)]\<rparr>"
  let ?m = "loginUser sample_crypto 1000 True ''a@b.ph'' ''pass'' ''seed'' ''jti'' ?d"
  have ok: "\<not> isl (fst ?m)" and ids: "map (\<lambda>r. (rk_id r, rk_userId r)) (refreshTokens (sessions (snd ?m))) = [(20, 1), (21, 2), (50, 1)]" by code_simp+
  from done_some[OF ok] obtain r s' where run: "?m = (Inr r, s')" by (elim exE) (rule that)
  have rows: "map (\<lambda>r. (rk_id r, rk_userId r)) (refreshTokens (sessions s')) = [(20, 1), (21, 2), (50, 1)]" using ids run by simp
  have "(50, 1) \<in> set (map (\<lambda>r. (rk_id r, rk_userId r)) (refreshTokens (sessions s')))" unfolding rows by simp
  then obtain q where q: "q \<in> set (refreshTokens (sessions s'))" "rk_id q = 50" "rk_userId q = 1" by auto
  have st: "auth_step sample_crypto None ?d s'" using auth_step.loginUser[of sample_crypto None ?d 1000 True "''a@b.ph''" "''pass''" "''seed''" "''jti''"] run by simp
  have old: "\<And>x. x \<in> set (refreshTokens (sessions ?d)) \<Longrightarrow> rk_id x \<noteq> 50" by (auto simp: sample_identity_db_def)
  from sessions_for_open_accounts[OF st q(1)] have u: "\<exists>u. find_user 1 s' = Some u \<and> may_sign_in u"
  proof
    assume "\<exists>x \<in> set (refreshTokens (sessions ?d)). rk_id x = rk_id q \<and> rk_userId x = rk_userId q"
    with old q(2) show ?thesis by auto
  qed (simp add: q(3))
  have "map fst (map (\<lambda>r. (rk_id r, rk_userId r)) (refreshTokens (sessions s'))) = [20, 21, 50]" unfolding rows by simp
  then have "map rk_id (refreshTokens (sessions s')) = [20, 21, 50]" by (simp add: comp_def)
  then show ?thesis by (intro exI[of _ r] exI[of _ s'] conjI run u)
qed

theorem identity_unique_witness:
  "identity_wf (snd (loginUser sample_crypto 1000 True ''a@b.ph'' ''wrong'' ''seed'' ''jti'' sample_identity_db))"
  by (rule identity_unique[OF auth_step.loginUser sample_identity])

theorem reset_revokes_witness:
  "\<exists>s'. resetPassword sample_crypto 1000 ''link'' ''Abc!1234'' ''salt'' sample_identity_db = (Inr (), s') \<and>
     map rk_id (refreshTokens (sessions s')) = [21] \<and>
     authenticate sample_crypto 1100 False (Some (''Bearer '' @ ''access'')) s' = (Inr (Denied 401 ''Session expired''), s')"
proof -
  let ?m = "resetPassword sample_crypto 1000 ''link'' ''Abc!1234'' ''salt'' sample_identity_db"
  have "\<not> isl (fst ?m)" by code_simp
  from done_unit[OF this] obtain s' where run: "?m = (Inr (), s')" ..
  have f: "find_reset_token (hashOpaqueToken sample_crypto ''link'') sample_identity_db =
      Some \<lparr>pt_token = ''#link'', pt_userId = 1, pt_expiresAt = 9000, pt_used = False\<rparr>" by code_simp
  have a: "kx_readAccess sample_crypto 1100 (takeWhile (\<lambda>x. x \<noteq> CHR '' '') ''access'') = Some (1, Some 20)" by code_simp
  from reset_revokes[OF run] f have "refreshTokens (sessions s') = filter (\<lambda>q. rk_userId q \<noteq> 1) (refreshTokens (sessions sample_identity_db))"
    "authenticate sample_crypto 1100 False (Some (''Bearer '' @ ''access'')) s' = (Inr (Denied 401 ''Session expired''), s')"
    using a by (auto simp del: append.simps)
  with run show ?thesis by (auto simp: sample_identity_db_def)
qed



theorem authenticate_sound_witness:
  "\<exists>u i s'. authenticate sample_crypto 1000 False (Some ''Bearer access'') sample_identity_db = (Inr (Admitted u i), s') \<and> u_id u = 1 \<and> i = 20 \<and>
     live_session 1000 (u_id u) i sample_identity_db \<and> u_isActive u"
proof -
  have run: "authenticate sample_crypto 1000 False (Some ''Bearer access'') sample_identity_db =
      (Inr (Admitted (ready_user 1) 20), sample_identity_db)"
    by (simp add: authenticate_def sample_crypto_def p_bind_query live_session_def find_session_def find_row_def sample_identity_db_def
        find_user_def suspension_lapsed_def admit_def accountAccessDecision_def p_ret_def ready_user_def)
  from authenticate_sound[OF run] run show ?thesis by (auto simp: ready_user_def)
qed

end
