(* ===== verification/SH_Content.thy ===== *)
theory SH_Content
  imports SH_Text
begin

text \<open>
  What may be published: src/src/services/content-moderation.service.ts with the category names of
  src/src/lib/category-catalog.ts, on ASCII texts (where \<open>NFKC\<close> changes nothing). The two lists of offensive
  words are an argument (\<open>lexicon\<close>), every other table is the code's. A category whose name is that of a
  property of every JavaScript object (\<open>constructor\<close>) is outside the model: the code looks cues up in a
  plain object.
\<close>

subsection \<open>Category names\<close>

definition is_alnum :: "char \<Rightarrow> bool" where
  "is_alnum x \<longleftrightarrow> is_upper x \<or> is_lower x \<or> is_digit x"

definition category_catalog :: "(string \<times> string list) list" where
  "category_catalog = [
    (''Aircon Cleaning & Repair'', [''Aircon Service'', ''Aircon Repair'']), (''Appliance Repair'', []), (''Bicycle Repair'', []),
    (''Bookkeeping & Admin Help'', []), (''Car Repair & Maintenance'', [''Automotive Services'']),
    (''Carpentry & Furniture Repair'', [''Carpentry & Woodwork'']), (''Computer & Laptop Repair'', [''Computer / IT Services'']),
    (''Cooking & Catering'', []), (''Delivery, Moving & Errands'', [''Delivery & Moving'']),
    (''Electrical Wiring & Repairs'', [''Electrical Repair'']), (''Event Planning & Setup'', [''Event Services'']),
    (''Gardening & Landscaping'', [''Lawn & Garden'', ''Lawn Care'']),
    (''Haircuts & Beauty'', [''Beauty & Personal Care'', ''Haircut'']), (''Handyman & Small Home Repairs'', [''Handyman Services'']),
    (''Home & Office Cleaning'', [''Cleaning Services'', ''House Cleaning'']), (''Home Renovation & Masonry'', [''Home Improvement'']),
    (''Internet & Wi-Fi Setup'', []), (''Laundry & Ironing'', []), (''Locks & Keys'', []), (''Motorcycle Repair & Maintenance'', []),
    (''Musical Instrument Repair & Tuning'', []), (''Painting'', [''Painting Services'']), (''Pest Control'', []),
    (''Pet Grooming & Care'', [''Pet Services'']), (''Phone & Tablet Repair'', []),
    (''Photography & Video'', [''Photography / Videography'']), (''Plumbing'', []), (''Printing & Graphic Design'', []),
    (''Roof & Gutter Repairs'', []), (''Tailoring & Clothing Repairs'', []), (''Translation & Writing'', []),
    (''Tutoring & Lessons'', [''Tutoring & Education'', ''Tutoring'']), (''Website & Software Services'', []),
    (''Welding & Metalwork'', []), (''Other Services'', [''Repair & Maintenance''])]"

definition other_services :: string where
  "other_services = ''Other Services''"

definition normalizedCategoryName :: "string \<Rightarrow> string" where
  "normalizedCategoryName name = toLowerCase (collapse_spaces (trim name))"

text \<open>\<open>replace(/[&/]+/g, " and ")\<close>\<close>

fun and_runs :: "string \<Rightarrow> string" where
  "and_runs [] = []"
| "and_runs (c # cs) = (if c \<in> {CHR ''&'', CHR 0x2F}
     then (case cs of d # _ \<Rightarrow> if d \<in> {CHR ''&'', CHR 0x2F} then and_runs cs else '' and '' @ and_runs cs | [] \<Rightarrow> '' and '')
     else c # and_runs cs)"

text \<open>Everything but letters and digits becomes one blank.\<close>

definition words_only :: "string \<Rightarrow> string" where
  "words_only t = trim (collapse_spaces (map (\<lambda>c. if is_alnum c then c else CHR '' '') t))"

definition nameKey :: "string \<Rightarrow> string" where
  "nameKey name = words_only (and_runs (normalizedCategoryName name))"

definition officialCategoryForName :: "string \<Rightarrow> string option" where
  "officialCategoryForName name = map_option fst
     (List.find (\<lambda>(official, aliases). list_ex (\<lambda>label. nameKey label = nameKey name) (official # aliases)) category_catalog)"

definition canonicalCategoryName :: "string \<Rightarrow> string" where
  "canonicalCategoryName name = (case officialCategoryForName name of None \<Rightarrow> collapse_spaces (trim name) | Some official \<Rightarrow> official)"

definition categoryConceptKey :: "string \<Rightarrow> string" where
  "categoryConceptKey name = nameKey (canonicalCategoryName name)"

definition isFallbackCategory :: "string \<Rightarrow> bool" where
  "isFallbackCategory name \<longleftrightarrow> normalizedCategoryName name = normalizedCategoryName other_services"

subsection \<open>Phrases\<close>

record lexicon =
  explicitProfanity :: "string list"
  explicitHateTerms :: "string list"

definition prohibitedPhrases :: "string list" where
  "prohibitedPhrases = [''sell illegal drugs'', ''buy illegal drugs'', ''sell stolen goods'', ''buy stolen goods'', ''forge government id'',
     ''fake government id'', ''hack someone account'', ''hack someone s account'', ''sell firearms'', ''buy firearms'',
     ''sell prescription drugs'', ''magbenta ng droga'', ''benta ng droga'', ''baligya og droga'']"

definition highRiskPhrases :: "string list" where
  "highRiskPhrases = [''private security service'', ''medical treatment service'']"

definition categoryCues :: "(string \<times> string list) list" where
  "categoryCues = [
    (''plumbing'', [''plumb'', ''pipe'', ''faucet'', ''leak'', ''toilet'', ''drain'']),
    (''electrical wiring repairs'', [''electrical'', ''electrician'', ''wiring'', ''outlet'', ''circuit'']),
    (''home office cleaning'', [''clean'', ''mop'', ''sweep'']),
    (''gardening landscaping'', [''lawn'', ''grass'', ''garden'', ''mow'']),
    (''tutoring lessons'', [''tutor'', ''teach'', ''lesson'', ''calculus'', ''math'', ''study'']),
    (''aircon cleaning repair'', [''aircon'', ''air conditioner'', ''air conditioning'', ''ac unit'']),
    (''appliance repair'', [''appliance'', ''refrigerator'', ''washing machine'', ''microwave'']),
    (''carpentry furniture repair'', [''carpenter'', ''woodwork'', ''cabinet'', ''furniture'']),
    (''computer laptop repair'', [''computer'', ''laptop'', ''desktop'', ''motherboard'', ''printer'', ''notebook'']),
    (''phone tablet repair'', [''phone'', ''tablet'', ''iphone'', ''ipad'', ''smartphone'']),
    (''internet wi fi setup'', [''router'', ''wifi'', ''wi fi'', ''internet'', ''network'']),
    (''laundry ironing'', [''laundry'', ''ironing'', ''clothes washing''])]"

definition policy_normalize :: "string \<Rightarrow> string" where
  "policy_normalize v = words_only (toLowerCase v)"

definition unmask_digit :: "char \<Rightarrow> char" where
  "unmask_digit c = (case map_of [(CHR ''0'', CHR ''o''), (CHR ''1'', CHR ''i''), (CHR ''3'', CHR ''e''), (CHR ''4'', CHR ''a''),
     (CHR ''5'', CHR ''s''), (CHR ''7'', CHR ''t'')] c of None \<Rightarrow> c | Some l \<Rightarrow> l)"

definition deobfuscate :: "string \<Rightarrow> string" where
  "deobfuscate v = map unmask_digit v"

fun has_text :: "string \<Rightarrow> string \<Rightarrow> bool" where
  "has_text p [] \<longleftrightarrow> p = []"
| "has_text p (c # cs) \<longleftrightarrow> take (length p) (c # cs) = p \<or> has_text p cs"

definition containsPhrase :: "string \<Rightarrow> string \<Rightarrow> bool" where
  "containsPhrase haystack phrase \<longleftrightarrow> has_text ('' '' @ phrase @ '' '') ('' '' @ haystack @ '' '')"

text \<open>The word itself, or the word repeated without a separator.\<close>

definition repeats :: "string \<Rightarrow> string \<Rightarrow> bool" where
  "repeats word term \<longleftrightarrow> word = term \<or> (2 * length term \<le> length word \<and> length word mod length term = 0 \<and>
     word = concat (replicate (length word div length term) term))"

definition containsHateTerm :: "lexicon \<Rightarrow> string \<Rightarrow> bool" where
  "containsHateTerm lx haystack \<longleftrightarrow> list_ex (\<lambda>word. list_ex (repeats word) (explicitHateTerms lx)) (split_on (CHR '' '') haystack)"

definition hasCue :: "string \<Rightarrow> string \<Rightarrow> bool" where
  "hasCue t cue \<longleftrightarrow> (if has_text '' '' cue then containsPhrase t cue
     else list_ex (\<lambda>word. word = cue \<or> (5 \<le> length cue \<and> take (length cue) word = cue)) (split_on (CHR '' '') t))"

subsection \<open>Letters with separators between them\<close>

text \<open>
  \<open>/\\b(?:[a-zA-Z0-9][s]){3,14}[a-zA-Z0-9]\\b/g\<close> for a class \<open>s\<close> of separators that are no word characters: from
  the left, as many pairs as possible, at most fourteen and at least three.
\<close>

definition word_char :: "char \<Rightarrow> bool" where
  "word_char c \<longleftrightarrow> is_alnum c \<or> c = CHR ''_''"

fun pairs_at :: "(char \<Rightarrow> bool) \<Rightarrow> string \<Rightarrow> nat" where
  "pairs_at sep (a # b # cs) = (if is_alnum a \<and> sep b then Suc (pairs_at sep cs) else 0)"
| "pairs_at sep _ = 0"

definition ends_chain :: "string \<Rightarrow> bool" where
  "ends_chain t = (case t of [] \<Rightarrow> False | a # rest \<Rightarrow> is_alnum a \<and> (case rest of [] \<Rightarrow> True | b # _ \<Rightarrow> \<not> word_char b))"

definition chain_at :: "(char \<Rightarrow> bool) \<Rightarrow> string \<Rightarrow> nat option" where
  "chain_at sep t = List.find (\<lambda>k. k \<le> pairs_at sep t \<and> ends_chain (drop (2 * k) t)) (rev [3..<15])"

function chain_split :: "(char \<Rightarrow> bool) \<Rightarrow> bool \<Rightarrow> string \<Rightarrow> (bool \<times> string) list" where
  "chain_split sep inWord [] = []"
| "chain_split sep inWord (c # cs) = (case (if inWord then None else chain_at sep (c # cs)) of
     None \<Rightarrow> (False, [c]) # chain_split sep (word_char c) cs
   | Some k \<Rightarrow> (True, take (Suc (2 * k)) (c # cs)) # chain_split sep True (drop (2 * k) cs))"
  by pat_completeness auto
termination by (relation "measure (\<lambda>(_, _, t). length t)") auto

definition dotted :: "char \<Rightarrow> bool" where
  "dotted c \<longleftrightarrow> c \<in> {CHR ''.'', CHR ''-'', CHR ''*''}"

definition collapse_dotted :: "string \<Rightarrow> string" where
  "collapse_dotted t = concat (map (\<lambda>(hit, piece). if hit then filter (\<lambda>c. \<not> dotted c) piece else piece) (chain_split dotted False t))"

definition separated_letters :: "string \<Rightarrow> string list" where
  "separated_letters t = map snd (filter fst (chain_split (\<lambda>c. dotted c \<or> js_space c) False t))"

definition unmask_symbol :: "char \<Rightarrow> char" where
  "unmask_symbol c = (if c \<in> {CHR ''!'', CHR ''|''} then CHR ''i'' else if c = CHR ''@'' then CHR ''a'' else if c = CHR ''$'' then CHR ''s'' else c)"

definition contentVariants :: "string \<Rightarrow> string list" where
  "contentVariants original = (let
       plain = policy_normalize original;
       symbolDeobfuscated = policy_normalize (map unmask_symbol original);
       punctuationCollapsed = policy_normalize (collapse_dotted original)
     in [plain, deobfuscate plain, symbolDeobfuscated, deobfuscate symbolDeobfuscated, punctuationCollapsed, deobfuscate punctuationCollapsed]
        @ map (\<lambda>candidate. deobfuscate (filter (\<lambda>c. \<not> js_space c) (policy_normalize candidate))) (separated_letters original))"

subsection \<open>The decision\<close>

datatype content_field = F_Title | F_Description | F_Category

record content_decision =
  cd_outcome :: content_outcome
  cd_reasonCode :: reason_code
  cd_policyVersion :: string
  cd_field :: "content_field option"

definition CONTENT_POLICY_VERSION :: string where
  "CONTENT_POLICY_VERSION = ''2026-10-13.1''"

definition decision_of :: "content_outcome \<Rightarrow> reason_code \<Rightarrow> content_field option \<Rightarrow> content_decision" where
  "decision_of out reason field = \<lparr>cd_outcome = out, cd_reasonCode = reason, cd_policyVersion = CONTENT_POLICY_VERSION, cd_field = field\<rparr>"

definition any_phrase :: "string list \<Rightarrow> string list \<Rightarrow> bool" where
  "any_phrase phrases variants \<longleftrightarrow> list_ex (\<lambda>v. list_ex (containsPhrase v) phrases) variants"

definition profane :: "lexicon \<Rightarrow> string list \<Rightarrow> bool" where
  "profane lx variants \<longleftrightarrow> list_ex (\<lambda>v. list_ex (\<lambda>w. containsPhrase v w \<or> v = w) (explicitProfanity lx)) variants"

definition mismatched_category :: "string \<Rightarrow> string \<Rightarrow> bool" where
  "mismatched_category categoryName t = (let selected = policy_normalize (canonicalCategoryName categoryName) in
     case map_of categoryCues selected of None \<Rightarrow> False
     | Some cues \<Rightarrow> \<not> list_ex (hasCue t) cues \<and>
         length (filter (\<lambda>(name, others). name \<noteq> selected \<and> list_ex (hasCue t) others) categoryCues) = 1)"

definition assessMarketplaceContent :: "lexicon \<Rightarrow> content_kind \<Rightarrow> string \<Rightarrow> string \<Rightarrow> string \<Rightarrow> content_decision" where
  "assessMarketplaceContent lx kind categoryName title description = (let
       original = title @ '' '' @ description;
       variants = contentVariants original; titles = contentVariants title; descriptions = contentVariants description
     in if list_ex (containsHateTerm lx) variants
        then decision_of REVISE HATE_SPEECH (if list_ex (containsHateTerm lx) titles then Some F_Title
          else if list_ex (containsHateTerm lx) descriptions then Some F_Description else None)
        else if profane lx variants
        then decision_of REVISE PROFANITY (Some (if any_phrase (explicitProfanity lx) titles then F_Title else F_Description))
        else if any_phrase prohibitedPhrases variants
        then decision_of REVISE PROHIBITED_SERVICE (if any_phrase prohibitedPhrases titles then Some F_Title
          else if any_phrase prohibitedPhrases descriptions then Some F_Description else None)
        else if kind = SERVICE_LISTING \<and> any_phrase highRiskPhrases variants then decision_of REVISE HIGH_RISK (Some F_Description)
        else if mismatched_category categoryName (policy_normalize original) then decision_of REVISE CATEGORY_MISMATCH (Some F_Category)
        else decision_of PASS CLEAR None)"

text \<open>The code of the error is \<open>CONTENT_REVISION_REQUIRED\<close>.\<close>

definition revision_required :: error where
  "revision_required = Http 422 ''CONTENT_REVISION_REQUIRED''"

definition requirePublishableContent :: "lexicon \<Rightarrow> content_kind \<Rightarrow> string \<Rightarrow> string \<Rightarrow> string \<Rightarrow> error + content_decision" where
  "requirePublishableContent lx kind categoryName title description =
     (let d = assessMarketplaceContent lx kind categoryName title description in
      if cd_outcome d = REVISE then Inl revision_required else Inr d)"

subsection \<open>A disguised phrase is found\<close>

text \<open>What a character counts as: look-alike symbols and digits as the letter they stand for, others as a blank.\<close>

definition seen :: "char \<Rightarrow> char" where
  "seen c = unmask_digit (let d = hd (toLowerCase [unmask_symbol c]) in if is_alnum d then d else CHR '' '')"

lemma collapse_append_word: "z = [] \<or> \<not> js_space (hd z) \<Longrightarrow> collapse_spaces (u @ z) = collapse_spaces u @ collapse_spaces z"
proof (induction u rule: collapse_spaces.induct)
  case (2 c cs)
  then show ?case by (cases cs; cases z) auto
qed simp

lemma collapse_word_append: "p \<noteq> [] \<Longrightarrow> \<not> js_space (last p) \<Longrightarrow> collapse_spaces (p @ v) = collapse_spaces p @ collapse_spaces v"
proof (induction p rule: collapse_spaces.induct)
  case (2 c cs)
  then show ?case by (cases cs) auto
qed simp

lemma collapse_first: "v \<noteq> [] \<Longrightarrow> js_space (hd v) \<Longrightarrow> collapse_spaces v \<noteq> [] \<and> hd (collapse_spaces v) = CHR '' ''"
proof (induction v rule: collapse_spaces.induct)
  case (2 c cs)
  then show ?case by (cases cs) auto
qed simp

lemma js_space_blank [simp]: "js_space (CHR '' '')"
  by (simp add: js_space_def)

lemma dropWhile_front: "p \<noteq> [] \<Longrightarrow> \<not> P (hd p) \<Longrightarrow> dropWhile P (u @ p @ y) = dropWhile P u @ p @ y"
  by (induction u) (auto simp: neq_Nil_conv)

lemma collapse_nonempty: "v \<noteq> [] \<Longrightarrow> collapse_spaces v \<noteq> []"
  by (induction v rule: collapse_spaces.induct) (auto split: list.splits)

lemma collapse_last: "u \<noteq> [] \<Longrightarrow> js_space (last u) \<Longrightarrow> last (collapse_spaces u) = CHR '' ''"
proof (induction u rule: collapse_spaces.induct)
  case (2 c cs)
  then show ?case using collapse_nonempty[of cs] by (cases cs) auto
qed simp

lemma collapse_map:
  assumes "\<And>c. js_space (f c) = js_space c" "f (CHR '' '') = CHR '' ''"
  shows "collapse_spaces (map f x) = map f (collapse_spaces x)"
  using assms by (induction x rule: collapse_spaces.induct) (auto split: list.splits)

lemma trim_map:
  assumes "\<And>c. js_space (f c) = js_space c"
  shows "trim (map f x) = map f (trim x)"
proof -
  have "js_space \<circ> f = js_space" using assms by (simp add: fun_eq_iff)
  then show ?thesis by (simp add: trim_def dropWhile_map rev_map)
qed

lemma unmask_digit_blank [simp]: "js_space (unmask_digit c) = js_space c" "unmask_digit (CHR '' '') = CHR '' ''"
  by (auto simp: unmask_digit_def js_space_def split: option.splits if_splits)

lemma seen_variant:
  "deobfuscate (policy_normalize (map unmask_symbol t)) = trim (collapse_spaces (map seen t))"
proof -
  have "map seen t = map unmask_digit (map (\<lambda>c. if is_alnum c then c else CHR '' '') (toLowerCase (map unmask_symbol t)))"
    by (simp add: seen_def toLowerCase_def Let_def)
  then show ?thesis
    by (simp only: policy_normalize_def words_only_def deobfuscate_def trim_map collapse_map unmask_digit_blank)
qed

lemma has_text_mid: "has_text q (u @ q @ v)"
proof (induction u)
  case Nil
  then show ?case by (cases q; cases v) auto
qed simp

lemma snoc_last: "z = [] \<or> last z = c \<Longrightarrow> \<exists>X. c # z = X @ [c]"
  by (cases z rule: rev_cases) auto

lemma phrase_between:
  assumes p: "p \<noteq> []" "\<not> js_space (hd p)" "\<not> js_space (last p)" "collapse_spaces p = p"
    and u: "u = [] \<or> last u = CHR '' ''" and v: "v = [] \<or> hd v = CHR '' ''"
  shows "containsPhrase (trim (collapse_spaces (u @ p @ v))) p"
proof -
  let ?U = "collapse_spaces u" and ?V = "collapse_spaces v"
  let ?u = "dropWhile js_space ?U" and ?v = "rev (dropWhile js_space (rev ?V))"
  have "collapse_spaces (u @ p @ v) = ?U @ p @ ?V"
    using p collapse_append_word[of "p @ v" u] collapse_word_append[of p v] by simp
  moreover have "dropWhile js_space (?U @ p @ ?V) = ?u @ p @ ?V"
    using p(1,2) by (rule dropWhile_front)
  moreover have "rev (dropWhile js_space (rev (?u @ p @ ?V))) = ?u @ p @ ?v"
  proof -
    have "rev p \<noteq> []" "\<not> js_space (hd (rev p))" using p by (simp_all add: hd_rev)
    then have "dropWhile js_space (rev ?V @ rev p @ rev ?u) = dropWhile js_space (rev ?V) @ rev p @ rev ?u" by (rule dropWhile_front)
    then show ?thesis by simp
  qed
  ultimately have t: "trim (collapse_spaces (u @ p @ v)) = ?u @ p @ ?v" by (simp add: trim_def)
  have ul: "?u = [] \<or> last ?u = CHR '' ''"
  proof (cases "?u = []")
    case False
    then have "?U \<noteq> []" "u \<noteq> []" by auto
    then have "last ?U = CHR '' ''" using u collapse_last[of u] by (auto)
    moreover have "last ?U = last ?u" using False by (metis last_appendR takeWhile_dropWhile_id)
    ultimately show ?thesis by simp
  qed simp
  have vh: "?v = [] \<or> hd ?v = CHR '' ''"
  proof (cases "?v = []")
    case False
    then have "v \<noteq> []" by auto
    then have "?V \<noteq> []" "hd ?V = CHR '' ''" using v collapse_first[of v] by auto
    moreover have "?V = ?v @ rev (takeWhile js_space (rev ?V))" by (metis rev_append rev_rev_ident takeWhile_dropWhile_id)
    ultimately show ?thesis using False by (metis hd_append2)
  qed simp
  obtain X where X: "CHR '' '' # ?u = X @ [CHR '' '']" using snoc_last[OF ul] by blast
  obtain Y where Y: "?v @ [CHR '' ''] = CHR '' '' # Y" using vh by (cases ?v) auto
  have "'' '' @ (?u @ p @ ?v) @ '' '' = (CHR '' '' # ?u) @ p @ (?v @ [CHR '' ''])" by simp
  also have "\<dots> = X @ ('' '' @ p @ '' '') @ Y" unfolding X Y by simp
  finally show ?thesis unfolding containsPhrase_def t by (metis has_text_mid)
qed

lemma phrases_clean: "list_all (\<lambda>p. p \<noteq> [] \<and> \<not> js_space (hd p) \<and> \<not> js_space (last p) \<and> collapse_spaces p = p) prohibitedPhrases"
  by code_simp



end
