(* ===== verification/SH_Photos.thy ===== *)
theory SH_Photos
  imports SH_Password SH_Content
begin

text \<open>
  What listings and requests share: the photos of a listing (src/src/services/listing-photos.service.ts), the
  record of a content decision, and the categories. The storage provider's answers are arguments.
\<close>

subsection \<open>The tables of published content\<close>

text \<open>A field of an update: \<open>change ?? old\<close>, \<open>change\<close> being absent where it is not named.\<close>

definition given :: "'a option \<Rightarrow> 'a \<Rightarrow> 'a" where
  "given change old = (case change of None \<Rightarrow> old | Some x \<Rightarrow> x)"

definition upd_contents :: "(content_tables \<Rightarrow> content_tables) \<Rightarrow> unit dbtx" where
  "upd_contents f = modify (contents_update f)"

definition find_category :: "key \<Rightarrow> db \<Rightarrow> category_row option" where
  "find_category i s = find_row cg_id i (categories (contents s))"

definition record_moderation :: "time \<Rightarrow> key \<Rightarrow> content_kind \<Rightarrow> key option \<Rightarrow> content_decision \<Rightarrow> unit dbtx" where
  "record_moderation now actor kind resource d = upd_contents (moderationEvents_update (\<lambda>es. es @
     [\<lparr>me_actorId = actor, me_contentType = kind, me_resourceId = resource, me_outcome = cd_outcome d,
       me_reasonCode = cd_reasonCode d, me_policyVersion = cd_policyVersion d, me_createdAt = now\<rparr>]))"

subsection \<open>Photos\<close>

datatype photo_target = PT_Service key | PT_Request key

definition valid_photo_ids :: "key list \<Rightarrow> bool" where
  "valid_photo_ids ids \<longleftrightarrow> length ids \<le> 3 \<and> distinct ids"

definition owned_photos :: "key \<Rightarrow> key list \<Rightarrow> db \<Rightarrow> photo_row list" where
  "owned_photos owner ids s = filter (\<lambda>p. ph_id p \<in> set ids \<and> ph_ownerId p = Some owner) (listingPhotos (contents s))"

fun owns_listing :: "key \<Rightarrow> photo_target \<Rightarrow> db \<Rightarrow> bool" where
  "owns_listing owner (PT_Service i) s = (count_rows (\<lambda>v. sv_id v = i \<and> sv_providerId v = owner) (services s) = 1)"
| "owns_listing owner (PT_Request i) s = (count_rows (\<lambda>r. rq_id r = i \<and> rq_seekerId r = owner) (requests s) = 1)"

definition photo_links :: "key \<Rightarrow> key list \<Rightarrow> photo_link list" where
  "photo_links listing ids = map (\<lambda>(p, n). \<lparr>pl_listingId = listing, pl_photoId = p, pl_position = n\<rparr>) (zip ids [0..<length ids])"

text \<open>The photos of a listing in their order.\<close>

definition photos_of :: "key \<Rightarrow> photo_link list \<Rightarrow> key list" where
  "photos_of listing links = map pl_photoId (sort_key pl_position (filter (\<lambda>l. pl_listingId l = listing) links))"

definition relink :: "key \<Rightarrow> key list \<Rightarrow> photo_link list \<Rightarrow> photo_link list" where
  "relink listing ids links = filter (\<lambda>l. pl_listingId l \<noteq> listing) links @ photo_links listing ids"

fun link_photos :: "photo_target \<Rightarrow> key list \<Rightarrow> content_tables \<Rightarrow> content_tables" where
  "link_photos (PT_Service i) ids = servicePhotos_update (relink i ids)"
| "link_photos (PT_Request i) ids = requestPhotos_update (relink i ids)"

definition setListingPhotos :: "key \<Rightarrow> key list \<Rightarrow> photo_target \<Rightarrow> unit dbtx" where
  "setListingPhotos owner ids target =
     tx_seq (ensure (valid_photo_ids ids) ZodError)
    (tx_bind (query (owns_listing owner target)) (\<lambda>own.
     tx_seq (ensure own (Http 403 ''You can only change photos on your own listing.''))
    (tx_bind (query (owned_photos owner ids)) (\<lambda>found.
     tx_seq (ensure (length found = length ids)
       (Http 403 ''One of these photos is unavailable or belongs to another user. Upload it again.''))
    (upd_contents (link_photos target ids))))))"

text \<open>\<open>uploaded\<close> is the answer of the storage provider: an error, or the public id of the stored image.\<close>

definition uploadListingPhoto :: "bool \<Rightarrow> time \<Rightarrow> key \<Rightarrow> error + string \<Rightarrow> (db, photo_row) process" where
  "uploadListingPhoto configured now owner uploaded =
     p_seq (transact (assertActiveMarketplaceAccount owner))
    (p_seq (transact (ensure configured (Http 503 ''Photo uploads are unavailable. Please try again later.'')))
    (p_bind (transact (lift_sum uploaded)) (\<lambda>publicId.
     transact (tx_seq (assertActiveMarketplaceAccount owner)
       (tx_bind fresh_id (\<lambda>i. let p = \<lparr>ph_id = i, ph_ownerId = Some owner, ph_publicId = publicId, ph_createdAt = now\<rparr> in
        tx_seq (upd_contents (listingPhotos_update (\<lambda>ps. ps @ [p]))) (ret p)))))))"

definition photo_linked :: "key \<Rightarrow> db \<Rightarrow> bool" where
  "photo_linked i s \<longleftrightarrow> exists_row (\<lambda>l. pl_photoId l = i) (servicePhotos (contents s)) \<or>
     exists_row (\<lambda>l. pl_photoId l = i) (requestPhotos (contents s))"

definition isReportedPhoto :: "key \<Rightarrow> db \<Rightarrow> bool" where
  "isReportedPhoto i s \<longleftrightarrow> exists_row (\<lambda>c. i \<in> set (cc_photos c)) (contentCases (contents s))"

definition drop_photo :: "key \<Rightarrow> unit dbtx" where
  "drop_photo i = upd_contents (listingPhotos_update (filter (\<lambda>p. ph_id p \<noteq> i)))"

text \<open>\<open>destroyed\<close> is the answer of the storage provider; an error leaves the row.\<close>

definition deleteUnusedListingPhoto :: "key \<Rightarrow> key \<Rightarrow> error option \<Rightarrow> unit dbtx" where
  "deleteUnusedListingPhoto owner i destroyed =
     tx_bind (query (\<lambda>s. (exists_row (\<lambda>p. ph_id p = i \<and> ph_ownerId p = Some owner) (listingPhotos (contents s)), photo_linked i s, isReportedPhoto i s)))
      (\<lambda>(found, linked, reported).
     tx_seq (ensure (found \<and> \<not> linked) (Http 409 ''This photo is already saved in a listing or is unavailable.''))
    (tx_seq (ensure (\<not> reported) (Http 409 ''This photo is retained as evidence for a content report or appeal.''))
    (tx_seq (case destroyed of None \<Rightarrow> ret () | Some e \<Rightarrow> fail e)
    (drop_photo i))))"

definition photo_abandoned :: "time \<Rightarrow> db \<Rightarrow> photo_row \<Rightarrow> bool" where
  "photo_abandoned now s p \<longleftrightarrow> (ph_ownerId p = None \<or> ph_createdAt p < now - 48 * 60 * 60 * 1000) \<and>
     \<not> photo_linked (ph_id p) s \<and> \<not> isReportedPhoto (ph_id p) s"

definition prune_candidates :: "time \<Rightarrow> db \<Rightarrow> key list" where
  "prune_candidates now s = map ph_id (take 50 (sort_key (\<lambda>p. ph_createdAt p) (sort_key ph_id (filter (photo_abandoned now s) (listingPhotos (contents s))))))"

definition prune_photo :: "(key \<Rightarrow> error option) \<Rightarrow> key \<Rightarrow> unit dbtx" where
  "prune_photo destroyed i =
     tx_bind (query (\<lambda>s. (exists_row (\<lambda>p. ph_id p = i) (listingPhotos (contents s)) \<and> \<not> photo_linked i s, isReportedPhoto i s))) (\<lambda>(found, reported).
     when_tx (found \<and> \<not> reported)
       (tx_seq (case destroyed i of None \<Rightarrow> ret () | Some e \<Rightarrow> fail e) (drop_photo i)))"

fun prune_all :: "(key \<Rightarrow> error option) \<Rightarrow> key list \<Rightarrow> (db, unit) process" where
  "prune_all destroyed [] = p_ret ()"
| "prune_all destroyed (i # is) = p_seq (transact (prune_photo destroyed i)) (prune_all destroyed is)"

definition pruneUnusedListingPhotos :: "time \<Rightarrow> (key \<Rightarrow> error option) \<Rightarrow> (db, unit) process" where
  "pruneUnusedListingPhotos now destroyed = p_bind (transact (query (prune_candidates now))) (prune_all destroyed)"

subsection \<open>The photos of a listing are those set last\<close>

lemma sort_positions: "sort_key pl_position (photo_links i ids) = photo_links i ids"
  by (rule sort_key_id_if_sorted) (simp add: photo_links_def comp_def case_prod_beta map_snd_zip)

lemma photos_of_relink: "photos_of i (relink i ids ls) = ids"
proof -
  have "filter (\<lambda>l. pl_listingId l = i) (relink i ids ls) = photo_links i ids"
    by (auto simp: relink_def photo_links_def filter_empty_conv intro!: filter_True)
  then show ?thesis unfolding photos_of_def by (simp add: sort_positions) (simp add: photo_links_def comp_def case_prod_beta)
qed

lemma setListingPhotos_Inr:
  assumes "setListingPhotos p ids target s = Inr (x, t)"
  shows "valid_photo_ids ids \<and> owns_listing p target s \<and> length (owned_photos p ids s) = length ids \<and>
    t = s\<lparr>contents := link_photos target ids (contents s)\<rparr>"
  using assms by (auto simp: setListingPhotos_def upd_contents_def tx_iff)

end
