(* ===== verification/SH_Listings.thy ===== *)
theory SH_Listings
  imports SH_Photos
begin

text \<open>
  The services of a provider: src/src/services/services.service.ts. A listing is published at once when its
  text passes the content policy and the plan of the provider has room; a refused text is recorded. The
  columns that nothing reads (coverage radius, service type, queue limit of a listing, notes) are left out;
  a search by distance is not modelled.
\<close>

subsection \<open>Rows\<close>

definition normalizeServiceTitle :: "string \<Rightarrow> string" where
  "normalizeServiceTitle title = toLowerCase (collapse_spaces (trim title))"

definition rate_price_types :: "price_type list" where
  "rate_price_types = [FIXED, PER_HOUR, PER_DAY, PER_PROJECT]"

definition validListingPrice :: "price_type \<Rightarrow> decimal option \<Rightarrow> bool" where
  "validListingPrice type price = (if type = BY_AGREEMENT then price = None
     else type \<in> set rate_price_types \<and> (case price of None \<Rightarrow> False | Some p \<Rightarrow> 50 \<le> p \<and> p \<le> 50000))"

text \<open>The unique index: a provider has one live listing with a title.\<close>

definition live_listing :: "service_row \<Rightarrow> bool" where
  "live_listing v \<longleftrightarrow> sv_status v \<in> {S_PENDING_REVIEW, S_ACTIVE}"

definition title_taken :: "service_row \<Rightarrow> db \<Rightarrow> bool" where
  "title_taken v s \<longleftrightarrow> live_listing v \<and> exists_row (\<lambda>w. sv_id w \<noteq> sv_id v \<and> live_listing w \<and> sv_providerId w = sv_providerId v \<and>
     lt_titleNormalized (sv_text w) = lt_titleNormalized (sv_text v)) (services s)"

definition insert_service :: "service_row \<Rightarrow> unit dbtx" where
  "insert_service v = tx_bind (query (title_taken v)) (\<lambda>taken.
     tx_seq (unique (\<not> taken)) (modify (services_update (\<lambda>vs. vs @ [v]))))"

definition write_service :: "service_row \<Rightarrow> unit dbtx" where
  "write_service v = tx_bind (query (title_taken v)) (\<lambda>taken.
     tx_seq (unique (\<not> taken)) (modify (services_update (map_rows (\<lambda>w. sv_id w = sv_id v) (\<lambda>_. v)))))"

definition active_count :: "key \<Rightarrow> db \<Rightarrow> nat" where
  "active_count providerId s = count_rows (\<lambda>v. sv_providerId v = providerId \<and> sv_status v = S_ACTIVE) (services s)"

definition listing_conflict :: "error \<Rightarrow> error" where
  "listing_conflict e = (if e = Uncoded ''P2002''
     then Http 409 ''You already have a service listing with this title. Choose a different title or edit that listing.'' else e)"

subsection \<open>Publishing\<close>

text \<open>One text names a category by its id or by its name.\<close>

datatype category_ref = CategoryId key | CategoryName string

fun active_category :: "category_ref \<Rightarrow> db \<Rightarrow> category_row option" where
  "active_category (CategoryId i) s = List.find (\<lambda>c. cg_id c = i \<and> cg_isActive c) (categories (contents s))"
| "active_category (CategoryName n) s = List.find (\<lambda>c. cg_name c = n \<and> cg_isActive c) (categories (contents s))"

record listing_input =
  li_category :: category_ref
  li_title :: string
  li_description :: string
  li_price :: "decimal option"
  li_priceType :: price_type
  li_location :: "job_location option"
  li_publicMapPin :: bool
  li_mode :: location_mode
  li_venueAddress :: "string option"
  li_transportationFee :: "decimal option"
  li_durationMins :: int
  li_paymentMethods :: pay_methods
  li_photoIds :: "key list"

definition new_listing :: "time \<Rightarrow> key \<Rightarrow> key \<Rightarrow> key \<Rightarrow> listing_input \<Rightarrow> content_decision \<Rightarrow> service_row" where
  "new_listing now i providerId categoryId input d = (let remote = (li_mode input = REMOTE) in
     \<lparr>sv_id = i, sv_providerId = providerId, sv_categoryId = categoryId, sv_price = li_price input, sv_priceType = li_priceType input,
      sv_latitude = Option.bind (li_location input) jl_latitude, sv_longitude = Option.bind (li_location input) jl_longitude,
      sv_locationLabel = map_option jl_label (li_location input),
      sv_transportationFee = (if li_priceType input = BY_AGREEMENT \<or> remote then None else li_transportationFee input),
      sv_serviceLocationMode = li_mode input, sv_venueAddress = (if remote then None else li_venueAddress input),
      sv_estimatedDurationMins = li_durationMins input, sv_paymentMethods = li_paymentMethods input, sv_status = S_ACTIVE,
      sv_isAvailable = True, sv_publishedAt = Some now, sv_text = \<lparr>lt_title = li_title input,
        lt_titleNormalized = normalizeServiceTitle (li_title input), lt_description = li_description input,
        lt_publicMapPin = (li_mode input \<in> {SEEKER_VISITS, BOTH} \<and> li_publicMapPin input),
        lt_policyVersion = Some (cd_policyVersion d), lt_reasonCode = Some (cd_reasonCode d), lt_reviewedById = None\<rparr>\<rparr>)"

definition store_listing :: "time \<Rightarrow> key \<Rightarrow> listing_input \<Rightarrow> key \<Rightarrow> content_decision \<Rightarrow> service_row dbtx" where
  "store_listing now providerId input categoryId d =
     tx_bind fresh_id (\<lambda>i. let v = new_listing now i providerId categoryId input d in
     tx_seq (insert_service v)
    (tx_seq (record_moderation now providerId SERVICE_LISTING (Some i) d)
    (tx_seq (notify providerId ''Listing Published'')
    (tx_seq (setListingPhotos providerId (li_photoIds input) (PT_Service i))
    (ret v)))))"

definition publish_listing :: "lexicon \<Rightarrow> time \<Rightarrow> key \<Rightarrow> listing_input \<Rightarrow> service_row dbtx" where
  "publish_listing lx now providerId input =
     tx_seq (assertActiveMarketplaceAccount providerId)
    (tx_seq (assertListingGCashNumber providerId (Some (li_paymentMethods input)))
    (tx_bind (query (active_count providerId)) (\<lambda>activeCount.
     tx_bind (assertNewProviderBusiness now providerId) (\<lambda>user.
     tx_seq (lift_sum (assertListingCapacity user activeCount now))
    (tx_bind (query (active_category (li_category input))) (\<lambda>found.
     tx_bind (expect (Http 400 ''Invalid or inactive category'') found) (\<lambda>category.
     let d = assessMarketplaceContent lx SERVICE_LISTING (cg_name category) (li_title input) (li_description input) in
     tx_seq (ensure (cd_outcome d \<noteq> REVISE) revision_required)
    (store_listing now providerId input (cg_id category) d))))))))"

text \<open>The decision that a refused publication carries: the failed transaction wrote nothing, so it is taken again.\<close>

definition record_refusal ::
  "lexicon \<Rightarrow> time \<Rightarrow> key \<Rightarrow> content_kind \<Rightarrow> key option \<Rightarrow> category_row option \<Rightarrow> string \<Rightarrow> string \<Rightarrow> error \<Rightarrow> (db, unit) process" where
  "record_refusal lx now actor kind resource category title description e =
     (case category of None \<Rightarrow> p_ret () | Some c \<Rightarrow>
      if e \<noteq> revision_required then p_ret ()
      else transact (record_moderation now actor kind resource (assessMarketplaceContent lx kind (cg_name c) title description)))"

definition createService :: "lexicon \<Rightarrow> time \<Rightarrow> key \<Rightarrow> listing_input \<Rightarrow> (db, service_row) process" where
  "createService lx now providerId input =
     p_bind (p_catch (transact (publish_listing lx now providerId input))
       (\<lambda>e. p_bind (transact (query (active_category (li_category input)))) (\<lambda>category.
          p_seq (record_refusal lx now providerId SERVICE_LISTING None category (li_title input) (li_description input) e)
            (transact (fail (listing_conflict e)))))) (\<lambda>v.
     p_seq (transact (emit (RUser providerId) ''notification'' ''Listing Published''))
    (p_seq (transact (emit REveryone ''SERVICE_LISTINGS_CHANGED'' ''ACTIVE''))
    (p_ret v)))"

subsection \<open>Editing\<close>

text \<open>A field that the request leaves out is \<open>None\<close>; a field that it clears is \<open>Some None\<close>.\<close>

record listing_changes =
  lc_category :: "key option"
  lc_title :: "string option"
  lc_description :: "string option"
  lc_price :: "decimal option option"
  lc_priceType :: "price_type option"
  lc_location :: "job_location option option"
  lc_publicMapPin :: "bool option"
  lc_mode :: "location_mode option"
  lc_venueAddress :: "string option option"
  lc_transportationFee :: "decimal option option"
  lc_durationMins :: "int option"
  lc_paymentMethods :: "pay_methods option"
  lc_photoIds :: "key list option"

definition next_price :: "listing_changes \<Rightarrow> service_row \<Rightarrow> decimal option" where
  "next_price d v = (if lc_priceType d = Some BY_AGREEMENT then None else given (lc_price d) (sv_price v))"

definition material_change :: "listing_changes \<Rightarrow> key \<Rightarrow> service_row \<Rightarrow> bool" where
  "material_change d categoryId v \<longleftrightarrow>
     normalizeServiceTitle (given (lc_title d) (lt_title (sv_text v))) \<noteq> lt_titleNormalized (sv_text v) \<or> categoryId \<noteq> sv_categoryId v \<or>
     given (lc_description d) (lt_description (sv_text v)) \<noteq> lt_description (sv_text v) \<or> sv_status v \<in> {S_REJECTED, S_PENDING_REVIEW}"

definition new_point :: "listing_changes \<Rightarrow> job_location option" where
  "new_point d = (case lc_location d of None \<Rightarrow> None | Some l \<Rightarrow> l)"

definition point_cleared :: "listing_changes \<Rightarrow> service_row \<Rightarrow> bool" where
  "point_cleared d v \<longleftrightarrow> lc_location d = Some None \<or> (lc_mode d = Some REMOTE \<and> sv_serviceLocationMode v \<noteq> REMOTE \<and> new_point d = None)"

definition next_pin :: "listing_changes \<Rightarrow> service_row \<Rightarrow> bool" where
  "next_pin d v = (let mode = given (lc_mode d) (sv_serviceLocationMode v) in
     mode \<notin> {REMOTE, PROVIDER_VISITS} \<and>
     \<not> (lc_publicMapPin d = None \<and> (case new_point d of None \<Rightarrow> False | Some p \<Rightarrow> jl_latitude p \<noteq> sv_latitude v \<or> jl_longitude p \<noteq> sv_longitude v)) \<and>
     given (lc_publicMapPin d) (lt_publicMapPin (sv_text v)))"

definition revised_listing :: "time \<Rightarrow> listing_changes \<Rightarrow> key \<Rightarrow> content_decision option \<Rightarrow> service_row \<Rightarrow> service_row" where
  "revised_listing now d categoryId assessment v = (let
       mode = given (lc_mode d) (sv_serviceLocationMode v); title = given (lc_title d) (lt_title (sv_text v));
       priceType = given (lc_priceType d) (sv_priceType v); paused = (sv_status v = S_INACTIVE)
     in \<lparr>sv_id = sv_id v, sv_providerId = sv_providerId v, sv_categoryId = categoryId, sv_price = next_price d v, sv_priceType = priceType,
       sv_latitude = (if point_cleared d v then None else case new_point d of None \<Rightarrow> sv_latitude v | Some p \<Rightarrow> jl_latitude p),
       sv_longitude = (if point_cleared d v then None else case new_point d of None \<Rightarrow> sv_longitude v | Some p \<Rightarrow> jl_longitude p),
       sv_locationLabel = (if point_cleared d v then None else case new_point d of None \<Rightarrow> sv_locationLabel v | Some p \<Rightarrow> Some (jl_label p)),
       sv_transportationFee = (if mode = REMOTE \<or> priceType = BY_AGREEMENT then None else given (lc_transportationFee d) (sv_transportationFee v)),
       sv_serviceLocationMode = mode, sv_venueAddress = (if mode = REMOTE then None else given (lc_venueAddress d) (sv_venueAddress v)),
       sv_estimatedDurationMins = given (lc_durationMins d) (sv_estimatedDurationMins v),
       sv_paymentMethods = given (lc_paymentMethods d) (sv_paymentMethods v),
       sv_status = (if assessment = None then sv_status v else if paused then S_INACTIVE else S_ACTIVE),
       sv_isAvailable = (if assessment = None then sv_isAvailable v else \<not> paused),
       sv_publishedAt = (if assessment = None \<or> paused then sv_publishedAt v
          else case sv_publishedAt v of None \<Rightarrow> Some now | t \<Rightarrow> t),
       sv_text = \<lparr>lt_title = title, lt_titleNormalized = normalizeServiceTitle title,
         lt_description = given (lc_description d) (lt_description (sv_text v)), lt_publicMapPin = next_pin d v,
         lt_policyVersion = (case assessment of None \<Rightarrow> lt_policyVersion (sv_text v) | Some a \<Rightarrow> Some (cd_policyVersion a)),
         lt_reasonCode = (case assessment of None \<Rightarrow> lt_reasonCode (sv_text v) | Some a \<Rightarrow> Some (cd_reasonCode a)),
         lt_reviewedById = (if assessment = None then lt_reviewedById (sv_text v) else None)\<rparr>\<rparr>)"

definition arrangement_fault :: "listing_changes \<Rightarrow> service_row \<Rightarrow> error option" where
  "arrangement_fault d v = (let mode = given (lc_mode d) (sv_serviceLocationMode v); visited = (mode \<in> {SEEKER_VISITS, BOTH}) in
     case assertLocationForArrangementChange (sv_serviceLocationMode v) (lc_mode d) (new_point d) of Inl e \<Rightarrow> Some e
     | Inr _ \<Rightarrow>
       if visited \<and> (case lc_venueAddress d of None \<Rightarrow> False | Some a \<Rightarrow> length (trim (case a of None \<Rightarrow> [] | Some t \<Rightarrow> t)) < 5)
       then Some (Http 400 ''Enter your workplace address for seekers who visit you.'')
       else if lc_location d = Some None \<and> mode \<noteq> REMOTE then Some (Http 400 ''In-person services need a base area or shop location.'')
       else if visited \<and> new_point d = None \<and> (sv_latitude v = None \<or> sv_longitude v = None \<or> \<not> truthy (sv_locationLabel v))
       then Some (Http 400 ''Choose your service venue before accepting seeker visits.'') else None)"

definition edited_category :: "listing_changes \<Rightarrow> service_row \<Rightarrow> key dbtx" where
  "edited_category d v = (case lc_category d of None \<Rightarrow> ret (sv_categoryId v)
     | Some i \<Rightarrow> tx_bind (query (active_category (CategoryId i))) (\<lambda>found.
         tx_bind (expect (Http 400 ''Invalid or inactive category'') found) (\<lambda>c. ret (cg_id c))))"

definition reassess :: "lexicon \<Rightarrow> listing_changes \<Rightarrow> key \<Rightarrow> service_row \<Rightarrow> content_decision option dbtx" where
  "reassess lx d categoryId v = (if \<not> material_change d categoryId v then ret None
     else tx_bind (query (find_category categoryId)) (\<lambda>found.
       tx_bind (expect (Uncoded ''P2025'') found) (\<lambda>c.
       let a = assessMarketplaceContent lx SERVICE_LISTING (cg_name c) (given (lc_title d) (lt_title (sv_text v)))
           (given (lc_description d) (lt_description (sv_text v)))
       in tx_seq (ensure (cd_outcome a \<noteq> REVISE) revision_required) (ret (Some a)))))"

definition own_listing :: "key \<Rightarrow> key \<Rightarrow> service_row dbtx" where
  "own_listing serviceId providerId = tx_bind (query (find_service serviceId)) (\<lambda>found.
     expect (Http 404 ''Service not found or access denied'')
       (case found of None \<Rightarrow> None | Some v \<Rightarrow> if sv_providerId v = providerId \<and> sv_status v \<noteq> S_DELETED then Some v else None))"

definition ready_edit :: "key \<Rightarrow> key \<Rightarrow> listing_changes \<Rightarrow> (service_row \<times> key) dbtx" where
  "ready_edit serviceId providerId d =
     tx_seq (assertActiveMarketplaceAccount providerId)
    (tx_bind (own_listing serviceId providerId) (\<lambda>v.
     tx_seq (assertListingGCashNumber providerId (Some (given (lc_paymentMethods d) (sv_paymentMethods v))))
    (tx_seq (ensure (sv_status v \<noteq> S_SUSPENDED) (Http 409 ''An administrator must restore this suspended listing before it can be edited''))
    (tx_bind (edited_category d v) (\<lambda>categoryId.
     tx_seq (ensure (\<not> (sv_priceType v \<in> {STARTS_AT, CUSTOM} \<and> (lc_priceType d = None \<or> lc_price d = None)))
       (Http 400 ''Choose a supported pricing type and update the price for this older listing''))
    (tx_seq (ensure (validListingPrice (given (lc_priceType d) (sv_priceType v)) (next_price d v))
       (Http 400 ''Enter a valid service price, or choose Price by agreement and leave the price blank''))
    (ret (v, categoryId))))))))"

definition check_edit :: "lexicon \<Rightarrow> key \<Rightarrow> key \<Rightarrow> listing_changes \<Rightarrow> (service_row \<times> key \<times> content_decision option) dbtx" where
  "check_edit lx serviceId providerId d =
     tx_bind (ready_edit serviceId providerId d) (\<lambda>(v, categoryId).
     tx_bind (reassess lx d categoryId v) (\<lambda>assessment. ret (v, categoryId, assessment)))"

text \<open>A listing that comes back to the market needs room in the plan.\<close>

definition edit_room :: "time \<Rightarrow> key \<Rightarrow> service_row \<Rightarrow> content_decision option \<Rightarrow> unit dbtx" where
  "edit_room now providerId v assessment = (if assessment \<noteq> None \<and> sv_status v \<notin> {S_ACTIVE, S_INACTIVE}
     then tx_bind (query (active_count providerId)) (\<lambda>occupied.
          tx_bind (assertNewProviderBusiness now providerId) (\<lambda>user. lift_sum (assertListingCapacity user occupied now)))
     else ret ())"

definition edit_details :: "key \<Rightarrow> key \<Rightarrow> listing_changes \<Rightarrow> service_row \<Rightarrow> unit dbtx" where
  "edit_details serviceId providerId d v =
     tx_seq (case lc_photoIds d of None \<Rightarrow> ret () | Some ids \<Rightarrow> setListingPhotos providerId ids (PT_Service serviceId))
       (case arrangement_fault d v of None \<Rightarrow> ret () | Some e \<Rightarrow> fail e)"

definition record_edit :: "time \<Rightarrow> key \<Rightarrow> key \<Rightarrow> content_decision option \<Rightarrow> unit dbtx" where
  "record_edit now serviceId providerId assessment =
     (case assessment of None \<Rightarrow> ret () | Some a \<Rightarrow> record_moderation now providerId SERVICE_LISTING (Some serviceId) a)"

definition edit_listing :: "lexicon \<Rightarrow> time \<Rightarrow> key \<Rightarrow> key \<Rightarrow> listing_changes \<Rightarrow> service_row dbtx" where
  "edit_listing lx now serviceId providerId d =
     tx_bind (check_edit lx serviceId providerId d) (\<lambda>(v, categoryId, assessment).
     tx_seq (edit_room now providerId v assessment)
    (tx_seq (edit_details serviceId providerId d v)
    (let r = revised_listing now d categoryId assessment v in
     tx_seq (write_service r)
    (tx_seq (record_edit now serviceId providerId assessment)
    (ret r)))))"

text \<open>The category that the refused text was checked against.\<close>

definition refused_category :: "listing_changes \<Rightarrow> key \<Rightarrow> db \<Rightarrow> category_row option" where
  "refused_category d serviceId s = (case lc_category d of Some i \<Rightarrow> find_category i s
     | None \<Rightarrow> (case find_service serviceId s of None \<Rightarrow> None | Some v \<Rightarrow> find_category (sv_categoryId v) s))"

definition updateService :: "lexicon \<Rightarrow> time \<Rightarrow> key \<Rightarrow> key \<Rightarrow> listing_changes \<Rightarrow> (db, service_row) process" where
  "updateService lx now serviceId providerId d =
     p_catch (p_bind (transact (edit_listing lx now serviceId providerId d)) (\<lambda>r.
        p_seq (transact (emit REveryone ''SERVICE_LISTINGS_CHANGED'' [])) (p_ret r)))
      (\<lambda>e. p_bind (transact (query (\<lambda>s. (refused_category d serviceId s, find_service serviceId s)))) (\<lambda>(category, found).
         p_seq (case found of None \<Rightarrow> p_ret () | Some v \<Rightarrow>
             record_refusal lx now providerId SERVICE_LISTING (Some serviceId) category (given (lc_title d) (lt_title (sv_text v)))
               (given (lc_description d) (lt_description (sv_text v))) e)
           (transact (fail (listing_conflict e)))))"

subsection \<open>Pausing, resuming and deleting\<close>

definition active_others :: "key \<Rightarrow> key \<Rightarrow> db \<Rightarrow> nat" where
  "active_others serviceId providerId s =
     count_rows (\<lambda>w. sv_providerId w = providerId \<and> sv_id w \<noteq> serviceId \<and> sv_status w = S_ACTIVE) (services s)"

definition resume_room :: "time \<Rightarrow> key \<Rightarrow> key \<Rightarrow> bool \<Rightarrow> unit dbtx" where
  "resume_room now serviceId providerId resume = (if resume
     then tx_bind (query (active_others serviceId providerId)) (\<lambda>occupied.
          tx_bind (assertNewProviderBusiness now providerId) (\<lambda>user. lift_sum (assertListingCapacity user occupied now)))
     else ret ())"

definition toggle_listing :: "time \<Rightarrow> key \<Rightarrow> key \<Rightarrow> service_row dbtx" where
  "toggle_listing now serviceId providerId =
     tx_seq (assertActiveMarketplaceAccount providerId)
    (tx_bind (query (find_service serviceId)) (\<lambda>found.
     tx_bind (expect (Http 404 ''Only an active or paused listing can be paused or resumed'')
       (case found of None \<Rightarrow> None | Some v \<Rightarrow> if sv_providerId v = providerId \<and> sv_status v \<in> {S_ACTIVE, S_INACTIVE} then Some v else None)) (\<lambda>v.
     let resume = (sv_status v = S_INACTIVE \<or> \<not> sv_isAvailable v) in
     tx_seq (resume_room now serviceId providerId resume)
    (let r = v\<lparr>sv_status := (if resume then S_ACTIVE else S_INACTIVE), sv_isAvailable := resume,
         sv_publishedAt := (if resume then (case sv_publishedAt v of None \<Rightarrow> Some now | t \<Rightarrow> t) else sv_publishedAt v)\<rparr>
     in tx_seq (write_service r) (ret r)))))"

definition toggleServiceAvailability :: "time \<Rightarrow> key \<Rightarrow> key \<Rightarrow> (db, service_row) process" where
  "toggleServiceAvailability now serviceId providerId =
     p_catch (transact (toggle_listing now serviceId providerId)) (\<lambda>e. transact (fail (listing_conflict e)))"

definition open_inquiries :: "key \<Rightarrow> db \<Rightarrow> request_row list" where
  "open_inquiries serviceId s = filter (\<lambda>r. rq_targetServiceId r = Some serviceId \<and> rq_status r = RQ_OPEN) (requests s)"

definition tell_inquirers :: "key \<Rightarrow> key list dbtx" where
  "tell_inquirers serviceId =
     tx_seq (modify (queueNotifies_update (filter (\<lambda>n. qn_serviceId n \<noteq> serviceId))))
    (tx_bind (query (open_inquiries serviceId)) (\<lambda>inquiries.
     tx_seq (for_each (\<lambda>r. tx_bind (notify_once (N_ListingRemoved serviceId (rq_id r)) (rq_seekerId r) ''Requested service listing removed'')
         (\<lambda>_. ret ())) inquiries)
     (ret (map rq_seekerId inquiries))))"

definition remove_listing :: "key \<Rightarrow> (service_row \<times> key list) dbtx" where
  "remove_listing serviceId =
     tx_bind (tell_inquirers serviceId) (\<lambda>seekers.
     tx_bind (query (find_service serviceId)) (\<lambda>found.
     tx_bind (expect (Uncoded ''P2025'') found) (\<lambda>v.
     let r = v\<lparr>sv_status := S_DELETED, sv_isAvailable := False\<rparr> in
     tx_seq (write_service r) (ret (r, seekers)))))"

definition listing_in_use :: "key \<Rightarrow> db \<Rightarrow> bool" where
  "listing_in_use serviceId s \<longleftrightarrow> exists_row (\<lambda>b. bk_serviceId b = Some serviceId \<and> bk_status b \<in> open_statuses) (bookings s)"

definition deleteService :: "key \<Rightarrow> key \<Rightarrow> (db, service_row) process" where
  "deleteService serviceId providerId =
     p_bind (transact (query (find_service serviceId))) (\<lambda>found.
     p_seq (transact (ensure (map_option sv_providerId found = Some providerId) (Http 404 ''Service not found or access denied'')))
    (p_bind (transact (query (listing_in_use serviceId))) (\<lambda>used.
     p_seq (transact (ensure (\<not> used)
       (Http 409 ''Cannot delete a service with an active booking. Pause the listing and finish or cancel its bookings first.'')))
    (p_bind (transact (remove_listing serviceId)) (\<lambda>(r, seekers).
     p_seq (transact (publishNotifications seekers ''Requested service listing removed'')) (p_ret r))))))"

subsection \<open>What is public\<close>

definition publicProviderAccountWhere :: "time \<Rightarrow> user_row \<Rightarrow> bool" where
  "publicProviderAccountWhere now u \<longleftrightarrow> u_verificationStatus u = V_APPROVED \<and> u_isActive u \<and> u_moderationStatus u = M_ACTIVE \<and>
     u_emailVerified u \<and> providerMembershipWhere now u"

definition public_price :: "service_row \<Rightarrow> bool" where
  "public_price v \<longleftrightarrow> (sv_priceType v \<in> set rate_price_types \<and> (case sv_price v of None \<Rightarrow> False | Some p \<Rightarrow> 50 \<le> p \<and> p \<le> 50000)) \<or>
     (sv_priceType v = BY_AGREEMENT \<and> sv_price v = None)"

definition publicServiceWhere :: "time \<Rightarrow> db \<Rightarrow> service_row \<Rightarrow> bool" where
  "publicServiceWhere now s v \<longleftrightarrow> sv_status v = S_ACTIVE \<and> sv_isAvailable v \<and> public_price v \<and>
     (case find_user (sv_providerId v) s of None \<Rightarrow> False | Some u \<Rightarrow> publicProviderAccountWhere now u)"

definition publicProviderWhere :: "time \<Rightarrow> db \<Rightarrow> user_row \<Rightarrow> bool" where
  "publicProviderWhere now s u \<longleftrightarrow> publicProviderAccountWhere now u \<and>
     exists_row (\<lambda>v. sv_providerId v = u_id u \<and> sv_status v = S_ACTIVE \<and> sv_isAvailable v \<and> public_price v) (services s)"

definition getPublicServiceCount :: "time \<Rightarrow> db \<Rightarrow> nat" where
  "getPublicServiceCount now s = count_rows (publicServiceWhere now s) (services s)"

definition getActivePublicProviderCount :: "time \<Rightarrow> db \<Rightarrow> nat" where
  "getActivePublicProviderCount now s = count_rows (publicProviderWhere now s) (users s)"

definition getRecentlyPublishedServices :: "time \<Rightarrow> nat \<Rightarrow> time option \<Rightarrow> db \<Rightarrow> service_row list" where
  "getRecentlyPublishedServices now n since s = take n (sort_key (\<lambda>v. - the (sv_publishedAt v))
     (filter (\<lambda>v. publicServiceWhere now s v \<and> (case sv_publishedAt v of None \<Rightarrow> False
        | Some t \<Rightarrow> (case since of None \<Rightarrow> True | Some x \<Rightarrow> x \<le> t))) (services s)))"

record workload =
  wl_queueLimit :: nat
  wl_entries :: "(int \<times> int) list"
  wl_waiting :: nat

definition attachProviderWorkload :: "db \<Rightarrow> service_row \<Rightarrow> workload" where
  "attachProviderWorkload s v = (let entries = filter (\<lambda>q. q_providerId q = sv_providerId v \<and> q_status q \<in> {Q_WAITING, Q_SERVING}) (queues s) in
     \<lparr>wl_queueLimit = (case find_user (sv_providerId v) s of None \<Rightarrow> 5 | Some u \<Rightarrow> u_onlineQueueLimit u),
      wl_entries = map (\<lambda>q. (q_position q, q_estimatedWait q)) entries,
      wl_waiting = count_rows (\<lambda>q. q_status q = Q_WAITING) entries\<rparr>)"

definition attachEligibleProviderRatings :: "db \<Rightarrow> service_row \<Rightarrow> int list" where
  "attachEligibleProviderRatings s v = map rv_rating (filter (\<lambda>r. rv_targetId r = sv_providerId v \<and> rv_visible r \<and>
     (case find_row cs_id (rv_completedServiceId r) (completedServices s) of None \<Rightarrow> False | Some c \<Rightarrow> cs_providerId c = sv_providerId v))
     (reviews (contents s)))"

record browse_query =
  bq_categoryId :: "key option"
  bq_search :: "string option"
  bq_excludeProviderId :: "key option"
  bq_categoryName :: "string option"
  bq_ids :: "key list option"

definition contains_ci :: "string \<Rightarrow> string \<Rightarrow> bool" where
  "contains_ci needle hay \<longleftrightarrow> has_text (toLowerCase needle) (toLowerCase hay)"

definition category_name :: "db \<Rightarrow> key \<Rightarrow> string" where
  "category_name s i = (case find_category i s of None \<Rightarrow> [] | Some c \<Rightarrow> cg_name c)"

definition provider_name :: "db \<Rightarrow> key \<Rightarrow> string" where
  "provider_name s i = (case find_user i s of None \<Rightarrow> [] | Some u \<Rightarrow> lg_name (u_login u))"

definition browsed :: "browse_query \<Rightarrow> time \<Rightarrow> db \<Rightarrow> service_row \<Rightarrow> bool" where
  "browsed q now s v \<longleftrightarrow> publicServiceWhere now s v \<and>
     (case bq_ids q of None \<Rightarrow> True | Some ids \<Rightarrow> sv_id v \<in> set ids) \<and>
     (case bq_categoryId q of None \<Rightarrow> True | Some c \<Rightarrow> sv_categoryId v = c) \<and>
     (case bq_categoryName q of None \<Rightarrow> True | Some n \<Rightarrow> n = [] \<or> n = ''All Categories'' \<or>
        toLowerCase (category_name s (sv_categoryId v)) = toLowerCase (canonicalCategoryName n)) \<and>
     (case bq_excludeProviderId q of None \<Rightarrow> True | Some p \<Rightarrow> sv_providerId v \<noteq> p) \<and>
     (\<not> truthy (bq_search q) \<or> (let t = the (bq_search q) in contains_ci t (lt_title (sv_text v)) \<or> contains_ci t (lt_description (sv_text v)) \<or>
        contains_ci t (provider_name s (sv_providerId v)) \<or> contains_ci t (category_name s (sv_categoryId v))))"

definition trust_of :: "db \<Rightarrow> key \<Rightarrow> int" where
  "trust_of s i = (case find_user i s of None \<Rightarrow> 0 | Some u \<Rightarrow> u_trustScore u)"

text \<open>Highest trust first, then the newest; the table is in the order of creation.\<close>

definition browseServices :: "browse_query \<Rightarrow> time \<Rightarrow> db \<Rightarrow> (service_row \<times> workload \<times> int list) list" where
  "browseServices q now s = map (\<lambda>v. (v, attachProviderWorkload s v, attachEligibleProviderRatings s v))
     (sort_key (\<lambda>v. - trust_of s (sv_providerId v)) (rev (filter (browsed q now s) (services s))))"

definition public_view :: "service_row \<Rightarrow> service_row" where
  "public_view v = v\<lparr>sv_latitude := None, sv_longitude := None, sv_venueAddress := None\<rparr>"

definition getServiceById :: "time \<Rightarrow> key \<Rightarrow> (service_row \<times> workload) dbtx" where
  "getServiceById now i = tx_bind (query (\<lambda>s. case find_service i s of None \<Rightarrow> None
       | Some v \<Rightarrow> if publicServiceWhere now s v then Some (public_view v, attachProviderWorkload s v) else None))
     (expect (Http 404 ''Service not found''))"

definition getMyServices :: "key \<Rightarrow> db \<Rightarrow> (service_row \<times> workload \<times> int list) list" where
  "getMyServices providerId s = map (\<lambda>v. (v, attachProviderWorkload s v, attachEligibleProviderRatings s v))
     (rev (filter (\<lambda>v. sv_providerId v = providerId \<and> sv_status v \<noteq> S_DELETED) (services s)))"

end
