(* ===== verification/SH_Catalog.thy ===== *)
theory SH_Catalog
  imports SH_Listings SH_Runs
begin

text \<open>
  What the owner of listings can do to the catalogue: every operation keeps the rows well formed (ids below
  the next fresh one, one live listing of a provider with a title) and publishes within the plan.
\<close>

subsection \<open>Replacing one row\<close>

lemma count_replace:
  assumes "distinct (map key rs)" "v \<in> set rs" "key r = key v"
  shows "count_rows P (map_rows (\<lambda>w. key w = key v) (\<lambda>_. r) rs) + (if P v then 1 else 0) = count_rows P rs + (if P r then 1 else 0)"
  using assms
proof (induction rs)
  case (Cons w ws)
  have off: "map_rows (\<lambda>w. key w = key v) (\<lambda>_. r) ws = ws" if "key v \<notin> key ` set ws"
    using that by (intro map_rows_id) (metis image_eqI)
  show ?case
  proof (cases "w = v")
    case True
    then have "key v \<notin> key ` set ws" using Cons.prems(1) by simp
    from off[OF this] True show ?thesis by (simp add: map_rows_def count_rows_def)
  next
    case False
    then have "v \<in> set ws" using Cons.prems(2) by simp
    moreover from this have "key w \<noteq> key v" using Cons.prems(1) by force
    ultimately show ?thesis using Cons.IH Cons.prems(1,3) by (simp add: map_rows_def count_rows_def split: if_splits)
  qed
qed simp

lemma keys_replace: "key r = i \<Longrightarrow> map key (map_rows (\<lambda>w. key w = i) (\<lambda>_. r) rs) = map key rs"
  by (induction rs) (auto simp: map_rows_def)

subsection \<open>The catalogue\<close>

definition services_wf :: "db \<Rightarrow> bool" where
  "services_wf s \<longleftrightarrow> distinct (map sv_id (services s)) \<and> (\<forall>v \<in> set (services s). sv_id v < nextId s) \<and>
     (\<forall>v \<in> set (services s). \<not> title_taken v s)"

definition within_plan :: "time \<Rightarrow> key \<Rightarrow> db \<Rightarrow> bool" where
  "within_plan now p s \<longleftrightarrow> (case find_user p s of None \<Rightarrow> False
     | Some u \<Rightarrow> bn_marketplaceAccess (subscriptionBenefits u now) \<and>
         (case u_subscriptionPlan u of FREE \<Rightarrow> active_count p s \<le> 1 | BASIC \<Rightarrow> active_count p s \<le> 3 | PRO \<Rightarrow> True))"

definition stock_rel :: "time \<Rightarrow> key \<Rightarrow> db \<Rightarrow> db \<Rightarrow> bool" where
  "stock_rel now p s t \<longleftrightarrow> (services_wf s \<longrightarrow> services_wf t \<and> (\<forall>q. q \<noteq> p \<longrightarrow> active_count q t = active_count q s) \<and>
     (within_plan now p t \<or> users t = users s \<and> active_count p t \<le> active_count p s))"

lemma within_plan_mono: "within_plan now p s \<Longrightarrow> users t = users s \<Longrightarrow> active_count p t \<le> active_count p s \<Longrightarrow> within_plan now p t"
  by (auto simp: within_plan_def find_user_def split: option.splits plan.splits)

interpretation stock: step_rel "stock_rel now p" for now p
proof
  show "stock_rel now p s s" for s by (simp add: stock_rel_def)
  show "stock_rel now p s u" if "stock_rel now p s t" "stock_rel now p t u" for s t u
    using that within_plan_mono unfolding stock_rel_def by (metis le_trans)
qed

text \<open>Transactions that write neither a listing nor an account.\<close>

definition shelf_rel :: "db \<Rightarrow> db \<Rightarrow> bool" where
  "shelf_rel s t \<longleftrightarrow> services t = services s \<and> users t = users s \<and> nextId s \<le> nextId t"

interpretation shelf: step_rel shelf_rel
  by unfold_locales (auto simp: shelf_rel_def)

named_theorems shelf_rules \<open>transactions that write neither a listing nor an account\<close>
declare shelf.w_rules [shelf_rules]

lemma shelf_writes [shelf_rules]:
  "shelf.stays fresh_id" "shelf.stays (upd_contents f)" "shelf.stays (notify u t)" "shelf.stays (emit r e t)"
  "shelf.stays (notify_once n u t)" "shelf.stays (modify (queueNotifies_update g))" "shelf.stays (assertActiveMarketplaceAccount i)"
  by (rule shelf.staysI, auto simp: fresh_id_def upd_contents_def notify_def emit_def notify_once_def assertActiveMarketplaceAccount_def
    tx_iff shelf_rel_def notify_row_def split: if_splits option.splits)+

lemma shelf_photos [shelf_rules]: "shelf.stays (setListingPhotos p ids t)"
  unfolding setListingPhotos_def by (intro shelf_rules)

lemma shelf_moderation [shelf_rules]: "shelf.stays (record_moderation now a k r d)"
  unfolding record_moderation_def by (intro shelf_rules)

lemma shelf_gcash [shelf_rules]: "shelf.stays (assertListingGCashNumber p m)"
  unfolding assertListingGCashNumber_def by (intro shelf_rules)

lemma shelf_publish [shelf_rules]: "shelf.stays (publishNotifications us t)"
  unfolding publishNotifications_def by (intro shelf_rules)

lemma shelf_same:
  assumes "shelf_rel s t"
  shows "active_count q t = active_count q s" "services_wf s \<Longrightarrow> services_wf t" "find_service i t = find_service i s" "find_user i t = find_user i s"
  using assms by (auto simp: shelf_rel_def active_count_def services_wf_def title_taken_def find_service_def find_user_def)

lemma stock_shelf: "shelf.stays m \<Longrightarrow> stock.stays now p m"
  by (rule stock.staysI) (use shelf_same in \<open>auto simp: stock_rel_def dest!: shelf.staysD\<close>; simp add: shelf_rel_def)

lemma stock_enrol: "assertNewProviderBusiness now p s = Inr (u, t) \<Longrightarrow>
    services t = services s \<and> nextId t = nextId s \<and> find_user p t = Some u \<and> bn_marketplaceAccess (subscriptionBenefits u now)"
  using assertNewProviderBusiness_frame[of now p s u t]
  by (auto simp: assertNewProviderBusiness_Inr ensureProviderTrial_Inr find_user_def split: if_splits)

lemma room_left: "assertListingCapacity u n now = Inr x \<Longrightarrow> find_user p t = Some u \<Longrightarrow> active_count p t \<le> Suc n \<Longrightarrow> within_plan now p t"
  using assertListingCapacity_iff[of u n now] by (auto simp: within_plan_def split: plan.splits)

text \<open>A new listing, and a listing written in its place.\<close>

lemma insert_service_stock:
  assumes "insert_service v s = Inr (x, t)" "services_wf s" "sv_id v < nextId s" "sv_id v \<notin> sv_id ` set (services s)"
  shows "services_wf t \<and> users t = users s \<and> nextId t = nextId s \<and>
    active_count q t = active_count q s + (if sv_providerId v = q \<and> sv_status v = S_ACTIVE then 1 else 0)"
proof -
  have t: "t = s\<lparr>services := services s @ [v]\<rparr>" and free: "\<not> title_taken v s"
    using assms(1) by (auto simp: insert_service_def unique_def tx_iff)
  have "\<not> title_taken w t" if "w \<in> set (services t)" for w
    using that free assms(2) unfolding t services_wf_def title_taken_def by (auto simp: ball_Un)
  then show ?thesis using assms(2-4) unfolding t services_wf_def active_count_def by (auto simp: count_rows_def)
qed

lemma write_service_stock:
  assumes run: "write_service r s = Inr (x, t)" and wf: "services_wf s" and v: "v \<in> set (services s)"
    and same: "sv_id r = sv_id v" "sv_providerId r = sv_providerId v"
  shows "services_wf t \<and> users t = users s \<and> nextId t = nextId s \<and> (q \<noteq> sv_providerId v \<longrightarrow> active_count q t = active_count q s) \<and>
    active_count (sv_providerId v) t + (if sv_status v = S_ACTIVE then 1 else 0) =
    active_count (sv_providerId v) s + (if sv_status r = S_ACTIVE then 1 else 0)"
proof -
  let ?rows = "map_rows (\<lambda>w. sv_id w = sv_id v) (\<lambda>_. r) (services s)"
  have t: "t = s\<lparr>services := ?rows\<rparr>" and free: "\<not> title_taken r s"
    using run same by (auto simp: write_service_def unique_def tx_iff)
  have d: "distinct (map sv_id (services s))" using wf by (simp add: services_wf_def)
  have rows: "w = r \<or> w \<in> set (services s) \<and> sv_id w \<noteq> sv_id v" if "w \<in> set ?rows" for w
    using that by (auto simp: set_map_rows split: if_splits)
  have "\<not> title_taken w t" if w: "w \<in> set (services t)" for w
  proof
    assume "title_taken w t"
    then obtain y where y: "y \<in> set ?rows" "sv_id y \<noteq> sv_id w" "live_listing w" "live_listing y" "sv_providerId y = sv_providerId w"
      "lt_titleNormalized (sv_text y) = lt_titleNormalized (sv_text w)" by (auto simp: title_taken_def t)
    have w': "w = r \<or> w \<in> set (services s) \<and> sv_id w \<noteq> sv_id v" using w rows by (simp add: t)
    from rows[OF y(1)] w' y(2) same(1) consider "y = r" "w \<in> set (services s)" | "y \<in> set (services s)" "w = r"
      | "y \<in> set (services s)" "w \<in> set (services s)" by auto
    then show False
      using y free wf unfolding services_wf_def title_taken_def exists_row_iff by cases metis+
  qed
  moreover have "map sv_id ?rows = map sv_id (services s)" using same(1) by (intro keys_replace) simp
  moreover have "\<forall>w \<in> set ?rows. sv_id w < nextId s" using rows wf v same(1) unfolding services_wf_def by metis
  ultimately have "services_wf t" using d unfolding services_wf_def t by simp
  moreover have "active_count b t + (if sv_providerId v = b \<and> sv_status v = S_ACTIVE then 1 else 0) =
      active_count b s + (if sv_providerId r = b \<and> sv_status r = S_ACTIVE then 1 else 0)" for b
    unfolding active_count_def t using count_replace[OF d v same(1), where P = "\<lambda>w. sv_providerId w = b \<and> sv_status w = S_ACTIVE"] by simp
  note this[of q] this[of "sv_providerId v"]
  moreover have "users t = users s" "nextId t = nextId s" by (simp_all add: t)
  ultimately show ?thesis using same(2) by auto
qed


subsection \<open>The operations of the owner\<close>

lemma gcash_same: "assertListingGCashNumber p m s = Inr (x, t) \<Longrightarrow> t = s"
  by (auto simp: assertListingGCashNumber_def tx_iff split: if_splits option.splits)

lemma publish_listing_Inr:
  "publish_listing lx now p input s = Inr (v, t) \<longleftrightarrow> (\<exists>u s1 c d.
     assertActiveMarketplaceAccount p s = Inr ((), s) \<and> assertListingGCashNumber p (Some (li_paymentMethods input)) s = Inr ((), s) \<and>
     assertNewProviderBusiness now p s = Inr (u, s1) \<and> assertListingCapacity u (active_count p s) now = Inr () \<and>
     active_category (li_category input) s1 = Some c \<and>
     d = assessMarketplaceContent lx SERVICE_LISTING (cg_name c) (li_title input) (li_description input) \<and> cd_outcome d \<noteq> REVISE \<and>
     store_listing now p input (cg_id c) d s1 = Inr (v, t))"
  unfolding publish_listing_def Let_def tx_bind_Inr tx_seq_Inr query_Inr expect_Inr ensure_Inr lift_sum_Inr
  by (auto simp: assertActiveMarketplaceAccount_Inr dest: gcash_same)

lemma store_listing_Inr:
  assumes "store_listing now p input c d s1 = Inr (v, t)"
  obtains i s2 s3 where "fresh_id s1 = Inr (i, s2)" "v = new_listing now i p c input d" "insert_service v s2 = Inr ((), s3)"
    "shelf_rel s3 t" "photos_of i (servicePhotos (contents t)) = li_photoIds input"
proof -
  let ?tail = "\<lambda>i w. tx_seq (record_moderation now p SERVICE_LISTING (Some i) d) (tx_seq (notify p ''Listing Published'')
      (tx_seq (setListingPhotos p (li_photoIds input) (PT_Service i)) (ret w)))"
  have rest: "shelf.stays (?tail i w)" for i w by (intro shelf_rules)
  from assms obtain i s2 s3 y where 1: "fresh_id s1 = Inr (i, s2)" "insert_service (new_listing now i p c input d) s2 = Inr (y, s3)"
    and 2: "?tail i (new_listing now i p c input d) s3 = Inr (v, t)"
    unfolding store_listing_def Let_def tx_bind_Inr tx_seq_Inr[of "insert_service z" for z] by blast
  moreover from 2 have "v = new_listing now i p c input d" "photos_of i (servicePhotos (contents t)) = li_photoIds input"
    by (auto simp: tx_iff photos_of_relink dest!: setListingPhotos_Inr)
  ultimately show thesis using that shelf.staysD[OF rest] by (metis unit_eq)
qed

lemma stock_publish: "stock.stays now p (publish_listing lx now p input)"
proof (rule stock.staysI)
  fix s v t assume "publish_listing lx now p input s = Inr (v, t)"
  then obtain u s1 d and c :: category_row where e: "assertNewProviderBusiness now p s = Inr (u, s1)" and cap: "assertListingCapacity u (active_count p s) now = Inr ()"
    and st: "store_listing now p input (cg_id c) d s1 = Inr (v, t)" unfolding publish_listing_Inr by blast
  obtain i s2 s3 where i: "fresh_id s1 = Inr (i, s2)" and v: "v = new_listing now i p (cg_id c) input d" and ins: "insert_service v s2 = Inr ((), s3)"
    and end_rel: "shelf_rel s3 t" and "photos_of i (servicePhotos (contents t)) = li_photoIds input" by (rule store_listing_Inr[OF st])
  note e = stock_enrol[OF e]
  have s2: "services s2 = services s" "i = nextId s" "nextId s2 = Suc (nextId s)" "users s2 = users s1" using i e by (auto simp: fresh_id_def)
  have row: "sv_id v = i" "sv_providerId v = p" "sv_status v = S_ACTIVE" by (simp_all add: v new_listing_def Let_def)
  show "stock_rel now p s t"
    unfolding stock_rel_def
  proof
    assume wf: "services_wf s"
    then have "services_wf s2" "sv_id v < nextId s2" "sv_id v \<notin> sv_id ` set (services s2)"
      using s2 row by (auto simp: services_wf_def title_taken_def)
    note n = insert_service_stock[OF ins this]
    have same: "active_count q s2 = active_count q s" for q using s2 by (simp add: active_count_def)
    have count: "active_count q t = active_count q s + (if p = q then 1 else 0)" for q
      using n[of q] shelf_same(1)[OF end_rel] row same by simp
    have "find_user p t = Some u" using e s2 n shelf_same(4)[OF end_rel] by (simp add: find_user_def)
    then have "within_plan now p t" by (rule room_left[OF cap]) (simp add: count)
    then show "services_wf t \<and> (\<forall>q. q \<noteq> p \<longrightarrow> active_count q t = active_count q s) \<and>
        (within_plan now p t \<or> users t = users s \<and> active_count p t \<le> active_count p s)"
      using n shelf_same(2)[OF end_rel] count by auto
  qed
qed

lemma edit_reads: "own_listing i p s = Inr (z, t) \<Longrightarrow> t = s" "edited_category d v s = Inr (x, t) \<Longrightarrow> t = s" "reassess lx d c v s = Inr (y, t) \<Longrightarrow> t = s"
  by (auto simp: own_listing_def edited_category_def reassess_def Let_def tx_iff split: option.splits if_splits)

lemma own_listing_Inr: "own_listing i p s = Inr (v, t) \<longleftrightarrow> t = s \<and> find_service i s = Some v \<and> sv_providerId v = p \<and> sv_status v \<noteq> S_DELETED"
  by (auto simp: own_listing_def tx_iff split: option.splits if_splits)

lemma ready_edit_Inr:
  assumes "ready_edit i p d s = Inr ((v, c), t)"
  shows "t = s \<and> find_service i s = Some v \<and> sv_providerId v = p \<and> sv_status v \<noteq> S_DELETED \<and> sv_status v \<noteq> S_SUSPENDED \<and>
    edited_category d v s = Inr (c, s)"
  using assms unfolding ready_edit_def tx_bind_Inr tx_seq_Inr ensure_Inr ret_Inr assertActiveMarketplaceAccount_Inr own_listing_Inr
  by (elim exE conjE) (auto dest!: gcash_same dest: edit_reads)

lemma check_edit_Inr:
  "check_edit lx i p d s = Inr ((v, c, a), t) \<longleftrightarrow> t = s \<and> ready_edit i p d s = Inr ((v, c), s) \<and> reassess lx d c v s = Inr (a, s)"
  by (auto simp: check_edit_def tx_bind_Inr ret_Inr dest: ready_edit_Inr edit_reads)

lemma edit_listing_Inr:
  assumes "edit_listing lx now i p d s = Inr (r, t)"
  obtains v c a s1 s2 s3 where "check_edit lx i p d s = Inr ((v, c, a), s)" "edit_room now p v a s = Inr ((), s1)" "shelf_rel s1 s2"
    "r = revised_listing now d c a v" "write_service r s2 = Inr ((), s3)" "shelf_rel s3 t"
proof -
  have quiet: "shelf.stays (edit_details i p d v)" "shelf.stays (record_edit now i p a)" for v a
    unfolding edit_details_def record_edit_def by (intro shelf_rules)+
  from assms obtain v c a s0 s1 s2 s3 where "check_edit lx i p d s = Inr ((v, c, a), s0)" "edit_room now p v a s0 = Inr ((), s1)"
    "edit_details i p d v s1 = Inr ((), s2)" "r = revised_listing now d c a v" "write_service r s2 = Inr ((), s3)" "record_edit now i p a s3 = Inr ((), t)"
    unfolding edit_listing_def Let_def tx_bind_Inr tx_seq_Inr ret_Inr by (auto simp: tx_iff)
  moreover from this(1) have "s0 = s" by (simp add: check_edit_Inr)
  ultimately show thesis using quiet[THEN shelf.staysD] that by metis
qed

text \<open>Room in the plan for one more than \<open>n\<close> active listings.\<close>

definition room_for :: "time \<Rightarrow> key \<Rightarrow> nat \<Rightarrow> db \<Rightarrow> db \<Rightarrow> bool" where
  "room_for now p n s t \<longleftrightarrow> services t = services s \<and> nextId s \<le> nextId t \<and>
     (\<forall>t'. users t' = users t \<longrightarrow> active_count p t' \<le> Suc n \<longrightarrow> within_plan now p t')"

lemma room_step:
  assumes "tx_bind (query f) (\<lambda>n. tx_bind (assertNewProviderBusiness now p) (\<lambda>u. lift_sum (assertListingCapacity u n now))) s = Inr (x, t)"
  shows "room_for now p (f s) s t"
proof -
  obtain u where e: "assertNewProviderBusiness now p s = Inr (u, t)" and cap: "assertListingCapacity u (f s) now = Inr x"
    using assms by (auto simp: tx_iff)
  show ?thesis using stock_enrol[OF e] room_left[OF cap] unfolding room_for_def find_user_def by (metis order_refl)
qed

lemma room_Inr:
  "edit_room now p v a s = Inr (x, t) \<Longrightarrow>
     if a \<noteq> None \<and> sv_status v \<notin> {S_ACTIVE, S_INACTIVE} then room_for now p (active_count p s) s t else t = s"
  "resume_room now i p b s = Inr (x, t) \<Longrightarrow> if b then room_for now p (active_others i p s) s t else t = s"
  using room_step unfolding edit_room_def resume_room_def by (auto simp: ret_Inr split: if_splits)

text \<open>A row written after the room was checked.\<close>

lemma stock_write:
  assumes run: "write_service r s2 = Inr ((), s3)" and v: "v \<in> set (services s)" and same: "sv_id r = sv_id v" "sv_providerId r = p" "sv_providerId v = p"
    and before: "services s2 = services s" "nextId s \<le> nextId s2" and after: "shelf_rel s3 t"
    and room: "services_wf s \<Longrightarrow> room_for now p n s s2 \<and> (\<forall>t'. active_count p t' + (if sv_status v = S_ACTIVE then 1 else 0) = active_count p s + (if sv_status r = S_ACTIVE then 1 else 0) \<longrightarrow> active_count p t' \<le> Suc n)
       \<or> users s2 = users s \<and> (sv_status r = S_ACTIVE \<longrightarrow> sv_status v = S_ACTIVE)"
  shows "stock_rel now p s t"
  unfolding stock_rel_def
proof
  assume wf: "services_wf s"
  then have wf2: "services_wf s2" using before by (auto simp: services_wf_def title_taken_def)
  have same2: "active_count q s2 = active_count q s" for q using before by (simp add: active_count_def)
  have v2: "v \<in> set (services s2)" using v before by simp
  note w = write_service_stock[OF run wf2 v2 same(1), unfolded same, OF refl]
  have u: "users t = users s2" using w after by (simp add: shelf_rel_def)
  have c: "active_count p t + (if sv_status v = S_ACTIVE then 1 else 0) = active_count p s + (if sv_status r = S_ACTIVE then 1 else 0)"
    using w same2 shelf_same(1)[OF after] by simp
  have "within_plan now p t \<or> users t = users s \<and> active_count p t \<le> active_count p s"
    using room[OF wf]
  proof
    assume "users s2 = users s \<and> (sv_status r = S_ACTIVE \<longrightarrow> sv_status v = S_ACTIVE)"
    then show ?thesis using c u by (auto split: if_splits)
  qed (use c u in \<open>simp add: room_for_def\<close>)
  moreover have "active_count q t = active_count q s" if "q \<noteq> p" for q using w[of q] that same2 shelf_same(1)[OF after] by simp
  ultimately show "services_wf t \<and> (\<forall>q. q \<noteq> p \<longrightarrow> active_count q t = active_count q s) \<and>
      (within_plan now p t \<or> users t = users s \<and> active_count p t \<le> active_count p s)"
    using w shelf_same(2)[OF after] by blast
qed

lemma found_listing: "find_service i s = Some v \<Longrightarrow> v \<in> set (services s) \<and> sv_id v = i"
  unfolding find_service_def by (rule find_row_Some)

lemma stock_edit: "stock.stays now p (edit_listing lx now i p d)"
proof (rule stock.staysI)
  fix s r t assume "edit_listing lx now i p d s = Inr (r, t)"
  then obtain v c a s1 s2 s3 where chk: "check_edit lx i p d s = Inr ((v, c, a), s)" and room: "edit_room now p v a s = Inr ((), s1)" and mid: "shelf_rel s1 s2"
    and r: "r = revised_listing now d c a v" and run: "write_service r s2 = Inr ((), s3)" and after: "shelf_rel s3 t" by (rule edit_listing_Inr)
  note chk = ready_edit_Inr[OF conjunct1[OF conjunct2[OF chk[unfolded check_edit_Inr]]]] and room = room_Inr(1)[OF room]
  have row: "sv_id r = sv_id v" "sv_providerId r = sv_providerId v"
    "sv_status r = (if a = None then sv_status v else if sv_status v = S_INACTIVE then S_INACTIVE else S_ACTIVE)"
    by (simp_all add: r revised_listing_def Let_def)
  have before: "services s2 = services s" "nextId s \<le> nextId s2"
    using room mid by (auto simp: shelf_rel_def room_for_def split: if_splits)
  have "room_for now p (active_count p s) s s2 \<or> users s2 = users s \<and> (sv_status r = S_ACTIVE \<longrightarrow> sv_status v = S_ACTIVE)"
  proof (cases "a \<noteq> None \<and> sv_status v \<notin> {S_ACTIVE, S_INACTIVE}")
    case True
    then have "room_for now p (active_count p s) s s1" using room by simp
    then show ?thesis using mid before by (auto simp: room_for_def shelf_rel_def)
  next
    case False
    then have "s1 = s" using room by (auto split: if_splits)
    then show ?thesis using mid row False by (auto simp: shelf_rel_def split: if_splits)
  qed
  then show "stock_rel now p s t"
    using chk row found_listing[of i s v] by (intro stock_write[OF run _ row(1) _ _ before after]) (auto split: if_splits)
qed

lemma toggle_listing_Inr:
  assumes "toggle_listing now i p s = Inr (r, t)"
  obtains v s1 b where "find_service i s = Some v" "sv_providerId v = p" "b = (sv_status v = S_INACTIVE \<or> \<not> sv_isAvailable v)"
    "resume_room now i p b s = Inr ((), s1)" "sv_id r = sv_id v" "sv_providerId r = p" "sv_status r = (if b then S_ACTIVE else S_INACTIVE)"
    "write_service r s1 = Inr ((), t)"
  using assms unfolding toggle_listing_def Let_def tx_bind_Inr tx_seq_Inr query_Inr expect_Inr ret_Inr assertActiveMarketplaceAccount_Inr
  by (elim exE conjE) (rule that, auto split: option.splits if_splits)

lemma others_count:
  assumes "services_wf s" "find_service i s = Some v" "sv_providerId v = p"
  shows "active_count p s = active_others i p s + (if sv_status v = S_ACTIVE then 1 else 0)"
proof -
  define off where "off = v\<lparr>sv_status := S_DELETED\<rparr>"
  have v: "v \<in> set (services s)" "sv_id v = i" using found_listing[OF assms(2)] by simp_all
  have "count_rows (\<lambda>w. sv_providerId w = p \<and> sv_status w = S_ACTIVE) (map_rows (\<lambda>w. sv_id w = sv_id v) (\<lambda>_. off) (services s)) = active_others i p s"
    unfolding active_others_def count_rows_def map_rows_def filter_map length_map v(2) by (intro arg_cong[of _ _ length] filter_cong) (auto simp: off_def)
  with count_replace[of sv_id "services s" v off "\<lambda>w. sv_providerId w = p \<and> sv_status w = S_ACTIVE"] show ?thesis
    using assms(1,3) v by (simp add: services_wf_def active_count_def off_def)
qed

lemma stock_toggle: "stock.stays now p (toggle_listing now i p)"
proof (rule stock.staysI)
  fix s r t assume "toggle_listing now i p s = Inr (r, t)"
  then obtain v s1 b where v: "find_service i s = Some v" "sv_providerId v = p" and "b = (sv_status v = S_INACTIVE \<or> \<not> sv_isAvailable v)"
    and room: "resume_room now i p b s = Inr ((), s1)" and row: "sv_id r = sv_id v" "sv_providerId r = p" "sv_status r = (if b then S_ACTIVE else S_INACTIVE)"
    and run: "write_service r s1 = Inr ((), t)" by (rule toggle_listing_Inr)
  note room = room_Inr(2)[OF room]
  have "services s1 = services s" "nextId s \<le> nextId s1" using room by (auto simp: room_for_def split: if_splits)
  moreover have "room_for now p (active_others i p s) s s1 \<and>
      (\<forall>t'. active_count p t' + (if sv_status v = S_ACTIVE then 1 else 0) = active_count p s + (if sv_status r = S_ACTIVE then 1 else 0) \<longrightarrow>
        active_count p t' \<le> Suc (active_others i p s))
      \<or> users s1 = users s \<and> (sv_status r = S_ACTIVE \<longrightarrow> sv_status v = S_ACTIVE)" if "services_wf s"
    using others_count[OF that v] room row(3) by (cases b) (auto split: if_splits)
  ultimately show "stock_rel now p s t"
    using v found_listing[OF v(1)] row by (intro stock_write[OF run]) (auto intro: shelf.R_refl)
qed

lemma remove_listing_Inr:
  assumes "remove_listing i s = Inr ((r, ks), t)"
  obtains v s1 where "find_service i s = Some v" "shelf_rel s s1" "r = v\<lparr>sv_status := S_DELETED, sv_isAvailable := False\<rparr>"
    "write_service r s1 = Inr ((), t)"
proof -
  have quiet: "shelf.stays (tell_inquirers i)" unfolding tell_inquirers_def by (intro shelf_rules)
  from assms obtain s1 v where 1: "tell_inquirers i s = Inr (ks, s1)" and 2: "find_service i s1 = Some v" "r = v\<lparr>sv_status := S_DELETED, sv_isAvailable := False\<rparr>"
    "write_service r s1 = Inr ((), t)"
    unfolding remove_listing_def Let_def tx_bind_Inr tx_seq_Inr query_Inr expect_Inr ret_Inr by auto
  have "shelf_rel s s1" by (rule shelf.staysD[OF quiet 1])
  with 2 that shelf_same(3)[OF this] show thesis by simp
qed

lemma stock_remove:
  assumes run: "remove_listing i s = Inr ((r, ks), t)" and own: "map_option sv_providerId (find_service i s) = Some p"
  shows "stock_rel now p s t"
proof -
  obtain v s1 where v: "find_service i s = Some v" "shelf_rel s s1" and r: "r = v\<lparr>sv_status := S_DELETED, sv_isAvailable := False\<rparr>"
    and w: "write_service r s1 = Inr ((), t)" by (rule remove_listing_Inr[OF run])
  then show ?thesis using own found_listing[OF v(1)]
    by (intro stock_write[OF w, where v = v]) (auto simp: shelf_rel_def)
qed

lemma p_stock: "stock.stays now p m \<Longrightarrow> p_keeps (stock_rel now p s0) (transact m)"
  by (rule p_keeps_transact, rule keepsI) (metis stock.staysD stock.R_trans)

lemma p_shelf: "shelf.stays m \<Longrightarrow> p_keeps (stock_rel now p s0) (transact m)"
  by (rule p_stock, rule stock_shelf)

lemma p_refusal: "p_keeps (stock_rel now p s0) (record_refusal lx n a k r c t d e)"
  unfolding record_refusal_def by (intro p_flow p_shelf shelf_rules)

lemma owner_processes:
  "p_keeps (stock_rel now p s0) (createService lx now p input)"
  "p_keeps (stock_rel now p s0) (updateService lx now i p d)"
  "p_keeps (stock_rel now p s0) (toggleServiceAvailability now i p)"
  unfolding createService_def updateService_def toggleServiceAvailability_def
  by (intro p_flow p_refusal p_stock[OF stock_publish] p_stock[OF stock_edit] p_stock[OF stock_toggle] p_shelf shelf_rules)+

lemma deleteService_stock: "deleteService i p s = (r, t) \<Longrightarrow> stock_rel now p s t"
proof -
  assume run: "deleteService i p s = (r, t)"
  let ?own = "map_option sv_providerId (find_service i s) = Some p"
  let ?tail = "\<lambda>x :: service_row \<times> key list. case x of (r, ks) \<Rightarrow> p_seq (transact (publishNotifications ks ''Requested service listing removed'')) (p_ret r)"
  have tail: "p_keeps (stock_rel now p s) (?tail x)" for x
    by (intro p_flow p_shelf shelf_rules)
  show ?thesis
  proof (cases "?own \<and> \<not> listing_in_use i s")
    case False
    then have "t = s" using run by (auto simp: deleteService_def p_bind_query p_seq_ensure split: if_splits)
    then show ?thesis by (simp add: stock.R_refl)
  next
    case True
    then have run': "p_bind (transact (remove_listing i)) ?tail s = (r, t)" using run by (simp add: deleteService_def p_bind_query p_seq_ensure)
    show ?thesis
    proof (cases "remove_listing i s")
      case (Inl e)
      then show ?thesis using run' by (simp add: p_bind_def transact_def stock.R_refl)
    next
      case (Inr y)
      obtain v ks s1 where y: "y = ((v, ks), s1)" by (metis surj_pair)
      then have "?tail (v, ks) s1 = (r, t)" using run' Inr by (simp add: p_bind_def transact_def)
      with p_keeps_run[OF tail stock_remove[OF Inr[unfolded y]]] True show ?thesis by blast
    qed
  qed
qed

subsection \<open>Publishing within the plan\<close>

text \<open>One operation of the owner \<open>p\<close> at the instant \<open>now\<close>, whether it succeeds or not.\<close>

inductive listing_step :: "lexicon \<Rightarrow> time \<Rightarrow> key \<Rightarrow> db \<Rightarrow> db \<Rightarrow> bool" for lx now p where
  created: "createService lx now p input s = (r, t) \<Longrightarrow> listing_step lx now p s t"
| edited: "updateService lx now i p d s = (r, t) \<Longrightarrow> listing_step lx now p s t"
| toggled: "toggleServiceAvailability now i p s = (r, t) \<Longrightarrow> listing_step lx now p s t"
| deleted: "deleteService i p s = (r, t) \<Longrightarrow> listing_step lx now p s t"

lemma listing_step_stock: "listing_step lx now p s t \<Longrightarrow> stock_rel now p s t"
proof (induction rule: listing_step.induct)
  case (deleted i s r t)
  then show ?case by (rule deleteService_stock)
qed (rule p_keeps_run[OF owner_processes(1) stock.R_refl] p_keeps_run[OF owner_processes(2) stock.R_refl]
  p_keeps_run[OF owner_processes(3) stock.R_refl], assumption)+

text \<open>C24: A provider publishes within the plan: an operation on listings that leaves more of the owner's listings
  active than before leaves the membership running and at most one active listing on Free, three on Basic. It
  never changes how many listings another provider has active, and keeps the catalogue well formed: distinct
  ids, and at most one live listing of a provider with a title.\<close>

theorem listing_capacity:
  assumes "listing_step lx now p s s'" "services_wf s"
  shows "services_wf s' \<and> (active_count p s' \<le> active_count p s \<or> within_plan now p s') \<and>
    (\<forall>q. q \<noteq> p \<longrightarrow> active_count q s' = active_count q s)"
  using listing_step_stock[OF assms(1)] assms(2) unfolding stock_rel_def by blast

definition paused_listing :: service_row where
  "paused_listing = sample_service\<lparr>sv_status := S_INACTIVE, sv_serviceLocationMode := REMOTE, sv_paymentMethods := \<lparr>pm_cash = True, pm_gcash = False\<rparr>\<rparr>"

definition sample_catalog_db :: db where
  "sample_catalog_db = empty_db\<lparr>users := [ready_user 2], services := [paused_listing], nextId := 50\<rparr>"

lemma sample_catalog: "services_wf sample_catalog_db"
  by (simp add: services_wf_def title_taken_def sample_catalog_db_def empty_db_def paused_listing_def sample_service_def)

theorem listing_capacity_witness:
  "\<exists>v t. toggleServiceAvailability 1000 10 2 sample_catalog_db = (Inr v, t) \<and> active_count 2 t = 1 \<and> services_wf t \<and> within_plan 1000 2 t"
proof -
  let ?run = "toggleServiceAvailability 1000 10 2 sample_catalog_db"
  have "\<not> isl (fst ?run) \<and> active_count 2 (snd ?run) = 1 \<and> active_count 2 sample_catalog_db = 0" by code_simp
  moreover from this obtain v t where "?run = (Inr v, t)" using done_some by blast
  ultimately show ?thesis using listing_capacity[OF listing_step.toggled[of 1000 10 2 sample_catalog_db _ _ undefined] sample_catalog] by auto
qed

subsection \<open>An edit of the spacing\<close>

definition title_change :: "string \<Rightarrow> listing_changes" where
  "title_change t = \<lparr>lc_category = None, lc_title = Some t, lc_description = None, lc_price = None, lc_priceType = None, lc_location = None,
     lc_publicMapPin = None, lc_mode = None, lc_venueAddress = None, lc_transportationFee = None, lc_durationMins = None,
     lc_paymentMethods = None, lc_photoIds = None\<rparr>"

lemma write_service_found:
  assumes "write_service r s = Inr (x, t)" "find_service (sv_id r) s = Some v"
  shows "find_service (sv_id r) t = Some r"
proof -
  have t: "t = s\<lparr>services := map_rows (\<lambda>w. sv_id w = sv_id r) (\<lambda>_. r) (services s)\<rparr>" using assms(1) by (auto simp: write_service_def unique_def tx_iff)
  have "find_row sv_id (sv_id r) (map_rows (\<lambda>w. sv_id w = sv_id r) (\<lambda>_. r) ws) = map_option (\<lambda>_. r) (find_row sv_id (sv_id r) ws)" for ws
    by (induction ws) (auto simp: find_row_def map_rows_def)
  then show ?thesis using assms(2) by (simp add: t find_service_def)
qed



subsection \<open>What is published\<close>

lemma createService_Inr:
  assumes "createService lx now p input s = (Inr v, t)"
  obtains t0 where "publish_listing lx now p input s = Inr (v, t0)" "shelf_rel t0 t" "contents t = contents t0"
proof (cases "publish_listing lx now p input s")
  case (Inl e)
  then show thesis using assms by (auto simp: createService_def p_bind_def p_catch_def p_seq_def transact_def fail_def query_def split: sum.splits prod.splits)
next
  case (Inr y)
  obtain w t0 where y: "y = (w, t0)" by (cases y)
  with Inr assms have "v = w \<and> shelf_rel t0 t \<and> contents t = contents t0"
    by (auto simp: createService_def p_bind_def p_catch_def p_seq_def transact_def p_ret_def emit_def modify_def shelf_rel_def)
  with that Inr y show thesis by blast
qed

text \<open>C25: A listing that is created is published as it was entered: it is the one new row, active, with the provider's text,
  price and photos in their order, in an active category; the content policy passes its text for that category;
  remote work shows no venue and no travel fee.\<close>

theorem published_listing:
  assumes "createService lx now p input s = (Inr v, t)"
  shows "\<exists>c. active_category (li_category input) s = Some c \<and> sv_categoryId v = cg_id c \<and>
    cd_outcome (assessMarketplaceContent lx SERVICE_LISTING (cg_name c) (lt_title (sv_text v)) (lt_description (sv_text v))) = PASS \<and>
    services t = services s @ [v] \<and> sv_providerId v = p \<and> sv_status v = S_ACTIVE \<and> sv_isAvailable v \<and> sv_price v = li_price input \<and>
    lt_title (sv_text v) = li_title input \<and> lt_description (sv_text v) = li_description input \<and>
    photos_of (sv_id v) (servicePhotos (contents t)) = li_photoIds input \<and>
    (li_mode input = REMOTE \<longrightarrow> sv_venueAddress v = None \<and> sv_transportationFee v = None)"
proof -
  obtain t0 where pub: "publish_listing lx now p input s = Inr (v, t0)" and out: "shelf_rel t0 t" "contents t = contents t0"
    by (rule createService_Inr[OF assms])
  from pub obtain u s1 c d where e: "assertNewProviderBusiness now p s = Inr (u, s1)" and c: "active_category (li_category input) s1 = Some c"
    and d: "d = assessMarketplaceContent lx SERVICE_LISTING (cg_name c) (li_title input) (li_description input)" "cd_outcome d \<noteq> REVISE"
    and st: "store_listing now p input (cg_id c) d s1 = Inr (v, t0)" unfolding publish_listing_Inr by blast
  obtain i s2 s3 where i: "fresh_id s1 = Inr (i, s2)" and v: "v = new_listing now i p (cg_id c) input d" and ins: "insert_service v s2 = Inr ((), s3)"
    and tail: "shelf_rel s3 t0" and ph: "photos_of i (servicePhotos (contents t0)) = li_photoIds input" by (rule store_listing_Inr[OF st])
  obtain us where "s1 = s\<lparr>users := us\<rparr>" using assertNewProviderBusiness_frame[OF e] by blast
  then have f: "contents s1 = contents s" "services s1 = services s" by simp_all
  have "active_category (li_category input) s = Some c" using c f by (cases "li_category input") simp_all
  moreover have "services t = services s @ [v]"
    using ins i f tail out by (auto simp: insert_service_def unique_def tx_iff fresh_id_def shelf_rel_def)
  moreover have "cd_outcome d = PASS" using d(2) by (cases "cd_outcome d") simp_all
  ultimately show ?thesis using d(1) ph out(2) by (intro exI[of _ c]) (simp add: v new_listing_def Let_def)
qed

definition sample_listing :: listing_input where
  "sample_listing = \<lparr>li_category = CategoryId 1, li_title = ''fix'', li_description = [], li_price = Some 200, li_priceType = FIXED,
     li_location = None, li_publicMapPin = False, li_mode = REMOTE, li_venueAddress = None, li_transportationFee = None, li_durationMins = 60,
     li_paymentMethods = \<lparr>pm_cash = True, pm_gcash = False\<rparr>, li_photoIds = [7]\<rparr>"

definition sample_market_db :: db where
  "sample_market_db = empty_db\<lparr>users := [ready_user 2], nextId := 50, contents := (contents empty_db)\<lparr>
     categories := [\<lparr>cg_id = 1, cg_name = ''Aircon Cleaning & Repair'', cg_isActive = True\<rparr>],
     listingPhotos := [\<lparr>ph_id = 7, ph_ownerId = Some 2, ph_publicId = ''p7'', ph_createdAt = 0\<rparr>]\<rparr>\<rparr>"

theorem published_listing_witness:
  "\<exists>v t. createService \<lparr>explicitProfanity = [''damn''], explicitHateTerms = []\<rparr> 1000 2 sample_listing sample_market_db = (Inr v, t) \<and>
     services t = [v] \<and> photos_of (sv_id v) (servicePhotos (contents t)) = [7]"
proof -
  let ?lx = "\<lparr>explicitProfanity = [''damn''], explicitHateTerms = []\<rparr>" and ?s = sample_market_db and ?c = "hd (categories (contents sample_market_db))"
  let ?s1 = "snd (projr (assertNewProviderBusiness 1000 2 ?s))"
  have "\<not> isl (assertNewProviderBusiness 1000 2 ?s) \<and> \<not> isl (store_listing 1000 2 sample_listing 1 (decision_of PASS CLEAR None) ?s1) \<and>
      active_category (CategoryId 1) ?s1 = Some ?c \<and> cg_id ?c = 1 \<and> cg_name ?c = ''Aircon Cleaning & Repair'' \<and>
      li_category sample_listing = CategoryId 1 \<and> assertListingCapacity (fst (projr (assertNewProviderBusiness 1000 2 ?s))) (active_count 2 ?s) 1000 = Inr () \<and>
      assertActiveMarketplaceAccount 2 ?s = Inr ((), ?s) \<and> assertListingGCashNumber 2 (Some (li_paymentMethods sample_listing)) ?s = Inr ((), ?s)"
    by code_simp
  note a = this
  have d: "assessMarketplaceContent ?lx SERVICE_LISTING ''Aircon Cleaning & Repair'' (li_title sample_listing) (li_description sample_listing) = decision_of PASS CLEAR None"
    by code_simp
  from a obtain u s1 v t0 where b: "assertNewProviderBusiness 1000 2 ?s = Inr (u, s1)" "store_listing 1000 2 sample_listing 1 (decision_of PASS CLEAR None) s1 = Inr (v, t0)"
    by (auto dest!: runs)
  then have "publish_listing ?lx 1000 2 sample_listing ?s = Inr (v, t0)"
    unfolding publish_listing_Inr using a d by (intro exI[of _ u] exI[of _ s1] exI[of _ ?c] exI[of _ "decision_of PASS CLEAR None"]) (simp add: decision_of_def)
  then obtain t where run: "createService ?lx 1000 2 sample_listing ?s = (Inr v, t)"
    by (simp add: createService_def p_bind_def p_catch_def p_seq_def transact_def p_ret_def emit_def modify_def)
  from published_listing[OF run] show ?thesis using run by (auto simp: sample_market_db_def empty_db_def sample_listing_def)
qed

end
