(* ===== verification/SH_Requests.thy ===== *)
theory SH_Requests
  imports SH_Photos SH_Offers
begin

text \<open>
  The requests of a seeker: src/src/services/requests.service.ts with src/src/lib/request-deletion.ts and
  src/src/lib/request-archive.ts. A search by distance is not modelled. An update names the fields it
  changes; \<open>null\<close> is \<open>Some None\<close>.
\<close>

subsection \<open>Offers of a request with their bookings\<close>

type_synonym offer_state = "offer_status \<times> booking_status option"

definition dead_statuses :: "booking_status set" where
  "dead_statuses = {B_DECLINED, B_CANCELED, B_REMOVED}"

definition booking_of_offer :: "key \<Rightarrow> db \<Rightarrow> booking_row option" where
  "booking_of_offer i s = List.find (\<lambda>b. bk_offerId b = Some i) (bookings s)"

definition request_offers :: "key \<Rightarrow> db \<Rightarrow> offer_row list" where
  "request_offers i s = filter (\<lambda>f. of_requestId f = i) (offers s)"

definition offer_states :: "key \<Rightarrow> db \<Rightarrow> offer_state list" where
  "offer_states i s = map (\<lambda>f. (of_status f, map_option bk_status (booking_of_offer (of_id f) s))) (request_offers i s)"

definition booked :: "booking_status set \<Rightarrow> offer_state \<Rightarrow> bool" where
  "booked except = (\<lambda>(_, b). case b of None \<Rightarrow> False | Some x \<Rightarrow> x \<notin> except)"

definition canArchiveCompletedRequest :: "offer_state list \<Rightarrow> bool" where
  "canArchiveCompletedRequest os \<longleftrightarrow> list_ex (\<lambda>(_, b). b = Some B_COMPLETED) os \<and>
     \<not> list_ex (\<lambda>f. fst f = O_PENDING_PAYMENT \<or> booked (insert B_COMPLETED dead_statuses) f) os"

definition protectedRequestPaymentStatuses :: "attempt_status list" where
  "protectedRequestPaymentStatuses = [A_PENDING, A_SUCCEEDED, A_REFUND_REQUIRED]"

definition request_payments :: "key \<Rightarrow> db \<Rightarrow> attempt_row list" where
  "request_payments i s = filter (\<lambda>a. (case at_offerId a of None \<Rightarrow> False | Some f \<Rightarrow> f \<in> of_id ` set (request_offers i s)) \<and>
     at_status a \<in> set protectedRequestPaymentStatuses) (attempts s)"

text \<open>Why a request cannot be deleted, if it cannot.\<close>

definition requestDeletionEligibility :: "request_status \<Rightarrow> offer_state list \<Rightarrow> attempt_status list \<Rightarrow> string option" where
  "requestDeletionEligibility st os payments =
     (if list_ex (\<lambda>(_, b). b = Some B_COMPLETED) os
      then Some ''This request can't be deleted because it has a completed booking. Its booking history must be kept.''
      else if st = RQ_IN_PROGRESS \<or> list_ex (booked dead_statuses) os
      then Some ''This request can't be deleted while it has an active booking. Manage the booking in Activity.''
      else if list_ex (\<lambda>f. fst f = O_ACCEPTED) os
      then Some ''This request can't be deleted because an offer has already been accepted. Review the booking in Activity.''
      else if st = RQ_PAYMENT_PENDING \<or> list_ex (\<lambda>f. fst f = O_PENDING_PAYMENT) os \<or>
        list_ex (\<lambda>p. p \<in> set protectedRequestPaymentStatuses) payments
      then Some ''This request can't be deleted while a payment or refund is being processed. Check its payment status in Activity.''
      else if st = RQ_CLOSED then Some ''Reopen this paused request before deleting it. Requests with booking history must be kept.''
      else if st \<noteq> RQ_OPEN then Some ''This request can't be deleted in its current state.'' else None)"

subsection \<open>A new request\<close>

definition request_urgencies :: "string list" where
  "request_urgencies = [''ASAP / Today'', ''Needs Tomorrow'', ''Next 1-2 Days'', ''This Week'', ''Flexible Schedule'']"

definition valid_methods :: "pay_methods \<Rightarrow> bool" where
  "valid_methods m \<longleftrightarrow> pm_cash m \<or> pm_gcash m"

definition valid_choice :: "('a \<Rightarrow> bool) \<Rightarrow> 'a option \<Rightarrow> bool" where
  "valid_choice p c \<longleftrightarrow> (case c of None \<Rightarrow> True | Some x \<Rightarrow> p x)"

record request_input =
  ri_photoIds :: "key list"
  ri_categoryId :: key
  ri_title :: string
  ri_description :: string
  ri_budgetMin :: decimal
  ri_budgetMax :: decimal
  ri_urgency :: string
  ri_paymentMethods :: "pay_methods option"
  ri_jobLocation :: "job_location option"
  ri_mode :: "location_mode option"
  ri_transportationFee :: "decimal option"

definition no_visit :: "location_mode option \<Rightarrow> bool" where
  "no_visit mode \<longleftrightarrow> (case mode of None \<Rightarrow> False | Some m \<Rightarrow> m \<in> {SEEKER_VISITS, REMOTE})"

definition nonempty :: "string option \<Rightarrow> string option" where
  "nonempty t = (if truthy t then t else None)"

definition new_request :: "key \<Rightarrow> key \<Rightarrow> request_input \<Rightarrow> content_decision \<Rightarrow> request_row" where
  "new_request i seekerId input d = (let loc = ri_jobLocation input in
     \<lparr>rq_id = i, rq_seekerId = seekerId, rq_targetProviderId = None, rq_targetServiceId = None, rq_preferredPaymentMethod = None,
      rq_paymentMethods = ri_paymentMethods input, rq_categoryId = ri_categoryId input,
      rq_latitude = Option.bind loc jl_latitude, rq_longitude = Option.bind loc jl_longitude, rq_locationLabel = map_option jl_label loc,
      rq_privateAddress = (if no_visit (ri_mode input) then None else nonempty (Option.bind loc jl_address)),
      rq_serviceLocationMode = (case ri_mode input of None \<Rightarrow> PROVIDER_VISITS | Some m \<Rightarrow> m), rq_status = RQ_OPEN, rq_archivedAt = None,
      rq_text = \<lparr>rt_title = ri_title input, rt_description = ri_description input, rt_budgetMin = ri_budgetMin input,
        rt_budgetMax = ri_budgetMax input, rt_urgency = ri_urgency input,
        rt_transportationFee = (if no_visit (ri_mode input) then None else ri_transportationFee input),
        rt_policyVersion = Some (cd_policyVersion d), rt_reasonCode = None, rt_reviewedById = None\<rparr>\<rparr>)"

definition plain_title :: "string \<Rightarrow> string" where
  "plain_title t = toLowerCase (collapse_spaces (trim t))"

definition active_request :: "db \<Rightarrow> request_row \<Rightarrow> bool" where
  "active_request s r \<longleftrightarrow> rq_archivedAt r = None \<and> rq_status r \<in> {RQ_OPEN, RQ_PAYMENT_PENDING, RQ_IN_PROGRESS} \<and>
     \<not> canArchiveCompletedRequest (offer_states (rq_id r) s)"

definition same_work :: "key \<Rightarrow> key \<Rightarrow> string \<Rightarrow> request_row \<Rightarrow> bool" where
  "same_work seekerId categoryId title r \<longleftrightarrow> rq_seekerId r = seekerId \<and> rq_categoryId r = categoryId \<and>
     plain_title (rt_title (rq_text r)) = plain_title title"

definition duplicate_request :: "key \<Rightarrow> key \<Rightarrow> string \<Rightarrow> db \<Rightarrow> bool" where
  "duplicate_request seekerId categoryId title s \<longleftrightarrow>
     exists_row (\<lambda>r. same_work seekerId categoryId title r \<and> active_request s r) (requests s)"

definition post_request :: "time \<Rightarrow> key \<Rightarrow> request_input \<Rightarrow> content_decision \<Rightarrow> request_row dbtx" where
  "post_request now seekerId input d =
     tx_seq (assertActiveMarketplaceAccount seekerId)
    (tx_seq (assertListingGCashNumber seekerId (ri_paymentMethods input))
    (tx_bind (query (duplicate_request seekerId (ri_categoryId input) (ri_title input))) (\<lambda>taken.
     tx_seq (ensure (\<not> taken) (Http 409 ''DUPLICATE_REQUEST''))
    (tx_bind fresh_id (\<lambda>i. let r = new_request i seekerId input d in
     tx_seq (modify (requests_update (\<lambda>rs. rs @ [r])))
    (tx_seq (record_moderation now seekerId SERVICE_REQUEST (Some i) d)
    (tx_seq (setListingPhotos seekerId (ri_photoIds input) (PT_Request i))
    (ret r))))))))"

definition createRequest :: "lexicon \<Rightarrow> time \<Rightarrow> key \<Rightarrow> request_input \<Rightarrow> (db, request_row) process" where
  "createRequest lx now seekerId input =
     p_seq (transact (ensure (ri_urgency input \<in> set request_urgencies \<and> valid_choice valid_methods (ri_paymentMethods input)) ZodError))
    (p_bind (transact (query (find_category (ri_categoryId input)))) (\<lambda>found.
     p_bind (transact (expect (Http 400 ''Invalid or inactive category'')
       (case found of None \<Rightarrow> None | Some c \<Rightarrow> if cg_isActive c then Some c else None))) (\<lambda>category.
     let d = assessMarketplaceContent lx SERVICE_REQUEST (cg_name category) (ri_title input) (ri_description input) in
     if cd_outcome d \<noteq> PASS
     then p_seq (transact (record_moderation now seekerId SERVICE_REQUEST None d)) (transact (fail revision_required))
     else transact (post_request now seekerId input d))))"

subsection \<open>Editing, pausing and reopening\<close>

record request_changes =
  rc_photoIds :: "key list option"
  rc_title :: "string option"
  rc_description :: "string option"
  rc_budgetMin :: "decimal option"
  rc_budgetMax :: "decimal option"
  rc_status :: "request_status option"
  rc_urgency :: "string option"
  rc_paymentMethods :: "pay_methods option"
  rc_jobLocation :: "job_location option option"
  rc_mode :: "location_mode option"
  rc_transportationFee :: "decimal option option"

definition only_status :: "request_changes \<Rightarrow> bool" where
  "only_status c \<longleftrightarrow> rc_photoIds c = None \<and> rc_title c = None \<and> rc_description c = None \<and> rc_budgetMin c = None \<and>
     rc_budgetMax c = None \<and> rc_urgency c = None \<and> rc_paymentMethods c = None \<and> rc_jobLocation c = None \<and> rc_mode c = None \<and>
     rc_transportationFee c = None"

definition fulfilled :: "key \<Rightarrow> db \<Rightarrow> bool" where
  "fulfilled i s \<longleftrightarrow> exists_row (\<lambda>b. (case bk_offerId b of None \<Rightarrow> False | Some f \<Rightarrow> f \<in> of_id ` set (request_offers i s)) \<and>
     bk_status b \<notin> dead_statuses) (bookings s) \<or> request_payments i s \<noteq> []"

definition quoted :: "key \<Rightarrow> db \<Rightarrow> bool" where
  "quoted i s \<longleftrightarrow> exists_row (\<lambda>f. of_status f \<in> {O_PENDING, O_PENDING_PAYMENT, O_ACCEPTED}) (request_offers i s)"

definition request_text_change :: "request_changes \<Rightarrow> request_row \<Rightarrow> bool" where
  "request_text_change c r \<longleftrightarrow> rc_title c \<noteq> None \<or> rc_description c \<noteq> None \<or> (rq_status r = RQ_CLOSED \<and> rc_status c = Some RQ_OPEN)"

definition request_decision :: "lexicon \<Rightarrow> request_changes \<Rightarrow> request_row \<Rightarrow> category_row \<Rightarrow> content_decision" where
  "request_decision lx c r category = assessMarketplaceContent lx SERVICE_REQUEST (cg_name category)
     (case rc_title c of None \<Rightarrow> rt_title (rq_text r) | Some t \<Rightarrow> t) (case rc_description c of None \<Rightarrow> rt_description (rq_text r) | Some t \<Rightarrow> t)"

definition revised_request :: "request_changes \<Rightarrow> string option \<Rightarrow> request_row \<Rightarrow> request_row" where
  "revised_request c version r = (let
       mode = given (rc_mode c) (rq_serviceLocationMode r); point = given (rc_jobLocation c) None; none = no_visit (Some mode);
       cleared = (rc_jobLocation c = Some None \<or> (rc_mode c = Some REMOTE \<and> rq_serviceLocationMode r \<noteq> REMOTE \<and> point = None))
     in r\<lparr>rq_status := given (rc_status c) (rq_status r),
       rq_paymentMethods := (if rc_paymentMethods c = None then rq_paymentMethods r else rc_paymentMethods c),
       rq_serviceLocationMode := mode,
       rq_latitude := (if cleared then None else case point of None \<Rightarrow> rq_latitude r | Some p \<Rightarrow> jl_latitude p),
       rq_longitude := (if cleared then None else case point of None \<Rightarrow> rq_longitude r | Some p \<Rightarrow> jl_longitude p),
       rq_locationLabel := (if cleared then None else case point of None \<Rightarrow> rq_locationLabel r | Some p \<Rightarrow> Some (jl_label p)),
       rq_privateAddress := (if none then None else case point of None \<Rightarrow> rq_privateAddress r | Some p \<Rightarrow> nonempty (jl_address p)),
       rq_text := (rq_text r)\<lparr>rt_title := given (rc_title c) (rt_title (rq_text r)),
         rt_description := given (rc_description c) (rt_description (rq_text r)),
         rt_budgetMin := given (rc_budgetMin c) (rt_budgetMin (rq_text r)), rt_budgetMax := given (rc_budgetMax c) (rt_budgetMax (rq_text r)),
         rt_urgency := given (rc_urgency c) (rt_urgency (rq_text r)),
         rt_transportationFee := (if none then None else given (rc_transportationFee c) (rt_transportationFee (rq_text r))),
         rt_policyVersion := (if version = None then rt_policyVersion (rq_text r) else version)\<rparr>\<rparr>)"

definition request_editable :: "request_changes \<Rightarrow> request_row \<Rightarrow> bool \<Rightarrow> error option" where
  "request_editable c r finished =
     (if rq_archivedAt r \<noteq> None then Some (Http 409 ''An archived request cannot be edited or reopened. Repost it as a new request.'')
      else if rq_targetServiceId r \<noteq> None \<and> \<not> only_status c
      then Some (Http 409 ''Cancel this service request and send a new one to change the work or location. Existing proposed prices must keep their original request details.'')
      else if rq_status r \<notin> {RQ_OPEN, RQ_CLOSED}
      then Some (Http 409 ''A matched, payment-pending, or completed request cannot be edited or reopened'')
      else if rq_status r = RQ_CLOSED \<and> (rc_status c \<noteq> Some RQ_OPEN \<or> \<not> only_status c)
      then Some (Http 409 ''A paused request must be reopened before its details can be edited'')
      else if rq_status r = RQ_CLOSED \<and> finished then Some (Http 409 ''A fulfilled or payment-pending request cannot be reopened'')
      else None)"

definition check_text :: "lexicon \<Rightarrow> time \<Rightarrow> request_changes \<Rightarrow> request_row \<Rightarrow> string option dbtx" where
  "check_text lx now c r = (if \<not> request_text_change c r then ret None
     else tx_bind (query (find_category (rq_categoryId r))) (\<lambda>found.
       tx_bind (expect (Uncoded ''P2025'') found) (\<lambda>category. let d = request_decision lx c r category in
       tx_seq (ensure (cd_outcome d = PASS) revision_required)
      (tx_seq (record_moderation now (rq_seekerId r) SERVICE_REQUEST (Some (rq_id r)) d)
      (ret (Some (cd_policyVersion d)))))))"

definition edit_request :: "lexicon \<Rightarrow> time \<Rightarrow> key \<Rightarrow> key \<Rightarrow> request_changes \<Rightarrow> request_row dbtx" where
  "edit_request lx now requestId seekerId c =
     tx_seq (assertActiveMarketplaceAccount seekerId)
    (tx_bind (query (\<lambda>s. (find_request requestId s, fulfilled requestId s, quoted requestId s))) (\<lambda>(found, finished, offered).
     tx_bind (expect (Http 404 ''Request not found or access denied'')
       (case found of None \<Rightarrow> None | Some r \<Rightarrow> if rq_seekerId r = seekerId then Some r else None)) (\<lambda>r.
     tx_seq (case request_editable c r finished of None \<Rightarrow> ret () | Some e \<Rightarrow> fail e)
    (tx_bind (check_text lx now c r) (\<lambda>version.
     tx_seq (ensure (given (rc_budgetMin c) (rt_budgetMin (rq_text r)) \<le> given (rc_budgetMax c) (rt_budgetMax (rq_text r)))
       (Http 400 ''budgetMax must be greater than or equal to budgetMin''))
    (tx_seq (when_tx (\<not> (rc_status c = Some RQ_CLOSED \<and> only_status c))
       (assertListingGCashNumber seekerId (if rc_paymentMethods c = None then rq_paymentMethods r else rc_paymentMethods c)))
    (tx_seq (case rc_photoIds c of None \<Rightarrow> ret () | Some ids \<Rightarrow> setListingPhotos seekerId ids (PT_Request requestId))
    (tx_seq (lift_sum (assertLocationForArrangementChange (rq_serviceLocationMode r) (rc_mode c) (given (rc_jobLocation c) None)))
    (tx_seq (ensure (\<not> (rc_jobLocation c = Some None \<and> given (rc_mode c) (rq_serviceLocationMode r) \<noteq> REMOTE))
       (Http 400 ''In-person requests need a job location or provider-search area.''))
    (tx_seq (ensure (\<not> ((rc_jobLocation c \<noteq> None \<or> rc_transportationFee c \<noteq> None \<or> rc_mode c \<noteq> None) \<and> offered))
       (Http 409 ''This request already has offers. Keep the agreed arrangement, location and travel budget, or post a new request.''))
    (let r' = revised_request c version r in tx_seq (upd_request requestId (\<lambda>_. r')) (ret r'))))))))))))"

definition updateRequest :: "lexicon \<Rightarrow> time \<Rightarrow> key \<Rightarrow> key \<Rightarrow> request_changes \<Rightarrow> (db, request_row) process" where
  "updateRequest lx now requestId seekerId c =
     p_seq (transact (ensure (valid_choice (\<lambda>u. u \<in> set request_urgencies) (rc_urgency c) \<and> valid_choice valid_methods (rc_paymentMethods c)) ZodError))
      (p_catch (transact (edit_request lx now requestId seekerId c)) (\<lambda>e.
         p_bind (transact (query (\<lambda>s. case find_request requestId s of None \<Rightarrow> None
            | Some r \<Rightarrow> map_option (request_decision lx c r) (find_category (rq_categoryId r) s)))) (\<lambda>decision.
         p_seq (case decision of None \<Rightarrow> p_ret () | Some d \<Rightarrow> if e \<noteq> revision_required then p_ret ()
             else transact (record_moderation now seekerId SERVICE_REQUEST (Some requestId) d))
           (transact (fail e)))))"

subsection \<open>Deleting, archiving and reposting\<close>

text \<open>One notice for each provider with a pending offer.\<close>

definition pending_providers :: "key \<Rightarrow> db \<Rightarrow> key list" where
  "pending_providers i s = js_set (map of_providerId (filter (\<lambda>f. of_status f = O_PENDING) (request_offers i s)))"

definition own_request :: "key \<Rightarrow> key \<Rightarrow> request_row dbtx" where
  "own_request requestId seekerId = tx_bind (query (find_request requestId)) (\<lambda>found.
     expect (Http 404 ''Request not found or access denied'')
       (case found of None \<Rightarrow> None | Some r \<Rightarrow> if rq_seekerId r = seekerId then Some r else None))"

definition cancel_request :: "key \<Rightarrow> key \<Rightarrow> (request_row \<times> key list) dbtx" where
  "cancel_request requestId seekerId =
     tx_bind (own_request requestId seekerId) (\<lambda>r.
     tx_bind (query (\<lambda>s. (offer_states requestId s, map at_status (request_payments requestId s), pending_providers requestId s)))
      (\<lambda>(os, payments, pending).
     tx_seq (ensure (requestDeletionEligibility (rq_status r) os payments = None) (Http 409 ''REQUEST_DELETE_BLOCKED''))
    (tx_seq (ensure (rq_status r = RQ_OPEN) (Http 409 ''REQUEST_STATE_CHANGED''))
    (let r' = r\<lparr>rq_status := RQ_CANCELED\<rparr> in
     tx_seq (upd_request requestId (\<lambda>_. r'))
    (tx_seq (modify (offers_update (map_rows (\<lambda>f. of_requestId f = requestId \<and> of_status f = O_PENDING) (\<lambda>f. f\<lparr>of_status := O_REJECTED\<rparr>))))
    (tx_seq (for_each (\<lambda>p. notify_as (N_RequestClosed requestId p) p ''Request closed'') pending)
    (ret (r', pending))))))))"

definition cancelRequest :: "key \<Rightarrow> key \<Rightarrow> (db, request_row) process" where
  "cancelRequest requestId seekerId = p_bind (transact (cancel_request requestId seekerId)) (\<lambda>(r, providers).
     p_seq (transact (publishNotifications providers ''Request closed'')) (p_ret r))"

definition archiveCompletedRequest :: "time \<Rightarrow> key \<Rightarrow> key \<Rightarrow> request_row dbtx" where
  "archiveCompletedRequest now requestId seekerId =
     tx_seq (assertActiveMarketplaceAccount seekerId)
    (tx_bind (own_request requestId seekerId) (\<lambda>r.
     tx_bind (query (offer_states requestId)) (\<lambda>os.
     tx_seq (ensure (canArchiveCompletedRequest os) (Http 409 ''Only completed requests without an active booking can be archived.''))
    (if rq_archivedAt r \<noteq> None then ret r
     else let r' = r\<lparr>rq_archivedAt := Some now\<rparr> in tx_seq (upd_request requestId (\<lambda>_. r')) (ret r')))))"

text \<open>
  What the seeker may post again: the text, the photos in their order, the category while it is active, the
  location when it has a point and a label.
\<close>

record repost =
  rx_title :: string
  rx_description :: string
  rx_photos :: "key list"
  rx_category :: "key option"
  rx_location :: "job_location option"
  rx_fee :: "decimal option"
  rx_mode :: location_mode
  rx_budget :: decimal
  rx_methods :: "pay_methods option"

definition repost_of :: "request_row \<Rightarrow> db \<Rightarrow> repost" where
  "repost_of r s = \<lparr>rx_title = rt_title (rq_text r), rx_description = rt_description (rq_text r),
     rx_photos = photos_of (rq_id r) (requestPhotos (contents s)),
     rx_category = (case find_category (rq_categoryId r) s of None \<Rightarrow> None | Some c \<Rightarrow> if cg_isActive c then Some (cg_id c) else None),
     rx_location = (if rq_latitude r = None \<or> rq_longitude r = None \<or> \<not> truthy (rq_locationLabel r) then None
       else Some \<lparr>jl_latitude = rq_latitude r, jl_longitude = rq_longitude r, jl_label = the (rq_locationLabel r),
         jl_address = nonempty (rq_privateAddress r)\<rparr>),
     rx_fee = rt_transportationFee (rq_text r), rx_mode = rq_serviceLocationMode r, rx_budget = rt_budgetMax (rq_text r),
     rx_methods = (case rq_paymentMethods r of None \<Rightarrow> None | Some m \<Rightarrow> if valid_methods m then Some m else None)\<rparr>"

definition getRequestRepostTemplate :: "key \<Rightarrow> key \<Rightarrow> repost dbtx" where
  "getRequestRepostTemplate requestId seekerId =
     tx_bind (own_request requestId seekerId) (\<lambda>r.
     tx_bind (query (offer_states requestId)) (\<lambda>os.
     tx_seq (ensure (rq_targetServiceId r = None \<and> canArchiveCompletedRequest os) (Http 409 ''Only completed public requests can be reposted.''))
       (query (repost_of r))))"

subsection \<open>Listing requests\<close>

text \<open>The answer hides the address and the exact point of the job.\<close>

definition public_request :: "request_row \<Rightarrow> request_row" where
  "public_request r = r\<lparr>rq_latitude := None, rq_longitude := None, rq_privateAddress := None\<rparr>"

definition publicRequestWhere :: "key option \<Rightarrow> db \<Rightarrow> request_row \<Rightarrow> bool" where
  "publicRequestWhere providerId s r \<longleftrightarrow> rq_status r = RQ_OPEN \<and> rq_archivedAt r = None \<and>
     (rq_targetServiceId r = None \<or> (providerId \<noteq> None \<and> (rq_targetProviderId r = providerId \<or> Some (rq_seekerId r) = providerId))) \<and>
     (case find_user (rq_seekerId r) s of None \<Rightarrow> False
      | Some u \<Rightarrow> u_isActive u \<and> u_moderationStatus u = M_ACTIVE \<and> u_emailVerified u \<and> u_verificationStatus u = V_APPROVED) \<and>
     \<not> list_ex (booked dead_statuses) (offer_states (rq_id r) s)"

definition inquiryServicePrices :: "db \<Rightarrow> request_row \<Rightarrow> (price_type \<times> decimal option) option" where
  "inquiryServicePrices s r = Option.bind (rq_targetServiceId r) (\<lambda>i. map_option (\<lambda>v. (sv_priceType v, sv_price v)) (find_service i s))"

definition reads_own :: "key \<Rightarrow> key list option \<Rightarrow> db \<Rightarrow> bool" where
  "reads_own providerId ids s \<longleftrightarrow> (case ids of None \<Rightarrow> False | Some xs \<Rightarrow> xs \<noteq> [] \<and>
     count_rows (\<lambda>r. rq_id r \<in> set xs \<and> rq_seekerId r = providerId) (requests s) = length (remdups xs))"

text \<open>A request as it is shown: the offers it waits for are counted, a stale target is hidden.\<close>

definition shown_request :: "db \<Rightarrow> request_row \<Rightarrow> request_row \<times> nat \<times> (price_type \<times> decimal option) option" where
  "shown_request s r = (r\<lparr>rq_targetProviderId := (if rq_targetServiceId r = None then None else rq_targetProviderId r)\<rparr>,
     count_rows (\<lambda>f. of_status f = O_PENDING) (request_offers (rq_id r) s), inquiryServicePrices s r)"

definition listRequests ::
  "time \<Rightarrow> key option \<Rightarrow> key option \<Rightarrow> key list option \<Rightarrow> (db, (request_row \<times> nat \<times> (price_type \<times> decimal option) option) list) process" where
  "listRequests now categoryId providerId ids =
     p_seq (case providerId of None \<Rightarrow> p_ret ()
       | Some p \<Rightarrow> p_bind (transact (query (reads_own p ids))) (\<lambda>own.
           if own then p_ret () else transact (tx_bind (assertNewProviderBusiness now p) (\<lambda>_. ret ()))))
      (transact (query (\<lambda>s. map (shown_request s) (rev (filter (\<lambda>r. publicRequestWhere providerId s r \<and>
         (case ids of None \<Rightarrow> True | Some xs \<Rightarrow> rq_id r \<in> set xs) \<and> (case categoryId of None \<Rightarrow> True | Some c \<Rightarrow> rq_categoryId r = c))
         (requests s))))))"

definition managed :: "db \<Rightarrow> request_row \<Rightarrow> bool" where
  "managed s r \<longleftrightarrow> rq_status r \<noteq> RQ_CANCELED \<and> rq_archivedAt r = None \<and> \<not> list_ex (booked dead_statuses) (offer_states (rq_id r) s)"

definition getMyRequests :: "key \<Rightarrow> db \<Rightarrow> (request_row \<times> (offer_row \<times> string option) list \<times> bool \<times> string option) list" where
  "getMyRequests seekerId s = map (\<lambda>r. let os = offer_states (rq_id r) s in
       (r, map publicOffer (request_offers (rq_id r) s), canArchiveCompletedRequest os,
        requestDeletionEligibility (rq_status r) os (map at_status (request_payments (rq_id r) s))))
     (rev (filter (\<lambda>r. rq_seekerId r = seekerId \<and> managed s r) (requests s)))"

end
