(* ===== verification/SH_Moderation.thy ===== *)
theory SH_Moderation
  imports SH_Listings SH_Requests
begin

text \<open>
  What administrators do to published content and to categories: src/src/services/public-content-actions.service.ts,
  src/src/services/admin-moderation.service.ts, src/src/services/category-catalog.service.ts, and the cases that users open about content: submitting one
  (src/src/services/content-moderation-cases.service.ts with \<open>readPublicContent\<close> of
  src/src/services/content-workspace.service.ts). The administrators' notes and the time of a review are left out.
\<close>

subsection \<open>Removing and restoring\<close>

datatype public_action = PA_Remove | PA_Restore

record action_result =
  ax_type :: content_kind
  ax_id :: key
  ax_ownerId :: key
  ax_action :: public_action
  ax_affected :: "key list"

definition conflict :: "string \<Rightarrow> error" where
  "conflict message = Http 409 message"

definition assertRestorable :: "key \<Rightarrow> bool \<Rightarrow> unit dbtx" where
  "assertRestorable ownerId categoryActive =
     tx_seq (assertActiveMarketplaceAccount ownerId)
    (tx_bind (query (find_user ownerId)) (\<lambda>found.
     tx_bind (expect (Uncoded ''P2025'') found) (\<lambda>u.
     ensure (categoryActive \<and> u_emailVerified u \<and> u_verificationStatus u = V_APPROVED \<and> \<not> lg_postingSuspended (u_login u))
       (conflict ''The owner must have a verified account and the category must be available before restoration.''))))"

definition reviewed_listing :: "key \<Rightarrow> reason_code \<Rightarrow> service_row \<Rightarrow> service_row" where
  "reviewed_listing adminId reason v = v\<lparr>sv_text := (sv_text v)\<lparr>lt_reasonCode := Some reason, lt_reviewedById := Some adminId\<rparr>\<rparr>"

definition remove_public_listing :: "key \<Rightarrow> service_row \<Rightarrow> unit dbtx" where
  "remove_public_listing adminId v =
     tx_seq (ensure (sv_status v \<in> {S_ACTIVE, S_INACTIVE}) (conflict ''Only a published or paused service can be removed.''))
       (write_service ((reviewed_listing adminId ADMIN_REMOVED v)\<lparr>sv_status := S_SUSPENDED, sv_isAvailable := False\<rparr>))"

definition same_title_active :: "service_row \<Rightarrow> db \<Rightarrow> bool" where
  "same_title_active v s \<longleftrightarrow> exists_row (\<lambda>w. sv_id w \<noteq> sv_id v \<and> sv_providerId w = sv_providerId v \<and> sv_status w = S_ACTIVE \<and>
     lt_titleNormalized (sv_text w) = lt_titleNormalized (sv_text v)) (services s)"

definition restore_public_listing :: "lexicon \<Rightarrow> time \<Rightarrow> key \<Rightarrow> service_row \<Rightarrow> category_row \<Rightarrow> user_row \<Rightarrow> unit dbtx" where
  "restore_public_listing lx now adminId v category owner =
     tx_seq (ensure (sv_status v = S_SUSPENDED \<and> lt_reasonCode (sv_text v) = Some ADMIN_REMOVED)
       (conflict ''Only a service removed by an admin can be restored.''))
    (tx_seq (assertRestorable (sv_providerId v) (cg_isActive category))
    (tx_seq (ensure (cd_outcome (assessMarketplaceContent lx SERVICE_LISTING (cg_name category) (lt_title (sv_text v)) (lt_description (sv_text v))) = PASS)
       (conflict ''This listing does not meet the current posting rules. Send guidance asking the provider to post a corrected listing.''))
    (tx_seq (ensure (validListingPrice (sv_priceType v) (sv_price v))
       (conflict ''This older listing needs supported pricing. Send guidance asking the provider to post a corrected listing.''))
    (tx_bind (query (\<lambda>s. (active_count (sv_providerId v) s, same_title_active v s))) (\<lambda>(occupied, taken).
     tx_seq (lift_sum (assertListingCapacity owner occupied now))
    (tx_seq (ensure (\<not> taken) (conflict ''The provider already has an active listing with this title. Keep this one removed or ask them to pause the duplicate.''))
    (write_service ((reviewed_listing adminId ADMIN_RESTORED v)\<lparr>sv_status := S_ACTIVE, sv_isAvailable := True,
       sv_publishedAt := (case sv_publishedAt v of None \<Rightarrow> Some now | t \<Rightarrow> t)\<rparr>))))))))"

definition act_on_listing :: "lexicon \<Rightarrow> time \<Rightarrow> key \<Rightarrow> key \<Rightarrow> public_action \<Rightarrow> (key \<times> key list) dbtx" where
  "act_on_listing lx now i adminId action =
     tx_bind (query (find_service i)) (\<lambda>found.
     tx_bind (expect (conflict ''This service listing no longer exists.'') found) (\<lambda>v.
     tx_bind (query (\<lambda>s. (find_category (sv_categoryId v) s, find_user (sv_providerId v) s))) (\<lambda>(cat, own).
     tx_bind (expect (Uncoded ''P2025'') cat) (\<lambda>category. tx_bind (expect (Uncoded ''P2025'') own) (\<lambda>owner.
     tx_seq (case action of PA_Remove \<Rightarrow> remove_public_listing adminId v
       | PA_Restore \<Rightarrow> restore_public_listing lx now adminId v category owner)
     (ret (sv_providerId v, [])))))))"

definition reviewed_request :: "key \<Rightarrow> reason_code \<Rightarrow> request_status \<Rightarrow> request_row \<Rightarrow> request_row" where
  "reviewed_request adminId reason st r = r\<lparr>rq_status := st, rq_text := (rq_text r)\<lparr>rt_reasonCode := Some reason, rt_reviewedById := Some adminId\<rparr>\<rparr>"

definition remove_public_request :: "key \<Rightarrow> request_row \<Rightarrow> key list dbtx" where
  "remove_public_request adminId r =
     tx_seq (ensure (rq_status r \<in> {RQ_OPEN, RQ_CLOSED}) (conflict ''Only an open or paused public request can be removed.''))
    (tx_seq (upd_request (rq_id r) (\<lambda>_. reviewed_request adminId ADMIN_REMOVED RQ_CANCELED r))
    (tx_bind (query (pending_providers (rq_id r))) (\<lambda>affected.
     tx_seq (modify (offers_update (map_rows (\<lambda>f. of_requestId f = rq_id r \<and> of_status f = O_PENDING) (\<lambda>f. f\<lparr>of_status := O_REJECTED\<rparr>))))
    (tx_seq (for_each (\<lambda>p. notify p ''Offer closed'') affected)
    (ret affected)))))"

definition same_active_request :: "request_row \<Rightarrow> db \<Rightarrow> bool" where
  "same_active_request r s \<longleftrightarrow> exists_row (\<lambda>q. rq_id q \<noteq> rq_id r \<and> same_work (rq_seekerId r) (rq_categoryId r) (rt_title (rq_text r)) q \<and>
     rq_status q \<in> {RQ_OPEN, RQ_PAYMENT_PENDING, RQ_IN_PROGRESS}) (requests s)"

definition restore_public_request :: "lexicon \<Rightarrow> key \<Rightarrow> request_row \<Rightarrow> category_row \<Rightarrow> key list dbtx" where
  "restore_public_request lx adminId r category =
     tx_seq (ensure (rq_status r = RQ_CANCELED \<and> rt_reasonCode (rq_text r) = Some ADMIN_REMOVED)
       (conflict ''Only a request removed by an admin can be restored.''))
    (tx_seq (assertRestorable (rq_seekerId r) (cg_isActive category))
    (tx_seq (ensure (cd_outcome (assessMarketplaceContent lx SERVICE_REQUEST (cg_name category) (rt_title (rq_text r)) (rt_description (rq_text r))) = PASS)
       (conflict ''This request does not meet the current posting rules. Send guidance asking the seeker to post a corrected request.''))
    (tx_bind (query (same_active_request r)) (\<lambda>taken.
     tx_seq (ensure (\<not> taken) (conflict ''The seeker already has an active request with this title and category.''))
    (tx_seq (upd_request (rq_id r) (\<lambda>_. reviewed_request adminId ADMIN_RESTORED RQ_OPEN r))
    (ret []))))))"

definition act_on_request :: "lexicon \<Rightarrow> key \<Rightarrow> key \<Rightarrow> public_action \<Rightarrow> (key \<times> key list) dbtx" where
  "act_on_request lx i adminId action =
     tx_bind (query (find_request i)) (\<lambda>found.
     tx_bind (expect (conflict ''This service request no longer exists.'') found) (\<lambda>r.
     tx_seq (ensure (rq_targetServiceId r = None) (conflict ''A private booking inquiry must be handled through its booking flow.''))
    (tx_bind (query (\<lambda>s. (fulfilled i s, find_category (rq_categoryId r) s))) (\<lambda>(matched, cat).
     tx_bind (expect (Uncoded ''P2025'') cat) (\<lambda>category.
     tx_seq (ensure (\<not> matched) (conflict ''This request has a booking or payment that needs handling in Disputes & Reports first.''))
    (tx_bind (case action of PA_Remove \<Rightarrow> remove_public_request adminId r | PA_Restore \<Rightarrow> restore_public_request lx adminId r category) (\<lambda>affected.
     ret (rq_seekerId r, affected))))))))"

definition action_audit :: "content_kind \<Rightarrow> public_action \<Rightarrow> string" where
  "action_audit kind action = (case (kind, action) of (SERVICE_LISTING, PA_Remove) \<Rightarrow> ''SERVICE_CONTENT_REMOVED''
     | (SERVICE_LISTING, PA_Restore) \<Rightarrow> ''SERVICE_CONTENT_RESTORED'' | (SERVICE_REQUEST, PA_Remove) \<Rightarrow> ''REQUEST_CONTENT_REMOVED''
     | (SERVICE_REQUEST, PA_Restore) \<Rightarrow> ''REQUEST_CONTENT_RESTORED'')"

definition action_title :: "content_kind \<Rightarrow> public_action \<Rightarrow> string" where
  "action_title kind action = (if kind = SERVICE_LISTING then ''Listing'' else ''Request'') @
     (if action = PA_Remove then '' Removed from'' else '' Restored to'') @ '' Marketplace''"

definition applyPublicContentAction :: "lexicon \<Rightarrow> time \<Rightarrow> content_kind \<Rightarrow> key \<Rightarrow> key \<Rightarrow> public_action \<Rightarrow> action_result dbtx" where
  "applyPublicContentAction lx now kind i adminId action =
     tx_bind (if kind = SERVICE_LISTING then act_on_listing lx now i adminId action else act_on_request lx i adminId action) (\<lambda>(ownerId, affected).
     tx_seq (audit adminId (Some ownerId) (action_audit kind action) i)
    (tx_seq (notify ownerId (action_title kind action))
    (ret \<lparr>ax_type = kind, ax_id = i, ax_ownerId = ownerId, ax_action = action, ax_affected = affected\<rparr>)))"

definition emitPublicContentAction :: "action_result \<Rightarrow> unit dbtx" where
  "emitPublicContentAction r =
     tx_seq (emit (RUser (ax_ownerId r)) ''notification'' ''Content updated'')
    (tx_seq (for_each (\<lambda>p. emit (RUser p) ''notification'' ''Offer closed'') (ax_affected r))
    (tx_seq (emit REveryone (if ax_type r = SERVICE_LISTING then ''SERVICE_LISTINGS_CHANGED'' else ''SERVICE_REQUESTS_CHANGED'') [])
    (when_tx (ax_type r = SERVICE_REQUEST)
      (tx_seq (when_tx (ax_action r = PA_Remove) (emit REveryone ''SERVICE_REQUEST_DELETED'' []))
        (emit REveryone ''OFFERS_CHANGED'' [])))))"

definition public_action_process :: "lexicon \<Rightarrow> time \<Rightarrow> content_kind \<Rightarrow> key \<Rightarrow> key \<Rightarrow> public_action \<Rightarrow> (db, unit) process" where
  "public_action_process lx now kind i adminId action =
     p_bind (transact (applyPublicContentAction lx now kind i adminId action)) (\<lambda>r. transact (emitPublicContentAction r))"

definition removePublishedService :: "lexicon \<Rightarrow> time \<Rightarrow> key \<Rightarrow> key \<Rightarrow> (db, service_row) process" where
  "removePublishedService lx now i adminId = p_seq (public_action_process lx now SERVICE_LISTING i adminId PA_Remove)
     (p_bind (transact (query (find_service i))) (\<lambda>found. transact (expect (Uncoded ''P2025'') found)))"

definition restoreRemovedService :: "lexicon \<Rightarrow> time \<Rightarrow> key \<Rightarrow> key \<Rightarrow> (db, service_row) process" where
  "restoreRemovedService lx now i adminId = p_seq (public_action_process lx now SERVICE_LISTING i adminId PA_Restore)
     (p_bind (transact (query (find_service i))) (\<lambda>found. transact (expect (Uncoded ''P2025'') found)))"

definition removePublicRequest :: "lexicon \<Rightarrow> time \<Rightarrow> key \<Rightarrow> key \<Rightarrow> (db, request_row) process" where
  "removePublicRequest lx now i adminId = p_seq (public_action_process lx now SERVICE_REQUEST i adminId PA_Remove)
     (p_bind (transact (query (find_request i))) (\<lambda>found. transact (expect (Uncoded ''P2025'') found)))"

subsection \<open>Categories\<close>

record managed_category =
  mc_row :: category_row
  mc_listings :: nat
  mc_liveListings :: nat
  mc_requests :: nat
  mc_openRequests :: nat

definition open_request_status :: "request_row \<Rightarrow> bool" where
  "open_request_status r \<longleftrightarrow> rq_status r \<in> {RQ_OPEN, RQ_PAYMENT_PENDING, RQ_IN_PROGRESS}"

definition category_listings :: "key \<Rightarrow> db \<Rightarrow> nat" where
  "category_listings i s = count_rows (\<lambda>v. sv_categoryId v = i \<and> sv_status v \<noteq> S_DELETED) (services s)"

definition category_open_requests :: "key \<Rightarrow> db \<Rightarrow> nat" where
  "category_open_requests i s = count_rows (\<lambda>r. rq_categoryId r = i \<and> open_request_status r) (requests s)"

text \<open>The page of the categories in the order of their names, which the database sorts (\<open>ordered\<close>).\<close>

definition listManagedCategories :: "(category_row list \<Rightarrow> category_row list) \<Rightarrow> nat \<Rightarrow> nat \<Rightarrow> db \<Rightarrow> managed_category list \<times> nat" where
  "listManagedCategories ordered page perPage s =
     (map (\<lambda>c. \<lparr>mc_row = c, mc_listings = category_listings (cg_id c) s,
         mc_liveListings = count_rows (\<lambda>v. sv_categoryId v = cg_id c \<and> sv_status v = S_ACTIVE) (services s),
         mc_requests = count_rows (\<lambda>r. rq_categoryId r = cg_id c) (requests s),
         mc_openRequests = category_open_requests (cg_id c) s\<rparr>)
       (take perPage (drop ((page - 1) * perPage) (ordered (categories (contents s))))), length (categories (contents s)))"

definition duplicate_category :: "key \<Rightarrow> string \<Rightarrow> string \<Rightarrow> db \<Rightarrow> bool" where
  "duplicate_category i current upcoming s \<longleftrightarrow> exists_row (\<lambda>c. cg_id c \<noteq> i \<and> categoryConceptKey (cg_name c) = categoryConceptKey upcoming \<and>
     (cg_isActive c \<or> normalizedCategoryName current \<noteq> normalizedCategoryName upcoming \<or>
      normalizedCategoryName (cg_name c) = normalizedCategoryName upcoming)) (categories (contents s))"

text \<open>The unique index on the name.\<close>

definition name_free :: "key option \<Rightarrow> string \<Rightarrow> db \<Rightarrow> bool" where
  "name_free i name s \<longleftrightarrow> \<not> exists_row (\<lambda>c. Some (cg_id c) \<noteq> i \<and> cg_name c = name) (categories (contents s))"

definition update_category :: "key \<Rightarrow> key \<Rightarrow> string option \<Rightarrow> bool option \<Rightarrow> category_row dbtx" where
  "update_category categoryId adminId name isActive =
     tx_bind (query (find_category categoryId)) (\<lambda>found.
     tx_bind (expect (Http 404 ''Category not found'') found) (\<lambda>c.
     let nextName = canonicalCategoryName (given name (cg_name c)); nextActive = given isActive (cg_isActive c) in
     tx_seq (ensure (\<not> (isFallbackCategory (cg_name c) \<and> (nextName \<noteq> other_services \<or> \<not> nextActive)))
       (Http 409 ''Other Services is the system fallback and must keep its name and remain active.''))
    (tx_seq (ensure (\<not> (nextName = cg_name c \<and> nextActive = cg_isActive c)) (Http 400 ''No category changes were provided''))
    (tx_bind (query (\<lambda>s. (duplicate_category categoryId (cg_name c) nextName s, category_listings categoryId s,
        category_open_requests categoryId s, name_free (Some categoryId) nextName s))) (\<lambda>(duplicate, listings, open_requests, free).
     tx_seq (ensure (\<not> ((nextName \<noteq> cg_name c \<or> (\<not> cg_isActive c \<and> nextActive)) \<and> duplicate)) (Http 409 ''An equivalent category already exists''))
    (tx_seq (ensure (\<not> (cg_isActive c \<and> \<not> nextActive \<and> (0 < listings \<or> 0 < open_requests)))
       (Http 409 ''Category cannot be deactivated while marketplace listings or open requests depend on it''))
    (tx_seq (unique free)
    (let c' = c\<lparr>cg_name := nextName, cg_isActive := nextActive\<rparr> in
     tx_seq (upd_contents (categories_update (map_rows (\<lambda>d. cg_id d = categoryId) (\<lambda>_. c'))))
    (tx_seq (audit adminId None ''CATEGORY_UPDATED'' categoryId) (ret c'))))))))))"

definition updateManagedCategory :: "key \<Rightarrow> key \<Rightarrow> string option \<Rightarrow> bool option \<Rightarrow> (db, category_row) process" where
  "updateManagedCategory categoryId adminId name isActive =
     p_bind (transact (update_category categoryId adminId name isActive)) (\<lambda>c.
     p_seq (transact (tx_seq (emit REveryone ''COMMUNITY_CATEGORIES_CHANGED'' []) (emit REveryone ''SERVICE_LISTINGS_CHANGED'' []))) (p_ret c))"

definition create_category :: "key \<Rightarrow> string \<Rightarrow> category_row dbtx" where
  "create_category adminId name =
     tx_bind (query (\<lambda>s. (exists_row (\<lambda>c. categoryConceptKey (cg_name c) = categoryConceptKey name) (categories (contents s)), name_free None name s)))
      (\<lambda>(existing, free).
     tx_seq (ensure (\<not> existing) (Http 409 ''An equivalent category already exists''))
    (tx_seq (unique free)
    (tx_bind fresh_id (\<lambda>i. let c = \<lparr>cg_id = i, cg_name = name, cg_isActive = True\<rparr> in
     tx_seq (upd_contents (categories_update (\<lambda>cs. cs @ [c])))
    (tx_seq (audit adminId None ''CATEGORY_CREATED'' i) (ret c))))))"

definition createManagedCategory :: "key \<Rightarrow> string \<Rightarrow> (db, category_row) process" where
  "createManagedCategory adminId name = p_bind (transact (create_category adminId (canonicalCategoryName name))) (\<lambda>c.
     p_seq (transact (emit REveryone ''COMMUNITY_CATEGORIES_CHANGED'' [])) (p_ret c))"

definition default_categories :: "string list" where
  "default_categories = map fst category_catalog"

definition missing_categories :: "db \<Rightarrow> string list" where
  "missing_categories s = filter (\<lambda>name. categoryConceptKey name \<notin> (\<lambda>c. categoryConceptKey (cg_name c)) ` set (categories (contents s))) default_categories"

definition add_category :: "string \<Rightarrow> unit dbtx" where
  "add_category name = tx_bind fresh_id (\<lambda>i. upd_contents (categories_update (\<lambda>cs. cs @ [\<lparr>cg_id = i, cg_name = name, cg_isActive = True\<rparr>])))"

text \<open>\<open>first\<close> is the first inactive fallback in the order of the names, which the database sorts.\<close>

definition ensureDefaultServiceCategories :: "(category_row list \<Rightarrow> category_row list) \<Rightarrow> (string list \<times> bool \<times> nat) dbtx" where
  "ensureDefaultServiceCategories ordered =
     tx_bind (query (\<lambda>s. (ordered (categories (contents s)), missing_categories s))) (\<lambda>(existing, missing).
     tx_seq (for_each add_category missing)
    (let inactive = List.find (\<lambda>c. isFallbackCategory (cg_name c) \<and> \<not> cg_isActive c) existing in
     tx_seq (case inactive of None \<Rightarrow> ret ()
       | Some c \<Rightarrow> upd_contents (categories_update (map_rows (\<lambda>d. cg_id d = cg_id c) (\<lambda>d. d\<lparr>cg_isActive := True\<rparr>))))
    (ret (missing, inactive \<noteq> None, length existing))))"

subsection \<open>Cases about content\<close>

record content_view =
  cv_ownerId :: key
  cv_public :: bool
  cv_photos :: "key list"

definition sound_owner :: "user_row \<Rightarrow> bool" where
  "sound_owner u \<longleftrightarrow> u_isActive u \<and> u_moderationStatus u = M_ACTIVE \<and> u_emailVerified u \<and> u_verificationStatus u = V_APPROVED"

definition viewed_public :: "service_row \<Rightarrow> user_row \<Rightarrow> bool" where
  "viewed_public v u \<longleftrightarrow> sv_status v = S_ACTIVE \<and> sv_isAvailable v \<and> sound_owner u \<and> sv_priceType v \<in> {FIXED, PER_HOUR, PER_DAY, PER_PROJECT} \<and>
     50 \<le> (case sv_price v of None \<Rightarrow> 0 | Some p \<Rightarrow> p)"

definition readPublicContent :: "content_kind \<Rightarrow> key \<Rightarrow> db \<Rightarrow> content_view option" where
  "readPublicContent kind i s = (if kind = SERVICE_LISTING
     then (case find_service i s of None \<Rightarrow> None
       | Some v \<Rightarrow> (case find_user (sv_providerId v) s of None \<Rightarrow> None
         | Some u \<Rightarrow> if sv_status v = S_DELETED then None
             else Some \<lparr>cv_ownerId = u_id u, cv_public = viewed_public v u, cv_photos = photos_of i (servicePhotos (contents s))\<rparr>))
     else (case find_request i s of None \<Rightarrow> None
       | Some r \<Rightarrow> (case find_user (rq_seekerId r) s of None \<Rightarrow> None
         | Some u \<Rightarrow> if rq_targetServiceId r \<noteq> None then None
             else Some \<lparr>cv_ownerId = u_id u, cv_public = (rq_status r = RQ_OPEN \<and> \<not> fulfilled i s \<and> sound_owner u),
               cv_photos = photos_of i (requestPhotos (contents s))\<rparr>)))"

record case_input =
  ci_caseType :: content_case_type
  ci_contentType :: content_kind
  ci_resourceId :: "key option"
  ci_reason :: string
  ci_reportReason :: "string option"

definition valid_case :: "case_input \<Rightarrow> bool" where
  "valid_case i \<longleftrightarrow> (let n = length (trim (ci_reason i)) in 10 \<le> n \<and> n \<le> 1000) \<and>
     (case ci_reportReason i of None \<Rightarrow> True | Some r \<Rightarrow> ci_caseType i = CC_REPORT \<and>
        r \<in> set [''MISLEADING'', ''SCAM'', ''INAPPROPRIATE'', ''UNSAFE'', ''SPAM'', ''OTHER''])"

text \<open>The owner of what is reported, while it is public and belongs to somebody else.\<close>

definition report_target :: "time \<Rightarrow> key \<Rightarrow> content_kind \<Rightarrow> key \<Rightarrow> unit dbtx" where
  "report_target now submitterId kind i =
     tx_bind (query (\<lambda>s. if kind = SERVICE_LISTING
       then (case find_service i s of None \<Rightarrow> None | Some v \<Rightarrow> if publicServiceWhere now s v then Some (sv_providerId v) else None)
       else (case find_request i s of None \<Rightarrow> None | Some r \<Rightarrow> (case find_user (rq_seekerId r) s of None \<Rightarrow> None
          | Some u \<Rightarrow> if rq_status r = RQ_OPEN \<and> sound_owner u then Some (rq_seekerId r) else None)))) (\<lambda>found.
     tx_bind (expect (Http 404 (if kind = SERVICE_LISTING then ''This listing is no longer public'' else ''This request is no longer public'')) found) (\<lambda>owner.
     tx_seq (ensure (owner \<noteq> submitterId) (Http 409 (if kind = SERVICE_LISTING then ''You cannot report your own listing'' else ''You cannot report your own request'')))
    (tx_seq (assertActiveMarketplaceAccount submitterId) (assertActiveMarketplaceAccount owner))))"

definition appeal_target :: "key \<Rightarrow> content_kind \<Rightarrow> key \<Rightarrow> unit dbtx" where
  "appeal_target submitterId kind i =
     tx_seq (assertActiveMarketplaceAccount submitterId)
    (tx_bind (query (\<lambda>s. if kind = SERVICE_LISTING
       then (case find_service i s of None \<Rightarrow> False | Some v \<Rightarrow> sv_providerId v = submitterId \<and> sv_status v \<in> {S_REJECTED, S_SUSPENDED})
       else (case find_request i s of None \<Rightarrow> False | Some r \<Rightarrow> rq_seekerId r = submitterId \<and> rq_status r = RQ_CANCELED \<and>
          rt_reasonCode (rq_text r) = Some ADMIN_REMOVED))) (\<lambda>owned.
     ensure owned (Http 409 ''Only your removed or rejected content can be appealed here'')))"

definition check_target :: "time \<Rightarrow> key \<Rightarrow> content_kind \<Rightarrow> unit dbtx" where
  "check_target now submitterId kind =
     tx_seq (assertActiveMarketplaceAccount submitterId)
    (tx_bind (query (\<lambda>s. exists_row (\<lambda>e. me_actorId e = submitterId \<and> me_contentType e = kind \<and> me_outcome e = REVISE \<and>
        now - 30 * 24 * 60 * 60 * 1000 \<le> me_createdAt e) (moderationEvents (contents s)))) (\<lambda>refused.
     ensure refused (Http 409 ''No recent content check to appeal. Please revise and submit first.'')))"

definition case_target :: "time \<Rightarrow> key \<Rightarrow> case_input \<Rightarrow> unit dbtx" where
  "case_target now submitterId i = (case (ci_caseType i, ci_resourceId i) of
       (CC_REPORT, None) \<Rightarrow> fail (Http 400 ''Choose public content to report'')
     | (CC_REPORT, Some r) \<Rightarrow> report_target now submitterId (ci_contentType i) r
     | (CC_APPEAL, Some r) \<Rightarrow> appeal_target submitterId (ci_contentType i) r
     | (CC_APPEAL, None) \<Rightarrow> check_target now submitterId (ci_contentType i))"

definition open_case :: "key \<Rightarrow> case_input \<Rightarrow> db \<Rightarrow> bool" where
  "open_case submitterId i s \<longleftrightarrow> exists_row (\<lambda>c. cc_submitterId c = submitterId \<and> cc_caseType c = ci_caseType i \<and>
     cc_contentType c = ci_contentType i \<and> cc_resourceId c = ci_resourceId i \<and> cc_status c = CS_OPEN) (contentCases (contents s))"

definition submit_case :: "time \<Rightarrow> key \<Rightarrow> case_input \<Rightarrow> (content_case \<times> key list) dbtx" where
  "submit_case now submitterId i =
     tx_seq (case_target now submitterId i)
    (tx_bind (query (\<lambda>s. (open_case submitterId i s, Option.bind (ci_resourceId i) (\<lambda>r. readPublicContent (ci_contentType i) r s)))) (\<lambda>(existing, content).
     tx_seq (ensure (\<not> existing) (Http 409 ''You already have an open review for this content''))
    (tx_seq (ensure (\<not> (ci_caseType i = CC_REPORT \<and> (case content of None \<Rightarrow> True | Some c \<Rightarrow> \<not> cv_public c)))
       (Http 409 ''This content is no longer public.''))
    (tx_bind fresh_id (\<lambda>n.
     let c = \<lparr>cc_id = n, cc_submitterId = submitterId, cc_caseType = ci_caseType i, cc_contentType = ci_contentType i,
        cc_resourceId = ci_resourceId i, cc_reason = trim (ci_reason i), cc_status = CS_OPEN, cc_adminId = None, cc_resolution = None,
        cc_contentOwnerId = (case content of None \<Rightarrow> if ci_caseType i = CC_APPEAL then Some submitterId else None | Some v \<Rightarrow> Some (cv_ownerId v)),
        cc_photos = (case content of None \<Rightarrow> [] | Some v \<Rightarrow> cv_photos v), cc_decision = None, cc_penalty = None\<rparr> in
     tx_seq (upd_contents (contentCases_update (\<lambda>cs. cs @ [c])))
    (tx_bind (recordAdminNotifications (if ci_caseType i = CC_REPORT then ''Public Content Report'' else ''Content Appeal'')) (\<lambda>admins.
     ret (c, admins))))))))"

definition submitContentCase :: "time \<Rightarrow> key \<Rightarrow> case_input \<Rightarrow> (db, content_case) process" where
  "submitContentCase now submitterId i =
     p_seq (transact (ensure (valid_case i) ZodError))
    (p_bind (transact (submit_case now submitterId i)) (\<lambda>(c, admins).
     p_seq (transact (tx_seq (for_each (\<lambda>a. emit (RUser a) ''notification'' ''Content Case Needs Review'') admins)
       (emit RAdmin ''CONTENT_CASES_CHANGED'' []))) (p_ret c)))"

definition listMyContentCases :: "key \<Rightarrow> db \<Rightarrow> content_case list" where
  "listMyContentCases submitterId s = take 50 (rev (filter (\<lambda>c. cc_submitterId c = submitterId) (contentCases (contents s))))"

definition listAdminContentCases :: "nat \<Rightarrow> nat \<Rightarrow> content_case_status \<Rightarrow> db \<Rightarrow> content_case list \<times> nat" where
  "listAdminContentCases page perPage st s = (let all = filter (\<lambda>c. cc_status c = st) (contentCases (contents s)) in
     (take perPage (drop ((page - 1) * perPage) all), length all))"

end
