(* ===== verification/SH_Saved.thy ===== *)
theory SH_Saved
  imports SH_Moderation
begin

text \<open>
  Saved listings and requests: src/src/services/saved-listings.service.ts. What is no longer public stays in the
  list without its content.
\<close>

definition saved_target :: "content_kind \<Rightarrow> saved_row \<Rightarrow> key option" where
  "saved_target kind r = (if kind = SERVICE_LISTING then sl_serviceId r else sl_requestId r)"

definition getSavedListingStatus :: "key \<Rightarrow> content_kind \<Rightarrow> key list \<Rightarrow> db \<Rightarrow> key list" where
  "getSavedListingStatus userId kind ids s = map (\<lambda>r. the (saved_target kind r))
     (filter (\<lambda>r. sl_userId r = userId \<and> (case saved_target kind r of None \<Rightarrow> False | Some i \<Rightarrow> i \<in> set ids)) (savedListings (contents s)))"

definition listing_owner :: "content_kind \<Rightarrow> key \<Rightarrow> db \<Rightarrow> key option" where
  "listing_owner kind i s = (if kind = SERVICE_LISTING then map_option sv_providerId (find_service i s) else map_option rq_seekerId (find_request i s))"

definition listing_visible :: "time \<Rightarrow> content_kind \<Rightarrow> key \<Rightarrow> db \<Rightarrow> bool" where
  "listing_visible now kind i s \<longleftrightarrow> (if kind = SERVICE_LISTING
     then (case find_service i s of None \<Rightarrow> False | Some v \<Rightarrow> publicServiceWhere now s v)
     else (case find_request i s of None \<Rightarrow> False | Some r \<Rightarrow> publicRequestWhere None s r))"

definition is_saved :: "key \<Rightarrow> content_kind \<Rightarrow> key \<Rightarrow> saved_row \<Rightarrow> bool" where
  "is_saved userId kind i r \<longleftrightarrow> sl_userId r = userId \<and> saved_target kind r = Some i"

definition upsert_saved :: "time \<Rightarrow> key \<Rightarrow> content_kind \<Rightarrow> key \<Rightarrow> saved_row dbtx" where
  "upsert_saved now userId kind i =
     tx_bind (query (\<lambda>s. List.find (is_saved userId kind i) (savedListings (contents s)))) (\<lambda>old. case old of Some r \<Rightarrow> ret r
     | None \<Rightarrow> tx_bind fresh_id (\<lambda>n.
         let r = \<lparr>sl_id = n, sl_userId = userId, sl_serviceId = (if kind = SERVICE_LISTING then Some i else None),
             sl_requestId = (if kind = SERVICE_LISTING then None else Some i), sl_createdAt = now\<rparr> in
         tx_seq (upd_contents (savedListings_update (\<lambda>rs. rs @ [r]))) (ret r)))"

definition saveListing :: "time \<Rightarrow> key \<Rightarrow> content_kind \<Rightarrow> key \<Rightarrow> saved_row dbtx" where
  "saveListing now userId kind i =
     tx_bind (query (listing_owner kind i)) (\<lambda>found.
     tx_bind (expect (Http 404 ''This listing is no longer available.'') found) (\<lambda>owner.
     tx_seq (ensure (owner \<noteq> userId) (Http 409 ''You cannot save your own listing.''))
    (tx_seq (assertActiveMarketplaceAccount userId)
    (tx_seq (if kind = SERVICE_REQUEST then tx_bind (assertNewProviderBusiness now userId) (\<lambda>_. ret ()) else ret ())
    (tx_bind (query (listing_visible now kind i)) (\<lambda>visible.
     tx_seq (ensure visible (Http 404 ''This listing is no longer available.''))
    (upsert_saved now userId kind i)))))))"

definition unsaveListing :: "key \<Rightarrow> content_kind \<Rightarrow> key \<Rightarrow> unit dbtx" where
  "unsaveListing userId kind i = upd_contents (savedListings_update (filter (\<lambda>r. \<not> is_saved userId kind i r)))"

type_synonym shown = "request_row \<times> nat \<times> (price_type \<times> decimal option) option"

definition savedRequests :: "time \<Rightarrow> key \<Rightarrow> key list \<Rightarrow> (db, shown list) process" where
  "savedRequests now userId ids =
     p_bind (transact (query (find_user userId))) (\<lambda>found.
     p_bind (transact (expect (Uncoded ''P2025'') found)) (\<lambda>u.
     if \<not> bn_marketplaceAccess (subscriptionBenefits u now) then p_ret []
     else p_catch (listRequests now None (Some userId) (Some ids))
       (\<lambda>e. if e = Http 403 ''PROVIDER_MEMBERSHIP_EXPIRED'' then p_ret [] else transact (fail e))))"

text \<open>One page of what a user saved, the newest first; the page number is cut to the last page.\<close>

definition saved_page :: "key \<Rightarrow> content_kind \<Rightarrow> nat \<Rightarrow> nat \<Rightarrow> db \<Rightarrow> saved_row list \<times> nat \<times> nat" where
  "saved_page userId kind page perPage s = (let
       all = filter (\<lambda>r. sl_userId r = userId \<and> saved_target kind r \<noteq> None) (savedListings (contents s));
       pages = max 1 ((length all + perPage - 1) div perPage); resolved = min page pages
     in (take perPage (drop ((resolved - 1) * perPage) (rev (sort_key sl_createdAt (sort_key sl_id all)))), resolved, pages))"

datatype shown_listing = Shown_Service service_row | Shown_Request request_row

definition service_items :: "time \<Rightarrow> key list \<Rightarrow> db \<Rightarrow> (key \<times> shown_listing) list" where
  "service_items now ids s = map (\<lambda>(v, _). (sv_id v, Shown_Service (public_view v)))
     (browseServices \<lparr>bq_categoryId = None, bq_search = None, bq_excludeProviderId = None, bq_categoryName = None, bq_ids = Some ids\<rparr> now s)"

definition getSavedListings ::
  "time \<Rightarrow> key \<Rightarrow> content_kind \<Rightarrow> nat \<Rightarrow> nat \<Rightarrow> (db, (saved_row \<times> shown_listing option) list \<times> nat \<times> nat) process" where
  "getSavedListings now userId kind page perPage =
     p_bind (transact (query (saved_page userId kind page perPage))) (\<lambda>(rows, resolved, pages).
     let ids = map (\<lambda>r. the (saved_target kind r)) rows in
     p_bind (if ids = [] then p_ret []
       else if kind = SERVICE_LISTING then transact (query (service_items now ids))
       else p_bind (savedRequests now userId ids) (\<lambda>rs. p_ret (map (\<lambda>(r, _). (rq_id r, Shown_Request (public_request r))) rs))) (\<lambda>items.
     p_ret (map (\<lambda>r. (r, map_of items (the (saved_target kind r)))) rows, resolved, pages)))"

end
