(* ===== verification/SH_Inquiries.thy ===== *)
theory SH_Inquiries
  imports SH_Requests SH_Bookings
begin

text \<open>
  A seeker asks the provider of a listing without a set price for an offer, and the provider may decline:
  src/src/services/listing-inquiries.service.ts.
\<close>

record inquiry_input =
  iq_serviceId :: key
  iq_mode :: "location_mode option"
  iq_jobLocation :: "job_location option"
  iq_message :: string
  iq_photoIds :: "key list"

text \<open>The parts of \<open>ListingInquirySchema\<close> on the message; the other fields are checked where they are used.\<close>

definition valid_inquiry :: "inquiry_input \<Rightarrow> bool" where
  "valid_inquiry i \<longleftrightarrow> (let n = length (trim (iq_message i)) in 10 \<le> n \<and> n \<le> 2000)"

definition inquiry_request :: "key \<Rightarrow> key \<Rightarrow> service_row \<Rightarrow> arrangement \<Rightarrow> string \<Rightarrow> request_row" where
  "inquiry_request i seekerId v arr message =
     (let point = (if ar_mode arr = PROVIDER_VISITS then ar_jobLocation arr else None) in
      \<lparr>rq_id = i, rq_seekerId = seekerId, rq_targetProviderId = Some (sv_providerId v), rq_targetServiceId = Some (sv_id v),
       rq_preferredPaymentMethod = None, rq_paymentMethods = Some (sv_paymentMethods v), rq_categoryId = sv_categoryId v,
       rq_latitude = Option.bind point jl_latitude, rq_longitude = Option.bind point jl_longitude,
       rq_locationLabel = map_option jl_label point, rq_privateAddress = nonempty (Option.bind point jl_address),
       rq_serviceLocationMode = ar_mode arr, rq_status = RQ_OPEN, rq_archivedAt = None,
       rq_text = \<lparr>rt_title = lt_title (sv_text v), rt_description = message, rt_budgetMin = 0, rt_budgetMax = 0,
         rt_urgency = ''Flexible Schedule'', rt_transportationFee = None, rt_policyVersion = None, rt_reasonCode = None,
         rt_reviewedById = None\<rparr>\<rparr>)"

definition listing_open :: "key \<Rightarrow> key \<Rightarrow> db \<Rightarrow> service_row option" where
  "listing_open serviceId providerId s = (case find_service serviceId s of None \<Rightarrow> None
     | Some v \<Rightarrow> if sv_providerId v = providerId \<and> sv_status v = S_ACTIVE \<and> sv_isAvailable v \<and>
         (case find_category (sv_categoryId v) s of None \<Rightarrow> False | Some c \<Rightarrow> cg_isActive c) then Some v else None)"

definition pending_inquiry :: "key \<Rightarrow> key \<Rightarrow> db \<Rightarrow> bool" where
  "pending_inquiry seekerId serviceId s \<longleftrightarrow> exists_row (\<lambda>r. rq_seekerId r = seekerId \<and> rq_targetServiceId r = Some serviceId \<and>
     rq_status r \<in> {RQ_OPEN, RQ_PAYMENT_PENDING, RQ_IN_PROGRESS} \<and> \<not> canArchiveCompletedRequest (offer_states (rq_id r) s)) (requests s)"

definition place_inquiry :: "time \<Rightarrow> key \<Rightarrow> key \<Rightarrow> inquiry_input \<Rightarrow> request_row dbtx" where
  "place_inquiry now seekerId providerId i =
     tx_seq (assertOfferParticipant seekerId AsSeeker)
    (tx_seq (assertOfferParticipant providerId AsProvider)
    (tx_bind (assertNewProviderBusiness now providerId) (\<lambda>_.
     tx_bind (query (listing_open (iq_serviceId i) providerId)) (\<lambda>found.
     tx_bind (expect (Http 404 ''This listing is no longer available.'') found) (\<lambda>v.
     tx_seq (ensure (valid_methods (sv_paymentMethods v)) (Http 409 ''This listing has no available payment method.''))
    (tx_seq (ensure (sv_priceType v = BY_AGREEMENT) (Http 409 ''FIXED_PRICE_BOOKING_REQUIRED''))
    (tx_bind (lift_sum (resolveDirectArrangement v (iq_mode i) (iq_jobLocation i))) (\<lambda>arr.
     tx_bind (query (\<lambda>s. (open_booking_of seekerId (sv_id v) open_statuses s, pending_inquiry seekerId (sv_id v) s))) (\<lambda>(active, sent).
     tx_seq (ensure (\<not> active) (Http 409 ''ACTIVE_BOOKING_EXISTS''))
    (tx_seq (ensure (\<not> sent) (Http 409 ''DUPLICATE_SERVICE_INQUIRY''))
    (tx_bind fresh_id (\<lambda>n. let r = inquiry_request n seekerId v arr (trim (iq_message i)) in
     tx_seq (modify (requests_update (\<lambda>rs. rs @ [r])))
    (tx_seq (setListingPhotos seekerId (iq_photoIds i) (PT_Request n))
    (tx_seq (notify providerId ''New service request'') (ret r)))))))))))))))"

definition createListingInquiry :: "time \<Rightarrow> key \<Rightarrow> inquiry_input \<Rightarrow> (db, request_row) process" where
  "createListingInquiry now seekerId i =
     p_seq (transact (ensure (valid_inquiry i) ZodError))
    (p_bind (transact (query (find_service (iq_serviceId i)))) (\<lambda>found.
     p_bind (transact (expect (Http 404 ''This listing is no longer available.'') found)) (\<lambda>source. let providerId = sv_providerId source in
     p_seq (transact (lift_sum (assertDistinctAccounts seekerId providerId)))
    (p_bind (transact (place_inquiry now seekerId providerId i)) (\<lambda>r.
     p_seq (transact (tx_seq (emit (RUser seekerId) ''SERVICE_REQUESTS_CHANGED'' [])
       (tx_seq (emit (RUser providerId) ''SERVICE_REQUESTS_CHANGED'' [])
         (emit (RUser providerId) ''notification'' ''New service request''))))
    (p_ret (public_request r)))))))"

definition decline_inquiry :: "key \<Rightarrow> key \<Rightarrow> (request_row \<times> bool) dbtx" where
  "decline_inquiry providerId requestId =
     tx_bind (query (\<lambda>s. (find_request requestId s, quoted requestId s))) (\<lambda>(found, priced).
     tx_bind (expect (Http 404 ''This service request is not available to you.'')
       (case found of None \<Rightarrow> None | Some r \<Rightarrow> if rq_targetServiceId r \<noteq> None \<and> rq_targetProviderId r = Some providerId then Some r else None)) (\<lambda>r.
     tx_seq (assertOfferParticipant providerId AsProvider)
    (if rq_status r = RQ_CANCELED then ret (r, False)
     else tx_seq (ensure (rq_status r = RQ_OPEN) (Http 409 ''This request can no longer be declined.''))
    (tx_seq (ensure (\<not> priced) (Http 409 ''You already sent a price for this request. Manage that offer in Activity.''))
    (let r' = r\<lparr>rq_status := RQ_CANCELED\<rparr> in
     tx_seq (upd_request requestId (\<lambda>_. r'))
    (tx_seq (notify_as (N_InquiryDeclined requestId) (rq_seekerId r) ''Service request declined'')
    (ret (r', True))))))))"

definition declineListingInquiry :: "key \<Rightarrow> key \<Rightarrow> (db, request_status) process" where
  "declineListingInquiry providerId requestId =
     p_bind (transact (decline_inquiry providerId requestId)) (\<lambda>(r, changed).
     p_seq (if changed then transact (tx_seq (emit (RUser providerId) ''SERVICE_REQUESTS_CHANGED'' [])
         (tx_seq (emit (RUser (rq_seekerId r)) ''SERVICE_REQUESTS_CHANGED'' [])
           (emit (RUser (rq_seekerId r)) ''notification'' ''Service request declined'')))
       else p_ret ())
      (p_ret (rq_status r)))"

end
