(* ===== verification/SH_Messages.thy ===== *)
theory SH_Messages
  imports SH_Process
begin

text \<open>
  Messages between the two parties of a booking: the access rules, reading, sending and the administrator's
  view of src/src/services/messages.service.ts. The table is in the order of sending. The lists of
  conversations, the time of a receipt and the read mark of notifications are not modelled.
\<close>

definition checkMessagingAccess :: "key \<Rightarrow> key \<Rightarrow> bool \<Rightarrow> booking_row dbtx" where
  "checkMessagingAccess bookingId userId admin =
     tx_bind (query (find_booking bookingId)) (\<lambda>found.
     tx_bind (expect (Http 404 ''Booking not found'') found) (\<lambda>b.
     tx_seq (ensure (admin \<or> bk_seekerId b = userId \<or> bk_providerId b = userId)
       (Http 403 ''Access denied: You are not a participant in this transaction.''))
     (ret b)))"

definition booking_messages :: "key \<Rightarrow> db \<Rightarrow> message_row list" where
  "booking_messages bookingId s = filter (\<lambda>m. ms_bookingId m = bookingId) (messages s)"

definition unread_for :: "key \<Rightarrow> message_row list \<Rightarrow> message_row list" where
  "unread_for userId ms = filter (\<lambda>m. ms_receiverId m = userId \<and> \<not> ms_isRead m) ms"

definition mark_read :: "key \<Rightarrow> key \<Rightarrow> key list \<Rightarrow> key list dbtx" where
  "mark_read bookingId userId ids =
     (let hit = (\<lambda>m. ms_id m \<in> set ids \<and> ms_bookingId m = bookingId \<and> ms_receiverId m = userId \<and> \<not> ms_isRead m) in
      tx_bind (query (\<lambda>s. map ms_id (filter hit (messages s)))) (\<lambda>changed.
      tx_seq (modify (messages_update (map_rows hit (\<lambda>m. m\<lparr>ms_isRead := True\<rparr>)))) (ret changed)))"

definition receipts :: "booking_row \<Rightarrow> key list \<Rightarrow> unit dbtx" where
  "receipts b changed = when_tx (changed \<noteq> [])
     (tx_seq (emit (RUser (bk_seekerId b)) ''messages_read'' []) (emit (RUser (bk_providerId b)) ''messages_read'' []))"

definition getMessages :: "key \<Rightarrow> key \<Rightarrow> bool \<Rightarrow> bool \<Rightarrow> (db, message_row list) process" where
  "getMessages bookingId userId admin markRead =
     p_bind (transact (checkMessagingAccess bookingId userId admin)) (\<lambda>b.
     p_seq (transact (ensure (admin \<or> bk_status b \<notin> {B_PENDING_APPROVAL, B_DECLINED}) (Http 403 ''MESSAGES_LOCKED'')))
    (p_bind (transact (query (booking_messages bookingId))) (\<lambda>seen.
     p_seq (if \<not> admin \<and> markRead
       then p_bind (transact (mark_read bookingId userId (map ms_id (unread_for userId seen)))) (\<lambda>changed. transact (receipts b changed))
       else p_ret ())
    (transact (query (\<lambda>s. filter (\<lambda>m. ms_id m \<in> ms_id ` set seen) (booking_messages bookingId s)))))))"

record admin_page =
  ap_messages :: "message_row list"
  ap_count :: nat
  ap_nextBefore :: "key option"

text \<open>\<open>Math.min(50, Math.max(1, query.limit || 50))\<close> and the newest messages before the cursor.\<close>

definition page_limit :: "int option \<Rightarrow> nat" where
  "page_limit l = nat (min 50 (max 1 (case l of None \<Rightarrow> 50 | Some n \<Rightarrow> if n = 0 then 50 else n)))"

definition getBookingMessagesForAdmin :: "key \<Rightarrow> key option \<Rightarrow> int option \<Rightarrow> admin_page dbtx" where
  "getBookingMessagesForAdmin bookingId cursor perPage =
     tx_bind (query (\<lambda>s. (find_booking bookingId s, booking_messages bookingId s))) (\<lambda>(found, ms).
     tx_seq (ensure (found \<noteq> None) (Http 404 ''Booking not found''))
    (tx_seq (ensure (case cursor of None \<Rightarrow> True | Some c \<Rightarrow> c \<in> ms_id ` set ms) (Http 400 ''INVALID_MESSAGE_CURSOR''))
    (let older = (case cursor of None \<Rightarrow> ms | Some c \<Rightarrow> takeWhile (\<lambda>m. ms_id m \<noteq> c) ms);
         page = rev (take (page_limit perPage) (rev older)); more = page_limit perPage < length older
     in ret \<lparr>ap_messages = page, ap_count = length ms,
          ap_nextBefore = (if more then (case page of [] \<Rightarrow> None | m # _ \<Rightarrow> Some (ms_id m)) else None)\<rparr>)))"

definition chat_statuses :: "booking_status list" where
  "chat_statuses = [B_ACCEPTED, B_WAITING, B_ONGOING, B_AWAITING_CONFIRMATION, B_DISPUTED, B_UNDER_REVIEW]"

definition sendMessage :: "key \<Rightarrow> key \<Rightarrow> string \<Rightarrow> bool \<Rightarrow> bool \<Rightarrow> (db, message_row) process" where
  "sendMessage bookingId senderId content isSystem admin =
     p_seq (transact (ensure (trim content \<noteq> []) (Http 400 ''Message content is required'')))
    (p_bind (transact (checkMessagingAccess bookingId senderId admin)) (\<lambda>b.
     p_seq (transact (ensure (isSystem \<or> bk_status b \<in> set chat_statuses) (Http 403 ''MESSAGES_LOCKED'')))
    (let receiverId = (if senderId = bk_seekerId b then bk_providerId b else bk_seekerId b) in
     p_seq (transact (lift_sum (assertDistinctAccounts senderId receiverId)))
    (p_bind (transact (tx_bind fresh_id (\<lambda>i.
       let m = \<lparr>ms_id = i, ms_bookingId = bookingId, ms_senderId = senderId, ms_receiverId = receiverId, ms_content = trim content,
         ms_isSystem = isSystem, ms_isRead = False\<rparr> in
       tx_seq (modify (messages_update (\<lambda>ms. ms @ [m]))) (ret m)))) (\<lambda>m.
     p_seq (transact (emit (RBooking bookingId) ''new_message'' []))
    (p_seq (transact (emit (RUser receiverId) ''message_notification'' []))
    (p_ret m)))))))"

end
