(* ===== verification/SH_Verification.thy ===== *)
theory SH_Verification
  imports SH_Lifecycle SH_Process SH_Photos
begin

text \<open>
  Verification of residents: src/src/services/verification.service.ts with src/src/config/privacy.ts. \<open>idText\<close>
  is the text of an identifier, \<open>privateUrl\<close> the signed address that the storage provider issues.
\<close>

definition VERIFICATION_PRIVACY_NOTICE_VERSION :: string where
  "VERIFICATION_PRIVACY_NOTICE_VERSION = ''2026-10-09-v3''"

definition VERIFICATION_DOCUMENT_RETENTION_DAYS :: int where
  "VERIFICATION_DOCUMENT_RETENTION_DAYS = 365"

definition verificationRetentionDeadline :: "time \<Rightarrow> time" where
  "verificationRetentionDeadline t = t + VERIFICATION_DOCUMENT_RETENTION_DAYS * 24 * 60 * 60 * 1000"

record proof_input =
  pi_storageKey :: string
  pi_documentType :: string

definition starts_with :: "string \<Rightarrow> string \<Rightarrow> bool" where
  "starts_with p t \<longleftrightarrow> take (length p) t = p"

text \<open>The answer keeps the key of the stored file to itself.\<close>

definition redactVerification :: "verification_row \<Rightarrow> verification_row \<times> (key \<times> string) list" where
  "redactVerification v = (v\<lparr>vr_proofs := []\<rparr>, map (\<lambda>p. (pf_id p, pf_documentType p)) (vr_proofs v))"

subsection \<open>Submitting\<close>

definition newest_submission :: "verification_row list \<Rightarrow> verification_row option" where
  "newest_submission vs = (case rev (sort_key vr_submittedAt (sort_key vr_id vs)) of [] \<Rightarrow> None | v # _ \<Rightarrow> Some v)"

definition pending_of :: "key \<Rightarrow> db \<Rightarrow> verification_row list" where
  "pending_of userId s = filter (\<lambda>v. vr_userId v = userId \<and> vr_status v = V_PENDING_REVIEW) (verifications (contents s))"

fun create_proofs :: "proof_input list \<Rightarrow> proof_row list dbtx" where
  "create_proofs [] = ret []"
| "create_proofs (p # ps) = tx_bind fresh_id (\<lambda>i. tx_bind (create_proofs ps) (\<lambda>rows.
     ret (\<lparr>pf_id = i, pf_storageKey = pi_storageKey p, pf_documentType = pi_documentType p\<rparr> # rows)))"

definition upd_verifications :: "(verification_row \<Rightarrow> bool) \<Rightarrow> (verification_row \<Rightarrow> verification_row) \<Rightarrow> unit dbtx" where
  "upd_verifications p f = upd_contents (verifications_update (map_rows p f))"

definition new_verification :: "time \<Rightarrow> key \<Rightarrow> string \<Rightarrow> proof_input list \<Rightarrow> (verification_row \<times> key list \<times> bool) dbtx" where
  "new_verification now userId notice proofs =
     tx_bind fresh_id (\<lambda>i.
     tx_bind (create_proofs proofs) (\<lambda>rows.
     let v = \<lparr>vr_id = i, vr_userId = userId, vr_status = V_PENDING_REVIEW, vr_submittedAt = now, vr_reviewedAt = None, vr_adminId = None,
         vr_adminNotes = None, vr_noticeVersion = notice, vr_retentionUntil = verificationRetentionDeadline now, vr_legalHold = False,
         vr_proofs = rows\<rparr> in
     tx_seq (upd_contents (verifications_update (\<lambda>vs. vs @ [v])))
    (tx_seq (upd_user userId (\<lambda>u. u\<lparr>u_verificationStatus := V_PENDING_REVIEW\<rparr>))
    (tx_bind (recordAdminNotifications ''New Verification Submission'') (\<lambda>admins.
     ret (v, admins, True))))))"

definition submit_verification :: "time \<Rightarrow> key \<Rightarrow> string \<Rightarrow> proof_input list \<Rightarrow> (verification_row \<times> key list \<times> bool) dbtx" where
  "submit_verification now userId notice proofs =
     tx_bind (query (\<lambda>s. (find_user userId s, newest_submission (pending_of userId s)))) (\<lambda>(found, pending).
     tx_bind (expect (Http 404 ''User not found'') found) (\<lambda>u.
     tx_seq (ensure (u_emailVerified u) (Http 403 ''EMAIL_NOT_VERIFIED''))
    (tx_seq (ensure (u_verificationStatus u \<noteq> V_APPROVED) (Http 409 ''Your account is already verified''))
    (case pending of Some v \<Rightarrow> ret (v, [], False) | None \<Rightarrow> new_verification now userId notice proofs))))"

definition submitVerification ::
  "(key \<Rightarrow> string) \<Rightarrow> time \<Rightarrow> key \<Rightarrow> proof_input list \<Rightarrow> string \<Rightarrow> bool \<Rightarrow> (db, verification_row \<times> (key \<times> string) list) process" where
  "submitVerification idText now userId proofs notice acknowledged =
     p_seq (transact (ensure (acknowledged \<and> notice = VERIFICATION_PRIVACY_NOTICE_VERSION) (Http 400 ''PRIVACY_NOTICE_REQUIRED'')))
    (p_seq (transact (ensure (proofs \<noteq> []) (Http 400 ''At least one document is required'')))
    (p_seq (transact (ensure (\<not> list_ex (\<lambda>p. \<not> starts_with (''servicehub/verification/'' @ idText userId @ ''/'') (pi_storageKey p)) proofs)
       (Http 403 ''Verification document does not belong to this user'')))
    (p_bind (transact (submit_verification now userId notice proofs)) (\<lambda>(v, admins, created).
     p_seq (if created then transact (tx_seq (for_each (\<lambda>a. emit (RUser a) ''notification'' ''New Verification Submission'') admins)
         (emit RAdmin ''verification_submitted'' [])) else p_ret ())
    (p_ret (redactVerification v))))))"

definition getVerificationStatus :: "key \<Rightarrow> db \<Rightarrow> (verification_row \<times> (key \<times> string) list) option" where
  "getVerificationStatus userId s = map_option redactVerification (newest_submission (filter (\<lambda>v. vr_userId v = userId) (verifications (contents s))))"

definition listPendingVerifications :: "nat \<Rightarrow> nat \<Rightarrow> db \<Rightarrow> (verification_row \<times> (key \<times> string) list) list \<times> nat" where
  "listPendingVerifications page perPage s = (let all = filter (\<lambda>v. vr_status v = V_PENDING_REVIEW) (verifications (contents s)) in
     (map redactVerification (take perPage (drop ((page - 1) * perPage) (sort_key vr_submittedAt all))), length all))"

definition accessVerificationProof :: "(string \<Rightarrow> bool \<Rightarrow> string) \<Rightarrow> key \<Rightarrow> key \<Rightarrow> key \<Rightarrow> bool \<Rightarrow> (string \<times> string) dbtx" where
  "accessVerificationProof privateUrl verificationId proofId adminId download =
     tx_bind (query (\<lambda>s. case find_row vr_id verificationId (verifications (contents s)) of None \<Rightarrow> None
       | Some v \<Rightarrow> (case find_row pf_id proofId (vr_proofs v) of None \<Rightarrow> None
         | Some p \<Rightarrow> if pf_storageKey p = [] then None else Some (vr_userId v, p)))) (\<lambda>found.
     tx_bind (expect (Http 404 ''Verification proof not found'') found) (\<lambda>(userId, p).
     tx_seq (audit adminId (Some userId) (if download then ''VERIFICATION_DOCUMENT_DOWNLOADED'' else ''VERIFICATION_DOCUMENT_VIEWED'') (pf_id p))
       (ret (privateUrl (pf_storageKey p) download, pf_documentType p))))"

subsection \<open>Reviewing\<close>

definition decided :: "time \<Rightarrow> key \<Rightarrow> verification_status \<Rightarrow> string option \<Rightarrow> verification_row \<Rightarrow> verification_row" where
  "decided now adminId st notes v = v\<lparr>vr_status := st, vr_adminId := Some adminId, vr_adminNotes := notes, vr_reviewedAt := Some now,
     vr_retentionUntil := verificationRetentionDeadline now\<rparr>"

definition review_verification :: "time \<Rightarrow> key \<Rightarrow> key \<Rightarrow> key \<Rightarrow> bool \<Rightarrow> string option \<Rightarrow> key dbtx" where
  "review_verification now verificationId userId adminId approve notes =
     (let st = (if approve then V_APPROVED else V_REJECTED) in
     tx_bind (query (\<lambda>s. (find_row vr_id verificationId (verifications (contents s)), find_user userId s, newest_submission (pending_of userId s)))) (\<lambda>(found, owner, latest).
     tx_bind (expect (Http 404 ''Verification not found'')
       (case found of None \<Rightarrow> None | Some v \<Rightarrow> if vr_userId v = userId then Some v else None)) (\<lambda>v.
     tx_seq (ensure (map_option vr_id latest = Some verificationId \<and> map_option u_verificationStatus owner \<noteq> Some V_APPROVED)
       (Http 409 ''STALE_VERIFICATION''))
    (tx_seq (ensure (vr_status v = V_PENDING_REVIEW) (Http 409 ''Verification has already been reviewed''))
    (tx_seq (upd_verifications (\<lambda>w. vr_id w = verificationId \<and> vr_status w = V_PENDING_REVIEW) (decided now adminId st notes))
    (tx_seq (upd_user userId (\<lambda>u. u\<lparr>u_verificationStatus := st\<rparr>))
    (tx_seq (upd_verifications (\<lambda>w. vr_userId w = userId \<and> vr_id w \<noteq> verificationId \<and> vr_status w = V_PENDING_REVIEW)
       (decided now adminId V_REJECTED (Some ''Superseded by a later verification decision'')))
    (tx_seq (if approve then applyTrustEvent now userId 5 ''Residency & Identity Verification Approved by ServiceHub Admin'' (Some adminId)
         (TK_VerificationApproval userId) else ret ())
    (tx_seq (notify userId (if approve then ''Verification Approved'' else ''Verification Rejected''))
    (tx_seq (audit adminId (Some userId) (if approve then ''VERIFICATION_APPROVED'' else ''VERIFICATION_REJECTED'') verificationId)
    (ret userId)))))))))))"

definition reviewVerification :: "time \<Rightarrow> key \<Rightarrow> key \<Rightarrow> bool \<Rightarrow> string option \<Rightarrow> (db, verification_status) process" where
  "reviewVerification now verificationId adminId approve adminNotes =
     (let st = (if approve then V_APPROVED else V_REJECTED);
          notes = (case adminNotes of None \<Rightarrow> None | Some t \<Rightarrow> if trim t = [] then None else Some (trim t)) in
     p_bind (transact (query (\<lambda>s. find_row vr_id verificationId (verifications (contents s))))) (\<lambda>initial.
     p_bind (transact (expect (Http 404 ''Verification not found'') initial)) (\<lambda>v.
     p_bind (transact (review_verification now verificationId (vr_userId v) adminId approve notes)) (\<lambda>userId.
     p_seq (transact (tx_seq (emit (RUser userId) ''notification'' (if approve then ''Verification Approved'' else ''Verification Rejected''))
       (emit (RUser userId) ''accountStatusChanged'' [])))
     (p_ret st)))))"

end
