(* ===== verification/SH_Residents.thy ===== *)
theory SH_Residents
  imports SH_Verification SH_Runs
begin

text \<open>An administrator's review of residency documents decides a submission once.\<close>

lemma trust_frame:
  assumes "applyTrustEvent now u d reason a ek s = Inr (x, t)"
  shows "contents t = contents s" "map_option u_verificationStatus (find_user k t) = map_option u_verificationStatus (find_user k s)"
    "find_user u s \<noteq> None" "find_event ek t \<noteq> None"
proof -
  from assms obtain r where "applyTrustEventInTransaction now (plain_trust u d reason a ek) s = Inr (r, t)" by (auto simp: applyTrustEvent_def tx_iff)
  then obtain w where w: "find_user u s = Some w" and t: "t = s \<and> find_event ek s \<noteq> None \<or> t = trust_written now (plain_trust u d reason a ek) (u_trustScore w) s"
    by (auto simp: applyTrustEvent_Inr plain_trust_def split: option.splits)
  show "find_user u s \<noteq> None" using w by simp
  show "contents t = contents s" using t by (auto simp: trust_written_def)
  show "map_option u_verificationStatus (find_user k t) = map_option u_verificationStatus (find_user k s)"
    using t by (auto simp: trust_written_def find_user_def option.map_comp o_def)
  show "find_event ek t \<noteq> None" using t
    by (auto simp: trust_written_def known_event trust_event_def plain_trust_def simp del: not_None_eq)
qed

text \<open>The rows that one review leaves.\<close>

definition reviewed_rows :: "time \<Rightarrow> key \<Rightarrow> key \<Rightarrow> key \<Rightarrow> verification_status \<Rightarrow> string option \<Rightarrow> verification_row list \<Rightarrow> verification_row list" where
  "reviewed_rows now i u adminId st notes vs =
     map_rows (\<lambda>w. vr_userId w = u \<and> vr_id w \<noteq> i \<and> vr_status w = V_PENDING_REVIEW)
       (decided now adminId V_REJECTED (Some ''Superseded by a later verification decision''))
     (map_rows (\<lambda>w. vr_id w = i \<and> vr_status w = V_PENDING_REVIEW) (decided now adminId st notes) vs)"

lemma decided_simps [simp]: "vr_id (decided now a st n v) = vr_id v" "vr_userId (decided now a st n v) = vr_userId v"
  "vr_status (decided now a st n v) = st" "vr_adminId (decided now a st n v) = Some a"
  by (simp_all add: decided_def)

lemma reviewed_none_pending:
  assumes "st \<noteq> V_PENDING_REVIEW" "w \<in> set (reviewed_rows now i u a st n vs)" "vr_userId w = u"
  shows "vr_status w \<noteq> V_PENDING_REVIEW"
  using assms unfolding reviewed_rows_def set_map_rows by (elim imageE) (simp split: if_split_asm; blast)

lemma reviewed_find:
  assumes "find_row vr_id i vs = Some v" "vr_status v = V_PENDING_REVIEW"
  shows "find_row vr_id i (reviewed_rows now i u a st n vs) = Some (decided now a st n v)"
  using assms find_row_Some[OF assms(1)] by (simp add: reviewed_rows_def find_row_map_rows)

lemma reviewed_others: "filter (\<lambda>w. vr_userId w \<noteq> u \<and> vr_id w \<noteq> i) (reviewed_rows now i u a st n vs) = filter (\<lambda>w. vr_userId w \<noteq> u \<and> vr_id w \<noteq> i) vs"
  by (induction vs) (auto simp: reviewed_rows_def map_rows_def)

lemma review_Inr:
  assumes "review_verification now i u adminId approve notes s = Inr (k, t)"
  obtains v where "k = u" "find_row vr_id i (verifications (contents s)) = Some v" "vr_userId v = u" "vr_status v = V_PENDING_REVIEW"
    "map_option vr_id (newest_submission (pending_of u s)) = Some i" "map_option u_verificationStatus (find_user u s) \<noteq> Some V_APPROVED"
    "verifications (contents t) = reviewed_rows now i u adminId (if approve then V_APPROVED else V_REJECTED) notes (verifications (contents s))"
    "map_option u_verificationStatus (find_user u t) = map_option (\<lambda>_. if approve then V_APPROVED else V_REJECTED) (find_user u s)"
    "approve \<Longrightarrow> find_user u s \<noteq> None \<and> find_event (TK_VerificationApproval u) t \<noteq> None"
proof -
  let ?st = "if approve then V_APPROVED else V_REJECTED"
  from assms obtain v s1 s2 s3 s4 s5 where v: "k = u" "find_row vr_id i (verifications (contents s)) = Some v" "vr_userId v = u" "vr_status v = V_PENDING_REVIEW"
    and g: "map_option vr_id (newest_submission (pending_of u s)) = Some i" "map_option u_verificationStatus (find_user u s) \<noteq> Some V_APPROVED"
    and 1: "upd_verifications (\<lambda>w. vr_id w = i \<and> vr_status w = V_PENDING_REVIEW) (decided now adminId ?st notes) s = Inr ((), s1)"
    and 2: "upd_user u (\<lambda>r. r\<lparr>u_verificationStatus := ?st\<rparr>) s1 = Inr ((), s2)"
    and 3: "upd_verifications (\<lambda>w. vr_userId w = u \<and> vr_id w \<noteq> i \<and> vr_status w = V_PENDING_REVIEW)
       (decided now adminId V_REJECTED (Some ''Superseded by a later verification decision'')) s2 = Inr ((), s3)"
    and 4: "(if approve then applyTrustEvent now u 5 ''Residency & Identity Verification Approved by ServiceHub Admin'' (Some adminId) (TK_VerificationApproval u) else ret ()) s3 = Inr ((), s4)"
    and 5: "notify u (if approve then ''Verification Approved'' else ''Verification Rejected'') s4 = Inr ((), s5)"
    and 6: "audit adminId (Some u) (if approve then ''VERIFICATION_APPROVED'' else ''VERIFICATION_REJECTED'') i s5 = Inr ((), t)"
    unfolding review_verification_def Let_def tx_bind_Inr tx_seq_Inr query_Inr expect_Inr ensure_Inr ret_Inr prod.case
    by (auto simp: tx_bind_Inr tx_seq_Inr query_Inr expect_Inr ensure_Inr ret_Inr split: option.splits if_split_asm)
  have rows: "verifications (contents s3) = reviewed_rows now i u adminId ?st notes (verifications (contents s))" "trustEvents s3 = trustEvents s"
    "users s3 = map_rows (\<lambda>r. u_id r = u) (\<lambda>r. r\<lparr>u_verificationStatus := ?st\<rparr>) (users s)"
    using 1 2 3 by (auto simp: upd_verifications_def upd_contents_def upd_user_def modify_Inr reviewed_rows_def)
  have t: "contents t = contents s4" "users t = users s4" "trustEvents t = trustEvents s4"
    using 5 6 by (auto simp: notify_def audit_def fresh_id_def tx_iff)
  have u: "find_user u t = find_user u s4" using t by (simp add: find_user_def)
  have s4: "contents s4 = contents s3" "map_option u_verificationStatus (find_user u s4) = map_option u_verificationStatus (find_user u s3)"
    "approve \<Longrightarrow> find_user u s3 \<noteq> None \<and> find_event (TK_VerificationApproval u) s4 \<noteq> None"
    using 4 trust_frame by (auto simp: ret_Inr split: if_split_asm)
  show thesis
  proof (rule that[OF v g])
    show "verifications (contents t) = reviewed_rows now i u adminId ?st notes (verifications (contents s))"
      using t s4 rows by simp
    show "map_option u_verificationStatus (find_user u t) = map_option (\<lambda>_. ?st) (find_user u s)"
      unfolding u s4 by (simp add: rows find_user_def option.map_comp o_def)
    show "find_user u s \<noteq> None \<and> find_event (TK_VerificationApproval u) t \<noteq> None" if approve
      using s4(3)[OF that] t by (simp add: rows find_user_def find_event_def)
  qed
qed

lemma newest_none: "newest_submission [] = None"
  by (simp add: newest_submission_def)

lemma review_stale:
  assumes "find_row vr_id i (verifications (contents s)) = Some v" "pending_of (vr_userId v) s = []"
  shows "reviewVerification now i adminId approve notes s = (Inl (Http 409 ''STALE_VERIFICATION''), s)"
  using assms by (simp add: reviewVerification_def review_verification_def Let_def p_bind_def transact_def query_def expect_def ret_def
      tx_bind_def tx_seq_def ensure_def fail_def newest_none)

lemma emit_two: "tx_seq (emit a b c) (emit d e f) s = Inr (x, t) \<Longrightarrow> contents t = contents s \<and> users t = users s \<and> trustEvents t = trustEvents s"
  by (auto simp: emit_def tx_iff)

text \<open>C29: A submission is reviewed once. Only the newest pending submission of a resident who is not approved yet is
  decided; then it carries the decision and the administrator, the resident has the same status, nothing of the
  resident is left pending, and an approval is recorded in the trust ledger. Every later review of it, with
  whatever decision, is refused as stale and changes nothing.\<close>

theorem verification_decided_once:
  assumes "reviewVerification now i adminId approve notes s = (Inr st, t)"
  shows "\<exists>v w. find_row vr_id i (verifications (contents s)) = Some v \<and> vr_status v = V_PENDING_REVIEW \<and>
    map_option vr_id (newest_submission (pending_of (vr_userId v) s)) = Some i \<and>
    map_option u_verificationStatus (find_user (vr_userId v) s) \<noteq> Some V_APPROVED \<and>
    st = (if approve then V_APPROVED else V_REJECTED) \<and>
    find_row vr_id i (verifications (contents t)) = Some w \<and> vr_status w = st \<and> vr_adminId w = Some adminId \<and> vr_userId w = vr_userId v \<and>
    map_option u_verificationStatus (find_user (vr_userId v) t) = map_option (\<lambda>_. st) (find_user (vr_userId v) s) \<and>
    pending_of (vr_userId v) t = [] \<and> (approve \<longrightarrow> find_event (TK_VerificationApproval (vr_userId v)) t \<noteq> None) \<and>
    (\<forall>later admin2 approve2 notes2. reviewVerification later i admin2 approve2 notes2 t = (Inl (Http 409 ''STALE_VERIFICATION''), t))"
proof -
  from assms obtain v k why t0 where v: "find_row vr_id i (verifications (contents s)) = Some v"
    and run: "review_verification now i (vr_userId v) adminId approve why s = Inr (k, t0)" and st: "st = (if approve then V_APPROVED else V_REJECTED)"
    and out: "tx_seq (emit (RUser k) ''notification'' (if approve then ''Verification Approved'' else ''Verification Rejected''))
       (emit (RUser k) ''accountStatusChanged'' []) t0 = Inr ((), t)"
    unfolding reviewVerification_def Let_def p_Inr query_Inr expect_Inr by fastforce
  note t = emit_two[OF out, THEN conjunct1] emit_two[OF out, THEN conjunct2, THEN conjunct1] emit_two[OF out, THEN conjunct2, THEN conjunct2]
  obtain v' where v': "find_row vr_id i (verifications (contents s)) = Some v'" "vr_status v' = V_PENDING_REVIEW"
    and g: "map_option vr_id (newest_submission (pending_of (vr_userId v) s)) = Some i" "map_option u_verificationStatus (find_user (vr_userId v) s) \<noteq> Some V_APPROVED"
    and rows: "verifications (contents t0) = reviewed_rows now i (vr_userId v) adminId (if approve then V_APPROVED else V_REJECTED) why (verifications (contents s))"
    and u: "map_option u_verificationStatus (find_user (vr_userId v) t0) = map_option (\<lambda>_. if approve then V_APPROVED else V_REJECTED) (find_user (vr_userId v) s)"
    and e: "approve \<Longrightarrow> find_event (TK_VerificationApproval (vr_userId v)) t0 \<noteq> None"
    by (rule review_Inr[OF run]) blast
  have vv: "v' = v" using v v' by simp
  let ?w = "decided now adminId st why v"
  have w: "find_row vr_id i (verifications (contents t)) = Some ?w" using reviewed_find[OF v] v'(2) by (simp add: t rows st vv)
  have none: "pending_of (vr_userId v) t = []"
    unfolding pending_of_def t rows filter_empty_conv
    by (intro ballI notI, elim conjE) (erule reviewed_none_pending[THEN notE, rotated 1], simp_all split: if_splits)
  have late: "reviewVerification later i admin2 approve2 notes2 t = (Inl (Http 409 ''STALE_VERIFICATION''), t)" for later admin2 approve2 notes2
    using review_stale[OF w] none by simp
  show ?thesis
    by (intro exI[of _ v] exI[of _ ?w] conjI v v'(2)[unfolded vv] g st w none allI late)
      (use u e in \<open>simp_all add: t st find_user_def find_event_def\<close>)
qed

definition sample_submission :: verification_row where
  "sample_submission = \<lparr>vr_id = 7, vr_userId = 2, vr_status = V_PENDING_REVIEW, vr_submittedAt = 100, vr_reviewedAt = None, vr_adminId = None,
     vr_adminNotes = None, vr_noticeVersion = VERIFICATION_PRIVACY_NOTICE_VERSION, vr_retentionUntil = 200, vr_legalHold = False, vr_proofs = []\<rparr>"

definition sample_residents_db :: db where
  "sample_residents_db = empty_db\<lparr>users := [(ready_user 2)\<lparr>u_verificationStatus := V_PENDING_REVIEW\<rparr>],
     contents := (contents empty_db)\<lparr>verifications := [sample_submission]\<rparr>, nextId := 50\<rparr>"

theorem verification_decided_once_witness:
  "\<exists>t. reviewVerification 1000 7 9 True None sample_residents_db = (Inr V_APPROVED, t) \<and> pending_of 2 t = [] \<and>
     reviewVerification 2000 7 9 False None t = (Inl (Http 409 ''STALE_VERIFICATION''), t)"
proof -
  have "\<not> isl (fst (reviewVerification 1000 7 9 True None sample_residents_db))" by code_simp
  then obtain st t where run: "reviewVerification 1000 7 9 True None sample_residents_db = (Inr st, t)" using done_some by blast
  have "find_row vr_id 7 (verifications (contents sample_residents_db)) = Some sample_submission"
    by (simp add: sample_residents_db_def find_row_def sample_submission_def)
  with verification_decided_once[OF run] run show ?thesis by (auto simp: sample_submission_def)
qed

end
