(* ===== verification/SH_OwnRequests.thy ===== *)
theory SH_OwnRequests
  imports SH_Requests SH_Inquiries SH_Runs
begin

text \<open>What a seeker can rely on when posting and deleting requests.\<close>

subsection \<open>Deleting\<close>

lemma own_request_Inr: "own_request i p s = Inr (r, t) \<longleftrightarrow> t = s \<and> find_request i s = Some r \<and> rq_seekerId r = p"
  by (auto simp: own_request_def tx_iff split: option.splits if_splits)

lemma notify_each_Inr:
  assumes "for_each (\<lambda>p. notify_as (k p) p title) ps s = Inr (x, t)"
  shows "t = s\<lparr>notifications := notifications t\<rparr> \<and> (\<forall>p \<in> set ps. exists_row (\<lambda>n. nt_id n = k p \<and> nt_userId n = p) (notifications t)) \<and>
    set (notifications s) \<subseteq> set (notifications t)"
  using assms
proof (induction ps arbitrary: s)
  case (Cons p ps)
  then obtain s1 where 1: "notify_as (k p) p title s = Inr ((), s1)" and 2: "for_each (\<lambda>p. notify_as (k p) p title) ps s1 = Inr (x, t)"
    by (auto simp: tx_seq_Inr)
  note ih = Cons.IH[OF 2]
  have s1: "s1 = s\<lparr>notifications := notifications s @ [\<lparr>nt_id = k p, nt_userId = p, nt_title = title, nt_cancelledBooking = None\<rparr>]\<rparr>"
    using 1 by (auto simp: notify_as_def notify_row_def split: if_splits)
  obtain ns where t: "t = s1\<lparr>notifications := ns\<rparr>" using ih by blast
  have "set (notifications s1) \<subseteq> set (notifications t)" using ih by blast
  moreover have "\<exists>n \<in> set (notifications s1). nt_id n = k p \<and> nt_userId n = p" by (simp add: s1)
  ultimately have "\<exists>n \<in> set (notifications t). nt_id n = k p \<and> nt_userId n = p" by blast
  with ih show ?case by (auto simp: s1 t)
qed (simp add: ret_Inr)

lemma cancel_request_Inr:
  assumes "cancel_request i p s = Inr ((r, ps), t)"
  obtains q ns where "find_request i s = Some q" "rq_seekerId q = p" "rq_status q = RQ_OPEN" "r = q\<lparr>rq_status := RQ_CANCELED\<rparr>"
    "requestDeletionEligibility RQ_OPEN (offer_states i s) (map at_status (request_payments i s)) = None" "ps = pending_providers i s"
    "t = s\<lparr>requests := map_rows (\<lambda>w. rq_id w = i) (\<lambda>_. r) (requests s),
       offers := map_rows (\<lambda>f. of_requestId f = i \<and> of_status f = O_PENDING) (\<lambda>f. f\<lparr>of_status := O_REJECTED\<rparr>) (offers s), notifications := ns\<rparr>"
    "\<forall>u \<in> set ps. exists_row (\<lambda>n. nt_id n = N_RequestClosed i u \<and> nt_userId n = u) ns"
proof -
  from assms obtain q s1 s2 s3 where q: "find_request i s = Some q" "rq_seekerId q = p" "rq_status q = RQ_OPEN"
    and e: "requestDeletionEligibility RQ_OPEN (offer_states i s) (map at_status (request_payments i s)) = None"
    and r: "r = q\<lparr>rq_status := RQ_CANCELED\<rparr>" "ps = pending_providers i s"
    and 1: "s1 = requests_update (map_rows (\<lambda>w. rq_id w = i) (\<lambda>_. r)) s"
    and 2: "s2 = offers_update (map_rows (\<lambda>f. of_requestId f = i \<and> of_status f = O_PENDING) (\<lambda>f. f\<lparr>of_status := O_REJECTED\<rparr>)) s1"
    and 3: "for_each (\<lambda>u. notify_as (N_RequestClosed i u) u ''Request closed'') ps s2 = Inr ((), t)"
    unfolding cancel_request_def Let_def upd_request_def tx_bind_Inr tx_seq_Inr query_Inr ensure_Inr modify_Inr ret_Inr own_request_Inr
    by (auto simp: tx_iff own_request_Inr)
  note n = notify_each_Inr[OF 3]
  from n obtain ns where t: "t = s2\<lparr>notifications := ns\<rparr>" by blast
  show thesis using that[OF q r(1) e r(2), of ns] n unfolding t 1 2 by auto
qed

lemma eligible:
  assumes "requestDeletionEligibility RQ_OPEN os ps = None"
  shows "(st, b) \<in> set os \<Longrightarrow> st \<noteq> O_ACCEPTED \<and> st \<noteq> O_PENDING_PAYMENT \<and> (\<forall>x. b = Some x \<longrightarrow> x \<in> dead_statuses)"
    and "a \<in> set ps \<Longrightarrow> a \<notin> set protectedRequestPaymentStatuses"
proof -
  have n: "\<not> list_ex (booked dead_statuses) os" "\<not> list_ex (\<lambda>f. fst f = O_ACCEPTED) os" "\<not> list_ex (\<lambda>f. fst f = O_PENDING_PAYMENT) os"
    "\<not> list_ex (\<lambda>p. p \<in> set protectedRequestPaymentStatuses) ps"
    using assms unfolding requestDeletionEligibility_def by (simp_all split: if_splits)
  show "a \<in> set ps \<Longrightarrow> a \<notin> set protectedRequestPaymentStatuses" using n(4) by (auto simp: list_ex_iff)
  assume "(st, b) \<in> set os"
  then have "\<not> booked dead_statuses (st, b)" "st \<noteq> O_ACCEPTED" "st \<noteq> O_PENDING_PAYMENT"
    using n(1-3) unfolding list_ex_iff by force+
  then show "st \<noteq> O_ACCEPTED \<and> st \<noteq> O_PENDING_PAYMENT \<and> (\<forall>x. b = Some x \<longrightarrow> x \<in> dead_statuses)"
    by (auto simp: booked_def)
qed

lemma emit_each_Inr: "for_each (\<lambda>u. emit (k u) e m) us s = Inr (x, t) \<Longrightarrow> \<exists>ob. t = s\<lparr>outbox := ob\<rparr>"
proof (induction us arbitrary: s)
  case (Cons u us)
  then obtain s1 where "emit (k u) e m s = Inr ((), s1)" "for_each (\<lambda>u. emit (k u) e m) us s1 = Inr (x, t)" by (auto simp: tx_seq_Inr)
  with Cons.IH[of s1] show ?case by (auto simp: emit_def modify_Inr)
next
  case Nil
  then show ?case by (intro exI[of _ "outbox s"]) (simp add: ret_Inr)
qed

lemma closed_offers:
  assumes "f \<in> set (map_rows (\<lambda>f. of_requestId f = i \<and> of_status f = O_PENDING) (\<lambda>f. f\<lparr>of_status := O_REJECTED\<rparr>) fs)"
    and "of_requestId f = i"
  shows "of_status f \<noteq> O_PENDING"
proof -
  let ?P = "\<lambda>f. of_requestId f = i \<and> of_status f = O_PENDING"
  obtain g where g: "g \<in> set fs" "f = (if ?P g then g\<lparr>of_status := O_REJECTED\<rparr> else g)"
    using assms(1) unfolding map_rows_def set_map by blast
  show ?thesis
  proof (cases "?P g")
    case True
    from trans[OF g(2) if_P[OF True]] show ?thesis by simp
  next
    case False
    from trans[OF g(2) if_not_P[OF False]] have "f = g" .
    with False assms(2) show ?thesis by blast
  qed
qed

text \<open>C27: A request is deleted only when nothing hangs on it, and then completely: it was open, none of its offers was
  accepted, waits for payment or has a booking other than a declined, cancelled or removed one, and no payment
  for an offer is pending, captured or owed back. Afterwards it is cancelled, none of its offers is pending,
  every provider whose offer was is told, and the offers of other requests are as before.\<close>

theorem deleted_request_clean:
  assumes "cancelRequest i p s = (Inr r, t)"
  shows "\<exists>q. find_request i s = Some q \<and> rq_seekerId q = p \<and> rq_status q = RQ_OPEN \<and> find_request i t = Some (q\<lparr>rq_status := RQ_CANCELED\<rparr>) \<and>
    (\<forall>f \<in> set (request_offers i s). of_status f \<noteq> O_ACCEPTED \<and> of_status f \<noteq> O_PENDING_PAYMENT \<and>
       (\<forall>b. booking_of_offer (of_id f) s = Some b \<longrightarrow> bk_status b \<in> dead_statuses)) \<and>
    request_payments i s = [] \<and> (\<forall>f \<in> set (request_offers i t). of_status f \<noteq> O_PENDING) \<and>
    (\<forall>f \<in> set (request_offers i s). of_status f = O_PENDING \<longrightarrow>
       exists_row (\<lambda>n. nt_id n = N_RequestClosed i (of_providerId f) \<and> nt_userId n = of_providerId f) (notifications t)) \<and>
    (\<forall>j. j \<noteq> i \<longrightarrow> request_offers j t = request_offers j s)"
proof -
  from assms obtain ps t0 where run: "cancel_request i p s = Inr ((r, ps), t0)" and pub: "publishNotifications ps ''Request closed'' t0 = Inr ((), t)"
    by (auto simp: cancelRequest_def p_Inr)
  obtain q ns where q: "find_request i s = Some q" "rq_seekerId q = p" "rq_status q = RQ_OPEN" "r = q\<lparr>rq_status := RQ_CANCELED\<rparr>"
    and e: "requestDeletionEligibility RQ_OPEN (offer_states i s) (map at_status (request_payments i s)) = None" and ps: "ps = pending_providers i s"
    and t0: "t0 = s\<lparr>requests := map_rows (\<lambda>w. rq_id w = i) (\<lambda>_. r) (requests s),
       offers := map_rows (\<lambda>f. of_requestId f = i \<and> of_status f = O_PENDING) (\<lambda>f. f\<lparr>of_status := O_REJECTED\<rparr>) (offers s), notifications := ns\<rparr>"
    and told: "\<forall>u \<in> set ps. exists_row (\<lambda>n. nt_id n = N_RequestClosed i u \<and> nt_userId n = u) ns" by (rule cancel_request_Inr[OF run])
  obtain ob where t: "t = t0\<lparr>outbox := ob\<rparr>" using emit_each_Inr pub unfolding publishNotifications_def by blast
  have rows: "offers t = map_rows (\<lambda>f. of_requestId f = i \<and> of_status f = O_PENDING) (\<lambda>f. f\<lparr>of_status := O_REJECTED\<rparr>) (offers s)"
    and ns: "notifications t = ns" by (simp_all add: t t0)
  have "find_row rq_id i (map_rows (\<lambda>w. rq_id w = i) (\<lambda>_. r) rs) = map_option (\<lambda>_. r) (find_row rq_id i rs)" for rs
    using find_row_Some[OF q(1)[unfolded find_request_def]] q(4) by (induction rs) (auto simp: find_row_def map_rows_def)
  then have A: "find_request i t = Some (q\<lparr>rq_status := RQ_CANCELED\<rparr>)" using q(1,4) by (simp add: t t0 find_request_def)
  have B: "of_status f \<noteq> O_ACCEPTED \<and> of_status f \<noteq> O_PENDING_PAYMENT \<and> (\<forall>b. booking_of_offer (of_id f) s = Some b \<longrightarrow> bk_status b \<in> dead_statuses)"
    if "f \<in> set (request_offers i s)" for f
  proof -
    have "(of_status f, map_option bk_status (booking_of_offer (of_id f) s)) \<in> set (offer_states i s)" using that by (simp add: offer_states_def)
    from eligible(1)[OF e this] show ?thesis by auto
  qed
  have C: "request_payments i s = []"
  proof (rule ccontr)
    assume "request_payments i s \<noteq> []"
    then obtain a where a: "a \<in> set (request_payments i s)" by (meson list.set_sel(1))
    then have "at_status a \<in> set protectedRequestPaymentStatuses" by (simp add: request_payments_def)
    with eligible(2)[OF e, of "at_status a"] a show False by simp
  qed
  have D: "of_status f \<noteq> O_PENDING" if "f \<in> set (request_offers i t)" for f
  proof (rule closed_offers)
    from that have "f \<in> set (offers t) \<and> of_requestId f = i" by (simp add: request_offers_def)
    then show "f \<in> set (map_rows (\<lambda>f. of_requestId f = i \<and> of_status f = O_PENDING) (\<lambda>f. f\<lparr>of_status := O_REJECTED\<rparr>) (offers s))"
      and "of_requestId f = i" unfolding rows by (rule conjunct1, rule conjunct2)
  qed
  have E: "exists_row (\<lambda>n. nt_id n = N_RequestClosed i (of_providerId f) \<and> nt_userId n = of_providerId f) (notifications t)"
    if "f \<in> set (request_offers i s)" "of_status f = O_PENDING" for f
  proof -
    have "of_providerId f \<in> set ps" using that by (simp add: ps pending_providers_def)
    with told ns show ?thesis by simp
  qed
  have F: "request_offers j t = request_offers j s" if "j \<noteq> i" for j
    unfolding request_offers_def rows by (rule filter_map_rows_off) (use that in auto)
  show ?thesis by (intro exI[of _ q] conjI ballI allI impI q A C D F) (use B E in blast)+
qed

definition sample_open_db :: db where
  "sample_open_db = empty_db\<lparr>requests := [sample_request 3], offers := [sample_offer 11 2 O_PENDING, sample_offer 12 4 O_REJECTED], nextId := 50\<rparr>"

theorem deleted_request_clean_witness:
  "\<exists>r t. cancelRequest 3 1 sample_open_db = (Inr r, t) \<and> (\<forall>f \<in> set (request_offers 3 t). of_status f \<noteq> O_PENDING)"
proof -
  have "\<not> isl (fst (cancelRequest 3 1 sample_open_db))" by code_simp
  then obtain r t where run: "cancelRequest 3 1 sample_open_db = (Inr r, t)" using done_some by blast
  from deleted_request_clean[OF run] run show ?thesis by blast
qed

end
