(* ===== verification/SH_Community.thy ===== *)
theory SH_Community
  imports SH_Moderation SH_Messages SH_Runs
begin

text \<open>What two parties of a booking write to each other stays between them, and what can be reported.\<close>

subsection \<open>Messages\<close>

lemma seq_Inr: "p_seq m n s = (Inr x, s') \<longleftrightarrow> (\<exists>y t. m s = (Inr y, t) \<and> n t = (Inr x, s'))"
  by (auto simp: p_seq_def p_bind_def split: sum.splits prod.splits)

lemma access_Inr: "checkMessagingAccess i u admin s = Inr (b, t) \<longleftrightarrow>
    t = s \<and> find_booking i s = Some b \<and> (admin \<or> bk_seekerId b = u \<or> bk_providerId b = u)"
  by (auto simp: checkMessagingAccess_def tx_iff)

lemma receipts_Inr: "receipts b ids s = Inr (x, t) \<Longrightarrow> messages t = messages s"
  by (auto simp: receipts_def when_tx_def emit_def tx_iff split: if_splits)

lemma of_booking_marked:
  assumes "\<And>m. ms_bookingId (f m) = ms_bookingId m" "\<And>m. ms_id (f m) = ms_id m"
  shows "filter (\<lambda>m. ms_bookingId m = i) (map f ms) = map f (filter (\<lambda>m. ms_bookingId m = i) ms)"
    "filter (\<lambda>m. ms_id m \<in> ms_id ` set ns) (map f ns) = map f ns"
  by (simp_all add: filter_map o_def assms filter_id_conv)

text \<open>C30: Reading a conversation shows it to its parties only and marks exactly what was addressed to the reader. A
  reader who is not an administrator is a party of the booking, which is past its request; the answer holds
  all messages of the booking and no other, in their order, and no message of another booking, or addressed to
  the other party, changes; an administrator, and a background read, marks nothing.\<close>

theorem reading_marks_own:
  assumes "getMessages i u admin mark s = (Inr ms, t)"
  shows "\<exists>b. find_booking i s = Some b \<and> (admin \<or> u \<in> {bk_seekerId b, bk_providerId b} \<and> bk_status b \<notin> {B_PENDING_APPROVAL, B_DECLINED}) \<and>
    ms = booking_messages i t \<and> messages t = map (\<lambda>m. if \<not> admin \<and> mark \<and> ms_bookingId m = i \<and> ms_receiverId m = u then m\<lparr>ms_isRead := True\<rparr> else m) (messages s)"
proof -
  let ?on = "\<not> admin \<and> mark"
  let ?hit = "\<lambda>m. ms_id m \<in> set (map ms_id (unread_for u (booking_messages i s))) \<and> ms_bookingId m = i \<and> ms_receiverId m = u \<and> \<not> ms_isRead m"
  from assms obtain b t1 where acc: "checkMessagingAccess i u admin s = Inr (b, t1)" and 1: "p_seq (transact (ensure (admin \<or> bk_status b \<notin> {B_PENDING_APPROVAL, B_DECLINED}) (Http 403 ''MESSAGES_LOCKED'')))
    (p_bind (transact (query (booking_messages i))) (\<lambda>seen.
     p_seq (if ?on then p_bind (transact (mark_read i u (map ms_id (unread_for u seen)))) (\<lambda>changed. transact (receipts b changed)) else p_ret ())
    (transact (query (\<lambda>s. filter (\<lambda>m. ms_id m \<in> ms_id ` set seen) (booking_messages i s)))))) t1 = (Inr ms, t)"
    unfolding getMessages_def transact_bind_Inr by blast
  from acc have t1: "t1 = s" and b: "find_booking i s = Some b" "admin \<or> u \<in> {bk_seekerId b, bk_providerId b}" by (auto simp: access_Inr)
  from 1 have st: "admin \<or> bk_status b \<notin> {B_PENDING_APPROVAL, B_DECLINED}" and 2: "p_seq (if ?on then p_bind (transact (mark_read i u (map ms_id (unread_for u (booking_messages i s))))) (\<lambda>changed. transact (receipts b changed)) else p_ret ())
    (transact (query (\<lambda>s'. filter (\<lambda>m. ms_id m \<in> ms_id ` set (booking_messages i s)) (booking_messages i s')))) s = (Inr ms, t)"
    unfolding t1 transact_seq_Inr transact_bind_Inr ensure_Inr query_Inr by blast+
  then obtain y t2 where run: "(if ?on then p_bind (transact (mark_read i u (map ms_id (unread_for u (booking_messages i s))))) (\<lambda>changed. transact (receipts b changed)) else p_ret ()) s = (Inr y, t2)"
    and 3: "transact (query (\<lambda>s'. filter (\<lambda>m. ms_id m \<in> ms_id ` set (booking_messages i s)) (booking_messages i s'))) t2 = (Inr ms, t)"
    unfolding seq_Inr by blast
  from 3 have t2: "t2 = t" and ms: "ms = filter (\<lambda>m. ms_id m \<in> ms_id ` set (booking_messages i s)) (booking_messages i t)"
    unfolding transact_Inr query_Inr by blast+
  have rows: "messages t = (if ?on then map_rows ?hit (\<lambda>m. m\<lparr>ms_isRead := True\<rparr>) (messages s) else messages s)"
    using run[unfolded t2] by (auto simp: p_Inr mark_read_def Let_def tx_iff dest!: receipts_Inr split: if_splits)
  have "(if ?hit m then m\<lparr>ms_isRead := True\<rparr> else m) = (if ms_bookingId m = i \<and> ms_receiverId m = u then m\<lparr>ms_isRead := True\<rparr> else m)" if "m \<in> set (messages s)" for m
    using that by (cases m) (auto simp: unread_for_def booking_messages_def image_iff)
  then have marked: "messages t = map (\<lambda>m. if ?on \<and> ms_bookingId m = i \<and> ms_receiverId m = u then m\<lparr>ms_isRead := True\<rparr> else m) (messages s)"
    unfolding rows map_rows_def by (cases ?on) (auto simp: map_idI)
  let ?f = "\<lambda>m. if ?on \<and> ms_bookingId m = i \<and> ms_receiverId m = u then m\<lparr>ms_isRead := True\<rparr> else m"
  have "booking_messages i t = map ?f (booking_messages i s)" unfolding booking_messages_def marked by (rule of_booking_marked(1)) simp_all
  moreover have "filter (\<lambda>m. ms_id m \<in> ms_id ` set (booking_messages i s)) (map ?f (booking_messages i s)) = map ?f (booking_messages i s)"
    by (rule of_booking_marked(2)) simp_all
  ultimately have "ms = booking_messages i t" unfolding ms by (simp only:)
  then show ?thesis using b st marked by (intro exI[of _ b] conjI) (assumption | simp | blast)+
qed

definition sample_chat_db :: db where
  "sample_chat_db = empty_db\<lparr>bookings := [(sample_booking 5 B_ONGOING OnsiteCash P_UNPAID)],
     messages := [\<lparr>ms_id = 21, ms_bookingId = 5, ms_senderId = 2, ms_receiverId = 1, ms_content = ''hi'', ms_isSystem = False, ms_isRead = False\<rparr>,
       \<lparr>ms_id = 22, ms_bookingId = 5, ms_senderId = 1, ms_receiverId = 2, ms_content = ''ok'', ms_isSystem = False, ms_isRead = False\<rparr>]\<rparr>"

theorem reading_marks_own_witness:
  "\<exists>ms t. getMessages 5 1 False True sample_chat_db = (Inr ms, t) \<and> map ms_isRead ms = [True, False]"
proof -
  have "\<not> isl (fst (getMessages 5 1 False True sample_chat_db))" by code_simp
  then obtain ms t where run: "getMessages 5 1 False True sample_chat_db = (Inr ms, t)" using done_some by blast
  from reading_marks_own[OF run] run show ?thesis by (auto simp: sample_chat_db_def booking_messages_def)
qed

subsection \<open>Reports of listings priced by agreement\<close>

text \<open>C32: A report of a listing that is priced by agreement always fails, whoever sends it and however public the listing is:
  the check that the content is public counts only listings with a rate, although such listings are shown to
  the public.\<close>

theorem agreement_listing_unreportable:
  assumes "find_service i s = Some v" "sv_priceType v = BY_AGREEMENT" "ci_caseType input = CC_REPORT" "ci_contentType input = SERVICE_LISTING"
    "ci_resourceId input = Some i"
  shows "isl (fst (submitContentCase now p input s))"
proof (rule ccontr)
  assume "\<not> isl (fst (submitContentCase now p input s))"
  then obtain c t where "submitContentCase now p input s = (Inr c, t)" using done_some by blast
  then obtain r t0 where "submit_case now p input s = Inr (r, t0)" by (auto simp: submitContentCase_def p_Inr tx_iff)
  then obtain s1 where tgt: "case_target now p input s = Inr ((), s1)"
    and pub: "\<not> (case Option.bind (ci_resourceId input) (\<lambda>r. readPublicContent (ci_contentType input) r s1) of None \<Rightarrow> True | Some c \<Rightarrow> \<not> cv_public c)"
    unfolding submit_case_def Let_def using assms(3) by (auto simp: tx_iff split: option.splits)
  have "services s1 = services s"
    using tgt assms(3-5) by (auto simp: case_target_def report_target_def assertActiveMarketplaceAccount_def tx_iff split: option.splits if_splits)
  then have "find_service i s1 = Some v" using assms(1) by (simp add: find_service_def)
  then show False using pub assms(2,4,5) by (auto simp: readPublicContent_def viewed_public_def split: option.splits if_splits)
qed

definition agreed_listing :: service_row where
  "agreed_listing = sample_service\<lparr>sv_priceType := BY_AGREEMENT, sv_price := None, sv_status := S_ACTIVE, sv_isAvailable := True\<rparr>"

definition sample_shown_db :: db where
  "sample_shown_db = empty_db\<lparr>users := [ready_user 1, (ready_user 2)\<lparr>u_freePlanStartedAt := Some 0, u_freePlanExpiresAt := Some 9000\<rparr>], services := [agreed_listing], nextId := 50\<rparr>"

theorem agreement_listing_unreportable_witness:
  "publicServiceWhere 1000 sample_shown_db agreed_listing \<and>
   isl (fst (submitContentCase 1000 1 \<lparr>ci_caseType = CC_REPORT, ci_contentType = SERVICE_LISTING, ci_resourceId = Some 10,
     ci_reason = ''It is a scam.'', ci_reportReason = None\<rparr> sample_shown_db))"
proof
  show "publicServiceWhere 1000 sample_shown_db agreed_listing" by code_simp
  have "find_service 10 sample_shown_db = Some agreed_listing"
    by (simp add: find_service_def find_row_def sample_shown_db_def agreed_listing_def sample_service_def)
  from agreement_listing_unreportable[OF this, of "\<lparr>ci_caseType = CC_REPORT, ci_contentType = SERVICE_LISTING, ci_resourceId = Some 10,
     ci_reason = ''It is a scam.'', ci_reportReason = None\<rparr>" 1000 1] show "isl (fst (submitContentCase 1000 1 \<lparr>ci_caseType = CC_REPORT, ci_contentType = SERVICE_LISTING,
     ci_resourceId = Some 10, ci_reason = ''It is a scam.'', ci_reportReason = None\<rparr> sample_shown_db))"
    by (simp add: agreed_listing_def)
qed

end
