(* ===== verification/SH_Categories.thy ===== *)
theory SH_Categories
  imports SH_Moderation SH_Runs
begin

text \<open>
  The catalogue of categories stays free of duplicates: whatever administrators do, two active categories never name
  the same kind of work, and the system fallback stays.
\<close>

subsection \<open>The invariant\<close>

definition fallback_rows :: "category_row list \<Rightarrow> category_row list" where
  "fallback_rows cs = filter (\<lambda>c. isFallbackCategory (cg_name c)) cs"

definition categories_sound :: "db \<Rightarrow> bool" where
  "categories_sound s \<longleftrightarrow> (let cs = categories (contents s) in
     distinct (map cg_id cs) \<and> (\<forall>c \<in> set cs. cg_id c < nextId s) \<and>
     (\<forall>c \<in> set cs. \<forall>d \<in> set cs. cg_isActive c \<longrightarrow> cg_isActive d \<longrightarrow>
        categoryConceptKey (cg_name c) = categoryConceptKey (cg_name d) \<longrightarrow> cg_id c = cg_id d) \<and>
     fallback_rows cs \<noteq> [] \<and> (\<forall>c \<in> set (fallback_rows cs). cg_isActive c))"

definition in_use :: "key \<Rightarrow> db \<Rightarrow> bool" where
  "in_use i s \<longleftrightarrow> 0 < category_listings i s \<or> 0 < category_open_requests i s"

definition category_active :: "key \<Rightarrow> db \<Rightarrow> bool" where
  "category_active i s \<longleftrightarrow> (\<exists>c. find_category i s = Some c \<and> cg_isActive c)"

lemma fallback_concept: "isFallbackCategory n \<Longrightarrow> categoryConceptKey n = categoryConceptKey other_services"
proof -
  assume "isFallbackCategory n"
  then have "nameKey n = nameKey other_services" by (simp add: isFallbackCategory_def nameKey_def)
  then have same: "officialCategoryForName n = officialCategoryForName other_services" by (simp add: officialCategoryForName_def)
  have "(other_services, [''Repair & Maintenance'']) \<in> set category_catalog" by (simp add: category_catalog_def other_services_def)
  then have "officialCategoryForName other_services \<noteq> None"
    unfolding officialCategoryForName_def by (auto simp: find_None_iff)
  with same show ?thesis by (auto simp: categoryConceptKey_def canonicalCategoryName_def)
qed

lemma fallback_other: "isFallbackCategory other_services"
  by (simp add: isFallbackCategory_def)

subsection \<open>The keys of the official names\<close>

text \<open>Names are evaluated letter by letter from tables.\<close>

definition lower_char :: "char \<Rightarrow> char" where
  "lower_char c = (let n = (of_char c :: nat) in if 65 \<le> n \<and> n \<le> 90 then char_of (n + 32) else c)"

lemma lower_step: "toLowerCase [] = []" "toLowerCase (c # cs) = lower_char c # toLowerCase cs"
  by (simp_all add: toLowerCase_def lower_char_def)

lemma lower_table: "list_all (\<lambda>(c, l). lower_char c = l) (zip ''ABCDEFGHIJKLMNOPQRSTUVWXYZabcdefghijklmnopqrstuvwxyz &/,-''
    ''abcdefghijklmnopqrstuvwxyzabcdefghijklmnopqrstuvwxyz &/,-'')"
  by code_simp

lemma class_table: "list_all (\<lambda>c. is_alnum c \<and> \<not> js_space c) ''ABCDEFGHIJKLMNOPQRSTUVWXYZabcdefghijklmnopqrstuvwxyz''"
  "list_all (\<lambda>c. \<not> is_alnum c \<and> \<not> js_space c) ''&/,-''" "js_space (CHR '' '')" "\<not> is_alnum (CHR '' '')"
  by code_simp+

lemmas name_steps = lower_step lower_table[simplified] class_table[simplified]

lemma catalog_keys: "map (\<lambda>(n, as). map nameKey (n # as)) category_catalog = [
    [''aircon cleaning and repair'', ''aircon service'', ''aircon repair''], [''appliance repair''], [''bicycle repair''],
    [''bookkeeping and admin help''], [''car repair and maintenance'', ''automotive services''],
    [''carpentry and furniture repair'', ''carpentry and woodwork''],
    [''computer and laptop repair'', ''computer and it services''], [''cooking and catering''],
    [''delivery moving and errands'', ''delivery and moving''], [''electrical wiring and repairs'', ''electrical repair''],
    [''event planning and setup'', ''event services''], [''gardening and landscaping'', ''lawn and garden'', ''lawn care''],
    [''haircuts and beauty'', ''beauty and personal care'', ''haircut''],
    [''handyman and small home repairs'', ''handyman services''],
    [''home and office cleaning'', ''cleaning services'', ''house cleaning''],
    [''home renovation and masonry'', ''home improvement''], [''internet and wi fi setup''], [''laundry and ironing''],
    [''locks and keys''], [''motorcycle repair and maintenance''], [''musical instrument repair and tuning''],
    [''painting'', ''painting services''], [''pest control''], [''pet grooming and care'', ''pet services''],
    [''phone and tablet repair''], [''photography and video'', ''photography and videography''], [''plumbing''],
    [''printing and graphic design''], [''roof and gutter repairs''], [''tailoring and clothing repairs''],
    [''translation and writing''], [''tutoring and lessons'', ''tutoring and education'', ''tutoring''],
    [''website and software services''], [''welding and metalwork''], [''other services'', ''repair and maintenance'']]"
  by (simp add: category_catalog_def nameKey_def words_only_def normalizedCategoryName_def trim_def name_steps)

lemma catalog_keys_distinct: "distinct (concat (map (\<lambda>(n, as). map nameKey (n # as)) category_catalog))"
  unfolding catalog_keys by simp

lemma find_own_label:
  assumes "distinct (concat (map (\<lambda>(n, as). map f (n # as)) xs))" "(n, as) \<in> set xs"
  shows "List.find (\<lambda>(m, bs). list_ex (\<lambda>l. f l = f n) (m # bs)) xs = Some (n, as)"
  using assms
proof (induction xs)
  case (Cons x xs)
  obtain m bs where x: "x = (m, bs)" by force
  show ?case
  proof (cases "(n, as) = x")
    case False
    then have "(n, as) \<in> set xs" using Cons.prems by simp
    then have "f n \<in> set (concat (map (\<lambda>(n, as). map f (n # as)) xs))" by force
    moreover have "set (map f (m # bs)) \<inter> set (concat (map (\<lambda>(n, as). map f (n # as)) xs)) = {}"
      using Cons.prems(1) unfolding x list.map(2) concat.simps prod.case distinct_append by blast
    ultimately have "f n \<notin> set (map f (m # bs))" by blast
    then have "\<not> list_ex (\<lambda>l. f l = f n) (m # bs)" unfolding list_ex_iff by (force simp: image_iff)
    with Cons x \<open>(n, as) \<in> set xs\<close> show ?thesis by simp
  qed (use x in simp)
qed simp

lemma official_self: "n \<in> set default_categories \<Longrightarrow> categoryConceptKey n = nameKey n"
proof -
  assume "n \<in> set default_categories"
  then obtain as where "(n, as) \<in> set category_catalog" by (auto simp: default_categories_def)
  from find_own_label[OF catalog_keys_distinct this] have "officialCategoryForName n = Some n"
    by (simp add: officialCategoryForName_def)
  then show ?thesis by (simp add: categoryConceptKey_def canonicalCategoryName_def)
qed

lemma default_concepts: "distinct (map categoryConceptKey default_categories)"
proof -
  have "distinct (map (\<lambda>x. nameKey (fst x)) xs)" if "distinct (concat (map (\<lambda>(n, as). map nameKey (n # as)) xs))" for xs :: "(string \<times> string list) list"
    using that by (induction xs) force+
  from this[OF catalog_keys_distinct] have "distinct (map nameKey default_categories)"
    by (simp add: default_categories_def o_def)
  moreover have "map categoryConceptKey default_categories = map nameKey default_categories" using official_self by simp
  ultimately show ?thesis by (simp only:)
qed

lemma default_fallback: "other_services \<in> set default_categories"
  by (simp add: default_categories_def category_catalog_def other_services_def)

subsection \<open>One changed row\<close>


subsection \<open>One changed row\<close>

text \<open>Two active rows with one concept are one row; this is what every change has to respect.\<close>

definition concepts_apart :: "category_row list \<Rightarrow> bool" where
  "concepts_apart cs \<longleftrightarrow> (\<forall>c \<in> set cs. \<forall>d \<in> set cs. cg_isActive c \<longrightarrow> cg_isActive d \<longrightarrow>
     categoryConceptKey (cg_name c) = categoryConceptKey (cg_name d) \<longrightarrow> cg_id c = cg_id d)"

lemma sound_parts: "categories_sound s \<longleftrightarrow> distinct (map cg_id (categories (contents s))) \<and> (\<forall>c \<in> set (categories (contents s)). cg_id c < nextId s) \<and>
    concepts_apart (categories (contents s)) \<and> fallback_rows (categories (contents s)) \<noteq> [] \<and> (\<forall>c \<in> set (fallback_rows (categories (contents s))). cg_isActive c)"
  by (simp add: categories_sound_def concepts_apart_def Let_def)

lemma apart_change:
  assumes "concepts_apart cs" "cg_id c' = i"
    and free: "cg_isActive c' \<Longrightarrow> \<forall>d \<in> set cs. cg_id d \<noteq> i \<longrightarrow> cg_isActive d \<longrightarrow> categoryConceptKey (cg_name d) \<noteq> categoryConceptKey (cg_name c')"
  shows "concepts_apart (map_rows (\<lambda>d. cg_id d = i) (\<lambda>_. c') cs)"
  unfolding concepts_apart_def
proof (intro ballI impI)
  fix x y assume xy: "x \<in> set (map_rows (\<lambda>d. cg_id d = i) (\<lambda>_. c') cs)" "y \<in> set (map_rows (\<lambda>d. cg_id d = i) (\<lambda>_. c') cs)"
    and on: "cg_isActive x" "cg_isActive y" and same: "categoryConceptKey (cg_name x) = categoryConceptKey (cg_name y)"
  from xy(1) obtain a where a: "a \<in> set cs" "x = (if cg_id a = i then c' else a)" unfolding set_map_rows by (rule imageE)
  from xy(2) obtain b where b: "b \<in> set cs" "y = (if cg_id b = i then c' else b)" unfolding set_map_rows by (rule imageE)
  show "cg_id x = cg_id y"
  proof (cases "cg_id a = i"; cases "cg_id b = i")
    assume "cg_id a \<noteq> i" "cg_id b \<noteq> i"
    then have "x = a" "y = b" using a b by simp_all
    then show ?thesis using assms(1) a(1) b(1) on same unfolding concepts_apart_def by blast
  next
    assume "cg_id a = i" "cg_id b \<noteq> i"
    then show ?thesis using free a b on same by (simp; blast)
  next
    assume "cg_id a \<noteq> i" "cg_id b = i"
    then show ?thesis using free a b on same by (simp; blast)
  qed (use a b assms(2) in simp)
qed

lemma sound_change:
  assumes wf: "categories_sound s" and c: "find_category i s = Some c" and c': "cg_id c' = i"
    and t: "categories (contents t) = map_rows (\<lambda>d. cg_id d = i) (\<lambda>_. c') (categories (contents s))" "nextId t = nextId s"
    and free: "cg_isActive c' \<Longrightarrow> \<forall>d \<in> set (categories (contents s)). cg_id d \<noteq> i \<longrightarrow> cg_isActive d \<longrightarrow>
        categoryConceptKey (cg_name d) \<noteq> categoryConceptKey (cg_name c')"
    and keep: "isFallbackCategory (cg_name c) \<Longrightarrow> isFallbackCategory (cg_name c')" "isFallbackCategory (cg_name c') \<Longrightarrow> cg_isActive c'"
  shows "categories_sound t"
proof -
  let ?cs = "categories (contents s)"
  have mem: "c \<in> set ?cs" "cg_id c = i" using c unfolding find_category_def by (auto dest: find_row_Some)
  have ids: "map cg_id (map_rows (\<lambda>d. cg_id d = i) (\<lambda>_. c') ?cs) = map cg_id ?cs" using c' by (auto simp: map_rows_def)
  have one: "d = c" if "d \<in> set ?cs" "cg_id d = i" for d
    using wf mem that by (metis sound_parts distinct_map inj_onD)
  have "\<exists>d \<in> set (map_rows (\<lambda>d. cg_id d = i) (\<lambda>_. c') ?cs). isFallbackCategory (cg_name d)"
  proof -
    from wf obtain d where d: "d \<in> set ?cs" "isFallbackCategory (cg_name d)"
      by (auto simp: sound_parts fallback_rows_def filter_empty_conv)
    have "(if cg_id d = i then c' else d) \<in> set (map_rows (\<lambda>d. cg_id d = i) (\<lambda>_. c') ?cs)" using d(1) unfolding set_map_rows by (rule imageI)
    moreover have "isFallbackCategory (cg_name (if cg_id d = i then c' else d))" using d one keep(1) by auto
    ultimately show ?thesis by blast
  qed
  moreover have "cg_isActive d" if "d \<in> set (map_rows (\<lambda>d. cg_id d = i) (\<lambda>_. c') ?cs)" "isFallbackCategory (cg_name d)" for d
  proof -
    from that(1) obtain a where a: "a \<in> set ?cs" "d = (if cg_id a = i then c' else a)" unfolding set_map_rows by (rule imageE)
    show ?thesis
    proof (cases "cg_id a = i")
      case False
      with a have "d = a" by simp
      then show ?thesis using wf a(1) that(2) by (simp add: sound_parts fallback_rows_def)
    qed (use a that(2) keep(2) in simp)
  qed
  moreover have "cg_id d < nextId s" if "d \<in> set (map_rows (\<lambda>d. cg_id d = i) (\<lambda>_. c') ?cs)" for d
  proof -
    have "cg_id d \<in> cg_id ` set ?cs" using that ids by (metis image_eqI set_map)
    then show ?thesis using wf by (auto simp: sound_parts)
  qed
  ultimately show ?thesis
    using wf apart_change[OF _ c' free] ids by (auto simp: sound_parts t fallback_rows_def filter_empty_conv)
qed

text \<open>The tables that an administrator's handler leaves alone.\<close>

lemma update_Inr:
  assumes "update_category i a name act s = Inr (c', t)"
  obtains c where "find_category i s = Some c" "cg_id c' = cg_id c" "t = s\<lparr>contents := contents t, auditLogs := auditLogs t\<rparr>"
    "categories (contents t) = map_rows (\<lambda>d. cg_id d = i) (\<lambda>_. c') (categories (contents s))"
    "isFallbackCategory (cg_name c) \<Longrightarrow> cg_name c' = other_services \<and> cg_isActive c'" "cg_name c' \<noteq> cg_name c \<or> cg_isActive c' \<noteq> cg_isActive c"
    "cg_name c' \<noteq> cg_name c \<or> \<not> cg_isActive c \<and> cg_isActive c' \<Longrightarrow> \<not> duplicate_category i (cg_name c) (cg_name c') s"
    "cg_isActive c \<Longrightarrow> \<not> cg_isActive c' \<Longrightarrow> \<not> in_use i s"
proof -
  define n where "n = (\<lambda>c :: category_row. canonicalCategoryName (given name (cg_name c)))"
  define on where "on = (\<lambda>c :: category_row. given act (cg_isActive c))"
  from assms obtain c s1 where c: "find_category i s = Some c" and g: "\<not> (isFallbackCategory (cg_name c) \<and> (n c \<noteq> other_services \<or> \<not> on c))"
      "\<not> (n c = cg_name c \<and> on c = cg_isActive c)" "\<not> ((n c \<noteq> cg_name c \<or> \<not> cg_isActive c \<and> on c) \<and> duplicate_category i (cg_name c) (n c) s)"
      "\<not> (cg_isActive c \<and> \<not> on c \<and> (0 < category_listings i s \<or> 0 < category_open_requests i s))"
    and c': "c' = c\<lparr>cg_name := n c, cg_isActive := on c\<rparr>"
    and 1: "upd_contents (categories_update (map_rows (\<lambda>d. cg_id d = i) (\<lambda>_. c'))) s = Inr ((), s1)" and 2: "audit a None ''CATEGORY_UPDATED'' i s1 = Inr ((), t)"
    unfolding update_category_def Let_def unique_def n_def[symmetric] on_def[symmetric]
    by (auto simp: tx_bind_Inr tx_seq_Inr query_Inr expect_Inr ensure_Inr ret_Inr n_def on_def)
  have rows: "categories (contents t) = map_rows (\<lambda>d. cg_id d = i) (\<lambda>_. c') (categories (contents s))" "t = s\<lparr>contents := contents t, auditLogs := auditLogs t\<rparr>"
    using 1 2 by (auto simp: upd_contents_def audit_def modify_Inr)
  show thesis by (rule that[OF c _ rows(2,1)]) (use g in \<open>auto simp: c' in_use_def\<close>)
qed

definition pre_sound :: "db \<Rightarrow> bool" where
  "pre_sound s \<longleftrightarrow> (let cs = categories (contents s) in distinct (map cg_id cs) \<and> (\<forall>c \<in> set cs. cg_id c < nextId s) \<and> concepts_apart cs \<and>
     (\<forall>c \<in> set (fallback_rows cs). cg_isActive c))"

lemma sound_pre: "categories_sound s \<longleftrightarrow> pre_sound s \<and> fallback_rows (categories (contents s)) \<noteq> []"
  by (auto simp: pre_sound_def sound_parts Let_def)

lemma pre_added:
  assumes "pre_sound s" "categories (contents t) = categories (contents s) @ [\<lparr>cg_id = nextId s, cg_name = n, cg_isActive = True\<rparr>]"
    "nextId t = Suc (nextId s)" "\<forall>d \<in> set (categories (contents s)). categoryConceptKey (cg_name d) \<noteq> categoryConceptKey n"
  shows "pre_sound t"
proof -
  have "concepts_apart (categories (contents t))" using assms unfolding pre_sound_def Let_def concepts_apart_def by fastforce
  moreover have "distinct (map cg_id (categories (contents t)))" using assms(1) unfolding assms(2) pre_sound_def Let_def by fastforce
  moreover have "\<forall>c \<in> set (categories (contents t)). cg_id c < nextId t" using assms(1) unfolding assms(2,3) pre_sound_def Let_def by fastforce
  ultimately show ?thesis using assms(1) unfolding pre_sound_def Let_def assms(2) fallback_rows_def by auto
qed

text \<open>Renaming, pausing and resuming: a second row with the concept is refused, so the fallback cannot be doubled either.\<close>

lemma sound_update:
  assumes "update_category i a name act s = Inr (c', t)" "categories_sound s"
  shows "categories_sound t" "category_active j s \<Longrightarrow> in_use j s \<Longrightarrow> category_active j t"
proof -
  obtain c where c: "find_category i s = Some c" "cg_id c' = cg_id c" and t: "t = s\<lparr>contents := contents t, auditLogs := auditLogs t\<rparr>"
      "categories (contents t) = map_rows (\<lambda>d. cg_id d = i) (\<lambda>_. c') (categories (contents s))"
    and fb: "isFallbackCategory (cg_name c) \<Longrightarrow> cg_name c' = other_services \<and> cg_isActive c'"
    and new: "cg_name c' \<noteq> cg_name c \<or> cg_isActive c' \<noteq> cg_isActive c"
      "cg_name c' \<noteq> cg_name c \<or> \<not> cg_isActive c \<and> cg_isActive c' \<Longrightarrow> \<not> duplicate_category i (cg_name c) (cg_name c') s"
    and use: "cg_isActive c \<Longrightarrow> \<not> cg_isActive c' \<Longrightarrow> \<not> in_use i s" by (rule update_Inr[OF assms(1)]) blast
  have mem: "c \<in> set (categories (contents s))" "cg_id c = i" using c(1) unfolding find_category_def by (auto dest: find_row_Some)
  have nid: "nextId t = nextId s" by (subst t(1)) simp
  have free: "\<forall>d \<in> set (categories (contents s)). cg_id d \<noteq> i \<longrightarrow> cg_isActive d \<longrightarrow> categoryConceptKey (cg_name d) \<noteq> categoryConceptKey (cg_name c')"
    if "cg_name c' \<noteq> cg_name c \<or> \<not> cg_isActive c \<and> cg_isActive c'"
    using new(2)[OF that] unfolding duplicate_category_def by auto
  have "cg_isActive c'" if f: "isFallbackCategory (cg_name c')"
  proof (cases "isFallbackCategory (cg_name c)")
    case False
    with f have "cg_name c' \<noteq> cg_name c" by metis
    with free have no: "\<forall>d \<in> set (categories (contents s)). cg_id d \<noteq> i \<longrightarrow> cg_isActive d \<longrightarrow> categoryConceptKey (cg_name d) \<noteq> categoryConceptKey (cg_name c')" by blast
    obtain d where d: "d \<in> set (categories (contents s))" "isFallbackCategory (cg_name d)" "cg_isActive d"
      using assms(2) unfolding sound_parts fallback_rows_def filter_empty_conv by auto
    moreover have "cg_id d \<noteq> i"
      using d(1,2) mem False assms(2) unfolding sound_parts by (metis distinct_map inj_onD)
    ultimately show ?thesis using no fallback_concept[OF f] fallback_concept[OF d(2)] by auto
  qed (use fb in simp)
  moreover have "isFallbackCategory (cg_name c')" if "isFallbackCategory (cg_name c)" using fb[OF that] fallback_other by simp
  ultimately show "categories_sound t"
    using sound_change[OF assms(2) c(1) _ t(2) nid] c(2) mem(2) free new(1) by blast
  assume on: "category_active j s" "in_use j s"
  have look: "find_category k t = (if k = i then map_option (\<lambda>_. c') (find_category k s) else find_category k s)" for k
  proof -
    have "find_row cg_id k (map_rows (\<lambda>d. cg_id d = i) (\<lambda>_. c') cs) = (if k = i then map_option (\<lambda>_. c') (find_row cg_id k cs) else find_row cg_id k cs)" for cs
      using c(2) mem(2) by (induction cs) (auto simp: find_row_def map_rows_def)
    then show ?thesis by (simp add: find_category_def t(2))
  qed
  show "category_active j t"
  proof (cases "j = i")
    case True
    then have "cg_isActive c" using on(1) c(1) by (simp add: category_active_def)
    then show ?thesis using use on(2) True c(1) look by (auto simp: category_active_def)
  qed (use on(1) look in \<open>simp add: category_active_def\<close>)
qed

subsection \<open>New rows\<close>

lemma active_added:
  "categories (contents t) = categories (contents s) @ rs \<Longrightarrow> category_active j s \<Longrightarrow> category_active j t"
  unfolding category_active_def find_category_def by (auto simp: find_row_append)

lemma sound_create:
  assumes "create_category a n s = Inr (c, t)"
  shows "categories_sound s \<Longrightarrow> categories_sound t" "\<exists>rs. categories (contents t) = categories (contents s) @ rs"
proof -
  from assms have t: "categories (contents t) = categories (contents s) @ [\<lparr>cg_id = nextId s, cg_name = n, cg_isActive = True\<rparr>]" "nextId t = Suc (nextId s)"
    and free: "\<forall>d \<in> set (categories (contents s)). categoryConceptKey (cg_name d) \<noteq> categoryConceptKey n"
    by (auto simp: create_category_def unique_def fresh_id_def upd_contents_def audit_def tx_iff Let_def)
  show "categories_sound t" if "categories_sound s"
    using that pre_added[OF _ t free] by (auto simp: sound_pre t fallback_rows_def)
  show "\<exists>rs. categories (contents t) = categories (contents s) @ rs" using t by blast
qed

lemma add_each:
  assumes "for_each add_category ns s = Inr (x, t)" "pre_sound s" "distinct (map categoryConceptKey ns)"
    "\<forall>n \<in> set ns. \<forall>d \<in> set (categories (contents s)). categoryConceptKey (cg_name d) \<noteq> categoryConceptKey n"
  shows "pre_sound t \<and> (\<exists>rs. categories (contents t) = categories (contents s) @ rs \<and> map cg_name rs = ns)"
  using assms
proof (induction ns arbitrary: s)
  case (Cons n ns)
  then obtain s1 where 1: "add_category n s = Inr ((), s1)" and 2: "for_each add_category ns s1 = Inr (x, t)" by (auto simp: tx_seq_Inr)
  from 1 have s1: "categories (contents s1) = categories (contents s) @ [\<lparr>cg_id = nextId s, cg_name = n, cg_isActive = True\<rparr>]" "nextId s1 = Suc (nextId s)"
    by (auto simp: add_category_def fresh_id_def upd_contents_def tx_iff)
  have "pre_sound s1" using pre_added[OF Cons.prems(2) s1] Cons.prems(4) by simp
  moreover have "\<forall>m \<in> set ns. \<forall>d \<in> set (categories (contents s1)). categoryConceptKey (cg_name d) \<noteq> categoryConceptKey m"
    using Cons.prems(3,4) by (auto simp: s1)
  ultimately obtain rs where "pre_sound t" "categories (contents t) = categories (contents s1) @ rs" "map cg_name rs = ns"
    using Cons.IH[OF 2] Cons.prems(3) by auto
  then show ?case by (auto simp: s1)
qed (simp add: ret_Inr)

lemma add_each_runs: "\<exists>t. for_each add_category ns s = Inr ((), t)"
  by (induction ns arbitrary: s) (auto simp: ret_def tx_seq_def tx_bind_def add_category_def fresh_id_def upd_contents_def modify_def)

lemma missing_apart: "distinct (map categoryConceptKey (missing_categories s))"
  "\<forall>n \<in> set (missing_categories s). \<forall>d \<in> set (categories (contents s)). categoryConceptKey (cg_name d) \<noteq> categoryConceptKey n"
proof -
  show "distinct (map categoryConceptKey (missing_categories s))"
    using default_concepts by (auto simp: missing_categories_def distinct_map inj_on_def)
  show "\<forall>n \<in> set (missing_categories s). \<forall>d \<in> set (categories (contents s)). categoryConceptKey (cg_name d) \<noteq> categoryConceptKey n"
  proof (intro ballI notI)
    fix n d assume n: "n \<in> set (missing_categories s)" and d: "d \<in> set (categories (contents s))" and e: "categoryConceptKey (cg_name d) = categoryConceptKey n"
    have "categoryConceptKey n \<in> (\<lambda>c. categoryConceptKey (cg_name c)) ` set (categories (contents s))" unfolding e[symmetric] using d by (rule imageI)
    with n show False by (simp add: missing_categories_def)
  qed
qed

lemma sound_defaults:
  assumes "ensureDefaultServiceCategories ordered s = Inr (r, t)" "\<And>cs. set (ordered cs) = set cs" "categories_sound s \<or> categories (contents s) = []"
  shows "categories_sound t" "\<exists>rs. categories (contents t) = categories (contents s) @ rs"
proof -
  have pre: "pre_sound s" using assms(3) by (auto simp: sound_pre) (simp add: pre_sound_def fallback_rows_def concepts_apart_def)
  from assms(1) obtain s1 where 1: "for_each add_category (missing_categories s) s = Inr ((), s1)"
    and rest: "(case List.find (\<lambda>c. isFallbackCategory (cg_name c) \<and> \<not> cg_isActive c) (ordered (categories (contents s))) of None \<Rightarrow> ret ()
       | Some c \<Rightarrow> upd_contents (categories_update (map_rows (\<lambda>d. cg_id d = cg_id c) (\<lambda>d. d\<lparr>cg_isActive := True\<rparr>)))) s1 = Inr ((), t)"
    by (auto simp: ensureDefaultServiceCategories_def tx_iff Let_def)
  have "List.find (\<lambda>c. isFallbackCategory (cg_name c) \<and> \<not> cg_isActive c) (ordered (categories (contents s))) = None"
    using assms(2) pre by (auto simp: find_None_iff pre_sound_def Let_def fallback_rows_def)
  with rest have t: "t = s1" by (simp add: ret_Inr)
  from add_each[OF 1 pre missing_apart] obtain rs where rs: "pre_sound t" "categories (contents t) = categories (contents s) @ rs"
    "map cg_name rs = missing_categories s" by (auto simp: t)
  then show "\<exists>rs. categories (contents t) = categories (contents s) @ rs" by blast
  show "categories_sound t"
    using assms(3)
  proof
    assume "categories_sound s"
    then show ?thesis using rs(1) unfolding sound_pre rs(2) by (auto simp: fallback_rows_def)
  next
    assume "categories (contents s) = []"
    then have "other_services \<in> set (map cg_name rs)" using default_fallback unfolding rs(3) by (simp add: missing_categories_def)
    then obtain x where x: "x \<in> set rs" "cg_name x = other_services" by auto
    then have "x \<in> set (fallback_rows (categories (contents t)))" by (simp add: fallback_rows_def rs(2) fallback_other)
    then show ?thesis using rs(1) unfolding sound_pre by auto
  qed
qed

lemma defaults_run: "\<exists>r t. ensureDefaultServiceCategories ordered s = Inr (r, t)"
proof -
  obtain s1 where "for_each add_category (missing_categories s) s = Inr ((), s1)" using add_each_runs by blast
  then show ?thesis
    by (auto simp: ensureDefaultServiceCategories_def tx_bind_def tx_seq_def query_def Let_def ret_def upd_contents_def modify_def split: option.splits)
qed

subsection \<open>Every reachable catalogue\<close>

text \<open>What writes categories: the handlers of the administrators and the seeding. \<open>ordered\<close> is any order of the rows.\<close>

inductive category_step :: "db \<Rightarrow> db \<Rightarrow> bool" where
  updated: "updateManagedCategory i a name act s = (r, t) \<Longrightarrow> category_step s t"
| created: "createManagedCategory a name s = (r, t) \<Longrightarrow> category_step s t"
| seeded: "ensureDefaultServiceCategories ordered s = Inr (r, t) \<Longrightarrow> (\<And>cs. set (ordered cs) = set cs) \<Longrightarrow> category_step s t"

text \<open>The catalogue starts empty and is seeded; in between, other operations leave the categories alone.\<close>

inductive catalogue_reachable :: "db \<Rightarrow> bool" where
  first: "categories (contents s) = [] \<Longrightarrow> ensureDefaultServiceCategories ordered s = Inr (r, t) \<Longrightarrow> (\<And>cs. set (ordered cs) = set cs) \<Longrightarrow>
    catalogue_reachable t"
| step: "catalogue_reachable s \<Longrightarrow> category_step s t \<Longrightarrow> catalogue_reachable t"
| other: "catalogue_reachable s \<Longrightarrow> categories (contents t) = categories (contents s) \<Longrightarrow> nextId s \<le> nextId t \<Longrightarrow> catalogue_reachable t"

lemma sound_other: "categories_sound s \<Longrightarrow> categories (contents t) = categories (contents s) \<Longrightarrow> nextId s \<le> nextId t \<Longrightarrow> categories_sound t"
  by (force simp: sound_parts)

lemma category_process:
  assumes "p_bind (transact m) (\<lambda>c. p_seq (transact (e c)) (p_ret c)) s = (r, t)" "\<And>c x u v. e c u = Inr (x, v) \<Longrightarrow> contents v = contents u \<and> nextId v = nextId u"
  obtains "t = s" | c u where "m s = Inr (c, u)" "contents t = contents u" "nextId t = nextId u"
proof (cases "m s")
  case (Inl x)
  then show thesis using assms(1) that(1) by (simp add: p_bind_def transact_def)
next
  case (Inr cu)
  obtain c u where c: "m s = Inr (c, u)" using Inr by (cases cu) simp
  show thesis
  proof (cases "e c u")
    case (Inl x)
    then show thesis using assms(1) c by (intro that(2)[OF c]) (auto simp: p_bind_def p_seq_def transact_def)
  next
    case (Inr xv)
    then obtain x v where "e c u = Inr (x, v)" by (cases xv) simp
    then show thesis using assms c by (intro that(2)[OF c]) (auto simp: p_bind_def p_seq_def transact_def p_ret_def)
  qed
qed

lemma step_sound:
  assumes "category_step s t" "categories_sound s"
  shows "categories_sound t \<and> (\<forall>j. category_active j s \<longrightarrow> in_use j s \<longrightarrow> category_active j t)"
  using assms(1)
proof cases
  case (updated i a name act r)
  have "contents v = contents u \<and> nextId v = nextId u"
    if "tx_seq (emit REveryone ''COMMUNITY_CATEGORIES_CHANGED'' []) (emit REveryone ''SERVICE_LISTINGS_CHANGED'' []) u = Inr (x, v)" for x u v
    using that by (auto simp: emit_def tx_iff)
  with updated show ?thesis unfolding updateManagedCategory_def
  proof (rule category_process)
    fix c u assume "update_category i a name act s = Inr (c, u)" "contents t = contents u" "nextId t = nextId u"
    then show ?thesis using sound_update[OF _ assms(2)] sound_other[of u t] by (auto simp: category_active_def find_category_def)
  next
    assume "t = s"
    then show ?thesis using assms(2) by simp
  qed
next
  case (created a name r)
  have "contents v = contents u \<and> nextId v = nextId u" if "emit REveryone ''COMMUNITY_CATEGORIES_CHANGED'' [] u = Inr (x, v)" for x u v
    using that by (auto simp: emit_def tx_iff)
  with created show ?thesis unfolding createManagedCategory_def
  proof (rule category_process)
    fix c u assume u: "create_category a (canonicalCategoryName name) s = Inr (c, u)" "contents t = contents u" "nextId t = nextId u"
    then obtain rs where "categories (contents t) = categories (contents s) @ rs" using sound_create(2) by metis
    then show ?thesis using sound_create(1)[OF u(1) assms(2)] sound_other[of u t] u active_added[of t s rs] by simp
  next
    assume "t = s"
    then show ?thesis using assms(2) by simp
  qed
next
  case (seeded ordered r)
  then show ?thesis using sound_defaults[OF seeded(1) _ disjI1[OF assms(2)]] active_added by blast
qed

lemma reachable_sound: "catalogue_reachable s \<Longrightarrow> categories_sound s"
proof (induction rule: catalogue_reachable.induct)
  case (first s ordered r t)
  then show ?case using sound_defaults(1)[OF first(2) _ disjI2] by blast
qed (use step_sound sound_other in blast)+

text \<open>C28: The catalogue never offers one kind of work twice: in every state that seeding, creating, renaming, pausing and resuming
  categories can reach, in any order, two active categories have different concepts (the official name behind
  an alias, whatever the case, spacing and punctuation), and there is an active fallback category. No such
  operation takes an active category away while a listing or an open request depends on it.\<close>

theorem categories_distinct:
  assumes "catalogue_reachable s"
  shows "(\<forall>c \<in> set (categories (contents s)). \<forall>d \<in> set (categories (contents s)). cg_isActive c \<longrightarrow> cg_isActive d \<longrightarrow> c \<noteq> d \<longrightarrow>
      categoryConceptKey (cg_name c) \<noteq> categoryConceptKey (cg_name d)) \<and>
    (\<exists>c \<in> set (categories (contents s)). isFallbackCategory (cg_name c) \<and> cg_isActive c) \<and>
    (\<forall>t j. category_step s t \<longrightarrow> category_active j s \<longrightarrow> in_use j s \<longrightarrow> category_active j t)"
proof (intro conjI)
  have wf: "categories_sound s" by (rule reachable_sound[OF assms])
  show "\<forall>c \<in> set (categories (contents s)). \<forall>d \<in> set (categories (contents s)). cg_isActive c \<longrightarrow> cg_isActive d \<longrightarrow> c \<noteq> d \<longrightarrow>
      categoryConceptKey (cg_name c) \<noteq> categoryConceptKey (cg_name d)"
    using wf unfolding sound_parts concepts_apart_def by (metis distinct_map inj_onD)
  show "\<exists>c \<in> set (categories (contents s)). isFallbackCategory (cg_name c) \<and> cg_isActive c"
    using wf by (auto simp: sound_parts fallback_rows_def filter_empty_conv)
  show "\<forall>t j. category_step s t \<longrightarrow> category_active j s \<longrightarrow> in_use j s \<longrightarrow> category_active j t" using step_sound wf by blast
qed

theorem categories_distinct_witness:
  "\<exists>r t. ensureDefaultServiceCategories id empty_db = Inr (r, t) \<and> (\<exists>c \<in> set (categories (contents t)). isFallbackCategory (cg_name c) \<and> cg_isActive c)"
proof -
  obtain r t where run: "ensureDefaultServiceCategories id empty_db = Inr (r, t)" using defaults_run by blast
  have "catalogue_reachable t" by (rule catalogue_reachable.first[OF _ run]) (simp_all add: empty_db_def)
  from categories_distinct[OF this] run show ?thesis by blast
qed

end
