(* ===== verification/Spec2Isabelle.thy ===== *)
theory Spec2Isabelle
  imports SH_Machine SH_Credentials SH_Catalog SH_Saved SH_Inquiries SH_Messages SH_Residents SH_OwnRequests SH_Community SH_Categories
begin

text \<open>
  Verification of the core of the ServiceHub backend: who may sign in, what is published, how a seeker and a
  provider agree on work, pay for it, do it, cancel or dispute it, and how the money of a booking ends in
  exactly one place.

  \<^bold>\<open>The model.\<close> The program is a set of services over one PostgreSQL database. SH_Model has the tables of
  prisma/schema.prisma as lists of records in one record \<open>db\<close> (a table is in the order of creation), the
  columns that the modelled code reads or writes, and the socket messages sent so far (\<open>outbox\<close>). One
  prisma \<open>$transaction\<close> is one \<open>dbtx\<close>: a function from the state to an error, or to a value and the new
  state (SH_Prelude). A transaction that throws leaves the state as it was; the advisory locks and row
  locks of the code are this atomicity, so transactions run one after the other in any order. A handler
  that commits several transactions, with calls of the payment gateway in between, is a \<open>process\<close>
  (SH_Process): an error of a later transaction leaves what the earlier ones have written.

  Every \<open>throw\<close> is a value of \<open>error\<close> (\<open>Http status code\<close>, where the second part is the error code, or the
  message where the code gives none). The clock is an argument \<open>now\<close>, one instant per operation. The
  PayMongo gateway is not under src/: its answers are arguments (\<open>intent\<close>, \<open>answer\<close>), or one function
  from requests to replies in SH_Gateway. So are SHA-256, bcrypt and the signed tokens (\<open>crypto\<close> in SH_Auth),
  the answers of Google, of the e-mail provider and of the storage of files (\<open>privateUrl\<close>), the order in which the
  database sorts names (\<open>ordered\<close>), and the random strings that the code draws. Amounts are rationals, instants are milliseconds, identifiers
  are numbers drawn from \<open>nextId\<close>; identifiers composed from a template are datatypes.

  \<^bold>\<open>The components\<close>, in the order of their theories:
  \<^item> SH_Pricing: src/src/services/payment-commission.ts, bookings/direct-listing-pricing.ts. The commission
    and the net amount add up to the price, on whole centavos.
  \<^item> SH_Accounts: permissions and eligibility (utils/permissions.ts, account-lifecycle.service.ts,
    offer-eligibility.ts, request-payment-methods.ts).
  \<^item> SH_Calendar, SH_Membership: subscription-policy.ts and provider-membership.service.ts. Calendar months,
    plans, trials, and the reminder job, whose cursor loop returns (fuel: one more than the number of users,
    since every page moves the cursor past at least one of them).
  \<^item> SH_Arrangement: where the work is done, and what the public may see of it (lib/service-arrangement.ts,
    lib/proximity.ts).
  \<^item> SH_Queue: queue.service.ts, bookings/queue-metrics.ts, bookings/waitlist.service.ts. Recalculation gives
    every provider a compact line, first come first served.
  \<^item> SH_Lifecycle: progress events, notices, guards and restoration (booking-progress.service.ts,
    bookings/lifecycle-events.ts, case-resolution.service.ts and others).
  \<^item> SH_Trust: trust.service.ts and trust-policy.service.ts. Every score is the balance of its events.
  \<^item> SH_Process, SH_Work: processes, and \<open>work_wf\<close>, the invariant of bookings and queue entries.
  \<^item> SH_Refund: payment-refund.service.ts, a full refund through the gateway, resumable.
  \<^item> SH_Bookings: bookings/direct-bookings.service.ts. SH_Jobs: bookings/provider-operations.service.ts and
    bookings/completion.service.ts: start, mark complete, settle, dispute.
  \<^item> SH_Offers: offers.service.ts. SH_Gateway: paymongo.service.ts.
  \<^item> SH_Payments, SH_Capture, SH_Checkout: payment-attempt.service.ts. A captured payment makes one booking or
    is due back, never both.
  \<^item> SH_Resolution: admin-resolution-operation.service.ts, the durable record of a decision, and \<open>ops_rel\<close>,
    what every transaction keeps of these records. SH_Cancellation, SH_Cancelled, SH_OneCase:
    cancellation.service.ts and cancellation-report-finalization.service.ts.
  \<^item> SH_Decision: the locale \<open>decision\<close>, the shape that every administrator decision shares (claim, settle,
    close), interpreted on cancellations here, on completion reviews in SH_Escalation
    (completion-escalation.service.ts), on bookings in SH_AdminBooking (admin-booking-resolution.service.ts)
    and on reports in SH_Reports (admin-report.service.ts, report-decision-policy.ts,
    report-penalty-policy.ts, safety-report.service.ts).
  \<^item> SH_Money: the abstract machine of the money of one booking (unpaid, held, paid out, returned) and
    \<open>money_rel\<close>, what it means for the database to follow it. SH_Paths: every transaction follows it.
    SH_Machine: the operations as one step relation, and the properties that hold in every reachable state
    and along every run.
  \<^item> SH_Subscription: subscriptions.service.ts, the paid membership of a provider: quotes, checkout, finalisation,
    refund. SH_Webhook: controllers/payments.controller.ts, the deliveries of the gateway, each processed once.
  \<^item> SH_Auth, SH_Password: src/src/services/auth/ (registration, sign-in, sessions, links, passwords, profile,
    wallet number) and middlewares/auth.middleware.ts (the guards of the routes). SH_Identity: accounts,
    sessions and links stay unique. SH_SignIn: every operation of signing in as one step relation, and
    sessions only for accounts that may sign in. SH_Credentials: an account without a password, password reset,
    refreshing, resending, authenticating. SH_Text: the string operations they share. SH_Runs: how processes
    run, what a caught error keeps and the parts of a successful run.
  \<^item> SH_Content: content-moderation.service.ts and lib/category-catalog.ts, the policy on published text. The two
    lists of abusive words are a parameter (\<open>lexicon\<close>); text is ASCII, so NFKC normalisation is the identity.
    SH_Photos: listing-photos.service.ts.
  \<^item> SH_Listings: services.service.ts, from publishing a service to what the public sees of it. SH_Catalog: its
    steps keep every provider within the plan, and a published listing is what was entered.
  \<^item> SH_Requests: requests.service.ts with lib/request-deletion.ts and lib/request-archive.ts. SH_OwnRequests: a
    request is deleted only when nothing hangs on it. SH_Inquiries: listing-inquiries.service.ts.
  \<^item> SH_Messages: messages.service.ts. SH_Verification: verification.service.ts, the residency documents;
    SH_Residents: a submission is decided once.
  \<^item> SH_Moderation: public-content-actions.service.ts, admin-moderation.service.ts, category-catalog.service.ts and
    content-moderation-cases.service.ts. SH_Categories: the reachable catalogues of categories name no work twice.
    SH_Community: reading messages, and what cannot be reported. SH_Saved: saved-listings.service.ts.

  \<^bold>\<open>How the proofs are organised.\<close> \<open>tx_iff\<close> decomposes a successful run of a transaction into its parts.
  \<open>keeps\<close> and \<open>p_keeps\<close> state that a transaction or a process preserves a property of the state
  (\<open>tx_pres\<close>, \<open>p_pres\<close>). The locale \<open>step_rel\<close> carries reflexive and transitive relations between the
  states before and after through every combinator; it is interpreted on \<open>quiet\<close> (only notices,
  progress, audit), \<open>calm\<close> (the line is untouched), \<open>still\<close>, \<open>aside\<close>, \<open>ops\<close>,
  \<open>desk\<close> (no booking is written), \<open>shelf\<close> and \<open>stock\<close> (the catalogue of listings) and \<open>money\<close>. \<open>open_cases\<close> states
  that a booking has at most one active case of a kind and is interpreted on the cancellation requests.

  \<^bold>\<open>Not modelled\<close>: the controllers other than the webhook and the routes (HTTP glue), e-mail, captcha, AI
  and the storage of files (libraries and remote services), the socket server beyond what is sent, the lists of
  conversations, the decision of content cases, ban appeals and trust cases, the schema migrations and
  scripts, floating-point distances, raw SQL statistics, and the texts of notices. The
  deletion of an account's data removes its bookings and is not a step of the machines.
\<close>

end
